(* ===== verification/Prelude.thy ===== *)
theory Prelude
  imports Main "HOL-Library.Word" "HOL-Library.Monad_Syntax"
begin

text \<open>
  Shared vocabulary of the development: machine types, C strings, the status
  object the functions report errors through, the faults a computation can end
  in, and the decimal conversions of the C library that the sources call.

  Bytes are HOL characters (\<^typ>\<open>char\<close> is an 8-bit type), so that a C string, a
  message buffer and a payload block share one representation. Integers keep
  their C width as words: \<open>u64\<close> for \<open>uint64_t\<close>, \<open>size_t\<close> and the bits of an
  \<open>int64_t\<close> or of a \<open>double\<close>, \<open>u32\<close> and \<open>u16\<close> for the narrower ones. The model
  is that of an LP64, little-endian target (Linux on x86_64, the platform the
  README recommends).
\<close>

unbundle bit_operations_syntax

type_synonym byte = char
type_synonym u8 = "8 word"
type_synonym u16 = "16 word"
type_synonym u32 = "32 word"
type_synonym u64 = "64 word"

named_theorems status_simps \<open>facts about the status object\<close>
named_theorems note_simps \<open>facts that evaluate operations on notes\<close>
named_theorems wire_simps \<open>facts about packing and unpacking one field\<close>
named_theorems run_intros \<open>introduction rules for runs that return\<close>
named_theorems list_step_simps \<open>facts that evaluate the worker list operations\<close>

section \<open>Undefined behaviour and faults\<close>

text \<open>
  A function of the model that can run into undefined behaviour of C (a null or
  wild pointer dereferenced, a write past the end of a block, a call through a
  null function pointer) returns an option: \<^term>\<open>None\<close> is the undefined run.
  Loops that wait for another process, and code that takes the mutex, can fail
  to return in two more ways, so they return a sum with a \<open>fault\<close> on the left.
\<close>

type_synonym 'a undef = "'a option"

datatype fault = Undefined | Deadlock | Out_of_fuel

type_synonym 'a run = "fault + 'a"

definition run_bind :: "'a run \<Rightarrow> ('a \<Rightarrow> 'b run) \<Rightarrow> 'b run" where
  "run_bind m f = (case m of Inl e \<Rightarrow> Inl e | Inr x \<Rightarrow> f x)"

definition of_undef :: "'a undef \<Rightarrow> 'a run" where
  "of_undef m = (case m of None \<Rightarrow> Inl Undefined | Some x \<Rightarrow> Inr x)"

lemma run_bind_simps [simp]:
  "run_bind (Inl e) f = Inl e"
  "run_bind (Inr x) f = f x"
  by (simp_all add: run_bind_def)

lemma of_undef_simps [simp]:
  "of_undef None = Inl Undefined"
  "of_undef (Some x) = Inr x"
  by (simp_all add: of_undef_def)

lemma run_bind_eq_Inl:
  "run_bind m f = Inl e \<longleftrightarrow> m = Inl e \<or> (\<exists>x. m = Inr x \<and> f x = Inl e)"
  by (cases m) auto

lemma run_bind_eq_Inr:
  "run_bind m f = Inr y \<longleftrightarrow> (\<exists>x. m = Inr x \<and> f x = Inr y)"
  by (cases m) auto

text \<open>A run that did not end for lack of fuel.\<close>

definition returns :: "'a run \<Rightarrow> bool" where
  "returns m = (m \<noteq> Inl Out_of_fuel)"

lemma returns_simps [simp]:
  "returns (Inr x)" "returns (Inl Undefined)" "returns (Inl Deadlock)" "\<not> returns (Inl Out_of_fuel)"
  "returns (of_undef u)"
  by (simp_all add: returns_def of_undef_def split: option.splits)

lemma returns_bind [run_intros]:
  "returns m \<Longrightarrow> (\<And>x. m = Inr x \<Longrightarrow> returns (f x)) \<Longrightarrow> returns (run_bind m f)"
  by (cases m) (auto simp: returns_def)

section \<open>Words\<close>

lemma unat_add_one_less:
  fixes k n :: "'a::len word"
  assumes "k < n"
  shows "unat (k + 1) = Suc (unat k)"
proof -
  have "Suc (unat k) \<le> unat n" using assms by (simp add: word_less_nat_alt)
  also have "\<dots> < 2 ^ LENGTH('a)" by (rule unsigned_less)
  finally show ?thesis by (simp add: unat_word_ariths unat_1)
qed

text \<open>Conversions of a number that fits.\<close>

lemma sint_small: "n < 2 ^ 31 \<Longrightarrow> sint (word_of_nat n :: u32) = int n"
  by (simp add: signed_of_nat signed_take_bit_int_eq_self)

lemma scast_small:
  assumes "n < 2 ^ 31"
  shows "(scast (word_of_nat n :: u32) :: u64) = word_of_nat n"
proof -
  have "(scast (word_of_nat n :: u32) :: u64) = word_of_int (sint (word_of_nat n :: u32))" by (simp only: scast_eq)
  also have "\<dots> = word_of_int (int n)" by (simp only: sint_small [OF assms])
  finally show ?thesis by simp
qed

lemma ucast_narrow: "(ucast (word_of_nat n :: u32) :: u16) = word_of_nat n"
  by (rule bit_word_eqI) (simp add: bit_ucast_iff bit_of_nat_iff)

section \<open>The status object\<close>

text \<open>
  \<open>gru_status_t\<close> carries the outcome of the last operation that reported one.
  The model records which call was the last to touch it: a fresh or reset
  status, or the code and message given to \<open>gru_status_set\<close>. A message is the
  format string with its \<open>%s\<close> arguments expanded; numeric conversions are left
  as written.
\<close>

datatype gru_code = GRU_SUCCESS | GRU_FAILURE

datatype gru_status = St_New | St_Set gru_code string

fun gru_status_success :: "gru_status \<Rightarrow> bool" where
  "gru_status_success St_New = True"
| "gru_status_success (St_Set c m) = (c = GRU_SUCCESS)"

definition gru_status_error :: "gru_status \<Rightarrow> bool" where
  "gru_status_error st = (\<not> gru_status_success st)"

fun gru_status_message :: "gru_status \<Rightarrow> string" where
  "gru_status_message St_New = []"
| "gru_status_message (St_Set c m) = m"

lemma gru_status_failure [simp, status_simps]:
  "\<not> gru_status_success (St_Set GRU_FAILURE m)"
  by simp

section \<open>Memory from \<open>gru_alloc\<close>\<close>

text \<open>
  \<open>gru_alloc (size, status)\<close> belongs to the gru library. It is a parameter of the
  model: for a block size, either \<^term>\<open>None\<close> (the call returns a zeroed block of
  that size) or \<^term>\<open>Some msg\<close> (it returns a null pointer after putting \<open>msg\<close> into
  the status).
\<close>

type_synonym gru_allocator = "nat \<Rightarrow> string option"

definition alloc_fail :: "string \<Rightarrow> gru_status" where
  "alloc_fail msg = St_Set GRU_FAILURE msg"

lemma alloc_fail_not_success [simp, status_simps]:
  "\<not> gru_status_success (alloc_fail msg)"
  by (simp add: alloc_fail_def)

section \<open>Time\<close>

text \<open>\<open>gru_timestamp_t\<close> is a \<open>struct timeval\<close>: signed seconds and microseconds.\<close>

record timestamp =
  tv_sec :: int
  tv_usec :: int

record gru_duration =
  dur_start :: timestamp
  dur_end :: timestamp

definition zero_ts :: timestamp where
  "zero_ts = \<lparr>tv_sec = 0, tv_usec = 0\<rparr>"

definition zero_duration :: gru_duration where
  "zero_duration = \<lparr>dur_start = zero_ts, dur_end = zero_ts\<rparr>"

definition ts_wf :: "timestamp \<Rightarrow> bool" where
  "ts_wf t = (0 \<le> tv_usec t \<and> tv_usec t < 1000000)"

definition ts_micros :: "timestamp \<Rightarrow> int" where
  "ts_micros t = tv_sec t * 1000000 + tv_usec t"

section \<open>C strings\<close>

definition NUL :: byte where
  "NUL = CHR 0x00"

definition no_nul :: "string \<Rightarrow> bool" where
  "no_nul s = (NUL \<notin> set s)"

text \<open>What a C string function reads from a buffer: the bytes up to the first NUL.\<close>

definition cstr :: "byte list \<Rightarrow> string" where
  "cstr bs = takeWhile (\<lambda>b. b \<noteq> NUL) bs"

lemma no_nul_cstr [simp]: "no_nul (cstr bs)"
  by (auto simp: no_nul_def cstr_def dest: set_takeWhileD)

lemma cstr_no_nul [simp]: "no_nul s \<Longrightarrow> cstr s = s"
  by (auto simp: no_nul_def cstr_def takeWhile_eq_all_conv)

lemma cstr_append_NUL [simp]: "no_nul s \<Longrightarrow> cstr (s @ NUL # t) = s"
  unfolding cstr_def no_nul_def by (subst takeWhile_append2) auto

lemma length_cstr_le: "length (cstr bs) \<le> length bs"
  by (simp add: cstr_def length_takeWhile_le)

text \<open>The codes a program exits with.\<close>

definition EXIT_SUCCESS :: int where "EXIT_SUCCESS = 0"
definition EXIT_FAILURE :: int where "EXIT_FAILURE = 1"

lemmas exit_defs = EXIT_SUCCESS_def EXIT_FAILURE_def

section \<open>Byte sequences and integers\<close>

text \<open>Big-endian (network order, as msgpack stores integers) and little-endian
  (as the target stores them in memory).\<close>

fun be_bytes :: "nat \<Rightarrow> nat \<Rightarrow> byte list" where
  "be_bytes 0 n = []"
| "be_bytes (Suc k) n = be_bytes k (n div 256) @ [char_of n]"

definition be_val :: "byte list \<Rightarrow> nat" where
  "be_val bs = foldl (\<lambda>a b. a * 256 + of_char b) 0 bs"

fun le_bytes :: "nat \<Rightarrow> nat \<Rightarrow> byte list" where
  "le_bytes 0 n = []"
| "le_bytes (Suc k) n = char_of n # le_bytes k (n div 256)"

fun le_val :: "byte list \<Rightarrow> nat" where
  "le_val [] = 0"
| "le_val (b # bs) = of_char b + 256 * le_val bs"

lemma length_be_bytes [simp]: "length (be_bytes k n) = k"
  by (induction k arbitrary: n) auto

lemma length_le_bytes [simp]: "length (le_bytes k n) = k"
  by (induction k arbitrary: n) auto

lemma be_val_be_bytes: "n < 256 ^ k \<Longrightarrow> be_val (be_bytes k n) = n"
proof (induction k arbitrary: n)
  case 0
  then show ?case by (simp add: be_val_def)
next
  case (Suc k)
  from Suc.prems have "n div 256 < 256 ^ k"
    by (simp add: less_mult_imp_div_less mult.commute)
  then have "be_val (be_bytes k (n div 256)) = n div 256" by (rule Suc.IH)
  then show ?case by (simp add: be_val_def)
qed

lemma le_val_le_bytes: "n < 256 ^ k \<Longrightarrow> le_val (le_bytes k n) = n"
proof (induction k arbitrary: n)
  case 0
  then show ?case by simp
next
  case (Suc k)
  from Suc.prems have "n div 256 < 256 ^ k"
    by (simp add: less_mult_imp_div_less mult.commute)
  then show ?case by (simp add: Suc.IH)
qed

declare be_bytes.simps [simp del]

lemma unat_word_of_nat:
  "n < 2 ^ LENGTH('a) \<Longrightarrow> unat (word_of_nat n :: 'a :: len word) = n"
  by (simp add: unsigned_of_nat take_bit_nat_eq_self)

lemma unat_word_of_nat64: "n < 2 ^ 64 \<Longrightarrow> unat (word_of_nat n :: u64) = n"
  by (rule unat_word_of_nat) simp

lemma unat_word_of_nat32: "n < 2 ^ 32 \<Longrightarrow> unat (word_of_nat n :: u32) = n"
  by (rule unat_word_of_nat) simp

text \<open>A write of \<open>w\<close> at the start of a block \<open>b\<close>, which must be long enough.\<close>

definition overlay :: "byte list \<Rightarrow> byte list \<Rightarrow> byte list undef" where
  "overlay w b = (if length w \<le> length b then Some (w @ drop (length w) b) else None)"

lemma overlay_length: "overlay w b = Some r \<Longrightarrow> length r = length b"
  by (auto simp: overlay_def split: if_splits)

section \<open>Decimal numbers\<close>

text \<open>Printing with \<open>%d\<close>, and reading with \<open>strtol\<close> and \<open>atoi\<close> of the C library: blanks, an
  optional sign and the digits that follow; a \<open>long\<close> saturates, and \<open>atoi\<close> keeps its
  low 32 bits (as glibc does).\<close>

fun nat_dec :: "nat \<Rightarrow> string" where
  "nat_dec n = (if n < 10 then [char_of (48 + n)] else nat_dec (n div 10) @ [char_of (48 + n mod 10)])"

declare nat_dec.simps [simp del]

definition int_dec :: "int \<Rightarrow> string" where
  "int_dec i = (if i < 0 then CHR ''-'' # nat_dec (nat (- i)) else nat_dec (nat i))"

definition is_digit :: "byte \<Rightarrow> bool" where
  "is_digit c = (48 \<le> (of_char c :: nat) \<and> (of_char c :: nat) \<le> 57)"

definition is_space :: "byte \<Rightarrow> bool" where
  "is_space c = ((of_char c :: nat) = 32 \<or> 9 \<le> (of_char c :: nat) \<and> (of_char c :: nat) \<le> 13)"

definition dec_val :: "string \<Rightarrow> nat" where
  "dec_val s = foldl (\<lambda>a c. a * 10 + (of_char c - 48)) 0 (takeWhile is_digit s)"

definition dec_sint :: "string \<Rightarrow> int" where
  "dec_sint s = (case dropWhile is_space s of
     [] \<Rightarrow> 0
   | c # r \<Rightarrow> if c = CHR ''-'' then - int (dec_val r) else if c = CHR ''+'' then int (dec_val r)
             else int (dec_val (c # r)))"

definition strtol :: "string \<Rightarrow> int" where
  "strtol s = max (- (2 ^ 63)) (min (2 ^ 63 - 1) (dec_sint s))"

definition atoi :: "string \<Rightarrow> u32" where
  "atoi s = word_of_int (strtol s)"

definition atol :: "string \<Rightarrow> u64" where
  "atol s = word_of_int (strtol s)"

lemma of_char_digit: "d < 10 \<Longrightarrow> (of_char (char_of (48 + d) :: char) :: nat) = 48 + d"
  by simp

lemma nat_dec_digits: "c \<in> set (nat_dec n) \<Longrightarrow> is_digit c"
proof (induction n rule: nat_dec.induct)
  case (1 n)
  have "is_digit (char_of (48 + d))" if "d < 10" for d :: nat
    using of_char_digit [OF that] that by (simp add: is_digit_def)
  with 1 show ?case by (subst (asm) nat_dec.simps) (auto split: if_splits)
qed

lemma nat_dec_val: "dec_val (nat_dec n) = n"
proof -
  have "foldl (\<lambda>a c. a * 10 + (of_char c - 48)) 0 (nat_dec n) = n"
  proof (induction n rule: nat_dec.induct)
    case (1 n)
    show ?case
    proof (cases "n < 10")
      case True
      then show ?thesis using of_char_digit [of n] by (simp add: nat_dec.simps)
    next
      case False
      have "n mod 10 < 10" by simp
      from of_char_digit [OF this] False 1 show ?thesis by (simp add: nat_dec.simps [of n])
    qed
  qed
  moreover have "takeWhile is_digit (nat_dec n) = nat_dec n"
    using nat_dec_digits by (simp add: takeWhile_eq_all_conv)
  ultimately show ?thesis by (simp only: dec_val_def)
qed

lemma nat_dec_not_Nil [simp]: "nat_dec n \<noteq> []"
  by (subst nat_dec.simps) simp

lemma dec_sint_nat_dec: "dec_sint (nat_dec n) = int n"
proof (cases "nat_dec n")
  case (Cons c r)
  have "is_digit c" using nat_dec_digits [of c n] Cons by simp
  then have "\<not> is_space c" "c \<noteq> CHR ''-''" "c \<noteq> CHR ''+''"
    by (auto simp: is_digit_def is_space_def)
  with Cons nat_dec_val [of n] show ?thesis by (simp add: dec_sint_def)
qed simp

lemma atoi_nat_dec: "n < 2 ^ 31 \<Longrightarrow> atoi (nat_dec n) = word_of_nat n"
  by (simp add: atoi_def strtol_def dec_sint_nat_dec)

lemma atol_nat_dec: "n < 2 ^ 63 \<Longrightarrow> atol (nat_dec n) = word_of_nat n"
  by (simp add: atol_def strtol_def dec_sint_nat_dec)

end
