(* ===== verification/Content.thy ===== *)
theory Content
  imports Prelude
begin

text \<open>
  The message content container of \<open>src/common/msg_content_data.c\<close>: a block of
  memory with a capacity, the size of the data in it and a creation time. Every
  operation of the file is here; the invariant \<open>content_wf\<close> says that the block
  has the recorded capacity and that the size stays within it.
\<close>

section \<open>State\<close>

text \<open>\<open>mc_data\<close> is the block behind the \<open>data\<close> pointer, \<^term>\<open>None\<close> for a null pointer.\<close>

record msg_content =
  mc_data :: "byte list option"
  mc_capacity :: u64
  mc_size :: u64
  mc_created :: timestamp

definition zero_content :: msg_content where
  "zero_content = \<lparr>mc_data = None, mc_capacity = 0, mc_size = 0, mc_created = zero_ts\<rparr>"

definition content_wf :: "msg_content \<Rightarrow> bool" where
  "content_wf c = ((case mc_data c of
       None \<Rightarrow> mc_capacity c = 0
     | Some d \<Rightarrow> length d = unat (mc_capacity c)) \<and> mc_size c \<le> mc_capacity c)"

text \<open>The bytes a reader given \<open>data\<close> and \<open>size\<close> may look at; undefined when the
  size exceeds the block.\<close>

definition content_bytes :: "msg_content \<Rightarrow> byte list undef" where
  "content_bytes c = (case mc_data c of
     None \<Rightarrow> (if mc_size c = 0 then Some [] else None)
   | Some d \<Rightarrow> (if unat (mc_size c) \<le> length d then Some (take (unat (mc_size c)) d) else None))"

section \<open>Operations\<close>

definition msg_content_data_release :: "msg_content \<Rightarrow> msg_content" where
  "msg_content_data_release c = c\<lparr>mc_data := None, mc_capacity := 0, mc_size := 0\<rparr>"

definition zero_block :: "nat \<Rightarrow> byte list" where
  "zero_block n = replicate n NUL"

text \<open>\<open>msg_content_data_new\<close>: the structure and then its block (40 is the size of
  the structure on the target).\<close>

definition msg_content_data_new ::
    "gru_allocator \<Rightarrow> u64 \<Rightarrow> gru_status \<Rightarrow> msg_content option \<times> gru_status" where
  "msg_content_data_new al sz st =
    (case al 40 of
       Some m \<Rightarrow> (None, alloc_fail m)
     | None \<Rightarrow>
        (case al (unat sz) of
           Some m \<Rightarrow> (None, alloc_fail m)
         | None \<Rightarrow> (Some (zero_content\<lparr>mc_data := Some (zero_block (unat sz)), mc_capacity := sz\<rparr>), st)))"

definition msg_content_data_init ::
    "gru_allocator \<Rightarrow> u64 \<Rightarrow> gru_status \<Rightarrow> msg_content \<Rightarrow> msg_content \<times> gru_status" where
  "msg_content_data_init al sz st c =
    (let c = msg_content_data_release c in
     case al (unat sz) of
       Some m \<Rightarrow> (c\<lparr>mc_data := None\<rparr>, alloc_fail m)
     | None \<Rightarrow> (c\<lparr>mc_data := Some (zero_block (unat sz)), mc_capacity := sz\<rparr>, st))"

text \<open>\<open>bzero\<close> over the capacity, whatever the pointer is.\<close>

definition msg_content_data_reset :: "msg_content \<Rightarrow> msg_content undef" where
  "msg_content_data_reset c =
    (case mc_data c of
       None \<Rightarrow> (if mc_capacity c = 0 then Some (c\<lparr>mc_size := 0\<rparr>) else None)
     | Some d \<Rightarrow> (case overlay (zero_block (unat (mc_capacity c))) d of
          None \<Rightarrow> None
        | Some d' \<Rightarrow> Some (c\<lparr>mc_data := Some d', mc_size := 0\<rparr>)))"

definition msg_content_data_destroy :: "msg_content option \<Rightarrow> msg_content option" where
  "msg_content_data_destroy p = None"

text \<open>The downward loop of \<open>msg_content_data_fill\<close>: from index \<open>i\<close> to 1.\<close>

fun fill_loop :: "nat \<Rightarrow> byte \<Rightarrow> byte list \<Rightarrow> byte list undef" where
  "fill_loop 0 v d = Some d"
| "fill_loop (Suc i) v d =
     (if Suc i < length d then fill_loop i v (d[Suc i := v]) else None)"

definition msg_content_data_fill :: "msg_content \<Rightarrow> byte \<Rightarrow> msg_content undef" where
  "msg_content_data_fill c v =
    (case mc_data c of
       None \<Rightarrow> None
     | Some d \<Rightarrow> do {
         d1 \<leftarrow> fill_loop (unat (mc_capacity c - 1)) v d;
         if 0 < length d1
         then Some (c\<lparr>mc_data := Some (d1[0 := v]), mc_size := mc_capacity c\<rparr>)
         else None
       })"

text \<open>
  \<open>rand ()\<close> is a stream of non-negative integers; the model passes the position in
  it along.
\<close>

type_synonym rand_stream = "nat \<Rightarrow> nat"

definition fill_dict :: string where
  "fill_dict = ''0123456789ABCDEFGHIJKLMNOPQRSTUVWXYZabcdefghijklmnopqrstuvwxyz''"

definition rand_char :: "rand_stream \<Rightarrow> nat \<Rightarrow> byte" where
  "rand_char rnd k = fill_dict ! (rnd k mod length fill_dict)"

fun rfill_loop :: "rand_stream \<Rightarrow> nat \<Rightarrow> nat \<Rightarrow> byte list \<Rightarrow> (byte list \<times> nat) undef" where
  "rfill_loop rnd k 0 d = Some (d, k)"
| "rfill_loop rnd k (Suc i) d =
     (if Suc i < length d then rfill_loop rnd (Suc k) i (d[Suc i := rand_char rnd k]) else None)"

definition msg_content_data_rfill ::
    "rand_stream \<Rightarrow> nat \<Rightarrow> msg_content \<Rightarrow> (msg_content \<times> nat) undef" where
  "msg_content_data_rfill rnd k c =
    (case mc_data c of
       None \<Rightarrow> None
     | Some d \<Rightarrow> do {
         (d1, k1) \<leftarrow> rfill_loop rnd k (unat (mc_capacity c - 1)) d;
         if 0 < length d1
         then Some (c\<lparr>mc_data := Some (d1[0 := rand_char rnd k1]), mc_size := mc_capacity c\<rparr>, Suc k1)
         else None
       })"

definition msg_content_data_copy ::
    "gru_allocator \<Rightarrow> msg_content \<Rightarrow> byte list \<Rightarrow> bool \<times> msg_content" where
  "msg_content_data_copy al c data =
    (let c = msg_content_data_release c; sz = word_of_nat (length data) in
     case al (length data) of
       Some m \<Rightarrow> (False, c)
     | None \<Rightarrow> (True, c\<lparr>mc_data := Some data, mc_capacity := sz, mc_size := sz\<rparr>))"

section \<open>Facts\<close>

lemma length_zero_block [simp]: "length (zero_block n) = n"
  by (simp add: zero_block_def)

lemma zero_content_wf [simp]: "content_wf zero_content"
  by (simp add: content_wf_def zero_content_def)

lemma release_wf [simp]: "content_wf (msg_content_data_release c)"
  by (simp add: content_wf_def msg_content_data_release_def)

lemma new_wf: "msg_content_data_new al sz st = (Some c, st') \<Longrightarrow> content_wf c"
  by (auto simp: msg_content_data_new_def content_wf_def zero_content_def split: option.splits)

lemma init_wf: "content_wf (fst (msg_content_data_init al sz st c))"
  by (auto simp: msg_content_data_init_def content_wf_def msg_content_data_release_def Let_def
      split: option.splits)

lemma init_status:
  "gru_status_success st \<Longrightarrow>
   gru_status_success (snd (msg_content_data_init al sz st c)) = (al (unat sz) = None)"
  by (auto simp: msg_content_data_init_def Let_def split: option.splits)

lemma init_ok:
  "al (unat sz) = None \<Longrightarrow> msg_content_data_init al sz st c =
     (c\<lparr>mc_data := Some (zero_block (unat sz)), mc_capacity := sz, mc_size := 0\<rparr>, st)"
  by (simp add: msg_content_data_init_def msg_content_data_release_def)

lemma reset_wf: "content_wf c \<Longrightarrow> \<exists>c'. msg_content_data_reset c = Some c' \<and> content_wf c'"
  by (auto simp: msg_content_data_reset_def content_wf_def overlay_def split: option.splits)

lemma copy_wf:
  "length data < 2 ^ 64 \<Longrightarrow> content_wf (snd (msg_content_data_copy al c data))"
  by (auto simp: msg_content_data_copy_def content_wf_def msg_content_data_release_def Let_def
      unat_word_of_nat64 split: option.splits)

lemma copy_bytes:
  "al (length data) = None \<Longrightarrow> length data < 2 ^ 64 \<Longrightarrow>
   content_bytes (snd (msg_content_data_copy al c data)) = Some data"
  by (simp add: msg_content_data_copy_def content_bytes_def Let_def unat_word_of_nat64)

text \<open>The fill loop writes every index from 1 to its start.\<close>

lemma fill_loop_eq:
  "i < length d \<Longrightarrow> fill_loop i v d = Some (take 1 d @ replicate i v @ drop (Suc i) d)"
proof (induction i arbitrary: d)
  case 0
  then show ?case by (cases d) simp_all
next
  case (Suc i)
  then have "fill_loop i v (d[Suc i := v])
    = Some (take 1 (d[Suc i := v]) @ replicate i v @ drop (Suc i) (d[Suc i := v]))"
    by simp
  moreover have "drop (Suc i) (d[Suc i := v]) = v # drop (Suc (Suc i)) d"
    using Suc.prems by (metis Cons_nth_drop_Suc drop_update_cancel length_list_update lessI nth_list_update_eq)
  moreover have "take 1 (d[Suc i := v]) = take 1 d" by (cases d) simp_all
  ultimately show ?case
    using Suc.prems by (simp add: replicate_append_same)
qed

lemma fill_loop_out_of_bounds: "length d \<le> i \<Longrightarrow> 0 < i \<Longrightarrow> fill_loop i v d = None"
  by (cases i) auto

lemma unat_capacity_pred: "unat (c :: u64) = Suc n \<Longrightarrow> unat (c - 1) = n"
  by (metis Suc_diff_1 diff_Suc_1 unat_0 unat_minus_one zero_less_Suc nat_less_le)

lemma unat_minus_one_u64: "unat (0 - 1 :: u64) = 2 ^ 64 - 1"
  by (simp add: unsigned_minus_1_eq_mask mask_eq_exp_minus_1)

lemma rfill_loop_shape:
  "i < length d \<Longrightarrow> \<exists>d' k'. rfill_loop rnd k i d = Some (d', k') \<and> length d' = length d \<and>
     d' ! 0 = d ! 0 \<and> (\<forall>j. 1 \<le> j \<and> j \<le> i \<longrightarrow> d' ! j \<in> set fill_dict) \<and>
     (\<forall>j. i < j \<and> j < length d \<longrightarrow> d' ! j = d ! j)"
proof (induction i arbitrary: d k)
  case 0
  then show ?case by auto
next
  case (Suc i)
  let ?d = "d[Suc i := rand_char rnd k]"
  from Suc.prems have "i < length ?d" by simp
  from Suc.IH [OF this, of "Suc k"] obtain d' k' where
    r: "rfill_loop rnd (Suc k) i ?d = Some (d', k')" "length d' = length d"
    and z: "d' ! 0 = ?d ! 0"
    and lo: "\<And>j. 1 \<le> j \<Longrightarrow> j \<le> i \<Longrightarrow> d' ! j \<in> set fill_dict"
    and hi: "\<And>j. i < j \<Longrightarrow> j < length d \<Longrightarrow> d' ! j = ?d ! j"
    by auto
  have dict: "rand_char rnd k \<in> set fill_dict"
    unfolding rand_char_def by (rule nth_mem) (simp add: fill_dict_def)
  have "d' ! Suc i \<in> set fill_dict"
    using hi [of "Suc i"] Suc.prems dict by simp
  with r z lo hi Suc.prems show ?case
    by (auto simp: le_Suc_eq)
qed

end
