(* ===== verification/Note.thy ===== *)
theory Note
  imports Content
begin

text \<open>
  The notes of the maestro protocol, \<open>src/orchestration/maestro/maestro_note.h\<close> and
  \<open>maestro_note.c\<close>. A note is a type, a command and a pointer to a payload that
  is a C union. On the target every member of that union starts on an
  eight-byte boundary and is at most eight bytes wide, so the payload is modelled
  as ten cells of eight bytes; which C members share a cell is fixed by the
  offsets below. A cell holds either raw bits or a pointer to a string that the
  payload owns.
\<close>

section \<open>Enumerations\<close>

datatype maestro_request_type =
    MAESTRO_TYPE_REQUEST | MAESTRO_TYPE_RESPONSE | MAESTRO_TYPE_NOTIFICATION

fun type_code :: "maestro_request_type \<Rightarrow> u32" where
  "type_code MAESTRO_TYPE_REQUEST = 0"
| "type_code MAESTRO_TYPE_RESPONSE = 1"
| "type_code MAESTRO_TYPE_NOTIFICATION = 2"

datatype maestro_command =
    MAESTRO_NOTE_START_RECEIVER | MAESTRO_NOTE_STOP_RECEIVER
  | MAESTRO_NOTE_START_SENDER | MAESTRO_NOTE_STOP_SENDER
  | MAESTRO_NOTE_START_INSPECTOR | MAESTRO_NOTE_STOP_INSPECTOR
  | MAESTRO_NOTE_FLUSH | MAESTRO_NOTE_SET | MAESTRO_NOTE_STATS | MAESTRO_NOTE_HALT
  | MAESTRO_NOTE_PING | MAESTRO_NOTE_OK | MAESTRO_NOTE_PROTOCOL_ERROR
  | MAESTRO_NOTE_INTERNAL_ERROR | MAESTRO_NOTE_ABNORMAL_DISCONNECT
  | MAESTRO_NOTE_NOTIFY_FAIL | MAESTRO_NOTE_NOTIFY_SUCCESS

fun command_code :: "maestro_command \<Rightarrow> u32" where
  "command_code MAESTRO_NOTE_START_RECEIVER = 0"
| "command_code MAESTRO_NOTE_STOP_RECEIVER = 1"
| "command_code MAESTRO_NOTE_START_SENDER = 2"
| "command_code MAESTRO_NOTE_STOP_SENDER = 3"
| "command_code MAESTRO_NOTE_START_INSPECTOR = 4"
| "command_code MAESTRO_NOTE_STOP_INSPECTOR = 5"
| "command_code MAESTRO_NOTE_FLUSH = 6"
| "command_code MAESTRO_NOTE_SET = 7"
| "command_code MAESTRO_NOTE_STATS = 8"
| "command_code MAESTRO_NOTE_HALT = 9"
| "command_code MAESTRO_NOTE_PING = 10"
| "command_code MAESTRO_NOTE_OK = 11"
| "command_code MAESTRO_NOTE_PROTOCOL_ERROR = 12"
| "command_code MAESTRO_NOTE_INTERNAL_ERROR = 13"
| "command_code MAESTRO_NOTE_ABNORMAL_DISCONNECT = 14"
| "command_code MAESTRO_NOTE_NOTIFY_FAIL = 15"
| "command_code MAESTRO_NOTE_NOTIFY_SUCCESS = 16"

datatype set_opt =
    MAESTRO_NOTE_OPT_SET_BROKER | MAESTRO_NOTE_OPT_SET_DURATION_TYPE
  | MAESTRO_NOTE_OPT_SET_LOG_LEVEL | MAESTRO_NOTE_OPT_SET_PARALLEL_COUNT
  | MAESTRO_NOTE_OPT_SET_MESSAGE_SIZE | MAESTRO_NOTE_OPT_SET_THROTTLE
  | MAESTRO_NOTE_OPT_SET_RATE | MAESTRO_NOTE_OPT_FCL

fun opt_code :: "set_opt \<Rightarrow> u64" where
  "opt_code MAESTRO_NOTE_OPT_SET_BROKER = 0"
| "opt_code MAESTRO_NOTE_OPT_SET_DURATION_TYPE = 1"
| "opt_code MAESTRO_NOTE_OPT_SET_LOG_LEVEL = 2"
| "opt_code MAESTRO_NOTE_OPT_SET_PARALLEL_COUNT = 3"
| "opt_code MAESTRO_NOTE_OPT_SET_MESSAGE_SIZE = 4"
| "opt_code MAESTRO_NOTE_OPT_SET_THROTTLE = 5"
| "opt_code MAESTRO_NOTE_OPT_SET_RATE = 6"
| "opt_code MAESTRO_NOTE_OPT_FCL = 7"

lemma type_code_inject [simp]: "type_code a = type_code b \<longleftrightarrow> a = b"
  by (cases a; cases b) simp_all

lemma command_code_inject [simp]: "command_code a = command_code b \<longleftrightarrow> a = b"
  by (cases a; cases b) simp_all

section \<open>The note and its payload\<close>

datatype cell = Bits u64 | Str string

type_synonym payload = "cell list"

definition payload_cells :: nat where
  "payload_cells = 10"

text \<open>Offsets of the union members, in cells of eight bytes. The three views of
  \<open>maestro_payload_t\<close> (response, request, notification) overlap.\<close>

abbreviation (input) response_id :: nat where "response_id \<equiv> 0"
abbreviation (input) response_name :: nat where "response_name \<equiv> 1"
abbreviation (input) ping_elapsed :: nat where "ping_elapsed \<equiv> 2"
abbreviation (input) stats_child_count :: nat where "stats_child_count \<equiv> 2"
abbreviation (input) stats_role :: nat where "stats_role \<equiv> 3"
abbreviation (input) stats_roleinfo :: nat where "stats_roleinfo \<equiv> 4"
abbreviation (input) stats_stat_type :: nat where "stats_stat_type \<equiv> 5"
abbreviation (input) perf_timestamp :: nat where "perf_timestamp \<equiv> 6"
abbreviation (input) perf_count :: nat where "perf_count \<equiv> 7"
abbreviation (input) perf_rate :: nat where "perf_rate \<equiv> 8"
abbreviation (input) perf_latency :: nat where "perf_latency \<equiv> 9"
abbreviation (input) set_opt_cell :: nat where "set_opt_cell \<equiv> 0"
abbreviation (input) set_value :: nat where "set_value \<equiv> 1"
abbreviation (input) ping_sec :: nat where "ping_sec \<equiv> 0"
abbreviation (input) ping_usec :: nat where "ping_usec \<equiv> 1"
abbreviation (input) notification_id :: nat where "notification_id \<equiv> 0"
abbreviation (input) notification_name :: nat where "notification_name \<equiv> 1"
abbreviation (input) notification_message :: nat where "notification_message \<equiv> 2"

definition zero_payload :: payload where
  "zero_payload = replicate payload_cells (Bits 0)"

text \<open>The payload pointer: null, a block from \<open>gru_alloc\<close>, or a value that is neither.\<close>

datatype payload_ptr = PNull | PAt payload | PWild

record maestro_note =
  n_type :: u32
  n_command :: u32
  n_payload :: payload_ptr

definition zero_note :: maestro_note where
  "zero_note = \<lparr>n_type = 0, n_command = 0, n_payload = PNull\<rparr>"

text \<open>Reading a cell as a string pointer, as an integer; storing a cell through the
  payload pointer.\<close>

fun cell_str :: "cell \<Rightarrow> string undef" where
  "cell_str (Str s) = Some s"
| "cell_str (Bits w) = None"

fun cell_bits :: "cell \<Rightarrow> u64 undef" where
  "cell_bits (Bits w) = Some w"
| "cell_bits (Str s) = None"

definition note_cell :: "maestro_note \<Rightarrow> nat \<Rightarrow> cell undef" where
  "note_cell n i = (case n_payload n of
     PAt p \<Rightarrow> (if i < length p then Some (p ! i) else None) | _ \<Rightarrow> None)"

definition note_str :: "maestro_note \<Rightarrow> nat \<Rightarrow> string undef" where
  "note_str n i = Option.bind (note_cell n i) cell_str"

definition note_bits :: "maestro_note \<Rightarrow> nat \<Rightarrow> u64 undef" where
  "note_bits n i = Option.bind (note_cell n i) cell_bits"

definition note_store :: "nat \<Rightarrow> cell \<Rightarrow> maestro_note \<Rightarrow> maestro_note undef" where
  "note_store i v n = (case n_payload n of
     PAt p \<Rightarrow> (if i < length p then Some (n\<lparr>n_payload := PAt (p[i := v])\<rparr>) else None) | _ \<Rightarrow> None)"

section \<open>Operations of \<open>maestro_note.c\<close>\<close>

definition sizeof_payload :: nat where
  "sizeof_payload = 8 * payload_cells"

definition maestro_note_payload_prepare ::
    "gru_allocator \<Rightarrow> maestro_note \<Rightarrow> gru_status \<Rightarrow> bool \<times> maestro_note \<times> gru_status" where
  "maestro_note_payload_prepare al n st =
    (case al sizeof_payload of
       Some m \<Rightarrow> (False, n\<lparr>n_payload := PNull\<rparr>, alloc_fail m)
     | None \<Rightarrow> (True, n\<lparr>n_payload := PAt zero_payload\<rparr>, st))"

text \<open>\<open>gru_dealloc_string\<close> on a cell: frees the string and leaves a null pointer; a
  null pointer stays; anything else is no pointer to free.\<close>

fun freeable :: "cell \<Rightarrow> bool" where
  "freeable (Str s) = True"
| "freeable (Bits w) = (w = 0)"

fun dealloc_cells :: "nat list \<Rightarrow> payload \<Rightarrow> payload undef" where
  "dealloc_cells [] p = Some p"
| "dealloc_cells (i # is) p =
     (if i < length p \<and> freeable (p ! i) then dealloc_cells is (p[i := Bits 0]) else None)"

definition dealloc_if :: "bool \<Rightarrow> nat list \<Rightarrow> payload \<Rightarrow> payload undef" where
  "dealloc_if b is p = (if b then dealloc_cells is p else Some p)"

text \<open>The strings \<open>maestro_note_payload_cleanup\<close> frees before the block itself.\<close>

definition payload_free_strings :: "u32 \<Rightarrow> u32 \<Rightarrow> payload \<Rightarrow> payload undef" where
  "payload_free_strings ty cmd p = do {
     p1 \<leftarrow> dealloc_if (ty = type_code MAESTRO_TYPE_RESPONSE) [response_id, response_name] p;
     p2 \<leftarrow> dealloc_if (ty = type_code MAESTRO_TYPE_REQUEST \<and> cmd = command_code MAESTRO_NOTE_SET)
            [set_value] p1;
     dealloc_if (ty = type_code MAESTRO_TYPE_RESPONSE \<and> cmd = command_code MAESTRO_NOTE_STATS)
            [stats_role, stats_roleinfo, perf_timestamp] p2
   }"

definition maestro_note_payload_cleanup :: "maestro_note \<Rightarrow> maestro_note undef" where
  "maestro_note_payload_cleanup n =
    (case n_payload n of
       PNull \<Rightarrow> Some n
     | PWild \<Rightarrow> None
     | PAt p \<Rightarrow> do {
         p' \<leftarrow> payload_free_strings (n_type n) (n_command n) p;
         Some (n\<lparr>n_payload := PNull\<rparr>)
       })"

definition maestro_note_response_set_id :: "string \<Rightarrow> maestro_note \<Rightarrow> maestro_note undef" where
  "maestro_note_response_set_id s n = do {
     n1 \<leftarrow> (if n_type n = type_code MAESTRO_TYPE_RESPONSE
            then note_store response_id (Str s) n else Some n);
     if n_type n1 = type_code MAESTRO_TYPE_NOTIFICATION
     then note_store notification_id (Str s) n1 else Some n1
   }"

definition maestro_note_response_set_name :: "string \<Rightarrow> maestro_note \<Rightarrow> maestro_note undef" where
  "maestro_note_response_set_name s n = do {
     n1 \<leftarrow> (if n_type n = type_code MAESTRO_TYPE_RESPONSE
            then note_store response_name (Str s) n else Some n);
     if n_type n1 = type_code MAESTRO_TYPE_NOTIFICATION
     then note_store notification_name (Str s) n1 else Some n1
   }"

definition maestro_note_notification_set_message :: "string \<Rightarrow> maestro_note \<Rightarrow> maestro_note undef" where
  "maestro_note_notification_set_message s n = note_store notification_message (Str s) n"

definition maestro_note_ping_set_ts :: "timestamp \<Rightarrow> maestro_note \<Rightarrow> maestro_note undef" where
  "maestro_note_ping_set_ts ts n = do {
     n1 \<leftarrow> note_store ping_sec (Bits (word_of_int (tv_sec ts))) n;
     note_store ping_usec (Bits (word_of_int (tv_usec ts))) n1
   }"

definition maestro_note_ping_set_elapsed :: "u64 \<Rightarrow> maestro_note \<Rightarrow> maestro_note undef" where
  "maestro_note_ping_set_elapsed e n = note_store ping_elapsed (Bits e) n"

definition maestro_note_set_type :: "maestro_request_type \<Rightarrow> maestro_note \<Rightarrow> maestro_note" where
  "maestro_note_set_type t n = n\<lparr>n_type := type_code t\<rparr>"

definition maestro_note_set_cmd :: "maestro_command \<Rightarrow> maestro_note \<Rightarrow> maestro_note" where
  "maestro_note_set_cmd c n = n\<lparr>n_command := command_code c\<rparr>"

definition maestro_note_set_opt ::
    "gru_allocator \<Rightarrow> set_opt \<Rightarrow> string \<Rightarrow> maestro_note \<Rightarrow> maestro_note undef" where
  "maestro_note_set_opt al opt v n = (case maestro_note_payload_prepare al n St_New of
     (b, n1, st) \<Rightarrow> do {
       n2 \<leftarrow> note_store set_opt_cell (Bits (opt_code opt)) n1;
       note_store set_value (Str v) n2
     })"

text \<open>\<open>child_count\<close> and \<open>stat_type\<close> are 32 bits wide, in the low half of their cell.\<close>

definition low_half :: "u32 \<Rightarrow> cell \<Rightarrow> cell undef" where
  "low_half v c = (case c of Bits w \<Rightarrow> Some (Bits (push_bit 32 (drop_bit 32 w) OR ucast v)) | Str s \<Rightarrow> None)"

definition maestro_note_stats_set_child_count :: "u32 \<Rightarrow> maestro_note \<Rightarrow> maestro_note undef" where
  "maestro_note_stats_set_child_count v n = do {
     c \<leftarrow> note_cell n stats_child_count;
     c' \<leftarrow> low_half v c;
     note_store stats_child_count c' n
   }"

definition maestro_note_stats_set_role :: "string \<Rightarrow> maestro_note \<Rightarrow> maestro_note undef" where
  "maestro_note_stats_set_role s n = note_store stats_role (Str s) n"

definition maestro_note_stats_set_roleinfo :: "string \<Rightarrow> maestro_note \<Rightarrow> maestro_note undef" where
  "maestro_note_stats_set_roleinfo s n = note_store stats_roleinfo (Str s) n"

text \<open>The only \<open>maestro_payload_stat_type_t\<close> is \<open>MAESTRO_STAT_PERF\<close>, 0.\<close>

datatype stat_type = MAESTRO_STAT_PERF

fun stat_type_code :: "stat_type \<Rightarrow> u32" where
  "stat_type_code MAESTRO_STAT_PERF = 0"

text \<open>An enumeration is an \<open>int\<close> to a caller: other values can be passed.\<close>

definition maestro_note_stats_set_stat_type :: "u32 \<Rightarrow> maestro_note \<Rightarrow> maestro_note undef" where
  "maestro_note_stats_set_stat_type t n = do {
     c \<leftarrow> note_cell n stats_stat_type;
     c' \<leftarrow> low_half t c;
     note_store stats_stat_type c' n
   }"

definition maestro_note_stats_set_perf_ts :: "string \<Rightarrow> maestro_note \<Rightarrow> maestro_note undef" where
  "maestro_note_stats_set_perf_ts s n = note_store perf_timestamp (Str s) n"

definition maestro_note_stats_set_perf_count :: "u64 \<Rightarrow> maestro_note \<Rightarrow> maestro_note undef" where
  "maestro_note_stats_set_perf_count v n = note_store perf_count (Bits v) n"

definition maestro_note_stats_set_perf_rate :: "u64 \<Rightarrow> maestro_note \<Rightarrow> maestro_note undef" where
  "maestro_note_stats_set_perf_rate v n = note_store perf_rate (Bits v) n"

definition maestro_note_stats_set_perf_latency :: "u64 \<Rightarrow> maestro_note \<Rightarrow> maestro_note undef" where
  "maestro_note_stats_set_perf_latency v n = note_store perf_latency (Bits v) n"

section \<open>Reading what was stored\<close>

definition note_wf :: "maestro_note \<Rightarrow> bool" where
  "note_wf n = (case n_payload n of PNull \<Rightarrow> True | PWild \<Rightarrow> False | PAt p \<Rightarrow> length p = payload_cells)"

definition has_payload :: "maestro_note \<Rightarrow> bool" where
  "has_payload n = (case n_payload n of PAt p \<Rightarrow> length p = payload_cells | _ \<Rightarrow> False)"

lemma has_payloadE:
  assumes "has_payload n"
  obtains p where "n_payload n = PAt p" and "length p = payload_cells"
  using assms by (auto simp: has_payload_def split: payload_ptr.splits)

lemma length_zero_payload [simp]: "length zero_payload = payload_cells"
  by (simp add: zero_payload_def)

lemma zero_payload_nth [simp]: "i < payload_cells \<Longrightarrow> zero_payload ! i = Bits 0"
  by (simp add: zero_payload_def)

lemma note_store_ok:
  assumes "has_payload n" and "i < payload_cells"
  shows "\<exists>n'. note_store i v n = Some n' \<and> has_payload n' \<and> n_type n' = n_type n \<and>
    n_command n' = n_command n \<and> (\<forall>j. note_cell n' j = (if j = i then Some v else note_cell n j))"
proof -
  from assms(1) obtain p where p: "n_payload n = PAt p" "length p = payload_cells"
    by (rule has_payloadE)
  with assms(2) show ?thesis
    by (simp add: note_store_def has_payload_def note_cell_def)
qed

lemma note_wf_zero [simp]: "note_wf zero_note"
  by (simp add: note_wf_def zero_note_def)

lemma payload_prepare_ok [note_simps]:
  "al sizeof_payload = None \<Longrightarrow>
   maestro_note_payload_prepare al n st = (True, n\<lparr>n_payload := PAt zero_payload\<rparr>, st)"
  by (simp add: maestro_note_payload_prepare_def)

lemma low_half_zero [simp]: "low_half v (Bits 0) = Some (Bits (ucast v))"
  by (simp add: low_half_def)

section \<open>What a note says\<close>

text \<open>
  The protocol-level content of a note (doc/maestro/protocol): the abstract value
  that serialization and deserialization have to preserve. The child count is 32
  bits wide and the type of the statistics 8 bits, as they are packed.
\<close>

datatype maestro_message =
    Set_Request u64 string
  | Ping_Request u64 u64
  | Plain_Request u32
  | Ping_Response string string u64
  | Stats_Response string string u32 string string u8 string u64 u64 u64
  | Plain_Response u32 string string
  | Notification u32 string string string

definition request_view :: "maestro_note \<Rightarrow> maestro_message option" where
  "request_view n =
    (if n_command n = command_code MAESTRO_NOTE_SET then do {
       opt \<leftarrow> note_bits n set_opt_cell; v \<leftarrow> note_str n set_value; Some (Set_Request opt v)
     } else if n_command n = command_code MAESTRO_NOTE_PING then do {
       sec \<leftarrow> note_bits n ping_sec; usec \<leftarrow> note_bits n ping_usec; Some (Ping_Request sec usec)
     } else Some (Plain_Request (n_command n)))"

definition stats_view :: "maestro_note \<Rightarrow> string \<Rightarrow> string \<Rightarrow> maestro_message option" where
  "stats_view n cid name = do {
     cc \<leftarrow> note_bits n stats_child_count;
     role \<leftarrow> note_str n stats_role;
     info \<leftarrow> note_str n stats_roleinfo;
     ty \<leftarrow> note_bits n stats_stat_type;
     ts \<leftarrow> note_str n perf_timestamp;
     c \<leftarrow> note_bits n perf_count;
     r \<leftarrow> note_bits n perf_rate;
     l \<leftarrow> note_bits n perf_latency;
     Some (Stats_Response cid name (ucast cc) role info (ucast ty) ts c r l)
   }"

definition response_view :: "maestro_note \<Rightarrow> maestro_message option" where
  "response_view n = do {
     cid \<leftarrow> note_str n response_id;
     name \<leftarrow> note_str n response_name;
     if n_command n = command_code MAESTRO_NOTE_PING then do {
       e \<leftarrow> note_bits n ping_elapsed; Some (Ping_Response cid name e)
     } else if n_command n = command_code MAESTRO_NOTE_STATS then stats_view n cid name
     else Some (Plain_Response (n_command n) cid name)
   }"

definition notification_view :: "maestro_note \<Rightarrow> maestro_message option" where
  "notification_view n = do {
     cid \<leftarrow> note_str n notification_id;
     name \<leftarrow> note_str n notification_name;
     m \<leftarrow> note_str n notification_message;
     Some (Notification (n_command n) cid name m)
   }"

definition note_view :: "maestro_note \<Rightarrow> maestro_message option" where
  "note_view n =
    (if n_type n = type_code MAESTRO_TYPE_REQUEST then request_view n
     else if n_type n = type_code MAESTRO_TYPE_RESPONSE then response_view n
     else if n_type n = type_code MAESTRO_TYPE_NOTIFICATION then notification_view n
     else None)"

end
