(* ===== verification/Msgpack.thy ===== *)
theory Msgpack
  imports Prelude
begin

text \<open>
  The interface between the program and msgpack-c, the library that encodes the
  notes on the wire. msgpack-c is not part of the repository, so the functions
  the sources call are a parameter (\<open>msgpack_api\<close>) and the documented contract
  the sources rely on is the locale \<open>msgpack\<close>: unpacking at an offset where a
  packed value starts yields that value and moves the offset past it. Section
  \<open>The MessagePack format\<close> gives the encoding that the MessagePack specification
  prescribes for the types the protocol uses and interprets the locale on it.
\<close>

section \<open>Objects and functions of the library\<close>

datatype mp_type = MP_NIL | MP_BOOLEAN | MP_POSITIVE_INTEGER | MP_NEGATIVE_INTEGER
  | MP_FLOAT | MP_STR | MP_ARRAY | MP_MAP | MP_BIN | MP_EXT

text \<open>
  \<open>msgpack_object\<close>: the type tag and the \<open>via\<close> union. \<open>ob_via\<close> holds the first eight
  bytes of the union, so \<open>via.i64\<close>, \<open>via.u64\<close> and the bits of \<open>via.f64\<close> are \<open>ob_via\<close>
  itself, \<open>via.boolean\<close> is its low byte and \<open>via.str.size\<close> its low 32 bits; \<open>ob_str\<close>
  are the bytes behind \<open>via.str.ptr\<close>.
\<close>

record mp_object =
  ob_type :: mp_type
  ob_via :: u64
  ob_str :: "byte list"

definition via_str_size :: "mp_object \<Rightarrow> u32" where
  "via_str_size ob = ucast (ob_via ob)"

text \<open>
  Each packing function appends the bytes it returns to the packer's buffer.
  \<open>mp_unpack_next\<close> is \<open>msgpack_unpack_next\<close> on a buffer and an offset: the object
  when the call returns \<open>MSGPACK_UNPACK_SUCCESS\<close>, and the offset it leaves.
\<close>

record msgpack_api =
  mp_pack_int8 :: "u8 \<Rightarrow> byte list"
  mp_pack_int64 :: "u64 \<Rightarrow> byte list"
  mp_pack_uint8 :: "u8 \<Rightarrow> byte list"
  mp_pack_uint32 :: "u32 \<Rightarrow> byte list"
  mp_pack_uint64 :: "u64 \<Rightarrow> byte list"
  mp_pack_double :: "u64 \<Rightarrow> byte list"
  mp_pack_str :: "nat \<Rightarrow> byte list"
  mp_pack_str_body :: "byte list \<Rightarrow> byte list"
  mp_unpack_next :: "byte list \<Rightarrow> nat \<Rightarrow> mp_object option \<times> nat"

definition pos_object :: "u64 \<Rightarrow> mp_object" where
  "pos_object v = \<lparr>ob_type = MP_POSITIVE_INTEGER, ob_via = v, ob_str = []\<rparr>"

definition int_object :: "u64 \<Rightarrow> mp_object" where
  "int_object v = \<lparr>ob_type = (if 0 \<le> sint v then MP_POSITIVE_INTEGER else MP_NEGATIVE_INTEGER),
     ob_via = v, ob_str = []\<rparr>"

definition float_object :: "u64 \<Rightarrow> mp_object" where
  "float_object v = \<lparr>ob_type = MP_FLOAT, ob_via = v, ob_str = []\<rparr>"

definition str_object :: "byte list \<Rightarrow> mp_object" where
  "str_object s = \<lparr>ob_type = MP_STR, ob_via = word_of_nat (length s), ob_str = s\<rparr>"

lemma object_sel [simp]:
  "ob_type (pos_object v) = MP_POSITIVE_INTEGER" "ob_via (pos_object v) = v"
  "ob_via (int_object v) = v"
  "ob_type (float_object v) = MP_FLOAT" "ob_via (float_object v) = v"
  "ob_type (str_object s) = MP_STR" "ob_str (str_object s) = s"
  by (simp_all add: pos_object_def int_object_def float_object_def str_object_def)

lemma int_object_nonneg: "0 \<le> sint v \<Longrightarrow> int_object v = pos_object v"
  by (simp add: int_object_def pos_object_def)

lemma via_str_size_str_object:
  "via_str_size (str_object s) = word_of_nat (length s)"
  by (simp add: via_str_size_def str_object_def unsigned_of_nat word_of_nat_eq_iff)

section \<open>The contract\<close>

text \<open>
  A value the program packs, with the bytes its packing functions produce and the
  object that reading them back yields.
\<close>

datatype mp_token = TInt8 u8 | TInt64 u64 | TUint8 u8 | TUint32 u32 | TUint64 u64
  | TDouble u64 | TStr "byte list"

fun token_bytes :: "msgpack_api \<Rightarrow> mp_token \<Rightarrow> byte list" where
  "token_bytes mp (TInt8 v) = mp_pack_int8 mp v"
| "token_bytes mp (TInt64 v) = mp_pack_int64 mp v"
| "token_bytes mp (TUint8 v) = mp_pack_uint8 mp v"
| "token_bytes mp (TUint32 v) = mp_pack_uint32 mp v"
| "token_bytes mp (TUint64 v) = mp_pack_uint64 mp v"
| "token_bytes mp (TDouble v) = mp_pack_double mp v"
| "token_bytes mp (TStr s) = mp_pack_str mp (length s) @ mp_pack_str_body mp s"

fun token_object :: "mp_token \<Rightarrow> mp_object" where
  "token_object (TInt8 v) = int_object (scast v)"
| "token_object (TInt64 v) = int_object v"
| "token_object (TUint8 v) = pos_object (ucast v)"
| "token_object (TUint32 v) = pos_object (ucast v)"
| "token_object (TUint64 v) = pos_object v"
| "token_object (TDouble v) = float_object v"
| "token_object (TStr s) = str_object s"

text \<open>A string body is at most \<open>2\<^sup>3\<^sup>2 - 1\<close> bytes long in the format.\<close>

fun token_ok :: "mp_token \<Rightarrow> bool" where
  "token_ok (TStr s) = (length s < 2 ^ 32)"
| "token_ok t = True"

definition tokens_bytes :: "msgpack_api \<Rightarrow> mp_token list \<Rightarrow> byte list" where
  "tokens_bytes mp ts = concat (map (token_bytes mp) ts)"

lemma tokens_bytes_simps [simp]:
  "tokens_bytes mp [] = []"
  "tokens_bytes mp (t # ts) = token_bytes mp t @ tokens_bytes mp ts"
  by (simp_all add: tokens_bytes_def)

locale msgpack =
  fixes mp :: msgpack_api
  assumes unpack_token:
    "token_ok t \<Longrightarrow> drop off buf = token_bytes mp t @ rest \<Longrightarrow>
       mp_unpack_next mp buf off = (Some (token_object t), off + length (token_bytes mp t))"
begin

text \<open>Reading one value leaves the offset where the next one starts.\<close>

lemma unpack_token_rest:
  assumes "drop off buf = token_bytes mp t @ rest"
  shows "drop (off + length (token_bytes mp t)) buf = rest"
proof -
  have "drop (off + length (token_bytes mp t)) buf
    = drop (length (token_bytes mp t)) (drop off buf)"
    by (simp add: add.commute)
  then show ?thesis using assms by simp
qed

end

section \<open>The MessagePack format\<close>

text \<open>
  Integers take the shortest of the fixed-size encodings, as msgpack-c packs them;
  strings carry their length in front of the body; a double is its eight bytes in
  network order.
\<close>

definition fmt_uint :: "nat \<Rightarrow> byte list" where
  "fmt_uint n =
    (if n < 0x80 then [char_of n]
     else if n < 2 ^ 8 then CHR 0xCC # be_bytes 1 n
     else if n < 2 ^ 16 then CHR 0xCD # be_bytes 2 n
     else if n < 2 ^ 32 then CHR 0xCE # be_bytes 4 n
     else CHR 0xCF # be_bytes 8 n)"

definition fmt_sint :: "int \<Rightarrow> byte list" where
  "fmt_sint i =
    (if 0 \<le> i then fmt_uint (nat i)
     else if - 32 \<le> i then [char_of (nat (i + 2 ^ 8))]
     else if - (2 ^ 7) \<le> i then CHR 0xD0 # be_bytes 1 (nat (i + 2 ^ 8))
     else if - (2 ^ 15) \<le> i then CHR 0xD1 # be_bytes 2 (nat (i + 2 ^ 16))
     else if - (2 ^ 31) \<le> i then CHR 0xD2 # be_bytes 4 (nat (i + 2 ^ 32))
     else CHR 0xD3 # be_bytes 8 (nat (i + 2 ^ 64)))"

definition fmt_str :: "nat \<Rightarrow> byte list" where
  "fmt_str n =
    (if n < 32 then [char_of (0xA0 + n)]
     else if n < 2 ^ 8 then CHR 0xD9 # be_bytes 1 n
     else if n < 2 ^ 16 then CHR 0xDA # be_bytes 2 n
     else CHR 0xDB # be_bytes 4 n)"

definition take_uint :: "nat \<Rightarrow> byte list \<Rightarrow> (mp_object \<times> nat) option" where
  "take_uint k r = (if length r < k then None
     else Some (pos_object (word_of_nat (be_val (take k r))), Suc k))"

definition take_sint :: "nat \<Rightarrow> byte list \<Rightarrow> (mp_object \<times> nat) option" where
  "take_sint k r = (if length r < k then None
     else let n = be_val (take k r); b = 256 ^ k in
       Some (int_object (word_of_int (if 2 * n < b then int n else int n - int b)), Suc k))"

definition take_str :: "nat \<Rightarrow> nat \<Rightarrow> byte list \<Rightarrow> (mp_object \<times> nat) option" where
  "take_str k n r = (if length r < k + n then None
     else Some (str_object (take n (drop k r)), Suc (k + n)))"

definition take_lstr :: "nat \<Rightarrow> byte list \<Rightarrow> (mp_object \<times> nat) option" where
  "take_lstr k r = (if length r < k then None else take_str k (be_val (take k r)) r)"

definition take_tagged :: "nat \<Rightarrow> byte list \<Rightarrow> (mp_object \<times> nat) option" where
  "take_tagged t r =
    (if t = 0xC0 then Some (\<lparr>ob_type = MP_NIL, ob_via = 0, ob_str = []\<rparr>, 1)
     else if t = 0xC2 then Some (\<lparr>ob_type = MP_BOOLEAN, ob_via = 0, ob_str = []\<rparr>, 1)
     else if t = 0xC3 then Some (\<lparr>ob_type = MP_BOOLEAN, ob_via = 1, ob_str = []\<rparr>, 1)
     else if t = 0xCB then map_option (\<lambda>(ob, n). (float_object (ob_via ob), n)) (take_uint 8 r)
     else if t = 0xCC then take_uint 1 r
     else if t = 0xCD then take_uint 2 r
     else if t = 0xCE then take_uint 4 r
     else if t = 0xCF then take_uint 8 r
     else if t = 0xD0 then take_sint 1 r
     else if t = 0xD1 then take_sint 2 r
     else if t = 0xD2 then take_sint 4 r
     else if t = 0xD3 then take_sint 8 r
     else if t = 0xD9 then take_lstr 1 r
     else if t = 0xDA then take_lstr 2 r
     else if t = 0xDB then take_lstr 4 r
     else None)"

definition fmt_unpack :: "byte list \<Rightarrow> (mp_object \<times> nat) option" where
  "fmt_unpack bs = (case bs of [] \<Rightarrow> None
    | b # r \<Rightarrow> (let t = of_char b :: nat in
        if t < 0x80 then Some (pos_object (word_of_nat t), 1)
        else if 0xE0 \<le> t then Some (int_object (word_of_int (int t - 256)), 1)
        else if 0xA0 \<le> t \<and> t < 0xC0 then take_str 0 (t - 0xA0) r
        else take_tagged t r))"

definition fmt_unpack_next :: "byte list \<Rightarrow> nat \<Rightarrow> mp_object option \<times> nat" where
  "fmt_unpack_next buf off = (case fmt_unpack (drop off buf) of
     None \<Rightarrow> (None, off) | Some (ob, n) \<Rightarrow> (Some ob, off + n))"

definition msgpack_format :: msgpack_api where
  "msgpack_format = \<lparr>
     mp_pack_int8 = (\<lambda>v. fmt_sint (sint v)),
     mp_pack_int64 = (\<lambda>v. fmt_sint (sint v)),
     mp_pack_uint8 = (\<lambda>v. fmt_uint (unat v)),
     mp_pack_uint32 = (\<lambda>v. fmt_uint (unat v)),
     mp_pack_uint64 = (\<lambda>v. fmt_uint (unat v)),
     mp_pack_double = (\<lambda>v. CHR 0xCB # be_bytes 8 (unat v)),
     mp_pack_str = fmt_str,
     mp_pack_str_body = (\<lambda>s. s),
     mp_unpack_next = fmt_unpack_next\<rparr>"

lemma fmt_unpack_tag:
  "0x80 \<le> (of_char b :: nat) \<Longrightarrow> (of_char b :: nat) < 0xE0 \<Longrightarrow>
   \<not> (0xA0 \<le> (of_char b :: nat) \<and> (of_char b :: nat) < 0xC0) \<Longrightarrow>
   fmt_unpack (b # r) = take_tagged (of_char b) r"
  by (auto simp: fmt_unpack_def Let_def)

lemma take_uint_be [simp]:
  "n < 256 ^ k \<Longrightarrow> take_uint k (be_bytes k n @ rest) = Some (pos_object (word_of_nat n), Suc k)"
  by (simp add: take_uint_def be_val_be_bytes)

lemma take_sint_be [simp]:
  "n < 256 ^ k \<Longrightarrow> 256 ^ k \<le> 2 * n \<Longrightarrow>
   take_sint k (be_bytes k n @ rest) = Some (int_object (word_of_int (int n - 256 ^ k)), Suc k)"
  by (simp add: take_sint_def be_val_be_bytes Let_def)

lemma take_lstr_be [simp]:
  "length s < 256 ^ k \<Longrightarrow>
   take_lstr k (be_bytes k (length s) @ s @ rest) = Some (str_object s, Suc (k + length s))"
  by (simp add: take_lstr_def take_str_def be_val_be_bytes)

lemma fmt_unpack_uint:
  "n < 2 ^ 64 \<Longrightarrow>
   fmt_unpack (fmt_uint n @ rest) = Some (pos_object (word_of_nat n), length (fmt_uint n))"
  by (auto simp: fmt_uint_def fmt_unpack_tag take_tagged_def) (simp add: fmt_unpack_def)

lemma fmt_unpack_double:
  "n < 2 ^ 64 \<Longrightarrow> fmt_unpack (CHR 0xCB # be_bytes 8 n @ rest) = Some (float_object (word_of_nat n), 9)"
  by (simp add: fmt_unpack_tag take_tagged_def)

lemma fmt_unpack_str:
  "length s < 2 ^ 32 \<Longrightarrow>
   fmt_unpack (fmt_str (length s) @ s @ rest)
     = Some (str_object s, length (fmt_str (length s)) + length s)"
  by (auto simp: fmt_str_def fmt_unpack_tag take_tagged_def)
     (simp add: fmt_unpack_def take_str_def)

lemma fmt_unpack_sint:
  assumes "- (2 ^ 63) \<le> i" and "i < 2 ^ 63"
  shows "fmt_unpack (fmt_sint i @ rest) = Some (int_object (word_of_int i), length (fmt_sint i))"
proof (cases "0 \<le> i")
  case True
  with assms have n: "nat i < 2 ^ 64" by simp
  have "0 \<le> sint (word_of_int i :: u64)"
    using assms True by (simp add: signed_take_bit_int_eq_self signed_of_int)
  with True fmt_unpack_uint [OF n, of rest] show ?thesis
    by (simp add: fmt_sint_def int_object_nonneg of_nat_nat)
next
  case False
  with assms show ?thesis
    by (auto simp: fmt_sint_def fmt_unpack_tag take_tagged_def nat_less_iff nat_le_iff
        fmt_unpack_def Let_def)
qed

lemma fmt_unpack_unat:
  fixes v :: "'a :: len word"
  assumes "LENGTH('a) \<le> 64"
  shows "fmt_unpack (fmt_uint (unat v) @ rest) = Some (pos_object (ucast v), length (fmt_uint (unat v)))"
proof -
  have "unat v < 2 ^ LENGTH('a)" by (rule unsigned_less)
  also have "\<dots> \<le> 2 ^ 64" by (rule power_increasing [OF assms]) simp
  finally show ?thesis by (simp add: fmt_unpack_uint)
qed

lemma fmt_unpack_of_sint:
  fixes v :: "'a :: len word"
  assumes "LENGTH('a) \<le> 64"
  shows "fmt_unpack (fmt_sint (sint v) @ rest) = Some (int_object (scast v), length (fmt_sint (sint v)))"
proof -
  have "LENGTH('a) - Suc 0 \<le> 63" using assms by simp
  then have le: "(2 :: int) ^ (LENGTH('a) - Suc 0) \<le> 2 ^ 63"
    by (rule power_increasing) simp
  have "- (2 ^ 63) \<le> - (2 ^ (LENGTH('a) - Suc 0) :: int)" using le by simp
  also have "\<dots> \<le> sint v" by (rule sint_greater_eq)
  finally have lo: "- (2 ^ 63) \<le> sint v" .
  have hi: "sint v < 2 ^ 63"
    using sint_less [of v] le by (rule less_le_trans)
  from lo hi show ?thesis by (simp add: fmt_unpack_sint)
qed

lemma fmt_unpack_token:
  assumes "token_ok t"
  shows "fmt_unpack (token_bytes msgpack_format t @ rest)
    = Some (token_object t, length (token_bytes msgpack_format t))"
proof (cases t)
  case (TDouble v)
  have "unat v < 2 ^ 64" using unsigned_less [of v] by simp
  with TDouble show ?thesis by (simp add: msgpack_format_def fmt_unpack_double)
next
  case (TStr s)
  with assms show ?thesis by (simp add: msgpack_format_def fmt_unpack_str)
qed (simp_all add: msgpack_format_def fmt_unpack_unat fmt_unpack_of_sint)

interpretation mpf: msgpack msgpack_format
proof
  fix t off buf rest
  assume ok: "token_ok t" and d: "drop off buf = token_bytes msgpack_format t @ rest"
  have "fmt_unpack (token_bytes msgpack_format t @ rest)
    = Some (token_object t, length (token_bytes msgpack_format t))"
    using ok by (rule fmt_unpack_token)
  with d show "mp_unpack_next msgpack_format buf off
    = (Some (token_object t), off + length (token_bytes msgpack_format t))"
    by (simp add: msgpack_format_def fmt_unpack_next_def)
qed

end
