(* ===== verification/Serialize.thy ===== *)
theory Serialize
  imports Note Msgpack
begin

text \<open>
  \<open>src/orchestration/maestro/maestro_serialize.c\<close>: a note becomes a sequence of packed
  fields, which replaces the content of the output container. The packing
  functions of msgpack-c are the parameter \<open>mp\<close>. The result is undefined where
  the code dereferences a null payload or a null string.
\<close>

section \<open>Operations\<close>

definition maestro_serialize_str_field :: "msgpack_api \<Rightarrow> string \<Rightarrow> byte list" where
  "maestro_serialize_str_field mp str =
    (let sz = length str in mp_pack_str mp sz @ mp_pack_str_body mp str)"

definition maestro_serialize_response_header :: "msgpack_api \<Rightarrow> maestro_note \<Rightarrow> byte list undef" where
  "maestro_serialize_response_header mp n = do {
     cid \<leftarrow> note_str n response_id;
     name \<leftarrow> note_str n response_name;
     Some (maestro_serialize_str_field mp cid @ maestro_serialize_str_field mp name)
   }"

definition maestro_serialize_notification_header :: "msgpack_api \<Rightarrow> maestro_note \<Rightarrow> byte list undef" where
  "maestro_serialize_notification_header mp n = do {
     cid \<leftarrow> note_str n response_id;
     name \<leftarrow> note_str n notification_name;
     Some (maestro_serialize_str_field mp cid @ maestro_serialize_str_field mp name)
   }"

text \<open>The type and the command, in front of every note.\<close>

definition pack_header :: "msgpack_api \<Rightarrow> maestro_note \<Rightarrow> byte list" where
  "pack_header mp n = mp_pack_int8 mp (ucast (n_type n)) @ mp_pack_int64 mp (ucast (n_command n))"

text \<open>\<open>msg_content_data_copy\<close> into the output; its result is not looked at.\<close>

definition emit :: "gru_allocator \<Rightarrow> msg_content \<Rightarrow> byte list \<Rightarrow> bool \<times> msg_content" where
  "emit al out buf = (True, snd (msg_content_data_copy al out buf))"

definition maestro_serialize_empty_exchange ::
    "msgpack_api \<Rightarrow> gru_allocator \<Rightarrow> maestro_note \<Rightarrow> msg_content \<Rightarrow> (bool \<times> msg_content) undef" where
  "maestro_serialize_empty_exchange mp al n out = do {
     h \<leftarrow> (if n_type n = type_code MAESTRO_TYPE_RESPONSE
           then maestro_serialize_response_header mp n else Some []);
     Some (emit al out (pack_header mp n @ h))
   }"

definition maestro_note_set_request ::
    "msgpack_api \<Rightarrow> gru_allocator \<Rightarrow> maestro_note \<Rightarrow> msg_content \<Rightarrow> (bool \<times> msg_content) undef" where
  "maestro_note_set_request mp al n out =
    (if n_payload n = PNull then Some (False, out)
     else do {
       opt \<leftarrow> note_bits n set_opt_cell;
       v \<leftarrow> note_str n set_value;
       Some (emit al out (pack_header mp n @ mp_pack_int64 mp opt @ maestro_serialize_str_field mp v))
     })"

definition maestro_serialize_ping_request ::
    "msgpack_api \<Rightarrow> gru_allocator \<Rightarrow> maestro_note \<Rightarrow> msg_content \<Rightarrow> (bool \<times> msg_content) undef" where
  "maestro_serialize_ping_request mp al n out =
    (if n_payload n = PNull then Some (False, out)
     else do {
       sec \<leftarrow> note_bits n ping_sec;
       usec \<leftarrow> note_bits n ping_usec;
       Some (emit al out (pack_header mp n @ mp_pack_uint64 mp sec @ mp_pack_uint64 mp usec))
     })"

definition maestro_serialize_ping_response ::
    "msgpack_api \<Rightarrow> gru_allocator \<Rightarrow> maestro_note \<Rightarrow> msg_content \<Rightarrow> (bool \<times> msg_content) undef" where
  "maestro_serialize_ping_response mp al n out = do {
     h \<leftarrow> maestro_serialize_response_header mp n;
     e \<leftarrow> note_bits n ping_elapsed;
     Some (emit al out (pack_header mp n @ h @ mp_pack_uint64 mp e))
   }"

definition maestro_serialize_stats_response ::
    "msgpack_api \<Rightarrow> gru_allocator \<Rightarrow> maestro_note \<Rightarrow> msg_content \<Rightarrow> (bool \<times> msg_content) undef" where
  "maestro_serialize_stats_response mp al n out = do {
     h \<leftarrow> maestro_serialize_response_header mp n;
     cc \<leftarrow> note_bits n stats_child_count;
     role \<leftarrow> note_str n stats_role;
     info \<leftarrow> note_str n stats_roleinfo;
     ty \<leftarrow> note_bits n stats_stat_type;
     ts \<leftarrow> note_str n perf_timestamp;
     c \<leftarrow> note_bits n perf_count;
     r \<leftarrow> note_bits n perf_rate;
     l \<leftarrow> note_bits n perf_latency;
     Some (emit al out (pack_header mp n @ h @ mp_pack_uint32 mp (ucast cc) @
       maestro_serialize_str_field mp role @ maestro_serialize_str_field mp info @
       mp_pack_uint8 mp (ucast ty) @ maestro_serialize_str_field mp ts @
       mp_pack_uint64 mp c @ mp_pack_double mp r @ mp_pack_double mp l))
   }"

definition maestro_serialize_notification_exchange ::
    "msgpack_api \<Rightarrow> gru_allocator \<Rightarrow> maestro_note \<Rightarrow> msg_content \<Rightarrow> (bool \<times> msg_content) undef" where
  "maestro_serialize_notification_exchange mp al n out = do {
     h \<leftarrow> maestro_serialize_notification_header mp n;
     m \<leftarrow> note_str n notification_message;
     Some (emit al out (pack_header mp n @ h @ maestro_serialize_str_field mp m))
   }"

definition maestro_serialize_request ::
    "msgpack_api \<Rightarrow> gru_allocator \<Rightarrow> maestro_note \<Rightarrow> msg_content \<Rightarrow> (bool \<times> msg_content) undef" where
  "maestro_serialize_request mp al n out =
    (if n_command n = command_code MAESTRO_NOTE_SET then maestro_note_set_request mp al n out
     else if n_command n = command_code MAESTRO_NOTE_PING then maestro_serialize_ping_request mp al n out
     else if n_command n = command_code MAESTRO_NOTE_STATS then maestro_serialize_empty_exchange mp al n out
     else maestro_serialize_empty_exchange mp al n out)"

definition maestro_serialize_response ::
    "msgpack_api \<Rightarrow> gru_allocator \<Rightarrow> maestro_note \<Rightarrow> msg_content \<Rightarrow> (bool \<times> msg_content) undef" where
  "maestro_serialize_response mp al n out =
    (if n_command n = command_code MAESTRO_NOTE_PING then maestro_serialize_ping_response mp al n out
     else if n_command n = command_code MAESTRO_NOTE_STATS then maestro_serialize_stats_response mp al n out
     else maestro_serialize_empty_exchange mp al n out)"

definition maestro_serialize_notification ::
    "msgpack_api \<Rightarrow> gru_allocator \<Rightarrow> maestro_note \<Rightarrow> msg_content \<Rightarrow> (bool \<times> msg_content) undef" where
  "maestro_serialize_notification mp al n out = maestro_serialize_notification_exchange mp al n out"

definition maestro_serialize_note ::
    "msgpack_api \<Rightarrow> gru_allocator \<Rightarrow> maestro_note \<Rightarrow> msg_content \<Rightarrow> (bool \<times> msg_content) undef" where
  "maestro_serialize_note mp al n out =
    (if n_type n = type_code MAESTRO_TYPE_REQUEST then maestro_serialize_request mp al n out
     else if n_type n = type_code MAESTRO_TYPE_RESPONSE then maestro_serialize_response mp al n out
     else if n_type n = type_code MAESTRO_TYPE_NOTIFICATION then maestro_serialize_notification mp al n out
     else Some (False, out))"

text \<open>\<open>maestro_easy_request\<close> of \<open>maestro_easy.c\<close>: a request without a payload.\<close>

definition maestro_easy_request ::
    "msgpack_api \<Rightarrow> gru_allocator \<Rightarrow> msg_content \<Rightarrow> maestro_command \<Rightarrow> msg_content undef" where
  "maestro_easy_request mp al out cmd =
    (let n = maestro_note_set_cmd cmd (maestro_note_set_type MAESTRO_TYPE_REQUEST zero_note)
     in map_option snd (maestro_serialize_note mp al n out))"

section \<open>The wire format\<close>

text \<open>The fields of a message in the order the protocol puts them on the wire.\<close>

definition head_tokens :: "maestro_request_type \<Rightarrow> u32 \<Rightarrow> mp_token list" where
  "head_tokens t c = [TInt8 (ucast (type_code t)), TInt64 (ucast c)]"

fun message_tokens :: "maestro_message \<Rightarrow> mp_token list" where
  "message_tokens (Set_Request opt v) =
     head_tokens MAESTRO_TYPE_REQUEST (command_code MAESTRO_NOTE_SET) @ [TInt64 opt, TStr v]"
| "message_tokens (Ping_Request sec usec) =
     head_tokens MAESTRO_TYPE_REQUEST (command_code MAESTRO_NOTE_PING) @ [TUint64 sec, TUint64 usec]"
| "message_tokens (Plain_Request c) = head_tokens MAESTRO_TYPE_REQUEST c"
| "message_tokens (Ping_Response cid name e) =
     head_tokens MAESTRO_TYPE_RESPONSE (command_code MAESTRO_NOTE_PING) @ [TStr cid, TStr name, TUint64 e]"
| "message_tokens (Stats_Response cid name cc role info ty ts c r l) =
     head_tokens MAESTRO_TYPE_RESPONSE (command_code MAESTRO_NOTE_STATS) @
     [TStr cid, TStr name, TUint32 cc, TStr role, TStr info, TUint8 ty, TStr ts, TUint64 c,
      TDouble r, TDouble l]"
| "message_tokens (Plain_Response c cid name) =
     head_tokens MAESTRO_TYPE_RESPONSE c @ [TStr cid, TStr name]"
| "message_tokens (Notification c cid name m) =
     head_tokens MAESTRO_TYPE_NOTIFICATION c @ [TStr cid, TStr name, TStr m]"

definition message_bytes :: "msgpack_api \<Rightarrow> maestro_message \<Rightarrow> byte list" where
  "message_bytes mp m = tokens_bytes mp (message_tokens m)"

lemma str_field_token: "maestro_serialize_str_field mp s = token_bytes mp (TStr s)"
  by (simp add: maestro_serialize_str_field_def)

lemma tokens_bytes_append [simp]:
  "tokens_bytes mp (ts @ us) = tokens_bytes mp ts @ tokens_bytes mp us"
  by (simp add: tokens_bytes_def)

lemmas serialize_defs =
  maestro_serialize_request_def maestro_serialize_response_def maestro_serialize_notification_def
  maestro_serialize_notification_exchange_def maestro_serialize_empty_exchange_def
  maestro_note_set_request_def maestro_serialize_ping_request_def maestro_serialize_ping_response_def
  maestro_serialize_stats_response_def maestro_serialize_response_header_def
  maestro_serialize_notification_header_def

lemma note_str_payload: "note_str n i = Some s \<Longrightarrow> n_payload n \<noteq> PNull"
  by (auto simp: note_str_def note_cell_def)

lemma note_bits_payload: "note_bits n i = Some w \<Longrightarrow> n_payload n \<noteq> PNull"
  by (auto simp: note_bits_def note_cell_def)

lemma serialize_request_view:
  assumes "n_type n = type_code MAESTRO_TYPE_REQUEST" and "request_view n = Some m"
  shows "maestro_serialize_request mp al n out = Some (emit al out (message_bytes mp m))"
  using assms
  by (auto simp: request_view_def serialize_defs message_bytes_def str_field_token pack_header_def
      head_tokens_def bind_eq_Some_conv dest: note_bits_payload split: if_splits)

lemma serialize_response_view:
  assumes "n_type n = type_code MAESTRO_TYPE_RESPONSE" and "response_view n = Some m"
  shows "maestro_serialize_response mp al n out = Some (emit al out (message_bytes mp m))"
  using assms
  by (auto simp: response_view_def stats_view_def serialize_defs message_bytes_def str_field_token
      pack_header_def head_tokens_def bind_eq_Some_conv split: if_splits)

lemma serialize_notification_view:
  assumes "n_type n = type_code MAESTRO_TYPE_NOTIFICATION" and "notification_view n = Some m"
  shows "maestro_serialize_notification mp al n out = Some (emit al out (message_bytes mp m))"
  using assms
  by (auto simp: notification_view_def serialize_defs message_bytes_def str_field_token
      pack_header_def head_tokens_def bind_eq_Some_conv)

lemma serialize_note_view:
  assumes "note_view n = Some m"
  shows "maestro_serialize_note mp al n out = Some (emit al out (message_bytes mp m))"
  using assms
  by (auto simp: note_view_def maestro_serialize_note_def serialize_request_view
      serialize_response_view serialize_notification_view split: if_splits)

end
