(* ===== verification/Deserialize.thy ===== *)
theory Deserialize
  imports Serialize
begin

text \<open>
  \<open>src/orchestration/maestro/maestro_deserialize.c\<close>: a buffer becomes a note. The code
  reads one msgpack object after the other and copies each through an untyped
  pointer (\<open>maestro_deserialize_note_assign\<close>), so what is written depends on the
  type of the object on the wire, not on the field. The model keeps the copy as a
  sequence of bytes and checks it against the memory it goes to: a write that
  does not fit its field or its allocation is undefined behaviour.
\<close>

section \<open>Copying an object into memory\<close>

datatype cwrite = WByte byte | WWord u64 | WChars string

fun write_bytes :: "cwrite \<Rightarrow> byte list" where
  "write_bytes (WByte b) = [b]"
| "write_bytes (WWord w) = le_bytes 8 (unat w)"
| "write_bytes (WChars s) = s @ [NUL]"

text \<open>
  \<open>snprintf (out, size + 1, "%.*s", size, ptr)\<close> copies up to the first NUL and
  terminates; a size that is negative as an \<open>int\<close> is no precision at all, so the
  copy would run past the object.
\<close>

definition maestro_deserialize_note_assign ::
    "mp_object \<Rightarrow> gru_status \<Rightarrow> (cwrite option \<times> gru_status) undef" where
  "maestro_deserialize_note_assign ob st =
    (case ob_type ob of
       MP_BOOLEAN \<Rightarrow> Some (Some (WByte (char_of (unat (ob_via ob)))), st)
     | MP_POSITIVE_INTEGER \<Rightarrow> Some (Some (WWord (ob_via ob)), st)
     | MP_NEGATIVE_INTEGER \<Rightarrow> Some (Some (WWord (ob_via ob)), st)
     | MP_FLOAT \<Rightarrow> Some (Some (WWord (ob_via ob)), st)
     | MP_STR \<Rightarrow> (if unat (via_str_size ob) < 2 ^ 31
                  then Some (Some (WChars (cstr (ob_str ob))), st) else None)
     | _ \<Rightarrow> Some (None, St_Set GRU_FAILURE ''Unsupported type: %d''))"

text \<open>Into an eight-byte cell of the payload.\<close>

definition cell_write :: "cwrite \<Rightarrow> cell \<Rightarrow> cell undef" where
  "cell_write w c =
    (case w of
       WWord v \<Rightarrow> Some (Bits v)
     | _ \<Rightarrow> (case c of
          Str s \<Rightarrow> None
        | Bits v \<Rightarrow> map_option (\<lambda>bs. Bits (word_of_nat (le_val bs)))
                      (overlay (write_bytes w) (le_bytes 8 (unat v)))))"

text \<open>Into a zeroed string buffer of \<open>n\<close> bytes, read as a C string afterwards.\<close>

definition buffer_write :: "u32 \<Rightarrow> cwrite \<Rightarrow> string undef" where
  "buffer_write n w = do {
     bs \<leftarrow> overlay (write_bytes w) (zero_block (unat n));
     if NUL \<in> set bs then Some (cstr bs) else None
   }"

text \<open>Into the note structure itself, at byte offset \<open>off\<close> (0 is \<open>type\<close>, 4 is \<open>command\<close>,
  8 the payload pointer): the fields are four bytes wide but integers are copied
  as eight, so the write reaches into the next field.\<close>

definition note_write :: "nat \<Rightarrow> byte list \<Rightarrow> maestro_note \<Rightarrow> maestro_note undef" where
  "note_write off bs n =
    (let hd8 = le_bytes 4 (unat (n_type n)) @ le_bytes 4 (unat (n_command n));
         whole = take off hd8 @ bs @ drop (off + length bs) hd8;
         n' = n\<lparr>n_type := word_of_nat (le_val (take 4 whole)),
                n_command := word_of_nat (le_val (take 4 (drop 4 whole)))\<rparr>;
         spill = drop 8 whole in
     if 16 < length whole then None
     else if spill = [] \<or> n_payload n = PNull \<and> (\<forall>b \<in> set spill. b = NUL) then Some n'
     else Some (n'\<lparr>n_payload := PWild\<rparr>))"

section \<open>Reading fields\<close>

text \<open>
  What a reader that is given \<open>in->data\<close> and \<open>in->size\<close> finds: as many bytes as the size says, or
  only the block when the size goes beyond it. \<open>msgpack_unpack_next\<close> reads the bytes of the
  object it unpacks, so an object that ends within the block is found in both; where none
  is found before the end of the block the library goes on reading past it.
\<close>

datatype msg_input = Whole "byte list" | Cut "byte list"

fun input_bytes :: "msg_input \<Rightarrow> byte list" where
  "input_bytes (Whole bs) = bs"
| "input_bytes (Cut bs) = bs"

definition content_input :: "msg_content \<Rightarrow> msg_input undef" where
  "content_input c = (case content_bytes c of
     Some bs \<Rightarrow> Some (Whole bs)
   | None \<Rightarrow> map_option Cut (mc_data c))"

definition unpack_input :: "msgpack_api \<Rightarrow> msg_input \<Rightarrow> nat \<Rightarrow> (mp_object option \<times> nat) undef" where
  "unpack_input mp inp off = (case mp_unpack_next mp (input_bytes inp) off of (found, off') \<Rightarrow>
     (case inp of
        Whole bs \<Rightarrow> Some (found, off')
      | Cut bs \<Rightarrow> if found = None then None else Some (found, off')))"

lemma content_input_bytes [simp]: "content_bytes c = Some bs \<Longrightarrow> content_input c = Some (Whole bs)"
  by (simp add: content_input_def)

lemma unpack_input_simps [simp]:
  "unpack_input mp (Whole bs) off = Some (mp_unpack_next mp bs off)"
  "mp_unpack_next mp (input_bytes inp) off = (Some ob, off') \<Longrightarrow> unpack_input mp inp off = Some (Some ob, off')"
  by (auto simp: unpack_input_def split: prod.split msg_input.split)

record dstate =
  d_note :: maestro_note
  d_off :: nat
  d_status :: gru_status

text \<open>
  The two patterns the functions below repeat for each field: unpack the next
  object (failing with the given message), then copy it into the payload cell; a
  string field first gets a buffer of \<open>via.str.size + 1\<close> bytes (in 32-bit
  arithmetic).
\<close>

datatype field = FNum string nat | FText string nat

definition store_num :: "nat \<Rightarrow> mp_object \<Rightarrow> dstate \<Rightarrow> (bool \<times> dstate) undef" where
  "store_num i ob d = do {
     (w, st) \<leftarrow> maestro_deserialize_note_assign ob (d_status d);
     case w of
       None \<Rightarrow> Some (False, d\<lparr>d_status := st\<rparr>)
     | Some w \<Rightarrow> do {
         c \<leftarrow> note_cell (d_note d) i;
         c' \<leftarrow> cell_write w c;
         n \<leftarrow> note_store i c' (d_note d);
         Some (True, d\<lparr>d_note := n, d_status := st\<rparr>)
       }
   }"

definition store_text :: "gru_allocator \<Rightarrow> nat \<Rightarrow> mp_object \<Rightarrow> dstate \<Rightarrow> (bool \<times> dstate) undef" where
  "store_text al i ob d =
    (case al (unat (via_str_size ob + 1)) of
       Some m \<Rightarrow> do {
         n \<leftarrow> note_store i (Bits 0) (d_note d);
         Some (False, d\<lparr>d_note := n, d_status := alloc_fail m\<rparr>)
       }
     | None \<Rightarrow> do {
         n \<leftarrow> note_store i (Str []) (d_note d);
         (w, st) \<leftarrow> maestro_deserialize_note_assign ob (d_status d);
         case w of
           None \<Rightarrow> Some (False, d\<lparr>d_note := n, d_status := st\<rparr>)
         | Some w \<Rightarrow> do {
             s \<leftarrow> buffer_write (via_str_size ob + 1) w;
             n' \<leftarrow> note_store i (Str s) n;
             Some (True, d\<lparr>d_note := n', d_status := st\<rparr>)
           }
       })"

definition read_next :: "msgpack_api \<Rightarrow> msg_input \<Rightarrow> string \<Rightarrow>
    (mp_object \<Rightarrow> dstate \<Rightarrow> (bool \<times> dstate) undef) \<Rightarrow> dstate \<Rightarrow> (bool \<times> dstate) undef" where
  "read_next mp buf msg k d = do {
     (found, off) \<leftarrow> unpack_input mp buf (d_off d);
     case found of
       None \<Rightarrow> Some (False, d\<lparr>d_off := off, d_status := St_Set GRU_FAILURE msg\<rparr>)
     | Some ob \<Rightarrow> k ob (d\<lparr>d_off := off\<rparr>)
   }"

fun read_field :: "msgpack_api \<Rightarrow> gru_allocator \<Rightarrow> msg_input \<Rightarrow> field \<Rightarrow> dstate \<Rightarrow> (bool \<times> dstate) undef" where
  "read_field mp al buf (FNum msg i) d = read_next mp buf msg (store_num i) d"
| "read_field mp al buf (FText msg i) d = read_next mp buf msg (store_text al i) d"

fun read_fields :: "msgpack_api \<Rightarrow> gru_allocator \<Rightarrow> msg_input \<Rightarrow> field list \<Rightarrow> dstate \<Rightarrow> (bool \<times> dstate) undef" where
  "read_fields mp al buf [] d = Some (True, d)"
| "read_fields mp al buf (f # fs) d = do {
     (b, d') \<leftarrow> read_field mp al buf f d;
     if b then read_fields mp al buf fs d' else Some (False, d')
   }"

definition prepare_payload :: "gru_allocator \<Rightarrow> dstate \<Rightarrow> bool \<times> dstate" where
  "prepare_payload al d = (case maestro_note_payload_prepare al (d_note d) (d_status d) of
     (b, n, st) \<Rightarrow> (b, d\<lparr>d_note := n, d_status := st\<rparr>))"

section \<open>Operations\<close>

definition maestro_deserialize_note_set_request ::
    "msgpack_api \<Rightarrow> gru_allocator \<Rightarrow> msg_input \<Rightarrow> dstate \<Rightarrow> (bool \<times> dstate) undef" where
  "maestro_deserialize_note_set_request mp al buf d =
    (let (b, d1) = prepare_payload al d in
     if \<not> b then Some (False, d1)
     else read_fields mp al buf
       [FNum ''Unable to unpack set command: invalid and/or missing command'' set_opt_cell,
        FText ''Unable to unpack set value: invalid and/or missing value'' set_value] d1)"

definition maestro_deserialize_note_ping_request ::
    "msgpack_api \<Rightarrow> gru_allocator \<Rightarrow> msg_input \<Rightarrow> dstate \<Rightarrow> (bool \<times> dstate) undef" where
  "maestro_deserialize_note_ping_request mp al buf d =
    (let (b, d1) = prepare_payload al d in
     if \<not> b then Some (False, d1)
     else read_fields mp al buf
       [FNum ''Unable to unpack ping timestamp: invalid and/or missing timestamp'' ping_sec,
        FNum ''Unable to unpack set command: invalid and/or missing command'' ping_usec] d1)"

definition maestro_deserialize_response_header ::
    "msgpack_api \<Rightarrow> gru_allocator \<Rightarrow> msg_input \<Rightarrow> dstate \<Rightarrow> (bool \<times> dstate) undef" where
  "maestro_deserialize_response_header mp al buf d =
     read_fields mp al buf
       [FText ''Unable to unpack response: invalid and/or missing ID'' response_id,
        FText ''Unable to unpack response: invalid and/or missing name'' response_name] d"

definition maestro_deserialize_notification_header ::
    "msgpack_api \<Rightarrow> gru_allocator \<Rightarrow> msg_input \<Rightarrow> dstate \<Rightarrow> (bool \<times> dstate) undef" where
  "maestro_deserialize_notification_header mp al buf d =
     read_fields mp al buf
       [FText ''Unable to unpack notification: invalid and/or missing ID'' notification_id,
        FText ''Unable to unpack notification: invalid and/or missing name'' notification_name] d"

definition maestro_deserialize_note_ping_response ::
    "msgpack_api \<Rightarrow> gru_allocator \<Rightarrow> msg_input \<Rightarrow> dstate \<Rightarrow> (bool \<times> dstate) undef" where
  "maestro_deserialize_note_ping_response mp al buf d =
     read_fields mp al buf
       [FNum ''Unable to unpack ping response: invalid and/or missing elapsed time'' ping_elapsed] d"

definition maestro_deserialize_note_stats_response ::
    "msgpack_api \<Rightarrow> gru_allocator \<Rightarrow> msg_input \<Rightarrow> dstate \<Rightarrow> (bool \<times> dstate) undef" where
  "maestro_deserialize_note_stats_response mp al buf d =
     read_fields mp al buf
       [FNum ''Unable to unpack stats response: invalid and/or missing child count'' stats_child_count,
        FText ''Unable to unpack stats response: invalid and/or missing role'' stats_role,
        FText ''Unable to unpack stats response: invalid and/or missing roleinfo'' stats_roleinfo,
        FNum ''Unable to unpack stats response: invalid and/or missing stat type'' stats_stat_type,
        FText ''Unable to unpack stats response: invalid and/or missing perf timestamp'' perf_timestamp,
        FNum ''Unable to unpack stats response: invalid and/or missing perf count'' perf_count,
        FNum ''Unable to unpack stats response: invalid and/or missing perf rate'' perf_rate,
        FNum ''Unable to unpack stats response: invalid and/or missing perf latency'' perf_latency] d"

text \<open>The result of the header is replaced by that of the body for a ping or a
  statistics response.\<close>

definition maestro_deserialize_response ::
    "msgpack_api \<Rightarrow> gru_allocator \<Rightarrow> msg_input \<Rightarrow> dstate \<Rightarrow> (bool \<times> dstate) undef" where
  "maestro_deserialize_response mp al buf d =
    (let (b, d1) = prepare_payload al d in
     if \<not> b then Some (False, d1)
     else do {
       (ret, d2) \<leftarrow> maestro_deserialize_response_header mp al buf d1;
       if n_command (d_note d2) = command_code MAESTRO_NOTE_PING
       then maestro_deserialize_note_ping_response mp al buf d2
       else if n_command (d_note d2) = command_code MAESTRO_NOTE_STATS
       then maestro_deserialize_note_stats_response mp al buf d2
       else Some (ret, d2)
     })"

definition maestro_deserialize_request ::
    "msgpack_api \<Rightarrow> gru_allocator \<Rightarrow> msg_input \<Rightarrow> dstate \<Rightarrow> (bool \<times> dstate) undef" where
  "maestro_deserialize_request mp al buf d =
    (if n_command (d_note d) = command_code MAESTRO_NOTE_SET
     then maestro_deserialize_note_set_request mp al buf d
     else if n_command (d_note d) = command_code MAESTRO_NOTE_PING
     then maestro_deserialize_note_ping_request mp al buf d
     else Some (True, d))"

definition maestro_deserialize_notification ::
    "msgpack_api \<Rightarrow> gru_allocator \<Rightarrow> msg_input \<Rightarrow> dstate \<Rightarrow> (bool \<times> dstate) undef" where
  "maestro_deserialize_notification mp al buf d =
    (let (b, d1) = prepare_payload al d in
     if \<not> b then Some (False, d1)
     else do {
       (h, d2) \<leftarrow> maestro_deserialize_notification_header mp al buf d1;
       if \<not> h then Some (False, d2)
       else read_fields mp al buf
         [FText ''Unable to unpack notification message: invalid and/or missing message''
            notification_message] d2
     })"

definition store_type :: "mp_object \<Rightarrow> dstate \<Rightarrow> (bool \<times> dstate) undef" where
  "store_type ob d =
    (if ob_type ob \<noteq> MP_POSITIVE_INTEGER
     then Some (False, d\<lparr>d_status := St_Set GRU_FAILURE ''Unable to unpack protocol data: invalid note type''\<rparr>)
     else do {
       (w, st) \<leftarrow> maestro_deserialize_note_assign ob (d_status d);
       case w of
         None \<Rightarrow> Some (False, d\<lparr>d_status := st\<rparr>)
       | Some w \<Rightarrow> do {
           n \<leftarrow> note_write 0 (write_bytes w) (d_note d);
           Some (True, d\<lparr>d_note := n, d_status := st\<rparr>)
         }
     })"

definition store_command :: "mp_object \<Rightarrow> dstate \<Rightarrow> (bool \<times> dstate) undef" where
  "store_command ob d = do {
     (w, st) \<leftarrow> maestro_deserialize_note_assign ob (d_status d);
     case w of
       None \<Rightarrow> Some (False, d\<lparr>d_status := st\<rparr>)
     | Some w \<Rightarrow> do {
         n \<leftarrow> note_write 4 (write_bytes w) (d_note d);
         Some (True, d\<lparr>d_note := n, d_status := st\<rparr>)
       }
   }"

definition deserialize_payload ::
    "msgpack_api \<Rightarrow> gru_allocator \<Rightarrow> msg_input \<Rightarrow> dstate \<Rightarrow> (bool \<times> dstate) undef" where
  "deserialize_payload mp al buf d =
    (if n_type (d_note d) = type_code MAESTRO_TYPE_RESPONSE then maestro_deserialize_response mp al buf d
     else if n_type (d_note d) = type_code MAESTRO_TYPE_REQUEST then maestro_deserialize_request mp al buf d
     else if n_type (d_note d) = type_code MAESTRO_TYPE_NOTIFICATION
     then maestro_deserialize_notification mp al buf d
     else Some (True, d))"

definition maestro_deserialize_buffer ::
    "msgpack_api \<Rightarrow> gru_allocator \<Rightarrow> msg_input \<Rightarrow> dstate \<Rightarrow> (bool \<times> dstate) undef" where
  "maestro_deserialize_buffer mp al buf d = do {
     (b, d1) \<leftarrow> read_next mp buf ''Unable to unpack protocol data: invalid and/or missing note type''
                 store_type d;
     if \<not> b then Some (False, d1)
     else do {
       (b2, d2) \<leftarrow> read_next mp buf ''Unable to unpack protocol data: invalid and/or missing command''
                    store_command d1;
       if \<not> b2 then Some (False, d2) else deserialize_payload mp al buf d2
     }
   }"

definition maestro_deserialize_note ::
    "msgpack_api \<Rightarrow> gru_allocator \<Rightarrow> msg_content \<Rightarrow> maestro_note \<Rightarrow> gru_status \<Rightarrow>
     (bool \<times> maestro_note \<times> gru_status) undef" where
  "maestro_deserialize_note mp al inp n st = do {
     buf \<leftarrow> content_input inp;
     (b, d) \<leftarrow> maestro_deserialize_buffer mp al buf \<lparr>d_note = n, d_off = 0, d_status = st\<rparr>;
     Some (b, d_note d, d_status d)
   }"

section \<open>A failure sets the status\<close>

lemma assign_none_status:
  "maestro_deserialize_note_assign ob st = Some (None, st') \<Longrightarrow> \<not> gru_status_success st'"
  by (auto simp: maestro_deserialize_note_assign_def split: mp_type.splits if_splits)

lemma read_next_false:
  assumes "read_next mp buf msg k d = Some (False, d')"
    and "\<And>ob e. k ob e = Some (False, d') \<Longrightarrow> \<not> gru_status_success (d_status d')"
  shows "\<not> gru_status_success (d_status d')"
  using assms by (auto simp: read_next_def bind_eq_Some_conv split: option.splits)

lemma store_num_false: "store_num i ob d = Some (False, d') \<Longrightarrow> \<not> gru_status_success (d_status d')"
  by (auto simp: store_num_def bind_eq_Some_conv dest: assign_none_status split: option.splits)

lemma store_text_false: "store_text al i ob d = Some (False, d') \<Longrightarrow> \<not> gru_status_success (d_status d')"
  by (auto simp: store_text_def bind_eq_Some_conv dest: assign_none_status split: option.splits)

lemma read_field_false:
  "read_field mp al buf f d = Some (False, d') \<Longrightarrow> \<not> gru_status_success (d_status d')"
  by (cases f) (auto dest: read_next_false [OF _ store_num_false] read_next_false [OF _ store_text_false])

lemma read_fields_false:
  "read_fields mp al buf fs d = Some (False, d') \<Longrightarrow> \<not> gru_status_success (d_status d')"
  by (induction fs arbitrary: d)
     (auto simp: bind_eq_Some_conv dest: read_field_false split: if_splits)

lemma prepare_payload_false:
  "prepare_payload al d = (False, d') \<Longrightarrow> \<not> gru_status_success (d_status d')"
  by (auto simp: prepare_payload_def maestro_note_payload_prepare_def split: option.splits)

lemmas deserialize_op_defs = maestro_deserialize_note_set_request_def
  maestro_deserialize_note_ping_request_def maestro_deserialize_response_header_def
  maestro_deserialize_notification_header_def maestro_deserialize_note_ping_response_def
  maestro_deserialize_note_stats_response_def

lemma deserialize_payload_false:
  "deserialize_payload mp al buf d = Some (False, d') \<Longrightarrow> \<not> gru_status_success (d_status d')"
  by (auto simp: deserialize_payload_def maestro_deserialize_response_def maestro_deserialize_request_def
      maestro_deserialize_notification_def deserialize_op_defs bind_eq_Some_conv Let_def
      simp del: read_fields.simps dest: read_fields_false prepare_payload_false split: if_splits prod.splits)

lemma store_type_false: "store_type ob d = Some (False, d') \<Longrightarrow> \<not> gru_status_success (d_status d')"
  by (auto simp: store_type_def bind_eq_Some_conv dest: assign_none_status split: if_splits option.splits)

lemma store_command_false: "store_command ob d = Some (False, d') \<Longrightarrow> \<not> gru_status_success (d_status d')"
  by (auto simp: store_command_def bind_eq_Some_conv dest: assign_none_status split: option.splits)

lemma deserialize_buffer_false:
  assumes "maestro_deserialize_buffer mp al buf d = Some (False, d')"
  shows "\<not> gru_status_success (d_status d')"
proof -
  from assms consider
      "\<exists>msg. read_next mp buf msg store_type d = Some (False, d')"
    | "\<exists>msg d1. read_next mp buf msg store_command d1 = Some (False, d')"
    | "\<exists>d2. deserialize_payload mp al buf d2 = Some (False, d')"
    unfolding maestro_deserialize_buffer_def
    by (auto simp: bind_eq_Some_conv split: if_splits) blast+
  then show ?thesis
    by cases (auto dest: deserialize_payload_false read_next_false [OF _ store_type_false]
        read_next_false [OF _ store_command_false])
qed

lemma deserialize_false_status:
  "maestro_deserialize_note mp al inp n st = Some (False, n', st') \<Longrightarrow> \<not> gru_status_success st'"
  by (auto simp: maestro_deserialize_note_def bind_eq_Some_conv dest: deserialize_buffer_false)

end
