(* ===== verification/Wire.thy ===== *)
theory Wire
  imports Deserialize
begin

text \<open>
  What \<open>maestro_serialize.c\<close> and \<open>maestro_deserialize.c\<close> promise each other: a note
  that went through the wire says the same as before. The reading side is
  followed field by field inside the locale \<open>msgpack\<close>, from the contract of the
  library alone; the top-level theorems state the round trip for every
  implementation of that contract.
\<close>

section \<open>One object into one field\<close>

lemma take_le_bytes: "j \<le> k \<Longrightarrow> take j (le_bytes k n) = le_bytes j n"
proof (induction j arbitrary: k n)
  case (Suc j)
  then obtain k' where "k = Suc k'" and "j \<le> k'" by (cases k) auto
  with Suc.IH [of k'] show ?case by simp
qed simp

lemma drop_le_bytes: "j \<le> k \<Longrightarrow> drop j (le_bytes k n) = le_bytes (k - j) (n div 256 ^ j)"
proof (induction j arbitrary: k n)
  case (Suc j)
  then obtain k' where "k = Suc k'" and "j \<le> k'" by (cases k) auto
  with Suc.IH [of k' "n div 256"] show ?case by (simp add: div_mult2_eq)
qed simp

lemma le_bytes_zero: "le_bytes k 0 = zero_block k"
  by (induction k) (simp_all add: zero_block_def NUL_def char_of_def)

text \<open>A string the two sides can exchange: no NUL in it, its buffer can be
  allocated and its length is within the precision \<open>snprintf\<close> takes.\<close>

definition text_ok :: "gru_allocator \<Rightarrow> string \<Rightarrow> bool" where
  "text_ok al s = (no_nul s \<and> length s < 2 ^ 31 \<and> al (Suc (length s)) = None)"

lemma text_ok_token: "text_ok al s \<Longrightarrow> token_ok (TStr s)"
  by (simp add: text_ok_def)

lemma via_str_size_Suc:
  assumes "length s < 2 ^ 31"
  shows "unat (via_str_size (str_object s) + 1) = Suc (length s)"
proof -
  have "via_str_size (str_object s) + 1 = word_of_nat (Suc (length s))"
    by (simp add: via_str_size_str_object)
  moreover have "Suc (length s) < 2 ^ 32" using assms by simp
  ultimately show ?thesis by (simp only: unat_word_of_nat32)
qed

lemma buffer_write_chars:
  assumes "no_nul s" and "unat n = Suc (length s)"
  shows "buffer_write n (WChars s) = Some s"
  using assms by (simp add: buffer_write_def overlay_def)

lemma assign_str:
  assumes "no_nul s" and "length s < 2 ^ 31"
  shows "maestro_deserialize_note_assign (str_object s) st = Some (Some (WChars s), st)"
  using assms
  by (simp add: maestro_deserialize_note_assign_def via_str_size_str_object unat_word_of_nat32)

lemma assign_number:
  "ob_type ob \<in> {MP_POSITIVE_INTEGER, MP_NEGATIVE_INTEGER, MP_FLOAT} \<Longrightarrow>
   maestro_deserialize_note_assign ob st = Some (Some (WWord (ob_via ob)), st)"
  by (auto simp: maestro_deserialize_note_assign_def)

text \<open>The field a token fits in, and what the field holds afterwards.\<close>

fun field_index :: "field \<Rightarrow> nat" where
  "field_index (FNum msg i) = i"
| "field_index (FText msg i) = i"

fun field_takes :: "gru_allocator \<Rightarrow> field \<Rightarrow> mp_token \<Rightarrow> bool" where
  "field_takes al (FNum msg i) (TStr s) = False"
| "field_takes al (FNum msg i) t = (i < payload_cells)"
| "field_takes al (FText msg i) (TStr s) = (i < payload_cells \<and> text_ok al s)"
| "field_takes al (FText msg i) t = False"

fun token_cell :: "mp_token \<Rightarrow> cell" where
  "token_cell (TStr s) = Str s"
| "token_cell t = Bits (ob_via (token_object t))"

fun fill_fields :: "field list \<Rightarrow> mp_token list \<Rightarrow> payload \<Rightarrow> payload" where
  "fill_fields (f # fs) (t # ts) p = fill_fields fs ts (p[field_index f := token_cell t])"
| "fill_fields fs ts p = p"

definition with_payload :: "payload \<Rightarrow> dstate \<Rightarrow> dstate" where
  "with_payload p d = d\<lparr>d_note := d_note d\<lparr>n_payload := PAt p\<rparr>\<rparr>"

lemma field_takes_token_ok: "field_takes al f t \<Longrightarrow> token_ok t"
  by (cases f; cases t) (simp_all add: text_ok_def)

lemma number_token:
  "field_takes al (FNum msg i) t \<Longrightarrow>
   ob_type (token_object t) \<in> {MP_POSITIVE_INTEGER, MP_NEGATIVE_INTEGER, MP_FLOAT} \<and>
   token_cell t = Bits (ob_via (token_object t)) \<and> i < payload_cells"
  by (cases t) (simp_all add: int_object_def)

lemma text_token:
  "field_takes al (FText msg i) t \<Longrightarrow> \<exists>s. t = TStr s \<and> text_ok al s \<and> i < payload_cells"
  by (cases t) simp_all

lemma store_num_token:
  assumes "field_takes al (FNum msg i) t"
    and "n_payload (d_note d) = PAt p" and "length p = payload_cells"
  shows "store_num i (token_object t) d = Some (True, with_payload (p[i := token_cell t]) d)"
  using assms number_token [OF assms(1)]
  by (simp add: store_num_def assign_number note_cell_def note_store_def cell_write_def with_payload_def)

lemma store_text_token:
  assumes "text_ok al s" and "i < payload_cells"
    and "n_payload (d_note d) = PAt p" and "length p = payload_cells"
  shows "store_text al i (str_object s) d = Some (True, with_payload (p[i := Str s]) d)"
proof -
  from assms(1) have s: "no_nul s" "length s < 2 ^ 31" "al (Suc (length s)) = None"
    by (simp_all add: text_ok_def)
  note u = via_str_size_Suc [OF s(2)]
  from assms s show ?thesis
    by (simp add: store_text_def u assign_str buffer_write_chars note_store_def with_payload_def)
qed

section \<open>A sequence of fields\<close>

context msgpack begin

lemma read_next_token:
  assumes "token_ok t" and "drop (d_off d) (input_bytes buf) = token_bytes mp t @ rest"
  shows "read_next mp buf msg k d = k (token_object t) (d\<lparr>d_off := d_off d + length (token_bytes mp t)\<rparr>)"
  using unpack_token [OF assms] by (simp add: read_next_def)

lemma read_field_token:
  assumes "field_takes al f t" and "drop (d_off d) (input_bytes buf) = token_bytes mp t @ rest"
    and "n_payload (d_note d) = PAt p" and "length p = payload_cells"
  shows "read_field mp al buf f d = Some (True,
    with_payload (p[field_index f := token_cell t]) (d\<lparr>d_off := d_off d + length (token_bytes mp t)\<rparr>))"
proof (cases f)
  case (FNum msg i)
  with assms read_next_token [OF field_takes_token_ok [OF assms(1)] assms(2)] show ?thesis
    by (simp add: store_num_token)
next
  case (FText msg i)
  with assms(1) text_token obtain s where "t = TStr s" "text_ok al s" "i < payload_cells" by metis
  with FText assms read_next_token [OF field_takes_token_ok [OF assms(1)] assms(2)] show ?thesis
    by (simp add: store_text_token)
qed

lemma read_fields_tokens:
  assumes "list_all2 (field_takes al) fs ts" and "drop (d_off d) (input_bytes buf) = tokens_bytes mp ts @ rest"
    and "n_payload (d_note d) = PAt p" and "length p = payload_cells"
  shows "read_fields mp al buf fs d = Some (True,
    with_payload (fill_fields fs ts p) (d\<lparr>d_off := d_off d + length (tokens_bytes mp ts)\<rparr>))"
  using assms
proof (induction fs ts arbitrary: d p rule: list_all2_induct)
  case Nil
  then show ?case by (cases d) (simp add: with_payload_def)
next
  case (Cons f fs t ts)
  let ?p = "p[field_index f := token_cell t]"
  let ?d = "with_payload ?p (d\<lparr>d_off := d_off d + length (token_bytes mp t)\<rparr>)"
  from Cons.prems have dr: "drop (d_off d) (input_bytes buf) = token_bytes mp t @ tokens_bytes mp ts @ rest" by simp
  have one: "read_field mp al buf f d = Some (True, ?d)"
    using Cons.hyps(1) dr Cons.prems(2,3) by (rule read_field_token)
  have "drop (d_off ?d) (input_bytes buf) = tokens_bytes mp ts @ rest"
    using unpack_token_rest [OF dr] by (simp add: with_payload_def)
  then have "read_fields mp al buf fs ?d = Some (True,
      with_payload (fill_fields fs ts ?p) (?d\<lparr>d_off := d_off ?d + length (tokens_bytes mp ts)\<rparr>))"
    by (rule Cons.IH) (use Cons.prems in \<open>simp_all add: with_payload_def\<close>)
  with one show ?case by (simp add: with_payload_def add.assoc)
qed

end

section \<open>The type and the command\<close>

lemma le_val_low: "n < 2 ^ 32 \<Longrightarrow> le_val (le_bytes 4 n) = n"
  by (rule le_val_le_bytes) simp

lemma unat_u32_bound: "unat (c :: u32) < 2 ^ 32"
  using unsigned_less [of c] by simp

lemma le_val_u32 [simp]: "le_val (le_bytes 4 (unat (c :: u32))) = unat c"
  using unat_u32_bound by (rule le_val_low)

lemma note_write_type:
  assumes "unat w < 2 ^ 32"
  shows "note_write 0 (write_bytes (WWord w)) zero_note = Some (zero_note\<lparr>n_type := ucast w\<rparr>)"
proof -
  have "unat w div 256 ^ 4 = 0" using assms by simp
  with assms show ?thesis
    by (simp add: note_write_def zero_note_def take_le_bytes drop_le_bytes le_val_low
        word_of_nat_eq_iff del: le_bytes.simps)
qed

lemma note_write_command:
  assumes "unat w < 2 ^ 32" and "n_payload n = PNull"
  shows "note_write 4 (write_bytes (WWord w)) n = Some (n\<lparr>n_command := ucast w\<rparr>)"
proof -
  have z: "unat w div 256 ^ 4 = 0" using assms by simp
  from assms show ?thesis
    by (cases n) (simp add: note_write_def Let_def take_le_bytes drop_le_bytes le_val_low z unat_u32_bound
        le_bytes_zero zero_block_def del: le_bytes.simps)
qed

lemma unat_ucast_up: "unat (ucast (c :: u32) :: u64) = unat c"
  by (simp add: unsigned_ucast_eq take_bit_nat_eq_self unat_u32_bound order.strict_trans [OF unat_u32_bound])

lemma ucast_u32_u64 [simp]: "ucast (ucast (c :: u32) :: u64) = c"
  by (rule bit_word_eqI) (simp add: bit_simps)

lemma ucast_u8_u64 [simp]: "ucast (ucast (c :: u8) :: u64) = c"
  by (rule bit_word_eqI) (simp add: bit_simps)

lemma type_token:
  "token_object (TInt8 (ucast (type_code t))) = pos_object (ucast (type_code t))"
  by (cases t) (simp_all add: int_object_nonneg)

definition head_note :: "maestro_request_type \<Rightarrow> u32 \<Rightarrow> maestro_note" where
  "head_note t c = \<lparr>n_type = type_code t, n_command = c, n_payload = PNull\<rparr>"

lemma store_type_token:
  assumes "d_note d = zero_note"
  shows "store_type (token_object (TInt8 (ucast (type_code t)))) d
    = Some (True, d\<lparr>d_note := head_note t 0\<rparr>)"
proof -
  have "unat (ucast (type_code t) :: u64) < 2 ^ 32"
    by (simp only: unat_ucast_up unat_u32_bound)
  from note_write_type [OF this] assms show ?thesis
    unfolding store_type_def type_token
    by (simp add: assign_number head_note_def zero_note_def ucast_u32_u64 del: write_bytes.simps)
qed

lemma store_command_token:
  assumes "d_note d = head_note t 0"
  shows "store_command (token_object (TInt64 (ucast c))) d = Some (True, d\<lparr>d_note := head_note t c\<rparr>)"
proof -
  have "unat (ucast c :: u64) < 2 ^ 32" by (simp only: unat_ucast_up unat_u32_bound)
  from note_write_command [OF this] assms show ?thesis
    by (simp add: store_command_def assign_number int_object_def head_note_def ucast_u32_u64
        del: write_bytes.simps)
qed

section \<open>Whole messages\<close>

text \<open>The strings of a message, and the messages both sides can exchange: the
  commands that carry a payload of their own are not plain.\<close>

fun message_texts :: "maestro_message \<Rightarrow> string list" where
  "message_texts (Set_Request opt v) = [v]"
| "message_texts (Ping_Request sec usec) = []"
| "message_texts (Plain_Request c) = []"
| "message_texts (Ping_Response cid name e) = [cid, name]"
| "message_texts (Stats_Response cid name cc role info ty ts c r l) = [cid, name, role, info, ts]"
| "message_texts (Plain_Response c cid name) = [cid, name]"
| "message_texts (Notification c cid name m) = [cid, name, m]"

fun message_proper :: "maestro_message \<Rightarrow> bool" where
  "message_proper (Plain_Request c) =
     (c \<noteq> command_code MAESTRO_NOTE_SET \<and> c \<noteq> command_code MAESTRO_NOTE_PING)"
| "message_proper (Plain_Response c cid name) =
     (c \<noteq> command_code MAESTRO_NOTE_PING \<and> c \<noteq> command_code MAESTRO_NOTE_STATS)"
| "message_proper m = True"

text \<open>Everything the receiving side allocates for the message is granted.\<close>

definition message_ok :: "gru_allocator \<Rightarrow> maestro_message \<Rightarrow> bool" where
  "message_ok al m = (al sizeof_payload = None \<and> list_all (text_ok al) (message_texts m))"

lemma note_view_proper: "note_view n = Some m \<Longrightarrow> message_proper m"
  by (auto simp: note_view_def request_view_def response_view_def stats_view_def notification_view_def
      bind_eq_Some_conv split: if_splits)

text \<open>The header and the fields behind it.\<close>

fun message_head :: "maestro_message \<Rightarrow> maestro_request_type \<times> u32" where
  "message_head (Set_Request opt v) = (MAESTRO_TYPE_REQUEST, command_code MAESTRO_NOTE_SET)"
| "message_head (Ping_Request sec usec) = (MAESTRO_TYPE_REQUEST, command_code MAESTRO_NOTE_PING)"
| "message_head (Plain_Request c) = (MAESTRO_TYPE_REQUEST, c)"
| "message_head (Ping_Response cid name e) = (MAESTRO_TYPE_RESPONSE, command_code MAESTRO_NOTE_PING)"
| "message_head (Stats_Response cid name cc role info ty ts c r l) =
     (MAESTRO_TYPE_RESPONSE, command_code MAESTRO_NOTE_STATS)"
| "message_head (Plain_Response c cid name) = (MAESTRO_TYPE_RESPONSE, c)"
| "message_head (Notification c cid name m) = (MAESTRO_TYPE_NOTIFICATION, c)"

definition body_tokens :: "maestro_message \<Rightarrow> mp_token list" where
  "body_tokens m = drop 2 (message_tokens m)"

lemma message_tokens_split:
  "message_tokens m = TInt8 (ucast (type_code (fst (message_head m)))) #
     TInt64 (ucast (snd (message_head m))) # body_tokens m"
  by (cases m) (simp_all add: head_tokens_def body_tokens_def)

definition message_head_note :: "maestro_message \<Rightarrow> maestro_note" where
  "message_head_note m = head_note (fst (message_head m)) (snd (message_head m))"

context msgpack begin

lemma read_head:
  assumes "drop (d_off d) (input_bytes buf) = message_bytes mp m @ rest" and "d_note d = zero_note"
  shows "\<exists>off. maestro_deserialize_buffer mp al buf d
      = deserialize_payload mp al buf (d\<lparr>d_off := off, d_note := message_head_note m\<rparr>) \<and>
    drop off (input_bytes buf) = tokens_bytes mp (body_tokens m) @ rest"
proof -
  let ?t = "TInt8 (ucast (type_code (fst (message_head m))))" and ?c = "TInt64 (ucast (snd (message_head m)))"
  let ?o1 = "d_off d + length (token_bytes mp ?t)"
  let ?d1 = "d\<lparr>d_off := ?o1, d_note := head_note (fst (message_head m)) 0\<rparr>"
  from assms(1) have dr: "drop (d_off d) (input_bytes buf) = token_bytes mp ?t @ token_bytes mp ?c @
      tokens_bytes mp (body_tokens m) @ rest"
    by (simp add: message_bytes_def message_tokens_split)
  have dr1: "drop ?o1 (input_bytes buf) = token_bytes mp ?c @ tokens_bytes mp (body_tokens m) @ rest"
    by (rule unpack_token_rest [OF dr])
  then have dr1': "drop (d_off ?d1) (input_bytes buf) = token_bytes mp ?c @ tokens_bytes mp (body_tokens m) @ rest"
    by simp
  note dr2 = unpack_token_rest [OF dr1]
  have "read_next mp buf msg store_type d = Some (True, ?d1)" for msg
    using read_next_token [OF _ dr, of msg store_type] assms(2)
    by (simp add: store_type_token del: token_object.simps)
  moreover have "read_next mp buf msg store_command ?d1
      = Some (True, ?d1\<lparr>d_off := ?o1 + length (token_bytes mp ?c), d_note := message_head_note m\<rparr>)" for msg
    using read_next_token [OF _ dr1', of msg store_command]
    by (simp add: store_command_token message_head_note_def del: token_object.simps)
  ultimately have "maestro_deserialize_buffer mp al buf d = deserialize_payload mp al buf
      (d\<lparr>d_off := ?o1 + length (token_bytes mp ?c), d_note := message_head_note m\<rparr>)"
    by (simp add: maestro_deserialize_buffer_def)
  with dr2 show ?thesis by blast
qed

text \<open>The fields of each message, read from a fresh payload.\<close>

lemma read_fresh:
  assumes "list_all2 (field_takes al) fs ts" and "drop (d_off d) (input_bytes buf) = tokens_bytes mp ts @ rest"
  shows "read_fields mp al buf fs (with_payload zero_payload d) = Some (True,
    with_payload (fill_fields fs ts zero_payload) (d\<lparr>d_off := d_off d + length (tokens_bytes mp ts)\<rparr>))"
  using read_fields_tokens [of al fs ts "with_payload zero_payload d" buf rest zero_payload] assms
  by (simp add: with_payload_def)

lemma read_more:
  assumes "list_all2 (field_takes al) gs us" and "drop off (input_bytes buf) = tokens_bytes mp us @ rest"
    and "length p = payload_cells"
  shows "read_fields mp al buf gs (with_payload p (d\<lparr>d_off := off\<rparr>)) = Some (True,
    with_payload (fill_fields gs us p) (d\<lparr>d_off := off + length (tokens_bytes mp us)\<rparr>))"
  using read_fields_tokens [of al gs us "with_payload p (d\<lparr>d_off := off\<rparr>)" buf rest p] assms
  by (simp add: with_payload_def)

end

lemma length_fill_fields [simp]: "length (fill_fields fs ts p) = length p"
  by (induction fs ts p rule: fill_fields.induct) simp_all

lemma prepare_payload_ok:
  "al sizeof_payload = None \<Longrightarrow> prepare_payload al d = (True, with_payload zero_payload d)"
  by (simp add: prepare_payload_def payload_prepare_ok with_payload_def)

lemma with_payload_sel [simp]:
  "n_payload (d_note (with_payload p d)) = PAt p"
  "n_type (d_note (with_payload p d)) = n_type (d_note d)"
  "n_command (d_note (with_payload p d)) = n_command (d_note d)"
  "d_status (with_payload p d) = d_status d"
  by (simp_all add: with_payload_def)

lemmas view_defs = note_view_def request_view_def response_view_def stats_view_def
  notification_view_def note_str_def note_bits_def note_cell_def

lemmas payload_read_defs = deserialize_payload_def maestro_deserialize_request_def
  maestro_deserialize_note_set_request_def maestro_deserialize_note_ping_request_def
  maestro_deserialize_response_def maestro_deserialize_response_header_def
  maestro_deserialize_note_ping_response_def maestro_deserialize_note_stats_response_def
  maestro_deserialize_notification_def maestro_deserialize_notification_header_def
  prepare_payload_ok message_head_note_def head_note_def

definition body_read :: "msgpack_api \<Rightarrow> gru_allocator \<Rightarrow> msg_input \<Rightarrow> maestro_message \<Rightarrow> dstate \<Rightarrow> bool" where
  "body_read mp al buf m d \<longleftrightarrow> (\<exists>d'. deserialize_payload mp al buf d = Some (True, d') \<and>
     d_status d' = d_status d \<and> note_view (d_note d') = Some m \<and> note_wf (d_note d'))"

context msgpack begin

lemma body_readI:
  assumes "deserialize_payload mp al buf d = Some (True, with_payload p (d\<lparr>d_off := off\<rparr>))"
    and "length p = payload_cells"
    and "note_view ((d_note d)\<lparr>n_payload := PAt p\<rparr>) = Some m"
  shows "body_read mp al buf m d"
  using assms by (simp add: body_read_def note_wf_def) (simp add: with_payload_def)

lemma read_set_request:
  assumes "message_ok al (Set_Request opt v)" and "d_note d = message_head_note (Set_Request opt v)"
    and "drop (d_off d) (input_bytes buf) = tokens_bytes mp [TInt64 opt, TStr v] @ rest"
  shows "body_read mp al buf (Set_Request opt v) d"
proof (rule body_readI)
  have "list_all2 (field_takes al) [FNum e1 set_opt_cell, FText e2 set_value] [TInt64 opt, TStr v]" for e1 e2
    using assms(1) by (simp add: message_ok_def payload_cells_def)
  from read_fresh [OF this assms(3)] assms(1,2)
  show "deserialize_payload mp al buf d = Some (True, with_payload
      (zero_payload[0 := Bits opt, 1 := Str v])
      (d\<lparr>d_off := d_off d + length (tokens_bytes mp [TInt64 opt, TStr v])\<rparr>))"
    by (simp add: payload_read_defs message_ok_def del: read_fields.simps)
qed (use assms(2) in \<open>simp_all add: view_defs message_head_note_def head_note_def payload_cells_def\<close>)

lemma read_ping_request:
  assumes "message_ok al (Ping_Request sec usec)" and "d_note d = message_head_note (Ping_Request sec usec)"
    and "drop (d_off d) (input_bytes buf) = tokens_bytes mp [TUint64 sec, TUint64 usec] @ rest"
  shows "body_read mp al buf (Ping_Request sec usec) d"
proof (rule body_readI)
  have "list_all2 (field_takes al) [FNum e1 ping_sec, FNum e2 ping_usec] [TUint64 sec, TUint64 usec]" for e1 e2
    by (simp add: payload_cells_def)
  from read_fresh [OF this assms(3)] assms(1,2)
  show "deserialize_payload mp al buf d = Some (True, with_payload
      (zero_payload[0 := Bits sec, 1 := Bits usec])
      (d\<lparr>d_off := d_off d + length (tokens_bytes mp [TUint64 sec, TUint64 usec])\<rparr>))"
    by (simp add: payload_read_defs message_ok_def del: read_fields.simps)
qed (use assms(2) in \<open>simp_all add: view_defs message_head_note_def head_note_def payload_cells_def\<close>)

lemma read_plain_request:
  assumes "message_proper (Plain_Request c)" and "d_note d = message_head_note (Plain_Request c)"
  shows "body_read mp al buf (Plain_Request c) d"
  using assms by (simp add: body_read_def payload_read_defs view_defs note_wf_def del: command_code.simps)

lemma read_names:
  assumes "text_ok al cid" and "text_ok al name"
    and "drop (d_off d) (input_bytes buf) = tokens_bytes mp (TStr cid # TStr name # us) @ rest"
  shows "\<exists>off. (\<forall>e1 e2. read_fields mp al buf [FText e1 0, FText e2 1] (with_payload zero_payload d)
      = Some (True, with_payload (zero_payload[0 := Str cid, 1 := Str name]) (d\<lparr>d_off := off\<rparr>))) \<and>
    drop off (input_bytes buf) = tokens_bytes mp us @ rest"
proof (intro exI conjI allI)
  let ?off = "d_off d + length (tokens_bytes mp [TStr cid, TStr name])"
  have b: "drop (d_off d) (input_bytes buf) = tokens_bytes mp [TStr cid, TStr name] @ tokens_bytes mp us @ rest"
    using assms(3) by simp
  have "list_all2 (field_takes al) [FText e1 0, FText e2 1] [TStr cid, TStr name]" for e1 e2
    using assms(1,2) by (simp add: payload_cells_def)
  from read_fresh [OF this b]
  show "read_fields mp al buf [FText e1 0, FText e2 1] (with_payload zero_payload d)
      = Some (True, with_payload (zero_payload[0 := Str cid, 1 := Str name]) (d\<lparr>d_off := ?off\<rparr>))" for e1 e2
    by (simp del: read_fields.simps)
  show "drop ?off (input_bytes buf) = tokens_bytes mp us @ rest"
    using b by (metis add.commute append_eq_conv_conj drop_drop)
qed

lemma read_plain_response:
  assumes "message_ok al (Plain_Response c cid name)" and "message_proper (Plain_Response c cid name)"
    and "d_note d = message_head_note (Plain_Response c cid name)"
    and "drop (d_off d) (input_bytes buf) = tokens_bytes mp [TStr cid, TStr name] @ rest"
  shows "body_read mp al buf (Plain_Response c cid name) d"
proof -
  from assms(1) have t: "text_ok al cid" "text_ok al name" by (simp_all add: message_ok_def)
  from read_names [OF t assms(4)] obtain off where
    "\<forall>e1 e2. read_fields mp al buf [FText e1 0, FText e2 1] (with_payload zero_payload d)
      = Some (True, with_payload (zero_payload[0 := Str cid, 1 := Str name]) (d\<lparr>d_off := off\<rparr>))"
    by blast
  with assms(1-3) have "deserialize_payload mp al buf d = Some (True, with_payload
      (zero_payload[0 := Str cid, 1 := Str name]) (d\<lparr>d_off := off\<rparr>))"
    by (simp add: payload_read_defs message_ok_def del: read_fields.simps command_code.simps)
  then show ?thesis
    by (rule body_readI) (use assms(2,3) in
      \<open>simp_all add: view_defs message_head_note_def head_note_def payload_cells_def del: command_code.simps\<close>)
qed

lemma read_ping_response:
  assumes "message_ok al (Ping_Response cid name e)"
    and "d_note d = message_head_note (Ping_Response cid name e)"
    and "drop (d_off d) (input_bytes buf) = tokens_bytes mp [TStr cid, TStr name, TUint64 e] @ rest"
  shows "body_read mp al buf (Ping_Response cid name e) d"
proof -
  from assms(1) have t: "text_ok al cid" "text_ok al name" by (simp_all add: message_ok_def)
  let ?p = "zero_payload[0 := Str cid, 1 := Str name]"
  from read_names [OF t assms(3)] obtain off where
    r: "\<forall>e1 e2. read_fields mp al buf [FText e1 0, FText e2 1] (with_payload zero_payload d)
      = Some (True, with_payload ?p (d\<lparr>d_off := off\<rparr>))"
    and o: "drop off (input_bytes buf) = tokens_bytes mp [TUint64 e] @ rest"
    by blast
  have l: "list_all2 (field_takes al) [FNum e1 ping_elapsed] [TUint64 e]" for e1
    by (simp add: payload_cells_def)
  have "read_fields mp al buf [FNum e1 ping_elapsed] (with_payload ?p (d\<lparr>d_off := off\<rparr>)) = Some (True,
      with_payload (?p[2 := Bits e]) (d\<lparr>d_off := off + length (tokens_bytes mp [TUint64 e])\<rparr>))" for e1
    using read_more [OF l o, where p = ?p and d = d] by (simp del: read_fields.simps)
  with r assms(1,2) have "deserialize_payload mp al buf d = Some (True, with_payload
      (?p[2 := Bits e]) (d\<lparr>d_off := off + length (tokens_bytes mp [TUint64 e])\<rparr>))"
    by (simp add: payload_read_defs message_ok_def del: read_fields.simps)
  then show ?thesis
    by (rule body_readI) (use assms(2) in
      \<open>simp_all add: view_defs message_head_note_def head_note_def payload_cells_def\<close>)
qed

lemma read_notification:
  assumes "message_ok al (Notification c cid name m)"
    and "d_note d = message_head_note (Notification c cid name m)"
    and "drop (d_off d) (input_bytes buf) = tokens_bytes mp [TStr cid, TStr name, TStr m] @ rest"
  shows "body_read mp al buf (Notification c cid name m) d"
proof -
  from assms(1) have t: "text_ok al cid" "text_ok al name" by (simp_all add: message_ok_def)
  let ?p = "zero_payload[0 := Str cid, 1 := Str name]"
  from read_names [OF t assms(3)] obtain off where
    r: "\<forall>e1 e2. read_fields mp al buf [FText e1 0, FText e2 1] (with_payload zero_payload d)
      = Some (True, with_payload ?p (d\<lparr>d_off := off\<rparr>))"
    and o: "drop off (input_bytes buf) = tokens_bytes mp [TStr m] @ rest"
    by blast
  have l: "list_all2 (field_takes al) [FText e1 notification_message] [TStr m]" for e1
    using assms(1) by (simp add: message_ok_def payload_cells_def)
  have "read_fields mp al buf [FText e1 notification_message] (with_payload ?p (d\<lparr>d_off := off\<rparr>)) = Some (True,
      with_payload (?p[2 := Str m]) (d\<lparr>d_off := off + length (tokens_bytes mp [TStr m])\<rparr>))" for e1
    using read_more [OF l o, where p = ?p and d = d] by (simp del: read_fields.simps)
  with r assms(1,2) have "deserialize_payload mp al buf d = Some (True, with_payload
      (?p[2 := Str m]) (d\<lparr>d_off := off + length (tokens_bytes mp [TStr m])\<rparr>))"
    by (simp add: payload_read_defs message_ok_def del: read_fields.simps)
  then show ?thesis
    by (rule body_readI) (use assms(2) in
      \<open>simp_all add: view_defs message_head_note_def head_note_def payload_cells_def\<close>)
qed

lemma read_stats_response:
  assumes ok: "message_ok al (Stats_Response cid name cc role info ty ts c r l)"
    and n: "d_note d = message_head_note (Stats_Response cid name cc role info ty ts c r l)"
    and b: "drop (d_off d) (input_bytes buf) = tokens_bytes mp ([TStr cid, TStr name] @
      [TUint32 cc, TStr role, TStr info, TUint8 ty, TStr ts, TUint64 c, TDouble r, TDouble l]) @ rest"
  shows "body_read mp al buf (Stats_Response cid name cc role info ty ts c r l) d"
proof -
  from ok have t: "text_ok al cid" "text_ok al name" by (simp_all add: message_ok_def)
  let ?p = "zero_payload[0 := Str cid, 1 := Str name]"
  let ?us = "[TUint32 cc, TStr role, TStr info, TUint8 ty, TStr ts, TUint64 c, TDouble r, TDouble l]"
  let ?q = "?p[2 := Bits (ucast cc), 3 := Str role, 4 := Str info, 5 := Bits (ucast ty), 6 := Str ts,
    7 := Bits c, 8 := Bits r, 9 := Bits l]"
  from read_names [OF t, of d buf ?us rest] b obtain off where
    h: "\<forall>e1 e2. read_fields mp al buf [FText e1 0, FText e2 1] (with_payload zero_payload d)
      = Some (True, with_payload ?p (d\<lparr>d_off := off\<rparr>))"
    and o: "drop off (input_bytes buf) = tokens_bytes mp ?us @ rest"
    by auto
  have "read_fields mp al buf [FNum e1 2, FText e2 3, FText e3 4, FNum e4 5, FText e5 6, FNum e6 7,
      FNum e7 8, FNum e8 9] (with_payload ?p (d\<lparr>d_off := off\<rparr>)) = Some (True,
      with_payload ?q (d\<lparr>d_off := off + length (tokens_bytes mp ?us)\<rparr>))" for e1 e2 e3 e4 e5 e6 e7 e8
    using read_more [OF _ o, of al "[FNum e1 2, FText e2 3, FText e3 4, FNum e4 5, FText e5 6, FNum e6 7,
      FNum e7 8, FNum e8 9]" ?p d] ok
    by (simp add: message_ok_def payload_cells_def del: read_fields.simps)
  with h ok n have "deserialize_payload mp al buf d = Some (True, with_payload ?q
      (d\<lparr>d_off := off + length (tokens_bytes mp ?us)\<rparr>))"
    by (simp add: payload_read_defs message_ok_def del: read_fields.simps)
  then show ?thesis
    by (rule body_readI) (use n in
      \<open>simp_all add: view_defs message_head_note_def head_note_def payload_cells_def\<close>)
qed

lemma read_body:
  assumes "message_ok al m" and "message_proper m" and "d_note d = message_head_note m"
    and "drop (d_off d) (input_bytes buf) = tokens_bytes mp (body_tokens m) @ rest"
  shows "body_read mp al buf m d"
proof (cases m)
  case (Set_Request opt v)
  show ?thesis unfolding Set_Request
    by (rule read_set_request) (use assms Set_Request in \<open>simp_all add: body_tokens_def head_tokens_def\<close>)
next
  case (Ping_Request sec usec)
  show ?thesis unfolding Ping_Request
    by (rule read_ping_request) (use assms Ping_Request in \<open>simp_all add: body_tokens_def head_tokens_def\<close>)
next
  case (Plain_Request c)
  show ?thesis unfolding Plain_Request
    by (rule read_plain_request) (use assms Plain_Request in \<open>simp_all add: body_tokens_def head_tokens_def\<close>)
next
  case (Ping_Response cid name e)
  show ?thesis unfolding Ping_Response
    by (rule read_ping_response) (use assms Ping_Response in \<open>simp_all add: body_tokens_def head_tokens_def\<close>)
next
  case (Stats_Response cid name cc role info ty ts c r l)
  show ?thesis unfolding Stats_Response
    by (rule read_stats_response) (use assms Stats_Response in \<open>simp_all add: body_tokens_def head_tokens_def\<close>)
next
  case (Plain_Response c cid name)
  show ?thesis unfolding Plain_Response
    by (rule read_plain_response) (use assms Plain_Response in \<open>simp_all add: body_tokens_def head_tokens_def\<close>)
next
  case (Notification c cid name t)
  show ?thesis unfolding Notification
    by (rule read_notification) (use assms Notification in \<open>simp_all add: body_tokens_def head_tokens_def\<close>)
qed

text \<open>A buffer that starts with the bytes of a message is read as that message, also when the size
  recorded goes beyond the block.\<close>

lemma deserialize_input:
  assumes "message_ok al m" and "message_proper m" and "content_input inp = Some buf" and "input_bytes buf = message_bytes mp m @ rest"
  shows "\<exists>n. maestro_deserialize_note mp al inp zero_note st = Some (True, n, st) \<and>
    note_view n = Some m \<and> note_wf n"
proof -
  let ?d = "\<lparr>d_note = zero_note, d_off = 0, d_status = st\<rparr>"
  obtain off where
    h: "maestro_deserialize_buffer mp al buf ?d
      = deserialize_payload mp al buf (?d\<lparr>d_off := off, d_note := message_head_note m\<rparr>)"
    and o: "drop off (input_bytes buf) = tokens_bytes mp (body_tokens m) @ rest"
    using read_head [of ?d buf m rest al] assms(4) by auto
  have "body_read mp al buf m (?d\<lparr>d_off := off, d_note := message_head_note m\<rparr>)"
    using assms(1,2) _ _ by (rule read_body) (use o in simp_all)
  with h assms(3) show ?thesis
    by (auto simp: maestro_deserialize_note_def body_read_def)
qed

lemma deserialize_message:
  assumes "message_ok al m" and "message_proper m" and "content_bytes inp = Some (message_bytes mp m @ rest)"
  shows "\<exists>n. maestro_deserialize_note mp al inp zero_note st = Some (True, n, st) \<and>
    note_view n = Some m \<and> note_wf n"
  using assms(1,2) content_input_bytes [OF assms(3)] by (rule deserialize_input) simp

end

section \<open>Properties\<close>

lemma cell_str_eq: "cell_str c = Some s \<longleftrightarrow> c = Str s"
  by (cases c) auto

text \<open>A note whose content can be read has nothing in it that cannot be freed.\<close>

lemma note_view_cleanup:
  assumes "note_view n = Some m" and "n_payload n \<noteq> PWild"
  shows "maestro_note_payload_cleanup n = Some (n\<lparr>n_payload := PNull\<rparr>)"
proof (cases "n_payload n")
  case (PAt p)
  have *: "note_cell n i = Some c \<longleftrightarrow> i < length p \<and> p ! i = c" for i c
    using PAt by (simp add: note_cell_def)
  show ?thesis
    using assms PAt
    by (auto simp: maestro_note_payload_cleanup_def payload_free_strings_def dealloc_if_def note_view_def
        request_view_def response_view_def stats_view_def note_str_def * bind_eq_Some_conv cell_str_eq
        nth_list_update split: if_splits)
qed (use assms in \<open>auto simp: maestro_note_payload_cleanup_def\<close>)

text \<open>
  Property C1, note_roundtrip. Whatever msgpack implementation keeps the library's
  contract: a note that says \<open>m\<close> is serialized successfully into a well-formed
  container, and reading that container into a fresh note succeeds, leaves the
  status untouched and yields a note that says \<open>m\<close> again and can be freed. The
  hypotheses ask that the blocks needed can be allocated and that no string
  contains a NUL or is longer than an \<open>int\<close>.
\<close>

theorem note_roundtrip:
  assumes "msgpack mp" and "note_view n = Some m" and "message_ok al m"
    and "al (length (message_bytes mp m)) = None" and "length (message_bytes mp m) < 2 ^ 64"
  shows "\<exists>out' n'. maestro_serialize_note mp al n out = Some (True, out') \<and> content_wf out' \<and>
    maestro_deserialize_note mp al out' zero_note st = Some (True, n', st) \<and>
    note_view n' = Some m \<and> maestro_note_payload_cleanup n' = Some (n'\<lparr>n_payload := PNull\<rparr>)"
proof -
  let ?out = "snd (msg_content_data_copy al out (message_bytes mp m))"
  have ser: "maestro_serialize_note mp al n out = Some (True, ?out)"
    using serialize_note_view [OF assms(2)] by (simp add: emit_def)
  have "content_bytes ?out = Some (message_bytes mp m @ [])"
    using assms(4,5) by (simp add: copy_bytes)
  from msgpack.deserialize_message [OF assms(1,3) note_view_proper [OF assms(2)] this]
  obtain n' where n': "maestro_deserialize_note mp al ?out zero_note st = Some (True, n', st)"
    "note_view n' = Some m" "note_wf n'"
    by blast
  then have "maestro_note_payload_cleanup n' = Some (n'\<lparr>n_payload := PNull\<rparr>)"
    by (intro note_view_cleanup) (auto simp: note_wf_def)
  with ser n' copy_wf [OF assms(5)] show ?thesis by blast
qed

definition sample_set_note :: maestro_note where
  "sample_set_note = \<lparr>n_type = 0, n_command = 7,
     n_payload = PAt (zero_payload[0 := Bits 6, 1 := Str ''100''])\<rparr>"

lemma sample_set_view: "note_view sample_set_note = Some (Set_Request 6 ''100'')"
  by (simp add: sample_set_note_def view_defs payload_cells_def)

lemmas format_defs = message_bytes_def head_tokens_def msgpack_format_def fmt_sint_def fmt_uint_def fmt_str_def

lemma sample_set_length: "length (message_bytes msgpack_format (Set_Request 6 ''100'')) = 7"
  by (simp add: format_defs)

theorem note_roundtrip_witness:
  "\<exists>out' n'. maestro_serialize_note msgpack_format (\<lambda>k. None) sample_set_note zero_content = Some (True, out') \<and>
    content_wf out' \<and>
    maestro_deserialize_note msgpack_format (\<lambda>k. None) out' zero_note St_New = Some (True, n', St_New) \<and>
    note_view n' = Some (Set_Request 6 ''100'') \<and>
    maestro_note_payload_cleanup n' = Some (n'\<lparr>n_payload := PNull\<rparr>)"
  by (rule note_roundtrip [OF mpf.msgpack_axioms sample_set_view])
     (simp_all add: sample_set_length message_ok_def text_ok_def no_nul_def NUL_def)

section \<open>A command that does not fit its field\<close>

lemma char_of_eq_NUL: "char_of (k :: nat) = NUL \<longleftrightarrow> k mod 256 = 0"
proof
  assume "char_of k = NUL"
  then have "of_char (char_of k :: char) = (of_char NUL :: nat)" by simp
  then show "k mod 256 = 0" by (simp add: NUL_def)
next
  assume "k mod 256 = 0"
  then have "of_char (char_of k :: char) = (of_char NUL :: nat)" by (simp add: NUL_def)
  then show "char_of k = NUL" by (simp only: of_char_eq_iff)
qed

lemma spill_not_zero:
  assumes "k \<noteq> 0" and "k < 256 ^ j"
  shows "\<exists>b \<in> set (le_bytes j k). b \<noteq> NUL"
  using assms
proof (induction j arbitrary: k)
  case (Suc j)
  show ?case
  proof (cases "k mod 256 = 0")
    case True
    with Suc.prems have "k div 256 \<noteq> 0" "k div 256 < 256 ^ j"
      by (auto simp: less_mult_imp_div_less mult.commute)
    with Suc.IH show ?thesis by auto
  qed (simp add: char_of_eq_NUL)
qed simp

lemma le_val_le_bytes_mod: "le_val (le_bytes k n) = n mod 256 ^ k"
proof (induction k arbitrary: n)
  case (Suc k)
  then show ?case by (simp add: mod_mult2_eq)
qed simp

lemma word_of_low: "(word_of_nat (unat (w :: u64) mod 256 ^ 4) :: u32) = ucast w"
  by (rule word_unat_eq_iff [THEN iffD2]) (simp add: unsigned_of_nat unsigned_ucast_eq take_bit_eq_mod)

lemma unat_u32_mod: "unat (c :: u32) mod 256 ^ 4 = unat c"
  using unat_u32_bound by simp

lemma note_write_command_overflow:
  assumes "2 ^ 32 \<le> unat w" and "n_payload n = PNull"
  shows "note_write 4 (write_bytes (WWord w)) n = Some (n\<lparr>n_command := ucast w, n_payload := PWild\<rparr>)"
proof -
  have "unat w div 256 ^ 4 \<noteq> 0" using assms(1) by (simp add: div_eq_0_iff)
  moreover have "unat w div 256 ^ 4 < 256 ^ 4"
    using unsigned_less [of w, where 'a = nat] by (simp add: less_mult_imp_div_less)
  ultimately have "\<exists>b \<in> set (le_bytes 4 (unat w div 256 ^ 4)). b \<noteq> NUL" by (rule spill_not_zero)
  then have "le_bytes 4 (unat w div 256 ^ 4) \<noteq> []"
    "\<not> (\<forall>b \<in> set (le_bytes 4 (unat w div 256 ^ 4)). b = NUL)" by auto
  with assms(2) show ?thesis
    by (cases n) (simp add: note_write_def Let_def take_le_bytes drop_le_bytes le_val_le_bytes_mod
        word_of_low [simplified] unat_u32_mod [simplified] del: le_bytes.simps)
qed

lemma store_command_overflow:
  assumes "d_note d = head_note t 0" and "2 ^ 32 \<le> unat c"
  shows "store_command (token_object (TInt64 c)) d
    = Some (True, d\<lparr>d_note := head_note t (ucast c)\<lparr>n_payload := PWild\<rparr>\<rparr>)"
  using note_write_command_overflow [OF assms(2), of "head_note t 0"] assms(1)
  by (simp add: store_command_def assign_number int_object_def head_note_def del: write_bytes.simps)

context msgpack begin

lemma read_overflow:
  assumes "content_bytes inp = Some (tokens_bytes mp [TInt8 0, TInt64 c] @ rest)" and "2 ^ 32 \<le> unat c"
    and "ucast c \<noteq> command_code MAESTRO_NOTE_SET" and "ucast c \<noteq> command_code MAESTRO_NOTE_PING"
  shows "maestro_deserialize_note mp al inp zero_note st
    = Some (True, \<lparr>n_type = 0, n_command = ucast c, n_payload = PWild\<rparr>, st)"
proof -
  let ?t = "TInt8 (ucast (type_code MAESTRO_TYPE_REQUEST))" and ?c = "TInt64 c"
  let ?buf = "token_bytes mp ?t @ token_bytes mp ?c @ rest"
  let ?d = "\<lparr>d_note = zero_note, d_off = 0, d_status = st\<rparr>"
  let ?d1 = "?d\<lparr>d_off := length (token_bytes mp ?t), d_note := head_note MAESTRO_TYPE_REQUEST 0\<rparr>"
  have a: "read_next mp (Whole ?buf) msg store_type ?d = Some (True, ?d1)" for msg
    using read_next_token [of ?t ?d "Whole ?buf" "token_bytes mp ?c @ rest" msg store_type]
    by (simp add: store_type_token del: token_object.simps type_code.simps)
  have b: "read_next mp (Whole ?buf) msg store_command ?d1 = Some (True, ?d1\<lparr>
      d_off := length (token_bytes mp ?t) + length (token_bytes mp ?c),
      d_note := head_note MAESTRO_TYPE_REQUEST (ucast c)\<lparr>n_payload := PWild\<rparr>\<rparr>)" for msg
    using read_next_token [of ?c ?d1 "Whole ?buf" rest msg store_command] assms(2)
    by (simp add: store_command_overflow del: token_object.simps)
  have "content_bytes inp = Some ?buf" using assms(1) by simp
  with a b assms(3,4) show ?thesis
    by (simp add: maestro_deserialize_note_def maestro_deserialize_buffer_def deserialize_payload_def
        maestro_deserialize_request_def head_note_def)
qed

end

text \<open>
  Also proved, command_overflow. A request whose command does not fit in 32 bits
  (and does not look like a set or a ping in its low half) is read with success,
  but the eight bytes written into the four-byte \<open>command\<close> field overwrite half of
  the payload pointer: freeing the note that \<open>maestro_deserialize_note\<close> leaves is
  undefined.
\<close>

theorem command_overflow:
  assumes "msgpack mp" and "content_bytes inp = Some (tokens_bytes mp [TInt8 0, TInt64 c] @ rest)"
    and "2 ^ 32 \<le> unat c"
    and "ucast c \<noteq> command_code MAESTRO_NOTE_SET" and "ucast c \<noteq> command_code MAESTRO_NOTE_PING"
  shows "\<exists>n. maestro_deserialize_note mp al inp zero_note st = Some (True, n, st) \<and>
    maestro_note_payload_cleanup n = None"
  using msgpack.read_overflow [OF assms]
  by (simp add: maestro_note_payload_cleanup_def)

theorem command_overflow_witness:
  "\<exists>n. maestro_deserialize_note msgpack_format (\<lambda>k. None)
      (snd (msg_content_data_copy (\<lambda>k. None) zero_content
        (tokens_bytes msgpack_format [TInt8 0, TInt64 (2 ^ 32)]))) zero_note St_New = Some (True, n, St_New) \<and>
    maestro_note_payload_cleanup n = None"
proof (rule command_overflow [OF mpf.msgpack_axioms])
  show "content_bytes (snd (msg_content_data_copy (\<lambda>k. None) zero_content
      (tokens_bytes msgpack_format [TInt8 0, TInt64 (2 ^ 32)])))
    = Some (tokens_bytes msgpack_format [TInt8 0, TInt64 (2 ^ 32)] @ [])"
    by (subst copy_bytes) (simp_all add: msgpack_format_def fmt_sint_def fmt_uint_def)
qed simp_all

end
