(* ===== verification/Note_Types.thy ===== *)
theory Note_Types
  imports Wire
begin

text \<open>
  The types of the payload. The union of a note is tagged by its type and command: they
  say which of its cells are strings that the note owns and which are numbers. Whenever
  the bytes that arrive can be read, the note has the cells its tag says, so that the
  functions that free it find strings or null pointers where they look for them; a number
  in the place of a string is written past the block made for it.
\<close>

section \<open>The cells of a tag\<close>

text \<open>The string members of \<open>maestro_payload_t\<close> for a type and a command.\<close>

definition text_cells :: "u32 \<Rightarrow> u32 \<Rightarrow> nat list" where
  "text_cells ty cmd =
    (if ty = type_code MAESTRO_TYPE_RESPONSE then
       [response_id, response_name] @
       (if cmd = command_code MAESTRO_NOTE_STATS then [stats_role, stats_roleinfo, perf_timestamp] else [])
     else if ty = type_code MAESTRO_TYPE_REQUEST then
       (if cmd = command_code MAESTRO_NOTE_SET then [set_value] else [])
     else if ty = type_code MAESTRO_TYPE_NOTIFICATION then
       [notification_id, notification_name, notification_message]
     else [])"

fun is_number :: "cell \<Rightarrow> bool" where
  "is_number (Bits w) = True"
| "is_number (Str s) = False"

definition cell_typed :: "nat list \<Rightarrow> nat \<Rightarrow> cell \<Rightarrow> bool" where
  "cell_typed T i c = (if i \<in> set T then freeable c else is_number c)"

definition cells_typed :: "nat list \<Rightarrow> payload \<Rightarrow> bool" where
  "cells_typed T p = (length p = payload_cells \<and> list_all (\<lambda>(i, c). cell_typed T i c) (enumerate 0 p))"

definition note_typed :: "maestro_note \<Rightarrow> bool" where
  "note_typed n = (case n_payload n of
     PNull \<Rightarrow> True | PWild \<Rightarrow> False | PAt p \<Rightarrow> cells_typed (text_cells (n_type n) (n_command n)) p)"

lemma cells_typed_nth: "cells_typed T p \<longleftrightarrow> length p = payload_cells \<and> (\<forall>i < payload_cells. cell_typed T i (p ! i))"
  by (auto simp: cells_typed_def list_all_length nth_enumerate_eq)

lemma cells_typed_zero [simp]: "cells_typed T zero_payload"
  by (simp add: cells_typed_nth cell_typed_def)

lemma cells_typed_update: "cells_typed T p \<Longrightarrow> cell_typed T i c \<Longrightarrow> cells_typed T (p[i := c])"
  by (auto simp: cells_typed_nth) (metis nth_list_update_eq nth_list_update_neq)

section \<open>Reading keeps the types\<close>

text \<open>A note with a payload of the given cells, and the fields that fit them.\<close>

definition holds_cells :: "nat list \<Rightarrow> u32 \<Rightarrow> u32 \<Rightarrow> maestro_note \<Rightarrow> bool" where
  "holds_cells T ty cmd n = (n_type n = ty \<and> n_command n = cmd \<and> (\<exists>p. n_payload n = PAt p \<and> cells_typed T p))"

fun field_typed :: "nat list \<Rightarrow> field \<Rightarrow> bool" where
  "field_typed T (FNum msg i) = (i \<notin> set T)"
| "field_typed T (FText msg i) = (i \<in> set T)"

lemma note_store_typed:
  "note_store i c n = Some n' \<Longrightarrow> holds_cells T ty cmd n \<Longrightarrow> cell_typed T i c \<Longrightarrow> holds_cells T ty cmd n'"
  by (auto simp: note_store_def holds_cells_def cells_typed_update split: payload_ptr.splits if_splits)

lemma cell_write_number: "cell_write w c = Some c' \<Longrightarrow> is_number c'"
  by (auto simp: cell_write_def split: cwrite.splits cell.splits)

lemma store_num_typed:
  "store_num i ob d = Some (b, d') \<Longrightarrow> holds_cells T ty cmd (d_note d) \<Longrightarrow> i \<notin> set T \<Longrightarrow> holds_cells T ty cmd (d_note d')"
  by (auto simp: store_num_def bind_eq_Some_conv cell_typed_def split: option.splits dest!: cell_write_number elim!: note_store_typed)

lemma store_text_typed:
  "store_text al i ob d = Some (b, d') \<Longrightarrow> holds_cells T ty cmd (d_note d) \<Longrightarrow> i \<in> set T \<Longrightarrow> holds_cells T ty cmd (d_note d')"
  by (auto simp: store_text_def bind_eq_Some_conv cell_typed_def split: option.splits elim!: note_store_typed)

lemma read_next_step:
  "read_next mp buf msg k d = Some (b, d') \<Longrightarrow> d_note d' = d_note d \<and> \<not> b \<or> (\<exists>ob off. k ob (d\<lparr>d_off := off\<rparr>) = Some (b, d'))"
  by (auto simp: read_next_def bind_eq_Some_conv split: option.splits)

lemma read_field_typed:
  assumes "read_field mp al buf f d = Some (b, d')" and "holds_cells T ty cmd (d_note d)" and "field_typed T f"
  shows "holds_cells T ty cmd (d_note d')"
proof (cases f)
  case (FNum msg i)
  with assms read_next_step [of mp buf msg "store_num i" d b d'] show ?thesis by (auto dest: store_num_typed)
next
  case (FText msg i)
  with assms read_next_step [of mp buf msg "store_text al i" d b d'] show ?thesis by (auto dest: store_text_typed)
qed

lemma read_fields_typed:
  "read_fields mp al buf fs d = Some (b, d') \<Longrightarrow> holds_cells T ty cmd (d_note d) \<Longrightarrow> list_all (field_typed T) fs \<Longrightarrow>
    holds_cells T ty cmd (d_note d')"
  by (induction fs arbitrary: d) (auto simp: bind_eq_Some_conv split: if_splits dest: read_field_typed)

lemma prepare_payload_typed:
  "prepare_payload al d = (b, d') \<Longrightarrow> n_type (d_note d') = n_type (d_note d) \<and> n_command (d_note d') = n_command (d_note d) \<and>
    (if b then holds_cells T (n_type (d_note d)) (n_command (d_note d)) (d_note d') else n_payload (d_note d') = PNull)"
  by (auto simp: prepare_payload_def maestro_note_payload_prepare_def holds_cells_def split: option.splits)

text \<open>The tags of the messages without a payload; only for these the pointer is not made anew.\<close>

definition plain_tag :: "u32 \<Rightarrow> u32 \<Rightarrow> bool" where
  "plain_tag ty cmd = (ty \<noteq> type_code MAESTRO_TYPE_RESPONSE \<and> ty \<noteq> type_code MAESTRO_TYPE_NOTIFICATION \<and>
     \<not> (ty = type_code MAESTRO_TYPE_REQUEST \<and> cmd \<in> command_code ` {MAESTRO_NOTE_SET, MAESTRO_NOTE_PING}))"

definition read_typed :: "bool \<Rightarrow> maestro_note \<Rightarrow> bool" where
  "read_typed b n = (if n_payload n = PWild then b \<and> plain_tag (n_type n) (n_command n) else note_typed n)"

lemma holds_cells_read: "holds_cells (text_cells ty cmd) ty cmd n \<Longrightarrow> read_typed b n"
  by (auto simp: holds_cells_def read_typed_def note_typed_def)

lemma null_read: "n_payload n = PNull \<Longrightarrow> read_typed b n"
  by (simp add: read_typed_def note_typed_def)

text \<open>A body read into a fresh payload, once its fields fit the cells of the tag.\<close>

lemma fresh_typed:
  assumes "(let (ok, d1) = prepare_payload al d in if \<not> ok then Some (False, d1) else k d1) = Some (b, d')"
    and "\<And>d1 b. k d1 = Some (b, d') \<Longrightarrow> holds_cells (text_cells (n_type (d_note d)) (n_command (d_note d))) (n_type (d_note d)) (n_command (d_note d)) (d_note d1) \<Longrightarrow>
      holds_cells (text_cells (n_type (d_note d)) (n_command (d_note d))) (n_type (d_note d)) (n_command (d_note d)) (d_note d')"
  shows "read_typed b (d_note d')"
proof -
  obtain ok d1 where d1: "prepare_payload al d = (ok, d1)" by fastforce
  note t = prepare_payload_typed [OF d1, of "text_cells (n_type (d_note d)) (n_command (d_note d))"]
  show ?thesis
  proof (cases ok)
    case True
    with assms(1) d1 t assms(2) show ?thesis by (auto intro: holds_cells_read)
  next
    case False
    with assms(1) d1 t show ?thesis by (auto intro: null_read)
  qed
qed

lemma response_typed:
  assumes "maestro_deserialize_response mp al buf d = Some (b, d')" and "n_type (d_note d) = type_code MAESTRO_TYPE_RESPONSE"
  shows "read_typed b (d_note d')"
proof (rule fresh_typed [OF assms(1) [unfolded maestro_deserialize_response_def]], goal_cases)
  case (1 d1 b)
  let ?T = "text_cells (n_type (d_note d)) (n_command (d_note d))" and ?H = "holds_cells (text_cells (n_type (d_note d)) (n_command (d_note d))) (n_type (d_note d)) (n_command (d_note d))"
  from 1(1) obtain ret d2 where h: "maestro_deserialize_response_header mp al buf d1 = Some (ret, d2)"
    and r: "(if n_command (d_note d2) = command_code MAESTRO_NOTE_PING then maestro_deserialize_note_ping_response mp al buf d2
       else if n_command (d_note d2) = command_code MAESTRO_NOTE_STATS then maestro_deserialize_note_stats_response mp al buf d2
       else Some (ret, d2)) = Some (b, d')"
    by (auto simp: bind_eq_Some_conv)
  have h2: "?H (d_note d2)"
    by (rule read_fields_typed [OF h [unfolded maestro_deserialize_response_header_def] 1(2)]) (simp add: assms(2) text_cells_def)
  then have c: "n_command (d_note d2) = n_command (d_note d)" by (simp add: holds_cells_def)
  show ?case
    using r h2 c assms(2)
    by (auto simp: deserialize_op_defs text_cells_def simp del: read_fields.simps split: if_splits elim!: read_fields_typed)
qed

lemma notification_typed:
  assumes "maestro_deserialize_notification mp al buf d = Some (b, d')" and "n_type (d_note d) = type_code MAESTRO_TYPE_NOTIFICATION"
  shows "read_typed b (d_note d')"
proof (rule fresh_typed [OF assms(1) [unfolded maestro_deserialize_notification_def]], goal_cases)
  case (1 d1 b)
  with assms(2) show ?case
    by (auto simp: deserialize_op_defs text_cells_def bind_eq_Some_conv simp del: read_fields.simps split: if_splits elim!: read_fields_typed)
qed

lemma request_typed:
  assumes "maestro_deserialize_request mp al buf d = Some (b, d')" and "n_type (d_note d) = type_code MAESTRO_TYPE_REQUEST"
    and "n_payload (d_note d) \<in> {PNull, PWild}"
  shows "read_typed b (d_note d')"
proof -
  consider (set) "n_command (d_note d) = command_code MAESTRO_NOTE_SET" "maestro_deserialize_note_set_request mp al buf d = Some (b, d')"
    | (ping) "n_command (d_note d) = command_code MAESTRO_NOTE_PING" "maestro_deserialize_note_ping_request mp al buf d = Some (b, d')"
    | (plain) "plain_tag (n_type (d_note d)) (n_command (d_note d))" "b" "d' = d"
    using assms(1,2) by (auto simp: maestro_deserialize_request_def plain_tag_def split: if_splits)
  then show ?thesis
  proof cases
    case set
    show ?thesis
      by (rule fresh_typed [OF set(2) [unfolded maestro_deserialize_note_set_request_def]], erule read_fields_typed, assumption)
        (simp add: assms(2) set(1) text_cells_def)
  next
    case ping
    show ?thesis
      by (rule fresh_typed [OF ping(2) [unfolded maestro_deserialize_note_ping_request_def]], erule read_fields_typed, assumption)
        (simp add: assms(2) ping(1) text_cells_def)
  next
    case plain
    with assms(3) show ?thesis by (auto simp: read_typed_def note_typed_def)
  qed
qed

lemma deserialize_payload_typed:
  assumes "deserialize_payload mp al buf d = Some (b, d')" and "n_payload (d_note d) \<in> {PNull, PWild}"
  shows "read_typed b (d_note d')"
proof -
  have "read_typed True (d_note d)"
    if "n_type (d_note d) \<noteq> type_code MAESTRO_TYPE_RESPONSE" and "n_type (d_note d) \<noteq> type_code MAESTRO_TYPE_REQUEST"
      and "n_type (d_note d) \<noteq> type_code MAESTRO_TYPE_NOTIFICATION"
    using that assms(2) by (auto simp: read_typed_def note_typed_def plain_tag_def)
  then show ?thesis
    using assms response_typed [of mp al buf d b d'] request_typed [of mp al buf d b d'] notification_typed [of mp al buf d b d']
    by (simp add: deserialize_payload_def split: if_split_asm)
qed

section \<open>The head of a message\<close>

lemma note_write_pointer: "note_write off bs n = Some n' \<Longrightarrow> n_payload n' \<in> {n_payload n, PWild}"
proof -
  assume w: "note_write off bs n = Some n'"
  obtain A B t c where "note_write off bs n = (if A then None else if B then Some (n\<lparr>n_type := t, n_command := c\<rparr>)
      else Some (n\<lparr>n_type := t, n_command := c, n_payload := PWild\<rparr>))"
    by (rule that, unfold note_write_def Let_def, rule refl)
  with w show ?thesis by (auto split: if_split_asm)
qed

lemma store_type_pointer:
  assumes "store_type ob d = Some (b, d')" and "n_payload (d_note d) = PNull"
  shows "n_payload (d_note d') = PNull"
proof -
  have "length (le_bytes 8 k) = 8" for k by simp
  then show ?thesis
    using assms by (auto simp: store_type_def maestro_deserialize_note_assign_def note_write_def Let_def split: if_splits)
qed

lemma store_command_pointer:
  "store_command ob d = Some (b, d') \<Longrightarrow> n_payload (d_note d) = PNull \<Longrightarrow> n_payload (d_note d') = PNull \<or> b \<and> n_payload (d_note d') = PWild"
  by (auto simp: store_command_def bind_eq_Some_conv split: option.splits dest!: note_write_pointer)

lemma deserialize_buffer_typed:
  assumes "maestro_deserialize_buffer mp al buf d = Some (b, d')" and "n_payload (d_note d) = PNull"
  shows "read_typed b (d_note d')"
proof -
  obtain b1 d1 where 1: "read_next mp buf ''Unable to unpack protocol data: invalid and/or missing note type'' store_type d = Some (b1, d1)"
    "(if \<not> b1 then Some (False, d1) else do {
       (b2, d2) \<leftarrow> read_next mp buf ''Unable to unpack protocol data: invalid and/or missing command'' store_command d1;
       if \<not> b2 then Some (False, d2) else deserialize_payload mp al buf d2 }) = Some (b, d')"
    using assms(1) by (auto simp: maestro_deserialize_buffer_def bind_eq_Some_conv)
  have p1: "n_payload (d_note d1) = PNull" using read_next_step [OF 1(1)] assms(2) by (auto dest: store_type_pointer)
  show ?thesis
  proof (cases b1)
    case True
    then obtain b2 d2 where 2: "read_next mp buf ''Unable to unpack protocol data: invalid and/or missing command'' store_command d1 = Some (b2, d2)"
      "(if \<not> b2 then Some (False, d2) else deserialize_payload mp al buf d2) = Some (b, d')"
      using 1(2) by (auto simp: bind_eq_Some_conv)
    have "n_payload (d_note d2) = PNull \<or> b2 \<and> n_payload (d_note d2) = PWild"
      using read_next_step [OF 2(1)] p1 by (auto dest: store_command_pointer)
    with 2(2) show ?thesis by (cases b2) (auto intro: deserialize_payload_typed null_read)
  qed (use 1(2) p1 in \<open>auto intro: null_read\<close>)
qed

section \<open>Freeing a typed note\<close>

lemma dealloc_cells_typed: "length p = payload_cells \<Longrightarrow> list_all (\<lambda>i. i < payload_cells \<and> freeable (p ! i)) is \<Longrightarrow> \<exists>p'. dealloc_cells is p = Some p' \<and>
    length p' = payload_cells \<and> (\<forall>i. freeable (p ! i) \<longrightarrow> freeable (p' ! i))"
proof (induction "is" arbitrary: p)
  case (Cons i "is")
  let ?q = "p[i := Bits 0]"
  have f: "freeable (p ! j) \<Longrightarrow> freeable (?q ! j)" for j using Cons.prems by (cases "i = j") auto
  from Cons.prems f have "list_all (\<lambda>i. i < payload_cells \<and> freeable (?q ! i)) is" by (auto simp: list_all_iff)
  with Cons.IH [of ?q] Cons.prems f show ?case by auto
qed simp

lemma cleanup_typed:
  assumes "note_typed n"
  shows "maestro_note_payload_cleanup n = Some (n\<lparr>n_payload := PNull\<rparr>)"
proof (cases "n_payload n")
  case (PAt p)
  let ?T = "text_cells (n_type n) (n_command n)"
  from assms PAt have p: "length p = payload_cells" "\<And>i. i < payload_cells \<Longrightarrow> i \<in> set ?T \<Longrightarrow> freeable (p ! i)"
    by (auto simp: note_typed_def cells_typed_nth cell_typed_def)
  have d: "\<exists>p'. dealloc_if g is q = Some p' \<and> length p' = payload_cells \<and> (\<forall>i. freeable (q ! i) \<longrightarrow> freeable (p' ! i))"
    if "length q = payload_cells" and "g \<Longrightarrow> list_all (\<lambda>i. i < payload_cells \<and> freeable (q ! i)) is" for g "is" q
    using that dealloc_cells_typed by (auto simp: dealloc_if_def)
  let ?r = "n_type n = type_code MAESTRO_TYPE_RESPONSE"
  obtain p1 where 1: "dealloc_if ?r [response_id, response_name] p = Some p1" "length p1 = payload_cells"
    "\<And>i. freeable (p ! i) \<Longrightarrow> freeable (p1 ! i)"
    using d [OF p(1), of ?r "[response_id, response_name]"] p(2) by (auto simp: text_cells_def payload_cells_def)
  obtain p2 where 2: "dealloc_if (n_type n = type_code MAESTRO_TYPE_REQUEST \<and> n_command n = command_code MAESTRO_NOTE_SET) [set_value] p1 = Some p2"
    "length p2 = payload_cells" "\<And>i. freeable (p ! i) \<Longrightarrow> freeable (p2 ! i)"
    using d [OF 1(2), of "n_type n = type_code MAESTRO_TYPE_REQUEST \<and> n_command n = command_code MAESTRO_NOTE_SET" "[set_value]"] p(2) 1(3)
    by (auto simp: text_cells_def payload_cells_def)
  have "\<exists>p'. dealloc_if (?r \<and> n_command n = command_code MAESTRO_NOTE_STATS) [stats_role, stats_roleinfo, perf_timestamp] p2 = Some p'"
    using d [OF 2(2), of "?r \<and> n_command n = command_code MAESTRO_NOTE_STATS" "[stats_role, stats_roleinfo, perf_timestamp]"] p(2) 2(3)
    by (auto simp: text_cells_def payload_cells_def)
  then have "\<exists>p'. payload_free_strings (n_type n) (n_command n) p = Some p'" using 1(1) 2(1) by (simp add: payload_free_strings_def)
  with PAt show ?thesis by (auto simp: maestro_note_payload_cleanup_def)
qed (use assms in \<open>simp_all add: note_typed_def maestro_note_payload_cleanup_def\<close>)

section \<open>A number in the place of a string\<close>

text \<open>The block for a string has the size the object gives; that of a small number is too short for the number.\<close>

lemma small_number_overruns:
  assumes "unat v < 7" and "al (Suc (unat v)) = None" and "n_payload (d_note d) = PAt p" and "length p = payload_cells" and "i < payload_cells"
  shows "store_text al i (int_object v) d = None"
proof -
  have "unat v < 2 ^ 32" using assms(1) by simp
  then have u: "unat (ucast v :: u32) = unat v" by (simp add: unsigned_ucast_eq take_bit_nat_eq_self)
  have n: "unat (via_str_size (int_object v) + 1) = Suc (unat v)" using u assms(1) by (simp add: via_str_size_def unat_word_ariths)
  have a: "maestro_deserialize_note_assign (int_object v) st = Some (Some (WWord v), st)" for st
    by (simp add: assign_number int_object_def)
  have "buffer_write (via_str_size (int_object v) + 1) (WWord v) = None"
    using n assms(1) by (simp add: buffer_write_def overlay_def zero_block_def)
  with n a assms(2-5) show ?thesis by (simp add: store_text_def note_store_def)
qed

text \<open>The bytes of a set request before its value.\<close>

definition set_head :: "msgpack_api \<Rightarrow> u64 \<Rightarrow> byte list" where
  "set_head mp opt = tokens_bytes mp [TInt8 (ucast (type_code MAESTRO_TYPE_REQUEST)), TInt64 (ucast (command_code MAESTRO_NOTE_SET)), TInt64 opt]"

context msgpack begin

lemma set_value_undefined:
  assumes "content_input inp = Some buf" and "input_bytes buf = set_head mp opt @ rest" and "al sizeof_payload = None"
    and "\<And>msg d p. drop (d_off d) (input_bytes buf) = rest \<Longrightarrow> d_off d = length (set_head mp opt) \<Longrightarrow> n_payload (d_note d) = PAt p \<Longrightarrow>
      length p = payload_cells \<Longrightarrow> read_field mp al buf (FText msg set_value) d = None"
  shows "maestro_deserialize_note mp al inp zero_note st = None"
proof -
  let ?m = "Plain_Request (command_code MAESTRO_NOTE_SET)" and ?o = "token_bytes mp (TInt64 opt)"
  let ?d = "\<lparr>d_note = zero_note, d_off = 0, d_status = st\<rparr>" and ?n = "length (message_bytes mp (Plain_Request (command_code MAESTRO_NOTE_SET)))"
  have b: "input_bytes buf = message_bytes mp ?m @ ?o @ rest" "set_head mp opt = message_bytes mp ?m @ ?o"
    using assms(2) by (simp_all add: set_head_def message_bytes_def head_tokens_def)
  have h: "maestro_deserialize_buffer mp al buf ?d = deserialize_payload mp al buf (?d\<lparr>d_off := ?n, d_note := message_head_note ?m\<rparr>)"
  proof -
    let ?t = "TInt8 (ucast (type_code MAESTRO_TYPE_REQUEST))" and ?c = "TInt64 (ucast (command_code MAESTRO_NOTE_SET))"
    have dr: "drop 0 (input_bytes buf) = token_bytes mp ?t @ token_bytes mp ?c @ ?o @ rest" using b(1) by (simp add: message_bytes_def head_tokens_def)
    let ?d1 = "?d\<lparr>d_off := length (token_bytes mp ?t), d_note := head_note MAESTRO_TYPE_REQUEST 0\<rparr>"
    have "read_next mp buf msg store_type ?d = Some (True, ?d1)" for msg
      using read_next_token [of ?t ?d buf "token_bytes mp ?c @ ?o @ rest" msg store_type] dr
      by (simp add: store_type_token del: token_object.simps type_code.simps)
    moreover have "read_next mp buf msg store_command ?d1 = Some (True, ?d1\<lparr>d_off := ?n, d_note := message_head_note ?m\<rparr>)" for msg
      using read_next_token [of ?c ?d1 buf "?o @ rest" msg store_command] unpack_token_rest [OF dr]
      by (simp add: store_command_token message_head_note_def message_bytes_def head_tokens_def del: token_object.simps command_code.simps type_code.simps)
    ultimately show ?thesis by (simp add: maestro_deserialize_buffer_def)
  qed
  let ?d1 = "with_payload zero_payload (?d\<lparr>d_off := ?n, d_note := message_head_note ?m\<rparr>)"
  let ?d2 = "with_payload (zero_payload[set_opt_cell := Bits opt]) (?d1\<lparr>d_off := ?n + length ?o\<rparr>)"
  have f: "read_field mp al buf (FNum msg set_opt_cell) ?d1 = Some (True, ?d2)" for msg
    using read_field_token [of al "FNum msg set_opt_cell" "TInt64 opt" ?d1 buf rest zero_payload] b(1)
    by (simp add: with_payload_def payload_cells_def)
  have "read_field mp al buf (FText msg set_value) ?d2 = None" for msg
    by (rule assms(4) [of _ "zero_payload[set_opt_cell := Bits opt]"]) (use b in \<open>simp_all add: with_payload_def\<close>)
  with f have "maestro_deserialize_buffer mp al buf ?d = None"
    unfolding h by (simp add: payload_read_defs assms(3) message_head_note_def head_note_def prepare_payload_ok del: read_field.simps)
  with assms(1) show ?thesis by (simp add: maestro_deserialize_note_def)
qed

lemma number_value_overruns:
  assumes "content_bytes inp = Some (set_head mp opt @ token_bytes mp (TInt64 v) @ rest)"
    and "unat v < 7" and "al sizeof_payload = None" and "al (Suc (unat v)) = None"
  shows "maestro_deserialize_note mp al inp zero_note st = None"
proof (rule set_value_undefined [where al = al, OF content_input_bytes [OF assms(1)]])
  fix msg and d :: dstate and p
  assume "drop (d_off d) (input_bytes (Whole (set_head mp opt @ token_bytes mp (TInt64 v) @ rest))) = token_bytes mp (TInt64 v) @ rest"
    and "n_payload (d_note d) = PAt p" and "length p = payload_cells"
  then show "read_field mp al (Whole (set_head mp opt @ token_bytes mp (TInt64 v) @ rest)) (FText msg set_value) d = None"
    using read_next_token [of "TInt64 v" d "Whole (set_head mp opt @ token_bytes mp (TInt64 v) @ rest)" rest msg "store_text al set_value"]
      small_number_overruns [where al = al, OF assms(2,4)] by (simp add: payload_cells_def)
qed (simp_all add: assms(3))

text \<open>The value of a set request does not end within a block that is shorter than the size recorded.\<close>

lemma cut_value_overruns:
  assumes "content_input inp = Some (Cut (set_head mp opt @ rest))" and "al sizeof_payload = None"
    and "fst (mp_unpack_next mp (set_head mp opt @ rest) (length (set_head mp opt))) = None"
  shows "maestro_deserialize_note mp al inp zero_note st = None"
proof (rule set_value_undefined [where al = al, OF assms(1)])
  fix msg and d :: dstate
  assume "d_off d = length (set_head mp opt)"
  then show "read_field mp al (Cut (set_head mp opt @ rest)) (FText msg set_value) d = None"
    using assms(3) by (simp add: read_next_def unpack_input_def case_prod_unfold)
qed (simp_all add: assms(2))

end

section \<open>Properties\<close>

text \<open>
  Property C3, deserialize_typed. Whatever the msgpack library makes of the bytes that arrive: when
  the reading of a zeroed note is defined, in full or up to an error, the note has in each
  cell of its union what its type and command say, a string or null where they have a
  string, a number elsewhere, so that its payload can be freed; the only exception is a
  message without a payload whose command overwrote the payload pointer. The reading is
  not defined for all bytes: a set request with a number below seven in the place of its
  value is written past the block that was allocated for it.
\<close>

theorem deserialize_typed:
  "(maestro_deserialize_note mp al inp zero_note st = Some (b, n, st') \<longrightarrow>
     (if n_payload n = PWild then b \<and> plain_tag (n_type n) (n_command n)
      else note_typed n \<and> maestro_note_payload_cleanup n = Some (n\<lparr>n_payload := PNull\<rparr>))) \<and>
   (msgpack mp \<and> al sizeof_payload = None \<and> al (Suc (unat v)) = None \<and> unat v < 7 \<and>
      content_bytes inp = Some (set_head mp opt @ mp_pack_int64 mp v @ rest) \<longrightarrow>
     maestro_deserialize_note mp al inp zero_note st = None)"
proof (intro conjI impI)
  assume "maestro_deserialize_note mp al inp zero_note st = Some (b, n, st')"
  then have "read_typed b n"
    using deserialize_buffer_typed [of mp al _ "\<lparr>d_note = zero_note, d_off = 0, d_status = st\<rparr>"]
    by (auto simp: maestro_deserialize_note_def bind_eq_Some_conv zero_note_def)
  then show "if n_payload n = PWild then b \<and> plain_tag (n_type n) (n_command n)
      else note_typed n \<and> maestro_note_payload_cleanup n = Some (n\<lparr>n_payload := PNull\<rparr>)"
    by (auto simp: read_typed_def cleanup_typed)
qed (use msgpack.number_value_overruns [of mp inp opt v rest al st] in simp)

definition number_for_text :: "byte list" where
  "number_for_text = set_head msgpack_format 6 @ mp_pack_int64 msgpack_format 0"

theorem deserialize_typed_witness:
  "(\<exists>inp n. content_bytes inp = Some (message_bytes msgpack_format (Set_Request 6 ''100'')) \<and>
    maestro_deserialize_note msgpack_format (\<lambda>k. None) inp zero_note St_New = Some (True, n, St_New) \<and>
    note_typed n \<and> maestro_note_payload_cleanup n = Some (n\<lparr>n_payload := PNull\<rparr>)) \<and>
   (\<exists>inp. content_bytes inp = Some number_for_text \<and> maestro_deserialize_note msgpack_format (\<lambda>k. None) inp zero_note St_New = None)"
proof (rule conjI)
  let ?inp = "snd (msg_content_data_copy (\<lambda>k. None) zero_content (message_bytes msgpack_format (Set_Request 6 ''100'')))"
  have c: "content_bytes ?inp = Some (message_bytes msgpack_format (Set_Request 6 ''100'') @ [])"
    by (subst copy_bytes) (simp_all add: sample_set_length)
  obtain n where n: "maestro_deserialize_note msgpack_format (\<lambda>k. None) ?inp zero_note St_New = Some (True, n, St_New)" "note_wf n"
    using msgpack.deserialize_message [OF mpf.msgpack_axioms _ note_view_proper [OF sample_set_view] c, of "\<lambda>k. None" St_New]
    by (auto simp: message_ok_def text_ok_def no_nul_def NUL_def)
  from n(2) have "n_payload n \<noteq> PWild" by (auto simp: note_wf_def)
  then show "\<exists>inp n. content_bytes inp = Some (message_bytes msgpack_format (Set_Request 6 ''100'')) \<and>
      maestro_deserialize_note msgpack_format (\<lambda>k. None) inp zero_note St_New = Some (True, n, St_New) \<and>
      note_typed n \<and> maestro_note_payload_cleanup n = Some (n\<lparr>n_payload := PNull\<rparr>)"
    using deserialize_typed [of msgpack_format "\<lambda>k. None" ?inp St_New True n St_New] n(1) c by (intro exI [of _ ?inp] exI [of _ n]) simp
next
  let ?inp = "snd (msg_content_data_copy (\<lambda>k. None) zero_content number_for_text)"
  have "length number_for_text < 2 ^ 64" by (simp add: number_for_text_def set_head_def format_defs)
  then have c: "content_bytes ?inp = Some number_for_text" by (simp add: copy_bytes)
  then show "\<exists>inp. content_bytes inp = Some number_for_text \<and> maestro_deserialize_note msgpack_format (\<lambda>k. None) inp zero_note St_New = None"
    using deserialize_typed [of msgpack_format "\<lambda>k. None" ?inp St_New _ _ _ 0 6 "[]"] mpf.msgpack_axioms
    by (intro exI [of _ ?inp]) (simp add: number_for_text_def)
qed

end
