(* ===== verification/Vmsl.thy ===== *)
theory Vmsl
  imports Content
begin

text \<open>
  The virtual messaging system layer of \<open>src/common\<close>: the status bits of \<open>vmsl.h\<close>,
  the table of functions a protocol provides (\<open>vmsl_t\<close>), the callback lists of
  \<open>vmslh.c\<close>, the choice of a protocol in \<open>src/api/vmsl_assign.c\<close> and the callbacks of
  \<open>src/api/paho-c/paho-handlers.c\<close>. A callback list is add-or-replace by function
  address; the locale \<open>callback_table\<close> states that contract and is interpreted
  on \<open>vmslh_add\<close>.
\<close>

section \<open>Status bits\<close>

type_synonym vmsl_stat = u32

definition VMSL_ERROR :: vmsl_stat where "VMSL_ERROR = 0"
definition VMSL_SUCCESS :: vmsl_stat where "VMSL_SUCCESS = 1"
definition VMSL_NO_DATA :: vmsl_stat where "VMSL_NO_DATA = 2"
definition VMSL_NO_TIMESTAMP :: vmsl_stat where "VMSL_NO_TIMESTAMP = 4"

definition vmsl_stat_success :: "vmsl_stat \<Rightarrow> bool" where
  "vmsl_stat_success s = (s AND VMSL_SUCCESS \<noteq> 0)"

definition vmsl_stat_error :: "vmsl_stat \<Rightarrow> bool" where
  "vmsl_stat_error s = (\<not> s AND VMSL_SUCCESS \<noteq> 0)"

definition vmsl_has_data :: "vmsl_stat \<Rightarrow> bool" where
  "vmsl_has_data s = (\<not> s AND VMSL_NO_DATA \<noteq> 0)"

lemmas vmsl_stat_defs = VMSL_ERROR_def VMSL_SUCCESS_def VMSL_NO_DATA_def VMSL_NO_TIMESTAMP_def
  vmsl_stat_success_def vmsl_stat_error_def vmsl_has_data_def

lemma vmsl_error_has_data [status_simps]:
  "vmsl_stat_error VMSL_ERROR" "vmsl_has_data VMSL_ERROR"
  "\<not> vmsl_stat_error VMSL_SUCCESS" "vmsl_has_data VMSL_SUCCESS"
  "\<not> vmsl_stat_error (VMSL_SUCCESS OR VMSL_NO_DATA)" "\<not> vmsl_has_data (VMSL_SUCCESS OR VMSL_NO_DATA)"
  by (simp_all add: vmsl_stat_defs)

section \<open>Callback lists\<close>

text \<open>
  A callback: the function (\<^term>\<open>None\<close> for a null pointer) and its payload. The nodes
  of the list hold pointers to callbacks, which are null when the allocation
  failed but the append did not.
\<close>

record ('f, 'p) vmslh_callback =
  cb_call :: "'f option"
  cb_payload :: 'p

type_synonym ('f, 'p) callbacks = "('f, 'p) vmslh_callback option list"

fun find_callback :: "('f, 'p) callbacks \<Rightarrow> 'f \<Rightarrow> nat option" where
  "find_callback [] f = None"
| "find_callback (c # cs) f =
     (case c of
        Some cb \<Rightarrow> (if cb_call cb = Some f then Some 0 else map_option Suc (find_callback cs f))
      | None \<Rightarrow> map_option Suc (find_callback cs f))"

text \<open>
  \<open>vmslh_by_addr\<close>: the position of the callback, a fresh zeroed one (\<open>pz\<close> is the
  null payload) when the function is not in the list. \<open>app\<close> tells whether
  \<open>gru_list_append\<close> succeeds; 16 is the size of a callback.
\<close>

definition vmslh_by_addr ::
    "gru_allocator \<Rightarrow> bool \<Rightarrow> 'p \<Rightarrow> ('f, 'p) callbacks \<Rightarrow> 'f \<Rightarrow> gru_status \<Rightarrow>
     nat option \<times> ('f, 'p) callbacks \<times> gru_status" where
  "vmslh_by_addr al app pz cs f st =
    (case find_callback cs f of
       Some i \<Rightarrow> (Some i, cs, st)
     | None \<Rightarrow>
        (let (ret, st1) = (case al 16 of Some m \<Rightarrow> (None, alloc_fail m)
                           | None \<Rightarrow> (Some \<lparr>cb_call = None, cb_payload = pz\<rparr>, st)) in
         if \<not> app then (None, cs, St_Set GRU_FAILURE ''Unable to append VMSL handler wrapper'')
         else (map_option (\<lambda>r. length cs) ret, cs @ [ret], st1)))"

definition vmslh_add ::
    "gru_allocator \<Rightarrow> bool \<Rightarrow> 'p \<Rightarrow> ('f, 'p) callbacks \<Rightarrow> 'f \<Rightarrow> 'p \<Rightarrow> gru_status \<Rightarrow>
     bool \<times> ('f, 'p) callbacks \<times> gru_status" where
  "vmslh_add al app pz cs f p st =
    (case vmslh_by_addr al app pz cs f st of
       (None, cs1, st1) \<Rightarrow> (False, cs1, st1)
     | (Some i, cs1, st1) \<Rightarrow> (True, cs1[i := Some \<lparr>cb_call = Some f, cb_payload = p\<rparr>], st1))"

text \<open>\<open>vmslh_run\<close>: a null list does nothing; every callback is called in order on the
  state behind \<open>ctxt\<close> and \<open>msg\<close>.\<close>

fun run_callbacks :: "('f \<Rightarrow> 'p \<Rightarrow> 's \<Rightarrow> 's undef) \<Rightarrow> ('f, 'p) callbacks \<Rightarrow> 's \<Rightarrow> 's undef" where
  "run_callbacks call [] s = Some s"
| "run_callbacks call (c # cs) s = do {
     cb \<leftarrow> c;
     f \<leftarrow> cb_call cb;
     s' \<leftarrow> call f (cb_payload cb) s;
     run_callbacks call cs s'
   }"

definition vmslh_run :: "('f \<Rightarrow> 'p \<Rightarrow> 's \<Rightarrow> 's undef) \<Rightarrow> ('f, 'p) callbacks option \<Rightarrow> 's \<Rightarrow> 's undef" where
  "vmslh_run call list s = (case list of None \<Rightarrow> Some s | Some cs \<Rightarrow> run_callbacks call cs s)"

record ('f, 'p) vmslh_handlers =
  before_connect :: "('f, 'p) callbacks option"
  after_connect :: "('f, 'p) callbacks option"
  before_send :: "('f, 'p) callbacks option"
  after_send :: "('f, 'p) callbacks option"
  before_receive :: "('f, 'p) callbacks option"
  after_receive :: "('f, 'p) callbacks option"
  finalize_receive :: "('f, 'p) callbacks option"

text \<open>\<open>new\<close> tells for each of the seven \<open>gru_list_new\<close> calls whether it succeeds.\<close>

definition new_list :: "(nat \<Rightarrow> bool) \<Rightarrow> nat \<Rightarrow> ('f, 'p) callbacks option" where
  "new_list new i = (if new i then Some [] else None)"

definition vmslh_new :: "(nat \<Rightarrow> bool) \<Rightarrow> ('f, 'p) vmslh_handlers" where
  "vmslh_new new = \<lparr>before_connect = new_list new 0, after_connect = new_list new 1,
     before_send = new_list new 2, after_send = new_list new 3, before_receive = new_list new 4,
     after_receive = new_list new 5, finalize_receive = new_list new 6\<rparr>"

definition no_handlers :: "('f, 'p) vmslh_handlers" where
  "no_handlers = \<lparr>before_connect = None, after_connect = None, before_send = None,
     after_send = None, before_receive = None, after_receive = None, finalize_receive = None\<rparr>"

text \<open>\<open>vmslh_cleanup\<close> frees every list and leaves null pointers.\<close>

definition vmslh_cleanup :: "('f, 'p) vmslh_handlers \<Rightarrow> ('f, 'p) vmslh_handlers" where
  "vmslh_cleanup h = no_handlers"

section \<open>The contract of a callback list\<close>

definition payload_of :: "('f, 'p) callbacks \<Rightarrow> 'f \<Rightarrow> 'p option" where
  "payload_of cs f = (case find_callback cs f of
     None \<Rightarrow> None | Some i \<Rightarrow> map_option cb_payload (cs ! i))"

definition callback_keys :: "('f, 'p) callbacks \<Rightarrow> 'f list" where
  "callback_keys cs = map (\<lambda>c. the (cb_call (the c))) cs"

text \<open>Every node holds a callback with a function, and no function occurs twice.\<close>

definition callbacks_wf :: "('f, 'p) callbacks \<Rightarrow> bool" where
  "callbacks_wf cs = (list_all (\<lambda>c. case c of None \<Rightarrow> False | Some cb \<Rightarrow> cb_call cb \<noteq> None) cs \<and>
     distinct (callback_keys cs))"

definition put_callback :: "'p \<Rightarrow> 'f \<Rightarrow> 'p \<Rightarrow> ('f, 'p) callbacks \<Rightarrow> ('f, 'p) callbacks" where
  "put_callback pz f p cs = fst (snd (vmslh_add (\<lambda>n. None) True pz cs f p St_New))"

locale callback_table =
  fixes empty :: 't and put :: "'f \<Rightarrow> 'p \<Rightarrow> 't \<Rightarrow> 't" and get :: "'t \<Rightarrow> 'f \<Rightarrow> 'p option"
    and fns :: "'t \<Rightarrow> 'f list" and inv :: "'t \<Rightarrow> bool"
  assumes inv_empty: "inv empty" and fns_empty: "fns empty = []" and get_empty: "get empty f = None"
    and inv_put: "inv t \<Longrightarrow> inv (put f p t)"
    and get_put: "inv t \<Longrightarrow> get (put f p t) g = (if g = f then Some p else get t g)"
    and fns_put: "inv t \<Longrightarrow> fns (put f p t) = (if f \<in> set (fns t) then fns t else fns t @ [f])"
    and fns_get: "inv t \<Longrightarrow> f \<in> set (fns t) \<longleftrightarrow> get t f \<noteq> None"
begin

fun puts :: "('f \<times> 'p) list \<Rightarrow> 't \<Rightarrow> 't" where
  "puts [] t = t"
| "puts ((f, p) # xs) t = puts xs (put f p t)"

lemma inv_puts: "inv t \<Longrightarrow> inv (puts xs t)"
  by (induction xs t rule: puts.induct) (simp_all add: inv_put)

text \<open>The last registration of a function decides its payload.\<close>

lemma get_puts:
  "inv t \<Longrightarrow> get (puts xs t) f = (case map_of (rev xs) f of Some p \<Rightarrow> Some p | None \<Rightarrow> get t f)"
  by (induction xs t rule: puts.induct)
     (auto simp: inv_put get_put map_add_def split: option.splits)

lemma distinct_puts: "inv t \<Longrightarrow> distinct (fns t) \<Longrightarrow> distinct (fns (puts xs t))"
  by (induction xs t rule: puts.induct) (simp_all add: inv_put fns_put)

lemma put_last: "inv t \<Longrightarrow> get (put f q (put f p t)) f = Some q"
  by (simp add: get_put inv_put)

end

subsection \<open>\<open>vmslh_add\<close> keeps the contract\<close>

lemma callbacks_wf_Cons:
  "callbacks_wf (c # cs) \<longleftrightarrow> (\<exists>f p. c = Some \<lparr>cb_call = Some f, cb_payload = p\<rparr> \<and>
     f \<notin> set (callback_keys cs)) \<and> callbacks_wf cs"
proof (cases c)
  case (Some cb)
  then show ?thesis
    by (cases cb; cases "cb_call cb") (auto simp: callbacks_wf_def callback_keys_def)
qed (simp add: callbacks_wf_def)

lemma callback_keys_simps [simp]:
  "callback_keys [] = []" "callback_keys (c # cs) = the (cb_call (the c)) # callback_keys cs"
  by (simp_all add: callback_keys_def)

lemma find_callback_None: "callbacks_wf cs \<Longrightarrow> find_callback cs f = None \<longleftrightarrow> f \<notin> set (callback_keys cs)"
proof (induction cs)
  case (Cons c cs)
  then obtain g p where "c = Some \<lparr>cb_call = Some g, cb_payload = p\<rparr>" "callbacks_wf cs"
    by (auto simp: callbacks_wf_Cons)
  with Cons.IH show ?case by (cases "g = f") auto
qed simp

lemma find_callback_Some:
  "callbacks_wf cs \<Longrightarrow> find_callback cs f = Some i \<Longrightarrow>
   i < length cs \<and> (\<exists>p. cs ! i = Some \<lparr>cb_call = Some f, cb_payload = p\<rparr>)"
  by (induction cs arbitrary: i) (auto simp: callbacks_wf_Cons split: if_splits)

lemma find_callback_append:
  "find_callback (cs @ [Some cb]) g =
     (case find_callback cs g of Some i \<Rightarrow> Some i
      | None \<Rightarrow> if cb_call cb = Some g then Some (length cs) else None)"
  by (induction cs) (auto split: option.splits)

lemma put_callback_cases:
  assumes "callbacks_wf cs"
  shows "put_callback pz f p cs =
    (case find_callback cs f of
       Some i \<Rightarrow> cs[i := Some \<lparr>cb_call = Some f, cb_payload = p\<rparr>]
     | None \<Rightarrow> cs @ [Some \<lparr>cb_call = Some f, cb_payload = p\<rparr>])"
  by (auto simp: put_callback_def vmslh_add_def vmslh_by_addr_def split: option.splits)

lemma keys_update:
  assumes "callbacks_wf cs" and "find_callback cs f = Some i"
  shows "callback_keys (cs[i := Some \<lparr>cb_call = Some f, cb_payload = p\<rparr>]) = callback_keys cs"
proof -
  from find_callback_Some [OF assms] have "callback_keys cs ! i = f" "i < length (callback_keys cs)"
    by (auto simp: callback_keys_def)
  then show ?thesis by (simp add: callback_keys_def map_update list_update_same_conv)
qed

lemma put_callback_keys:
  assumes "callbacks_wf cs"
  shows "callback_keys (put_callback pz f p cs)
    = (if f \<in> set (callback_keys cs) then callback_keys cs else callback_keys cs @ [f])"
  using assms find_callback_None [OF assms, of f]
  by (auto simp: put_callback_cases keys_update split: option.splits) (simp add: callback_keys_def)

lemma put_callback_wf:
  assumes "callbacks_wf cs" shows "callbacks_wf (put_callback pz f p cs)"
proof -
  have "distinct (callback_keys (put_callback pz f p cs))"
    using assms by (simp add: put_callback_keys) (simp add: callbacks_wf_def)
  moreover have "list_all (\<lambda>c. case c of None \<Rightarrow> False | Some cb \<Rightarrow> cb_call cb \<noteq> None) (put_callback pz f p cs)"
  proof (cases "find_callback cs f")
    case (Some i)
    then show ?thesis
      using assms find_callback_Some [OF assms Some]
      by (simp add: put_callback_cases callbacks_wf_def list_all_length nth_list_update)
  qed (use assms in \<open>simp add: put_callback_cases callbacks_wf_def\<close>)
  ultimately show ?thesis by (simp add: callbacks_wf_def)
qed

lemma find_callback_update:
  assumes "callbacks_wf cs" and "find_callback cs f = Some i"
  shows "find_callback (cs[i := Some \<lparr>cb_call = Some f, cb_payload = p\<rparr>]) g = find_callback cs g"
  using assms
  by (induction cs arbitrary: i) (auto simp: callbacks_wf_Cons split: if_splits nat.splits)

lemma find_callback_inj:
  assumes "callbacks_wf cs" and "find_callback cs f = Some i" and "find_callback cs g = Some i"
  shows "f = g"
  using find_callback_Some [OF assms(1,2)] find_callback_Some [OF assms(1,3)] by auto

lemma payload_of_put:
  assumes wf: "callbacks_wf cs"
  shows "payload_of (put_callback pz f p cs) g = (if g = f then Some p else payload_of cs g)"
proof (cases "find_callback cs f")
  case None
  then show ?thesis
    using find_callback_Some [OF wf, of g]
    by (auto simp: put_callback_cases [OF wf] payload_of_def find_callback_append nth_append
        split: option.splits)
next
  case (Some i)
  have i: "i < length cs" using find_callback_Some [OF wf Some] by blast
  have "payload_of (put_callback pz f p cs) g = (case find_callback cs g of None \<Rightarrow> None
      | Some j \<Rightarrow> map_option cb_payload (cs[i := Some \<lparr>cb_call = Some f, cb_payload = p\<rparr>] ! j))"
    by (simp add: put_callback_cases [OF wf] payload_of_def find_callback_update [OF wf Some] Some)
  moreover have "find_callback cs g \<noteq> Some i" if "g \<noteq> f"
    using that find_callback_inj [OF wf Some, of g] by blast
  ultimately show ?thesis
    using i Some by (cases "g = f") (auto simp: payload_of_def split: option.splits)
qed

lemma payload_of_key:
  assumes "callbacks_wf cs" shows "f \<in> set (callback_keys cs) \<longleftrightarrow> payload_of cs f \<noteq> None"
  using find_callback_None [OF assms, of f] find_callback_Some [OF assms, of f]
  by (auto simp: payload_of_def split: option.splits)

lemma callbacks_wf_Nil: "callbacks_wf []"
  by (simp add: callbacks_wf_def)

interpretation cbt: callback_table "[]" "put_callback pz" payload_of callback_keys callbacks_wf for pz
proof
  show "payload_of [] f = None" for f by (simp add: payload_of_def)
qed (simp_all only: callback_keys_simps put_callback_wf payload_of_put put_callback_keys payload_of_key
    callbacks_wf_Nil)

section \<open>Protocols\<close>

text \<open>
  Which protocol \<open>vmsl_assign_by_url\<close> fills the table with: the three assignment
  functions are arguments (each is a real one or the stub that reports that the
  protocol was not built), \<open>strncmp (scheme, p, n) = 0\<close> compares the first \<open>n\<close>
  characters.
\<close>

definition strncmp_eq :: "string \<Rightarrow> string \<Rightarrow> nat \<Rightarrow> bool" where
  "strncmp_eq a b n = (take n a = take n b)"

definition vmsl_assign_by_url ::
    "('v \<Rightarrow> bool \<times> 'v) \<Rightarrow> ('v \<Rightarrow> bool \<times> 'v) \<Rightarrow> ('v \<Rightarrow> bool \<times> 'v) \<Rightarrow> string option \<Rightarrow> 'v \<Rightarrow> bool \<times> 'v" where
  "vmsl_assign_by_url proton_vmsl_assign litestomp_vmsl_assign paho_vmsl_assign scheme v =
    (case scheme of
       None \<Rightarrow> (False, v)
     | Some s \<Rightarrow>
        (if strncmp_eq s ''amqp'' 4 then proton_vmsl_assign v
         else if strncmp_eq s ''stomp'' 5 then litestomp_vmsl_assign v
         else if strncmp_eq s ''mqtt'' 4 then paho_vmsl_assign v
         else (False, v)))"

section \<open>The callbacks of the MQTT client\<close>

text \<open>
  What the callbacks read of a \<open>gru_variant_t\<close>: whether its type is \<open>GRU_INTEGER\<close> or
  \<open>GRU_BOOLEAN\<close>, its number, its flag, the text behind its string pointer (\<^term>\<open>None\<close> when
  the variant holds something else) and the result of \<open>gru_variant_equals_str\<close>.
\<close>

record gru_variant =
  vr_is_integer :: bool
  vr_is_boolean :: bool
  vr_inumber :: int
  vr_flag :: bool
  vr_string :: "string option"
  vr_equals_str :: "string \<Rightarrow> bool"

definition boolean_variant :: "bool \<Rightarrow> gru_variant" where
  "boolean_variant b = \<lparr>vr_is_integer = False, vr_is_boolean = True, vr_inumber = 0, vr_flag = b,
     vr_string = None, vr_equals_str = (\<lambda>s. False)\<rparr>"

text \<open>The callbacks of the program, by address: those of MQTT, then those of AMQP.\<close>

datatype callback_fn = CB_keep_alive_interval | CB_clean_session | CB_qos_mode | CB_retained
  | CB_abnormal_disconnect
  | CB_content_type | CB_properties | CB_ttl | CB_durable | CB_priority
  | CB_qos_mode_send | CB_qos_mode_recv | CB_commit | CB_accept

datatype cb_arg = Arg_Null | Arg_Variant gru_variant | Arg_Player_Info
  | Arg_String "string option" | Arg_Properties

fun arg_variant :: "cb_arg \<Rightarrow> gru_variant option" where
  "arg_variant (Arg_Variant v) = Some v"
| "arg_variant a = None"

type_synonym handlers = "(callback_fn, cb_arg) vmslh_handlers"

text \<open>The fields of \<open>MQTTClient_connectOptions\<close> and \<open>MQTTClient_message\<close> they set; \<open>will\<close> is
  the payload, its length and its topic.\<close>

record mqtt_connect_opts =
  keepAliveInterval :: int
  cleansession :: int
  mqtt_will :: "(byte list option \<times> int \<times> string) option"

record mqtt_message =
  mqtt_qos :: int
  mqtt_retained :: bool

definition paho_set_keep_alive_interval :: "gru_variant option \<Rightarrow> mqtt_connect_opts \<Rightarrow> mqtt_connect_opts" where
  "paho_set_keep_alive_interval pl opts = (case pl of
     Some v \<Rightarrow> (if \<not> vr_is_integer v then opts\<lparr>keepAliveInterval := sint (word_of_int (vr_inumber v) :: u32)\<rparr>
               else opts\<lparr>keepAliveInterval := 20\<rparr>)
   | None \<Rightarrow> opts\<lparr>keepAliveInterval := 20\<rparr>)"

definition paho_set_clean_session :: "gru_variant option \<Rightarrow> mqtt_connect_opts \<Rightarrow> mqtt_connect_opts" where
  "paho_set_clean_session pl opts = (case pl of
     None \<Rightarrow> opts\<lparr>cleansession := 1\<rparr>
   | Some v \<Rightarrow> (if vr_is_boolean v \<and> vr_flag v then opts\<lparr>cleansession := 1\<rparr> else opts\<lparr>cleansession := 0\<rparr>))"

definition paho_set_qos_mode :: "gru_variant option \<Rightarrow> mqtt_message \<Rightarrow> mqtt_message" where
  "paho_set_qos_mode pl m = (case pl of
     None \<Rightarrow> m\<lparr>mqtt_qos := 0\<rparr>
   | Some v \<Rightarrow>
      (if vr_equals_str v ''at-most-once'' then m\<lparr>mqtt_qos := 0\<rparr>
       else if vr_equals_str v ''at-least-once'' then m\<lparr>mqtt_qos := 1\<rparr>
       else if vr_equals_str v ''exactly-once'' then m\<lparr>mqtt_qos := 2\<rparr>
       else m))"

definition paho_set_retained :: "gru_variant option \<Rightarrow> mqtt_message \<Rightarrow> mqtt_message" where
  "paho_set_retained pl m = (case pl of
     Some v \<Rightarrow> m\<lparr>mqtt_retained := vr_is_boolean v \<and> vr_flag v\<rparr>
   | None \<Rightarrow> m\<lparr>mqtt_retained := False\<rparr>)"

text \<open>The callbacks that may stand in \<open>before_send\<close>, by address.\<close>

fun message_callback :: "callback_fn \<Rightarrow> cb_arg \<Rightarrow> mqtt_message \<Rightarrow> mqtt_message undef" where
  "message_callback CB_qos_mode a m = Some (paho_set_qos_mode (arg_variant a) m)"
| "message_callback CB_retained a m = Some (paho_set_retained (arg_variant a) m)"
| "message_callback f a m = None"

text \<open>Registration goes through a pointer to the list, which must not be null; the
  result of \<open>vmslh_add\<close> is dropped.\<close>

definition add_handler :: "gru_allocator \<Rightarrow> bool \<Rightarrow> (callback_fn, cb_arg) callbacks option \<Rightarrow>
    callback_fn \<Rightarrow> cb_arg \<Rightarrow> gru_status \<Rightarrow> ((callback_fn, cb_arg) callbacks option \<times> gru_status) undef" where
  "add_handler al app l f a st = (case l of
     None \<Rightarrow> None
   | Some cs \<Rightarrow> (case vmslh_add al app Arg_Null cs f a st of (b, cs', st') \<Rightarrow> Some (Some cs', st')))"

definition add_before_connect :: "gru_allocator \<Rightarrow> bool \<Rightarrow> callback_fn \<Rightarrow> cb_arg \<Rightarrow>
    handlers \<times> gru_status \<Rightarrow> (handlers \<times> gru_status) undef" where
  "add_before_connect al app f a = (\<lambda>(h, st). do {
     (l, st') \<leftarrow> add_handler al app (before_connect h) f a st;
     Some (h\<lparr>before_connect := l\<rparr>, st')
   })"

definition add_before_send :: "gru_allocator \<Rightarrow> bool \<Rightarrow> callback_fn \<Rightarrow> cb_arg \<Rightarrow>
    handlers \<times> gru_status \<Rightarrow> (handlers \<times> gru_status) undef" where
  "add_before_send al app f a = (\<lambda>(h, st). do {
     (l, st') \<leftarrow> add_handler al app (before_send h) f a st;
     Some (h\<lparr>before_send := l\<rparr>, st')
   })"

datatype msg_direction = MSG_DIRECTION_SENDER | MSG_DIRECTION_RECEIVER | MSG_DIRECTION_BOTH

record gru_keypair =
  kp_key :: string
  kp_pair :: gru_variant

definition paho_set_parameter_by_name :: "gru_allocator \<Rightarrow> bool \<Rightarrow> msg_direction \<Rightarrow> gru_keypair \<Rightarrow>
    handlers \<times> gru_status \<Rightarrow> (handlers \<times> gru_status) undef" where
  "paho_set_parameter_by_name al app dir kp s0 = do {
     s1 \<leftarrow> (if kp_key kp = ''keep-alive''
            then add_before_connect al app CB_keep_alive_interval (Arg_Variant (kp_pair kp)) s0 else Some s0);
     s2 \<leftarrow> (if kp_key kp = ''clean-session''
            then add_before_connect al app CB_clean_session (Arg_Variant (kp_pair kp)) s1 else Some s1);
     s3 \<leftarrow> (if kp_key kp = ''qos-mode'' \<and> dir = MSG_DIRECTION_SENDER
            then add_before_send al app CB_qos_mode (Arg_Variant (kp_pair kp)) s2 else Some s2);
     if kp_key kp = ''retained''
     then add_before_send al app CB_retained (Arg_Variant (kp_pair kp)) s3 else Some s3
   }"

definition paho_set_default_parameters :: "gru_allocator \<Rightarrow> bool \<Rightarrow>
    handlers \<times> gru_status \<Rightarrow> (handlers \<times> gru_status) undef" where
  "paho_set_default_parameters al app s0 = do {
     s1 \<leftarrow> add_before_connect al app CB_keep_alive_interval Arg_Null s0;
     s2 \<leftarrow> add_before_connect al app CB_clean_session Arg_Null s1;
     s3 \<leftarrow> add_before_send al app CB_qos_mode Arg_Null s2;
     add_before_send al app CB_retained Arg_Null s3
   }"

fun set_each_parameter :: "gru_allocator \<Rightarrow> bool \<Rightarrow> msg_direction \<Rightarrow> gru_keypair list \<Rightarrow>
    handlers \<times> gru_status \<Rightarrow> (handlers \<times> gru_status) undef" where
  "set_each_parameter al app dir [] s = Some s"
| "set_each_parameter al app dir (kp # kps) s = do {
     s' \<leftarrow> paho_set_parameter_by_name al app dir kp s;
     set_each_parameter al app dir kps s'
   }"

definition paho_set_user_parameters :: "gru_allocator \<Rightarrow> bool \<Rightarrow> msg_direction \<Rightarrow> gru_keypair list option \<Rightarrow>
    handlers \<times> gru_status \<Rightarrow> (handlers \<times> gru_status) undef" where
  "paho_set_user_parameters al app dir query s = (case query of
     None \<Rightarrow> Some s | Some kps \<Rightarrow> set_each_parameter al app dir kps s)"

section \<open>The table of functions\<close>

text \<open>
  \<open>vmsl_t\<close>: the functions a protocol provides, null until assigned. They act on the
  world \<open>'w\<close> outside the program (the connection behind \<open>api_context\<close> included) and
  see the handler lists they were given at initialisation.
\<close>

record gru_uri =
  uri_scheme :: "string option"
  uri_host :: "string option"
  uri_path :: string
  uri_query :: "gru_keypair list option"

record msg_opt =
  mo_direction :: msg_direction
  mo_statistics :: u32
  mo_conn_id :: string
  mo_uri :: gru_uri

record msg_ctxt =
  msg_opts :: msg_opt

definition MSG_STAT_NONE :: u32 where "MSG_STAT_NONE = 0"
definition MSG_STAT_LATENCY :: u32 where "MSG_STAT_LATENCY = 1"
definition MSG_STAT_THROUGHPUT :: u32 where "MSG_STAT_THROUGHPUT = 2"
definition MSG_STAT_DEFAULT :: u32 where "MSG_STAT_DEFAULT = MSG_STAT_LATENCY OR MSG_STAT_THROUGHPUT"

record mtopic_spec =
  mt_count :: int
  mt_topics :: "string list"
  mt_qos :: int

record 'w vmsl =
  v_init :: "(msg_opt \<Rightarrow> handlers \<Rightarrow> gru_status \<Rightarrow> 'w \<Rightarrow> msg_ctxt option \<times> handlers \<times> gru_status \<times> 'w) option"
  v_start :: "(msg_ctxt \<Rightarrow> handlers \<Rightarrow> gru_status \<Rightarrow> 'w \<Rightarrow> vmsl_stat \<times> gru_status \<times> 'w) option"
  v_send :: "(msg_ctxt \<Rightarrow> handlers \<Rightarrow> msg_content \<Rightarrow> gru_status \<Rightarrow> 'w \<Rightarrow> vmsl_stat \<times> msg_content \<times> gru_status \<times> 'w) option"
  v_subscribe :: "(msg_ctxt \<Rightarrow> mtopic_spec option \<Rightarrow> gru_status \<Rightarrow> 'w \<Rightarrow> vmsl_stat \<times> gru_status \<times> 'w) option"
  v_receive :: "(msg_ctxt \<Rightarrow> handlers \<Rightarrow> msg_content \<Rightarrow> gru_status \<Rightarrow> 'w \<Rightarrow> vmsl_stat \<times> msg_content \<times> gru_status \<times> 'w) option"
  v_stop :: "(msg_ctxt option \<Rightarrow> gru_status \<Rightarrow> 'w \<Rightarrow> gru_status \<times> 'w) option"
  v_destroy :: "(msg_ctxt option \<Rightarrow> gru_status \<Rightarrow> 'w \<Rightarrow> gru_status \<times> 'w) option"
  v_info :: "(string \<times> string) option"

definition vmsl_init :: "'w vmsl" where
  "vmsl_init = \<lparr>v_init = None, v_start = None, v_send = None, v_subscribe = None, v_receive = None,
     v_stop = None, v_destroy = None, v_info = None\<rparr>"

section \<open>Properties\<close>

lemma vmslh_add_ok:
  "al 16 = None \<Longrightarrow> vmslh_add al True pz cs f p st = (True, put_callback pz f p cs, st)"
  by (simp add: put_callback_def vmslh_add_def vmslh_by_addr_def split: option.splits)

text \<open>
  Property C34, vmslh_add_replaces. On a well-formed callback list, with memory
  available, \<open>vmslh_add\<close> succeeds and adds or replaces: the function given now has
  the payload given, every other function keeps its own, a new function goes to
  the end, and the list stays well formed (no function twice, no null entry).
\<close>

theorem vmslh_add_replaces:
  assumes "callbacks_wf cs" and "al 16 = None"
  shows "\<exists>cs'. vmslh_add al True pz cs f p st = (True, cs', st) \<and> callbacks_wf cs' \<and>
    (\<forall>g. payload_of cs' g = (if g = f then Some p else payload_of cs g)) \<and>
    callback_keys cs' = (if f \<in> set (callback_keys cs) then callback_keys cs else callback_keys cs @ [f])"
  using assms by (simp add: vmslh_add_ok cbt.inv_put cbt.get_put cbt.fns_put)

definition sample_callbacks :: "(callback_fn, nat) callbacks" where
  "sample_callbacks = [Some \<lparr>cb_call = Some CB_qos_mode, cb_payload = 1\<rparr>,
     Some \<lparr>cb_call = Some CB_retained, cb_payload = 2\<rparr>]"

theorem vmslh_add_replaces_witness:
  "callbacks_wf sample_callbacks \<and>
   (\<exists>cs'. vmslh_add (\<lambda>n. None) True 0 sample_callbacks CB_retained 7 St_New = (True, cs', St_New) \<and>
     callbacks_wf cs' \<and>
     (\<forall>g. payload_of cs' g = (if g = CB_retained then Some 7 else payload_of sample_callbacks g)) \<and>
     callback_keys cs' = (if CB_retained \<in> set (callback_keys sample_callbacks)
       then callback_keys sample_callbacks else callback_keys sample_callbacks @ [CB_retained]))"
proof
  show wf: "callbacks_wf sample_callbacks"
    by (simp add: sample_callbacks_def callbacks_wf_def)
  show "\<exists>cs'. vmslh_add (\<lambda>n. None) True 0 sample_callbacks CB_retained 7 St_New = (True, cs', St_New) \<and>
     callbacks_wf cs' \<and>
     (\<forall>g. payload_of cs' g = (if g = CB_retained then Some 7 else payload_of sample_callbacks g)) \<and>
     callback_keys cs' = (if CB_retained \<in> set (callback_keys sample_callbacks)
       then callback_keys sample_callbacks else callback_keys sample_callbacks @ [CB_retained])"
    by (rule vmslh_add_replaces [OF wf]) simp
qed

lemma bind_foldl: "foldl (\<lambda>s f. Option.bind s (k f)) None fs = None"
  by (induction fs) simp_all

lemma payload_of_Cons:
  "payload_of (Some \<lparr>cb_call = Some f, cb_payload = p\<rparr> # cs) g = (if g = f then Some p else payload_of cs g)"
  by (auto simp: payload_of_def split: option.splits)

lemma run_callbacks_fold:
  assumes "callbacks_wf cs"
  shows "run_callbacks call cs s
    = foldl (\<lambda>s f. Option.bind s (call f (the (payload_of cs f)))) (Some s) (callback_keys cs)"
  using assms
proof (induction cs arbitrary: s)
  case (Cons c cs)
  then obtain f p where c: "c = Some \<lparr>cb_call = Some f, cb_payload = p\<rparr>"
    and f: "f \<notin> set (callback_keys cs)" and wf: "callbacks_wf cs"
    by (auto simp: callbacks_wf_Cons)
  have "foldl (\<lambda>s g. Option.bind s (call g (the (payload_of (c # cs) g)))) t (callback_keys cs)
      = foldl (\<lambda>s g. Option.bind s (call g (the (payload_of cs g)))) t (callback_keys cs)" for t
    by (rule foldl_cong) (use f c in \<open>auto simp: payload_of_Cons\<close>)
  then show ?case
    using Cons.IH [OF wf] c
    by (cases "call f p s") (simp_all add: payload_of_Cons bind_foldl)
qed simp

text \<open>
  Also proved, vmslh_run_once. Running a well-formed list calls each registered
  function exactly once, in the order of registration, with the payload it was
  last registered with.
\<close>

theorem vmslh_run_once:
  assumes "callbacks_wf cs"
  shows "distinct (callback_keys cs) \<and> vmslh_run call (Some cs) s
    = foldl (\<lambda>s f. Option.bind s (call f (the (payload_of cs f)))) (Some s) (callback_keys cs)"
  using assms run_callbacks_fold [OF assms] by (simp add: vmslh_run_def callbacks_wf_def)

theorem vmslh_run_once_witness:
  "distinct (callback_keys sample_callbacks) \<and> vmslh_run (\<lambda>f p s. Some (s + p)) (Some sample_callbacks) 0
    = foldl (\<lambda>s f. Option.bind s ((\<lambda>s. Some (s + the (payload_of sample_callbacks f))))) (Some 0)
        (callback_keys sample_callbacks)"
  by (rule vmslh_run_once) (simp add: sample_callbacks_def callbacks_wf_def)

text \<open>
  Also proved, vmslh_add_null_entry. When the callback itself cannot be allocated
  but the list node can, \<open>vmslh_add\<close> reports failure and leaves a null entry in
  the list, so every later run of the list is undefined.
\<close>

theorem vmslh_add_null_entry:
  assumes "find_callback cs f = None" and "al 16 = Some m"
  shows "\<exists>cs'. vmslh_add al True pz cs f p st = (False, cs', alloc_fail m) \<and> vmslh_run call (Some cs') s = None"
proof -
  have "run_callbacks call (cs @ [None]) s = None" for s
  proof (induction cs arbitrary: s)
    case (Cons c cs)
    then show ?case
      by (cases c) (auto simp: bind_eq_None_conv split: option.splits)
  qed simp
  with assms show ?thesis
    by (simp add: vmslh_add_def vmslh_by_addr_def vmslh_run_def)
qed

theorem vmslh_add_null_entry_witness:
  "\<exists>cs'. vmslh_add (\<lambda>n. Some ''no memory'') True (0 :: nat) [] CB_retained 1 St_New
      = (False, cs', alloc_fail ''no memory'') \<and> vmslh_run (\<lambda>f p s. Some s) (Some cs') (0 :: nat) = None"
  by (rule vmslh_add_null_entry) simp_all

text \<open>What a key of the URL query registers, per list.\<close>

definition connect_regs :: "gru_keypair \<Rightarrow> (callback_fn \<times> cb_arg) list" where
  "connect_regs kp =
    (if kp_key kp = ''keep-alive'' then [(CB_keep_alive_interval, Arg_Variant (kp_pair kp))]
     else if kp_key kp = ''clean-session'' then [(CB_clean_session, Arg_Variant (kp_pair kp))] else [])"

definition send_regs :: "msg_direction \<Rightarrow> gru_keypair \<Rightarrow> (callback_fn \<times> cb_arg) list" where
  "send_regs dir kp =
    (if kp_key kp = ''qos-mode'' \<and> dir = MSG_DIRECTION_SENDER then [(CB_qos_mode, Arg_Variant (kp_pair kp))]
     else if kp_key kp = ''retained'' then [(CB_retained, Arg_Variant (kp_pair kp))] else [])"

lemma puts_append: "cbt.puts pz (xs @ ys) t = cbt.puts pz ys (cbt.puts pz xs t)"
  by (induction xs arbitrary: t) auto

lemma set_parameter_regs:
  assumes "al 16 = None" and "before_connect h = Some a" and "before_send h = Some b"
  shows "paho_set_parameter_by_name al True dir kp (h, st)
    = Some (h\<lparr>before_connect := Some (cbt.puts Arg_Null (connect_regs kp) a),
              before_send := Some (cbt.puts Arg_Null (send_regs dir kp) b)\<rparr>, st)"
  using assms
  by (cases h) (auto simp: paho_set_parameter_by_name_def add_before_connect_def add_before_send_def
      add_handler_def vmslh_add_ok connect_regs_def send_regs_def)

lemma set_each_regs:
  assumes "al 16 = None" and "before_connect h = Some a" and "before_send h = Some b"
  shows "set_each_parameter al True dir kps (h, st)
    = Some (h\<lparr>before_connect := Some (cbt.puts Arg_Null (concat (map connect_regs kps)) a),
              before_send := Some (cbt.puts Arg_Null (concat (map (send_regs dir) kps)) b)\<rparr>, st)"
  using assms
proof (induction kps arbitrary: h a b)
  case Nil
  then show ?case by (cases h) simp
next
  case (Cons kp kps)
  let ?a = "cbt.puts Arg_Null (connect_regs kp) a" and ?b = "cbt.puts Arg_Null (send_regs dir kp) b"
  let ?h = "h\<lparr>before_connect := Some ?a, before_send := Some ?b\<rparr>"
  have "paho_set_parameter_by_name al True dir kp (h, st) = Some (?h, st)"
    using Cons.prems by (rule set_parameter_regs)
  moreover have "set_each_parameter al True dir kps (?h, st)
    = Some (?h\<lparr>before_connect := Some (cbt.puts Arg_Null (concat (map connect_regs kps)) ?a),
              before_send := Some (cbt.puts Arg_Null (concat (map (send_regs dir) kps)) ?b)\<rparr>, st)"
    using Cons.prems(1) by (rule Cons.IH) simp_all
  ultimately show ?case by (simp add: puts_append)
qed

lemma default_parameters:
  assumes "al 16 = None" and "before_connect h = Some a" and "before_send h = Some b"
  shows "paho_set_default_parameters al True (h, st)
    = Some (h\<lparr>before_connect := Some (cbt.puts Arg_Null
                [(CB_keep_alive_interval, Arg_Null), (CB_clean_session, Arg_Null)] a),
              before_send := Some (cbt.puts Arg_Null [(CB_qos_mode, Arg_Null), (CB_retained, Arg_Null)] b)\<rparr>, st)"
  using assms
  by (cases h) (simp add: paho_set_default_parameters_def add_before_connect_def add_before_send_def
      add_handler_def vmslh_add_ok)

text \<open>The last value the query gives for a key.\<close>

definition query_value :: "gru_keypair list \<Rightarrow> string \<Rightarrow> gru_variant option" where
  "query_value kps k = map_of (rev (map (\<lambda>kp. (kp_key kp, kp_pair kp)) kps)) k"

lemma send_regs_retained:
  "map_of (rev (concat (map (send_regs dir) kps))) CB_retained
     = map_option Arg_Variant (query_value kps ''retained'')"
  by (induction kps) (auto simp: send_regs_def query_value_def map_add_def split: option.splits)

lemma send_regs_qos:
  "map_of (rev (concat (map (send_regs dir) kps))) CB_qos_mode
     = (if dir = MSG_DIRECTION_SENDER then map_option Arg_Variant (query_value kps ''qos-mode'') else None)"
  by (induction kps) (auto simp: send_regs_def query_value_def map_add_def split: option.splits)

definition arg_or_null :: "gru_variant option \<Rightarrow> cb_arg" where
  "arg_or_null v = (case v of Some x \<Rightarrow> Arg_Variant x | None \<Rightarrow> Arg_Null)"

text \<open>
  Also proved, paho_user_overrides_default. Starting from new handler lists, the
  default parameters followed by those of the URL leave, for the retained flag and
  (on the sending side) the QoS mode, the last value the URL gives, and the
  default where it gives none.
\<close>

theorem paho_user_overrides_default:
  assumes "al 16 = None" and "new 0" and "new 2"
  shows "\<exists>h cs. Option.bind (paho_set_default_parameters al True (vmslh_new new, st))
      (paho_set_user_parameters al True MSG_DIRECTION_SENDER (Some kps)) = Some (h, st) \<and>
    before_send h = Some cs \<and> callbacks_wf cs \<and>
    payload_of cs CB_retained = Some (arg_or_null (query_value kps ''retained'')) \<and>
    payload_of cs CB_qos_mode = Some (arg_or_null (query_value kps ''qos-mode''))"
proof -
  let ?d = "cbt.puts Arg_Null [(CB_qos_mode, Arg_Null), (CB_retained, Arg_Null)] []"
  let ?cs = "cbt.puts Arg_Null (concat (map (send_regs MSG_DIRECTION_SENDER) kps)) ?d"
  have wf: "callbacks_wf ?d" by (rule cbt.inv_puts [OF callbacks_wf_Nil])
  have get: "payload_of ?d CB_retained = Some Arg_Null" "payload_of ?d CB_qos_mode = Some Arg_Null"
    by (simp_all add: cbt.get_puts [OF callbacks_wf_Nil] del: cbt.puts.simps)
  have "payload_of ?cs CB_retained = Some (arg_or_null (query_value kps ''retained''))"
    "payload_of ?cs CB_qos_mode = Some (arg_or_null (query_value kps ''qos-mode''))"
    by (simp_all add: cbt.get_puts [OF wf] send_regs_retained send_regs_qos get arg_or_null_def
        del: cbt.puts.simps split: option.splits)
  moreover have "callbacks_wf ?cs" using wf by (rule cbt.inv_puts)
  moreover have "before_connect (vmslh_new new :: handlers) = Some []"
    "before_send (vmslh_new new :: handlers) = Some []"
    using assms(2,3) by (simp_all add: vmslh_new_def new_list_def)
  ultimately show ?thesis
    using assms(1)
    by (simp add: default_parameters [where a = "[]" and b = "[]"] paho_set_user_parameters_def
        set_each_regs del: cbt.puts.simps)
qed

theorem paho_user_overrides_default_witness:
  "\<exists>h cs. Option.bind (paho_set_default_parameters (\<lambda>n. None) True (vmslh_new (\<lambda>i. True), St_New))
      (paho_set_user_parameters (\<lambda>n. None) True MSG_DIRECTION_SENDER
        (Some [\<lparr>kp_key = ''retained'', kp_pair = boolean_variant True\<rparr>])) = Some (h, St_New) \<and>
    before_send h = Some cs \<and> callbacks_wf cs \<and>
    payload_of cs CB_retained = Some (arg_or_null (query_value
      [\<lparr>kp_key = ''retained'', kp_pair = boolean_variant True\<rparr>] ''retained'')) \<and>
    payload_of cs CB_qos_mode = Some (arg_or_null (query_value
      [\<lparr>kp_key = ''retained'', kp_pair = boolean_variant True\<rparr>] ''qos-mode''))"
  by (rule paho_user_overrides_default) simp_all

end
