(* ===== verification/Unit_Tests.thy ===== *)
theory Unit_Tests
  imports Wire Vmsl
begin

text \<open>
  The unit tests of the repository, \<open>test/common/maestro_serialize_test.c\<close>: each builds a
  note with the functions of \<open>maestro_note.c\<close>, serializes it, reads it back and compares the
  fields. The theory holds the tests as they are written and shows that they pass, for
  every msgpack library that keeps its contract and whatever the clock says.
\<close>

section \<open>The comparisons\<close>

text \<open>A comparison of a field of the note; reading a field through a null payload is undefined.\<close>

definition test_str :: "nat \<Rightarrow> string \<Rightarrow> maestro_note \<Rightarrow> bool undef" where
  "test_str i s n = map_option (\<lambda>t. t = s) (note_str n i)"

definition test_bits :: "nat \<Rightarrow> u64 \<Rightarrow> maestro_note \<Rightarrow> bool undef" where
  "test_bits i v n = map_option (\<lambda>w. w = v) (note_bits n i)"

definition test_low :: "nat \<Rightarrow> u32 \<Rightarrow> maestro_note \<Rightarrow> bool undef" where
  "test_low i v n = map_option (\<lambda>w. ucast w = v) (note_bits n i)"

text \<open>The comparisons in order, up to the first that fails.\<close>

fun test_all :: "(maestro_note \<Rightarrow> bool undef) list \<Rightarrow> maestro_note \<Rightarrow> bool undef" where
  "test_all [] n = Some True"
| "test_all (c # cs) n = do { ok \<leftarrow> c n; if ok then test_all cs n else Some False }"

text \<open>
  The part the tests share. The content is created for 16 bytes, the size of a note, and
  its creation is not checked, nor is the serialization. \<open>early\<close>: the note is freed before it
  is read back; \<open>late\<close>: what is freed in the end, after the content.
\<close>

definition read_back_test :: "msgpack_api \<Rightarrow> gru_allocator \<Rightarrow> bool \<Rightarrow> (maestro_note \<Rightarrow> maestro_note \<Rightarrow> unit undef) \<Rightarrow>
    (maestro_note \<Rightarrow> bool undef) list \<Rightarrow> maestro_note \<Rightarrow> gru_status \<Rightarrow> bool undef" where
  "read_back_test mp al early late tests note st =
    (case msg_content_data_init al 16 st zero_content of (content, st1) \<Rightarrow> do {
       (ok, content1) \<leftarrow> maestro_serialize_note mp al note content;
       note1 \<leftarrow> (if early then maestro_note_payload_cleanup note else Some note);
       (ret, deserialized, st2) \<leftarrow> maestro_deserialize_note mp al content1 zero_note st1;
       passed \<leftarrow> (if ret then test_all tests deserialized else Some False);
       u \<leftarrow> late note1 deserialized;
       Some passed
     })"

definition free_read :: "maestro_note \<Rightarrow> maestro_note \<Rightarrow> unit undef" where
  "free_read note deserialized = map_option (\<lambda>n. ()) (maestro_note_payload_cleanup deserialized)"

definition free_note :: "maestro_note \<Rightarrow> maestro_note \<Rightarrow> unit undef" where
  "free_note note deserialized = map_option (\<lambda>n. ()) (maestro_note_payload_cleanup note)"

definition free_both :: "maestro_note \<Rightarrow> maestro_note \<Rightarrow> unit undef" where
  "free_both note deserialized = do { u \<leftarrow> free_read note deserialized; free_note note deserialized }"

definition test_head :: "maestro_request_type \<Rightarrow> maestro_command \<Rightarrow> (maestro_note \<Rightarrow> bool undef) list" where
  "test_head ty cmd = [\<lambda>n. Some (n_type n = type_code ty), \<lambda>n. Some (n_command n = command_code cmd)]"

section \<open>The tests\<close>

definition test_id :: string where
  "test_id = ''71a1b3d2-45e2-11e7-9de0-68f72834b1b3''"

definition test_name :: string where
  "test_name = ''test@localhost.localdomain''"

definition test_head_note :: "maestro_request_type \<Rightarrow> maestro_command \<Rightarrow> maestro_note" where
  "test_head_note ty cmd = maestro_note_set_cmd cmd (maestro_note_set_type ty zero_note)"

text \<open>A test that begins with \<open>maestro_note_payload_prepare\<close>.\<close>

definition with_prepared :: "gru_allocator \<Rightarrow> maestro_note \<Rightarrow> (maestro_note \<Rightarrow> gru_status \<Rightarrow> bool undef) \<Rightarrow> bool undef" where
  "with_prepared al note k =
    (case maestro_note_payload_prepare al note St_New of (ok, note1, st) \<Rightarrow> if ok then k note1 st else Some False)"

definition maestro_serialize_cmd_ping_request_test :: "msgpack_api \<Rightarrow> gru_allocator \<Rightarrow> timestamp \<Rightarrow> bool undef" where
  "maestro_serialize_cmd_ping_request_test mp al ts =
    with_prepared al (test_head_note MAESTRO_TYPE_REQUEST MAESTRO_NOTE_PING) (\<lambda>note st. do {
      note1 \<leftarrow> maestro_note_ping_set_ts ts note;
      read_back_test mp al True free_read
        (test_head MAESTRO_TYPE_REQUEST MAESTRO_NOTE_PING @
         [test_bits ping_sec (word_of_int (tv_sec ts)), test_bits ping_usec (word_of_int (tv_usec ts))]) note1 st })"

text \<open>The second clean-up is of the note that was sent, not of the one that was read.\<close>

definition maestro_serialize_cmd_ping_response_test :: "msgpack_api \<Rightarrow> gru_allocator \<Rightarrow> bool undef" where
  "maestro_serialize_cmd_ping_response_test mp al =
    with_prepared al (test_head_note MAESTRO_TYPE_RESPONSE MAESTRO_NOTE_PING) (\<lambda>note st. do {
      note1 \<leftarrow> maestro_note_response_set_id test_id note;
      note2 \<leftarrow> maestro_note_response_set_name test_name note1;
      note3 \<leftarrow> maestro_note_ping_set_elapsed 30 note2;
      read_back_test mp al True free_note
        (test_head MAESTRO_TYPE_RESPONSE MAESTRO_NOTE_PING @
         [test_str response_id test_id, test_str response_name test_name, test_bits ping_elapsed 30]) note3 st })"

definition maestro_serialize_cmd_ok_test :: "msgpack_api \<Rightarrow> gru_allocator \<Rightarrow> bool undef" where
  "maestro_serialize_cmd_ok_test mp al =
    with_prepared al (test_head_note MAESTRO_TYPE_RESPONSE MAESTRO_NOTE_OK) (\<lambda>note st. do {
      note1 \<leftarrow> maestro_note_response_set_id test_id note;
      note2 \<leftarrow> maestro_note_response_set_name test_name note1;
      read_back_test mp al True free_read
        (test_head MAESTRO_TYPE_RESPONSE MAESTRO_NOTE_OK @
         [test_str response_id test_id, test_str response_name test_name]) note2 st })"

definition test_url :: string where
  "test_url = ''amqp://test.host:5672/queue''"

definition maestro_serialize_cmd_set_opt_test :: "msgpack_api \<Rightarrow> gru_allocator \<Rightarrow> bool undef" where
  "maestro_serialize_cmd_set_opt_test mp al = do {
     note \<leftarrow> maestro_note_set_opt al MAESTRO_NOTE_OPT_SET_BROKER test_url (test_head_note MAESTRO_TYPE_REQUEST MAESTRO_NOTE_SET);
     read_back_test mp al False free_both
       (test_head MAESTRO_TYPE_REQUEST MAESTRO_NOTE_SET @
        [test_bits set_opt_cell (opt_code MAESTRO_NOTE_OPT_SET_BROKER), test_str set_value test_url]) note St_New }"

text \<open>The bits of the doubles \<open>535 / 6\<close>, a division of integers, and \<open>45.6\<close>.\<close>

definition test_rate :: u64 where "test_rate = 0x4056400000000000"
definition test_latency :: u64 where "test_latency = 0x4046CCCCCCCCCCCD"

definition maestro_serialize_cmd_stats_response_test :: "msgpack_api \<Rightarrow> gru_allocator \<Rightarrow> string \<Rightarrow> bool undef" where
  "maestro_serialize_cmd_stats_response_test mp al formatted_ts =
    with_prepared al (test_head_note MAESTRO_TYPE_RESPONSE MAESTRO_NOTE_STATS) (\<lambda>note st. do {
      note1 \<leftarrow> maestro_note_response_set_id test_id note;
      note2 \<leftarrow> maestro_note_response_set_name test_name note1;
      note3 \<leftarrow> maestro_note_stats_set_child_count 6 note2;
      note4 \<leftarrow> maestro_note_stats_set_role ''receiver'' note3;
      note5 \<leftarrow> maestro_note_stats_set_roleinfo ''perf'' note4;
      note6 \<leftarrow> maestro_note_stats_set_stat_type (of_char (CHR ''R'')) note5;
      note7 \<leftarrow> maestro_note_stats_set_perf_ts formatted_ts note6;
      note8 \<leftarrow> maestro_note_stats_set_perf_count 10000 note7;
      note9 \<leftarrow> maestro_note_stats_set_perf_rate test_rate note8;
      note10 \<leftarrow> maestro_note_stats_set_perf_latency test_latency note9;
      read_back_test mp al True free_read
        (test_head MAESTRO_TYPE_RESPONSE MAESTRO_NOTE_STATS @
         [test_str response_id test_id, test_str response_name test_name, test_low stats_child_count 6,
          test_str stats_role ''receiver'', test_str stats_roleinfo ''perf'', test_bits perf_count 10000,
          test_bits perf_rate test_rate, test_bits perf_latency test_latency]) note10 st })"

text \<open>The main function: the name of a test selects it, by its first characters. \<open>now\<close> is the clock and
  \<open>time_str\<close> formats a time.\<close>

definition serialize_test_main :: "msgpack_api \<Rightarrow> gru_allocator \<Rightarrow> timestamp \<Rightarrow> (timestamp \<Rightarrow> string) \<Rightarrow> string list \<Rightarrow> int undef" where
  "serialize_test_main mp al now time_str args =
    (case args of
       [] \<Rightarrow> Some EXIT_FAILURE
     | name # rest \<Rightarrow>
        map_option (\<lambda>passed. if passed then EXIT_SUCCESS else EXIT_FAILURE)
          (if strncmp_eq name ''ok'' 2 then maestro_serialize_cmd_ok_test mp al
           else if strncmp_eq name ''set-opt'' 7 then maestro_serialize_cmd_set_opt_test mp al
           else if strncmp_eq name ''ping-request'' 12 then maestro_serialize_cmd_ping_request_test mp al now
           else if strncmp_eq name ''ping-response'' 13 then maestro_serialize_cmd_ping_response_test mp al
           else if strncmp_eq name ''stats-response'' 14 then maestro_serialize_cmd_stats_response_test mp al (time_str now)
           else Some False))"

section \<open>They pass\<close>

text \<open>A note that says \<open>m\<close> is read back with the same content, and both notes can be freed.\<close>

lemma read_back_passes:
  assumes "msgpack mp" and "note_view n = Some m" and "n_payload n \<noteq> PWild" and "message_ok al m"
    and "al 16 = None" and "al (length (message_bytes mp m)) = None" and "length (message_bytes mp m) < 2 ^ 64"
    and "\<And>d. note_view d = Some m \<Longrightarrow> test_all tests d = Some True" and "late \<in> {free_read, free_note, free_both}"
  shows "read_back_test mp al early late tests n St_New = Some True"
proof -
  obtain c where i: "msg_content_data_init al 16 St_New zero_content = (c, St_New)" using assms(5) by (simp add: msg_content_data_init_def)
  let ?out = "snd (msg_content_data_copy al c (message_bytes mp m))"
  have s: "maestro_serialize_note mp al n c = Some (True, ?out)"
    using serialize_note_view [OF assms(2)] assms(6) by (simp add: emit_def msg_content_data_copy_def Let_def)
  have "content_bytes ?out = Some (message_bytes mp m @ [])" using assms(6,7) by (simp add: copy_bytes)
  from msgpack.deserialize_message [OF assms(1,4) note_view_proper [OF assms(2)] this]
  obtain d where d: "maestro_deserialize_note mp al ?out zero_note St_New = Some (True, d, St_New)" "note_view d = Some m" "note_wf d" by blast
  have f: "maestro_note_payload_cleanup d = Some (d\<lparr>n_payload := PNull\<rparr>)"
    using d(2,3) by (intro note_view_cleanup) (auto simp: note_wf_def)
  have n: "maestro_note_payload_cleanup n = Some (n\<lparr>n_payload := PNull\<rparr>)" by (rule note_view_cleanup [OF assms(2,3)])
  have "maestro_note_payload_cleanup (n\<lparr>n_payload := PNull\<rparr>) = Some (n\<lparr>n_payload := PNull\<rparr>)" by (simp add: maestro_note_payload_cleanup_def)
  with assms(8) [OF d(2)] assms(9) d(1) f n show ?thesis
    unfolding read_back_test_def i by (auto simp: s free_read_def free_note_def free_both_def)
qed

text \<open>What the notes of the tests say.\<close>

definition test_messages :: "timestamp \<Rightarrow> string \<Rightarrow> maestro_message list" where
  "test_messages now ts =
    [Plain_Response (command_code MAESTRO_NOTE_OK) test_id test_name, Set_Request (opt_code MAESTRO_NOTE_OPT_SET_BROKER) test_url,
     Ping_Request (word_of_int (tv_sec now)) (word_of_int (tv_usec now)), Ping_Response test_id test_name 30,
     Stats_Response test_id test_name 6 ''receiver'' ''perf'' 0x52 ts 10000 test_rate test_latency]"

definition test_names :: "string list" where
  "test_names = [''ok'', ''set-opt'', ''ping-request'', ''ping-response'', ''stats-response'']"

lemmas test_note_defs = with_prepared_def test_head_note_def maestro_note_set_cmd_def maestro_note_set_type_def zero_note_def
  maestro_note_response_set_id_def maestro_note_response_set_name_def maestro_note_ping_set_ts_def maestro_note_ping_set_elapsed_def
  maestro_note_set_opt_def maestro_note_stats_set_child_count_def maestro_note_stats_set_role_def maestro_note_stats_set_roleinfo_def
  maestro_note_stats_set_stat_type_def maestro_note_stats_set_perf_ts_def maestro_note_stats_set_perf_count_def
  maestro_note_stats_set_perf_rate_def maestro_note_stats_set_perf_latency_def note_store_def note_cell_def payload_cells_def

lemmas test_defs = test_head_def test_str_def test_bits_def test_low_def


text \<open>What the tests rely on: the contract of msgpack, memory, a formatted time that is a C string,
  and messages shorter than the address space.\<close>

definition tests_run :: "msgpack_api \<Rightarrow> gru_allocator \<Rightarrow> timestamp \<Rightarrow> string \<Rightarrow> bool" where
  "tests_run mp al now ts = (msgpack mp \<and> (\<forall>k. al k = None) \<and> no_nul ts \<and> length ts < 2 ^ 31 \<and>
     list_all (\<lambda>m. length (message_bytes mp m) < 2 ^ 64) (test_messages now ts))"

lemma test_messages_ok:
  assumes "m \<in> set (test_messages now ts)" and "\<And>k. al k = None" and "no_nul ts" and "length ts < 2 ^ 31"
  shows "message_ok al m"
  using assms by (auto simp: test_messages_def message_ok_def text_ok_def test_id_def test_name_def test_url_def no_nul_def NUL_def)

lemma test_passes:
  assumes "tests_run mp al now ts" and "m \<in> set (test_messages now ts)" and "note_view n = Some m" and "n_payload n \<noteq> PWild"
    and "\<And>d. note_view d = Some m \<Longrightarrow> test_all tests d = Some True" and "late \<in> {free_read, free_note, free_both}"
  shows "read_back_test mp al early late tests n St_New = Some True"
proof -
  from assms(1) have r: "msgpack mp" "\<And>k. al k = None" "no_nul ts" "length ts < 2 ^ 31"
    "length (message_bytes mp m) < 2 ^ 64" using assms(2) by (auto simp: tests_run_def list_all_iff)
  show ?thesis by (rule read_back_passes [OF r(1) assms(3,4) test_messages_ok [OF assms(2) r(2-4)] r(2,2,5) assms(5,6)])
qed

lemma tests_alloc: "tests_run mp al now ts \<Longrightarrow> al k = None"
  by (simp add: tests_run_def)

text \<open>Each test is reduced to its note; the rest is what the note says.\<close>

lemmas test_simps = test_note_defs maestro_note_payload_prepare_def tests_alloc
lemmas test_view_simps = test_messages_def view_defs test_defs bind_eq_Some_conv payload_cells_def

lemma serialize_tests_pass:
  assumes "tests_run mp al now ts"
  shows "maestro_serialize_cmd_ok_test mp al = Some True" "maestro_serialize_cmd_set_opt_test mp al = Some True"
    "maestro_serialize_cmd_ping_request_test mp al now = Some True" "maestro_serialize_cmd_ping_response_test mp al = Some True"
    "maestro_serialize_cmd_stats_response_test mp al ts = Some True"
proof -
  note p = test_passes [OF assms]
  show "maestro_serialize_cmd_ok_test mp al = Some True"
    using assms
    by (simp add: maestro_serialize_cmd_ok_test_def test_simps, intro p [where m = "test_messages now ts ! 0"])
      (auto simp: test_view_simps split: if_splits)
  show "maestro_serialize_cmd_set_opt_test mp al = Some True"
    using assms
    by (simp add: maestro_serialize_cmd_set_opt_test_def test_simps, intro p [where m = "test_messages now ts ! 1"])
      (auto simp: test_view_simps split: if_splits)
  show "maestro_serialize_cmd_ping_request_test mp al now = Some True"
    using assms
    by (simp add: maestro_serialize_cmd_ping_request_test_def test_simps, intro p [where m = "test_messages now ts ! 2"])
      (auto simp: test_view_simps split: if_splits)
  show "maestro_serialize_cmd_ping_response_test mp al = Some True"
    using assms
    by (simp add: maestro_serialize_cmd_ping_response_test_def test_simps, intro p [where m = "test_messages now ts ! 3"])
      (auto simp: test_view_simps split: if_splits)
  show "maestro_serialize_cmd_stats_response_test mp al ts = Some True"
    using assms
    by (simp add: maestro_serialize_cmd_stats_response_test_def test_simps, intro p [where m = "test_messages now ts ! 4"])
      (auto simp: test_view_simps split: if_splits)
qed

section \<open>Properties\<close>

lemma test_selects:
  "strncmp_eq ''ok'' ''ok'' 2" "\<not> strncmp_eq ''set-opt'' ''ok'' 2" "strncmp_eq ''set-opt'' ''set-opt'' 7"
  "\<not> strncmp_eq ''ping-request'' ''ok'' 2" "\<not> strncmp_eq ''ping-request'' ''set-opt'' 7" "strncmp_eq ''ping-request'' ''ping-request'' 12"
  "\<not> strncmp_eq ''ping-response'' ''ok'' 2" "\<not> strncmp_eq ''ping-response'' ''set-opt'' 7"
  "\<not> strncmp_eq ''ping-response'' ''ping-request'' 12" "strncmp_eq ''ping-response'' ''ping-response'' 13"
  "\<not> strncmp_eq ''stats-response'' ''ok'' 2" "\<not> strncmp_eq ''stats-response'' ''set-opt'' 7"
  "\<not> strncmp_eq ''stats-response'' ''ping-request'' 12" "\<not> strncmp_eq ''stats-response'' ''ping-response'' 13"
  "strncmp_eq ''stats-response'' ''stats-response'' 14"
  by (simp_all add: strncmp_eq_def)

text \<open>
  Property C4, unit_tests_pass. Every unit test of the repository for the serialization of notes
  passes: the test program called with the name of a test exits with success, for every
  msgpack library that keeps its contract and for every time of the clock.
\<close>

theorem unit_tests_pass:
  assumes "tests_run mp al now (time_str now)" and "name \<in> set test_names"
  shows "serialize_test_main mp al now time_str (name # rest) = Some EXIT_SUCCESS"
proof -
  note t = serialize_tests_pass [OF assms(1)]
  have "\<forall>name \<in> set test_names. serialize_test_main mp al now time_str (name # rest) = Some EXIT_SUCCESS"
    unfolding test_names_def
    by (simp only: list.set ball_simps insert_iff serialize_test_main_def list.case test_selects t if_True if_False option.map simp_thms)
  with assms(2) show ?thesis by blast
qed

lemma format_tests_run: "tests_run msgpack_format (\<lambda>k. None) zero_ts ''2017-05-01''"
  unfolding tests_run_def using mpf.msgpack_axioms
  by (auto simp: no_nul_def NUL_def test_messages_def test_id_def test_name_def test_url_def) (simp_all add: format_defs)

theorem unit_tests_pass_witness:
  "serialize_test_main msgpack_format (\<lambda>k. None) zero_ts (\<lambda>t. ''2017-05-01'') [''stats-response''] = Some EXIT_SUCCESS"
  by (rule unit_tests_pass [OF format_tests_run]) (simp add: test_names_def)

end
