(* ===== verification/Debug.thy ===== *)
theory Debug
  imports Prelude
begin

text \<open>
  The trace of the bytes a program receives, \<open>maestro_trace_proto\<close> of
  \<open>maestro_debug.c\<close>, in the builds with \<open>MPT_DEBUG\<close> of at least two (in the others it is an
  empty macro).
\<close>

section \<open>The trace\<close>

text \<open>The conversion \<open>%02x\<close> of a value that fits a byte.\<close>

definition hex_digit :: "nat \<Rightarrow> char" where
  "hex_digit d = ''0123456789abcdef'' ! d"

definition hex_byte :: "byte \<Rightarrow> string" where
  "hex_byte b = [hex_digit (of_char b div 16), hex_digit (of_char b mod 16)]"

text \<open>
  The loop of the trace, which runs while its counter is below the length; reading past
  the end of the buffer is undefined.
\<close>

function trace_loop :: "byte list \<Rightarrow> nat \<Rightarrow> nat \<Rightarrow> string undef" where
  "trace_loop buf n i =
    (if i < n then
       if i < length buf then map_option (\<lambda>rest. hex_byte (buf ! i) @ '' '' @ rest) (trace_loop buf n (Suc i)) else None
     else Some [])"
  by pat_completeness auto

termination by (relation "measure (\<lambda>(buf, n, i). n - i)") auto

declare trace_loop.simps [simp del]

text \<open>The length is signed and the counter is not: the comparison is between unsigned numbers.\<close>

definition maestro_trace_proto :: "byte list \<Rightarrow> int \<Rightarrow> string undef" where
  "maestro_trace_proto buf len =
    map_option (\<lambda>t. ''[TRACE]'' @ t @ [CHR 0x0A]) (trace_loop buf (nat (len mod 2 ^ 64)) 0)"

section \<open>Reading a trace\<close>

definition hex_value :: "char \<Rightarrow> nat option" where
  "hex_value c = find (\<lambda>d. hex_digit d = c) [0..<16]"

fun read_bytes :: "string \<Rightarrow> byte list option" where
  "read_bytes (h # l # sp # rest) =
    (case (hex_value h, hex_value l, read_bytes rest) of
       (Some a, Some b, Some bs) \<Rightarrow> if sp = CHR '' '' then Some (char_of (16 * a + b) # bs) else None
     | _ \<Rightarrow> None)"
| "read_bytes t = (if t = [CHR 0x0A] then Some [] else None)"

definition read_trace :: "string \<Rightarrow> byte list option" where
  "read_trace t = (if take 7 t = ''[TRACE]'' then read_bytes (drop 7 t) else None)"

lemma hex_value_digit: "d < 16 \<Longrightarrow> hex_value (hex_digit d) = Some d"
proof -
  have "\<forall>d \<in> set [0..<16]. hex_value (hex_digit d) = Some d" by code_simp
  then show "d < 16 \<Longrightarrow> ?thesis" by simp
qed

lemma hex_byte_read:
  "read_bytes (hex_byte b @ '' '' @ t) = map_option (Cons b) (read_bytes t)"
proof -
  have "(of_char b :: nat) div 16 < 16" by (rule less_mult_imp_div_less) simp
  then have "hex_value (hex_digit ((of_char b :: nat) div 16)) = Some ((of_char b :: nat) div 16)"
    "hex_value (hex_digit ((of_char b :: nat) mod 16)) = Some ((of_char b :: nat) mod 16)" by (simp_all add: hex_value_digit)
  moreover have "16 * ((of_char b :: nat) div 16) + (of_char b :: nat) mod 16 = (of_char b :: nat)" by simp
  ultimately show ?thesis by (simp add: hex_byte_def split: option.split)
qed

lemma trace_loop_prefix:
  "n \<le> length buf \<Longrightarrow> trace_loop buf n i = Some (concat (map (\<lambda>b. hex_byte b @ '' '') (drop i (take n buf))))"
proof (induction buf n i rule: trace_loop.induct)
  case (1 buf n i)
  show ?case
  proof (cases "i < n")
    case True
    then have "drop i (take n buf) = buf ! i # drop (Suc i) (take n buf)" using "1.prems" by (simp add: Cons_nth_drop_Suc [symmetric])
    then show ?thesis using True 1 by (simp add: trace_loop.simps [of buf n i])
  qed (simp add: trace_loop.simps)
qed

lemma trace_loop_overrun: "length buf < n \<Longrightarrow> i \<le> length buf \<Longrightarrow> trace_loop buf n i = None"
proof (induction buf n i rule: trace_loop.induct)
  case (1 buf n i)
  show ?case unfolding trace_loop.simps [of buf n i] using 1 by auto
qed

lemma read_bytes_concat: "read_bytes (concat (map (\<lambda>b. hex_byte b @ '' '') bs) @ [CHR 0x0A]) = Some bs"
  by (induction bs) (simp_all add: hex_byte_read [simplified])

section \<open>Properties\<close>

text \<open>
  Also proved, trace_reads_back. The trace of a length within the buffer shows its bytes, in their order,
  two digits each: they can be read back from it. A longer length, and a negative one,
  which the unsigned comparison takes for a great one, reads past the end of the buffer.
\<close>

theorem trace_reads_back:
  assumes "- (2 ^ 63) \<le> len" and "len < 2 ^ 63" and "length buf < 2 ^ 63"
  shows "(if 0 \<le> len \<and> nat len \<le> length buf
      then \<exists>t. maestro_trace_proto buf len = Some t \<and> read_trace t = Some (take (nat len) buf)
      else maestro_trace_proto buf len = None)"
proof (cases "0 \<le> len \<and> nat len \<le> length buf")
  case True
  then have "len mod 2 ^ 64 = len" using assms(2) by simp
  then show ?thesis using True trace_loop_prefix [of "nat len" buf 0] read_bytes_concat [of "take (nat len) buf"]
    by (simp add: maestro_trace_proto_def read_trace_def)
next
  case False
  have "length buf < nat (len mod 2 ^ 64)"
  proof (cases "0 \<le> len")
    case True
    then show ?thesis using False assms(2) by simp
  next
    case neg: False
    have "len mod 2 ^ 64 = (len + 2 ^ 64) mod 2 ^ 64" by simp
    also have "\<dots> = len + 2 ^ 64" using neg assms(1) by (intro mod_pos_pos_trivial) auto
    finally have "len mod 2 ^ 64 = len + 2 ^ 64" .
    then have "2 ^ 63 \<le> len mod 2 ^ 64" using assms(1) by simp
    then have "nat (2 ^ 63) \<le> nat (len mod 2 ^ 64)" by (rule nat_mono)
    then show ?thesis using assms(3) by simp
  qed
  then show ?thesis using False trace_loop_overrun [of buf _ 0] by (auto simp: maestro_trace_proto_def)
qed

theorem trace_reads_back_witness:
  "\<exists>t. maestro_trace_proto [CHR 0xA0, CHR 0x07] 2 = Some t \<and> read_trace t = Some [CHR 0xA0, CHR 0x07] \<and> maestro_trace_proto [CHR 0xA0, CHR 0x07] (- 1) = None"
proof -
  have "maestro_trace_proto [CHR 0xA0, CHR 0x07] (- 1) = None" using trace_reads_back [of "- 1" "[CHR 0xA0, CHR 0x07]"] by simp
  then show ?thesis using trace_reads_back [of 2 "[CHR 0xA0, CHR 0x07]"] by simp
qed

end
