(* ===== verification/Stats.thy ===== *)
theory Stats
  imports Prelude
begin

text \<open>
  Statistics, \<open>src/common/statistics\<close>: the records of \<open>stats_types.h\<close>, the calculator, the
  writer tables of \<open>stats_writer.h\<close> and the initialisation of the writers in
  \<open>naming_utils.c\<close>. A writer is a table of function pointers that act on the world
  \<open>'w\<close>; a null pointer is \<^term>\<open>None\<close>. The tables of the four report formats are
  arguments of the initialisation.
\<close>

section \<open>Data\<close>

record stat_latency =
  sl_duration :: gru_duration
  sl_elapsed :: timestamp

text \<open>The rate is a double, kept as its bits.\<close>

record stat_throughput =
  stp_duration :: gru_duration
  stp_count :: u64
  stp_rate :: u64

definition zero_latency :: stat_latency where
  "zero_latency = \<lparr>sl_duration = zero_duration, sl_elapsed = zero_ts\<rparr>"

definition zero_throughput :: stat_throughput where
  "zero_throughput = \<lparr>stp_duration = zero_duration, stp_count = 0, stp_rate = 0\<rparr>"

section \<open>The calculator\<close>

text \<open>\<open>timersub\<close>: a borrow from the seconds when the microseconds are negative.\<close>

definition timersub :: "timestamp \<Rightarrow> timestamp \<Rightarrow> timestamp" where
  "timersub a b =
    (let sec = tv_sec a - tv_sec b; usec = tv_usec a - tv_usec b in
     if usec < 0 then \<lparr>tv_sec = sec - 1, tv_usec = usec + 1000000\<rparr> else \<lparr>tv_sec = sec, tv_usec = usec\<rparr>)"

definition calc_latency :: "stat_latency \<Rightarrow> timestamp \<Rightarrow> timestamp \<Rightarrow> stat_latency" where
  "calc_latency out start end' = out\<lparr>sl_duration := \<lparr>dur_start = start, dur_end = end'\<rparr>,
     sl_elapsed := timersub end' start\<rparr>"

text \<open>\<open>elapsed_secs\<close> is \<open>gru_time_elapsed_secs\<close>, \<open>fdiv\<close> the quotient of two converted
  integers as a double.\<close>

definition calc_throughput :: "(timestamp \<Rightarrow> timestamp \<Rightarrow> u64) \<Rightarrow> (u64 \<Rightarrow> u64 \<Rightarrow> u64) \<Rightarrow> stat_throughput \<Rightarrow>
    timestamp \<Rightarrow> timestamp \<Rightarrow> u64 \<Rightarrow> stat_throughput" where
  "calc_throughput elapsed_secs fdiv out start end' count =
     out\<lparr>stp_duration := \<lparr>dur_start = start, dur_end = end'\<rparr>, stp_count := count,
         stp_rate := fdiv count (elapsed_secs start end')\<rparr>"

lemma timersub_micros: "ts_micros (timersub a b) = ts_micros a - ts_micros b"
  by (simp add: timersub_def ts_micros_def Let_def algebra_simps)

lemma timersub_wf: "ts_wf a \<Longrightarrow> ts_wf b \<Longrightarrow> ts_wf (timersub a b)"
  by (simp add: timersub_def ts_wf_def Let_def)

section \<open>Writers\<close>

record stat_io_info =
  io_name :: string
  io_location :: string

record ('w, 'd) writer_table =
  wr_initialize :: "(stat_io_info \<Rightarrow> gru_status \<Rightarrow> 'w \<Rightarrow> bool \<times> gru_status \<times> 'w) option"
  wr_write :: "('d \<Rightarrow> gru_status \<Rightarrow> 'w \<Rightarrow> bool \<times> gru_status \<times> 'w) option"
  wr_flush :: "(gru_status \<Rightarrow> 'w \<Rightarrow> bool \<times> gru_status \<times> 'w) option"
  wr_finalize :: "(gru_status \<Rightarrow> 'w \<Rightarrow> bool \<times> gru_status \<times> 'w) option"

text \<open>\<open>latency_writer_t\<close>, \<open>throughput_writer_t\<close> and \<open>tpr_writer_t\<close> differ in what is written:
  the last one also takes the estimated time of the action.\<close>

record 'w stats_writer =
  w_latency :: "('w, stat_latency) writer_table"
  w_throughput :: "('w, stat_throughput) writer_table"
  w_rate :: "('w, stat_throughput \<times> timestamp) writer_table"

definition null_table :: "('w, 'd) writer_table" where
  "null_table = \<lparr>wr_initialize = None, wr_write = None, wr_flush = None, wr_finalize = None\<rparr>"

definition null_writer :: "'w stats_writer" where
  "null_writer = \<lparr>w_latency = null_table, w_throughput = null_table, w_rate = null_table\<rparr>"

datatype report_format = FORMAT_CSV | FORMAT_NOP | FORMAT_OUT | FORMAT_HDR

type_synonym naming_opt = u32

definition NM_LATENCY :: naming_opt where "NM_LATENCY = 1"
definition NM_THROUGHPUT :: naming_opt where "NM_THROUGHPUT = 2"
definition NM_RATE :: naming_opt where "NM_RATE = 4"

definition nm_has :: "naming_opt \<Rightarrow> naming_opt \<Rightarrow> bool" where
  "nm_has opt flag = (opt AND flag \<noteq> 0)"

record naming_info =
  nm_source :: string
  nm_location :: string

section \<open>Names\<close>

definition FILENAME_MAX :: nat where
  "FILENAME_MAX = 4096"

text \<open>\<open>snprintf (out, len - 1, ...)\<close> into a zeroed buffer: at most \<open>len - 2\<close> characters.\<close>

definition naming_hdr_name :: "naming_info \<Rightarrow> string \<Rightarrow> nat \<Rightarrow> string" where
  "naming_hdr_name nm base len = take (len - 2) (nm_source nm @ ''-'' @ base @ ''.hdr'')"

definition naming_csv_name :: "naming_info \<Rightarrow> string \<Rightarrow> nat \<Rightarrow> string" where
  "naming_csv_name nm base len = take (len - 2) (nm_source nm @ ''-'' @ base @ ''.csv.gz'')"

type_synonym naming_func = "naming_info \<Rightarrow> string \<Rightarrow> nat \<Rightarrow> string"

text \<open>The three initialisers differ in the base name and the type of the writer.\<close>

definition initialize_named :: "string \<Rightarrow> ('w, 'd) writer_table \<Rightarrow> naming_info \<Rightarrow> naming_func \<Rightarrow>
    gru_status \<Rightarrow> 'w \<Rightarrow> (bool \<times> gru_status \<times> 'w) undef" where
  "initialize_named base wt nm naming st w =
     map_option (\<lambda>ini. ini \<lparr>io_name = naming nm base FILENAME_MAX, io_location = nm_location nm\<rparr> st w)
       (wr_initialize wt)"

definition naming_initialize_latency_writer :: "('w, stat_latency) writer_table \<Rightarrow> naming_info \<Rightarrow> naming_func \<Rightarrow>
    gru_status \<Rightarrow> 'w \<Rightarrow> (bool \<times> gru_status \<times> 'w) undef" where
  "naming_initialize_latency_writer = initialize_named ''latency''"

definition naming_initialize_throughput_writer :: "('w, stat_throughput) writer_table \<Rightarrow> naming_info \<Rightarrow> naming_func \<Rightarrow>
    gru_status \<Rightarrow> 'w \<Rightarrow> (bool \<times> gru_status \<times> 'w) undef" where
  "naming_initialize_throughput_writer = initialize_named ''throughput''"

definition naming_initialize_tpr_writer :: "('w, stat_throughput \<times> timestamp) writer_table \<Rightarrow> naming_info \<Rightarrow> naming_func \<Rightarrow>
    gru_status \<Rightarrow> 'w \<Rightarrow> (bool \<times> gru_status \<times> 'w) undef" where
  "naming_initialize_tpr_writer = initialize_named ''rate''"

type_synonym 'w naming_result = "(bool \<times> 'w stats_writer \<times> gru_status \<times> 'w) undef"

text \<open>One stage of the CSV and HDR initialisers: when the bit is set, assign the table,
  initialise it and stop on failure.\<close>

definition latency_stage :: "bool \<Rightarrow> 'w stats_writer \<Rightarrow> naming_func \<Rightarrow> naming_info \<Rightarrow>
    'w stats_writer \<Rightarrow> gru_status \<Rightarrow> 'w \<Rightarrow> 'w naming_result" where
  "latency_stage on impl naming nm wr st w =
    (if on then do {
       (ok, st', w') \<leftarrow> naming_initialize_latency_writer (w_latency impl) nm naming st w;
       Some (ok, wr\<lparr>w_latency := w_latency impl\<rparr>, st', w')
     } else Some (True, wr, st, w))"

definition throughput_stage :: "bool \<Rightarrow> 'w stats_writer \<Rightarrow> naming_func \<Rightarrow> naming_info \<Rightarrow>
    'w stats_writer \<Rightarrow> gru_status \<Rightarrow> 'w \<Rightarrow> 'w naming_result" where
  "throughput_stage on impl naming nm wr st w =
    (if on then do {
       (ok, st', w') \<leftarrow> naming_initialize_throughput_writer (w_throughput impl) nm naming st w;
       Some (ok, wr\<lparr>w_throughput := w_throughput impl\<rparr>, st', w')
     } else Some (True, wr, st, w))"

definition rate_stage :: "bool \<Rightarrow> 'w stats_writer \<Rightarrow> naming_func \<Rightarrow> naming_info \<Rightarrow>
    'w stats_writer \<Rightarrow> gru_status \<Rightarrow> 'w \<Rightarrow> 'w naming_result" where
  "rate_stage on impl naming nm wr st w =
    (if on then do {
       (ok, st', w') \<leftarrow> naming_initialize_tpr_writer (w_rate impl) nm naming st w;
       Some (ok, wr\<lparr>w_rate := w_rate impl\<rparr>, st', w')
     } else Some (True, wr, st, w))"

definition initialize_stages :: "'w stats_writer \<Rightarrow> naming_func \<Rightarrow> naming_opt \<Rightarrow> naming_info \<Rightarrow>
    'w stats_writer \<Rightarrow> gru_status \<Rightarrow> 'w \<Rightarrow> 'w naming_result" where
  "initialize_stages impl latency_name opt nm wr st w = do {
     (ok1, wr1, st1, w1) \<leftarrow> latency_stage (nm_has opt NM_LATENCY) impl latency_name nm wr st w;
     if \<not> ok1 then Some (False, wr1, st1, w1) else do {
       (ok2, wr2, st2, w2) \<leftarrow> throughput_stage (nm_has opt NM_THROUGHPUT) impl naming_csv_name nm wr1 st1 w1;
       if \<not> ok2 then Some (False, wr2, st2, w2)
       else rate_stage (nm_has opt NM_RATE) impl naming_csv_name nm wr2 st2 w2
     }
   }"

definition naming_initialize_hdr_writer :: "'w stats_writer \<Rightarrow> 'w stats_writer \<Rightarrow> naming_opt \<Rightarrow> naming_info \<Rightarrow>
    gru_status \<Rightarrow> 'w \<Rightarrow> 'w naming_result" where
  "naming_initialize_hdr_writer hdr wr opt nm st w = initialize_stages hdr naming_hdr_name opt nm wr st w"

definition naming_initialize_csv_writer :: "'w stats_writer \<Rightarrow> 'w stats_writer \<Rightarrow> naming_opt \<Rightarrow> naming_info \<Rightarrow>
    gru_status \<Rightarrow> 'w \<Rightarrow> 'w naming_result" where
  "naming_initialize_csv_writer csv wr opt nm st w = initialize_stages csv naming_csv_name opt nm wr st w"

definition naming_initialize_out_writer :: "'w stats_writer \<Rightarrow> 'w stats_writer \<Rightarrow> gru_status \<Rightarrow> 'w \<Rightarrow> 'w naming_result" where
  "naming_initialize_out_writer out wr st w = Some (True,
     wr\<lparr>w_latency := w_latency out, w_throughput := w_throughput out, w_rate := w_rate out\<rparr>, st, w)"

definition naming_initialize_nop_writer :: "'w stats_writer \<Rightarrow> 'w stats_writer \<Rightarrow> gru_status \<Rightarrow> 'w \<Rightarrow> 'w naming_result" where
  "naming_initialize_nop_writer nop wr st w = Some (True,
     wr\<lparr>w_latency := w_latency nop, w_throughput := w_throughput nop, w_rate := w_rate nop\<rparr>, st, w)"

definition naming_initialize_writer :: "(report_format \<Rightarrow> 'w stats_writer) \<Rightarrow> 'w stats_writer \<Rightarrow> report_format \<Rightarrow>
    naming_opt \<Rightarrow> naming_info \<Rightarrow> gru_status \<Rightarrow> 'w \<Rightarrow> 'w naming_result" where
  "naming_initialize_writer impl wr format opt nm st w =
    (case format of
       FORMAT_HDR \<Rightarrow> naming_initialize_hdr_writer (impl FORMAT_HDR) wr opt nm st w
     | FORMAT_CSV \<Rightarrow> naming_initialize_csv_writer (impl FORMAT_CSV) wr opt nm st w
     | FORMAT_NOP \<Rightarrow> naming_initialize_nop_writer (impl FORMAT_NOP) wr st w
     | FORMAT_OUT \<Rightarrow> naming_initialize_out_writer (impl FORMAT_OUT) wr st w)"

text \<open>A table whose bit is not set stays as it was.\<close>

lemma stages_keep_rate:
  "initialize_stages impl nf opt nm wr st w = Some (ok, wr', st', w') \<Longrightarrow> \<not> nm_has opt NM_RATE \<Longrightarrow> w_rate wr' = w_rate wr"
  by (auto simp: initialize_stages_def latency_stage_def throughput_stage_def rate_stage_def bind_eq_Some_conv
      split: if_splits)

lemma naming_keeps_rate:
  "naming_initialize_writer impl wr f opt nm st w = Some (ok, wr', st', w') \<Longrightarrow> f = FORMAT_CSV \<or> f = FORMAT_HDR \<Longrightarrow>
     \<not> nm_has opt NM_RATE \<Longrightarrow> w_rate wr' = w_rate wr"
  by (auto simp: naming_initialize_writer_def naming_initialize_csv_writer_def naming_initialize_hdr_writer_def
      dest: stages_keep_rate)

section \<open>Properties\<close>

text \<open>
  Also proved, latency_elapsed. The latency of a message is the difference of the two
  times to the microsecond, in normal form (microseconds from 0 to 999999) when
  they are, and the interval itself is recorded.
\<close>

theorem latency_elapsed:
  assumes "ts_wf start" and "ts_wf end'"
  shows "ts_micros (sl_elapsed (calc_latency out start end')) = ts_micros end' - ts_micros start \<and>
    ts_wf (sl_elapsed (calc_latency out start end')) \<and>
    sl_duration (calc_latency out start end') = \<lparr>dur_start = start, dur_end = end'\<rparr>"
  using assms by (simp add: calc_latency_def timersub_micros timersub_wf)

theorem latency_elapsed_witness:
  "ts_micros (sl_elapsed (calc_latency zero_latency \<lparr>tv_sec = 5, tv_usec = 900000\<rparr> \<lparr>tv_sec = 6, tv_usec = 100000\<rparr>))
     = ts_micros \<lparr>tv_sec = 6, tv_usec = 100000\<rparr> - ts_micros \<lparr>tv_sec = 5, tv_usec = 900000\<rparr> \<and>
   ts_wf (sl_elapsed (calc_latency zero_latency \<lparr>tv_sec = 5, tv_usec = 900000\<rparr> \<lparr>tv_sec = 6, tv_usec = 100000\<rparr>)) \<and>
   sl_duration (calc_latency zero_latency \<lparr>tv_sec = 5, tv_usec = 900000\<rparr> \<lparr>tv_sec = 6, tv_usec = 100000\<rparr>)
     = \<lparr>dur_start = \<lparr>tv_sec = 5, tv_usec = 900000\<rparr>, dur_end = \<lparr>tv_sec = 6, tv_usec = 100000\<rparr>\<rparr>"
  by (rule latency_elapsed) (simp_all add: ts_wf_def)

lemma stages_assign:
  "initialize_stages impl nf opt nm wr st w = Some (True, wr', st', w') \<Longrightarrow>
   wr' = \<lparr>w_latency = (if nm_has opt NM_LATENCY then w_latency impl else w_latency wr),
     w_throughput = (if nm_has opt NM_THROUGHPUT then w_throughput impl else w_throughput wr),
     w_rate = (if nm_has opt NM_RATE then w_rate impl else w_rate wr)\<rparr>"
  by (cases wr) (auto simp: initialize_stages_def latency_stage_def throughput_stage_def rate_stage_def
      bind_eq_Some_conv split: if_splits)

text \<open>
  Also proved, naming_assigns_selected. For the file formats (CSV and HDR), a successful
  initialisation assigns exactly the writers whose bit is set in the naming
  options; the tables of the others stay as they were, null pointers included.
\<close>

theorem naming_assigns_selected:
  assumes "naming_initialize_writer impl wr format opt nm st w = Some (True, wr', st', w')"
    and "format = FORMAT_CSV \<or> format = FORMAT_HDR"
  shows "w_latency wr' = (if nm_has opt NM_LATENCY then w_latency (impl format) else w_latency wr) \<and>
    w_throughput wr' = (if nm_has opt NM_THROUGHPUT then w_throughput (impl format) else w_throughput wr) \<and>
    w_rate wr' = (if nm_has opt NM_RATE then w_rate (impl format) else w_rate wr)"
  using assms
  by (auto simp: naming_initialize_writer_def naming_initialize_hdr_writer_def naming_initialize_csv_writer_def
      dest!: stages_assign)

definition sample_table :: "('w, 'd) writer_table" where
  "sample_table = \<lparr>wr_initialize = Some (\<lambda>io st w. (True, st, w)), wr_write = Some (\<lambda>d st w. (True, st, w)),
     wr_flush = Some (\<lambda>st w. (True, st, w)), wr_finalize = Some (\<lambda>st w. (True, st, w))\<rparr>"

definition sample_writer :: "'w stats_writer" where
  "sample_writer = \<lparr>w_latency = sample_table, w_throughput = sample_table, w_rate = sample_table\<rparr>"

definition sample_assigned :: "unit stats_writer" where
  "sample_assigned = null_writer\<lparr>w_throughput := sample_table\<rparr>"

definition sample_impl :: "report_format \<Rightarrow> unit stats_writer" where
  "sample_impl f = sample_writer"

lemma sample_naming:
  "naming_initialize_writer sample_impl null_writer FORMAT_CSV NM_THROUGHPUT
      \<lparr>nm_source = ''sender'', nm_location = ''/tmp''\<rparr> St_New ()
    = Some (True, sample_assigned, St_New, ())"
  by (simp add: naming_initialize_writer_def naming_initialize_csv_writer_def initialize_stages_def
      latency_stage_def throughput_stage_def rate_stage_def naming_initialize_throughput_writer_def
      initialize_named_def sample_writer_def sample_table_def nm_has_def NM_LATENCY_def NM_THROUGHPUT_def
      NM_RATE_def sample_impl_def sample_assigned_def)

theorem naming_assigns_selected_witness:
  "w_latency sample_assigned
     = (if nm_has NM_THROUGHPUT NM_LATENCY then w_latency (sample_impl FORMAT_CSV) else w_latency null_writer) \<and>
   w_throughput sample_assigned
     = (if nm_has NM_THROUGHPUT NM_THROUGHPUT then w_throughput (sample_impl FORMAT_CSV) else w_throughput null_writer) \<and>
   w_rate sample_assigned
     = (if nm_has NM_THROUGHPUT NM_RATE then w_rate (sample_impl FORMAT_CSV) else w_rate null_writer)"
  by (rule naming_assigns_selected [OF sample_naming]) simp

end
