(* ===== verification/Strategy.thy ===== *)
theory Strategy
  imports Content
begin

text \<open>
  The payload strategies of \<open>src/common/strategies/payload\<close>: what a sender puts into
  each message. A fixed payload always has the size asked for, a variable one a
  random size around it. Both keep static variables, gathered in \<open>pl_state\<close> with the
  position in the stream of \<open>rand ()\<close>. The locale \<open>payload_strategy\<close> is what the sender
  relies on; both strategies interpret it.
\<close>

section \<open>State\<close>

record pl_state =
  fixed_initial_size :: u64
  initial_size :: u64
  lower_bound :: u64
  upper_bound :: u64
  limit :: u64
  rand_pos :: nat

type_synonym pl_init = "gru_allocator \<Rightarrow> u64 \<Rightarrow> gru_status \<Rightarrow> msg_content \<Rightarrow> pl_state \<Rightarrow>
  (bool \<times> gru_status \<times> msg_content \<times> pl_state) undef"
type_synonym pl_load = "msg_content \<Rightarrow> pl_state \<Rightarrow> (u64 \<times> msg_content \<times> pl_state) undef"
type_synonym pl_cleanup = "msg_content \<Rightarrow> msg_content"

text \<open>\<open>pl_strategy_t\<close>: three function pointers.\<close>

record pl_strategy =
  pl_st_init :: "pl_init option"
  pl_st_load :: "pl_load option"
  pl_st_cleanup :: "pl_cleanup option"

section \<open>Operations\<close>

definition pl_fixed_init :: pl_init where
  "pl_fixed_init al sz st c pg =
    (let pg1 = pg\<lparr>fixed_initial_size := sz\<rparr>;
         (c1, st1) = msg_content_data_init al sz st c in
     if \<not> gru_status_success st1 then Some (False, st1, msg_content_data_release c1, pg1)
     else do {
       c2 \<leftarrow> msg_content_data_fill c1 (CHR ''d'');
       Some (True, st1, c2, pg1)
     })"

definition pl_fixed_load :: pl_load where
  "pl_fixed_load c pg = Some (fixed_initial_size pg, c, pg)"

definition pl_fixed_cleanup :: pl_cleanup where
  "pl_fixed_cleanup c = msg_content_data_release c"

text \<open>The bounds: five percent of the size (in whole hundreds), one byte for a small size.\<close>

definition pl_variable_bounds :: "u64 \<Rightarrow> pl_state \<Rightarrow> pl_state" where
  "pl_variable_bounds sz pg =
    (let bound = (if 100 < sz then (sz div 100) * 5 else 1);
         lo = sz - bound; hi = sz + bound in
     pg\<lparr>initial_size := sz, lower_bound := lo, upper_bound := hi, limit := hi - lo\<rparr>)"

definition pl_variable_init :: "rand_stream \<Rightarrow> pl_init" where
  "pl_variable_init rnd al sz st c pg =
    (let pg1 = pl_variable_bounds sz pg;
         (c1, st1) = msg_content_data_init al (upper_bound pg1) st c in
     if \<not> gru_status_success st1 then Some (False, st1, msg_content_data_release c1, pg1)
     else do {
       (c2, k) \<leftarrow> msg_content_data_rfill rnd (rand_pos pg1) c1;
       Some (True, st1, c2, pg1\<lparr>rand_pos := k\<rparr>)
     })"

text \<open>\<open>rand () % limit\<close> is undefined for a limit of 0.\<close>

definition pl_variable_load :: "rand_stream \<Rightarrow> pl_load" where
  "pl_variable_load rnd c pg =
    (if limit pg = 0 then None
     else Some (initial_size pg,
       c\<lparr>mc_size := lower_bound pg + word_of_nat (rnd (rand_pos pg)) mod limit pg\<rparr>,
       pg\<lparr>rand_pos := Suc (rand_pos pg)\<rparr>))"

definition pl_variable_cleanup :: pl_cleanup where
  "pl_variable_cleanup c = msg_content_data_release c"

definition pl_fixed_assign :: "pl_strategy \<Rightarrow> pl_strategy" where
  "pl_fixed_assign ps = \<lparr>pl_st_init = Some pl_fixed_init, pl_st_load = Some pl_fixed_load,
     pl_st_cleanup = Some pl_fixed_cleanup\<rparr>"

definition pl_variable_assign :: "rand_stream \<Rightarrow> pl_strategy \<Rightarrow> pl_strategy" where
  "pl_variable_assign rnd ps = \<lparr>pl_st_init = Some (pl_variable_init rnd), pl_st_load = Some (pl_variable_load rnd),
     pl_st_cleanup = Some pl_variable_cleanup\<rparr>"

definition pl_strategy_assign :: "rand_stream \<Rightarrow> pl_strategy \<Rightarrow> bool \<Rightarrow> pl_strategy" where
  "pl_strategy_assign rnd ps variable_size =
    (if variable_size then pl_variable_assign rnd ps else pl_fixed_assign ps)"

text \<open>A number of loads in a row, as the sender's loop does them.\<close>

fun loads :: "pl_load \<Rightarrow> nat \<Rightarrow> msg_content \<Rightarrow> pl_state \<Rightarrow> (msg_content \<times> pl_state) undef" where
  "loads ld 0 c pg = Some (c, pg)"
| "loads ld (Suc n) c pg = do { (r, c', pg') \<leftarrow> ld c pg; loads ld n c' pg' }"

section \<open>What a sender relies on\<close>

text \<open>
  \<open>ok sz\<close>: the sizes the strategy is meant for; \<open>lo sz\<close> and \<open>hi sz\<close>: the bounds on the
  size of a message; \<open>ready sz pg c\<close>: initialised for \<open>sz\<close>.
\<close>

locale payload_strategy =
  fixes init :: pl_init and load :: pl_load and ok :: "u64 \<Rightarrow> bool" and lo hi :: "u64 \<Rightarrow> nat"
    and ready :: "u64 \<Rightarrow> pl_state \<Rightarrow> msg_content \<Rightarrow> bool"
  assumes init_ready:
    "ok sz \<Longrightarrow> gru_status_success st \<Longrightarrow> al (hi sz) = None \<Longrightarrow>
       \<exists>c' pg'. init al sz st c pg = Some (True, st, c', pg') \<and> ready sz pg' c'"
    and init_failed:
    "ok sz \<Longrightarrow> al (hi sz) = Some m \<Longrightarrow>
       \<exists>c' pg'. init al sz st c pg = Some (False, alloc_fail m, c', pg') \<and> mc_data c' = None \<and> content_wf c'"
    and load_ready:
    "ok sz \<Longrightarrow> ready sz pg c \<Longrightarrow>
       \<exists>c' pg'. load c pg = Some (sz, c', pg') \<and> ready sz pg' c' \<and> mc_data c' = mc_data c"
    and ready_wf:
    "ok sz \<Longrightarrow> ready sz pg c \<Longrightarrow>
       mc_data c \<noteq> None \<and> content_wf c \<and> lo sz \<le> unat (mc_size c) \<and> unat (mc_size c) \<le> hi sz"
begin

lemma loads_ready:
  assumes "ok sz" and "ready sz pg c"
  shows "\<exists>c' pg'. loads load n c pg = Some (c', pg') \<and> ready sz pg' c'"
  using assms(2)
proof (induction n arbitrary: c pg)
  case (Suc n)
  from load_ready [OF assms(1) Suc.prems] obtain c' pg' where
    "load c pg = Some (sz, c', pg')" "ready sz pg' c'" by blast
  with Suc.IH [of pg' c'] show ?case by simp
qed simp

text \<open>After the initialisation, every message of a run can be read and is within the bounds.\<close>

lemma message_bounds:
  assumes "ok sz" and "gru_status_success st" and "al (hi sz) = None"
  shows "\<exists>c1 pg1 c2 pg2 bs. init al sz st c pg = Some (True, st, c1, pg1) \<and> loads load n c1 pg1 = Some (c2, pg2) \<and>
    content_bytes c2 = Some bs \<and> lo sz \<le> length bs \<and> length bs \<le> hi sz"
proof -
  from init_ready [where al = al, OF assms] obtain c1 pg1 where
    i: "init al sz st c pg = Some (True, st, c1, pg1)" "ready sz pg1 c1" by blast
  from loads_ready [OF assms(1) i(2)] obtain c2 pg2 where
    l: "loads load n c1 pg1 = Some (c2, pg2)" "ready sz pg2 c2" by blast
  from ready_wf [OF assms(1) l(2)] have "mc_data c2 \<noteq> None" "content_wf c2"
    "lo sz \<le> unat (mc_size c2)" "unat (mc_size c2) \<le> hi sz" by simp_all
  then have "\<exists>bs. content_bytes c2 = Some bs \<and> lo sz \<le> length bs \<and> length bs \<le> hi sz"
    by (auto simp: content_wf_def content_bytes_def word_le_nat_alt)
  with i(1) l(1) show ?thesis by blast
qed

end

section \<open>The fixed strategy\<close>

lemma fill_ok:
  assumes "mc_data c = Some d" and "length d = unat (mc_capacity c)" and "0 < mc_capacity c"
  shows "msg_content_data_fill c v
    = Some (c\<lparr>mc_data := Some (replicate (unat (mc_capacity c)) v), mc_size := mc_capacity c\<rparr>)"
proof -
  obtain n where n: "unat (mc_capacity c) = Suc n"
    using assms(3) by (metis gr0_conv_Suc unat_gt_0 word_neq_0_conv)
  then have "fill_loop (unat (mc_capacity c - 1)) v d = Some (take 1 d @ replicate n v)"
    using assms(2) by (simp add: unat_capacity_pred fill_loop_eq)
  moreover have "(take 1 d @ replicate n v)[0 := v] = replicate (Suc n) v"
    using assms(2) n by (cases d) simp_all
  moreover have "d \<noteq> []" using assms(2) n by auto
  ultimately show ?thesis using assms(1) n by (simp add: msg_content_data_fill_def)
qed

definition fixed_ready :: "u64 \<Rightarrow> pl_state \<Rightarrow> msg_content \<Rightarrow> bool" where
  "fixed_ready sz pg c = (fixed_initial_size pg = sz \<and> mc_data c = Some (replicate (unat sz) (CHR ''d'')) \<and>
     mc_capacity c = sz \<and> mc_size c = sz)"

interpretation fixed: payload_strategy pl_fixed_init pl_fixed_load "\<lambda>sz. 0 < sz" unat unat fixed_ready
proof
  fix sz :: u64 and st c pg and al :: gru_allocator
  assume "0 < sz" and "gru_status_success st" and "al (unat sz) = None"
  then show "\<exists>c' pg'. pl_fixed_init al sz st c pg = Some (True, st, c', pg') \<and> fixed_ready sz pg' c'"
    by (simp add: pl_fixed_init_def init_ok fill_ok fixed_ready_def)
next
  fix sz :: u64 and st c pg m and al :: gru_allocator
  assume "al (unat sz) = Some m"
  then show "\<exists>c' pg'. pl_fixed_init al sz st c pg = Some (False, alloc_fail m, c', pg') \<and> mc_data c' = None \<and> content_wf c'"
    by (simp add: pl_fixed_init_def msg_content_data_init_def Let_def) (simp add: msg_content_data_release_def)
next
  fix sz pg c
  assume "fixed_ready sz pg c"
  then show "\<exists>c' pg'. pl_fixed_load c pg = Some (sz, c', pg') \<and> fixed_ready sz pg' c' \<and> mc_data c' = mc_data c"
    by (simp add: pl_fixed_load_def fixed_ready_def)
next
  fix sz pg c
  assume "fixed_ready sz pg c"
  then show "mc_data c \<noteq> None \<and> content_wf c \<and> unat sz \<le> unat (mc_size c) \<and> unat (mc_size c) \<le> unat sz"
    by (auto simp: fixed_ready_def content_wf_def)
qed

section \<open>The variable strategy\<close>

definition var_bound :: "u64 \<Rightarrow> nat" where
  "var_bound sz = (if 100 < unat sz then unat sz div 100 * 5 else 1)"

definition var_lo :: "u64 \<Rightarrow> nat" where "var_lo sz = unat sz - var_bound sz"
definition var_hi :: "u64 \<Rightarrow> nat" where "var_hi sz = unat sz + var_bound sz"

definition var_ok :: "u64 \<Rightarrow> bool" where
  "var_ok sz = (0 < sz \<and> unat sz < 2 ^ 63)"

lemma five_percent: "n div 100 * 5 \<le> (n :: nat)"
proof -
  have "n div 100 * 5 \<le> n div 100 * 100" by simp
  also have "\<dots> \<le> n" by (rule div_times_less_eq_dividend)
  finally show ?thesis .
qed

lemma var_bound_le: "var_ok sz \<Longrightarrow> var_bound sz \<le> unat sz \<and> 0 < var_bound sz"
proof -
  assume ok: "var_ok sz"
  then have "0 < unat sz" by (simp add: var_ok_def word_less_nat_alt)
  moreover have "100 < unat sz \<Longrightarrow> 0 < unat sz div 100 * 5" by (simp add: div_greater_zero_iff)
  ultimately show ?thesis using five_percent [of "unat sz"] by (simp add: var_bound_def)
qed

lemma unat_bound:
  assumes "var_ok sz"
  shows "unat (if 100 < sz then (sz div 100) * 5 else 1 :: u64) = var_bound sz"
proof (cases "100 < sz")
  case True
  have "unat sz div 100 * 5 \<le> unat sz" by (rule five_percent)
  also have "\<dots> < 2 ^ 64" using assms by (simp add: var_ok_def)
  finally have "unat (sz div 100) * 5 < 2 ^ 64" by (simp add: unat_div)
  then have "unat ((sz div 100) * 5) = unat (sz div 100) * 5"
    by (simp add: unat_word_ariths)
  with True show ?thesis by (simp add: var_bound_def unat_div word_less_nat_alt)
qed (simp add: var_bound_def word_less_nat_alt)

lemma var_bounds:
  assumes "var_ok sz"
  shows "unat (lower_bound (pl_variable_bounds sz pg)) = var_lo sz"
    and "unat (upper_bound (pl_variable_bounds sz pg)) = var_hi sz"
    and "unat (limit (pl_variable_bounds sz pg)) = 2 * var_bound sz"
proof -
  let ?b = "if 100 < sz then (sz div 100) * 5 else 1 :: u64"
  note b = unat_bound [OF assms] var_bound_le [OF assms]
  have le: "?b \<le> sz" using b by (simp add: word_le_nat_alt)
  have "unat sz + unat ?b < 2 ^ 64" using b assms by (simp add: var_ok_def)
  then have hi: "unat (sz + ?b) = unat sz + unat ?b" by (simp add: unat_word_ariths)
  have lo: "unat (sz - ?b) = unat sz - unat ?b" using le by (rule unat_sub)
  have "sz - ?b \<le> sz + ?b" using hi lo by (simp add: word_le_nat_alt)
  then have lim: "unat (sz + ?b - (sz - ?b)) = unat (sz + ?b) - unat (sz - ?b)" by (rule unat_sub)
  show "unat (lower_bound (pl_variable_bounds sz pg)) = var_lo sz"
    using lo b by (simp add: pl_variable_bounds_def Let_def var_lo_def)
  show "unat (upper_bound (pl_variable_bounds sz pg)) = var_hi sz"
    using hi b by (simp add: pl_variable_bounds_def Let_def var_hi_def)
  show "unat (limit (pl_variable_bounds sz pg)) = 2 * var_bound sz"
    unfolding pl_variable_bounds_def Let_def using lim hi lo b by simp
qed

definition variable_ready :: "u64 \<Rightarrow> pl_state \<Rightarrow> msg_content \<Rightarrow> bool" where
  "variable_ready sz pg c = (initial_size pg = sz \<and> unat (lower_bound pg) = var_lo sz \<and>
     unat (limit pg) = 2 * var_bound sz \<and>
     (\<exists>d. mc_data c = Some d \<and> length d = var_hi sz) \<and> unat (mc_capacity c) = var_hi sz \<and>
     var_lo sz \<le> unat (mc_size c) \<and> unat (mc_size c) \<le> var_hi sz)"

lemma variable_load_size:
  assumes "var_ok sz" and "variable_ready sz pg c"
  shows "limit pg \<noteq> 0" and "var_lo sz \<le> unat (lower_bound pg + word_of_nat r mod limit pg)"
    and "unat (lower_bound pg + word_of_nat r mod limit pg) < var_hi sz"
proof -
  have b: "unat (lower_bound pg) = var_lo sz" "unat (limit pg) = 2 * var_bound sz"
    using assms(2) by (simp_all add: variable_ready_def)
  note v = var_bound_le [OF assms(1)]
  have "unat (limit pg) \<noteq> 0" using b(2) v by simp
  then show nz: "limit pg \<noteq> 0" by auto
  let ?m = "word_of_nat r mod limit pg :: u64"
  have "?m < limit pg" using nz by (simp add: word_mod_less_divisor word_neq_0_conv)
  then have m: "unat ?m < 2 * var_bound sz" using b(2) by (simp add: word_less_nat_alt)
  have s: "var_lo sz + 2 * var_bound sz = var_hi sz" using v by (simp add: var_lo_def var_hi_def)
  have "var_hi sz < 2 ^ 64" using v assms(1) by (simp add: var_hi_def var_ok_def)
  then have "unat (lower_bound pg + ?m) = var_lo sz + unat ?m"
    using m b(1) s by (simp add: unat_word_ariths)
  then show "var_lo sz \<le> unat (lower_bound pg + ?m)" and "unat (lower_bound pg + ?m) < var_hi sz"
    using m s by simp_all
qed

lemma rfill_ok:
  assumes "mc_data c = Some d" and "length d = unat (mc_capacity c)" and "0 < mc_capacity c"
  shows "\<exists>d' k'. msg_content_data_rfill rnd k c
      = Some (c\<lparr>mc_data := Some d', mc_size := mc_capacity c\<rparr>, k') \<and> length d' = length d"
proof -
  obtain n where n: "unat (mc_capacity c) = Suc n"
    using assms(3) by (metis gr0_conv_Suc unat_gt_0 word_neq_0_conv)
  then obtain d' k' where "rfill_loop rnd k (unat (mc_capacity c - 1)) d = Some (d', k')" "length d' = length d"
    using rfill_loop_shape [of n d rnd k] assms(2) by (auto simp: unat_capacity_pred)
  moreover from this assms(2) n have "d' \<noteq> []" by auto
  ultimately show ?thesis
    using assms(1) by (intro exI [of _ "d'[0 := rand_char rnd k']"]) (simp add: msg_content_data_rfill_def)
qed

interpretation variable: payload_strategy "pl_variable_init rnd" "pl_variable_load rnd" var_ok var_lo var_hi
    variable_ready for rnd
proof
  fix sz st pg and c :: msg_content and al :: gru_allocator
  assume ok: "var_ok sz" and st: "gru_status_success st" and al: "al (var_hi sz) = None"
  let ?pg = "pl_variable_bounds sz pg"
  let ?c = "c\<lparr>mc_data := Some (zero_block (var_hi sz)), mc_capacity := upper_bound ?pg, mc_size := 0\<rparr>"
  have u: "unat (upper_bound ?pg) = var_hi sz" using var_bounds(2) [OF ok] .
  then have i: "msg_content_data_init al (upper_bound ?pg) st c = (?c, st)"
    using al by (simp add: init_ok)
  have "0 < upper_bound ?pg" using u var_bound_le [OF ok] by (simp add: word_less_nat_alt var_hi_def)
  with u obtain d k where f: "msg_content_data_rfill rnd (rand_pos ?pg) ?c
      = Some (?c\<lparr>mc_data := Some d, mc_size := upper_bound ?pg\<rparr>, k)" "length d = var_hi sz"
    using rfill_ok [of ?c "zero_block (var_hi sz)" rnd "rand_pos ?pg"] by auto
  have "pl_variable_init rnd al sz st c pg = Some (True, st, ?c\<lparr>mc_data := Some d, mc_size := upper_bound ?pg\<rparr>,
      ?pg\<lparr>rand_pos := k\<rparr>)"
    using st by (simp add: pl_variable_init_def i f Let_def del: pl_state.simps msg_content.simps)
  moreover have "variable_ready sz (?pg\<lparr>rand_pos := k\<rparr>) (?c\<lparr>mc_data := Some d, mc_size := upper_bound ?pg\<rparr>)"
    using f(2) u var_bounds [OF ok, of pg]
    by (simp add: variable_ready_def var_lo_def var_hi_def) (simp add: pl_variable_bounds_def Let_def)
  ultimately show "\<exists>c' pg'. pl_variable_init rnd al sz st c pg = Some (True, st, c', pg') \<and> variable_ready sz pg' c'"
    by blast
next
  fix sz st pg m and c :: msg_content and al :: gru_allocator
  assume "var_ok sz" and "al (var_hi sz) = Some m"
  then show "\<exists>c' pg'. pl_variable_init rnd al sz st c pg = Some (False, alloc_fail m, c', pg') \<and>
      mc_data c' = None \<and> content_wf c'"
    using var_bounds(2) [of sz pg]
    by (simp add: pl_variable_init_def msg_content_data_init_def Let_def) (simp add: msg_content_data_release_def)
next
  fix sz pg c
  assume ok: "var_ok sz" and r: "variable_ready sz pg c"
  from variable_load_size(1) [OF ok r] variable_load_size(2,3) [OF ok r, of "rnd (rand_pos pg)"] r
  show "\<exists>c' pg'. pl_variable_load rnd c pg = Some (sz, c', pg') \<and> variable_ready sz pg' c' \<and> mc_data c' = mc_data c"
    by (simp add: pl_variable_load_def variable_ready_def)
next
  fix sz pg c
  assume "variable_ready sz pg c"
  then show "mc_data c \<noteq> None \<and> content_wf c \<and> var_lo sz \<le> unat (mc_size c) \<and> unat (mc_size c) \<le> var_hi sz"
    by (auto simp: variable_ready_def content_wf_def word_le_nat_alt)
qed

section \<open>Properties\<close>

text \<open>
  Also proved, fixed_payload_exact. With the fixed strategy and a size above zero, the
  initialisation succeeds when the block can be allocated, and after any number of
  loads the message is exactly the size asked for, all of it the letter d.
\<close>

theorem fixed_payload_exact:
  assumes "0 < sz" and "gru_status_success st" and "al (unat sz) = None"
  shows "\<exists>c1 pg1 c2 pg2. pl_fixed_init al sz st c pg = Some (True, st, c1, pg1) \<and>
    loads pl_fixed_load n c1 pg1 = Some (c2, pg2) \<and>
    content_bytes c2 = Some (replicate (unat sz) (CHR ''d''))"
proof -
  from fixed.init_ready [where al = al, OF assms] obtain c1 pg1 where
    i: "pl_fixed_init al sz st c pg = Some (True, st, c1, pg1)" "fixed_ready sz pg1 c1" by blast
  from fixed.loads_ready [OF assms(1) i(2)] obtain c2 pg2 where
    l: "loads pl_fixed_load n c1 pg1 = Some (c2, pg2)" "fixed_ready sz pg2 c2" by blast
  from l(2) have "content_bytes c2 = Some (replicate (unat sz) (CHR ''d''))"
    by (simp add: fixed_ready_def content_bytes_def)
  with i(1) l(1) show ?thesis by blast
qed

definition sample_pl_state :: pl_state where
  "sample_pl_state = \<lparr>fixed_initial_size = 0, initial_size = 0, lower_bound = 0, upper_bound = 0, limit = 0,
     rand_pos = 0\<rparr>"

theorem fixed_payload_exact_witness:
  "\<exists>c1 pg1 c2 pg2. pl_fixed_init (\<lambda>n. None) 3 St_New zero_content sample_pl_state = Some (True, St_New, c1, pg1) \<and>
    loads pl_fixed_load 5 c1 pg1 = Some (c2, pg2) \<and>
    content_bytes c2 = Some (replicate (unat (3 :: u64)) (CHR ''d''))"
  by (rule fixed_payload_exact) simp_all

text \<open>
  Property C36, variable_payload_bounds. With the variable strategy and a size from 1 to
  \<open>2\<^sup>6\<^sup>3\<close>, every message of a run can be read in full. Its length differs from the
  size by at most five bytes for each whole hundred, or one byte for sizes up to 100. For sizes from 20
  on that is within the five percent that the help and the documentation name; for
  smaller sizes one byte is more than that.
\<close>

theorem variable_payload_bounds:
  assumes "0 < sz" and "unat sz < 2 ^ 63" and "gru_status_success st" and "al (var_hi sz) = None"
  shows "\<exists>c1 pg1 c2 pg2 bs. pl_variable_init rnd al sz st c pg = Some (True, st, c1, pg1) \<and>
    loads (pl_variable_load rnd) n c1 pg1 = Some (c2, pg2) \<and> content_bytes c2 = Some bs \<and>
    (let b = (if 100 < unat sz then unat sz div 100 * 5 else 1) in
     unat sz - b \<le> length bs \<and> length bs \<le> unat sz + b) \<and>
    (20 \<le> unat sz \<longrightarrow> 20 * (unat sz - length bs) \<le> unat sz \<and> 20 * (length bs - unat sz) \<le> unat sz)"
proof -
  obtain c1 pg1 c2 pg2 bs where m: "pl_variable_init rnd al sz st c pg = Some (True, st, c1, pg1)"
    "loads (pl_variable_load rnd) n c1 pg1 = Some (c2, pg2)" "content_bytes c2 = Some bs"
    "unat sz - var_bound sz \<le> length bs" "length bs \<le> unat sz + var_bound sz"
    using variable.message_bounds [where al = al, of sz st rnd c pg n] assms by (auto simp: var_ok_def var_lo_def var_hi_def)
  have "20 * var_bound sz \<le> unat sz" if "20 \<le> unat sz"
    using that div_times_less_eq_dividend [of "unat sz" 100] by (auto simp: var_bound_def)
  then have "20 \<le> unat sz \<longrightarrow> 20 * (unat sz - length bs) \<le> unat sz \<and> 20 * (length bs - unat sz) \<le> unat sz" using m(4,5) by auto
  with m show ?thesis by (auto simp: var_bound_def Let_def)
qed

theorem variable_payload_bounds_witness:
  "\<exists>c1 pg1 c2 pg2 bs. pl_variable_init (\<lambda>k. 7 * k) (\<lambda>n. None) 256 St_New zero_content sample_pl_state
      = Some (True, St_New, c1, pg1) \<and>
    loads (pl_variable_load (\<lambda>k. 7 * k)) 3 c1 pg1 = Some (c2, pg2) \<and> content_bytes c2 = Some bs \<and>
    (let b = (if 100 < unat (256 :: u64) then unat (256 :: u64) div 100 * 5 else 1) in
     unat (256 :: u64) - b \<le> length bs \<and> length bs \<le> unat (256 :: u64) + b) \<and>
    (20 \<le> unat (256 :: u64) \<longrightarrow> 20 * (unat (256 :: u64) - length bs) \<le> unat (256 :: u64) \<and> 20 * (length bs - unat (256 :: u64)) \<le> unat (256 :: u64))"
  by (rule variable_payload_bounds) simp_all

text \<open>
  Also proved, small_payload_exceeds. For every size below 20 the variable strategy can
  make a message that is more than five percent shorter than asked for.
\<close>

theorem small_payload_exceeds:
  assumes "0 < sz" and "unat sz < 20" and "gru_status_success st" and "al (var_hi sz) = None"
  shows "\<exists>c1 pg1 c2 pg2 bs. pl_variable_init (\<lambda>k. 0) al sz st c pg = Some (True, st, c1, pg1) \<and>
    pl_variable_load (\<lambda>k. 0) c1 pg1 = Some (sz, c2, pg2) \<and> content_bytes c2 = Some bs \<and> unat sz < 20 * (unat sz - length bs)"
proof -
  have ok: "var_ok sz" using assms(1,2) by (simp add: var_ok_def)
  obtain c1 pg1 where i: "pl_variable_init (\<lambda>k. 0) al sz st c pg = Some (True, st, c1, pg1)" "variable_ready sz pg1 c1"
    using variable.init_ready [where al = al, OF ok assms(3,4)] by blast
  obtain c2 pg2 where l: "pl_variable_load (\<lambda>k. 0) c1 pg1 = Some (sz, c2, pg2)" "variable_ready sz pg2 c2"
    using variable.load_ready [OF ok i(2)] by blast
  have "unat (mc_size c2) = unat sz - 1"
    using l(1) i(2) assms(2) by (auto simp: pl_variable_load_def variable_ready_def var_lo_def var_bound_def Let_def split: if_splits)
  moreover have "0 < unat sz" using assms(1) by (simp add: word_less_nat_alt)
  moreover obtain d where "mc_data c2 = Some d" "length d = var_hi sz" "unat (mc_capacity c2) = var_hi sz"
    using l(2) by (auto simp: variable_ready_def)
  ultimately have "\<exists>bs. content_bytes c2 = Some bs \<and> unat sz < 20 * (unat sz - length bs)"
    using assms(2) l(2) by (simp add: content_bytes_def variable_ready_def)
  with i(1) l(1) show ?thesis by blast
qed

theorem small_payload_exceeds_witness:
  "\<exists>c1 pg1 c2 pg2 bs. pl_variable_init (\<lambda>k. 0) (\<lambda>n. None) 10 St_New zero_content sample_pl_state = Some (True, St_New, c1, pg1) \<and>
    pl_variable_load (\<lambda>k. 0) c1 pg1 = Some (10, c2, pg2) \<and> content_bytes c2 = Some bs \<and> unat (10 :: u64) < 20 * (unat (10 :: u64) - length bs)"
  by (rule small_payload_exceeds) simp_all

text \<open>
  Also proved, fixed_payload_zero. A fixed payload of size 0 that the allocator grants
  makes the fill loop start at \<open>SIZE_MAX\<close>: the run is undefined.
\<close>

theorem fixed_payload_zero:
  assumes "gru_status_success st" and "al 0 = None"
  shows "pl_fixed_init al 0 st c pg = None"
  using assms
  by (simp add: pl_fixed_init_def init_ok msg_content_data_fill_def fill_loop_out_of_bounds
      unat_minus_one_u64 [simplified])

theorem fixed_payload_zero_witness:
  "pl_fixed_init (\<lambda>n. None) 0 St_New zero_content sample_pl_state = None"
  by (rule fixed_payload_zero) simp_all

end
