(* ===== verification/Queue.thy ===== *)
theory Queue
  imports Prelude
begin

text \<open>
  The queues between the workers and the process that watches them,
  \<open>src/worker/ipc\<close>: a SysV queue (\<open>worker_vqueue.c\<close>) or a POSIX queue
  (\<open>worker_pqueue.c\<close>) behind the common interface of \<open>worker_queue.c\<close>. The system calls
  are the parameter \<open>ipc_api\<close>, over messages \<open>'m\<close> (the memory of a snapshot) and a world
  \<open>'w\<close>. The locale \<open>ipc_kernel\<close> states what is documented of them, for many queues of both
  kinds in one kernel; from it follows, as a sublocale, the first-in first-out contract
  \<open>snapshot_queue\<close> of each queue. It is interpreted on a kernel that keeps its queues in tables.
\<close>

section \<open>Status bits\<close>

type_synonym wq_stat = u32

definition MPT_WQ_ERROR :: wq_stat where "MPT_WQ_ERROR = 0"
definition MPT_WQ_SUCCESS :: wq_stat where "MPT_WQ_SUCCESS = 1"
definition MPT_WQ_NO_DATA :: wq_stat where "MPT_WQ_NO_DATA = 2"

definition wq_stat_success :: "wq_stat \<Rightarrow> bool" where
  "wq_stat_success s = (s AND MPT_WQ_SUCCESS \<noteq> 0)"

definition wq_stat_error :: "wq_stat \<Rightarrow> bool" where
  "wq_stat_error s = (\<not> s AND MPT_WQ_SUCCESS \<noteq> 0)"

definition wq_has_data :: "wq_stat \<Rightarrow> bool" where
  "wq_has_data s = (\<not> s AND MPT_WQ_NO_DATA \<noteq> 0)"

lemma wq_stat_cases [simp, status_simps]:
  "wq_has_data MPT_WQ_SUCCESS" "wq_has_data MPT_WQ_ERROR" "\<not> wq_has_data (MPT_WQ_SUCCESS OR MPT_WQ_NO_DATA)"
  "wq_stat_error MPT_WQ_ERROR" "\<not> wq_stat_error MPT_WQ_SUCCESS"
  "wq_stat_success MPT_WQ_SUCCESS" "\<not> wq_stat_success MPT_WQ_ERROR"
  by (simp_all add: wq_has_data_def wq_stat_error_def wq_stat_success_def MPT_WQ_ERROR_def
      MPT_WQ_SUCCESS_def MPT_WQ_NO_DATA_def)

section \<open>The system calls\<close>

text \<open>A receive that does not block: a message, none there (\<open>ENOMSG\<close>, \<open>EAGAIN\<close>), or
  another error.\<close>

datatype 'm received = Received 'm | Empty_Queue | Receive_Error

record ('m, 'w) ipc_api =
  ipc_ftok :: "int \<Rightarrow> int"
  ipc_msgget :: "int \<Rightarrow> 'w \<Rightarrow> int \<times> 'w"
  ipc_msgsnd :: "int \<Rightarrow> nat \<Rightarrow> 'm \<Rightarrow> 'w \<Rightarrow> bool \<times> 'w"
  ipc_msgrcv :: "int \<Rightarrow> nat \<Rightarrow> 'w \<Rightarrow> 'm received \<times> 'w"
  ipc_asprintf :: bool
  ipc_mq_open :: "string \<Rightarrow> nat \<Rightarrow> 'w \<Rightarrow> int option \<times> 'w"
  ipc_mq_send :: "int \<Rightarrow> nat \<Rightarrow> 'm \<Rightarrow> 'w \<Rightarrow> bool \<times> 'w"
  ipc_mq_receive :: "int \<Rightarrow> nat \<Rightarrow> 'w \<Rightarrow> 'm received \<times> 'w"
  ipc_mq_close :: "int \<Rightarrow> 'w \<Rightarrow> 'w"
  ipc_strerror :: string
  ipc_use_posix :: bool

section \<open>SysV queues\<close>

record worker_vqueue =
  vq_queue :: int

text \<open>The size of \<open>worker_snapshot_t\<close> on the target, which is that of \<open>mtext\<close>.\<close>

definition sizeof_snapshot :: nat where
  "sizeof_snapshot = 168"

text \<open>\<open>create_queue\<close> of \<open>process_utils.c\<close>.\<close>

definition create_queue :: "('m, 'w) ipc_api \<Rightarrow> int \<Rightarrow> gru_status \<Rightarrow> 'w \<Rightarrow> int \<times> gru_status \<times> 'w" where
  "create_queue ipc key st w =
    (case ipc_msgget ipc key w of (q, w') \<Rightarrow>
       if q < 0 then (- 1, St_Set GRU_FAILURE (''Unable to create a POSIX queue: '' @ ipc_strerror ipc), w')
       else (q, st, w'))"

definition worker_vqueue_new :: "('m, 'w) ipc_api \<Rightarrow> gru_allocator \<Rightarrow> int \<Rightarrow> gru_status \<Rightarrow> 'w \<Rightarrow>
    worker_vqueue option \<times> gru_status \<times> 'w" where
  "worker_vqueue_new ipc al proj_id st w =
    (case al 4 of
       Some m \<Rightarrow> (None, alloc_fail m, w)
     | None \<Rightarrow> (case create_queue ipc (ipc_ftok ipc proj_id) st w of (q, st', w') \<Rightarrow>
         if q < 0 then (None, st', w') else (Some \<lparr>vq_queue = q\<rparr>, st', w')))"

definition worker_vqueue_write :: "('m, 'w) ipc_api \<Rightarrow> worker_vqueue option \<Rightarrow> 'm \<Rightarrow> nat \<Rightarrow> 'w \<Rightarrow>
    (wq_stat \<times> 'w) undef" where
  "worker_vqueue_write ipc q data len w =
    (if sizeof_snapshot < len then None
     else case q of
       None \<Rightarrow> None
     | Some vq \<Rightarrow> (case ipc_msgsnd ipc (vq_queue vq) len data w of (ok, w') \<Rightarrow>
         Some (if ok then MPT_WQ_SUCCESS else MPT_WQ_ERROR, w')))"

text \<open>The message read, when there is one, replaces what is at the destination.\<close>

definition worker_vqueue_read :: "('m, 'w) ipc_api \<Rightarrow> worker_vqueue option \<Rightarrow> nat \<Rightarrow> 'w \<Rightarrow>
    (wq_stat \<times> 'm option \<times> 'w) undef" where
  "worker_vqueue_read ipc q len w =
    (case q of
       None \<Rightarrow> Some (MPT_WQ_ERROR, None, w)
     | Some vq \<Rightarrow>
        (if sizeof_snapshot < len then Some (MPT_WQ_ERROR, None, w)
         else case ipc_msgrcv ipc (vq_queue vq) sizeof_snapshot w of
           (Received m, w') \<Rightarrow> Some (MPT_WQ_SUCCESS, Some m, w')
         | (Empty_Queue, w') \<Rightarrow> Some (MPT_WQ_SUCCESS OR MPT_WQ_NO_DATA, None, w')
         | (Receive_Error, w') \<Rightarrow> Some (MPT_WQ_ERROR, None, w')))"

section \<open>POSIX queues\<close>

record worker_pqueue =
  pq_name :: string
  pq_queue :: int

definition worker_pqueue_new :: "('m, 'w) ipc_api \<Rightarrow> gru_allocator \<Rightarrow> string \<Rightarrow> nat \<Rightarrow> gru_status \<Rightarrow> 'w \<Rightarrow>
    worker_pqueue option \<times> gru_status \<times> 'w" where
  "worker_pqueue_new ipc al name msg_size st w =
    (case al 16 of
       Some m \<Rightarrow> (None, alloc_fail m, w)
     | None \<Rightarrow>
        (if \<not> ipc_asprintf ipc then (None, St_Set GRU_FAILURE ''Unable to format posix queue name'', w)
         else case ipc_mq_open ipc (''/'' @ name) msg_size w of
           (None, w') \<Rightarrow> (None, St_Set GRU_FAILURE (ipc_strerror ipc), w')
         | (Some q, w') \<Rightarrow> (Some \<lparr>pq_name = ''/'' @ name, pq_queue = q\<rparr>, st, w')))"

definition worker_pqueue_destroy :: "('m, 'w) ipc_api \<Rightarrow> worker_pqueue option \<Rightarrow> 'w \<Rightarrow> 'w" where
  "worker_pqueue_destroy ipc q w =
    (case q of None \<Rightarrow> w | Some pq \<Rightarrow> if pq_queue pq \<noteq> - 1 then ipc_mq_close ipc (pq_queue pq) w else w)"

definition worker_pqueue_write :: "('m, 'w) ipc_api \<Rightarrow> worker_pqueue option \<Rightarrow> 'm \<Rightarrow> nat \<Rightarrow> 'w \<Rightarrow>
    (wq_stat \<times> 'w) undef" where
  "worker_pqueue_write ipc q data len w = do {
     pq \<leftarrow> q;
     (case ipc_mq_send ipc (pq_queue pq) len data w of (ok, w') \<Rightarrow>
       Some (if ok then MPT_WQ_SUCCESS else MPT_WQ_ERROR, w'))
   }"

definition worker_pqueue_read :: "('m, 'w) ipc_api \<Rightarrow> worker_pqueue option \<Rightarrow> nat \<Rightarrow> 'w \<Rightarrow>
    (wq_stat \<times> 'm option \<times> 'w) undef" where
  "worker_pqueue_read ipc q len w = do {
     pq \<leftarrow> q;
     (case ipc_mq_receive ipc (pq_queue pq) len w of
        (Received m, w') \<Rightarrow> Some (MPT_WQ_SUCCESS, Some m, w')
      | (Empty_Queue, w') \<Rightarrow> Some (MPT_WQ_SUCCESS OR MPT_WQ_NO_DATA, None, w')
      | (Receive_Error, w') \<Rightarrow> Some (MPT_WQ_ERROR, None, w'))
   }"

section \<open>The common interface\<close>

datatype worker_queue = MPT_Q_SYSV "worker_vqueue option" | MPT_Q_POSIX "worker_pqueue option"

record worker_queue_opt =
  msg_size :: nat
  proj_id :: int

text \<open>The result is a queue even when the implementation behind it could not be created.\<close>

definition worker_queue_new :: "('m, 'w) ipc_api \<Rightarrow> gru_allocator \<Rightarrow> string \<Rightarrow> worker_queue_opt \<Rightarrow> gru_status \<Rightarrow> 'w \<Rightarrow>
    worker_queue option \<times> gru_status \<times> 'w" where
  "worker_queue_new ipc al name opt st w =
    (case al 16 of
       Some m \<Rightarrow> (None, alloc_fail m, w)
     | None \<Rightarrow>
        (if ipc_use_posix ipc
         then case worker_pqueue_new ipc al name (msg_size opt) st w of (q, st', w') \<Rightarrow> (Some (MPT_Q_POSIX q), st', w')
         else case worker_vqueue_new ipc al (proj_id opt) st w of (q, st', w') \<Rightarrow> (Some (MPT_Q_SYSV q), st', w')))"

lemma queue_new_some:
  "al 16 = None \<Longrightarrow> \<exists>q st' w'. worker_queue_new ipc al name opt st w = (Some q, st', w')"
  by (simp add: worker_queue_new_def case_prod_beta prod_eq_iff)

definition worker_queue_destroy :: "('m, 'w) ipc_api \<Rightarrow> worker_queue option \<Rightarrow> 'w \<Rightarrow> 'w" where
  "worker_queue_destroy ipc q w =
    (case q of None \<Rightarrow> w | Some (MPT_Q_SYSV v) \<Rightarrow> w | Some (MPT_Q_POSIX p) \<Rightarrow> worker_pqueue_destroy ipc p w)"

definition worker_queue_write :: "('m, 'w) ipc_api \<Rightarrow> worker_queue option \<Rightarrow> 'm \<Rightarrow> nat \<Rightarrow> 'w \<Rightarrow> (wq_stat \<times> 'w) undef" where
  "worker_queue_write ipc q data len w =
    (case q of
       None \<Rightarrow> None
     | Some (MPT_Q_SYSV v) \<Rightarrow> worker_vqueue_write ipc v data len w
     | Some (MPT_Q_POSIX p) \<Rightarrow> worker_pqueue_write ipc p data len w)"

definition worker_queue_read :: "('m, 'w) ipc_api \<Rightarrow> worker_queue option \<Rightarrow> nat \<Rightarrow> 'w \<Rightarrow> (wq_stat \<times> 'm option \<times> 'w) undef" where
  "worker_queue_read ipc q len w =
    (case q of
       None \<Rightarrow> None
     | Some (MPT_Q_SYSV v) \<Rightarrow> worker_vqueue_read ipc v len w
     | Some (MPT_Q_POSIX p) \<Rightarrow> worker_pqueue_read ipc p len w)"

lemmas queue_defs = worker_queue_write_def worker_queue_read_def worker_vqueue_write_def worker_vqueue_read_def
  worker_pqueue_write_def worker_pqueue_read_def sizeof_snapshot_def

section \<open>The contract of one queue\<close>

text \<open>What the process that watches a worker relies on: first in, first out, up to the room there is.\<close>

locale snapshot_queue =
  fixes wr :: "'m \<Rightarrow> 'w \<Rightarrow> (wq_stat \<times> 'w) undef" and rd :: "'w \<Rightarrow> (wq_stat \<times> 'm option \<times> 'w) undef"
    and contents :: "'w \<Rightarrow> 'm list" and room :: "'w \<Rightarrow> nat"
  assumes write_room: "0 < room w \<Longrightarrow>
      \<exists>w'. wr m w = Some (MPT_WQ_SUCCESS, w') \<and> contents w' = contents w @ [m] \<and> room w = Suc (room w')"
    and write_full: "room w = 0 \<Longrightarrow> wr m w = Some (MPT_WQ_ERROR, w)"
    and read_first: "contents w = m # ms \<Longrightarrow>
      \<exists>w'. rd w = Some (MPT_WQ_SUCCESS, Some m, w') \<and> contents w' = ms \<and> room w \<le> room w'"
    and read_empty: "contents w = [] \<Longrightarrow> rd w = Some (MPT_WQ_SUCCESS OR MPT_WQ_NO_DATA, None, w)"

section \<open>The contract of the kernel\<close>

text \<open>
  What is documented of \<open>msgsnd\<close> and \<open>msgrcv\<close> (\<open>mq_send\<close> and \<open>mq_receive\<close>) without blocking and
  without priorities, for messages of the size of a snapshot: the queue of the identifier
  given keeps its messages in order, up to \<open>cap\<close> of them; the other queues are left alone.
\<close>

locale queue_calls =
  fixes send :: "int \<Rightarrow> nat \<Rightarrow> 'm \<Rightarrow> 'w \<Rightarrow> bool \<times> 'w" and receive :: "int \<Rightarrow> nat \<Rightarrow> 'w \<Rightarrow> 'm received \<times> 'w"
    and queued :: "'w \<Rightarrow> int \<Rightarrow> 'm list" and cap :: nat
  assumes send_room: "length (queued w q) < cap \<Longrightarrow>
      \<exists>w'. send q sizeof_snapshot m w = (True, w') \<and> queued w' = (queued w)(q := queued w q @ [m])"
    and send_full: "cap \<le> length (queued w q) \<Longrightarrow> send q sizeof_snapshot m w = (False, w)"
    and receive_first: "queued w q = m # ms \<Longrightarrow>
      \<exists>w'. receive q sizeof_snapshot w = (Received m, w') \<and> queued w' = (queued w)(q := ms)"
    and receive_empty: "queued w q = [] \<Longrightarrow> receive q sizeof_snapshot w = (Empty_Queue, w)"

text \<open>
  Both kinds of queue, and how they are found: \<open>msgget\<close> gives the identifier of a key and
  \<open>mq_open\<close> the descriptor of a name, different ones for different keys and names, and
  neither touches a message.
\<close>

locale ipc_kernel =
  sysv: queue_calls "ipc_msgsnd ipc" "ipc_msgrcv ipc" vqueued cap + posix: queue_calls "ipc_mq_send ipc" "ipc_mq_receive ipc" pqueued cap
  for ipc :: "('m, 'w) ipc_api" and vqueued :: "'w \<Rightarrow> int \<Rightarrow> 'm list" and pqueued :: "'w \<Rightarrow> int \<Rightarrow> 'm list" and cap :: nat +
  fixes key_id :: "int \<Rightarrow> int" and name_id :: "string \<Rightarrow> int"
  assumes msgget_id: "\<exists>w'. ipc_msgget ipc k w = (key_id k, w') \<and> vqueued w' = vqueued w \<and> pqueued w' = pqueued w"
    and key_ids: "0 \<le> key_id k" "inj key_id"
    and mq_open_id: "\<exists>w'. ipc_mq_open ipc n sizeof_snapshot w = (Some (name_id n), w') \<and> vqueued w' = vqueued w \<and> pqueued w' = pqueued w"
    and name_ids: "inj name_id"

text \<open>The queue that an option asks for: its handle, and what the kernel holds in it.\<close>

definition queue_handle :: "('m, 'w) ipc_api \<Rightarrow> (int \<Rightarrow> int) \<Rightarrow> (string \<Rightarrow> int) \<Rightarrow> string \<times> worker_queue_opt \<Rightarrow> worker_queue option" where
  "queue_handle ipc key_id name_id x = (if ipc_use_posix ipc
     then Some (MPT_Q_POSIX (Some \<lparr>pq_name = ''/'' @ fst x, pq_queue = name_id (''/'' @ fst x)\<rparr>))
     else Some (MPT_Q_SYSV (Some \<lparr>vq_queue = key_id (ipc_ftok ipc (proj_id (snd x)))\<rparr>)))"

definition queue_ident :: "('m, 'w) ipc_api \<Rightarrow> (int \<Rightarrow> int) \<Rightarrow> (string \<Rightarrow> int) \<Rightarrow> string \<times> worker_queue_opt \<Rightarrow> int" where
  "queue_ident ipc key_id name_id x = (if ipc_use_posix ipc then name_id (''/'' @ fst x) else key_id (ipc_ftok ipc (proj_id (snd x))))"

definition held :: "('m, 'w) ipc_api \<Rightarrow> ('w \<Rightarrow> int \<Rightarrow> 'm list) \<Rightarrow> ('w \<Rightarrow> int \<Rightarrow> 'm list) \<Rightarrow> 'w \<Rightarrow> int \<Rightarrow> 'm list" where
  "held ipc vqueued pqueued w = (if ipc_use_posix ipc then pqueued w else vqueued w)"

text \<open>Queues that do not get in each other's way.\<close>

definition distinct_queues :: "('m, 'w) ipc_api \<Rightarrow> (string \<times> worker_queue_opt) list \<Rightarrow> bool" where
  "distinct_queues ipc xs = (if ipc_use_posix ipc then distinct (map fst xs) else distinct (map (\<lambda>x. ipc_ftok ipc (proj_id (snd x))) xs))"

section \<open>Several queues at once\<close>

text \<open>The queues of several workers, opened one after the other, and what the processes do with them, in
  any order: \<open>Put i m\<close> writes to the \<open>i\<close>-th queue and \<open>Take i\<close> reads from it.\<close>

datatype 'm queue_op = Put nat 'm | Take nat

fun op_queue :: "'m queue_op \<Rightarrow> nat" where
  "op_queue (Put i m) = i"
| "op_queue (Take i) = i"

fun open_queues :: "('m, 'w) ipc_api \<Rightarrow> gru_allocator \<Rightarrow> (string \<times> worker_queue_opt) list \<Rightarrow> gru_status \<Rightarrow> 'w \<Rightarrow>
    worker_queue option list \<times> gru_status \<times> 'w" where
  "open_queues ipc al [] st w = ([], st, w)"
| "open_queues ipc al (x # xs) st w =
    (case worker_queue_new ipc al (fst x) (snd x) st w of (q, st1, w1) \<Rightarrow>
     case open_queues ipc al xs st1 w1 of (qs, st2, w2) \<Rightarrow> (q # qs, st2, w2))"

fun queue_op_step :: "('m, 'w) ipc_api \<Rightarrow> worker_queue option list \<Rightarrow> 'm queue_op \<Rightarrow> 'w \<Rightarrow> ((wq_stat \<times> 'm option) \<times> 'w) undef" where
  "queue_op_step ipc qs (Put i m) w = map_option (\<lambda>(s, w'). ((s, None), w')) (worker_queue_write ipc (qs ! i) m sizeof_snapshot w)"
| "queue_op_step ipc qs (Take i) w = map_option (\<lambda>(s, m, w'). ((s, m), w')) (worker_queue_read ipc (qs ! i) sizeof_snapshot w)"

fun queue_ops :: "('m, 'w) ipc_api \<Rightarrow> worker_queue option list \<Rightarrow> 'm queue_op list \<Rightarrow> 'w \<Rightarrow> ((wq_stat \<times> 'm option) list \<times> 'w) undef" where
  "queue_ops ipc qs [] w = Some ([], w)"
| "queue_ops ipc qs (x # xs) w = do { (r, w1) \<leftarrow> queue_op_step ipc qs x w; (rs, w2) \<leftarrow> queue_ops ipc qs xs w1; Some (r # rs, w2) }"

text \<open>The specification: a list for each queue, with at most \<open>cap\<close> messages in it.\<close>

fun spec_step :: "nat \<Rightarrow> 'm queue_op \<Rightarrow> (nat \<Rightarrow> 'm list) \<Rightarrow> (wq_stat \<times> 'm option) \<times> (nat \<Rightarrow> 'm list)" where
  "spec_step cap (Put i m) c = (if length (c i) < cap then ((MPT_WQ_SUCCESS, None), c(i := c i @ [m])) else ((MPT_WQ_ERROR, None), c))"
| "spec_step cap (Take i) c = (case c i of
     [] \<Rightarrow> ((MPT_WQ_SUCCESS OR MPT_WQ_NO_DATA, None), c)
   | m # ms \<Rightarrow> ((MPT_WQ_SUCCESS, Some m), c(i := ms)))"

fun spec_ops :: "nat \<Rightarrow> 'm queue_op list \<Rightarrow> (nat \<Rightarrow> 'm list) \<Rightarrow> (wq_stat \<times> 'm option) list" where
  "spec_ops cap [] c = []"
| "spec_ops cap (x # xs) c = (case spec_step cap x c of (r, c') \<Rightarrow> r # spec_ops cap xs c')"

context ipc_kernel
begin

abbreviation handle :: "string \<times> worker_queue_opt \<Rightarrow> worker_queue option" where
  "handle \<equiv> queue_handle ipc key_id name_id"

abbreviation ident :: "string \<times> worker_queue_opt \<Rightarrow> int" where
  "ident \<equiv> queue_ident ipc key_id name_id"

abbreviation holds :: "'w \<Rightarrow> int \<Rightarrow> 'm list" where
  "holds \<equiv> held ipc vqueued pqueued"

lemmas handle_defs = queue_handle_def queue_ident_def held_def

lemma write_handle:
  "length (holds w (ident x)) < cap \<Longrightarrow> \<exists>w'. worker_queue_write ipc (handle x) m sizeof_snapshot w = Some (MPT_WQ_SUCCESS, w') \<and>
     holds w' = (holds w)(ident x := holds w (ident x) @ [m])"
  "cap \<le> length (holds w (ident x)) \<Longrightarrow> worker_queue_write ipc (handle x) m sizeof_snapshot w = Some (MPT_WQ_ERROR, w)"
  using sysv.send_room [of w "ident x" m] posix.send_room [of w "ident x" m] sysv.send_full [of w "ident x" m] posix.send_full [of w "ident x" m]
  by (auto simp: handle_defs worker_queue_write_def worker_vqueue_write_def worker_pqueue_write_def split: if_splits)

lemma read_handle:
  "holds w (ident x) = m # ms \<Longrightarrow> \<exists>w'. worker_queue_read ipc (handle x) sizeof_snapshot w = Some (MPT_WQ_SUCCESS, Some m, w') \<and>
     holds w' = (holds w)(ident x := ms)"
  "holds w (ident x) = [] \<Longrightarrow> worker_queue_read ipc (handle x) sizeof_snapshot w = Some (MPT_WQ_SUCCESS OR MPT_WQ_NO_DATA, None, w)"
  using sysv.receive_first [of w "ident x" m ms] posix.receive_first [of w "ident x" m ms]
    sysv.receive_empty [of w "ident x"] posix.receive_empty [of w "ident x"]
  by (auto simp: handle_defs worker_queue_read_def worker_vqueue_read_def worker_pqueue_read_def split: if_splits)

lemma open_handles:
  assumes "al 16 = None" and "al 4 = None" and "ipc_asprintf ipc" and "\<forall>x \<in> set xs. msg_size (snd x) = sizeof_snapshot"
  shows "\<exists>w'. open_queues ipc al xs st w = (map handle xs, st, w') \<and> holds w' = holds w"
  using assms(4)
proof (induction xs arbitrary: w)
  case (Cons x xs)
  obtain w1 where "worker_queue_new ipc al (fst x) (snd x) st w = (handle x, st, w1)" "holds w1 = holds w"
    using assms(1-3) Cons.prems msgget_id [of "ipc_ftok ipc (proj_id (snd x))" w] mq_open_id [of "''/'' @ fst x" w]
      key_ids(1) [of "ipc_ftok ipc (proj_id (snd x))"]
    by (fastforce simp: worker_queue_new_def worker_vqueue_new_def create_queue_def worker_pqueue_new_def handle_defs not_less split: if_splits)
  moreover from Cons.IH [of w1] Cons.prems obtain w2 where "open_queues ipc al xs st w1 = (map handle xs, st, w2)" "holds w2 = holds w1" by auto
  ultimately show ?case by simp
qed simp

lemma distinct_idents:
  assumes "distinct_queues ipc xs"
  shows "distinct (map ident xs)"
proof -
  have "ident = (if ipc_use_posix ipc then name_id \<circ> append ''/'' \<circ> fst else key_id \<circ> (\<lambda>x. ipc_ftok ipc (proj_id (snd x))))"
    by (auto simp: queue_ident_def)
  moreover have "inj (name_id \<circ> append ''/'')" using name_ids by (auto intro: inj_compose simp: inj_def)
  ultimately show ?thesis using assms key_ids(2)
    by (auto simp: distinct_queues_def distinct_map comp_inj_on_iff [symmetric] comp_assoc [symmetric] inj_on_def inj_def split: if_splits)
qed

text \<open>The simulation: the kernel holds in each queue the list of the specification.\<close>

lemma step_simulates:
  assumes "distinct (map ident xs)" and "op_queue x < length xs" and "\<forall>i < length xs. holds w (ident (xs ! i)) = c i"
  shows "\<exists>w'. queue_op_step ipc (map handle xs) x w = Some (fst (spec_step cap x c), w') \<and>
    (\<forall>i < length xs. holds w' (ident (xs ! i)) = snd (spec_step cap x c) i)"
proof -
  have other: "ident (xs ! i) = ident (xs ! op_queue x) \<longleftrightarrow> i = op_queue x" if "i < length xs" for i
    using nth_eq_iff_index_eq [OF assms(1), of i "op_queue x"] assms(2) that by simp
  have here: "holds w (ident (xs ! op_queue x)) = c (op_queue x)" using assms(2,3) by simp
  show ?thesis
  proof (cases x)
    case (Put i m)
    show ?thesis
    proof (cases "length (c i) < cap")
      case True
      then show ?thesis using write_handle(1) [of w "xs ! i" m] here other assms(2,3) Put by auto
    next
      case False
      then show ?thesis using write_handle(2) [of w "xs ! i" m] here assms(2,3) Put by auto
    qed
  next
    case (Take i)
    show ?thesis
    proof (cases "c i")
      case Nil
      then show ?thesis using read_handle(2) [of w "xs ! i"] here assms(2,3) Take by auto
    next
      case (Cons m ms)
      then show ?thesis using read_handle(1) [of w "xs ! i" m ms] here other assms(2,3) Take by auto
    qed
  qed
qed

lemma ops_simulate:
  assumes "distinct (map ident xs)"
  shows "list_all (\<lambda>x. op_queue x < length xs) ops \<Longrightarrow> \<forall>i < length xs. holds w (ident (xs ! i)) = c i \<Longrightarrow>
    \<exists>w'. queue_ops ipc (map handle xs) ops w = Some (spec_ops cap ops c, w')"
proof (induction ops arbitrary: w c)
  case (Cons x ops)
  obtain r c' where s: "spec_step cap x c = (r, c')" by fastforce
  obtain w1 where w1: "queue_op_step ipc (map handle xs) x w = Some (r, w1)" "\<forall>i < length xs. holds w1 (ident (xs ! i)) = c' i"
    using step_simulates [OF assms, of x w c] Cons.prems s by auto
  from Cons.IH [OF _ w1(2)] Cons.prems(1) w1(1) s show ?case by auto
qed simp

end

text \<open>A queue of the kernel, seen alone, is what the watching process relies on.\<close>

sublocale ipc_kernel < one: snapshot_queue "\<lambda>m. worker_queue_write ipc (queue_handle ipc key_id name_id x) m sizeof_snapshot"
    "worker_queue_read ipc (queue_handle ipc key_id name_id x) sizeof_snapshot"
    "\<lambda>w. held ipc vqueued pqueued w (queue_ident ipc key_id name_id x)"
    "\<lambda>w. cap - length (held ipc vqueued pqueued w (queue_ident ipc key_id name_id x))" for x
proof
  fix w m
  assume "0 < cap - length (holds w (ident x))"
  with write_handle(1) [of w x m] show "\<exists>w'. worker_queue_write ipc (handle x) m sizeof_snapshot w = Some (MPT_WQ_SUCCESS, w') \<and>
      holds w' (ident x) = holds w (ident x) @ [m] \<and> cap - length (holds w (ident x)) = Suc (cap - length (holds w' (ident x)))" by auto
next
  fix w m ms
  assume "holds w (ident x) = m # ms"
  with read_handle(1) [of w x m ms] show "\<exists>w'. worker_queue_read ipc (handle x) sizeof_snapshot w = Some (MPT_WQ_SUCCESS, Some m, w') \<and>
      holds w' (ident x) = ms \<and> cap - length (holds w (ident x)) \<le> cap - length (holds w' (ident x))" by auto
qed (simp_all add: write_handle(2) read_handle(2))

section \<open>A kernel\<close>

text \<open>One queue of a kernel, for the models that need only one.\<close>

record 'm kernel_queue =
  kq_messages :: "'m list"
  kq_max :: nat

definition kq_send :: "'m \<Rightarrow> 'm kernel_queue \<Rightarrow> bool \<times> 'm kernel_queue" where
  "kq_send m k = (if length (kq_messages k) < kq_max k
     then (True, k\<lparr>kq_messages := kq_messages k @ [m]\<rparr>) else (False, k))"

definition kq_receive :: "'m kernel_queue \<Rightarrow> 'm received \<times> 'm kernel_queue" where
  "kq_receive k = (case kq_messages k of [] \<Rightarrow> (Empty_Queue, k)
     | m # ms \<Rightarrow> (Received m, k\<lparr>kq_messages := ms, kq_max := kq_max k\<rparr>))"

definition kq_room :: "'m kernel_queue \<Rightarrow> nat" where
  "kq_room k = kq_max k - length (kq_messages k)"

text \<open>A kernel that keeps the contract: the queues by their identifiers.\<close>

record 'm kernel =
  kn_sysv :: "int \<Rightarrow> 'm list"
  kn_posix :: "int \<Rightarrow> 'm list"

definition table_send :: "nat \<Rightarrow> 'm \<Rightarrow> int \<Rightarrow> (int \<Rightarrow> 'm list) \<Rightarrow> (int \<Rightarrow> 'm list) option" where
  "table_send cap m q t = (if length (t q) < cap then Some (t(q := t q @ [m])) else None)"

definition table_receive :: "int \<Rightarrow> (int \<Rightarrow> 'm list) \<Rightarrow> ('m \<times> (int \<Rightarrow> 'm list)) option" where
  "table_receive q t = (case t q of [] \<Rightarrow> None | m # ms \<Rightarrow> Some (m, t(q := ms)))"

definition even_key :: "int \<Rightarrow> int" where
  "even_key k = (if 0 \<le> k then 2 * k else - 2 * k - 1)"

fun name_code :: "string \<Rightarrow> nat" where
  "name_code [] = 0"
| "name_code (c # cs) = Suc (of_char c + 256 * name_code cs)"

definition kernel_ipc :: "nat \<Rightarrow> bool \<Rightarrow> ('m, 'm kernel) ipc_api" where
  "kernel_ipc cap use_posix = \<lparr>ipc_ftok = (\<lambda>p. p), ipc_msgget = (\<lambda>k w. (even_key k, w)),
     ipc_msgsnd = (\<lambda>q n m w. case table_send cap m q (kn_sysv w) of None \<Rightarrow> (False, w) | Some t \<Rightarrow> (True, w\<lparr>kn_sysv := t\<rparr>)),
     ipc_msgrcv = (\<lambda>q n w. case table_receive q (kn_sysv w) of None \<Rightarrow> (Empty_Queue, w) | Some (m, t) \<Rightarrow> (Received m, w\<lparr>kn_sysv := t\<rparr>)),
     ipc_asprintf = True, ipc_mq_open = (\<lambda>n s w. (Some (int (name_code n)), w)),
     ipc_mq_send = (\<lambda>q n m w. case table_send cap m q (kn_posix w) of None \<Rightarrow> (False, w) | Some t \<Rightarrow> (True, w\<lparr>kn_posix := t\<rparr>)),
     ipc_mq_receive = (\<lambda>q n w. case table_receive q (kn_posix w) of None \<Rightarrow> (Empty_Queue, w) | Some (m, t) \<Rightarrow> (Received m, w\<lparr>kn_posix := t\<rparr>)),
     ipc_mq_close = (\<lambda>q w. w), ipc_strerror = [], ipc_use_posix = use_posix\<rparr>"

lemma even_key_inj: "inj even_key"
  by (rule injI) (auto simp: even_key_def split: if_splits, presburger+)

lemma even_key_nonneg: "0 \<le> even_key k"
  by (simp add: even_key_def)

lemma name_code_inj: "name_code a = name_code b \<Longrightarrow> a = b"
proof (induction a arbitrary: b)
  case Nil
  then show ?case by (cases b) simp_all
next
  case (Cons x xs)
  then obtain y ys where b: "b = y # ys" "(of_char x :: nat) + 256 * name_code xs = of_char y + 256 * name_code ys" by (cases b) simp_all
  have l: "(of_char x :: nat) < 256" "(of_char y :: nat) < 256" by (rule nat_of_char_less_256)+
  then have e: "(of_char x :: nat) = of_char y" using arg_cong [OF b(2), of "\<lambda>n. n mod 256"] by simp
  with b(2) Cons.IH have "xs = ys" by simp
  with e b(1) show ?case by simp
qed

interpretation table: ipc_kernel "kernel_ipc cap use_posix" kn_sysv kn_posix cap even_key "\<lambda>n. int (name_code n)" for cap use_posix
  by unfold_locales (auto simp: kernel_ipc_def table_send_def table_receive_def even_key_inj even_key_nonneg intro!: injI dest: name_code_inj split: list.splits)

lemma kernel_ipc_simps [simp]:
  "ipc_asprintf (kernel_ipc cap use_posix)" "ipc_use_posix (kernel_ipc cap use_posix) = use_posix" "ipc_ftok (kernel_ipc cap use_posix) k = k"
  by (simp_all add: kernel_ipc_def)

section \<open>Properties\<close>


definition worker_opt :: "int \<Rightarrow> worker_queue_opt" where
  "worker_opt p = \<lparr>msg_size = sizeof_snapshot, proj_id = p\<rparr>"


text \<open>
  Also proved, queue_new_hides_failure. When the SysV queue cannot be created, the code
  still returns a queue object: the null check of its callers does not see the
  failure, every read of the object is an error that counts as data, and every
  write to it is undefined.
\<close>

theorem queue_new_hides_failure:
  assumes "al 16 = None" and "al 4 = None" and "\<not> ipc_use_posix ipc"
    and "ipc_msgget ipc (ipc_ftok ipc (proj_id opt)) w = (q, w')" and "q < 0"
  shows "\<exists>st'. worker_queue_new ipc al name opt st w = (Some (MPT_Q_SYSV None), st', w') \<and>
    \<not> gru_status_success st' \<and>
    worker_queue_read ipc (Some (MPT_Q_SYSV None)) n v = Some (MPT_WQ_ERROR, None, v) \<and>
    wq_has_data MPT_WQ_ERROR \<and>
    worker_queue_write ipc (Some (MPT_Q_SYSV None)) m n v = None"
  using assms
  by (simp add: worker_queue_new_def worker_vqueue_new_def create_queue_def worker_queue_read_def
      worker_vqueue_read_def worker_queue_write_def worker_vqueue_write_def)

theorem queue_new_hides_failure_witness:
  "\<exists>st'. worker_queue_new ((kernel_ipc 8 False)\<lparr>ipc_msgget := (\<lambda>k w. (- 1, w))\<rparr>) (\<lambda>n. None) ''worker''
      \<lparr>msg_size = 168, proj_id = 50\<rparr> St_New \<lparr>kn_sysv = (\<lambda>q. [] :: nat list), kn_posix = (\<lambda>q. [])\<rparr>
      = (Some (MPT_Q_SYSV None), st', \<lparr>kn_sysv = (\<lambda>q. []), kn_posix = (\<lambda>q. [])\<rparr>) \<and>
    \<not> gru_status_success st' \<and>
    worker_queue_read ((kernel_ipc 8 False)\<lparr>ipc_msgget := (\<lambda>k w. (- 1, w))\<rparr>) (Some (MPT_Q_SYSV None)) 168
      \<lparr>kn_sysv = (\<lambda>q. [] :: nat list), kn_posix = (\<lambda>q. [])\<rparr> = Some (MPT_WQ_ERROR, None, \<lparr>kn_sysv = (\<lambda>q. []), kn_posix = (\<lambda>q. [])\<rparr>) \<and>
    wq_has_data MPT_WQ_ERROR \<and>
    worker_queue_write ((kernel_ipc 8 False)\<lparr>ipc_msgget := (\<lambda>k w. (- 1, w))\<rparr>) (Some (MPT_Q_SYSV None)) (5 :: nat) 168
      \<lparr>kn_sysv = (\<lambda>q. []), kn_posix = (\<lambda>q. [])\<rparr> = None"
  by (rule queue_new_hides_failure [where q = "- 1"]) (simp_all add: kernel_ipc_def)

end
