(* ===== verification/Worker.thy ===== *)
theory Worker
  imports Vmsl Stats Strategy Queue
begin

text \<open>
  Workers: the types of \<open>src/worker/worker_types.h\<close> and \<open>worker_options.h\<close> and the helpers
  of \<open>worker_utils.c\<close>. A worker runs a test in a child process: it owns a snapshot
  of its progress, which it sends to its parent over the queue.
\<close>

section \<open>Snapshots, options, workers\<close>

record worker_snapshot =
  ws_count :: u64
  ws_start :: timestamp
  ws_now :: timestamp
  ws_eta :: timestamp
  ws_latency :: stat_latency
  ws_throughput :: stat_throughput

definition zero_snapshot :: worker_snapshot where
  "zero_snapshot = \<lparr>ws_count = 0, ws_start = zero_ts, ws_now = zero_ts, ws_eta = zero_ts,
     ws_latency = zero_latency, ws_throughput = zero_throughput\<rparr>"

type_synonym worker_ret = u32

definition WORKER_FAILURE :: worker_ret where "WORKER_FAILURE = 0"
definition WORKER_SUCCESS :: worker_ret where "WORKER_SUCCESS = 1"
definition WORKER_CHILD :: worker_ret where "WORKER_CHILD = 2"

definition worker_success :: "worker_ret \<Rightarrow> bool" where
  "worker_success r = (r AND WORKER_SUCCESS \<noteq> 0)"

definition worker_error :: "worker_ret \<Rightarrow> bool" where
  "worker_error r = (\<not> r AND WORKER_SUCCESS \<noteq> 0)"

definition worker_child :: "worker_ret \<Rightarrow> bool" where
  "worker_child r = (r AND WORKER_CHILD \<noteq> 0)"

lemmas worker_ret_defs = WORKER_FAILURE_def WORKER_SUCCESS_def WORKER_CHILD_def worker_success_def
  worker_error_def worker_child_def

type_synonym worker_flags = u32

definition WRK_RECEIVER :: worker_flags where "WRK_RECEIVER = 1"
definition WRK_SENDER :: worker_flags where "WRK_SENDER = 2"
definition WRK_DAEMON :: worker_flags where "WRK_DAEMON = 4"
definition WRK_FORKED :: worker_flags where "WRK_FORKED = 8"

definition wrk_has :: "worker_flags \<Rightarrow> worker_flags \<Rightarrow> bool" where
  "wrk_has fs flag = (fs AND flag \<noteq> 0)"

text \<open>\<open>duration_type\<close> and the union behind it; they are always set together.\<close>

datatype test_duration = Message_Count u64 | Test_Time gru_duration

datatype condition_type = MPT_COND_NONE | MPT_COND_RATE | MPT_COND_LATENCY

text \<open>\<open>wo_condition\<close> is the eight bytes of the union of a double rate and a signed latency.\<close>

record worker_options =
  wo_uri :: gru_uri
  wo_duration :: test_duration
  wo_condition_type :: condition_type
  wo_condition :: u64
  wo_log_level :: int
  wo_parallel_count :: u16
  wo_message_size :: u64
  wo_variable_size :: bool
  wo_throttle :: u32
  wo_rate :: u32

definition condition_latency :: "worker_options \<Rightarrow> int" where
  "condition_latency o' = sint (wo_condition o')"

text \<open>\<open>worker_t\<close>. The world \<open>'w\<close> holds the interrupt flag \<open>can_continue\<close> looks at.\<close>

record 'w worker =
  wk_name :: string
  wk_log_dir :: string
  wk_vmsl :: "'w vmsl"
  wk_options :: worker_options
  wk_writer :: "'w stats_writer"
  wk_report_format :: report_format
  wk_naming_options :: naming_opt
  wk_can_continue :: "(worker_options \<Rightarrow> worker_snapshot \<Rightarrow> 'w \<Rightarrow> bool) option"
  wk_flags :: worker_flags
  wk_strategy :: pl_strategy

section \<open>The environment of a worker\<close>

text \<open>
  What the worker code calls outside the repository: the clock and the time
  arithmetic of gru (\<open>gru_time_now\<close>, \<open>gru_time_elapsed_secs\<close>, \<open>gru_time_elapsed_milli\<close>,
  \<open>gru_time_add_microseconds\<close>), \<open>usleep\<close>, the allocator, the list constructor, the
  generated identifier, the process id, \<open>asprintf\<close>, the division of doubles and the
  system calls of the queues; and the interrupt flag set by the signal handler.
\<close>

record 'w wenv =
  e_now :: "'w \<Rightarrow> timestamp \<times> 'w"
  e_elapsed_secs :: "timestamp \<Rightarrow> timestamp \<Rightarrow> u64"
  e_elapsed_milli :: "timestamp \<Rightarrow> timestamp \<Rightarrow> int"
  e_add_micros :: "timestamp \<Rightarrow> u32 \<Rightarrow> timestamp"
  e_usleep :: "u32 \<Rightarrow> 'w \<Rightarrow> 'w"
  e_interrupted :: "'w \<Rightarrow> bool"
  e_alloc :: gru_allocator
  e_list_new :: "nat \<Rightarrow> bool"
  e_uuid :: string
  e_getpid :: int
  e_asprintf :: bool
  e_fdiv :: "u64 \<Rightarrow> u64 \<Rightarrow> u64"
  e_ipc :: "(worker_snapshot, 'w) ipc_api"

section \<open>Operations of \<open>worker_utils.c\<close>\<close>

definition worker_msg_opt_setup :: "'w wenv \<Rightarrow> msg_direction \<Rightarrow> worker_options \<Rightarrow> msg_opt" where
  "worker_msg_opt_setup env dir opts = \<lparr>mo_direction = dir, mo_statistics = MSG_STAT_DEFAULT,
     mo_conn_id = e_uuid env, mo_uri = wo_uri opts\<rparr>"

definition worker_check :: "'w wenv \<Rightarrow> worker_options \<Rightarrow> worker_snapshot \<Rightarrow> 'w \<Rightarrow> bool" where
  "worker_check env opts snap w =
    (if e_interrupted env w then False
     else case wo_duration opts of
       Test_Time d \<Rightarrow> tv_sec (ws_now snap) \<le> tv_sec (dur_end d)
     | Message_Count n \<Rightarrow> ws_count snap < n)"

definition worker_name :: "'w wenv \<Rightarrow> string \<Rightarrow> int \<Rightarrow> gru_status \<Rightarrow> string option \<times> gru_status" where
  "worker_name env name child st =
    (if e_asprintf env then (Some (name @ ''-'' @ int_dec child), st)
     else (None, St_Set GRU_FAILURE ''Not enough memory to format name''))"

definition worker_queue_new_opt :: "worker_flags \<Rightarrow> worker_queue_opt" where
  "worker_queue_new_opt fs =
    (if wrk_has fs WRK_RECEIVER then \<lparr>msg_size = sizeof_snapshot, proj_id = 0x32\<rparr>
     else \<lparr>msg_size = sizeof_snapshot, proj_id = 0x33\<rparr>)"

definition worker_create_queue :: "'w wenv \<Rightarrow> 'w worker \<Rightarrow> gru_status \<Rightarrow> 'w \<Rightarrow>
    worker_queue option \<times> gru_status \<times> 'w" where
  "worker_create_queue env wk st w =
    (case worker_name env (wk_name wk) (e_getpid env) st of
       (None, st1) \<Rightarrow> (None, st1, w)
     | (Some cname, st1) \<Rightarrow>
        (case worker_queue_new (e_ipc env) (e_alloc env) cname (worker_queue_new_opt (wk_flags wk)) st1 w of
           (None, st2, w2) \<Rightarrow>
             (None, St_Set GRU_FAILURE (''Unable to open a posix queue: '' @ gru_status_message st2), w2)
         | (Some q, st2, w2) \<Rightarrow> (Some q, st2, w2)))"

text \<open>
  The search for the first log directory that does not exist. \<open>exists\<close> is
  \<open>gru_path_exists\<close>, \<open>dir\<close> the log directory of the options; the result is the number
  (or -1), the path left in the buffer and the status.
\<close>

definition INT_MAX :: nat where
  "INT_MAX = 2147483647"

definition log_dir_path :: "string \<Rightarrow> nat \<Rightarrow> nat \<Rightarrow> string" where
  "log_dir_path dir max_len n = take (max_len - 1) (dir @ ''/'' @ nat_dec n)"

function log_fill_loop :: "(string \<Rightarrow> gru_status \<Rightarrow> bool \<times> gru_status) \<Rightarrow> string \<Rightarrow> nat \<Rightarrow> nat \<Rightarrow> gru_status \<Rightarrow>
    int \<times> string \<times> gru_status" where
  "log_fill_loop ex dir max_len n st =
    (let path = log_dir_path dir max_len n; (found, st') = ex path st in
     if \<not> found then (int n, path, st')
     else if gru_status_error st' then (- 1, path, st')
     else if Suc n < INT_MAX then log_fill_loop ex dir max_len (Suc n) st'
     else (- 1, path, st'))"
  by pat_completeness auto

termination
  by (relation "measure (\<lambda>(ex, dir, max_len, n, st). INT_MAX - n)") auto

definition worker_log_fill_last_dir :: "(string \<Rightarrow> gru_status \<Rightarrow> bool \<times> gru_status) \<Rightarrow> string \<Rightarrow> nat \<Rightarrow> gru_status \<Rightarrow>
    int \<times> string \<times> gru_status" where
  "worker_log_fill_last_dir ex dir max_len st = log_fill_loop ex dir max_len 0 st"

definition PATH_MAX :: nat where
  "PATH_MAX = 4096"

definition worker_log_init :: "(string \<Rightarrow> gru_status \<Rightarrow> bool \<times> gru_status) \<Rightarrow>
    (string \<Rightarrow> gru_status \<Rightarrow> 'w \<Rightarrow> bool \<times> gru_status \<times> 'w) \<Rightarrow> string \<Rightarrow> gru_status \<Rightarrow> 'w \<Rightarrow>
    bool \<times> string \<times> gru_status \<times> 'w" where
  "worker_log_init ex mkdirs dir st w =
    (case worker_log_fill_last_dir ex dir (PATH_MAX - 1) st of (n, path, st1) \<Rightarrow>
       if n < 0 then (False, path, st1, w)
       else case mkdirs path st1 w of (ok, st2, w2) \<Rightarrow> (ok, path, st2, w2))"

section \<open>Properties\<close>

lemma log_fill_first:
  assumes "\<And>k st. k < n \<Longrightarrow> ex (log_dir_path dir len k) st = (True, st)"
    and "\<And>st. ex (log_dir_path dir len n) st = (False, st)"
    and "gru_status_success st" and "m \<le> n" and "n < INT_MAX"
  shows "log_fill_loop ex dir len m st = (int n, log_dir_path dir len n, st)"
  using assms(4)
proof (induction "n - m" arbitrary: m)
  case 0
  then show ?case using assms(2) by (subst log_fill_loop.simps) simp
next
  case (Suc d)
  then have "m < n" by simp
  with Suc.hyps(1) [of "Suc m"] Suc.hyps(2) have "log_fill_loop ex dir len (Suc m) st
      = (int n, log_dir_path dir len n, st)" by simp
  with \<open>m < n\<close> assms(1) [OF \<open>m < n\<close>] assms(3,5) show ?case
    by (subst log_fill_loop.simps) (simp add: gru_status_error_def)
qed

text \<open>
  Also proved, log_dir_fresh. When the directories numbered below \<open>n\<close> exist and that of
  \<open>n\<close> does not, the log directory of the run is the one numbered \<open>n\<close>, and it is
  created: no earlier results are reused.
\<close>

theorem log_dir_fresh:
  assumes "\<And>k st. k < n \<Longrightarrow> ex (log_dir_path dir (PATH_MAX - 1) k) st = (True, st)"
    and "\<And>st. ex (log_dir_path dir (PATH_MAX - 1) n) st = (False, st)"
    and "gru_status_success st" and "n < INT_MAX"
    and "mkdirs (log_dir_path dir (PATH_MAX - 1) n) st w = (ok, st', w')"
  shows "worker_log_init ex mkdirs dir st w = (ok, log_dir_path dir (PATH_MAX - 1) n, st', w')"
proof -
  have "log_fill_loop ex dir (PATH_MAX - 1) 0 st = (int n, log_dir_path dir (PATH_MAX - 1) n, st)"
    by (rule log_fill_first) (use assms in simp_all)
  with assms(5) show ?thesis by (simp add: worker_log_init_def worker_log_fill_last_dir_def)
qed

definition sample_exists :: "string \<Rightarrow> gru_status \<Rightarrow> bool \<times> gru_status" where
  "sample_exists p st = (p = ''/l/0'' \<or> p = ''/l/1'', st)"

lemma nat_dec_small: "nat_dec 0 = ''0''" "nat_dec 1 = ''1''" "nat_dec 2 = ''2''"
  by (simp_all add: nat_dec.simps char_of_def bit_0)

theorem log_dir_fresh_witness:
  "worker_log_init sample_exists (\<lambda>p st w. (True, st, w @ [p])) ''/l'' St_New []
    = (True, log_dir_path ''/l'' (PATH_MAX - 1) 2, St_New, [log_dir_path ''/l'' (PATH_MAX - 1) 2])"
proof (rule log_dir_fresh)
  show "sample_exists (log_dir_path ''/l'' (PATH_MAX - 1) k) st = (True, st)" if "k < 2" for k st
    using that by (auto simp: sample_exists_def log_dir_path_def PATH_MAX_def less_2_cases_iff nat_dec_small
        nat_dec_small [simplified])
qed (simp_all add: sample_exists_def log_dir_path_def PATH_MAX_def INT_MAX_def nat_dec_small)

end
