(* ===== verification/Options.thy ===== *)
theory Options
  imports Worker
begin

text \<open>
  The options of the command line: \<open>src/common/contrib/options.c\<close>, the call of
  \<open>getopt_long\<close> of the C library as the programs make it, and the switch over its results
  that every program has.
\<close>

section \<open>The options object\<close>

record options =
  opt_broker_uri :: gru_uri
  opt_maestro_uri :: gru_uri
  opt_log_dir :: "string option"
  opt_log_level :: int
  opt_parallel_count :: u16
  opt_message_size :: u64
  opt_variable_size :: bool
  opt_count :: u64
  opt_duration :: gru_duration
  opt_throttle :: u32
  opt_name :: "string option"
  opt_maestro_script :: "string option"

text \<open>The object of a program, and whether the static pointer of the file points to it; the getters,
  and two of the setters, go through that pointer.\<close>

record opt_store =
  os_obj :: options
  os_static :: bool

text \<open>
  The functions of gru and of the C library: parsing a URL and a duration, the level of
  a name and the minimum level of the logger, the name of the host, memory.
\<close>

record 'w opt_api =
  op_uri_parse :: "string \<Rightarrow> gru_status \<Rightarrow> gru_uri \<times> gru_status"
  op_duration_new :: gru_duration
  op_duration_parse :: "string \<Rightarrow> gru_duration \<Rightarrow> bool \<times> gru_duration"
  op_get_level :: "string \<Rightarrow> int"
  op_set_minimum :: "int \<Rightarrow> 'w \<Rightarrow> 'w"
  op_INFO :: int
  op_hostname :: "string option"
  op_strdup :: "string \<Rightarrow> bool"
  op_print :: "string \<Rightarrow> 'w \<Rightarrow> 'w"
  op_alloc :: gru_allocator
  op_sizeof_options :: nat

definition dup :: "'w opt_api \<Rightarrow> string \<Rightarrow> string option" where
  "dup op s = (if op_strdup op s then Some s else None)"

text \<open>\<open>zero\<close> is the allocated object. An error is printed.\<close>

definition options_set_defaults :: "'w opt_api \<Rightarrow> options \<Rightarrow> gru_status \<Rightarrow> 'w \<Rightarrow> bool \<times> options \<times> gru_status \<times> 'w" where
  "options_set_defaults op zero st w =
    (case op_uri_parse op ''amqp://localhost:5672/test.performance.queue'' st of (broker, st1) \<Rightarrow>
       if gru_status_error st1 then (False, zero\<lparr>opt_broker_uri := broker\<rparr>, st1, op_print op (gru_status_message st1) w)
       else case op_uri_parse op ''mqtt://localhost:1883/mpt/maestro'' st1 of (maestro, st2) \<Rightarrow>
         if gru_status_error st2 then
           (False, zero\<lparr>opt_broker_uri := broker, opt_maestro_uri := maestro\<rparr>, st2, op_print op (gru_status_message st2) w)
         else (True, \<lparr>opt_broker_uri = broker, opt_maestro_uri = maestro, opt_log_dir = None, opt_log_level = op_INFO op,
           opt_parallel_count = 1, opt_message_size = 32, opt_variable_size = False, opt_count = 0,
           opt_duration = op_duration_new op, opt_throttle = 0,
           opt_name = dup op (case op_hostname op of Some h \<Rightarrow> h | None \<Rightarrow> ''undefined''), opt_maestro_script = None\<rparr>, st2, w))"

definition options_new :: "'w opt_api \<Rightarrow> options \<Rightarrow> gru_status \<Rightarrow> 'w \<Rightarrow> options option \<times> gru_status \<times> 'w" where
  "options_new op zero st w =
    (case op_alloc op (op_sizeof_options op) of
       Some m \<Rightarrow> (None, alloc_fail m, w)
     | None \<Rightarrow> (case options_set_defaults op zero st w of (ok, obj, st1, w1) \<Rightarrow> (if ok then Some obj else None, st1, w1)))"

definition set_options_object :: "opt_store \<Rightarrow> opt_store" where
  "set_options_object s = s\<lparr>os_static := True\<rparr>"

definition options_set_broker_uri :: "'w opt_api \<Rightarrow> string \<Rightarrow> gru_status \<Rightarrow> opt_store \<Rightarrow> bool \<times> gru_status \<times> opt_store" where
  "options_set_broker_uri op url st s =
    (case op_uri_parse op url st of (uri, st1) \<Rightarrow>
       (\<not> gru_status_error st1, st1, s\<lparr>os_obj := (os_obj s)\<lparr>opt_broker_uri := uri\<rparr>\<rparr>))"

definition options_set_maestro_uri :: "'w opt_api \<Rightarrow> string \<Rightarrow> gru_status \<Rightarrow> opt_store \<Rightarrow> bool \<times> gru_status \<times> opt_store" where
  "options_set_maestro_uri op url st s =
    (case op_uri_parse op url st of (uri, st1) \<Rightarrow>
       (\<not> gru_status_error st1, st1, s\<lparr>os_obj := (os_obj s)\<lparr>opt_maestro_uri := uri\<rparr>\<rparr>))"

definition options_set_throttle :: "string \<Rightarrow> opt_store \<Rightarrow> opt_store" where
  "options_set_throttle v s = s\<lparr>os_obj := (os_obj s)\<lparr>opt_throttle := atoi v\<rparr>\<rparr>"

definition options_set_name :: "'w opt_api \<Rightarrow> string \<Rightarrow> opt_store \<Rightarrow> bool \<times> opt_store" where
  "options_set_name op v s = (op_strdup op v, s\<lparr>os_obj := (os_obj s)\<lparr>opt_name := dup op v\<rparr>\<rparr>)"

definition options_set_logdir :: "'w opt_api \<Rightarrow> string \<Rightarrow> opt_store \<Rightarrow> bool \<times> opt_store" where
  "options_set_logdir op v s = (op_strdup op v, s\<lparr>os_obj := (os_obj s)\<lparr>opt_log_dir := dup op v\<rparr>\<rparr>)"

definition options_set_file :: "'w opt_api \<Rightarrow> string \<Rightarrow> opt_store \<Rightarrow> bool \<times> opt_store" where
  "options_set_file op v s = (op_strdup op v, s\<lparr>os_obj := (os_obj s)\<lparr>opt_maestro_script := dup op v\<rparr>\<rparr>)"

definition options_set_log_level :: "'w opt_api \<Rightarrow> string \<Rightarrow> opt_store \<Rightarrow> 'w \<Rightarrow> (opt_store \<times> 'w) undef" where
  "options_set_log_level op v s w =
    (let s1 = s\<lparr>os_obj := (os_obj s)\<lparr>opt_log_level := op_get_level op v\<rparr>\<rparr> in
     if os_static s then Some (s1, op_set_minimum op (opt_log_level (os_obj s1)) w) else None)"

definition options_set_duration :: "'w opt_api \<Rightarrow> string \<Rightarrow> opt_store \<Rightarrow> bool \<times> opt_store" where
  "options_set_duration op v s =
    (case op_duration_parse op v (opt_duration (os_obj s)) of (ok, d) \<Rightarrow> (ok, s\<lparr>os_obj := (os_obj s)\<lparr>opt_duration := d\<rparr>\<rparr>))"

definition options_set_parallel_count :: "string \<Rightarrow> opt_store \<Rightarrow> opt_store" where
  "options_set_parallel_count v s = s\<lparr>os_obj := (os_obj s)\<lparr>opt_parallel_count := ucast (atoi v)\<rparr>\<rparr>"

definition options_set_message_count :: "string \<Rightarrow> opt_store \<Rightarrow> opt_store" where
  "options_set_message_count v s = s\<lparr>os_obj := (os_obj s)\<lparr>opt_count := atol v\<rparr>\<rparr>"

text \<open>The size goes to the object, the flag of a variable size to the one behind the static pointer.\<close>

definition options_set_message_size :: "string \<Rightarrow> opt_store \<Rightarrow> opt_store undef" where
  "options_set_message_size v s =
    (if v \<noteq> [] \<and> hd v = CHR ''~'' then
       if os_static s
       then Some (s\<lparr>os_obj := (os_obj s)\<lparr>opt_message_size := scast (atoi (tl v)), opt_variable_size := True\<rparr>\<rparr>) else None
     else Some (s\<lparr>os_obj := (os_obj s)\<lparr>opt_message_size := scast (atoi v)\<rparr>\<rparr>))"

text \<open>The getters, through the static pointer.\<close>

definition options_static :: "opt_store \<Rightarrow> options undef" where
  "options_static s = (if os_static s then Some (os_obj s) else None)"

definition options_get_throttle :: "opt_store \<Rightarrow> u32 undef" where
  "options_get_throttle s = map_option opt_throttle (options_static s)"

definition options_get_maestro_host :: "opt_store \<Rightarrow> string option undef" where
  "options_get_maestro_host s = map_option (\<lambda>o'. uri_host (opt_maestro_uri o')) (options_static s)"

definition options_get_maestro_uri :: "opt_store \<Rightarrow> gru_uri undef" where
  "options_get_maestro_uri s = map_option opt_maestro_uri (options_static s)"

definition options_get_broker_uri :: "opt_store \<Rightarrow> gru_uri undef" where
  "options_get_broker_uri s = map_option opt_broker_uri (options_static s)"

definition options_get_name :: "opt_store \<Rightarrow> string option undef" where
  "options_get_name s = map_option opt_name (options_static s)"

definition options_get_maestro_script :: "opt_store \<Rightarrow> string option undef" where
  "options_get_maestro_script s = map_option opt_maestro_script (options_static s)"

definition options_get_log_dir :: "opt_store \<Rightarrow> string option undef" where
  "options_get_log_dir s = map_option opt_log_dir (options_static s)"

definition options_get_message_size :: "opt_store \<Rightarrow> u64 undef" where
  "options_get_message_size s = map_option opt_message_size (options_static s)"

definition options_get_variable_size :: "opt_store \<Rightarrow> bool undef" where
  "options_get_variable_size s = map_option opt_variable_size (options_static s)"

definition options_get_parallel_count :: "opt_store \<Rightarrow> u16 undef" where
  "options_get_parallel_count s = map_option opt_parallel_count (options_static s)"

definition options_get_count :: "opt_store \<Rightarrow> u64 undef" where
  "options_get_count s = map_option opt_count (options_static s)"

definition options_get_duration :: "opt_store \<Rightarrow> gru_duration undef" where
  "options_get_duration s = map_option opt_duration (options_static s)"

definition options_get_log_level :: "opt_store \<Rightarrow> int undef" where
  "options_get_log_level s = map_option opt_log_level (options_static s)"

lemmas options_get_defs = options_static_def options_get_throttle_def options_get_maestro_host_def options_get_maestro_uri_def
  options_get_broker_uri_def options_get_name_def options_get_maestro_script_def options_get_log_dir_def
  options_get_message_size_def options_get_variable_size_def options_get_parallel_count_def options_get_count_def
  options_get_duration_def options_get_log_level_def

section \<open>\<open>getopt_long\<close>\<close>

text \<open>
  A long option: its name, whether it has an argument, and the character it stands for.
  A result of \<open>getopt_long\<close> is a character with its argument, or the character \<open>?\<close>.
\<close>

record long_option =
  lo_name :: string
  lo_arg :: bool
  lo_char :: char

datatype getopt_result = Opt char "string option" | Invalid_Option

fun short_option :: "string \<Rightarrow> char \<Rightarrow> bool option" where
  "short_option [] c = None"
| "short_option (x # xs) c =
     (if x = c \<and> c \<noteq> CHR '':'' then Some (case xs of y # ys \<Rightarrow> y = CHR '':'' | [] \<Rightarrow> False) else short_option xs c)"

text \<open>A name that is exact, or the beginning of one name only (no two long options of a program stand
  for the same character).\<close>

definition long_option_of :: "long_option list \<Rightarrow> string \<Rightarrow> long_option option" where
  "long_option_of los name =
    (case find (\<lambda>l. lo_name l = name) los of
       Some l \<Rightarrow> Some l
     | None \<Rightarrow> (case filter (\<lambda>l. take (length name) (lo_name l) = name) los of [l] \<Rightarrow> Some l | _ \<Rightarrow> None))"

definition split_equals :: "string \<Rightarrow> string \<times> string option" where
  "split_equals s = (let name = takeWhile (\<lambda>c. c \<noteq> CHR ''='') s; rest = dropWhile (\<lambda>c. c \<noteq> CHR ''='') s in
     (name, case rest of [] \<Rightarrow> None | e # v \<Rightarrow> Some v))"

lemma dash_shrinks: "take (Suc 0) a = ''-'' \<Longrightarrow> length a - Suc 0 < length a"
  by (cases a) auto

text \<open>
  The results of the calls in turn, for the arguments after the name of the program. An
  element that does not begin with a dash is skipped (the library moves it to the end),
  two dashes end the options, an option that needs an argument takes the rest of its
  element or the next one. The environment does not ask for POSIX behaviour.
\<close>

function (sequential) getopt_cluster :: "long_option list \<Rightarrow> string \<Rightarrow> string \<Rightarrow> string list \<Rightarrow> getopt_result list"
  and getopt_long :: "long_option list \<Rightarrow> string \<Rightarrow> string list \<Rightarrow> getopt_result list" where
  "getopt_cluster los opts [] args = getopt_long los opts args"
| "getopt_cluster los opts (c # cs) args =
     (case short_option opts c of
        None \<Rightarrow> Invalid_Option # getopt_cluster los opts cs args
      | Some False \<Rightarrow> Opt c None # getopt_cluster los opts cs args
      | Some True \<Rightarrow>
         (if cs \<noteq> [] then Opt c (Some cs) # getopt_long los opts args
          else case args of
            [] \<Rightarrow> [Invalid_Option]
          | v # args' \<Rightarrow> Opt c (Some v) # getopt_long los opts args'))"
| "getopt_long los opts [] = []"
| "getopt_long los opts (a # args) =
     (if a = ''--'' then []
      else if take 2 a = ''--'' then
        (case split_equals (drop 2 a) of (name, v) \<Rightarrow>
           (case long_option_of los name of
              None \<Rightarrow> Invalid_Option # getopt_long los opts args
            | Some l \<Rightarrow>
               (if lo_arg l then
                  (case v of
                     Some x \<Rightarrow> Opt (lo_char l) (Some x) # getopt_long los opts args
                   | None \<Rightarrow>
                      (case args of
                         [] \<Rightarrow> [Invalid_Option]
                       | x # args' \<Rightarrow> Opt (lo_char l) (Some x) # getopt_long los opts args'))
                else if v = None then Opt (lo_char l) None # getopt_long los opts args
                else Invalid_Option # getopt_long los opts args)))
      else if take 1 a = ''-'' \<and> a \<noteq> ''-'' then getopt_cluster los opts (tl a) args
      else getopt_long los opts args)"
  by pat_completeness auto

termination
  by (relation "measure (\<lambda>x. case x of Inl (los, opts, cs, args) \<Rightarrow> Suc (length cs) + (\<Sum>a\<leftarrow>args. Suc (length a))
      | Inr (los, opts, args) \<Rightarrow> (\<Sum>a\<leftarrow>args. Suc (length a)))")
    (auto simp: dash_shrinks)

section \<open>The switch over the options\<close>

text \<open>How the loop over the options ends: all of them are read, help was asked for, one is invalid, or
  one has a value that is refused, with the message that is printed.\<close>

datatype parse_end = Parsed | Help | Invalid | Refused string

type_synonym 'w parsing = "opt_store \<times> gru_status \<times> 'w"

definition refuse :: "bool \<Rightarrow> string \<Rightarrow> string option" where
  "refuse ok message = (if ok then None else Some message)"

text \<open>The cases of the switches. A program sees the characters of its own option string only.\<close>

definition option_case :: "'w opt_api \<Rightarrow> char \<Rightarrow> string \<Rightarrow> 'w parsing \<Rightarrow> (string option \<times> 'w parsing) undef" where
  "option_case op c v x = (case x of (s, st, w) \<Rightarrow>
     if c = CHR ''b'' then
       (case options_set_broker_uri op v st s of (ok, st1, s1) \<Rightarrow> Some (refuse ok (gru_status_message st1), s1, st1, w))
     else if c = CHR ''m'' then
       (case options_set_maestro_uri op v st s of (ok, st1, s1) \<Rightarrow> Some (refuse ok (gru_status_message st1), s1, st1, w))
     else if c = CHR ''c'' then Some (None, options_set_message_count v s, st, w)
     else if c = CHR ''l'' then map_option (\<lambda>(s1, w1). (None, s1, st, w1)) (options_set_log_level op v s w)
     else if c = CHR ''p'' then Some (None, options_set_parallel_count v s, st, w)
     else if c = CHR ''d'' then
       (case options_set_duration op v s of (ok, s1) \<Rightarrow> Some (refuse ok (''Invalid duration: '' @ v), s1, st, w))
     else if c = CHR ''s'' then map_option (\<lambda>s1. (None, s1, st, w)) (options_set_message_size v s)
     else if c = CHR ''L'' then
       (case options_set_logdir op v s of (ok, s1) \<Rightarrow>
          Some (refuse ok ''Unable to allocate memory for setting the log directory'', s1, st, w))
     else if c = CHR ''t'' then Some (None, options_set_throttle v s, st, w)
     else if c = CHR ''n'' then
       (case options_set_name op v s of (ok, s1) \<Rightarrow> Some (refuse ok ''Unable to allocate memory for setting the node name'', s1, st, w))
     else if c = CHR ''f'' then
       (case options_set_file op v s of (ok, s1) \<Rightarrow>
          Some (refuse ok ''Unable to allocate memory for setting the script file name'', s1, st, w))
     else None)"

fun parse_options :: "'w opt_api \<Rightarrow> getopt_result list \<Rightarrow> 'w parsing \<Rightarrow> (parse_end \<times> 'w parsing) undef" where
  "parse_options op [] x = Some (Parsed, x)"
| "parse_options op (Invalid_Option # rs) x = Some (Invalid, x)"
| "parse_options op (Opt c a # rs) x =
     (if c = CHR ''h'' then Some (Help, x)
      else do {
        v \<leftarrow> a;
        (err, x1) \<leftarrow> option_case op c v x;
        (case err of Some m \<Rightarrow> Some (Refused m, x1) | None \<Rightarrow> parse_options op rs x1)
      })"

end
