(* ===== verification/Memory.thy ===== *)
theory Memory
  imports Options
begin

text \<open>
  The release of memory: \<open>options_destroy\<close>, \<open>msg_conn_info_cleanup\<close>, \<open>worker_msg_opt_cleanup\<close>,
  \<open>worker_vqueue_destroy\<close>, \<open>vmslh_callback_cleanup\<close> and \<open>paho_serialize_clean\<close>, and the
  options that replace a string they own, on pointers. The other theories leave memory out once it has been
  allocated; here a block is an address and the heap knows which are live. The locale
  \<open>gru_memory\<close> says what \<open>gru_dealloc\<close> and the C library do with a pointer.
\<close>

section \<open>The heap\<close>

type_synonym addr = nat

text \<open>
  \<open>gru_dealloc\<close> (and \<open>gru_dealloc_string\<close>, which is the same on a string) frees the block of a
  pointer and stores a null pointer in it; \<open>gru_uri_cleanup\<close> frees the strings of a URI;
  \<open>free\<close> leaves the pointer as it is. Freeing a block that is not live is undefined. An
  allocation, a copy of a string and a parsed URI are new blocks, or fail.
\<close>

record 'h mem_api =
  mm_dealloc :: "addr option \<Rightarrow> 'h \<Rightarrow> (addr option \<times> 'h) undef"
  mm_uri_cleanup :: "addr list \<Rightarrow> 'h \<Rightarrow> (addr list \<times> 'h) undef"
  mm_free :: "addr option \<Rightarrow> 'h \<Rightarrow> 'h undef"
  mm_alloc :: "'h \<Rightarrow> addr option \<times> 'h"
  mm_strdup :: "'h \<Rightarrow> addr option \<times> 'h"
  mm_uri_parse :: "string \<Rightarrow> 'h \<Rightarrow> bool \<times> addr list \<times> 'h"

section \<open>Operations\<close>

text \<open>The pointers of \<open>options_t\<close>; a URI owns the strings it was parsed into.\<close>

record options_ptrs =
  ob_broker_uri :: "addr list"
  ob_maestro_uri :: "addr list"
  ob_log_dir :: "addr option"
  ob_name :: "addr option"
  ob_maestro_script :: "addr option"

definition options_destroy :: "'h mem_api \<Rightarrow> (addr \<times> options_ptrs) option \<Rightarrow> 'h \<Rightarrow> ((addr \<times> options_ptrs) option \<times> 'h) undef" where
  "options_destroy mm obj h =
    (case obj of
       None \<Rightarrow> Some (None, h)
     | Some (a, opt) \<Rightarrow> do {
         (mu, h1) \<leftarrow> mm_uri_cleanup mm (ob_maestro_uri opt) h;
         (bu, h2) \<leftarrow> mm_uri_cleanup mm (ob_broker_uri opt) h1;
         (l, h3) \<leftarrow> mm_dealloc mm (ob_log_dir opt) h2;
         (n, h4) \<leftarrow> mm_dealloc mm (ob_name opt) h3;
         (s, h5) \<leftarrow> mm_dealloc mm (ob_maestro_script opt) h4;
         (p, h6) \<leftarrow> mm_dealloc mm (Some a) h5;
         Some (map_option (\<lambda>a. (a, \<lparr>ob_broker_uri = bu, ob_maestro_uri = mu, ob_log_dir = l, ob_name = n, ob_maestro_script = s\<rparr>)) p, h6)
       })"

text \<open>
  \<open>options_new\<close>: when the second of the default URLs cannot be parsed the object is freed, but
  not the blocks of the first.
\<close>

definition options_new_mem :: "'h mem_api \<Rightarrow> 'h \<Rightarrow> ((addr \<times> options_ptrs) option \<times> 'h) undef" where
  "options_new_mem mm h =
    (case mm_alloc mm h of
       (None, h1) \<Rightarrow> Some (None, h1)
     | (Some a, h1) \<Rightarrow>
        (case mm_uri_parse mm ''amqp://localhost:5672/test.performance.queue'' h1 of (ok1, bu, h2) \<Rightarrow>
           if \<not> ok1 then map_option (\<lambda>(p, h'). (None, h')) (mm_dealloc mm (Some a) h2)
           else case mm_uri_parse mm ''mqtt://localhost:1883/mpt/maestro'' h2 of (ok2, mu, h3) \<Rightarrow>
             if \<not> ok2 then map_option (\<lambda>(p, h'). (None, h')) (mm_dealloc mm (Some a) h3)
             else case mm_strdup mm h3 of (name, h4) \<Rightarrow>
               Some (Some (a, \<lparr>ob_broker_uri = bu, ob_maestro_uri = mu, ob_log_dir = None, ob_name = name, ob_maestro_script = None\<rparr>), h4)))"

text \<open>The options that replace a string or a URL free what they replace first.\<close>

definition replace_string :: "'h mem_api \<Rightarrow> addr option \<Rightarrow> 'h \<Rightarrow> (addr option \<times> 'h) undef" where
  "replace_string mm p h = do { (q, h1) \<leftarrow> mm_dealloc mm p h; Some (mm_strdup mm h1) }"

definition replace_uri :: "'h mem_api \<Rightarrow> string \<Rightarrow> addr list \<Rightarrow> 'h \<Rightarrow> (addr list \<times> 'h) undef" where
  "replace_uri mm url bs h = do { (q, h1) \<leftarrow> mm_uri_cleanup mm bs h; Some (snd (mm_uri_parse mm url h1)) }"

definition options_set_name_mem :: "'h mem_api \<Rightarrow> addr \<times> options_ptrs \<Rightarrow> 'h \<Rightarrow> ((addr \<times> options_ptrs) \<times> 'h) undef" where
  "options_set_name_mem mm obj h = do { (p, h') \<leftarrow> replace_string mm (ob_name (snd obj)) h; Some ((fst obj, (snd obj)\<lparr>ob_name := p\<rparr>), h') }"

definition options_set_logdir_mem :: "'h mem_api \<Rightarrow> addr \<times> options_ptrs \<Rightarrow> 'h \<Rightarrow> ((addr \<times> options_ptrs) \<times> 'h) undef" where
  "options_set_logdir_mem mm obj h = do { (p, h') \<leftarrow> replace_string mm (ob_log_dir (snd obj)) h; Some ((fst obj, (snd obj)\<lparr>ob_log_dir := p\<rparr>), h') }"

definition options_set_file_mem :: "'h mem_api \<Rightarrow> addr \<times> options_ptrs \<Rightarrow> 'h \<Rightarrow> ((addr \<times> options_ptrs) \<times> 'h) undef" where
  "options_set_file_mem mm obj h =
    do { (p, h') \<leftarrow> replace_string mm (ob_maestro_script (snd obj)) h; Some ((fst obj, (snd obj)\<lparr>ob_maestro_script := p\<rparr>), h') }"

definition options_set_broker_uri_mem :: "'h mem_api \<Rightarrow> string \<Rightarrow> addr \<times> options_ptrs \<Rightarrow> 'h \<Rightarrow> ((addr \<times> options_ptrs) \<times> 'h) undef" where
  "options_set_broker_uri_mem mm url obj h =
    do { (bs, h') \<leftarrow> replace_uri mm url (ob_broker_uri (snd obj)) h; Some ((fst obj, (snd obj)\<lparr>ob_broker_uri := bs\<rparr>), h') }"

definition options_set_maestro_uri_mem :: "'h mem_api \<Rightarrow> string \<Rightarrow> addr \<times> options_ptrs \<Rightarrow> 'h \<Rightarrow> ((addr \<times> options_ptrs) \<times> 'h) undef" where
  "options_set_maestro_uri_mem mm url obj h =
    do { (bs, h') \<leftarrow> replace_uri mm url (ob_maestro_uri (snd obj)) h; Some ((fst obj, (snd obj)\<lparr>ob_maestro_uri := bs\<rparr>), h') }"

text \<open>The calls of a program while it reads its command line; a failed copy leaves a null pointer.\<close>

definition option_calls :: "'h mem_api \<Rightarrow> (addr \<times> options_ptrs \<Rightarrow> 'h \<Rightarrow> ((addr \<times> options_ptrs) \<times> 'h) undef) set" where
  "option_calls mm = {options_set_name_mem mm, options_set_logdir_mem mm, options_set_file_mem mm} \<union>
     range (options_set_broker_uri_mem mm) \<union> range (options_set_maestro_uri_mem mm)"

inductive option_step :: "'h mem_api \<Rightarrow> (addr \<times> options_ptrs) \<times> 'h \<Rightarrow> (addr \<times> options_ptrs) \<times> 'h \<Rightarrow> bool" for mm where
  option_set: "call \<in> option_calls mm \<Longrightarrow> call obj h = Some (obj', h') \<Longrightarrow> option_step mm (obj, h) (obj', h')"

inductive_cases option_stepE: "option_step mm s s'"

definition msg_conn_info_cleanup :: "'h mem_api \<Rightarrow> addr option \<Rightarrow> 'h \<Rightarrow> (addr option \<times> 'h) undef" where
  "msg_conn_info_cleanup mm conn_id h = mm_dealloc mm conn_id h"

definition worker_msg_opt_cleanup :: "'h mem_api \<Rightarrow> addr option \<Rightarrow> 'h \<Rightarrow> (addr option \<times> 'h) undef" where
  "worker_msg_opt_cleanup mm conn_id h = msg_conn_info_cleanup mm conn_id h"

definition worker_vqueue_destroy :: "'h mem_api \<Rightarrow> addr option \<Rightarrow> 'h \<Rightarrow> (addr option \<times> 'h) undef" where
  "worker_vqueue_destroy mm ptr h = (if ptr = None then Some (None, h) else mm_dealloc mm ptr h)"

text \<open>The pointer that becomes null is the copy in the local variable.\<close>

definition vmslh_callback_cleanup :: "'h mem_api \<Rightarrow> addr option \<Rightarrow> 'h \<Rightarrow> (addr option \<times> 'h) undef" where
  "vmslh_callback_cleanup mm ptr h = (if ptr = None then Some (ptr, h) else map_option (\<lambda>(cb, h'). (ptr, h')) (mm_dealloc mm ptr h))"

definition paho_serialize_clean :: "'h mem_api \<Rightarrow> addr option \<times> int \<Rightarrow> 'h \<Rightarrow> ((addr option \<times> int) \<times> 'h) undef" where
  "paho_serialize_clean mm pl h = map_option (\<lambda>h'. ((fst pl, 0), h')) (mm_free mm (fst pl) h)"

section \<open>What the library promises\<close>

locale gru_memory =
  fixes mm :: "'h mem_api" and live :: "'h \<Rightarrow> addr set"
  assumes dealloc_null: "mm_dealloc mm None h = Some (None, h)"
    and dealloc_live: "a \<in> live h \<Longrightarrow> \<exists>h'. mm_dealloc mm (Some a) h = Some (None, h') \<and> live h' = live h - {a}"
    and dealloc_dead: "a \<notin> live h \<Longrightarrow> mm_dealloc mm (Some a) h = None"
    and uri_live: "distinct bs \<Longrightarrow> set bs \<subseteq> live h \<Longrightarrow> \<exists>h'. mm_uri_cleanup mm bs h = Some ([], h') \<and> live h' = live h - set bs"
    and free_live: "a \<in> live h \<Longrightarrow> \<exists>h'. mm_free mm (Some a) h = Some h' \<and> live h' = live h - {a}"
    and free_dead: "a \<notin> live h \<Longrightarrow> mm_free mm (Some a) h = None"
    and alloc_new: "mm_alloc mm h = (p, h') \<Longrightarrow> set_option p \<inter> live h = {} \<and> live h' = live h \<union> set_option p"
    and strdup_new: "mm_strdup mm h = (p, h') \<Longrightarrow> set_option p \<inter> live h = {} \<and> live h' = live h \<union> set_option p"
    and parse_new: "mm_uri_parse mm url h = (ok, bs, h') \<Longrightarrow> distinct bs \<and> set bs \<inter> live h = {} \<and> live h' = live h \<union> set bs"
begin

lemma dealloc_opt:
  "set_option p \<subseteq> live h \<Longrightarrow> \<exists>h'. mm_dealloc mm p h = Some (None, h') \<and> live h' = live h - set_option p"
  using dealloc_null dealloc_live by (cases p) auto

lemma replace_string_frees:
  assumes "set_option p \<subseteq> live h"
  shows "\<exists>q h'. replace_string mm p h = Some (q, h') \<and> set_option q \<inter> (live h - set_option p) = {} \<and>
    live h' = (live h - set_option p) \<union> set_option q"
proof -
  obtain h1 where 1: "mm_dealloc mm p h = Some (None, h1)" "live h1 = live h - set_option p" using dealloc_opt [OF assms] by blast
  obtain q h' where "mm_strdup mm h1 = (q, h')" by fastforce
  with 1 strdup_new [OF this] show ?thesis by (simp add: replace_string_def)
qed

lemma replace_uri_frees:
  assumes "distinct bs" and "set bs \<subseteq> live h"
  shows "\<exists>cs h'. replace_uri mm url bs h = Some (cs, h') \<and> distinct cs \<and> set cs \<inter> (live h - set bs) = {} \<and> live h' = (live h - set bs) \<union> set cs"
proof -
  obtain h1 where 1: "mm_uri_cleanup mm bs h = Some ([], h1)" "live h1 = live h - set bs" using uri_live [OF assms] by blast
  obtain ok cs h' where "mm_uri_parse mm url h1 = (ok, cs, h')" by (metis prod_cases3)
  with 1 parse_new [OF this] show ?thesis by (simp add: replace_uri_def)
qed

end

text \<open>The blocks an object owns, as a list; the heap holds them and the blocks \<open>base\<close> of others.\<close>

definition ptr_block :: "addr option \<Rightarrow> addr list" where
  "ptr_block p = (case p of None \<Rightarrow> [] | Some a \<Rightarrow> [a])"

definition options_blocks :: "addr \<times> options_ptrs \<Rightarrow> addr list" where
  "options_blocks obj = (case obj of (a, opt) \<Rightarrow> ob_maestro_uri opt @ ob_broker_uri opt @
     ptr_block (ob_log_dir opt) @ ptr_block (ob_name opt) @ ptr_block (ob_maestro_script opt) @ [a])"

lemma ptr_block_simps [simp]: "set (ptr_block p) = set_option p" "distinct (ptr_block p)"
  by (auto simp: ptr_block_def split: option.split)

definition owned :: "('h \<Rightarrow> addr set) \<Rightarrow> addr set \<Rightarrow> (addr \<times> options_ptrs) \<times> 'h \<Rightarrow> bool" where
  "owned live base s = (distinct (options_blocks (fst s)) \<and> set (options_blocks (fst s)) \<inter> base = {} \<and>
     live (snd s) = base \<union> set (options_blocks (fst s)))"

text \<open>A part of the list may be replaced by new blocks.\<close>

lemma owned_replace:
  assumes "owned live base (obj, h)" and "options_blocks obj = xs @ ps @ ys" and "options_blocks obj' = xs @ qs @ ys"
    and "distinct qs" and "set qs \<inter> (live h - set ps) = {}" and "live h' = (live h - set ps) \<union> set qs"
  shows "owned live base (obj', h')"
  using assms by (auto simp: owned_def)

context gru_memory
begin

lemma options_destroy_frees:
  assumes "distinct (options_blocks obj)" and "set (options_blocks obj) \<subseteq> live h"
  shows "\<exists>h'. options_destroy mm (Some obj) h = Some (None, h') \<and> live h' = live h - set (options_blocks obj)"
proof -
  obtain a opt where o: "obj = (a, opt)" by fastforce
  have b: "set (options_blocks obj) = set (ob_maestro_uri opt) \<union> set (ob_broker_uri opt) \<union> set_option (ob_log_dir opt) \<union>
      set_option (ob_name opt) \<union> set_option (ob_maestro_script opt) \<union> {a}"
    by (auto simp: o options_blocks_def)
  then have live: "set (ob_maestro_uri opt) \<subseteq> live h" "set (ob_broker_uri opt) \<subseteq> live h" "set_option (ob_log_dir opt) \<subseteq> live h"
    "set_option (ob_name opt) \<subseteq> live h" "set_option (ob_maestro_script opt) \<subseteq> live h" "a \<in> live h" using assms(2) by blast+
  have d: "distinct (ob_maestro_uri opt)" "distinct (ob_broker_uri opt)" "set (ob_maestro_uri opt) \<inter> set (ob_broker_uri opt) = {}"
    "set_option (ob_log_dir opt) \<inter> (set (ob_maestro_uri opt) \<union> set (ob_broker_uri opt)) = {}"
    "set_option (ob_name opt) \<inter> (set (ob_maestro_uri opt) \<union> set (ob_broker_uri opt) \<union> set_option (ob_log_dir opt)) = {}"
    "set_option (ob_maestro_script opt) \<inter> (set (ob_maestro_uri opt) \<union> set (ob_broker_uri opt) \<union> set_option (ob_log_dir opt) \<union> set_option (ob_name opt)) = {}"
    "a \<notin> set (ob_maestro_uri opt) \<union> set (ob_broker_uri opt) \<union> set_option (ob_log_dir opt) \<union> set_option (ob_name opt) \<union> set_option (ob_maestro_script opt)"
    using assms(1) by (auto simp: o options_blocks_def)
  obtain h1 where 1: "mm_uri_cleanup mm (ob_maestro_uri opt) h = Some ([], h1)" "live h1 = live h - set (ob_maestro_uri opt)"
    using uri_live [OF d(1)] live(1) by blast
  obtain h2 where 2: "mm_uri_cleanup mm (ob_broker_uri opt) h1 = Some ([], h2)" "live h2 = live h1 - set (ob_broker_uri opt)"
    using uri_live [OF d(2), of h1] live(2) d(3) 1(2) by blast
  obtain h3 where 3: "mm_dealloc mm (ob_log_dir opt) h2 = Some (None, h3)" "live h3 = live h2 - set_option (ob_log_dir opt)"
    using dealloc_opt [of "ob_log_dir opt" h2] live(3) d(4) 1(2) 2(2) by blast
  obtain h4 where 4: "mm_dealloc mm (ob_name opt) h3 = Some (None, h4)" "live h4 = live h3 - set_option (ob_name opt)"
    using dealloc_opt [of "ob_name opt" h3] live(4) d(5) 1(2) 2(2) 3(2) by blast
  obtain h5 where 5: "mm_dealloc mm (ob_maestro_script opt) h4 = Some (None, h5)" "live h5 = live h4 - set_option (ob_maestro_script opt)"
    using dealloc_opt [of "ob_maestro_script opt" h4] live(5) d(6) 1(2) 2(2) 3(2) 4(2) by blast
  obtain h6 where 6: "mm_dealloc mm (Some a) h5 = Some (None, h6)" "live h6 = live h5 - {a}"
    using dealloc_live [of a h5] live(6) d(7) 1(2) 2(2) 3(2) 4(2) 5(2) by blast
  have "options_destroy mm (Some obj) h = Some (None, h6)" using 1(1) 2(1) 3(1) 4(1) 5(1) 6(1) by (simp add: o options_destroy_def)
  moreover have "live h6 = live h - set (options_blocks obj)" using 1(2) 2(2) 3(2) 4(2) 5(2) 6(2) b by auto
  ultimately show ?thesis by blast
qed


lemma string_call_keeps_owned:
  assumes own: "owned live base (obj, h)" and blocks: "options_blocks obj = xs @ ptr_block p @ ys"
    and upd: "\<And>q. options_blocks (upd q) = xs @ ptr_block q @ ys"
  shows "\<exists>s'. do { (q, h') \<leftarrow> replace_string mm p h; Some (upd q, h') } = Some s' \<and> owned live base s'"
proof -
  have "set_option p \<subseteq> live h" using own blocks by (auto simp: owned_def)
  from replace_string_frees [OF this] obtain q h' where "replace_string mm p h = Some (q, h')"
    "set_option q \<inter> (live h - set_option p) = {}" "live h' = (live h - set_option p) \<union> set_option q" by blast
  then show ?thesis using owned_replace [OF own blocks upd, of q h'] by simp
qed

lemma uri_call_keeps_owned:
  assumes own: "owned live base (obj, h)" and blocks: "options_blocks obj = xs @ bs @ ys"
    and upd: "\<And>cs. options_blocks (upd cs) = xs @ cs @ ys"
  shows "\<exists>s'. do { (cs, h') \<leftarrow> replace_uri mm url bs h; Some (upd cs, h') } = Some s' \<and> owned live base s'"
proof -
  have "distinct bs" "set bs \<subseteq> live h" using own blocks by (auto simp: owned_def)
  from replace_uri_frees [OF this, of url] obtain cs h' where "replace_uri mm url bs h = Some (cs, h')" "distinct cs"
    "set cs \<inter> (live h - set bs) = {}" "live h' = (live h - set bs) \<union> set cs" by blast
  then show ?thesis using owned_replace [OF own blocks upd, of cs h'] by simp
qed

lemma call_keeps_owned:
  assumes own: "owned live base (obj, h)" and call: "call \<in> option_calls mm"
  shows "\<exists>s'. call obj h = Some s' \<and> owned live base s'"
proof -
  obtain a opt where o: "obj = (a, opt)" by fastforce
  note str = string_call_keeps_owned [OF own] and uri = uri_call_keeps_owned [OF own]
  let ?m = "ob_maestro_uri opt" and ?b = "ob_broker_uri opt"
    and ?l = "ptr_block (ob_log_dir opt)" and ?n = "ptr_block (ob_name opt)" and ?s = "ptr_block (ob_maestro_script opt)"
  consider "call = options_set_name_mem mm" | "call = options_set_logdir_mem mm" | "call = options_set_file_mem mm"
    | url where "call = options_set_broker_uri_mem mm url" | url where "call = options_set_maestro_uri_mem mm url"
    using call by (auto simp: option_calls_def)
  then show ?thesis
  proof cases
    case 1 show ?thesis unfolding 1 options_set_name_mem_def by (rule str [of "?m @ ?b @ ?l" _ "?s @ [a]"]) (simp_all add: o options_blocks_def)
  next
    case 2 show ?thesis unfolding 2 options_set_logdir_mem_def by (rule str [of "?m @ ?b" _ "?n @ ?s @ [a]"]) (simp_all add: o options_blocks_def)
  next
    case 3 show ?thesis unfolding 3 options_set_file_mem_def by (rule str [of "?m @ ?b @ ?l @ ?n" _ "[a]"]) (simp_all add: o options_blocks_def)
  next
    case (4 url) show ?thesis unfolding 4 options_set_broker_uri_mem_def
      by (rule uri [of ?m _ "?l @ ?n @ ?s @ [a]"]) (simp_all add: o options_blocks_def)
  next
    case (5 url) show ?thesis unfolding 5 options_set_maestro_uri_mem_def
      by (rule uri [of "[]" _ "?b @ ?l @ ?n @ ?s @ [a]"]) (simp_all add: o options_blocks_def)
  qed
qed

lemma steps_keep_owned:
  "(option_step mm)\<^sup>*\<^sup>* s s' \<Longrightarrow> owned live base s \<Longrightarrow> owned live base s'"
proof (induction rule: rtranclp_induct)
  case (step y z)
  then show ?case using call_keeps_owned by (fastforce elim!: option_stepE)
qed

lemma new_options_owned:
  assumes "options_new_mem mm h = Some (Some obj, h0)"
  shows "owned live (live h) (obj, h0)"
proof -
  obtain a h1 where 1: "mm_alloc mm h = (Some a, h1)" using assms by (auto simp: options_new_mem_def split: prod.splits option.splits)
  obtain ok bu h2 where 2: "mm_uri_parse mm ''amqp://localhost:5672/test.performance.queue'' h1 = (ok, bu, h2)" by (metis prod_cases3)
  obtain ok' mu h3 where 3: "mm_uri_parse mm ''mqtt://localhost:1883/mpt/maestro'' h2 = (ok', mu, h3)" by (metis prod_cases3)
  obtain name h4 where 4: "mm_strdup mm h3 = (name, h4)" by fastforce
  have o: "obj = (a, \<lparr>ob_broker_uri = bu, ob_maestro_uri = mu, ob_log_dir = None, ob_name = name, ob_maestro_script = None\<rparr>)" "h0 = h4"
    using assms 1 2 3 4 by (auto simp: options_new_mem_def split: if_splits)
  show ?thesis using alloc_new [OF 1] parse_new [OF 2] parse_new [OF 3] strdup_new [OF 4]
    by (auto simp: o owned_def options_blocks_def)
qed

end

section \<open>A concrete heap\<close>

text \<open>The list of the live blocks; a new block gets a number greater than all of them.\<close>

definition fresh :: "addr list \<Rightarrow> addr" where
  "fresh h = Suc (sum_list h)"

definition list_heap :: "addr list mem_api" where
  "list_heap = \<lparr>mm_dealloc = (\<lambda>p h. case p of None \<Rightarrow> Some (None, h) | Some a \<Rightarrow> if a \<in> set h then Some (None, removeAll a h) else None),
     mm_uri_cleanup = (\<lambda>bs h. if distinct bs \<and> set bs \<subseteq> set h then Some ([], filter (\<lambda>a. a \<notin> set bs) h) else None),
     mm_free = (\<lambda>p h. case p of None \<Rightarrow> Some h | Some a \<Rightarrow> if a \<in> set h then Some (removeAll a h) else None),
     mm_alloc = (\<lambda>h. (Some (fresh h), fresh h # h)),
     mm_strdup = (\<lambda>h. (Some (fresh h), fresh h # h)),
     mm_uri_parse = (\<lambda>url h. (True, [fresh h, Suc (fresh h)], Suc (fresh h) # fresh h # h))\<rparr>"

lemma fresh_not_live [simp]: "fresh h \<notin> set h" "Suc (fresh h) \<notin> set h"
  using member_le_sum_list [of "fresh h" h] member_le_sum_list [of "Suc (fresh h)" h] by (auto simp: fresh_def)

interpretation lh: gru_memory list_heap set
  by unfold_locales (auto simp: list_heap_def)

section \<open>Properties\<close>

text \<open>
  Property C13, options_no_leak. Whatever memory keeps the contract: after \<open>options_new\<close> and any
  calls that replace the name, the log directory, the script and the URLs, each of which
  is defined, \<open>options_destroy\<close> frees every block the options own once, leaves a null
  pointer and leaves the heap with the blocks it had before \<open>options_new\<close>.
\<close>

theorem options_no_leak:
  assumes "gru_memory mm live" and "options_new_mem mm h = Some (Some obj, h0)" and "(option_step mm)\<^sup>*\<^sup>* (obj, h0) (obj1, h1)"
  shows "(\<forall>call \<in> option_calls mm. \<exists>s. call obj1 h1 = Some s) \<and>
    (\<exists>h2. options_destroy mm (Some obj1) h1 = Some (None, h2) \<and> live h2 = live h)"
proof -
  have own: "owned live (live h) (obj1, h1)"
    using gru_memory.steps_keep_owned [OF assms(1) assms(3) gru_memory.new_options_owned [OF assms(1,2)]] .
  then have d: "distinct (options_blocks obj1)" and s: "set (options_blocks obj1) \<subseteq> live h1"
    and l: "live h1 - set (options_blocks obj1) = live h" by (auto simp: owned_def)
  obtain h2 where "options_destroy mm (Some obj1) h1 = Some (None, h2)" "live h2 = live h"
    using gru_memory.options_destroy_frees [OF assms(1) d s] l by auto
  then show ?thesis using gru_memory.call_keeps_owned [OF assms(1) own] by blast
qed

theorem options_no_leak_witness:
  "\<exists>obj h0 obj1 h1. options_new_mem list_heap [1] = Some (Some obj, h0) \<and> options_set_name_mem list_heap obj h0 = Some (obj1, h1) \<and>
    (\<exists>h2. options_destroy list_heap (Some obj1) h1 = Some (None, h2) \<and> set h2 = {1})"
proof -
  obtain obj h0 where n: "options_new_mem list_heap [1] = Some (Some obj, h0)" by (simp add: options_new_mem_def list_heap_def)
  obtain obj1 h1 where c: "options_set_name_mem list_heap obj h0 = Some (obj1, h1)"
    using options_no_leak [OF lh.gru_memory_axioms n rtranclp.rtrancl_refl] by (auto simp: option_calls_def)
  have "option_step list_heap (obj, h0) (obj1, h1)" using option_set [of "options_set_name_mem list_heap", OF _ c] by (simp add: option_calls_def)
  then have steps: "(option_step list_heap)\<^sup>*\<^sup>* (obj, h0) (obj1, h1)" by (rule r_into_rtranclp)
  from options_no_leak [OF lh.gru_memory_axioms n steps]
  have "\<exists>h2. options_destroy list_heap (Some obj1) h1 = Some (None, h2) \<and> set h2 = {1}" by simp
  with n c show ?thesis by blast
qed

text \<open>
  Also proved, options_released. Whatever memory keeps the contract: \<open>options_destroy\<close> frees every
  block of the options once and no other, and leaves a null pointer, so that a second
  call does nothing.
\<close>

theorem options_released:
  assumes "gru_memory mm live" and "distinct (options_blocks obj)" and "set (options_blocks obj) \<subseteq> live h"
  shows "\<exists>p h'. options_destroy mm (Some obj) h = Some (p, h') \<and> live h' = live h - set (options_blocks obj) \<and>
    options_destroy mm p h' = Some (None, h')"
proof -
  obtain h' where "options_destroy mm (Some obj) h = Some (None, h')" "live h' = live h - set (options_blocks obj)"
    using gru_memory.options_destroy_frees [OF assms] by blast
  then show ?thesis by (intro exI [of _ None] exI [of _ h']) (simp add: options_destroy_def)
qed

definition sample_ptrs :: "addr \<times> options_ptrs" where
  "sample_ptrs = (1, \<lparr>ob_broker_uri = [2, 3], ob_maestro_uri = [4, 5], ob_log_dir = None, ob_name = Some 6, ob_maestro_script = None\<rparr>)"

theorem options_released_witness:
  "\<exists>p h'. options_destroy list_heap (Some sample_ptrs) [1, 2, 3, 4, 5, 6, 7] = Some (p, h') \<and> set h' = {7} \<and>
    options_destroy list_heap p h' = Some (None, h')"
proof -
  have b: "options_blocks sample_ptrs = [4, 5, 2, 3, 6, 1]" by (simp add: sample_ptrs_def options_blocks_def ptr_block_def)
  show ?thesis using options_released [OF lh.gru_memory_axioms, of sample_ptrs "[1, 2, 3, 4, 5, 6, 7]"] by (auto simp: b)
qed

text \<open>
  Also proved, second_cleanup. Releasing the connection identifier or the queue of a worker twice
  is harmless, because the pointer becomes null; \<open>vmslh_callback_cleanup\<close> and
  \<open>paho_serialize_clean\<close> leave the pointer to the freed block, and a second call frees it again.
\<close>

theorem second_cleanup:
  assumes "gru_memory mm live" and "a \<in> live h"
  shows "\<exists>h'. live h' = live h - {a} \<and>
    worker_msg_opt_cleanup mm (Some a) h = Some (None, h') \<and> worker_msg_opt_cleanup mm None h' = Some (None, h') \<and>
    worker_vqueue_destroy mm (Some a) h = Some (None, h') \<and> worker_vqueue_destroy mm None h' = Some (None, h') \<and>
    vmslh_callback_cleanup mm (Some a) h = Some (Some a, h') \<and> vmslh_callback_cleanup mm (Some a) h' = None \<and>
    (\<exists>h2. paho_serialize_clean mm (Some a, n) h = Some ((Some a, 0), h2) \<and> paho_serialize_clean mm (Some a, 0) h2 = None)"
proof -
  obtain h' where d: "mm_dealloc mm (Some a) h = Some (None, h')" "live h' = live h - {a}" using gru_memory.dealloc_live [OF assms] by blast
  obtain h2 where f: "mm_free mm (Some a) h = Some h2" "live h2 = live h - {a}" using gru_memory.free_live [OF assms] by blast
  have "mm_dealloc mm (Some a) h' = None" "mm_free mm (Some a) h2 = None" "mm_dealloc mm None h' = Some (None, h')"
    using gru_memory.dealloc_dead [OF assms(1), of a h'] gru_memory.free_dead [OF assms(1), of a h2] gru_memory.dealloc_null [OF assms(1)] d(2) f(2)
    by auto
  with d f show ?thesis
    by (auto simp: worker_msg_opt_cleanup_def msg_conn_info_cleanup_def worker_vqueue_destroy_def vmslh_callback_cleanup_def paho_serialize_clean_def)
qed

theorem second_cleanup_witness:
  "vmslh_callback_cleanup list_heap (Some 1) [1, 2] = Some (Some 1, [2]) \<and>
    (\<exists>h'. worker_vqueue_destroy list_heap (Some 1) [1, 2] = Some (None, h') \<and> vmslh_callback_cleanup list_heap (Some 1) h' = None)"
proof -
  have "(1 :: addr) \<in> set [1, 2]" by simp
  from second_cleanup [OF lh.gru_memory_axioms this, of 0] show ?thesis by (auto simp: vmslh_callback_cleanup_def list_heap_def)
qed

end
