(* ===== verification/Worker_Loops.thy ===== *)
theory Worker_Loops
  imports Worker
begin

text \<open>
  The test loops, \<open>src/worker/naive_sender.c\<close>, \<open>rate_sender.c\<close>, \<open>naive_receiver.c\<close> and
  \<open>rate_receiver.c\<close>. The four files share their prologue (connect, open the queue,
  prepare the content), the loop around one iteration, and their epilogue; the
  model shares them too and each file is its iteration and its start function.
\<close>

section \<open>Opening and closing a session\<close>

record session =
  se_ctxt :: msg_ctxt
  se_handlers :: handlers
  se_queue :: "worker_queue option"

definition session_abort :: "'w worker \<Rightarrow> msg_ctxt \<Rightarrow> 'w \<Rightarrow> 'w undef" where
  "session_abort wk c w = map_option (\<lambda>destroy. snd (destroy (Some c) St_New w)) (v_destroy (wk_vmsl wk))"

text \<open>Only the receivers subscribe.\<close>

definition session_subscribe :: "'w worker \<Rightarrow> msg_direction \<Rightarrow> msg_ctxt \<Rightarrow> gru_status \<Rightarrow> 'w \<Rightarrow>
    (bool \<times> gru_status \<times> 'w) undef" where
  "session_subscribe wk dir c st w =
    (if dir = MSG_DIRECTION_RECEIVER then
       map_option (\<lambda>sub. case sub c None st w of (ret, st', w') \<Rightarrow> (\<not> vmsl_stat_error ret, st', w'))
         (v_subscribe (wk_vmsl wk))
     else Some (True, st, w))"

definition session_open :: "'w wenv \<Rightarrow> 'w worker \<Rightarrow> msg_direction \<Rightarrow> gru_status \<Rightarrow> 'w \<Rightarrow>
    (session option \<times> gru_status \<times> 'w) undef" where
  "session_open env wk dir st w = do {
     init \<leftarrow> v_init (wk_vmsl wk);
     (case init (worker_msg_opt_setup env dir (wk_options wk)) (vmslh_new (e_list_new env)) st w of
        (None, h, st1, w1) \<Rightarrow> Some (None, st1, w1)
      | (Some c, h, st1, w1) \<Rightarrow> do {
          start \<leftarrow> v_start (wk_vmsl wk);
          (case start c h st1 w1 of (ret, st2, w2) \<Rightarrow>
             if vmsl_stat_error ret then do { w3 \<leftarrow> session_abort wk c w2; Some (None, st2, w3) }
             else do {
               (subscribed, st3, w3) \<leftarrow> session_subscribe wk dir c st2 w2;
               if \<not> subscribed then do { w4 \<leftarrow> session_abort wk c w3; Some (None, st3, w4) }
               else (case worker_create_queue env wk st3 w3 of
                   (None, st4, w4) \<Rightarrow> do { w5 \<leftarrow> session_abort wk c w4; Some (None, st4, w5) }
                 | (Some q, st4, w4) \<Rightarrow> Some (Some \<lparr>se_ctxt = c, se_handlers = h, se_queue = Some q\<rparr>, st4, w4))
             })
        })
   }"

definition session_close :: "'w wenv \<Rightarrow> 'w worker \<Rightarrow> session \<Rightarrow> gru_status \<Rightarrow> 'w \<Rightarrow> (gru_status \<times> 'w) undef" where
  "session_close env wk se st w = do {
     stop \<leftarrow> v_stop (wk_vmsl wk);
     destroy \<leftarrow> v_destroy (wk_vmsl wk);
     (case stop (Some (se_ctxt se)) st w of (st1, w1) \<Rightarrow> Some (destroy (Some (se_ctxt se)) st1 w1))
   }"

section \<open>The loop\<close>

record 'w loop_state =
  ls_snap :: worker_snapshot
  ls_last_count :: u64
  ls_last_ts :: timestamp
  ls_round :: u64
  ls_content :: msg_content
  ls_pl :: pl_state
  ls_status :: gru_status
  ls_world :: 'w

text \<open>\<open>iter\<close> does one iteration and tells whether the loop goes on.\<close>

fun worker_loop :: "'w worker \<Rightarrow> ('w loop_state \<Rightarrow> (bool \<times> 'w loop_state) undef) \<Rightarrow> nat \<Rightarrow> 'w loop_state \<Rightarrow>
    'w loop_state run" where
  "worker_loop wk iter 0 ls = Inl Out_of_fuel"
| "worker_loop wk iter (Suc fuel) ls =
    run_bind (of_undef (wk_can_continue wk)) (\<lambda>can_continue.
    if can_continue (wk_options wk) (ls_snap ls) (ls_world ls)
    then run_bind (of_undef (iter ls)) (\<lambda>(go, ls'). if go then worker_loop wk iter fuel ls' else Inr ls')
    else Inr ls)"

definition snap_now :: "'w wenv \<Rightarrow> 'w loop_state \<Rightarrow> 'w loop_state" where
  "snap_now env ls = (case e_now env (ls_world ls) of (now, w) \<Rightarrow>
     ls\<lparr>ls_snap := (ls_snap ls)\<lparr>ws_now := now\<rparr>, ls_world := w\<rparr>)"

definition snap_count :: "'w loop_state \<Rightarrow> 'w loop_state" where
  "snap_count ls = ls\<lparr>ls_snap := (ls_snap ls)\<lparr>ws_count := ws_count (ls_snap ls) + 1\<rparr>\<rparr>"

definition snap_throughput :: "'w wenv \<Rightarrow> 'w loop_state \<Rightarrow> 'w loop_state" where
  "snap_throughput env ls = (let s = ls_snap ls in
     ls\<lparr>ls_snap := s\<lparr>ws_throughput := calc_throughput (e_elapsed_secs env) (e_fdiv env) (ws_throughput s)
       (ls_last_ts ls) (ws_now s) (ws_count s - ls_last_count ls)\<rparr>\<rparr>)"

definition mark_sample :: "'w loop_state \<Rightarrow> 'w loop_state" where
  "mark_sample ls = ls\<lparr>ls_last_count := ws_count (ls_snap ls), ls_last_ts := ws_now (ls_snap ls)\<rparr>"

definition sample_due :: "'w wenv \<Rightarrow> u64 \<Rightarrow> 'w loop_state \<Rightarrow> bool" where
  "sample_due env interval ls = (interval \<le> e_elapsed_secs env (ls_last_ts ls) (ws_now (ls_snap ls)))"

text \<open>The snapshot goes to the parent; the result of the write is not looked at.\<close>

definition queue_snapshot :: "'w wenv \<Rightarrow> session \<Rightarrow> 'w loop_state \<Rightarrow> 'w loop_state undef" where
  "queue_snapshot env se ls =
     map_option (\<lambda>(stat, w). ls\<lparr>ls_world := w\<rparr>)
       (worker_queue_write (e_ipc env) (se_queue se) (ls_snap ls) sizeof_snapshot (ls_world ls))"

text \<open>Every ten seconds the naive workers write the throughput and queue the snapshot; a
  failed write ends the loop with the status reset.\<close>

definition naive_sample :: "'w wenv \<Rightarrow> 'w worker \<Rightarrow> session \<Rightarrow> 'w loop_state \<Rightarrow> (bool \<times> 'w loop_state) undef" where
  "naive_sample env wk se ls =
    (if sample_due env 10 ls then do {
       write \<leftarrow> wr_write (w_throughput (wk_writer wk));
       (let ls1 = snap_throughput env ls in
        case write (ws_throughput (ls_snap ls1)) (ls_status ls1) (ls_world ls1) of (ok, st, w) \<Rightarrow>
          if \<not> ok then Some (False, ls1\<lparr>ls_status := St_New, ls_world := w\<rparr>)
          else do {
            ls2 \<leftarrow> queue_snapshot env se (mark_sample (ls1\<lparr>ls_status := st, ls_world := w\<rparr>));
            Some (True, ls2)
          })
     } else Some (True, ls))"

section \<open>Senders\<close>

text \<open>Load the content and send it; an error ends the loop with the status reset.\<close>

definition send_one :: "'w worker \<Rightarrow> session \<Rightarrow> 'w loop_state \<Rightarrow> (bool \<times> 'w loop_state) undef" where
  "send_one wk se ls = do {
     ld \<leftarrow> pl_st_load (wk_strategy wk);
     (r, c, pg) \<leftarrow> ld (ls_content ls) (ls_pl ls);
     send \<leftarrow> v_send (wk_vmsl wk);
     (case send (se_ctxt se) (se_handlers se) c (ls_status ls) (ls_world ls) of (ret, c', st, w) \<Rightarrow>
       let ls' = ls\<lparr>ls_content := c', ls_pl := pg, ls_status := st, ls_world := w\<rparr> in
       if vmsl_stat_error ret then Some (False, ls'\<lparr>ls_status := St_New\<rparr>) else Some (True, ls'))
   }"

definition throttle_wait :: "'w wenv \<Rightarrow> 'w worker \<Rightarrow> 'w loop_state \<Rightarrow> 'w loop_state" where
  "throttle_wait env wk ls =
    (if wo_throttle (wk_options wk) = 0 then ls
     else let round = ls_round ls + 1 in
       if round = ucast (wo_throttle (wk_options wk))
       then ls\<lparr>ls_round := 0,
              ls_world := e_usleep env (1000000 - word_of_int (tv_usec (ws_now (ls_snap ls)))) (ls_world ls)\<rparr>
       else ls\<lparr>ls_round := round\<rparr>)"

definition naive_sender_iter :: "'w wenv \<Rightarrow> 'w worker \<Rightarrow> session \<Rightarrow> 'w loop_state \<Rightarrow> (bool \<times> 'w loop_state) undef" where
  "naive_sender_iter env wk se ls = do {
     (sent, ls1) \<leftarrow> send_one wk se ls;
     if \<not> sent then Some (False, ls1)
     else do {
       (go, ls2) \<leftarrow> naive_sample env wk se (snap_now env (snap_count ls1));
       Some (if go then (True, throttle_wait env wk ls2) else (False, ls2))
     }
   }"

definition rate_interval :: "worker_options \<Rightarrow> u32" where
  "rate_interval opts = (if wo_rate opts \<noteq> 0 then 1000000 div wo_rate opts else 0)"

definition rate_wait :: "'w wenv \<Rightarrow> 'w worker \<Rightarrow> 'w loop_state \<Rightarrow> 'w loop_state" where
  "rate_wait env wk ls =
    (let eta = e_add_micros env (ws_eta (ls_snap ls)) (rate_interval (wk_options wk));
         ls1 = ls\<lparr>ls_snap := (ls_snap ls)\<lparr>ws_eta := eta\<rparr>\<rparr>;
         diff = e_elapsed_milli env (ws_now (ls_snap ls1)) eta in
     if 0 < diff then ls1\<lparr>ls_world := e_usleep env (word_of_int diff * 1000) (ls_world ls1)\<rparr> else ls1)"

definition rate_sample :: "'w wenv \<Rightarrow> 'w loop_state \<Rightarrow> 'w loop_state" where
  "rate_sample env ls = (if sample_due env 1 ls then mark_sample (snap_throughput env ls) else ls)"

definition rate_sender_iter :: "'w wenv \<Rightarrow> 'w worker \<Rightarrow> session \<Rightarrow> 'w loop_state \<Rightarrow> (bool \<times> 'w loop_state) undef" where
  "rate_sender_iter env wk se ls = do {
     (sent, ls1) \<leftarrow> send_one wk se ls;
     if \<not> sent then Some (False, ls1)
     else do {
       ls2 \<leftarrow> queue_snapshot env se (rate_sample env (snap_now env (snap_count ls1)));
       Some (True, rate_wait env wk ls2)
     }
   }"

section \<open>Receivers\<close>

text \<open>\<open>None\<close> in the middle: go on with the next iteration.\<close>

definition receive_one :: "'w wenv \<Rightarrow> 'w worker \<Rightarrow> session \<Rightarrow> 'w loop_state \<Rightarrow> (bool option \<times> 'w loop_state) undef" where
  "receive_one env wk se ls = do {
     receive \<leftarrow> v_receive (wk_vmsl wk);
     (case receive (se_ctxt se) (se_handlers se) (ls_content ls) (ls_status ls) (ls_world ls) of
        (rstat, c, st, w) \<Rightarrow>
          let ls1 = ls\<lparr>ls_content := c, ls_status := st, ls_world := w\<rparr> in
          if vmsl_stat_error rstat then
            (if rstat AND VMSL_NO_TIMESTAMP \<noteq> 0 then Some (None, ls1)
             else Some (Some False, ls1\<lparr>ls_status := St_New\<rparr>))
          else
            let ls2 = snap_now env ls1 in
            if rstat AND VMSL_NO_DATA \<noteq> 0
            then Some (None, ls2\<lparr>ls_world := e_usleep env 25000 (ls_world ls2)\<rparr>)
            else Some (Some True, snap_count ls2))
   }"

definition snap_latency :: "'w loop_state \<Rightarrow> 'w loop_state" where
  "snap_latency ls = (let s = ls_snap ls in
     ls\<lparr>ls_snap := s\<lparr>ws_latency := calc_latency (ws_latency s) (mc_created (ls_content ls)) (ws_now s)\<rparr>\<rparr>)"

definition naive_receiver_iter :: "'w wenv \<Rightarrow> 'w worker \<Rightarrow> session \<Rightarrow> 'w loop_state \<Rightarrow> (bool \<times> 'w loop_state) undef" where
  "naive_receiver_iter env wk se ls = do {
     (got, ls1) \<leftarrow> receive_one env wk se ls;
     case got of
       None \<Rightarrow> Some (True, ls1)
     | Some False \<Rightarrow> Some (False, ls1)
     | Some True \<Rightarrow> do {
         write \<leftarrow> wr_write (w_latency (wk_writer wk));
         (let ls2 = snap_latency ls1 in
          case write (ws_latency (ls_snap ls2)) (ls_status ls2) (ls_world ls2) of (ok, st, w) \<Rightarrow>
            if \<not> ok then Some (False, ls2\<lparr>ls_status := St_New, ls_world := w\<rparr>)
            else naive_sample env wk se (ls2\<lparr>ls_status := st, ls_world := w\<rparr>))
       }
   }"

definition rate_receiver_iter :: "'w wenv \<Rightarrow> 'w worker \<Rightarrow> session \<Rightarrow> 'w loop_state \<Rightarrow> (bool \<times> 'w loop_state) undef" where
  "rate_receiver_iter env wk se ls = do {
     (got, ls1) \<leftarrow> receive_one env wk se ls;
     case got of
       None \<Rightarrow> Some (True, ls1)
     | Some False \<Rightarrow> Some (False, ls1)
     | Some True \<Rightarrow> do {
         ls2 \<leftarrow> queue_snapshot env se (rate_sample env (snap_latency ls1));
         Some (True, ls2\<lparr>ls_snap := (ls_snap ls2)\<lparr>ws_eta :=
           e_add_micros env (ws_eta (ls_snap ls2)) (rate_interval (wk_options wk))\<rparr>\<rparr>)
       }
   }"

section \<open>Start functions\<close>

definition start_snapshot :: "bool \<Rightarrow> timestamp \<Rightarrow> worker_snapshot \<Rightarrow> worker_snapshot" where
  "start_snapshot with_eta now s =
    (let s1 = s\<lparr>ws_start := now, ws_now := now\<rparr> in if with_eta then s1\<lparr>ws_eta := now\<rparr> else s1)"

definition final_throughput :: "'w wenv \<Rightarrow> worker_snapshot \<Rightarrow> worker_snapshot" where
  "final_throughput env s = s\<lparr>ws_throughput := calc_throughput (e_elapsed_secs env) (e_fdiv env)
     (ws_throughput s) (ws_start s) (ws_now s) (ws_count s)\<rparr>"

type_synonym 'w worker_result = "(worker_ret \<times> worker_snapshot \<times> gru_status \<times> pl_state \<times> 'w) run"

text \<open>After the loop: the close and the finalisers \<open>fin\<close>.\<close>

definition end_session :: "'w wenv \<Rightarrow> (gru_status \<Rightarrow> 'w \<Rightarrow> (gru_status \<times> 'w) undef) \<Rightarrow> 'w worker \<Rightarrow> session \<Rightarrow>
    'w loop_state \<Rightarrow> 'w worker_result" where
  "end_session env fin wk se ls =
    run_bind (of_undef (session_close env wk se (ls_status ls) (ls_world ls))) (\<lambda>(st1, w2).
    run_bind (of_undef (fin st1 w2)) (\<lambda>(st2, w3).
    Inr (WORKER_SUCCESS, final_throughput env (ls_snap ls), st2, ls_pl ls,
      worker_queue_destroy (e_ipc env) (se_queue se) w3)))"

text \<open>From the first time stamp to the end.\<close>

definition run_loop :: "'w wenv \<Rightarrow> ('w loop_state \<Rightarrow> (bool \<times> 'w loop_state) undef) \<Rightarrow> bool \<Rightarrow>
    (gru_status \<Rightarrow> 'w \<Rightarrow> (gru_status \<times> 'w) undef) \<Rightarrow> nat \<Rightarrow> 'w worker \<Rightarrow> session \<Rightarrow> worker_snapshot \<Rightarrow>
    msg_content \<Rightarrow> gru_status \<Rightarrow> pl_state \<Rightarrow> 'w \<Rightarrow> 'w worker_result" where
  "run_loop env iter with_eta fin fuel wk se snap c st pg w =
    (case e_now env w of (now, w1) \<Rightarrow>
       let s = start_snapshot with_eta now snap in
       run_bind (worker_loop wk iter fuel \<lparr>ls_snap = s, ls_last_count = 0, ls_last_ts = now, ls_round = 0,
         ls_content = c, ls_pl = pg, ls_status = st, ls_world = w1\<rparr>) (end_session env fin wk se))"

definition sender_start :: "'w wenv \<Rightarrow> ('w wenv \<Rightarrow> 'w worker \<Rightarrow> session \<Rightarrow> 'w loop_state \<Rightarrow> (bool \<times> 'w loop_state) undef) \<Rightarrow>
    bool \<Rightarrow> (gru_status \<Rightarrow> 'w \<Rightarrow> (gru_status \<times> 'w) undef) \<Rightarrow> nat \<Rightarrow> 'w worker \<Rightarrow> worker_snapshot \<Rightarrow>
    gru_status \<Rightarrow> pl_state \<Rightarrow> 'w \<Rightarrow> 'w worker_result" where
  "sender_start env iter with_eta fin fuel wk snap st pg w =
    run_bind (of_undef (pl_st_cleanup (wk_strategy wk))) (\<lambda>cleanup.
    run_bind (of_undef (session_open env wk MSG_DIRECTION_SENDER st w)) (\<lambda>(se, st1, w1).
    case se of
      None \<Rightarrow> Inr (WORKER_FAILURE, snap, st1, pg, w1)
    | Some s \<Rightarrow>
        run_bind (of_undef (pl_st_init (wk_strategy wk))) (\<lambda>ini.
        run_bind (of_undef (ini (e_alloc env) (wo_message_size (wk_options wk)) st1 zero_content pg))
          (\<lambda>(ok, st2, c, pg1).
        if \<not> ok then
          run_bind (of_undef (session_abort wk (se_ctxt s) (worker_queue_destroy (e_ipc env) (se_queue s) w1)))
            (\<lambda>w2. Inr (WORKER_FAILURE, snap, st2, pg1, w2))
        else run_loop env (iter env wk s) with_eta fin fuel wk s snap c st2 pg1 w1))))"

definition finalize_table :: "('w, 'd) writer_table \<Rightarrow> gru_status \<Rightarrow> 'w \<Rightarrow> (gru_status \<times> 'w) undef" where
  "finalize_table t st w = map_option (\<lambda>f. snd (f st w)) (wr_finalize t)"

definition naive_sender_start :: "'w wenv \<Rightarrow> nat \<Rightarrow> 'w worker \<Rightarrow> worker_snapshot \<Rightarrow> gru_status \<Rightarrow> pl_state \<Rightarrow> 'w \<Rightarrow>
    'w worker_result" where
  "naive_sender_start env fuel wk = sender_start env naive_sender_iter False
     (finalize_table (w_throughput (wk_writer wk))) fuel wk"

definition rate_sender_start :: "'w wenv \<Rightarrow> nat \<Rightarrow> 'w worker \<Rightarrow> worker_snapshot \<Rightarrow> gru_status \<Rightarrow> pl_state \<Rightarrow> 'w \<Rightarrow>
    'w worker_result" where
  "rate_sender_start env fuel wk = sender_start env rate_sender_iter True (\<lambda>st w. Some (st, w)) fuel wk"

definition receiver_start :: "'w wenv \<Rightarrow> ('w wenv \<Rightarrow> 'w worker \<Rightarrow> session \<Rightarrow> 'w loop_state \<Rightarrow> (bool \<times> 'w loop_state) undef) \<Rightarrow>
    bool \<Rightarrow> (gru_status \<Rightarrow> 'w \<Rightarrow> (gru_status \<times> 'w) undef) \<Rightarrow> nat \<Rightarrow> 'w worker \<Rightarrow> worker_snapshot \<Rightarrow>
    gru_status \<Rightarrow> pl_state \<Rightarrow> 'w \<Rightarrow> 'w worker_result" where
  "receiver_start env iter with_eta fin fuel wk snap st pg w =
    run_bind (of_undef (session_open env wk MSG_DIRECTION_RECEIVER st w)) (\<lambda>(se, st1, w1).
    case se of
      None \<Rightarrow> Inr (WORKER_FAILURE, snap, st1, pg, w1)
    | Some s \<Rightarrow>
        (case msg_content_data_init (e_alloc env) (wo_message_size (wk_options wk)) st1 zero_content of (c, st2) \<Rightarrow>
           if \<not> gru_status_success st2 then
             run_bind (of_undef (session_abort wk (se_ctxt s) (worker_queue_destroy (e_ipc env) (se_queue s) w1)))
               (\<lambda>w2. Inr (WORKER_FAILURE, snap, st2, pg, w2))
           else run_loop env (iter env wk s) with_eta fin fuel wk s snap c st2 pg w1))"

definition naive_receiver_start :: "'w wenv \<Rightarrow> nat \<Rightarrow> 'w worker \<Rightarrow> worker_snapshot \<Rightarrow> gru_status \<Rightarrow> pl_state \<Rightarrow> 'w \<Rightarrow>
    'w worker_result" where
  "naive_receiver_start env fuel wk = receiver_start env naive_receiver_iter False
     (\<lambda>st w. do {
        (st1, w1) \<leftarrow> finalize_table (w_latency (wk_writer wk)) st w;
        finalize_table (w_throughput (wk_writer wk)) st1 w1 }) fuel wk"

definition rate_receiver_start :: "'w wenv \<Rightarrow> nat \<Rightarrow> 'w worker \<Rightarrow> worker_snapshot \<Rightarrow> gru_status \<Rightarrow> pl_state \<Rightarrow> 'w \<Rightarrow>
    'w worker_result" where
  "rate_receiver_start env fuel wk = receiver_start env rate_receiver_iter True (\<lambda>st w. Some (st, w)) fuel wk"


lemma end_session_returns:
  assumes "\<And>st w. session_close env wk se st w \<noteq> None" and "\<And>st w. fin st w \<noteq> None"
  shows "\<exists>st' w'. end_session env fin wk se ls = Inr (WORKER_SUCCESS, final_throughput env (ls_snap ls), st', ls_pl ls, w')"
proof -
  obtain st1 w2 where c: "session_close env wk se (ls_status ls) (ls_world ls) = Some (st1, w2)" using assms(1) by fastforce
  obtain st2 w3 where "fin st1 w2 = Some (st2, w3)" using assms(2) by fastforce
  with c show ?thesis by (simp add: end_session_def)
qed

section \<open>Loops bounded by a message count\<close>

text \<open>
  The four loops share a contract: as long as what an iteration calls keeps
  working (\<open>able\<close>) and messages are left to count, it completes, counts one message and
  leaves the next iteration able. The locale derives that a loop limited by a message
  count returns, with exactly that count and still able.
\<close>

locale counted_iteration =
  fixes iter :: "'w wenv \<Rightarrow> 'w worker \<Rightarrow> session \<Rightarrow> 'w loop_state \<Rightarrow> (bool \<times> 'w loop_state) undef"
    and able :: "'w wenv \<Rightarrow> 'w worker \<Rightarrow> session \<Rightarrow> 'w loop_state \<Rightarrow> bool"
  assumes counts_one: "able env wk se ls \<Longrightarrow> wo_duration (wk_options wk) = Message_Count n \<Longrightarrow> ws_count (ls_snap ls) < n \<Longrightarrow>
      \<exists>ls'. iter env wk se ls = Some (True, ls') \<and> able env wk se ls' \<and> ws_count (ls_snap ls') = ws_count (ls_snap ls) + 1"
begin

lemma loop_counts:
  assumes "wk_can_continue wk = Some (worker_check env)" and "wo_duration (wk_options wk) = Message_Count n"
    and "\<And>w. \<not> e_interrupted env w"
    and "able env wk se ls" and "ws_count (ls_snap ls) \<le> n" and "unat n - unat (ws_count (ls_snap ls)) < fuel"
  shows "\<exists>ls'. worker_loop wk (iter env wk se) fuel ls = Inr ls' \<and> ws_count (ls_snap ls') = n \<and> able env wk se ls'"
  using assms(4-6)
proof (induction fuel arbitrary: ls)
  case (Suc fuel)
  let ?k = "ws_count (ls_snap ls)"
  show ?case
  proof (cases "?k < n")
    case True
    from counts_one [OF Suc.prems(1) assms(2) True] obtain ls' where ls': "iter env wk se ls = Some (True, ls')"
      "able env wk se ls'" "ws_count (ls_snap ls') = ?k + 1" by blast
    from True have "unat (?k + 1) = Suc (unat ?k)" by (rule unat_add_one_less)
    with True Suc.prems(3) have "ws_count (ls_snap ls') \<le> n" "unat n - unat (ws_count (ls_snap ls')) < fuel"
      using ls'(3) by (simp_all add: word_le_nat_alt word_less_nat_alt)
    with Suc.IH [OF ls'(2)] True ls'(1) assms(1-3) show ?thesis by (simp add: worker_check_def)
  next
    case False
    with Suc.prems(1,2) assms(1-3) show ?thesis by (simp add: worker_check_def)
  qed
qed simp

text \<open>The loop from its first time stamp: it ends in a state that is still able, and the rest is the end
  of the session.\<close>

lemma run_reaches:
  assumes "wk_can_continue wk = Some (worker_check env)" and "wo_duration (wk_options wk) = Message_Count n"
    and "\<And>w. \<not> e_interrupted env w" and "unat n < fuel" and "ws_count snap = 0" and "e_now env w = (now, w1)"
    and "able env wk se \<lparr>ls_snap = start_snapshot with_eta now snap, ls_last_count = 0, ls_last_ts = now, ls_round = 0,
         ls_content = c, ls_pl = pg, ls_status = st, ls_world = w1\<rparr>"
  shows "\<exists>ls. able env wk se ls \<and> ws_count (ls_snap ls) = n \<and>
    run_loop env (iter env wk se) with_eta fin fuel wk se snap c st pg w = end_session env fin wk se ls"
proof -
  let ?ls = "\<lparr>ls_snap = start_snapshot with_eta now snap, ls_last_count = 0, ls_last_ts = now, ls_round = 0,
         ls_content = c, ls_pl = pg, ls_status = st, ls_world = w1\<rparr>"
  have "ws_count (ls_snap ?ls) = 0" using assms(5) by (simp add: start_snapshot_def Let_def)
  then obtain ls where "worker_loop wk (iter env wk se) fuel ?ls = Inr ls" "ws_count (ls_snap ls) = n" "able env wk se ls"
    using loop_counts [OF assms(1-3,7), of fuel] assms(4) by auto
  with assms(6) show ?thesis by (intro exI [of _ ls]) (simp add: run_loop_def Let_def)
qed

lemma run_counts:
  assumes "wk_can_continue wk = Some (worker_check env)" and "wo_duration (wk_options wk) = Message_Count n"
    and "\<And>w. \<not> e_interrupted env w" and "unat n < fuel" and "ws_count snap = 0"
    and "\<And>s now w. able env wk se \<lparr>ls_snap = s, ls_last_count = 0, ls_last_ts = now, ls_round = 0,
         ls_content = c, ls_pl = pg, ls_status = st, ls_world = w\<rparr>"
    and "\<And>st w. session_close env wk se st w \<noteq> None" and "\<And>st w. fin st w \<noteq> None"
  shows "\<exists>snap' st' pg' w'. run_loop env (iter env wk se) with_eta fin fuel wk se snap c st pg w
      = Inr (WORKER_SUCCESS, snap', st', pg', w') \<and> ws_count snap' = n"
proof -
  obtain now w1 where now: "e_now env w = (now, w1)" by fastforce
  obtain ls' where l: "ws_count (ls_snap ls') = n"
    "run_loop env (iter env wk se) with_eta fin fuel wk se snap c st pg w = end_session env fin wk se ls'"
    using run_reaches [OF assms(1-5) now assms(6)] by blast
  with end_session_returns [where env = env and fin = fin and ls = ls', OF assms(7,8)] show ?thesis by (auto simp: final_throughput_def)
qed

end

subsection \<open>What the iterations call\<close>

definition strategy_ready :: "'w worker \<Rightarrow> pl_state \<Rightarrow> msg_content \<Rightarrow> bool" where
  "strategy_ready wk pg c = (let sz = wo_message_size (wk_options wk) in
     pl_st_load (wk_strategy wk) = Some pl_fixed_load \<and> 0 < sz \<and> fixed_ready sz pg c \<or>
     (\<exists>rnd. pl_st_load (wk_strategy wk) = Some (pl_variable_load rnd) \<and> var_ok sz \<and> variable_ready sz pg c))"

definition sends :: "'w worker \<Rightarrow> session \<Rightarrow> bool" where
  "sends wk se = (\<exists>send. v_send (wk_vmsl wk) = Some send \<and>
     (\<forall>c st w. \<exists>ret st' w'. send (se_ctxt se) (se_handlers se) c st w = (ret, c, st', w') \<and> \<not> vmsl_stat_error ret))"

definition receives :: "'w worker \<Rightarrow> session \<Rightarrow> bool" where
  "receives wk se = (\<exists>receive. v_receive (wk_vmsl wk) = Some receive \<and>
     (\<forall>c st w. \<exists>ret c' st' w'. receive (se_ctxt se) (se_handlers se) c st w = (ret, c', st', w') \<and>
        \<not> vmsl_stat_error ret \<and> ret AND VMSL_NO_DATA = 0))"

definition queue_open :: "'w wenv \<Rightarrow> session \<Rightarrow> bool" where
  "queue_open env se = (\<forall>s w. worker_queue_write (e_ipc env) (se_queue se) s sizeof_snapshot w \<noteq> None)"

definition writes :: "('w, 'd) writer_table \<Rightarrow> bool" where
  "writes t = (\<exists>write. wr_write t = Some write \<and> (\<forall>d st w. fst (write d st w)))"

lemma load_step:
  assumes "strategy_ready wk pg c"
  shows "\<exists>ld r c' pg'. pl_st_load (wk_strategy wk) = Some ld \<and> ld c pg = Some (r, c', pg') \<and> strategy_ready wk pg' c'"
  using assms fixed.load_ready [of "wo_message_size (wk_options wk)" pg c]
    variable.load_ready [of "wo_message_size (wk_options wk)" pg c]
  unfolding strategy_ready_def Let_def by blast

lemma send_one_step:
  assumes "strategy_ready wk (ls_pl ls) (ls_content ls)" and "sends wk se"
  shows "\<exists>ls'. send_one wk se ls = Some (True, ls') \<and> strategy_ready wk (ls_pl ls') (ls_content ls') \<and>
    ls_snap ls' = ls_snap ls"
proof -
  from load_step [OF assms(1)] obtain ld r c' pg' where
    l: "pl_st_load (wk_strategy wk) = Some ld" "ld (ls_content ls) (ls_pl ls) = Some (r, c', pg')"
       "strategy_ready wk pg' c'" by blast
  from assms(2) obtain send ret st w where
    "v_send (wk_vmsl wk) = Some send"
    "send (se_ctxt se) (se_handlers se) c' (ls_status ls) (ls_world ls) = (ret, c', st, w)"
    "\<not> vmsl_stat_error ret" unfolding sends_def by metis
  with l show ?thesis by (simp add: send_one_def Let_def)
qed

text \<open>The steps after the transfer of a message keep the count, the content and the strategy.\<close>

definition same_message :: "'w loop_state \<Rightarrow> 'w loop_state \<Rightarrow> bool" where
  "same_message a b = (ws_count (ls_snap a) = ws_count (ls_snap b) \<and> ls_content a = ls_content b \<and> ls_pl a = ls_pl b)"

lemma same_message_refl [simp]: "same_message ls ls"
  by (simp add: same_message_def)

lemma queue_snapshot_step:
  "queue_open env se \<Longrightarrow> \<exists>ls'. queue_snapshot env se ls = Some ls' \<and> same_message ls' ls"
  by (fastforce simp: queue_open_def queue_snapshot_def same_message_def)

lemma naive_sample_step:
  assumes "queue_open env se" and "writes (w_throughput (wk_writer wk))"
  shows "\<exists>ls'. naive_sample env wk se ls = Some (True, ls') \<and> same_message ls' ls"
proof (cases "sample_due env 10 ls")
  case True
  let ?ls1 = "snap_throughput env ls"
  from assms(2) obtain wfn where wr: "wr_write (w_throughput (wk_writer wk)) = Some wfn"
    "\<And>d st w. fst (wfn d st w)" by (auto simp: writes_def)
  then obtain st w where w: "wfn (ws_throughput (ls_snap ?ls1)) (ls_status ?ls1) (ls_world ?ls1) = (True, st, w)"
    by (metis prod.collapse)
  obtain ls2 where "queue_snapshot env se (mark_sample (?ls1\<lparr>ls_status := st, ls_world := w\<rparr>)) = Some ls2"
    "same_message ls2 (mark_sample (?ls1\<lparr>ls_status := st, ls_world := w\<rparr>))"
    using queue_snapshot_step [OF assms(1)] by blast
  with True wr(1) w show ?thesis
    by (simp add: naive_sample_def Let_def same_message_def mark_sample_def snap_throughput_def)
qed (simp add: naive_sample_def)

lemma quiet_steps [simp]:
  "same_message (rate_sample env ls) ls" "same_message (snap_latency ls) ls"
  "same_message (throttle_wait env wk ls) ls" "same_message (rate_wait env wk ls) ls"
  "ls_content (snap_count ls) = ls_content ls" "ls_pl (snap_count ls) = ls_pl ls"
  "ws_count (ls_snap (snap_count ls)) = ws_count (ls_snap ls) + 1"
  "same_message (snap_now env ls) ls"
  by (simp_all add: same_message_def rate_sample_def mark_sample_def snap_throughput_def snap_latency_def
      throttle_wait_def rate_wait_def snap_count_def snap_now_def Let_def split: prod.splits)

definition sender_able :: "bool \<Rightarrow> 'w wenv \<Rightarrow> 'w worker \<Rightarrow> session \<Rightarrow> 'w loop_state \<Rightarrow> bool" where
  "sender_able naive env wk se ls = (strategy_ready wk (ls_pl ls) (ls_content ls) \<and> sends wk se \<and>
     queue_open env se \<and> (naive \<longrightarrow> writes (w_throughput (wk_writer wk))))"

definition receiver_able :: "bool \<Rightarrow> 'w wenv \<Rightarrow> 'w worker \<Rightarrow> session \<Rightarrow> 'w loop_state \<Rightarrow> bool" where
  "receiver_able naive env wk se ls = (receives wk se \<and> queue_open env se \<and>
     (naive \<longrightarrow> writes (w_throughput (wk_writer wk)) \<and> writes (w_latency (wk_writer wk))))"

lemma naive_sender_step:
  assumes able: "sender_able True env wk se ls"
  shows "\<exists>ls'. naive_sender_iter env wk se ls = Some (True, ls') \<and> sender_able True env wk se ls' \<and>
    ws_count (ls_snap ls') = ws_count (ls_snap ls) + 1"
proof -
  from able obtain ls1 where s: "send_one wk se ls = Some (True, ls1)"
    "strategy_ready wk (ls_pl ls1) (ls_content ls1)" "ls_snap ls1 = ls_snap ls"
    using send_one_step [of wk ls se] by (auto simp: sender_able_def)
  obtain ls2 where n: "naive_sample env wk se (snap_now env (snap_count ls1)) = Some (True, ls2)"
    "same_message ls2 (snap_now env (snap_count ls1))"
    using naive_sample_step able unfolding sender_able_def by blast
  show ?thesis
    using able s n quiet_steps(3) [of env wk ls2] quiet_steps(8) [of env "snap_count ls1"]
    by (simp add: naive_sender_iter_def sender_able_def same_message_def)
qed

interpretation naive_send: counted_iteration naive_sender_iter "sender_able True"
  by unfold_locales (rule naive_sender_step)

lemma rate_sender_step:
  assumes able: "sender_able False env wk se ls"
  shows "\<exists>ls'. rate_sender_iter env wk se ls = Some (True, ls') \<and> sender_able False env wk se ls' \<and>
    ws_count (ls_snap ls') = ws_count (ls_snap ls) + 1"
proof -
  from able obtain ls1 where s: "send_one wk se ls = Some (True, ls1)"
    "strategy_ready wk (ls_pl ls1) (ls_content ls1)" "ls_snap ls1 = ls_snap ls"
    using send_one_step [of wk ls se] by (auto simp: sender_able_def)
  let ?ls = "snap_now env (snap_count ls1)"
  obtain ls2 where n: "queue_snapshot env se (rate_sample env ?ls) = Some ls2"
    "same_message ls2 (rate_sample env ?ls)"
    using queue_snapshot_step able unfolding sender_able_def by blast
  show ?thesis
    using able s n quiet_steps(1) [of env ?ls] quiet_steps(4) [of env wk ls2] quiet_steps(8) [of env "snap_count ls1"]
    by (simp add: rate_sender_iter_def sender_able_def same_message_def)
qed

interpretation rate_send: counted_iteration rate_sender_iter "sender_able False"
  by unfold_locales (rule rate_sender_step)

lemma receive_one_step:
  assumes "receives wk se"
  shows "\<exists>ls'. receive_one env wk se ls = Some (Some True, ls') \<and> ws_count (ls_snap ls') = ws_count (ls_snap ls) + 1"
proof -
  from assms obtain receive ret c st w where
    "v_receive (wk_vmsl wk) = Some receive"
    "receive (se_ctxt se) (se_handlers se) (ls_content ls) (ls_status ls) (ls_world ls) = (ret, c, st, w)"
    "\<not> vmsl_stat_error ret" "ret AND VMSL_NO_DATA = 0" unfolding receives_def by metis
  then show ?thesis
    by (simp add: receive_one_def Let_def snap_count_def snap_now_def split: prod.splits)
qed

lemma rate_receiver_step:
  assumes able: "receiver_able False env wk se ls"
  shows "\<exists>ls'. rate_receiver_iter env wk se ls = Some (True, ls') \<and> receiver_able False env wk se ls' \<and>
    ws_count (ls_snap ls') = ws_count (ls_snap ls) + 1"
proof -
  from able obtain ls1 where s: "receive_one env wk se ls = Some (Some True, ls1)"
    "ws_count (ls_snap ls1) = ws_count (ls_snap ls) + 1"
    using receive_one_step [of wk se env ls] by (auto simp: receiver_able_def)
  let ?ls = "snap_latency ls1"
  obtain ls2 where n: "queue_snapshot env se (rate_sample env ?ls) = Some ls2"
    "same_message ls2 (rate_sample env ?ls)"
    using queue_snapshot_step able unfolding receiver_able_def by blast
  show ?thesis
    using able s n quiet_steps(1) [of env ?ls] quiet_steps(2) [of ls1]
    by (simp add: rate_receiver_iter_def receiver_able_def same_message_def)
qed

interpretation rate_receive: counted_iteration rate_receiver_iter "receiver_able False"
  by unfold_locales (rule rate_receiver_step)

lemma naive_receiver_step:
  assumes able: "receiver_able True env wk se ls"
  shows "\<exists>ls'. naive_receiver_iter env wk se ls = Some (True, ls') \<and> receiver_able True env wk se ls' \<and>
    ws_count (ls_snap ls') = ws_count (ls_snap ls) + 1"
proof -
  from able obtain ls1 where s: "receive_one env wk se ls = Some (Some True, ls1)"
    "ws_count (ls_snap ls1) = ws_count (ls_snap ls) + 1"
    using receive_one_step [of wk se env ls] by (auto simp: receiver_able_def)
  let ?ls = "snap_latency ls1"
  from able obtain wfn where wr: "wr_write (w_latency (wk_writer wk)) = Some wfn" "\<And>d st w. fst (wfn d st w)"
    by (auto simp: receiver_able_def writes_def)
  then obtain st w where w: "wfn (ws_latency (ls_snap ?ls)) (ls_status ?ls) (ls_world ?ls) = (True, st, w)"
    by (metis prod.collapse)
  let ?ls2 = "?ls\<lparr>ls_status := st, ls_world := w\<rparr>"
  obtain ls2 where n: "naive_sample env wk se ?ls2 = Some (True, ls2)" "same_message ls2 ?ls2"
    using naive_sample_step able unfolding receiver_able_def by blast
  show ?thesis
    using able s wr(1) w n quiet_steps(2) [of ls1]
    by (simp add: naive_receiver_iter_def receiver_able_def same_message_def)
qed

interpretation naive_receive: counted_iteration naive_receiver_iter "receiver_able True"
  by unfold_locales (rule naive_receiver_step)


section \<open>Properties\<close>

text \<open>A test that runs for \<open>n\<close> messages and is not interrupted; what a session needs to end.\<close>

definition counted_test :: "'w wenv \<Rightarrow> 'w worker \<Rightarrow> u64 \<Rightarrow> bool" where
  "counted_test env wk n = (wk_can_continue wk = Some (worker_check env) \<and>
     wo_duration (wk_options wk) = Message_Count n \<and> (\<forall>w. \<not> e_interrupted env w))"

definition session_stops :: "'w worker \<Rightarrow> bool" where
  "session_stops wk = (v_stop (wk_vmsl wk) \<noteq> None \<and> v_destroy (wk_vmsl wk) \<noteq> None)"

definition session_ends :: "'w worker \<Rightarrow> bool" where
  "session_ends wk = (session_stops wk \<and>
     wr_finalize (w_latency (wk_writer wk)) \<noteq> None \<and> wr_finalize (w_throughput (wk_writer wk)) \<noteq> None)"

lemma session_stops_close: "session_stops wk \<Longrightarrow> session_close env wk se st w \<noteq> None"
  by (auto simp: session_stops_def session_close_def split: prod.splits)

lemma session_ends_stops: "session_ends wk \<Longrightarrow> session_stops wk"
  by (simp add: session_ends_def)

lemma session_ends_close:
  assumes "session_ends wk"
  shows "session_close env wk se st w \<noteq> None" "finalize_table (w_latency (wk_writer wk)) st w \<noteq> None"
    "finalize_table (w_throughput (wk_writer wk)) st w \<noteq> None"
    "finalize_table (w_latency (wk_writer wk)) st w \<bind>
       (\<lambda>(st1, w1). finalize_table (w_throughput (wk_writer wk)) st1 w1) \<noteq> None"
  using assms by (auto simp: session_ends_def session_stops_def session_close_def finalize_table_def split: prod.splits)

text \<open>Either strategy, once assigned, initialises the content and is ready to load.\<close>

lemma strategy_init_step:
  assumes "wk_strategy wk = pl_strategy_assign rnd ps vs" and "var_ok (wo_message_size (wk_options wk))"
    and "\<And>k. al k = None" and "gru_status_success st"
  shows "\<exists>ini c' pg'. pl_st_init (wk_strategy wk) = Some ini \<and> pl_st_cleanup (wk_strategy wk) \<noteq> None \<and>
    ini al (wo_message_size (wk_options wk)) st c pg = Some (True, st, c', pg') \<and> strategy_ready wk pg' c'"
proof (cases vs)
  case True
  from variable.init_ready [where al = al and rnd = rnd, OF assms(2,4,3), of c pg] True assms(1,2) show ?thesis
    by (auto simp: pl_strategy_assign_def pl_variable_assign_def strategy_ready_def Let_def)
next
  case False
  have "0 < wo_message_size (wk_options wk)" using assms(2) by (simp add: var_ok_def)
  from this fixed.init_ready [where al = al, OF this assms(4,3), of c pg] False assms(1) show ?thesis
    by (auto simp: pl_strategy_assign_def pl_fixed_assign_def strategy_ready_def Let_def)
qed

lemma sender_start_runs:
  assumes "wk_strategy wk = pl_strategy_assign rnd ps vs" and "var_ok (wo_message_size (wk_options wk))"
    and "\<And>k. e_alloc env k = None" and "gru_status_success st'"
    and "session_open env wk MSG_DIRECTION_SENDER st w = Some (Some se, st', w')"
  shows "\<exists>c' pg'. sender_start env iter with_eta fin fuel wk snap st pg w
      = run_loop env (iter env wk se) with_eta fin fuel wk se snap c' st' pg' w' \<and> strategy_ready wk pg' c'"
proof -
  obtain ini c' pg' where "pl_st_init (wk_strategy wk) = Some ini" "pl_st_cleanup (wk_strategy wk) \<noteq> None"
    "ini (e_alloc env) (wo_message_size (wk_options wk)) st' zero_content pg = Some (True, st', c', pg')"
    "strategy_ready wk pg' c'"
    using strategy_init_step [where al = "e_alloc env", OF assms(1-4), of zero_content pg] by blast
  with assms(5) show ?thesis
    by (intro exI [of _ c'] exI [of _ pg']) (auto simp: sender_start_def)
qed

lemma receiver_start_runs:
  assumes "e_alloc env (unat (wo_message_size (wk_options wk))) = None" and "gru_status_success st'"
    and "session_open env wk MSG_DIRECTION_RECEIVER st w = Some (Some se, st', w')"
  shows "\<exists>c'. receiver_start env iter with_eta fin fuel wk snap st pg w
      = run_loop env (iter env wk se) with_eta fin fuel wk se snap c' st' pg w'"
  using assms by (simp add: receiver_start_def init_ok) (rule exI, rule refl)

context counted_iteration
begin

lemma sender_counts:
  assumes "counted_test env wk n" and "unat n < fuel" and "session_stops wk"
    and "wk_strategy wk = pl_strategy_assign rnd ps vs" and "var_ok (wo_message_size (wk_options wk))"
    and "\<And>k. e_alloc env k = None" and "gru_status_success st'"
    and "session_open env wk MSG_DIRECTION_SENDER st w = Some (Some se, st', w')"
    and "\<And>ls. strategy_ready wk (ls_pl ls) (ls_content ls) \<Longrightarrow> able env wk se ls" and "\<And>st w. fin st w \<noteq> None"
  shows "\<exists>snap' st2 pg2 w2. sender_start env iter with_eta fin fuel wk zero_snapshot st pg w
      = Inr (WORKER_SUCCESS, snap', st2, pg2, w2) \<and> ws_count snap' = n"
proof -
  from sender_start_runs [where env = env, OF assms(4-8)] obtain c1 pg1 where
    s: "sender_start env iter with_eta fin fuel wk zero_snapshot st pg w
      = run_loop env (iter env wk se) with_eta fin fuel wk se zero_snapshot c1 st' pg1 w'" "strategy_ready wk pg1 c1"
    by blast
  show ?thesis unfolding s(1) using assms(1,2) s(2) session_stops_close [OF assms(3)]
    by (intro run_counts assms(9,10)) (simp_all add: counted_test_def zero_snapshot_def)
qed

lemma receiver_counts:
  assumes "counted_test env wk n" and "unat n < fuel" and "session_stops wk"
    and "e_alloc env (unat (wo_message_size (wk_options wk))) = None" and "gru_status_success st'"
    and "session_open env wk MSG_DIRECTION_RECEIVER st w = Some (Some se, st', w')"
    and "\<And>ls. able env wk se ls" and "\<And>st w. fin st w \<noteq> None"
  shows "\<exists>snap' st2 pg2 w2. receiver_start env iter with_eta fin fuel wk zero_snapshot st pg w
      = Inr (WORKER_SUCCESS, snap', st2, pg2, w2) \<and> ws_count snap' = n"
proof -
  from receiver_start_runs [OF assms(4-6)] obtain c1 where
    s: "receiver_start env iter with_eta fin fuel wk zero_snapshot st pg w
      = run_loop env (iter env wk se) with_eta fin fuel wk se zero_snapshot c1 st' pg w'" by blast
  show ?thesis unfolding s using assms(1,2) session_stops_close [OF assms(3)]
    by (intro run_counts assms(7,8)) (simp_all add: counted_test_def zero_snapshot_def)
qed

end

subsection \<open>A concrete worker\<close>

text \<open>A messaging layer whose sends return \<open>ret\<close>, and a test of three messages of 256 bytes.\<close>

definition sample_ipc :: "('m, 'w) ipc_api" where
  "sample_ipc = \<lparr>ipc_ftok = (\<lambda>p. p), ipc_msgget = (\<lambda>k w. (0, w)), ipc_msgsnd = (\<lambda>q n m w. (True, w)),
     ipc_msgrcv = (\<lambda>q n w. (Empty_Queue, w)), ipc_asprintf = True, ipc_mq_open = (\<lambda>n s w. (Some 0, w)),
     ipc_mq_send = (\<lambda>q n m w. (True, w)), ipc_mq_receive = (\<lambda>q n w. (Empty_Queue, w)),
     ipc_mq_close = (\<lambda>q w. w), ipc_strerror = [], ipc_use_posix = False\<rparr>"

definition sample_wenv :: "'w wenv" where
  "sample_wenv = \<lparr>e_now = (\<lambda>w. (zero_ts, w)), e_elapsed_secs = (\<lambda>a b. 0), e_elapsed_milli = (\<lambda>a b. 0),
     e_add_micros = (\<lambda>t n. t), e_usleep = (\<lambda>n w. w), e_interrupted = (\<lambda>w. False), e_alloc = (\<lambda>n. None),
     e_list_new = (\<lambda>n. True), e_uuid = ''id'', e_getpid = 7, e_asprintf = True, e_fdiv = (\<lambda>a b. a),
     e_ipc = sample_ipc\<rparr>"

definition sample_transport :: "vmsl_stat \<Rightarrow> 'w vmsl" where
  "sample_transport ret = \<lparr>v_init = Some (\<lambda>opt h st w. (Some \<lparr>msg_opts = opt\<rparr>, h, st, w)),
     v_start = Some (\<lambda>c h st w. (VMSL_SUCCESS, st, w)),
     v_send = Some (\<lambda>c h m st w. (ret, m, st, w)), v_subscribe = Some (\<lambda>c t st w. (VMSL_SUCCESS, st, w)),
     v_receive = Some (\<lambda>c h m st w. (ret, m, st, w)), v_stop = Some (\<lambda>c st w. (st, w)),
     v_destroy = Some (\<lambda>c st w. (st, w)), v_info = Some (''sample'', ''1'')\<rparr>"

definition sample_options :: worker_options where
  "sample_options = \<lparr>wo_uri = \<lparr>uri_scheme = Some ''mqtt'', uri_host = Some ''localhost'', uri_path = ''/q'', uri_query = None\<rparr>,
     wo_duration = Message_Count 3, wo_condition_type = MPT_COND_NONE, wo_condition = 0, wo_log_level = 0,
     wo_parallel_count = 1, wo_message_size = 256, wo_variable_size = False, wo_throttle = 0, wo_rate = 100\<rparr>"

definition sample_worker :: "vmsl_stat \<Rightarrow> unit worker" where
  "sample_worker ret = \<lparr>wk_name = ''sender'', wk_log_dir = ''/l'', wk_vmsl = sample_transport ret, wk_options = sample_options,
     wk_writer = sample_writer, wk_report_format = FORMAT_CSV, wk_naming_options = NM_LATENCY,
     wk_can_continue = Some (worker_check sample_wenv), wk_flags = WRK_SENDER,
     wk_strategy = pl_strategy_assign (\<lambda>k. 0) \<lparr>pl_st_init = None, pl_st_load = None, pl_st_cleanup = None\<rparr> False\<rparr>"

definition sample_session :: "msg_direction \<Rightarrow> session" where
  "sample_session dir = \<lparr>se_ctxt = \<lparr>msg_opts = worker_msg_opt_setup (sample_wenv :: unit wenv) dir sample_options\<rparr>,
     se_handlers = vmslh_new (\<lambda>n. True), se_queue = Some (MPT_Q_SYSV (Some \<lparr>vq_queue = 0\<rparr>))\<rparr>"

lemma sample_worker_facts:
  "counted_test sample_wenv (sample_worker ret) 3" "session_ends (sample_worker ret)"
  "wk_strategy (sample_worker ret)
    = pl_strategy_assign (\<lambda>k. 0) \<lparr>pl_st_init = None, pl_st_load = None, pl_st_cleanup = None\<rparr> False"
  "var_ok (wo_message_size (wk_options (sample_worker ret)))"
  "\<And>k. e_alloc sample_wenv k = None"
  "session_open sample_wenv (sample_worker ret) dir St_New () = Some (Some (sample_session dir), St_New, ())"
  "queue_open sample_wenv (sample_session dir)"
  "writes (w_throughput (wk_writer (sample_worker ret)))" "writes (w_latency (wk_writer (sample_worker ret)))"
  "sends (sample_worker VMSL_SUCCESS) (sample_session dir)"
  "receives (sample_worker VMSL_SUCCESS) (sample_session dir)"
  by (simp_all add: counted_test_def session_ends_def session_stops_def var_ok_def queue_open_def writes_def sends_def receives_def
      session_open_def session_subscribe_def worker_create_queue_def worker_name_def worker_queue_new_def
      worker_queue_new_opt_def worker_vqueue_new_def create_queue_def queue_defs sample_session_def sample_worker_def
      sample_options_def sample_transport_def sample_wenv_def sample_ipc_def sample_writer_def sample_table_def
      vmsl_stat_defs)

text \<open>
  Property C19, sender_runs_to_count. With a session that opens, an assigned payload
  strategy, memory, a messaging layer whose sends succeed and writers that work, a
  test of \<open>n\<close> messages that is not interrupted ends: the naive and the rate sender
  both return success after exactly \<open>n\<close> messages (fuel for \<open>n + 1\<close> checks of the
  loop condition is enough).
\<close>

theorem sender_runs_to_count:
  assumes "counted_test env wk n" and "unat n < fuel" and "session_ends wk"
    and "wk_strategy wk = pl_strategy_assign rnd ps vs" and "var_ok (wo_message_size (wk_options wk))"
    and "\<And>k. e_alloc env k = None" and "gru_status_success st'"
    and "session_open env wk MSG_DIRECTION_SENDER st w = Some (Some se, st', w')"
    and "sends wk se" and "queue_open env se" and "writes (w_throughput (wk_writer wk))"
  shows "(\<exists>snap' st2 pg2 w2. naive_sender_start env fuel wk zero_snapshot st pg w
        = Inr (WORKER_SUCCESS, snap', st2, pg2, w2) \<and> ws_count snap' = n) \<and>
    (\<exists>snap' st2 pg2 w2. rate_sender_start env fuel wk zero_snapshot st pg w
        = Inr (WORKER_SUCCESS, snap', st2, pg2, w2) \<and> ws_count snap' = n)"
  unfolding naive_sender_start_def rate_sender_start_def
  using assms(9-11) session_ends_close(3) [OF assms(3)]
  by (intro conjI naive_send.sender_counts [where env = env, OF assms(1,2) session_ends_stops [OF assms(3)] assms(4-8)]
      rate_send.sender_counts [where env = env, OF assms(1,2) session_ends_stops [OF assms(3)] assms(4-8)]) (simp_all add: sender_able_def)

theorem sender_runs_to_count_witness:
  "(\<exists>snap' st2 pg2 w2. naive_sender_start sample_wenv 4 (sample_worker VMSL_SUCCESS) zero_snapshot St_New sample_pl_state ()
      = Inr (WORKER_SUCCESS, snap', st2, pg2, w2) \<and> ws_count snap' = 3) \<and>
   (\<exists>snap' st2 pg2 w2. rate_sender_start sample_wenv 4 (sample_worker VMSL_SUCCESS) zero_snapshot St_New sample_pl_state ()
      = Inr (WORKER_SUCCESS, snap', st2, pg2, w2) \<and> ws_count snap' = 3)"
  by (rule sender_runs_to_count [OF sample_worker_facts(1) _ sample_worker_facts(2-5) _ sample_worker_facts(6,10,7,8)])
    simp_all

text \<open>
  Property C20, receiver_runs_to_count. The same for the receivers: when every receive
  delivers a message, a test of \<open>n\<close> messages ends with success and the count \<open>n\<close>.
\<close>

theorem receiver_runs_to_count:
  assumes "counted_test env wk n" and "unat n < fuel" and "session_ends wk"
    and "e_alloc env (unat (wo_message_size (wk_options wk))) = None" and "gru_status_success st'"
    and "session_open env wk MSG_DIRECTION_RECEIVER st w = Some (Some se, st', w')"
    and "receives wk se" and "queue_open env se"
    and "writes (w_throughput (wk_writer wk))" and "writes (w_latency (wk_writer wk))"
  shows "(\<exists>snap' st2 pg2 w2. naive_receiver_start env fuel wk zero_snapshot st pg w
        = Inr (WORKER_SUCCESS, snap', st2, pg2, w2) \<and> ws_count snap' = n) \<and>
    (\<exists>snap' st2 pg2 w2. rate_receiver_start env fuel wk zero_snapshot st pg w
        = Inr (WORKER_SUCCESS, snap', st2, pg2, w2) \<and> ws_count snap' = n)"
  unfolding naive_receiver_start_def rate_receiver_start_def
  using assms(7-10) session_ends_close(4) [OF assms(3)]
  by (intro conjI naive_receive.receiver_counts [OF assms(1,2) session_ends_stops [OF assms(3)] assms(4-6)]
      rate_receive.receiver_counts [OF assms(1,2) session_ends_stops [OF assms(3)] assms(4-6)])
    (simp_all add: receiver_able_def)

theorem receiver_runs_to_count_witness:
  "(\<exists>snap' st2 pg2 w2. naive_receiver_start sample_wenv 4 (sample_worker VMSL_SUCCESS) zero_snapshot St_New sample_pl_state ()
      = Inr (WORKER_SUCCESS, snap', st2, pg2, w2) \<and> ws_count snap' = 3) \<and>
   (\<exists>snap' st2 pg2 w2. rate_receiver_start sample_wenv 4 (sample_worker VMSL_SUCCESS) zero_snapshot St_New sample_pl_state ()
      = Inr (WORKER_SUCCESS, snap', st2, pg2, w2) \<and> ws_count snap' = 3)"
  by (rule receiver_runs_to_count [OF sample_worker_facts(1) _ sample_worker_facts(2) sample_worker_facts(5) _
        sample_worker_facts(6,11,7-9)]) simp_all

text \<open>
  Also proved, sender_hides_error. When the first send fails, the sender leaves its loop,
  resets the status and, once the session is closed, reports success to its caller
  with no message counted.
\<close>

theorem sender_hides_error:
  assumes "counted_test env wk n" and "0 < n" and "session_ends wk"
    and "wk_strategy wk = pl_strategy_assign rnd ps vs" and "var_ok (wo_message_size (wk_options wk))"
    and "\<And>k. e_alloc env k = None" and "gru_status_success st'"
    and "session_open env wk MSG_DIRECTION_SENDER st w = Some (Some se, st', w')"
    and "v_send (wk_vmsl wk) = Some send" and "\<And>c st w. vmsl_stat_error (fst (send (se_ctxt se) (se_handlers se) c st w))"
  shows "\<exists>snap' st2 pg2 w2. rate_sender_start env (Suc fuel) wk zero_snapshot st pg w
        = Inr (WORKER_SUCCESS, snap', st2, pg2, w2) \<and> ws_count snap' = 0"
proof -
  from sender_start_runs [where env = env, OF assms(4-8)] obtain c pg1 where
    s: "rate_sender_start env (Suc fuel) wk zero_snapshot st pg w = run_loop env (rate_sender_iter env wk se) True
      (\<lambda>st w. Some (st, w)) (Suc fuel) wk se zero_snapshot c st' pg1 w'" "strategy_ready wk pg1 c"
    unfolding rate_sender_start_def by blast
  obtain now w1 where now: "e_now env w' = (now, w1)" by fastforce
  let ?ls = "\<lparr>ls_snap = start_snapshot True now zero_snapshot, ls_last_count = 0, ls_last_ts = now, ls_round = 0,
         ls_content = c, ls_pl = pg1, ls_status = st', ls_world = w1\<rparr>"
  obtain ld r c' pg' where l: "pl_st_load (wk_strategy wk) = Some ld" "ld c pg1 = Some (r, c', pg')"
    using load_step [OF s(2)] by blast
  obtain ret c2 st2 w2 where "send (se_ctxt se) (se_handlers se) c' st' w1 = (ret, c2, st2, w2)" "vmsl_stat_error ret"
    using assms(10) by (metis prod.collapse)
  with l assms(9) have "rate_sender_iter env wk se ?ls
      = Some (False, ?ls\<lparr>ls_content := c2, ls_pl := pg', ls_status := St_New, ls_world := w2\<rparr>)"
    by (simp add: rate_sender_iter_def send_one_def Let_def)
  moreover obtain st3 w3 where "session_close env wk se St_New w2 = Some (st3, w3)"
    using session_ends_close(1) [OF assms(3)] by (metis not_None_eq surj_pair)
  ultimately show ?thesis using now assms(1,2) unfolding s(1)
    by (simp add: run_loop_def end_session_def counted_test_def worker_check_def start_snapshot_def zero_snapshot_def
        final_throughput_def Let_def)
qed

theorem sender_hides_error_witness:
  "\<exists>snap' st2 pg2 w2. rate_sender_start sample_wenv (Suc 0) (sample_worker VMSL_ERROR) zero_snapshot St_New sample_pl_state ()
      = Inr (WORKER_SUCCESS, snap', st2, pg2, w2) \<and> ws_count snap' = 0"
  by (rule sender_hides_error [where send = "\<lambda>c h m st w. (VMSL_ERROR, m, st, w)", OF sample_worker_facts(1) _ sample_worker_facts(2-5) _ sample_worker_facts(6)])
    (simp_all add: sample_worker_def sample_transport_def vmsl_stat_defs)

end
