(* ===== verification/Process.thy ===== *)
theory Process
  imports Worker
begin

text \<open>
  Processes: \<open>src/common/process_utils.c\<close> (log files of a process, the controller
  process) and \<open>src/worker/worker_data_dump.c\<close> (the test properties written before a
  test). The system calls are the parameter \<open>os_api\<close>; \<open>create_queue\<close> of the same
  file is in the theory of the queues.
\<close>

section \<open>System calls\<close>

text \<open>
  \<open>os_kill pid sig\<close> tells whether \<open>kill\<close> returned 0. \<open>os_waitpid\<close> is \<open>waitpid\<close> with
  \<open>WNOHANG\<close>: its result and the status word, 0 when nothing is reported. \<open>os_io_remap\<close> is
  \<open>gru_io_remap\<close>, \<open>os_relink path target\<close> the \<open>unlink\<close> and \<open>symlink\<close> of a link, \<open>os_detach\<close> the
  \<open>setsid\<close> and the redirection of the standard streams, \<open>os_list_append n\<close> whether
  \<open>gru_list_append\<close> to a list of \<open>n\<close> nodes succeeds.
\<close>

record 'w os_api =
  os_fork :: "'w \<Rightarrow> int \<times> 'w"
  os_kill :: "int \<Rightarrow> int \<Rightarrow> 'w \<Rightarrow> bool \<times> 'w"
  os_waitpid :: "int \<Rightarrow> 'w \<Rightarrow> int \<times> u32 \<times> 'w"
  os_getpid :: "'w \<Rightarrow> int"
  os_getppid :: "'w \<Rightarrow> int"
  os_asprintf :: bool
  os_io_remap :: "string \<Rightarrow> string \<Rightarrow> gru_status \<Rightarrow> 'w \<Rightarrow> bool \<times> gru_status \<times> 'w"
  os_relink :: "string \<Rightarrow> string \<Rightarrow> 'w \<Rightarrow> 'w"
  os_detach :: "'w \<Rightarrow> 'w"
  os_install_handler :: "'w \<Rightarrow> 'w"
  os_list_append :: "nat \<Rightarrow> bool"

definition SIGINT :: int where "SIGINT = 2"
definition SIGKILL :: int where "SIGKILL = 9"
definition SIGTERM :: int where "SIGTERM = 15"

lemmas signal_defs = SIGINT_def SIGKILL_def SIGTERM_def

section \<open>Signals\<close>

text \<open>
  What the kernel keeps for a process of the signals the program uses, with the flag of
  \<open>process_utils.c\<close>: the signals for which \<open>interrupt_handler\<close> is the action. The default
  action of SIGINT and SIGTERM ends the process, and SIGKILL cannot be caught.
\<close>

record process_signals =
  sg_interrupted :: bool
  sg_handled :: "int list"

definition interrupt_handler :: "int \<Rightarrow> process_signals \<Rightarrow> process_signals" where
  "interrupt_handler signum p = p\<lparr>sg_interrupted := True\<rparr>"

definition sigaction_handler :: "int \<Rightarrow> process_signals \<Rightarrow> process_signals" where
  "sigaction_handler signum p = (if signum = SIGKILL then p else p\<lparr>sg_handled := signum # sg_handled p\<rparr>)"

definition install_interrupt_handler :: "process_signals \<Rightarrow> process_signals" where
  "install_interrupt_handler p = sigaction_handler SIGTERM (sigaction_handler SIGINT p)"

definition is_interrupted :: "process_signals \<Rightarrow> bool" where
  "is_interrupted p = sg_interrupted p"

text \<open>\<open>None\<close>: the signal ends the process.\<close>

definition deliver_signal :: "int \<Rightarrow> process_signals \<Rightarrow> process_signals option" where
  "deliver_signal signum p = (if signum \<in> set (sg_handled p) then Some (interrupt_handler signum p) else None)"

lemmas signal_step_defs = interrupt_handler_def sigaction_handler_def install_interrupt_handler_def is_interrupted_def
  deliver_signal_def signal_defs

section \<open>The status of a child\<close>

text \<open>The macros that read the status word of a child.\<close>

definition WTERMSIG :: "u32 \<Rightarrow> int" where
  "WTERMSIG s = uint (s AND 0x7F)"

definition WIFEXITED :: "u32 \<Rightarrow> bool" where
  "WIFEXITED s = (WTERMSIG s = 0)"

definition WIFSIGNALED :: "u32 \<Rightarrow> bool" where
  "WIFSIGNALED s = (WTERMSIG s \<noteq> 0 \<and> WTERMSIG s \<noteq> 0x7F)"

definition WIFSTOPPED :: "u32 \<Rightarrow> bool" where
  "WIFSTOPPED s = (s AND 0xFF = 0x7F)"

definition WSTOPSIG :: "u32 \<Rightarrow> int" where
  "WSTOPSIG s = uint (drop_bit 8 s AND 0xFF)"

lemmas wait_defs = WTERMSIG_def WIFEXITED_def WIFSIGNALED_def WIFSTOPPED_def WSTOPSIG_def

section \<open>Log files and the controller\<close>

definition remap_get_name :: "'w os_api \<Rightarrow> string \<Rightarrow> int \<Rightarrow> int \<Rightarrow> string option" where
  "remap_get_name os base parent pid =
    (if \<not> os_asprintf os then None
     else if parent = 0 then Some (base @ ''-'' @ int_dec pid @ ''.log'')
     else Some (base @ ''-'' @ int_dec parent @ ''-'' @ int_dec pid @ ''.log''))"

definition remap_log :: "'w os_api \<Rightarrow> string \<Rightarrow> string \<Rightarrow> int \<Rightarrow> int \<Rightarrow> gru_status \<Rightarrow> 'w \<Rightarrow> bool \<times> gru_status \<times> 'w" where
  "remap_log os dir base parent pid st w =
    (case remap_get_name os base parent pid of
       None \<Rightarrow> (False, St_Set GRU_FAILURE ''Not enough memory to format the name'', w)
     | Some name \<Rightarrow> os_io_remap os dir name st w)"

definition remap_log_with_link :: "'w os_api \<Rightarrow> string \<Rightarrow> string \<Rightarrow> int \<Rightarrow> int \<Rightarrow> gru_status \<Rightarrow> 'w \<Rightarrow>
    bool \<times> gru_status \<times> 'w" where
  "remap_log_with_link os dir base parent pid st w =
    (case remap_get_name os base parent pid of
       None \<Rightarrow> (False, St_Set GRU_FAILURE ''Not enough memory to format the name'', w)
     | Some name \<Rightarrow>
        (case os_io_remap os dir name st w of (ok, st1, w1) \<Rightarrow>
           if ok then (True, st1, os_relink os
             (take (PATH_MAX - 2) (dir @ ''/'' @ base @ ''-current.log'')) (take (PATH_MAX - 2) (dir @ ''/'' @ name)) w1)
           else (False, st1, w1)))"

text \<open>The status is a local variable of the child.\<close>

definition init_controller :: "'w os_api \<Rightarrow> string \<Rightarrow> string \<Rightarrow> 'w \<Rightarrow> int \<times> 'w" where
  "init_controller os dir name w =
    (case os_fork os w of (controller, w1) \<Rightarrow>
       if controller = 0 then
         let w2 = os_detach os w1 in
         (case remap_log_with_link os dir name 0 (os_getpid os w2) St_New w2 of (ok, st, w3) \<Rightarrow>
           if \<not> ok then (- 1, w3) else (0, w3))
       else if 0 < controller then (controller, w1)
       else (- 1, w1))"

section \<open>The test properties\<close>

datatype config_value = Cfg_String string | Cfg_Ulong u64 | Cfg_Short u16 | Cfg_Uint u32 | Cfg_Long int

type_synonym config = "(string \<times> config_value) list"

definition dump_duration :: "(gru_duration \<Rightarrow> u64) \<Rightarrow> test_duration \<Rightarrow> config" where
  "dump_duration secs d =
    (case d of
       Message_Count n \<Rightarrow> [(''durationType'', Cfg_String ''count''), (''duration'', Cfg_Ulong n)]
     | Test_Time t \<Rightarrow> [(''durationType'', Cfg_String ''time''), (''duration'', Cfg_Ulong (secs t))])"

text \<open>The loop over the query stops at the first pair with the key \<open>protocol\<close>.\<close>

definition dump_protocol_query :: "(gru_variant \<Rightarrow> string) \<Rightarrow> gru_keypair list \<Rightarrow> config" where
  "dump_protocol_query str kps =
    (case find (\<lambda>kp. kp_key kp = ''protocol'') kps of
       None \<Rightarrow> []
     | Some kp \<Rightarrow> [(''protocol'', Cfg_String (str (kp_pair kp)))])"

text \<open>\<open>strcmp (scheme, "tcp")\<close> is true when the scheme is \<^emph>\<open>not\<close> tcp; on a null scheme it is undefined.
  \<open>format\<close> is \<open>gru_uri_simple_format\<close>, \<open>secs\<close> is \<open>gru_duration_seconds\<close>, \<open>str\<close> reads the
  string of a variant.\<close>

definition dump_protocol :: "(gru_variant \<Rightarrow> string) \<Rightarrow> gru_uri \<Rightarrow> (string \<times> string) option \<Rightarrow> config undef" where
  "dump_protocol str uri info = do {
     scheme \<leftarrow> uri_scheme uri;
     if scheme \<noteq> ''tcp'' then
       (case uri_query uri of
          None \<Rightarrow> Some []
        | Some kps \<Rightarrow> Some (dump_protocol_query str kps @
            [(''apiName'', Cfg_String ''JMS''), (''apiVersion'', Cfg_String ''1.1 (best guess)'')]))
     else Some ((''protocol'', Cfg_String scheme) #
       (case info of None \<Rightarrow> []
        | Some (name, version) \<Rightarrow> [(''apiName'', Cfg_String name), (''apiVersion'', Cfg_String version)]))
   }"

definition worker_dump_data :: "(gru_uri \<Rightarrow> string) \<Rightarrow> (gru_duration \<Rightarrow> u64) \<Rightarrow> (gru_variant \<Rightarrow> string) \<Rightarrow>
    worker_options \<Rightarrow> (string \<times> string) option \<Rightarrow> config undef" where
  "worker_dump_data format secs str opts info = do {
     protocol \<leftarrow> dump_protocol str (wo_uri opts) info;
     Some ((''brokerUri'', Cfg_String (format (wo_uri opts))) # dump_duration secs (wo_duration opts) @
       [(''parallelCount'', Cfg_Short (wo_parallel_count opts)), (''messageSize'', Cfg_Ulong (wo_message_size opts)),
        (''variableSize'', Cfg_Short (if wo_variable_size opts then 1 else 0)), (''rate'', Cfg_Uint (wo_rate opts))] @
       (if wo_condition_type opts = MPT_COND_LATENCY then [(''fcl'', Cfg_Long (condition_latency opts))] else []) @
       protocol)
   }"

text \<open>
  The configuration object, the payload and the file belong to the gru library:
  \<open>cfg_new\<close>, \<open>cfg_payload\<close> and \<open>cfg_dump\<close> are \<open>gru_config_new\<close>, \<open>gru_payload_init\<close> and
  \<open>gru_config_init_for_dump\<close>, which writes to the named file what the callback produces.
\<close>

record 'w config_api =
  cfg_new :: "string \<Rightarrow> string \<Rightarrow> gru_status \<Rightarrow> bool \<times> gru_status"
  cfg_payload :: "gru_status \<Rightarrow> bool \<times> gru_status"
  cfg_dump :: "string \<Rightarrow> string \<Rightarrow> config \<Rightarrow> gru_status \<Rightarrow> 'w \<Rightarrow> bool \<times> gru_status \<times> 'w"
  cfg_format :: "gru_uri \<Rightarrow> string"
  cfg_seconds :: "gru_duration \<Rightarrow> u64"
  cfg_string :: "gru_variant \<Rightarrow> string"

definition worker_dump :: "'w config_api \<Rightarrow> string \<Rightarrow> worker_options \<Rightarrow> (string \<times> string) option \<Rightarrow> gru_status \<Rightarrow> 'w \<Rightarrow>
    (bool \<times> gru_status \<times> 'w) undef" where
  "worker_dump cfg dir opts info st w =
    (case cfg_new cfg dir ''test.properties'' st of (made, st1) \<Rightarrow>
       if \<not> made then Some (False, st1, w)
       else case cfg_payload cfg st1 of (ok, st2) \<Rightarrow>
         if \<not> ok then Some (False, st2, w)
         else do {
           entries \<leftarrow> worker_dump_data (cfg_format cfg) (cfg_seconds cfg) (cfg_string cfg) opts info;
           Some (cfg_dump cfg dir ''test.properties'' entries st2 w)
         })"

section \<open>Properties\<close>

text \<open>
  Also proved, dump_protocol_swapped. The two cases of the protocol record are swapped:
  for the scheme tcp, where the comment expects the protocol in the URL, the scheme
  itself is recorded as the protocol; for any other scheme with no query in the URL
  neither the protocol nor the API is recorded at all.
\<close>

theorem dump_protocol_swapped:
  "(\<exists>es. worker_dump_data format secs str (opts\<lparr>wo_uri := uri\<lparr>uri_scheme := Some ''tcp''\<rparr>\<rparr>) info = Some es \<and>
      map_of es ''protocol'' = Some (Cfg_String ''tcp'')) \<and>
   (scheme = ''tcp'' \<or>
    (\<exists>es. worker_dump_data format secs str (opts\<lparr>wo_uri := uri\<lparr>uri_scheme := Some scheme, uri_query := None\<rparr>\<rparr>) info = Some es \<and>
      map_of es ''protocol'' = None \<and> map_of es ''apiName'' = None))"
  by (auto simp: worker_dump_data_def dump_protocol_def dump_duration_def split: option.splits test_duration.splits)

end
