(* ===== verification/Timed_Tests.thy ===== *)
theory Timed_Tests
  imports Worker_Loops Process
begin

text \<open>
  How a test ends that is not limited by a number of messages: by its time, or by a
  signal. The loop ends at the first check that fails; the locale \<open>timed_iteration\<close> says of
  the iterations that each of them reads the clock, and is interpreted on the four loops.
  A receiver whose messages carry no time is the exception: it does not read the clock.
\<close>

section \<open>Any number of iterations\<close>

fun loop_steps :: "('w loop_state \<Rightarrow> (bool \<times> 'w loop_state) undef) \<Rightarrow> nat \<Rightarrow> 'w loop_state \<Rightarrow> 'w loop_state option" where
  "loop_steps iter 0 ls = Some ls"
| "loop_steps iter (Suc k) ls = (case iter ls of Some (True, ls') \<Rightarrow> loop_steps iter k ls' | _ \<Rightarrow> None)"

text \<open>A loop whose check fails after \<open>k\<close> iterations has ended by then, at the first check that fails.\<close>

lemma loop_stops_at:
  assumes "wk_can_continue wk = Some check" and "loop_steps iter k ls = Some lsk" and "\<not> check (wk_options wk) (ls_snap lsk) (ls_world lsk)"
    and "k < fuel"
  shows "\<exists>j ls'. j \<le> k \<and> loop_steps iter j ls = Some ls' \<and> \<not> check (wk_options wk) (ls_snap ls') (ls_world ls') \<and>
    worker_loop wk iter fuel ls = Inr ls'"
  using assms(2,4)
proof (induction k arbitrary: ls fuel)
  case 0
  then have "worker_loop wk iter fuel ls = Inr ls" using assms(1,3) by (cases fuel) auto
  with 0 assms(3) show ?case by auto
next
  case (Suc k)
  obtain f where f: "fuel = Suc f" "k < f" using Suc.prems(2) by (cases fuel) auto
  show ?case
  proof (cases "check (wk_options wk) (ls_snap ls) (ls_world ls)")
    case True
    from Suc.prems(1) obtain ls1 where i: "iter ls = Some (True, ls1)" "loop_steps iter k ls1 = Some lsk"
      by (auto split: option.splits bool.splits)
    from Suc.IH [OF i(2) f(2)] obtain j ls' where "j \<le> k" "loop_steps iter j ls1 = Some ls'"
      "\<not> check (wk_options wk) (ls_snap ls') (ls_world ls')" "worker_loop wk iter f ls1 = Inr ls'" by blast
    with i(1) f(1) True assms(1) show ?thesis by (intro exI [of _ "Suc j"] exI [of _ ls']) simp
  next
    case False
    with f(1) assms(1) show ?thesis by (intro exI [of _ 0] exI [of _ ls]) simp
  qed
qed

section \<open>Time\<close>

text \<open>
  \<open>tick w\<close> is the number of readings of the clock up to the world \<open>w\<close>: each reading counts, and
  nothing else the loops call uncounts one. The first \<open>N\<close> readings may return any times, the
  same time again and again among them; those after are past the second \<open>e\<close>.
\<close>

definition clock_reads :: "('w \<Rightarrow> nat) \<Rightarrow> nat \<Rightarrow> int \<Rightarrow> 'w wenv \<Rightarrow> bool" where
  "clock_reads tick N e env = (\<forall>w. tick w < tick (snd (e_now env w)) \<and> (N \<le> tick w \<longrightarrow> e < tv_sec (fst (e_now env w))))"

definition time_goes_on :: "('w \<Rightarrow> nat) \<Rightarrow> nat \<Rightarrow> int \<Rightarrow> 'w wenv \<Rightarrow> 'w worker \<Rightarrow> session \<Rightarrow> bool" where
  "time_goes_on tick N e env wk se = (clock_reads tick N e env \<and> (\<forall>n w. tick w \<le> tick (e_usleep env n w)) \<and>
     (\<forall>s n w r w'. worker_queue_write (e_ipc env) (se_queue se) s n w = Some (r, w') \<longrightarrow> tick w \<le> tick w') \<and>
     (\<forall>f c st w r c' st' w'. v_send (wk_vmsl wk) = Some f \<longrightarrow> f (se_ctxt se) (se_handlers se) c st w = (r, c', st', w') \<longrightarrow> tick w \<le> tick w') \<and>
     (\<forall>f c st w r c' st' w'. v_receive (wk_vmsl wk) = Some f \<longrightarrow> f (se_ctxt se) (se_handlers se) c st w = (r, c', st', w') \<longrightarrow> tick w \<le> tick w') \<and>
     (\<forall>f d st w r st' w'. wr_write (w_throughput (wk_writer wk)) = Some f \<longrightarrow> f d st w = (r, st', w') \<longrightarrow> tick w \<le> tick w') \<and>
     (\<forall>f d st w r st' w'. wr_write (w_latency (wk_writer wk)) = Some f \<longrightarrow> f d st w = (r, st', w') \<longrightarrow> tick w \<le> tick w'))"

text \<open>An iteration that read the clock; its last reading is the time of the snapshot.\<close>

definition read_clock :: "('w \<Rightarrow> nat) \<Rightarrow> nat \<Rightarrow> int \<Rightarrow> 'w loop_state \<Rightarrow> 'w loop_state \<Rightarrow> bool" where
  "read_clock tick N e ls ls' = (tick (ls_world ls) < tick (ls_world ls') \<and>
     (N \<le> tick (ls_world ls) \<longrightarrow> e < tv_sec (ws_now (ls_snap ls'))))"

text \<open>A step that uncounts no reading and does not change the time of the snapshot.\<close>

definition later :: "('w \<Rightarrow> nat) \<Rightarrow> 'w loop_state \<Rightarrow> 'w loop_state \<Rightarrow> bool" where
  "later tick ls ls' = (tick (ls_world ls) \<le> tick (ls_world ls') \<and> ws_now (ls_snap ls') = ws_now (ls_snap ls))"

lemma later_trans: "later tick a b \<Longrightarrow> later tick b c \<Longrightarrow> later tick a c"
  by (simp add: later_def)

lemma read_clock_later: "read_clock tick N e a b \<Longrightarrow> later tick b c \<Longrightarrow> read_clock tick N e a c"
  by (simp add: read_clock_def later_def)

lemma later_read_clock: "later tick a b \<Longrightarrow> read_clock tick N e b c \<Longrightarrow> read_clock tick N e a c"
  by (auto simp: read_clock_def later_def)

lemma snap_now_reads: "clock_reads tick N e env \<Longrightarrow> read_clock tick N e ls (snap_now env ls)"
  by (auto simp: clock_reads_def read_clock_def snap_now_def case_prod_unfold)

lemma time_goes_onD:
  assumes "time_goes_on tick N e env wk se"
  shows "clock_reads tick N e env" "tick w \<le> tick (e_usleep env n w)"
    "worker_queue_write (e_ipc env) (se_queue se) s n' w = Some (r, w') \<Longrightarrow> tick w \<le> tick w'"
    "v_send (wk_vmsl wk) = Some f \<Longrightarrow> f (se_ctxt se) (se_handlers se) c st w = (r', c', st', w') \<Longrightarrow> tick w \<le> tick w'"
    "v_receive (wk_vmsl wk) = Some f \<Longrightarrow> f (se_ctxt se) (se_handlers se) c st w = (r', c', st', w') \<Longrightarrow> tick w \<le> tick w'"
    "wr_write (w_throughput (wk_writer wk)) = Some g \<Longrightarrow> g d st w = (b, st', w') \<Longrightarrow> tick w \<le> tick w'"
    "wr_write (w_latency (wk_writer wk)) = Some h \<Longrightarrow> h d' st w = (b, st', w') \<Longrightarrow> tick w \<le> tick w'"
  using assms by (auto simp: time_goes_on_def)

lemma snap_count_later: "later tick ls (snap_count ls)"
  by (simp add: later_def snap_count_def)

lemma snap_latency_later: "later tick ls (snap_latency ls)"
  by (simp add: later_def snap_latency_def Let_def)

lemma rate_sample_later: "later tick ls (rate_sample env ls)"
  by (simp add: later_def rate_sample_def mark_sample_def snap_throughput_def Let_def)

lemma waits_later:
  assumes "time_goes_on tick N e env wk se"
  shows "later tick ls (throttle_wait env wk ls)" "later tick ls (rate_wait env wk ls)"
  using assms by (simp_all add: later_def throttle_wait_def rate_wait_def time_goes_on_def Let_def)

lemma queue_later:
  "time_goes_on tick N e env wk se \<Longrightarrow> queue_snapshot env se ls = Some ls' \<Longrightarrow> later tick ls ls'"
  by (auto simp: later_def queue_snapshot_def time_goes_on_def)

lemma send_one_later:
  assumes "time_goes_on tick N e env wk se" and "send_one wk se ls = Some (b, ls')"
  shows "later tick ls ls'"
proof -
  from assms(2) obtain ld r c pg send where l: "pl_st_load (wk_strategy wk) = Some ld" "ld (ls_content ls) (ls_pl ls) = Some (r, c, pg)"
    "v_send (wk_vmsl wk) = Some send" by (auto simp: send_one_def bind_eq_Some_conv)
  obtain ret c' st w where s: "send (se_ctxt se) (se_handlers se) c (ls_status ls) (ls_world ls) = (ret, c', st, w)" by (metis prod_cases4)
  have "tick (ls_world ls) \<le> tick w" by (rule time_goes_onD(4) [OF assms(1) l(3) s])
  with assms(2) l s show ?thesis by (auto simp: send_one_def later_def Let_def split: if_splits)
qed

lemma naive_sample_later:
  assumes "time_goes_on tick N e env wk se" and "naive_sample env wk se ls = Some (b, ls')"
  shows "later tick ls ls'"
proof (cases "sample_due env 10 ls")
  case True
  let ?ls1 = "snap_throughput env ls"
  obtain f where f: "wr_write (w_throughput (wk_writer wk)) = Some f" using assms(2) True by (auto simp: naive_sample_def bind_eq_Some_conv)
  obtain ok st w where w: "f (ws_throughput (ls_snap ?ls1)) (ls_status ?ls1) (ls_world ?ls1) = (ok, st, w)" by (metis prod_cases3)
  have 1: "later tick ls (?ls1\<lparr>ls_status := s, ls_world := w\<rparr>)" for s
    using time_goes_onD(6) [OF assms(1) f w] by (simp add: later_def snap_throughput_def Let_def)
  then have 2: "later tick ls (mark_sample (?ls1\<lparr>ls_status := s, ls_world := w\<rparr>))" for s by (simp add: later_def mark_sample_def)
  from assms(2) True f w consider "ls' = ?ls1\<lparr>ls_status := St_New, ls_world := w\<rparr>"
    | "queue_snapshot env se (mark_sample (?ls1\<lparr>ls_status := st, ls_world := w\<rparr>)) = Some ls'"
    by (auto simp: naive_sample_def Let_def bind_eq_Some_conv split: if_splits)
  then show ?thesis
  proof cases
    case 1
    with \<open>\<And>s. later tick ls (?ls1\<lparr>ls_status := s, ls_world := w\<rparr>)\<close> show ?thesis by simp
  next
    case 2
    from later_trans [OF \<open>\<And>s. later tick ls (mark_sample (?ls1\<lparr>ls_status := s, ls_world := w\<rparr>))\<close> queue_later [OF assms(1) 2]] show ?thesis .
  qed
qed (use assms(2) in \<open>simp add: naive_sample_def later_def\<close>)

section \<open>The loops read the clock\<close>

lemma naive_sender_reads:
  assumes "time_goes_on tick N e env wk se" and "naive_sender_iter env wk se ls = Some (True, ls')"
  shows "read_clock tick N e ls ls'"
proof -
  from assms(2) obtain ls1 ls2 where s: "send_one wk se ls = Some (True, ls1)"
    "naive_sample env wk se (snap_now env (snap_count ls1)) = Some (True, ls2)" "ls' = throttle_wait env wk ls2"
    by (auto simp: naive_sender_iter_def bind_eq_Some_conv split: if_splits)
  note r = snap_now_reads [OF time_goes_onD(1) [OF assms(1)], of "snap_count ls1"]
  show ?thesis unfolding s(3)
    by (rule later_read_clock [OF later_trans [OF send_one_later [OF assms(1) s(1)] snap_count_later]
          read_clock_later [OF read_clock_later [OF r naive_sample_later [OF assms(1) s(2)]] waits_later(1) [OF assms(1)]]])
qed

lemma rate_sender_reads:
  assumes "time_goes_on tick N e env wk se" and "rate_sender_iter env wk se ls = Some (True, ls')"
  shows "read_clock tick N e ls ls'"
proof -
  from assms(2) obtain ls1 ls2 where s: "send_one wk se ls = Some (True, ls1)"
    "queue_snapshot env se (rate_sample env (snap_now env (snap_count ls1))) = Some ls2" "ls' = rate_wait env wk ls2"
    by (auto simp: rate_sender_iter_def bind_eq_Some_conv split: if_splits)
  note r = snap_now_reads [OF time_goes_onD(1) [OF assms(1)], of "snap_count ls1"]
  show ?thesis unfolding s(3)
    by (rule later_read_clock [OF later_trans [OF send_one_later [OF assms(1) s(1)] snap_count_later]
          read_clock_later [OF read_clock_later [OF read_clock_later [OF r rate_sample_later] queue_later [OF assms(1) s(2)]] waits_later(2) [OF assms(1)]]])
qed

text \<open>A receive without an error: it read the clock whether or not there was a message.\<close>

definition answers :: "'w worker \<Rightarrow> session \<Rightarrow> bool" where
  "answers wk se = (\<exists>receive. v_receive (wk_vmsl wk) = Some receive \<and>
     (\<forall>c st w. \<not> vmsl_stat_error (fst (receive (se_ctxt se) (se_handlers se) c st w))))"

lemma receive_one_reads:
  assumes "time_goes_on tick N e env wk se" and "answers wk se"
  shows "\<exists>got ls'. receive_one env wk se ls = Some (got, ls') \<and> got \<noteq> Some False \<and> read_clock tick N e ls ls'"
proof -
  from assms(2) obtain receive ret c st w where r: "v_receive (wk_vmsl wk) = Some receive" "\<not> vmsl_stat_error ret"
    "receive (se_ctxt se) (se_handlers se) (ls_content ls) (ls_status ls) (ls_world ls) = (ret, c, st, w)"
    unfolding answers_def by (metis prod_cases4 fst_conv)
  let ?ls1 = "ls\<lparr>ls_content := c, ls_status := st, ls_world := w\<rparr>"
  have t: "tick (ls_world ls) \<le> tick w" by (rule time_goes_onD(5) [OF assms(1) r(1,3)])
  then have l: "later tick ls ?ls1" by (simp add: later_def)
  have n: "read_clock tick N e ls (snap_now env ?ls1)"
    by (intro later_read_clock [OF l] snap_now_reads time_goes_onD(1) [OF assms(1)])
  have "later tick (snap_now env ?ls1) ((snap_now env ?ls1)\<lparr>ls_world := e_usleep env 25000 (ls_world (snap_now env ?ls1))\<rparr>)"
    using assms(1) by (simp add: later_def time_goes_on_def)
  from read_clock_later [OF n this] read_clock_later [OF n snap_count_later] r show ?thesis
    by (simp add: receive_one_def Let_def)
qed

definition timed_sender :: "bool \<Rightarrow> ('w \<Rightarrow> nat) \<Rightarrow> nat \<Rightarrow> int \<Rightarrow> 'w wenv \<Rightarrow> 'w worker \<Rightarrow> session \<Rightarrow> 'w loop_state \<Rightarrow> bool" where
  "timed_sender naive tick N e env wk se ls = (sender_able naive env wk se ls \<and> time_goes_on tick N e env wk se)"

definition timed_receiver :: "bool \<Rightarrow> ('w \<Rightarrow> nat) \<Rightarrow> nat \<Rightarrow> int \<Rightarrow> 'w wenv \<Rightarrow> 'w worker \<Rightarrow> session \<Rightarrow> 'w loop_state \<Rightarrow> bool" where
  "timed_receiver naive tick N e env wk se ls = (answers wk se \<and> queue_open env se \<and> time_goes_on tick N e env wk se \<and>
     (naive \<longrightarrow> writes (w_throughput (wk_writer wk)) \<and> writes (w_latency (wk_writer wk))))"

lemma naive_receiver_reads:
  assumes "timed_receiver True tick N e env wk se ls"
  shows "\<exists>ls'. naive_receiver_iter env wk se ls = Some (True, ls') \<and> read_clock tick N e ls ls'"
proof -
  from assms have t: "time_goes_on tick N e env wk se" "answers wk se" "queue_open env se" "writes (w_throughput (wk_writer wk))"
    by (simp_all add: timed_receiver_def)
  from receive_one_reads [OF t(1,2)] obtain got ls1 where
    r: "receive_one env wk se ls = Some (got, ls1)" "got \<noteq> Some False" "read_clock tick N e ls ls1" by blast
  show ?thesis
  proof (cases got)
    case None
    with r show ?thesis by (simp add: naive_receiver_iter_def)
  next
    case (Some b)
    let ?ls = "snap_latency ls1"
    from assms obtain wfn where wr: "wr_write (w_latency (wk_writer wk)) = Some wfn" "\<And>d st w. fst (wfn d st w)"
      by (auto simp: timed_receiver_def writes_def)
    then obtain st w where w: "wfn (ws_latency (ls_snap ?ls)) (ls_status ?ls) (ls_world ?ls) = (True, st, w)" by (metis prod.collapse)
    let ?ls2 = "?ls\<lparr>ls_status := st, ls_world := w\<rparr>"
    obtain ls2 where n: "naive_sample env wk se ?ls2 = Some (True, ls2)" using naive_sample_step [OF t(3,4)] by blast
    have "later tick ls1 ?ls2"
      using time_goes_onD(7) [OF t(1) wr(1) w] by (simp add: later_def snap_latency_def Let_def)
    from read_clock_later [OF r(3) later_trans [OF this naive_sample_later [OF t(1) n]]] r(1,2) Some wr(1) w n show ?thesis
      by (cases b) (simp_all add: naive_receiver_iter_def)
  qed
qed

lemma rate_receiver_reads:
  assumes "timed_receiver False tick N e env wk se ls"
  shows "\<exists>ls'. rate_receiver_iter env wk se ls = Some (True, ls') \<and> read_clock tick N e ls ls'"
proof -
  from assms have t: "time_goes_on tick N e env wk se" "answers wk se" "queue_open env se" by (simp_all add: timed_receiver_def)
  from receive_one_reads [OF t(1,2)] obtain got ls1 where
    r: "receive_one env wk se ls = Some (got, ls1)" "got \<noteq> Some False" "read_clock tick N e ls ls1" by blast
  obtain ls2 where q: "queue_snapshot env se (rate_sample env (snap_latency ls1)) = Some ls2" using queue_snapshot_step [OF t(3)] by blast
  from later_trans [OF later_trans [OF snap_latency_later rate_sample_later] queue_later [OF t(1) q]] have "later tick ls1 ls2" .
  then have "later tick ls1 (ls2\<lparr>ls_snap := (ls_snap ls2)\<lparr>ws_eta := e\<rparr>\<rparr>)" for e by (simp add: later_def)
  note l = read_clock_later [OF r(3) this]
  show ?thesis using r l q by (cases got) (auto simp: rate_receiver_iter_def split: bool.splits)
qed

section \<open>Tests limited by time\<close>

text \<open>
  The contract of the four loops: as long as what an iteration calls keeps working, it
  completes and has read the clock. A loop limited by time then ends, and the time of its
  last snapshot is past the end of the test.
\<close>

locale timed_iteration =
  fixes tick :: "'w \<Rightarrow> nat" and N :: nat and e :: int
    and iter :: "'w wenv \<Rightarrow> 'w worker \<Rightarrow> session \<Rightarrow> 'w loop_state \<Rightarrow> (bool \<times> 'w loop_state) undef"
    and able :: "'w wenv \<Rightarrow> 'w worker \<Rightarrow> session \<Rightarrow> 'w loop_state \<Rightarrow> bool"
  assumes iteration_reads: "able env wk se ls \<Longrightarrow> \<exists>ls'. iter env wk se ls = Some (True, ls') \<and> able env wk se ls' \<and> read_clock tick N e ls ls'"
begin

lemma steps_read:
  "able env wk se ls \<Longrightarrow> \<exists>ls'. loop_steps (iter env wk se) k ls = Some ls' \<and> tick (ls_world ls) + k \<le> tick (ls_world ls') \<and>
    (0 < k \<and> N \<le> tick (ls_world ls) + (k - 1) \<longrightarrow> e < tv_sec (ws_now (ls_snap ls')))"
proof (induction k arbitrary: ls)
  case (Suc k)
  from iteration_reads [OF Suc.prems] obtain ls1 where i: "iter env wk se ls = Some (True, ls1)" "able env wk se ls1" "read_clock tick N e ls ls1" by blast
  from Suc.IH [OF i(2)] obtain ls' where "loop_steps (iter env wk se) k ls1 = Some ls'" "tick (ls_world ls1) + k \<le> tick (ls_world ls')"
    "0 < k \<and> N \<le> tick (ls_world ls1) + (k - 1) \<longrightarrow> e < tv_sec (ws_now (ls_snap ls'))" by blast
  with i(1,3) show ?case by (cases "k = 0") (auto simp: read_clock_def)
qed simp

lemma time_runs_out:
  assumes "wk_can_continue wk = Some (worker_check env)" and "wo_duration (wk_options wk) = Test_Time d"
    and "able env wk se ls" and "N + 1 < fuel" and "tv_sec (dur_end d) = e"
  shows "\<exists>ls'. worker_loop wk (iter env wk se) fuel ls = Inr ls' \<and>
    (e_interrupted env (ls_world ls') \<or> e < tv_sec (ws_now (ls_snap ls')))"
proof -
  obtain lsk where s: "loop_steps (iter env wk se) (N + 1) ls = Some lsk" "e < tv_sec (ws_now (ls_snap lsk))"
    using steps_read [OF assms(3), of "N + 1"] by auto
  then have "\<not> worker_check env (wk_options wk) (ls_snap lsk) (ls_world lsk)" using assms(2,5) by (simp add: worker_check_def)
  from loop_stops_at [OF assms(1) s(1) this assms(4)] assms(2,5) show ?thesis by (fastforce simp: worker_check_def split: if_splits)
qed

text \<open>From the first time stamp to the end of the session.\<close>

lemma run_times:
  assumes "wk_can_continue wk = Some (worker_check env)" and "wo_duration (wk_options wk) = Test_Time d"
    and "\<And>w. \<not> e_interrupted env w" and "N + 1 < fuel" and "tv_sec (dur_end d) = e"
    and "\<And>s now w. able env wk se \<lparr>ls_snap = s, ls_last_count = 0, ls_last_ts = now, ls_round = 0,
         ls_content = c, ls_pl = pg, ls_status = st, ls_world = w\<rparr>"
    and "\<And>st w. session_close env wk se st w \<noteq> None" and "\<And>st w. fin st w \<noteq> None"
  shows "\<exists>snap' st' pg' w'. run_loop env (iter env wk se) with_eta fin fuel wk se snap c st pg w
      = Inr (WORKER_SUCCESS, snap', st', pg', w') \<and> e < tv_sec (ws_now snap')"
proof -
  obtain now w1 where now: "e_now env w = (now, w1)" by fastforce
  obtain ls' where l: "run_loop env (iter env wk se) with_eta fin fuel wk se snap c st pg w = end_session env fin wk se ls'"
    "e < tv_sec (ws_now (ls_snap ls'))"
    using time_runs_out [OF assms(1,2,6,4,5), of "start_snapshot with_eta now snap" now w1] now assms(3) by (auto simp: run_loop_def Let_def)
  with end_session_returns [where env = env and fin = fin and ls = ls', OF assms(7,8)] show ?thesis by (auto simp: final_throughput_def)
qed

end

interpretation naive_timed: timed_iteration tick N e naive_sender_iter "timed_sender True tick N e" for tick N e
  by unfold_locales (unfold timed_sender_def, elim conjE, frule naive_sender_step, blast dest: naive_sender_reads)

interpretation rate_timed: timed_iteration tick N e rate_sender_iter "timed_sender False tick N e" for tick N e
  by unfold_locales (unfold timed_sender_def, elim conjE, frule rate_sender_step, blast dest: rate_sender_reads)

interpretation naive_receive_timed: timed_iteration tick N e naive_receiver_iter "timed_receiver True tick N e" for tick N e
  by unfold_locales (use naive_receiver_reads in \<open>unfold timed_receiver_def, blast\<close>)

interpretation rate_receive_timed: timed_iteration tick N e rate_receiver_iter "timed_receiver False tick N e" for tick N e
  by unfold_locales (use rate_receiver_reads in \<open>unfold timed_receiver_def, blast\<close>)

section \<open>Properties\<close>

text \<open>A test limited by time that no signal interrupts.\<close>

definition timed_test :: "'w wenv \<Rightarrow> 'w worker \<Rightarrow> gru_duration \<Rightarrow> bool" where
  "timed_test env wk d = (wk_can_continue wk = Some (worker_check env) \<and> wo_duration (wk_options wk) = Test_Time d \<and>
     (\<forall>w. \<not> e_interrupted env w))"

context timed_iteration
begin

lemma sender_times:
  assumes "timed_test env wk d" and "N + 1 < fuel" and "tv_sec (dur_end d) = e" and "session_stops wk"
    and "wk_strategy wk = pl_strategy_assign rnd ps vs" and "var_ok (wo_message_size (wk_options wk))"
    and "\<And>k. e_alloc env k = None" and "gru_status_success st'"
    and "session_open env wk MSG_DIRECTION_SENDER st w = Some (Some se, st', w')"
    and "\<And>ls. strategy_ready wk (ls_pl ls) (ls_content ls) \<Longrightarrow> able env wk se ls" and "\<And>st w. fin st w \<noteq> None"
  shows "\<exists>snap' st2 pg2 w2. sender_start env iter with_eta fin fuel wk snap st pg w
      = Inr (WORKER_SUCCESS, snap', st2, pg2, w2) \<and> e < tv_sec (ws_now snap')"
proof -
  from sender_start_runs [where env = env, OF assms(5-9)] obtain c1 pg1 where
    s: "sender_start env iter with_eta fin fuel wk snap st pg w
      = run_loop env (iter env wk se) with_eta fin fuel wk se snap c1 st' pg1 w'" "strategy_ready wk pg1 c1"
    by blast
  show ?thesis unfolding s(1) using assms(1-3) s(2) session_stops_close [OF assms(4)]
    by (intro run_times assms(10,11)) (simp_all add: timed_test_def)
qed

lemma receiver_times:
  assumes "timed_test env wk d" and "N + 1 < fuel" and "tv_sec (dur_end d) = e" and "session_stops wk"
    and "e_alloc env (unat (wo_message_size (wk_options wk))) = None" and "gru_status_success st'"
    and "session_open env wk MSG_DIRECTION_RECEIVER st w = Some (Some se, st', w')"
    and "\<And>ls. able env wk se ls" and "\<And>st w. fin st w \<noteq> None"
  shows "\<exists>snap' st2 pg2 w2. receiver_start env iter with_eta fin fuel wk snap st pg w
      = Inr (WORKER_SUCCESS, snap', st2, pg2, w2) \<and> e < tv_sec (ws_now snap')"
proof -
  from receiver_start_runs [OF assms(5-7)] obtain c1 where
    s: "receiver_start env iter with_eta fin fuel wk snap st pg w
      = run_loop env (iter env wk se) with_eta fin fuel wk se snap c1 st' pg w'" by blast
  show ?thesis unfolding s using assms(1-3) session_stops_close [OF assms(4)]
    by (intro run_times assms(8,9)) (simp_all add: timed_test_def)
qed

end

text \<open>
  Property C21, timed_test_ends. A test limited by time ends: with a session that opens, memory, and a
  queue and writers that work, the two senders return success when every send succeeds and
  the two receivers when no receive fails, whether messages arrive or not; the time of their
  last snapshot is past the end of the test. Of the clock only this is assumed: it is past
  that end after \<open>N\<close> readings (which may all have returned the same time). Each iteration
  reads the clock, so \<open>N + 1\<close> iterations are enough, at whatever speed time goes by.
\<close>

theorem timed_test_ends:
  assumes "timed_test env wk d" and "N + 1 < fuel" and "session_ends wk"
    and "wk_strategy wk = pl_strategy_assign rnd ps vs" and "var_ok (wo_message_size (wk_options wk))"
    and "\<And>k. e_alloc env k = None" and "gru_status_success st'"
    and "session_open env wk dir st w = Some (Some se, st', w')" and "time_goes_on tick N (tv_sec (dur_end d)) env wk se"
    and "queue_open env se" and "writes (w_throughput (wk_writer wk))" and "writes (w_latency (wk_writer wk))"
  shows "(dir = MSG_DIRECTION_SENDER \<and> sends wk se \<longrightarrow>
      (\<exists>snap' st2 pg2 w2. naive_sender_start env fuel wk zero_snapshot st pg w = Inr (WORKER_SUCCESS, snap', st2, pg2, w2) \<and>
        tv_sec (dur_end d) < tv_sec (ws_now snap')) \<and>
      (\<exists>snap' st2 pg2 w2. rate_sender_start env fuel wk zero_snapshot st pg w = Inr (WORKER_SUCCESS, snap', st2, pg2, w2) \<and>
        tv_sec (dur_end d) < tv_sec (ws_now snap'))) \<and>
    (dir = MSG_DIRECTION_RECEIVER \<and> answers wk se \<longrightarrow>
      (\<exists>snap' st2 pg2 w2. naive_receiver_start env fuel wk zero_snapshot st pg w = Inr (WORKER_SUCCESS, snap', st2, pg2, w2) \<and>
        tv_sec (dur_end d) < tv_sec (ws_now snap')) \<and>
      (\<exists>snap' st2 pg2 w2. rate_receiver_start env fuel wk zero_snapshot st pg w = Inr (WORKER_SUCCESS, snap', st2, pg2, w2) \<and>
        tv_sec (dur_end d) < tv_sec (ws_now snap')))"
proof (intro conjI impI; elim conjE)
  assume dir: "dir = MSG_DIRECTION_SENDER" and "sends wk se"
  then have able: "strategy_ready wk (ls_pl ls) (ls_content ls) \<Longrightarrow> timed_sender naive tick N (tv_sec (dur_end d)) env wk se ls" for naive ls
    using assms(9-11) by (simp add: timed_sender_def sender_able_def)
  note s = assms(1,2) refl session_ends_stops [OF assms(3)] assms(4-7) assms(8) [unfolded dir]
  show "\<exists>snap' st2 pg2 w2. naive_sender_start env fuel wk zero_snapshot st pg w = Inr (WORKER_SUCCESS, snap', st2, pg2, w2) \<and>
      tv_sec (dur_end d) < tv_sec (ws_now snap')"
    unfolding naive_sender_start_def by (rule naive_timed.sender_times [where env = env, OF s able session_ends_close(3) [OF assms(3)]])
  show "\<exists>snap' st2 pg2 w2. rate_sender_start env fuel wk zero_snapshot st pg w = Inr (WORKER_SUCCESS, snap', st2, pg2, w2) \<and>
      tv_sec (dur_end d) < tv_sec (ws_now snap')"
    unfolding rate_sender_start_def by (rule rate_timed.sender_times [where env = env, OF s able]) simp_all
next
  assume dir: "dir = MSG_DIRECTION_RECEIVER" and "answers wk se"
  then have able: "timed_receiver naive tick N (tv_sec (dur_end d)) env wk se ls" for naive ls
    using assms(9-12) by (simp add: timed_receiver_def)
  note s = assms(1,2) refl session_ends_stops [OF assms(3)] assms(6,7) assms(8) [unfolded dir]
  show "\<exists>snap' st2 pg2 w2. naive_receiver_start env fuel wk zero_snapshot st pg w = Inr (WORKER_SUCCESS, snap', st2, pg2, w2) \<and>
      tv_sec (dur_end d) < tv_sec (ws_now snap')"
    unfolding naive_receiver_start_def by (rule naive_receive_timed.receiver_times [OF s able session_ends_close(4) [OF assms(3)]])
  show "\<exists>snap' st2 pg2 w2. rate_receiver_start env fuel wk zero_snapshot st pg w = Inr (WORKER_SUCCESS, snap', st2, pg2, w2) \<and>
      tv_sec (dur_end d) < tv_sec (ws_now snap')"
    unfolding rate_receiver_start_def by (rule rate_receive_timed.receiver_times [OF s able]) simp_all
qed

text \<open>A world that counts the readings of its clock, which shows the same second for five of them; a test up
  to that second.\<close>

definition clock_wenv :: "nat wenv" where
  "clock_wenv = sample_wenv\<lparr>e_now := (\<lambda>w. (\<lparr>tv_sec = (if w < 5 then 0 else 1), tv_usec = 0\<rparr>, Suc w))\<rparr>"

definition clock_worker :: "nat worker" where
  "clock_worker = \<lparr>wk_name = ''w'', wk_log_dir = ''/l'', wk_vmsl = sample_transport VMSL_SUCCESS,
     wk_options = sample_options\<lparr>wo_duration := Test_Time \<lparr>dur_start = zero_ts, dur_end = zero_ts\<rparr>\<rparr>,
     wk_writer = sample_writer, wk_report_format = FORMAT_CSV, wk_naming_options = NM_LATENCY,
     wk_can_continue = Some (worker_check clock_wenv), wk_flags = WRK_SENDER,
     wk_strategy = pl_strategy_assign (\<lambda>k. 0) \<lparr>pl_st_init = None, pl_st_load = None, pl_st_cleanup = None\<rparr> False\<rparr>"

definition clock_session :: "msg_direction \<Rightarrow> session" where
  "clock_session dir = \<lparr>se_ctxt = \<lparr>msg_opts = worker_msg_opt_setup clock_wenv dir (wk_options clock_worker)\<rparr>,
     se_handlers = vmslh_new (\<lambda>n. True), se_queue = Some (MPT_Q_SYSV (Some \<lparr>vq_queue = 0\<rparr>))\<rparr>"

lemma clock_worker_facts:
  "timed_test clock_wenv clock_worker \<lparr>dur_start = zero_ts, dur_end = zero_ts\<rparr>" "session_ends clock_worker"
  "wk_strategy clock_worker = pl_strategy_assign (\<lambda>k. 0) \<lparr>pl_st_init = None, pl_st_load = None, pl_st_cleanup = None\<rparr> False"
  "var_ok (wo_message_size (wk_options clock_worker))" "\<And>k. e_alloc clock_wenv k = None"
  "session_open clock_wenv clock_worker dir St_New w = Some (Some (clock_session dir), St_New, w)"
  "time_goes_on (\<lambda>w. w) 5 (tv_sec (dur_end \<lparr>dur_start = zero_ts, dur_end = zero_ts\<rparr>)) clock_wenv clock_worker (clock_session dir)" "queue_open clock_wenv (clock_session dir)"
  "writes (w_throughput (wk_writer clock_worker))" "writes (w_latency (wk_writer clock_worker))"
  "sends clock_worker (clock_session dir)" "answers clock_worker (clock_session dir)"
  by (simp_all add: timed_test_def session_ends_def session_stops_def var_ok_def queue_open_def writes_def sends_def answers_def
      time_goes_on_def clock_reads_def session_open_def session_subscribe_def worker_create_queue_def worker_name_def worker_queue_new_def
      worker_queue_new_opt_def worker_vqueue_new_def create_queue_def queue_defs clock_session_def clock_worker_def clock_wenv_def
      sample_options_def sample_transport_def sample_wenv_def sample_ipc_def sample_writer_def sample_table_def vmsl_stat_defs zero_ts_def)

theorem timed_test_ends_witness:
  "(\<exists>snap' st2 pg2 w2. naive_sender_start clock_wenv 7 clock_worker zero_snapshot St_New sample_pl_state 0
      = Inr (WORKER_SUCCESS, snap', st2, pg2, w2) \<and> 0 < tv_sec (ws_now snap')) \<and>
   (\<exists>snap' st2 pg2 w2. naive_receiver_start clock_wenv 7 clock_worker zero_snapshot St_New sample_pl_state 0
      = Inr (WORKER_SUCCESS, snap', st2, pg2, w2) \<and> 0 < tv_sec (ws_now snap'))"
  using timed_test_ends [where fuel = 7 and pg = sample_pl_state and w = 0 and dir = MSG_DIRECTION_SENDER,
      OF clock_worker_facts(1) _ clock_worker_facts(2-5) _ clock_worker_facts(6-10)]
    timed_test_ends [where fuel = 7 and pg = sample_pl_state and w = 0 and dir = MSG_DIRECTION_RECEIVER,
      OF clock_worker_facts(1) _ clock_worker_facts(2-5) _ clock_worker_facts(6-10)] clock_worker_facts(11,12)
  by (simp add: zero_ts_def)

definition no_handlers_yet :: process_signals where
  "no_handlers_yet = \<lparr>sg_interrupted = False, sg_handled = []\<rparr>"

text \<open>
  \<open>calls w\<close> are the calls that close a connection, as far as the world \<open>w\<close> has seen them: the stop
  and the destroy function of the session add one each, the finalisers and the queue none.
\<close>

datatype close_call = Stopped | Destroyed

definition records_close :: "'w wenv \<Rightarrow> 'w worker \<Rightarrow> session \<Rightarrow> (gru_status \<Rightarrow> 'w \<Rightarrow> (gru_status \<times> 'w) undef) \<Rightarrow>
    ('w \<Rightarrow> close_call list) \<Rightarrow> bool" where
  "records_close env wk se fin calls =
    ((\<exists>stop. v_stop (wk_vmsl wk) = Some stop \<and> (\<forall>st w. calls (snd (stop (Some (se_ctxt se)) st w)) = calls w @ [Stopped])) \<and>
     (\<exists>destroy. v_destroy (wk_vmsl wk) = Some destroy \<and> (\<forall>st w. calls (snd (destroy (Some (se_ctxt se)) st w)) = calls w @ [Destroyed])) \<and>
     (\<forall>st w. \<exists>st' w'. fin st w = Some (st', w') \<and> calls w' = calls w) \<and>
     (\<forall>w. calls (worker_queue_destroy (e_ipc env) (se_queue se) w) = calls w))"

lemma end_session_closes:
  assumes "records_close env wk se fin calls"
  shows "\<exists>st' w'. end_session env fin wk se ls = Inr (WORKER_SUCCESS, final_throughput env (ls_snap ls), st', ls_pl ls, w') \<and>
    calls w' = calls (ls_world ls) @ [Stopped, Destroyed]"
proof -
  obtain stop destroy where f: "v_stop (wk_vmsl wk) = Some stop" "v_destroy (wk_vmsl wk) = Some destroy"
    "\<And>st w. calls (snd (stop (Some (se_ctxt se)) st w)) = calls w @ [Stopped]"
    "\<And>st w. calls (snd (destroy (Some (se_ctxt se)) st w)) = calls w @ [Destroyed]"
    using assms unfolding records_close_def by blast
  obtain st1 w1 where s: "stop (Some (se_ctxt se)) (ls_status ls) (ls_world ls) = (st1, w1)" by fastforce
  obtain st2 w2 where d: "destroy (Some (se_ctxt se)) st1 w1 = (st2, w2)" by fastforce
  obtain st3 w3 where "fin st2 w2 = Some (st3, w3)" "calls w3 = calls w2" using assms unfolding records_close_def by blast
  moreover have "calls w2 = calls (ls_world ls) @ [Stopped, Destroyed]"
    using f(3) [of "ls_status ls" "ls_world ls"] f(4) [of st1 w1] s d by simp
  ultimately show ?thesis using assms f(1,2) s d by (simp add: end_session_def session_close_def records_close_def)
qed

text \<open>
  Property C22, interrupt_ends_test. A worker that has installed its handlers, as every forked
  worker has, is not ended by a SIGINT or SIGTERM; when it has received one while it loops,
  whatever the limit of the test, its loop ends at the next check at the latest, the session
  is closed (one stop and then one destroy of the connection, and no more of them) and the worker
  returns the snapshot of the messages so far. Without the handlers, and for SIGKILL with
  them, the signal ends the process.
\<close>

theorem interrupt_ends_test:
  assumes "wk_can_continue wk = Some (worker_check env)" and "\<And>w. e_interrupted env w = is_interrupted (sig w)"
    and "e_now env w = (now, w1)"
    and "ls = \<lparr>ls_snap = start_snapshot with_eta now snap, ls_last_count = 0, ls_last_ts = now, ls_round = 0,
         ls_content = c, ls_pl = pg, ls_status = st, ls_world = w1\<rparr>"
    and "loop_steps iter k ls = Some lsk"
    and "signum \<in> {SIGINT, SIGTERM}" and "\<forall>q. deliver_signal signum (install_interrupt_handler p) = Some q \<longrightarrow> sig (ls_world lsk) = q"
    and "k < fuel" and "records_close env wk se fin calls"
  shows "deliver_signal signum (install_interrupt_handler p) \<noteq> None \<and>
    (\<exists>j ls' st' w'. j \<le> k \<and> loop_steps iter j ls = Some ls' \<and>
      run_loop env iter with_eta fin fuel wk se snap c st pg w
        = Inr (WORKER_SUCCESS, final_throughput env (ls_snap ls'), st', ls_pl ls', w') \<and>
      calls w' = calls (ls_world ls') @ [Stopped, Destroyed]) \<and>
    deliver_signal SIGKILL (install_interrupt_handler no_handlers_yet) = None \<and> deliver_signal signum no_handlers_yet = None"
proof -
  have d: "deliver_signal signum (install_interrupt_handler p) = Some (interrupt_handler signum (install_interrupt_handler p))"
    using assms(6) by (auto simp: signal_step_defs)
  with assms(7) have "is_interrupted (sig (ls_world lsk))" by (simp add: interrupt_handler_def is_interrupted_def)
  then have "\<not> worker_check env (wk_options wk) (ls_snap lsk) (ls_world lsk)" by (simp add: worker_check_def assms(2))
  from loop_stops_at [OF assms(1,5) this assms(8)] obtain j ls' where l: "j \<le> k" "loop_steps iter j ls = Some ls'" "worker_loop wk iter fuel ls = Inr ls'"
    by blast
  obtain st' w' where "end_session env fin wk se ls' = Inr (WORKER_SUCCESS, final_throughput env (ls_snap ls'), st', ls_pl ls', w')"
    "calls w' = calls (ls_world ls') @ [Stopped, Destroyed]" using end_session_closes [OF assms(9)] by blast
  with l assms(3,4) have "run_loop env iter with_eta fin fuel wk se snap c st pg w
      = Inr (WORKER_SUCCESS, final_throughput env (ls_snap ls'), st', ls_pl ls', w') \<and> calls w' = calls (ls_world ls') @ [Stopped, Destroyed]"
    by (simp add: run_loop_def Let_def)
  with l(1,2) d show ?thesis by (auto simp: signal_step_defs no_handlers_yet_def)
qed

text \<open>A receiver that is interrupted while it receives its first message; its world also keeps the calls.\<close>

definition signal_wenv :: "(process_signals \<times> close_call list) wenv" where
  "signal_wenv = sample_wenv\<lparr>e_interrupted := (\<lambda>w. is_interrupted (fst w))\<rparr>"

definition signal_worker :: "(process_signals \<times> close_call list) worker" where
  "signal_worker = \<lparr>wk_name = ''w'', wk_log_dir = ''/l'',
     wk_vmsl = (sample_transport VMSL_SUCCESS)\<lparr>
       v_receive := Some (\<lambda>c h m st w. (VMSL_SUCCESS, m, st, (the (deliver_signal SIGTERM (fst w)), snd w))),
       v_stop := Some (\<lambda>c st w. (st, (fst w, snd w @ [Stopped]))), v_destroy := Some (\<lambda>c st w. (st, (fst w, snd w @ [Destroyed])))\<rparr>,
     wk_options = sample_options, wk_writer = sample_writer, wk_report_format = FORMAT_CSV, wk_naming_options = NM_LATENCY,
     wk_can_continue = Some (worker_check signal_wenv), wk_flags = WRK_RECEIVER,
     wk_strategy = \<lparr>pl_st_init = None, pl_st_load = None, pl_st_cleanup = None\<rparr>\<rparr>"

definition started_process :: process_signals where
  "started_process = install_interrupt_handler no_handlers_yet"

theorem interrupt_ends_test_witness:
  "\<exists>j ls' st' w'. j \<le> 1 \<and> loop_steps (naive_receiver_iter signal_wenv signal_worker (clock_session MSG_DIRECTION_RECEIVER)) j
      \<lparr>ls_snap = start_snapshot False zero_ts zero_snapshot, ls_last_count = 0, ls_last_ts = zero_ts, ls_round = 0,
       ls_content = zero_content, ls_pl = sample_pl_state, ls_status = St_New, ls_world = (started_process, [])\<rparr> = Some ls' \<and>
    run_loop signal_wenv (naive_receiver_iter signal_wenv signal_worker (clock_session MSG_DIRECTION_RECEIVER)) False
      (\<lambda>st w. Some (st, w)) 2 signal_worker (clock_session MSG_DIRECTION_RECEIVER) zero_snapshot zero_content St_New sample_pl_state (started_process, [])
      = Inr (WORKER_SUCCESS, final_throughput signal_wenv (ls_snap ls'), st', ls_pl ls', w') \<and>
    snd w' = snd (ls_world ls') @ [Stopped, Destroyed]"
proof -
  let ?iter = "naive_receiver_iter signal_wenv signal_worker (clock_session MSG_DIRECTION_RECEIVER)"
  let ?ls = "\<lparr>ls_snap = start_snapshot False zero_ts zero_snapshot, ls_last_count = 0, ls_last_ts = zero_ts, ls_round = 0,
       ls_content = zero_content, ls_pl = sample_pl_state, ls_status = St_New, ls_world = (started_process, [])\<rparr>"
  have "\<exists>ls1. loop_steps ?iter 1 ?ls = Some ls1 \<and> deliver_signal SIGTERM started_process = Some (fst (ls_world ls1))"
    by (simp add: naive_receiver_iter_def receive_one_def naive_sample_def sample_due_def snap_now_def snap_count_def snap_latency_def
        signal_worker_def signal_wenv_def sample_transport_def sample_wenv_def sample_writer_def sample_table_def vmsl_stat_defs Let_def)
      (simp add: started_process_def no_handlers_yet_def signal_step_defs)
  then obtain ls1 where s: "loop_steps ?iter 1 ?ls = Some ls1" "deliver_signal SIGTERM started_process = Some (fst (ls_world ls1))" by blast
  have r: "records_close signal_wenv signal_worker (clock_session MSG_DIRECTION_RECEIVER) (\<lambda>st w. Some (st, w)) snd"
    by (simp add: records_close_def signal_worker_def signal_wenv_def clock_session_def sample_wenv_def sample_ipc_def worker_queue_destroy_def queue_defs)
  show ?thesis
    by (rule interrupt_ends_test [where signum = SIGTERM and sig = fst and p = no_handlers_yet, OF _ _ _ refl s(1) _ _ _ r, THEN conjunct2, THEN conjunct1])
      (use s(2) in \<open>simp_all add: signal_worker_def signal_wenv_def sample_wenv_def started_process_def\<close>)
qed

text \<open>
  Also proved, untimed_receiver_never_ends. A message without a creation time makes a receiver go on
  with its next message before it reads the clock. While such messages arrive, and the
  AMQP wrapper reports each of them as an error, a receiver of a test limited by time
  never ends, however long ago its end was: the loop runs out of every fuel.
\<close>

theorem untimed_receiver_never_ends:
  assumes "timed_test env wk d" and "v_receive (wk_vmsl wk) = Some receive"
    and "\<And>c st w. fst (receive (se_ctxt se) (se_handlers se) c st w) = VMSL_ERROR OR VMSL_NO_TIMESTAMP"
    and "tv_sec (ws_now (ls_snap ls)) \<le> tv_sec (dur_end d)"
  shows "worker_loop wk (naive_receiver_iter env wk se) fuel ls = Inl Out_of_fuel \<and>
    worker_loop wk (rate_receiver_iter env wk se) fuel ls = Inl Out_of_fuel"
proof -
  have r: "\<exists>ls1. receive_one env wk se l = Some (None, ls1) \<and> ls_snap ls1 = ls_snap l" for l
  proof -
    obtain c st w where "receive (se_ctxt se) (se_handlers se) (ls_content l) (ls_status l) (ls_world l)
        = (VMSL_ERROR OR VMSL_NO_TIMESTAMP, c, st, w)" by (metis assms(3) prod.collapse)
    with assms(2) show ?thesis by (simp add: receive_one_def Let_def vmsl_stat_defs)
  qed
  have "worker_loop wk iter fuel ls = Inl Out_of_fuel"
    if i: "\<And>l. \<exists>ls1. iter l = Some (True, ls1) \<and> ls_snap ls1 = ls_snap l" for iter
    using assms(4)
  proof (induction fuel arbitrary: ls)
    case (Suc fuel)
    obtain ls1 where "iter ls = Some (True, ls1)" "ls_snap ls1 = ls_snap ls" using i by blast
    with Suc assms(1) show ?case by (simp add: timed_test_def worker_check_def)
  qed simp
  note never = this
  have "\<exists>ls1. naive_receiver_iter env wk se l = Some (True, ls1) \<and> ls_snap ls1 = ls_snap l"
    "\<exists>ls1. rate_receiver_iter env wk se l = Some (True, ls1) \<and> ls_snap ls1 = ls_snap l" for l
    using r [of l] by (auto simp: naive_receiver_iter_def rate_receiver_iter_def)
  then show ?thesis by (intro conjI never)
qed

theorem untimed_receiver_never_ends_witness:
  "worker_loop (clock_worker\<lparr>wk_vmsl := sample_transport (VMSL_ERROR OR VMSL_NO_TIMESTAMP)\<rparr>)
    (naive_receiver_iter clock_wenv (clock_worker\<lparr>wk_vmsl := sample_transport (VMSL_ERROR OR VMSL_NO_TIMESTAMP)\<rparr>) (clock_session MSG_DIRECTION_RECEIVER))
    5000000 \<lparr>ls_snap = zero_snapshot, ls_last_count = 0, ls_last_ts = zero_ts, ls_round = 0, ls_content = zero_content,
      ls_pl = sample_pl_state, ls_status = St_New, ls_world = 0\<rparr> = Inl Out_of_fuel"
  by (rule untimed_receiver_never_ends [where d = "\<lparr>dur_start = zero_ts, dur_end = zero_ts\<rparr>" and
        receive = "\<lambda>c h m st w. (VMSL_ERROR OR VMSL_NO_TIMESTAMP, m, st, w)", THEN conjunct1])
    (use clock_worker_facts(1) in \<open>simp_all add: timed_test_def sample_transport_def zero_snapshot_def\<close>)

end
