(* ===== verification/Sheet.thy ===== *)
theory Sheet
  imports Wire Vmsl
begin

text \<open>
  Instruments and sheets, \<open>src/orchestration/maestro/maestro_instrument.c\<close> and
  \<open>maestro_sheet.c\<close>: an instrument is a command and the handler for it, a sheet is
  the list of instruments of a daemon together with the topics it listens to.
  \<open>maestro_sheet_play\<close> answers one request. Handlers work on a state \<open>'s\<close> of
  the daemon and may fault, so the dispatching functions return a run.
\<close>

section \<open>State\<close>

text \<open>\<open>maestro_player_info_t\<close>.\<close>

record player_info =
  pi_id :: string
  pi_name :: string

type_synonym 's play = "maestro_note \<Rightarrow> maestro_note \<Rightarrow> player_info \<Rightarrow> 's \<Rightarrow> (maestro_note \<times> 's) run"

record 's instrument =
  tessitura :: maestro_note
  play :: "'s play"

record 's sheet =
  location :: mtopic_spec
  instruments :: "'s instrument list option"

section \<open>Operations\<close>

definition maestro_instrument_new ::
    "gru_allocator \<Rightarrow> maestro_command \<Rightarrow> 's play \<Rightarrow> gru_status \<Rightarrow> 's instrument option \<times> gru_status" where
  "maestro_instrument_new al cmd p st =
    (case al 24 of
       Some m \<Rightarrow> (None, alloc_fail m)
     | None \<Rightarrow> (Some \<lparr>tessitura = (maestro_note_set_cmd cmd zero_note)\<lparr>n_payload := PNull\<rparr>, play = p\<rparr>, st))"

definition maestro_instrument_can_play :: "'s instrument \<Rightarrow> maestro_note \<Rightarrow> bool" where
  "maestro_instrument_can_play i n = (n_command (tessitura i) = n_command n)"

definition zero_location :: mtopic_spec where
  "zero_location = \<lparr>mt_count = 0, mt_topics = [], mt_qos = 0\<rparr>"

text \<open>\<open>nl\<close> is the outcome of \<open>gru_list_new\<close>, as for the allocator.\<close>

definition maestro_sheet_new ::
    "gru_allocator \<Rightarrow> string option \<Rightarrow> gru_status \<Rightarrow> 's sheet option \<times> gru_status" where
  "maestro_sheet_new al nl st =
    (case al 24 of
       Some m \<Rightarrow> (None, alloc_fail m)
     | None \<Rightarrow> (case nl of
          Some m \<Rightarrow> (None, alloc_fail m)
        | None \<Rightarrow> (Some \<lparr>location = zero_location, instruments = Some []\<rparr>, st)))"

definition maestro_sheet_destroy :: "'s sheet \<Rightarrow> 's sheet" where
  "maestro_sheet_destroy sh = sh\<lparr>instruments := map_option (\<lambda>is. []) (instruments sh)\<rparr>"

definition maestro_sheet_set_location :: "int \<Rightarrow> string list \<Rightarrow> int \<Rightarrow> 's sheet \<Rightarrow> 's sheet" where
  "maestro_sheet_set_location count topics qos sh =
     sh\<lparr>location := \<lparr>mt_count = count, mt_topics = topics, mt_qos = qos\<rparr>\<rparr>"

text \<open>An append to a null list, or of a null instrument that is looked at later, is
  outside the model of the list; the append itself succeeds.\<close>

definition maestro_sheet_add_instrument :: "'s instrument \<Rightarrow> 's sheet \<Rightarrow> 's sheet" where
  "maestro_sheet_add_instrument i sh = sh\<lparr>instruments := map_option (\<lambda>is. is @ [i]) (instruments sh)\<rparr>"

fun play_first :: "'s instrument list \<Rightarrow> player_info \<Rightarrow> maestro_note \<Rightarrow> maestro_note \<Rightarrow> 's \<Rightarrow>
    (bool \<times> maestro_note \<times> 's) run" where
  "play_first [] pinfo req resp s = Inr (False, resp, s)"
| "play_first (i # is) pinfo req resp s =
     (if maestro_instrument_can_play i req
      then run_bind (play i req resp pinfo s) (\<lambda>(resp', s'). Inr (True, resp', s'))
      else play_first is pinfo req resp s)"

definition maestro_sheet_do_play :: "'s instrument list option \<Rightarrow> player_info \<Rightarrow> maestro_note \<Rightarrow>
    maestro_note \<Rightarrow> 's \<Rightarrow> (bool \<times> maestro_note \<times> 's) run" where
  "maestro_sheet_do_play l pinfo req resp s =
    (case l of None \<Rightarrow> Inr (False, resp, s) | Some is \<Rightarrow> play_first is pinfo req resp s)"

text \<open>The end of \<open>maestro_sheet_play\<close>: serialize unless the note is ignored, then free
  both payloads.\<close>

definition sheet_finish :: "msgpack_api \<Rightarrow> gru_allocator \<Rightarrow> bool \<Rightarrow> maestro_note \<Rightarrow> maestro_note \<Rightarrow>
    msg_content \<Rightarrow> msg_content undef" where
  "sheet_finish mp al reply response request resp = do {
     resp' \<leftarrow> (if reply then map_option snd (maestro_serialize_note mp al response resp) else Some resp);
     r1 \<leftarrow> maestro_note_payload_cleanup response;
     r2 \<leftarrow> maestro_note_payload_cleanup request;
     Some resp'
   }"

definition response_header :: "player_info \<Rightarrow> maestro_note \<Rightarrow> maestro_note undef" where
  "response_header pinfo response = do {
     r1 \<leftarrow> maestro_note_response_set_id (pi_id pinfo) response;
     maestro_note_response_set_name (pi_name pinfo) r1
   }"

text \<open>The call of \<open>maestro_trace_proto\<close> is a macro that is empty but in debug builds (\<open>Debug\<close> has its functions).\<close>

definition maestro_sheet_play :: "msgpack_api \<Rightarrow> gru_allocator \<Rightarrow> 's sheet \<Rightarrow> player_info \<Rightarrow> msg_content \<Rightarrow>
    msg_content \<Rightarrow> gru_status \<Rightarrow> 's \<Rightarrow> (msg_content \<times> gru_status \<times> 's) run" where
  "maestro_sheet_play mp al sh pinfo req resp st s =
    (case maestro_note_payload_prepare al (maestro_note_set_type MAESTRO_TYPE_RESPONSE zero_note) st of
       (prepared, response, st1) \<Rightarrow>
         if \<not> prepared then
           run_bind (of_undef (sheet_finish mp al True
             (maestro_note_set_cmd MAESTRO_NOTE_INTERNAL_ERROR response) zero_note resp)) (\<lambda>resp'.
           Inr (resp', st1, s))
         else
           run_bind (of_undef (response_header pinfo response)) (\<lambda>response.
           run_bind (of_undef (maestro_deserialize_note mp al req zero_note st1)) (\<lambda>(parsed, request, st2).
           if \<not> parsed then
             run_bind (of_undef (sheet_finish mp al True
               (maestro_note_set_cmd MAESTRO_NOTE_PROTOCOL_ERROR response) request resp)) (\<lambda>resp'.
             Inr (resp', st2, s))
           else
             run_bind (maestro_sheet_do_play (instruments sh) pinfo request response s)
               (\<lambda>(played, response', s').
             run_bind (of_undef (sheet_finish mp al played response' request resp)) (\<lambda>resp'.
             Inr (resp', st2, s'))))))"

section \<open>Dispatch\<close>

lemma play_first_find:
  "play_first is pinfo req resp s =
    (case find (\<lambda>i. maestro_instrument_can_play i req) is of
       None \<Rightarrow> Inr (False, resp, s)
     | Some i \<Rightarrow> run_bind (play i req resp pinfo s) (\<lambda>(resp', s'). Inr (True, resp', s')))"
  by (induction "is") auto

definition fresh_response :: "player_info \<Rightarrow> maestro_note" where
  "fresh_response pinfo = \<lparr>n_type = type_code MAESTRO_TYPE_RESPONSE, n_command = 0,
     n_payload = PAt (zero_payload[response_id := Str (pi_id pinfo), response_name := Str (pi_name pinfo)])\<rparr>"

lemma response_header_fresh:
  "response_header pinfo \<lparr>n_type = type_code MAESTRO_TYPE_RESPONSE, n_command = 0,
     n_payload = PAt zero_payload\<rparr> = Some (fresh_response pinfo)"
  by (simp add: response_header_def maestro_note_response_set_id_def maestro_note_response_set_name_def
      note_store_def fresh_response_def payload_cells_def)

text \<open>With memory for the payload, a request is parsed and dispatched with a response
  that carries the identity of the player.\<close>

lemma sheet_play_steps:
  assumes "al sizeof_payload = None"
  shows "maestro_sheet_play mp al sh pinfo req resp st s =
    run_bind (of_undef (maestro_deserialize_note mp al req zero_note st)) (\<lambda>(parsed, request, st2).
      if \<not> parsed then
        run_bind (of_undef (sheet_finish mp al True
          (maestro_note_set_cmd MAESTRO_NOTE_PROTOCOL_ERROR (fresh_response pinfo)) request resp)) (\<lambda>resp'.
        Inr (resp', st2, s))
      else
        run_bind (maestro_sheet_do_play (instruments sh) pinfo request (fresh_response pinfo) s)
          (\<lambda>(played, response', s').
        run_bind (of_undef (sheet_finish mp al played response' request resp)) (\<lambda>resp'.
        Inr (resp', st2, s'))))"
  using response_header_fresh [of pinfo] assms
  by (simp add: maestro_sheet_play_def payload_prepare_ok maestro_note_set_type_def zero_note_def)

lemma fresh_response_view:
  "c \<notin> {MAESTRO_NOTE_PING, MAESTRO_NOTE_STATS} \<Longrightarrow>
   note_view (maestro_note_set_cmd c (fresh_response pinfo))
     = Some (Plain_Response (command_code c) (pi_id pinfo) (pi_name pinfo))"
  by (simp add: view_defs fresh_response_def maestro_note_set_cmd_def payload_cells_def del: command_code.simps)

lemma sheet_finish_view:
  assumes "note_view response = Some r" and "n_payload response \<noteq> PWild"
    and "maestro_note_payload_cleanup request = Some q"
  shows "sheet_finish mp al True response request resp
    = Some (snd (msg_content_data_copy al resp (message_bytes mp r)))"
  using note_view_cleanup [OF assms(1,2)] serialize_note_view [OF assms(1), of mp al resp] assms(3)
  by (simp add: sheet_finish_def emit_def)

lemma note_view_command: "note_view n = Some m \<Longrightarrow> n_command n = snd (message_head m)"
  by (auto simp: note_view_def request_view_def response_view_def stats_view_def notification_view_def
      bind_eq_Some_conv split: if_splits)

lemma sheet_play_parsed:
  assumes "msgpack mp" and "content_bytes req = Some (message_bytes mp m)"
    and "message_ok al m" and "message_proper m"
  shows "\<exists>request. note_view request = Some m \<and>
    maestro_note_payload_cleanup request = Some (request\<lparr>n_payload := PNull\<rparr>) \<and>
    maestro_sheet_play mp al sh pinfo req resp st s =
      run_bind (maestro_sheet_do_play (instruments sh) pinfo request (fresh_response pinfo) s)
        (\<lambda>(played, response', s').
      run_bind (of_undef (sheet_finish mp al played response' request resp)) (\<lambda>resp'.
      Inr (resp', st, s')))"
proof -
  from assms(2) have "content_bytes req = Some (message_bytes mp m @ [])" by simp
  from msgpack.deserialize_message [OF assms(1,3,4) this]
  obtain request where r: "maestro_deserialize_note mp al req zero_note st = Some (True, request, st)"
    "note_view request = Some m" "note_wf request"
    by blast
  then have "maestro_note_payload_cleanup request = Some (request\<lparr>n_payload := PNull\<rparr>)"
    by (intro note_view_cleanup) (auto simp: note_wf_def)
  moreover have "al sizeof_payload = None" using assms(3) by (simp add: message_ok_def)
  ultimately show ?thesis using r by (auto simp: sheet_play_steps)
qed

lemma sheet_reply:
  assumes "msgpack mp" and "content_bytes req = Some (message_bytes mp m)"
    and "message_ok al m" and "message_proper m" and "instruments sh = Some is"
    and "find (\<lambda>i. n_command (tessitura i) = snd (message_head m)) is = Some i"
    and "\<And>request. note_view request = Some m \<Longrightarrow>
      play i request (fresh_response pinfo) pinfo s = Inr (response, s')"
    and "note_view response = Some r" and "n_payload response \<noteq> PWild"
    and "al (length (message_bytes mp r)) = None" and "length (message_bytes mp r) < 2 ^ 64"
  shows "\<exists>out. maestro_sheet_play mp al sh pinfo req resp st s = Inr (out, st, s') \<and>
    content_bytes out = Some (message_bytes mp r)"
proof -
  from sheet_play_parsed [OF assms(1-4), of sh pinfo resp st s] obtain request where
    v: "note_view request = Some m" and c: "maestro_note_payload_cleanup request = Some (request\<lparr>n_payload := PNull\<rparr>)"
    and play: "maestro_sheet_play mp al sh pinfo req resp st s =
      run_bind (maestro_sheet_do_play (instruments sh) pinfo request (fresh_response pinfo) s)
        (\<lambda>(played, response', s').
      run_bind (of_undef (sheet_finish mp al played response' request resp)) (\<lambda>resp'.
      Inr (resp', st, s')))"
    by blast
  have "maestro_sheet_do_play (instruments sh) pinfo request (fresh_response pinfo) s
      = Inr (True, response, s')"
    using assms(5-7) note_view_command [OF v] v
    by (simp add: maestro_sheet_do_play_def play_first_find maestro_instrument_can_play_def)
  with play sheet_finish_view [OF assms(8,9) c, of mp al resp] assms(10,11) show ?thesis
    by (simp add: copy_bytes)
qed

lemma sheet_error_reply:
  assumes "al sizeof_payload = None"
    and "maestro_deserialize_note mp al req zero_note st = Some (False, request, st')"
    and "maestro_note_payload_cleanup request = Some q"
  shows "maestro_sheet_play mp al sh pinfo req resp st s
    = Inr (snd (msg_content_data_copy al resp (message_bytes mp
        (Plain_Response (command_code MAESTRO_NOTE_PROTOCOL_ERROR) (pi_id pinfo) (pi_name pinfo)))), st', s)"
proof -
  let ?r = "maestro_note_set_cmd MAESTRO_NOTE_PROTOCOL_ERROR (fresh_response pinfo)"
  have "note_view ?r = Some (Plain_Response (command_code MAESTRO_NOTE_PROTOCOL_ERROR) (pi_id pinfo) (pi_name pinfo))"
    by (rule fresh_response_view) simp
  moreover have "n_payload ?r \<noteq> PWild" by (simp add: maestro_note_set_cmd_def fresh_response_def)
  ultimately have "sheet_finish mp al True ?r request resp = Some (snd (msg_content_data_copy al resp
      (message_bytes mp (Plain_Response (command_code MAESTRO_NOTE_PROTOCOL_ERROR) (pi_id pinfo) (pi_name pinfo)))))"
    using assms(3) by (rule sheet_finish_view)
  with assms(1,2) show ?thesis by (simp add: sheet_play_steps del: command_code.simps)
qed

section \<open>Properties\<close>

text \<open>
  Also proved, sheet_dispatch. A request is played by the first instrument of the
  sheet whose command equals that of the request, and by no other; without such an
  instrument neither the response nor the daemon's state changes.
\<close>

theorem sheet_dispatch:
  "maestro_sheet_do_play (Some is) pinfo req resp s =
    (case find (\<lambda>i. n_command (tessitura i) = n_command req) is of
       None \<Rightarrow> Inr (False, resp, s)
     | Some i \<Rightarrow> run_bind (play i req resp pinfo s) (\<lambda>(resp', s'). Inr (True, resp', s')))"
  by (simp add: maestro_sheet_do_play_def play_first_find maestro_instrument_can_play_def)

text \<open>
  Property C9, sheet_answers_request. When the bytes of a message arrive and the
  sheet has an instrument for its command, that instrument's handler is run on the
  note that says this message and on a response carrying the player's identity;
  what the handler leaves in the response is what the reply says on the wire, the
  state is the one the handler leaves, and the status is untouched.
\<close>

theorem sheet_answers_request:
  assumes "msgpack mp" and "content_bytes req = Some (message_bytes mp m)"
    and "message_ok al m" and "message_proper m" and "instruments sh = Some is"
    and "find (\<lambda>i. n_command (tessitura i) = snd (message_head m)) is = Some i"
    and "\<And>request. note_view request = Some m \<Longrightarrow>
      play i request (fresh_response pinfo) pinfo s = Inr (response, s')"
    and "note_view response = Some r" and "n_payload response \<noteq> PWild"
    and "al (length (message_bytes mp r)) = None" and "length (message_bytes mp r) < 2 ^ 64"
  shows "\<exists>out. maestro_sheet_play mp al sh pinfo req resp st s = Inr (out, st, s') \<and>
    content_bytes out = Some (message_bytes mp r)"
  by (rule sheet_reply [OF assms])

definition sample_sheet :: "nat sheet" where
  "sample_sheet = \<lparr>location = zero_location,
     instruments = Some [\<lparr>tessitura = maestro_note_set_cmd MAESTRO_NOTE_FLUSH zero_note,
       play = (\<lambda>req resp pinfo s. Inr (maestro_note_set_cmd MAESTRO_NOTE_OK resp, Suc s))\<rparr>]\<rparr>"

definition sample_info :: player_info where
  "sample_info = \<lparr>pi_id = ''7'', pi_name = ''p''\<rparr>"

definition sample_content :: "byte list \<Rightarrow> msg_content" where
  "sample_content bs = snd (msg_content_data_copy (\<lambda>k. None) zero_content bs)"

lemma sample_content_bytes: "length bs < 2 ^ 64 \<Longrightarrow> content_bytes (sample_content bs) = Some bs"
  by (simp add: sample_content_def copy_bytes)

theorem sheet_answers_request_witness:
  "\<exists>out. maestro_sheet_play msgpack_format (\<lambda>k. None) sample_sheet sample_info
      (sample_content (message_bytes msgpack_format (Plain_Request 6))) zero_content St_New (4 :: nat)
      = Inr (out, St_New, 5) \<and>
    content_bytes out = Some (message_bytes msgpack_format (Plain_Response 11 ''7'' ''p''))"
proof (rule sheet_answers_request [OF mpf.msgpack_axioms])
  show "content_bytes (sample_content (message_bytes msgpack_format (Plain_Request 6)))
      = Some (message_bytes msgpack_format (Plain_Request 6))"
    by (rule sample_content_bytes) (simp add: format_defs)
  show "instruments sample_sheet = Some (the (instruments sample_sheet))"
    by (simp add: sample_sheet_def)
  show "find (\<lambda>i. n_command (tessitura i) = snd (message_head (Plain_Request 6))) (the (instruments sample_sheet))
      = Some (hd (the (instruments sample_sheet)))"
    by (simp add: sample_sheet_def maestro_note_set_cmd_def)
  show "play (hd (the (instruments sample_sheet))) request (fresh_response sample_info) sample_info 4
      = Inr (maestro_note_set_cmd MAESTRO_NOTE_OK (fresh_response sample_info), 5)" for request
    by (simp add: sample_sheet_def)
  show "note_view (maestro_note_set_cmd MAESTRO_NOTE_OK (fresh_response sample_info))
      = Some (Plain_Response 11 ''7'' ''p'')"
    by (simp add: fresh_response_view sample_info_def)
qed (simp_all add: message_ok_def format_defs fresh_response_def maestro_note_set_cmd_def)

text \<open>
  Also proved, sheet_ignores_unknown. A valid message no instrument of the sheet
  handles is ignored: no reply is produced and nothing changes.
\<close>

theorem sheet_ignores_unknown:
  assumes "msgpack mp" and "content_bytes req = Some (message_bytes mp m)"
    and "message_ok al m" and "message_proper m" and "instruments sh = Some is"
    and "find (\<lambda>i. n_command (tessitura i) = snd (message_head m)) is = None"
  shows "maestro_sheet_play mp al sh pinfo req resp st s = Inr (resp, st, s)"
proof -
  from sheet_play_parsed [OF assms(1-4), of sh pinfo resp st s] obtain request where
    v: "note_view request = Some m" and c: "maestro_note_payload_cleanup request = Some (request\<lparr>n_payload := PNull\<rparr>)"
    and play: "maestro_sheet_play mp al sh pinfo req resp st s =
      run_bind (maestro_sheet_do_play (instruments sh) pinfo request (fresh_response pinfo) s)
        (\<lambda>(played, response', s').
      run_bind (of_undef (sheet_finish mp al played response' request resp)) (\<lambda>resp'.
      Inr (resp', st, s')))"
    by blast
  have "maestro_sheet_do_play (instruments sh) pinfo request (fresh_response pinfo) s
      = Inr (False, fresh_response pinfo, s)"
    using assms(5,6) note_view_command [OF v]
    by (simp add: maestro_sheet_do_play_def play_first_find maestro_instrument_can_play_def)
  moreover have "maestro_note_payload_cleanup (fresh_response pinfo)
      = Some ((fresh_response pinfo)\<lparr>n_payload := PNull\<rparr>)"
    by (simp add: maestro_note_payload_cleanup_def fresh_response_def payload_free_strings_def
        dealloc_if_def payload_cells_def)
  ultimately show ?thesis using play c by (simp add: sheet_finish_def)
qed

theorem sheet_ignores_unknown_witness:
  "maestro_sheet_play msgpack_format (\<lambda>k. None) sample_sheet sample_info
     (sample_content (message_bytes msgpack_format (Plain_Request 9))) zero_content St_New (4 :: nat)
   = Inr (zero_content, St_New, 4)"
proof (rule sheet_ignores_unknown [OF mpf.msgpack_axioms])
  show "content_bytes (sample_content (message_bytes msgpack_format (Plain_Request 9)))
      = Some (message_bytes msgpack_format (Plain_Request 9))"
    by (rule sample_content_bytes) (simp add: format_defs)
  show "instruments sample_sheet = Some (the (instruments sample_sheet))"
    by (simp add: sample_sheet_def)
qed (simp_all add: sample_sheet_def maestro_note_set_cmd_def message_ok_def)

text \<open>
  Also proved, sheet_protocol_error. A request that cannot be parsed (and whose
  partial note can be freed) is answered with a protocol error that carries the
  player's identity, and no handler is run; the failed status is passed on.
\<close>

theorem sheet_protocol_error:
  assumes "al sizeof_payload = None"
    and "maestro_deserialize_note mp al req zero_note st = Some (False, request, st')"
    and "maestro_note_payload_cleanup request = Some q"
  shows "maestro_sheet_play mp al sh pinfo req resp st s
    = Inr (snd (msg_content_data_copy al resp (message_bytes mp
        (Plain_Response (command_code MAESTRO_NOTE_PROTOCOL_ERROR) (pi_id pinfo) (pi_name pinfo)))), st', s)"
  by (rule sheet_error_reply [OF assms])

theorem sheet_protocol_error_witness:
  "maestro_sheet_play msgpack_format (\<lambda>k. None) sample_sheet sample_info zero_content zero_content St_New (4 :: nat)
    = Inr (snd (msg_content_data_copy (\<lambda>k. None) zero_content (message_bytes msgpack_format
        (Plain_Response (command_code MAESTRO_NOTE_PROTOCOL_ERROR) (pi_id sample_info) (pi_name sample_info)))),
      St_Set GRU_FAILURE ''Unable to unpack protocol data: invalid and/or missing note type'', 4)"
  by (rule sheet_protocol_error [of _ _ _ _ zero_note _ zero_note])
     (simp_all add: maestro_deserialize_note_def content_bytes_def zero_content_def
      maestro_deserialize_buffer_def read_next_def msgpack_format_def fmt_unpack_next_def fmt_unpack_def
      maestro_note_payload_cleanup_def zero_note_def)

text \<open>
  Also proved, sheet_prepare_failure. When the payload of the response cannot be
  allocated, the branch that is meant to answer with an internal error serializes
  a response without a payload: the run is undefined.
\<close>

theorem sheet_prepare_failure:
  assumes "al sizeof_payload = Some m"
  shows "maestro_sheet_play mp al sh pinfo req resp st s = Inl Undefined"
  using assms
  by (simp add: maestro_sheet_play_def maestro_note_payload_prepare_def sheet_finish_def
      maestro_serialize_note_def maestro_serialize_response_def maestro_serialize_empty_exchange_def
      maestro_serialize_response_header_def note_str_def note_cell_def maestro_note_set_cmd_def
      maestro_note_set_type_def)

theorem sheet_prepare_failure_witness:
  "maestro_sheet_play msgpack_format (\<lambda>k. Some ''no memory'') sample_sheet sample_info zero_content zero_content
     St_New 4 = Inl Undefined"
  by (rule sheet_prepare_failure) simp

end
