(* ===== verification/Player.thy ===== *)
theory Player
  imports Sheet
begin

text \<open>
  The maestro player, \<open>src/orchestration/maestro/maestro_player.c\<close>, which owns the
  connection of a daemon to the orchestration broker and answers requests with
  its sheet, and the notifications of \<open>maestro_notify.c\<close>. The messaging functions are
  the table \<open>vmsl\<close> the player was assigned; the world they act on is passed along.
  The \<open>cancel\<close> flag is set by another thread, so the loop of \<open>maestro_player_run\<close>
  takes the value it reads at each iteration as an argument, and fuel.
\<close>

section \<open>State\<close>

record ('w, 's) player =
  pl_thread :: bool
  pl_uri :: gru_uri
  pl_mmsl :: "'w vmsl"
  pl_handlers :: handlers
  pl_ctxt :: "msg_ctxt option"
  pl_sheet :: "'s sheet option"
  pl_id :: "string option"
  pl_name :: string
  pl_cancel :: bool

definition player_info_of :: "('w, 's) player \<Rightarrow> player_info undef" where
  "player_info_of pl = map_option (\<lambda>i. \<lparr>pi_id = i, pi_name = pl_name pl\<rparr>) (pl_id pl)"

definition MAESTRO_TOPIC :: string where "MAESTRO_TOPIC = ''/mpt/maestro''"
definition MAESTRO_ALL_DAEMONS :: string where "MAESTRO_ALL_DAEMONS = ''/mpt/daemon''"
definition MAESTRO_DEFAULT_QOS :: int where "MAESTRO_DEFAULT_QOS = 1"
definition MAESTRO_NOTIFICATIONS :: string where "MAESTRO_NOTIFICATIONS = ''/mpt/notifications''"
definition MAESTRO_NOTE_SIZE :: u64 where "MAESTRO_NOTE_SIZE = 256"

text \<open>\<open>gru_uri_set_path\<close> on the options of a context.\<close>

definition ctxt_set_path :: "string \<Rightarrow> msg_ctxt \<Rightarrow> msg_ctxt" where
  "ctxt_set_path p c = c\<lparr>msg_opts := msg_opts c\<lparr>mo_uri := (mo_uri (msg_opts c))\<lparr>uri_path := p\<rparr>\<rparr>\<rparr>"

section \<open>Answering a note\<close>

definition maestro_player_handle_note :: "msgpack_api \<Rightarrow> gru_allocator \<Rightarrow> ('w, 's) player \<Rightarrow> msg_content \<Rightarrow>
    gru_status \<Rightarrow> 's \<Rightarrow> 'w \<Rightarrow> (('w, 's) player \<times> gru_status \<times> 's \<times> 'w) run" where
  "maestro_player_handle_note mp al pl mdata st s w =
    run_bind (of_undef (player_info_of pl)) (\<lambda>pinfo.
    run_bind (of_undef (pl_sheet pl)) (\<lambda>sh.
    run_bind (maestro_sheet_play mp al sh pinfo mdata zero_content st s) (\<lambda>(resp, st1, s').
    if \<not> gru_status_success st1 then Inr (pl, st1, s', w)
    else if mc_data resp \<noteq> None then
      run_bind (of_undef (pl_ctxt pl)) (\<lambda>ctxt.
      run_bind (of_undef (v_send (pl_mmsl pl))) (\<lambda>send.
      let ctxt' = ctxt_set_path MAESTRO_TOPIC ctxt;
          (ret, resp', st2, w') = send ctxt' (pl_handlers pl) resp st1 w in
      Inr (pl\<lparr>pl_ctxt := Some ctxt'\<rparr>, st2, s', w')))
    else Inr (pl, st1, s', w))))"

text \<open>\<open>cancelled k\<close> is what the loop condition reads at iteration \<open>k\<close>.\<close>

fun player_loop :: "msgpack_api \<Rightarrow> gru_allocator \<Rightarrow> (nat \<Rightarrow> bool) \<Rightarrow> nat \<Rightarrow> nat \<Rightarrow> ('w, 's) player \<Rightarrow>
    msg_content \<Rightarrow> 's \<Rightarrow> 'w \<Rightarrow> (('w, 's) player \<times> 's \<times> 'w) run" where
  "player_loop mp al cancelled 0 k pl mdata s w = Inl Out_of_fuel"
| "player_loop mp al cancelled (Suc fuel) k pl mdata s w =
    (if cancelled k then Inr (pl, s, w)
     else
       run_bind (of_undef (msg_content_data_reset mdata)) (\<lambda>mdata1.
       run_bind (of_undef (v_receive (pl_mmsl pl))) (\<lambda>receive.
       run_bind (of_undef (pl_ctxt pl)) (\<lambda>ctxt.
       case receive ctxt (pl_handlers pl) mdata1 St_New w of (rstat, mdata2, st, w1) \<Rightarrow>
         if vmsl_stat_error rstat then Inr (pl, s, w1)
         else if vmsl_has_data rstat then
           run_bind (maestro_player_handle_note mp al pl mdata2 st s w1) (\<lambda>(pl', st', s', w').
           player_loop mp al cancelled fuel (Suc k) pl' mdata2 s' w')
         else player_loop mp al cancelled fuel (Suc k) pl mdata2 s w1))))"

definition maestro_player_run :: "msgpack_api \<Rightarrow> gru_allocator \<Rightarrow> (nat \<Rightarrow> bool) \<Rightarrow> nat \<Rightarrow> ('w, 's) player \<Rightarrow>
    's \<Rightarrow> 'w \<Rightarrow> (('w, 's) player \<times> 's \<times> 'w) run" where
  "maestro_player_run mp al cancelled fuel pl s w =
    (case msg_content_data_new al MAESTRO_NOTE_SIZE St_New of
       (mdata, st) \<Rightarrow>
         if \<not> gru_status_success st then Inr (pl, s, w)
         else run_bind (of_undef mdata) (\<lambda>c. player_loop mp al cancelled fuel 0 pl c s w))"

section \<open>Starting and stopping\<close>

text \<open>
  What \<open>maestro_player_start\<close> obtains from elsewhere: the URL and the name from the
  options, \<open>gru_uri_clone\<close> (with the status it leaves), the protocol assignment, the
  generated identifier, and the results of the \<open>gru_list_new\<close> calls, of the
  list append and of \<open>pthread_create\<close>.
\<close>

record 'w player_env =
  pe_name :: string
  pe_clone :: "gru_status \<Rightarrow> gru_uri \<times> gru_status"
  pe_assign :: "gru_uri \<Rightarrow> 'w vmsl \<Rightarrow> bool \<times> 'w vmsl"
  pe_uuid :: "string option"
  pe_list_new :: "nat \<Rightarrow> bool"
  pe_append :: bool
  pe_pthread_create :: int

definition zero_uri :: gru_uri where
  "zero_uri = \<lparr>uri_scheme = None, uri_host = None, uri_path = [], uri_query = None\<rparr>"

definition sizeof_player :: nat where
  "sizeof_player = 240"

text \<open>The allocation is not checked before the table is stored in it.\<close>

definition maestro_player_new :: "gru_allocator \<Rightarrow> ('w, 's) player undef" where
  "maestro_player_new al = (case al sizeof_player of
     Some m \<Rightarrow> None
   | None \<Rightarrow> Some \<lparr>pl_thread = False, pl_uri = zero_uri, pl_mmsl = vmsl_init,
       pl_handlers = no_handlers, pl_ctxt = None, pl_sheet = None, pl_id = None,
       pl_name = [], pl_cancel = False\<rparr>)"

definition player_opts :: "('w, 's) player \<Rightarrow> msg_opt undef" where
  "player_opts pl = map_option (\<lambda>i. \<lparr>mo_direction = MSG_DIRECTION_SENDER, mo_statistics = MSG_STAT_NONE,
     mo_conn_id = i, mo_uri = pl_uri pl\<rparr>) (pl_id pl)"

definition maestro_player_connect :: "'w player_env \<Rightarrow> gru_allocator \<Rightarrow> ('w, 's) player \<Rightarrow> gru_status \<Rightarrow> 'w \<Rightarrow>
    (bool \<times> ('w, 's) player \<times> gru_status \<times> 'w) undef" where
  "maestro_player_connect env al pl st w = do {
     opt \<leftarrow> player_opts pl;
     (h, st1) \<leftarrow> add_before_connect al (pe_append env) CB_abnormal_disconnect Arg_Player_Info
                  (vmslh_new (pe_list_new env), st);
     init \<leftarrow> v_init (pl_mmsl pl);
     case init opt h st1 w of (ctxt, h', st2, w2) \<Rightarrow>
       (let pl1 = pl\<lparr>pl_handlers := h', pl_ctxt := ctxt\<rparr> in
        case ctxt of
          None \<Rightarrow> Some (False, pl1, st2, w2)
        | Some c \<Rightarrow> do {
            start \<leftarrow> v_start (pl_mmsl pl);
            case start c h' st2 w2 of (ret, st3, w3) \<Rightarrow>
              if vmsl_stat_error ret then Some (False, pl1, st3, w3)
              else do {
                subscribe \<leftarrow> v_subscribe (pl_mmsl pl);
                sh \<leftarrow> pl_sheet pl;
                case subscribe c (Some (location sh)) st3 w3 of (ret2, st4, w4) \<Rightarrow>
                  Some (True, pl1, st4, w4)
              }
          })
   }"

text \<open>The static \<open>splayer\<close> is the state; every return of the code is a branch.\<close>

definition player_start_connected :: "'w player_env \<Rightarrow> gru_allocator \<Rightarrow> ('w, 's) player \<Rightarrow> gru_status \<Rightarrow> 'w \<Rightarrow>
    (bool \<times> ('w, 's) player option \<times> gru_status \<times> 'w) undef" where
  "player_start_connected env al pl st w =
    (case pe_uuid env of
       None \<Rightarrow> Some (False, Some (pl\<lparr>pl_uri := zero_uri, pl_name := pe_name env\<rparr>), st, w)
     | Some i \<Rightarrow> do {
         (ok, pl1, st1, w1) \<leftarrow> maestro_player_connect env al (pl\<lparr>pl_name := pe_name env, pl_id := Some i\<rparr>) st w;
         if \<not> ok then Some (False, Some (pl1\<lparr>pl_uri := zero_uri\<rparr>), st1, w1)
         else if pe_pthread_create env \<noteq> 0 then Some (False, Some (pl1\<lparr>pl_uri := zero_uri\<rparr>), st1, w1)
         else Some (True, Some (pl1\<lparr>pl_thread := True\<rparr>), st1, w1)
       })"

definition maestro_player_start :: "'w player_env \<Rightarrow> gru_allocator \<Rightarrow> 's sheet \<Rightarrow> ('w, 's) player option \<Rightarrow>
    gru_status \<Rightarrow> 'w \<Rightarrow> (bool \<times> ('w, 's) player option \<times> gru_status \<times> 'w) undef" where
  "maestro_player_start env al sh splayer st w =
    (case splayer of
       Some pl \<Rightarrow> Some (False, Some pl, St_Set GRU_FAILURE ''Maestro player is already initialized'', w)
     | None \<Rightarrow> do {
         pl \<leftarrow> maestro_player_new al;
         (case pe_clone env st of (uri, st1) \<Rightarrow>
           let pl1 = pl\<lparr>pl_sheet := Some sh, pl_uri := uri\<rparr> in
           if \<not> gru_status_success st1 then Some (False, Some pl1, st1, w)
           else (case pe_assign env uri (pl_mmsl pl1) of (ok, v) \<Rightarrow>
             let pl2 = pl1\<lparr>pl_mmsl := v\<rparr> in
             if \<not> ok then Some (False, Some pl2,
                 St_Set GRU_FAILURE ''Unable to assign a VMSL for the maestro player'', w)
             else player_start_connected env al pl2 st1 w))
       })"

text \<open>\<open>maestro_player_stop\<close> with \<open>maestro_player_destroy\<close>: the thread is joined, the
  connection stopped and destroyed, everything freed.\<close>

definition maestro_player_destroy :: "('w, 's) player \<Rightarrow> gru_status \<Rightarrow> 'w \<Rightarrow> (gru_status \<times> 'w) undef" where
  "maestro_player_destroy pl st w = do {
     stop \<leftarrow> v_stop (pl_mmsl pl);
     destroy \<leftarrow> v_destroy (pl_mmsl pl);
     (case stop (pl_ctxt pl) st w of (st1, w1) \<Rightarrow> Some (destroy (pl_ctxt pl) st1 w1))
   }"

definition maestro_player_stop :: "('w, 's) player option \<Rightarrow> gru_status \<Rightarrow> 'w \<Rightarrow>
    (bool \<times> ('w, 's) player option \<times> gru_status \<times> 'w) undef" where
  "maestro_player_stop splayer st w =
    (case splayer of
       None \<Rightarrow> Some (True, None, st, w)
     | Some pl \<Rightarrow> do {
         (st1, w1) \<leftarrow> maestro_player_destroy (pl\<lparr>pl_cancel := True\<rparr>) st w;
         Some (True, None, st1, w1)
       })"

section \<open>Notifications\<close>

text \<open>The note of a notification, built in the order of the code.\<close>

definition notification_note :: "gru_allocator \<Rightarrow> maestro_command \<Rightarrow> player_info \<Rightarrow> string \<Rightarrow> maestro_note undef" where
  "notification_note al cmd pinfo msg =
    (let n = maestro_note_set_cmd cmd (maestro_note_set_type MAESTRO_TYPE_NOTIFICATION zero_note) in
     case maestro_note_payload_prepare al n St_New of (b, n1, st) \<Rightarrow> do {
       n2 \<leftarrow> maestro_note_response_set_id (pi_id pinfo) n1;
       n3 \<leftarrow> maestro_note_response_set_name (pi_name pinfo) n2;
       maestro_note_notification_set_message msg n3
     })"

definition send_notification :: "msgpack_api \<Rightarrow> gru_allocator \<Rightarrow> bool \<Rightarrow> maestro_command \<Rightarrow> string \<Rightarrow>
    ('w, 's) player option \<Rightarrow> gru_status \<Rightarrow> 'w \<Rightarrow> (('w, 's) player \<times> gru_status \<times> 'w) undef" where
  "send_notification mp al app cmd msg splayer st w = do {
     pl \<leftarrow> splayer;
     pinfo \<leftarrow> player_info_of pl;
     note \<leftarrow> notification_note al cmd pinfo msg;
     ctxt \<leftarrow> pl_ctxt pl;
     (let ctxt' = ctxt_set_path MAESTRO_NOTIFICATIONS ctxt;
          (data, st1) = msg_content_data_init al MAESTRO_NOTE_SIZE st zero_content in do {
       (b, data') \<leftarrow> maestro_serialize_note mp al note data;
       (h1, st2) \<leftarrow> add_before_send al app CB_retained (Arg_Variant (boolean_variant True)) (pl_handlers pl, st1);
       send \<leftarrow> v_send (pl_mmsl pl);
       (case send ctxt' h1 data' st2 w of (ret, data'', st3, w') \<Rightarrow> do {
         (h2, st4) \<leftarrow> add_before_send al app CB_retained Arg_Null (h1, st3);
         n' \<leftarrow> maestro_note_payload_cleanup note;
         Some (pl\<lparr>pl_ctxt := Some ctxt', pl_handlers := h2\<rparr>, st4, w')
       })
     })
   }"

definition maestro_notify_test_failed :: "msgpack_api \<Rightarrow> gru_allocator \<Rightarrow> bool \<Rightarrow> ('w, 's) player option \<Rightarrow>
    gru_status \<Rightarrow> 'w \<Rightarrow> (('w, 's) player \<times> gru_status \<times> 'w) undef" where
  "maestro_notify_test_failed mp al app splayer st w =
     send_notification mp al app MAESTRO_NOTE_NOTIFY_FAIL (gru_status_message st) splayer st w"

definition maestro_notify_test_successful :: "msgpack_api \<Rightarrow> gru_allocator \<Rightarrow> bool \<Rightarrow> ('w, 's) player option \<Rightarrow>
    gru_status \<Rightarrow> 'w \<Rightarrow> (('w, 's) player \<times> gru_status \<times> 'w) undef" where
  "maestro_notify_test_successful mp al app splayer st w =
     send_notification mp al app MAESTRO_NOTE_NOTIFY_SUCCESS ''Test completed successfully'' splayer st w"

definition maestro_notify_abnormal_disconnect :: "msgpack_api \<Rightarrow> gru_allocator \<Rightarrow> player_info \<Rightarrow>
    mqtt_connect_opts \<Rightarrow> mqtt_connect_opts undef" where
  "maestro_notify_abnormal_disconnect mp al pinfo opts = do {
     note \<leftarrow> notification_note al MAESTRO_NOTE_ABNORMAL_DISCONNECT pinfo ''The client disconnected abnormally'';
     wdata \<leftarrow> fst (msg_content_data_new al MAESTRO_NOTE_SIZE St_New);
     (b, wdata') \<leftarrow> maestro_serialize_note mp al note wdata;
     Some (opts\<lparr>mqtt_will := Some (mc_data wdata', sint (ucast (mc_size wdata') :: u32), MAESTRO_NOTIFICATIONS)\<rparr>)
   }"

section \<open>Properties of the player\<close>

lemma handle_note_reply:
  assumes "player_info_of pl = Some pinfo" and "pl_sheet pl = Some sh" and "pl_ctxt pl = Some ctxt"
    and "v_send (pl_mmsl pl) = Some send"
    and "maestro_sheet_play mp al sh pinfo mdata zero_content st s = Inr (resp, st, s')"
    and "gru_status_success st" and "mc_data resp \<noteq> None"
  shows "maestro_player_handle_note mp al pl mdata st s w =
    (case send (ctxt_set_path MAESTRO_TOPIC ctxt) (pl_handlers pl) resp st w of
       (ret, resp', st', w') \<Rightarrow> Inr (pl\<lparr>pl_ctxt := Some (ctxt_set_path MAESTRO_TOPIC ctxt)\<rparr>, st', s', w'))"
  using assms by (simp add: maestro_player_handle_note_def Let_def)

text \<open>
  Also proved, player_replies. When the bytes of a message arrive, the sheet has an
  instrument for its command and the handler leaves the response \<open>r\<close>, the player
  sends exactly one message: to the topic \<open>/mpt/maestro\<close>, with the bytes of \<open>r\<close>.
\<close>

theorem player_replies:
  assumes "msgpack mp" and "content_bytes mdata = Some (message_bytes mp m)"
    and "message_ok al m" and "message_proper m"
    and "player_info_of pl = Some pinfo" and "pl_sheet pl = Some sh" and "pl_ctxt pl = Some ctxt"
    and "v_send (pl_mmsl pl) = Some send" and "instruments sh = Some is"
    and "find (\<lambda>i. n_command (tessitura i) = snd (message_head m)) is = Some i"
    and "\<And>request. note_view request = Some m \<Longrightarrow>
      play i request (fresh_response pinfo) pinfo s = Inr (response, s')"
    and "note_view response = Some r" and "n_payload response \<noteq> PWild"
    and "al (length (message_bytes mp r)) = None" and "length (message_bytes mp r) < 2 ^ 64"
    and "message_bytes mp r \<noteq> []"
  shows "\<exists>resp. content_bytes resp = Some (message_bytes mp r) \<and>
    uri_path (mo_uri (msg_opts (ctxt_set_path MAESTRO_TOPIC ctxt))) = ''/mpt/maestro'' \<and>
    maestro_player_handle_note mp al pl mdata St_New s w =
      (case send (ctxt_set_path MAESTRO_TOPIC ctxt) (pl_handlers pl) resp St_New w of
         (ret, resp', st', w') \<Rightarrow> Inr (pl\<lparr>pl_ctxt := Some (ctxt_set_path MAESTRO_TOPIC ctxt)\<rparr>, st', s', w'))"
proof -
  obtain resp where r: "maestro_sheet_play mp al sh pinfo mdata zero_content St_New s = Inr (resp, St_New, s')"
    "content_bytes resp = Some (message_bytes mp r)"
    using sheet_reply [OF assms(1-4,9-15), of zero_content St_New] by blast
  then have "mc_data resp \<noteq> None" using assms(16) by (auto simp: content_bytes_def split: if_splits option.splits)
  with r handle_note_reply [OF assms(5-8) r(1)] show ?thesis
    by (auto simp: ctxt_set_path_def MAESTRO_TOPIC_def)
qed

text \<open>
  Also proved, player_drops_protocol_error. When a request cannot be parsed, the sheet
  builds a protocol-error reply, but the player returns before sending because the
  status is a failure: nothing is sent and no state changes, whatever the request.
\<close>

theorem player_drops_protocol_error:
  assumes "al sizeof_payload = None" and "player_info_of pl = Some pinfo" and "pl_sheet pl = Some sh"
    and "maestro_deserialize_note mp al mdata zero_note st = Some (False, request, st')"
    and "maestro_note_payload_cleanup request = Some q"
  shows "maestro_player_handle_note mp al pl mdata st s w = Inr (pl, st', s, w) \<and> \<not> gru_status_success st'"
  using assms deserialize_false_status [OF assms(4)] sheet_error_reply [OF assms(1,4,5), of sh pinfo zero_content s]
  by (simp add: maestro_player_handle_note_def)

text \<open>A player connected to a world that records what is sent.\<close>

definition sample_vmsl :: "(string \<times> byte list option) list vmsl" where
  "sample_vmsl = vmsl_init\<lparr>v_send := Some (\<lambda>ctxt h c st w.
     (VMSL_SUCCESS, c, st, w @ [(uri_path (mo_uri (msg_opts ctxt)), content_bytes c)]))\<rparr>"

definition sample_ctxt :: msg_ctxt where
  "sample_ctxt = \<lparr>msg_opts = \<lparr>mo_direction = MSG_DIRECTION_SENDER, mo_statistics = MSG_STAT_NONE,
     mo_conn_id = ''7'', mo_uri = zero_uri\<rparr>\<rparr>"

definition sample_player :: "((string \<times> byte list option) list, nat) player" where
  "sample_player = \<lparr>pl_thread = True, pl_uri = zero_uri, pl_mmsl = sample_vmsl,
     pl_handlers = vmslh_new (\<lambda>i. True), pl_ctxt = Some sample_ctxt, pl_sheet = Some sample_sheet,
     pl_id = Some ''7'', pl_name = ''p'', pl_cancel = False\<rparr>"

lemmas sample_player_defs = sample_player_def sample_vmsl_def sample_ctxt_def

lemma sample_player_info: "player_info_of sample_player = Some sample_info"
  by (simp add: player_info_of_def sample_player_def sample_info_def)

theorem player_replies_witness:
  "\<exists>resp. content_bytes resp = Some (message_bytes msgpack_format (Plain_Response 11 ''7'' ''p'')) \<and>
    uri_path (mo_uri (msg_opts (ctxt_set_path MAESTRO_TOPIC sample_ctxt))) = ''/mpt/maestro'' \<and>
    maestro_player_handle_note msgpack_format (\<lambda>k. None) sample_player
        (sample_content (message_bytes msgpack_format (Plain_Request 6))) St_New 4 [] =
      (case the (v_send sample_vmsl) (ctxt_set_path MAESTRO_TOPIC sample_ctxt) (pl_handlers sample_player) resp
          St_New [] of
         (ret, resp', st', w') \<Rightarrow> Inr (sample_player\<lparr>pl_ctxt := Some (ctxt_set_path MAESTRO_TOPIC sample_ctxt)\<rparr>,
           st', 5, w'))"
proof (rule player_replies [OF mpf.msgpack_axioms])
  show "content_bytes (sample_content (message_bytes msgpack_format (Plain_Request 6)))
      = Some (message_bytes msgpack_format (Plain_Request 6))"
    by (rule sample_content_bytes) (simp add: format_defs)
  show "instruments sample_sheet = Some (the (instruments sample_sheet))"
    by (simp add: sample_sheet_def)
  show "find (\<lambda>i. n_command (tessitura i) = snd (message_head (Plain_Request 6))) (the (instruments sample_sheet))
      = Some (hd (the (instruments sample_sheet)))"
    by (simp add: sample_sheet_def maestro_note_set_cmd_def)
  show "play (hd (the (instruments sample_sheet))) request (fresh_response sample_info) sample_info 4
      = Inr (maestro_note_set_cmd MAESTRO_NOTE_OK (fresh_response sample_info), 5)" for request
    by (simp add: sample_sheet_def)
  show "note_view (maestro_note_set_cmd MAESTRO_NOTE_OK (fresh_response sample_info))
      = Some (Plain_Response 11 ''7'' ''p'')"
    by (simp add: fresh_response_view sample_info_def)
  show "player_info_of sample_player = Some sample_info" by (rule sample_player_info)
qed (simp_all add: sample_player_defs vmsl_init_def message_ok_def format_defs fresh_response_def
    maestro_note_set_cmd_def)

theorem player_drops_protocol_error_witness:
  "maestro_player_handle_note msgpack_format (\<lambda>k. None) sample_player zero_content St_New 4 []
    = Inr (sample_player, St_Set GRU_FAILURE
        ''Unable to unpack protocol data: invalid and/or missing note type'', 4, []) \<and>
   \<not> gru_status_success (St_Set GRU_FAILURE
        ''Unable to unpack protocol data: invalid and/or missing note type'')"
  by (rule player_drops_protocol_error [of _ _ sample_info sample_sheet _ _ _ zero_note _ zero_note])
     (simp_all add: sample_player_info, simp_all add: sample_player_def maestro_deserialize_note_def
      content_bytes_def zero_content_def maestro_deserialize_buffer_def read_next_def msgpack_format_def
      fmt_unpack_next_def fmt_unpack_def maestro_note_payload_cleanup_def zero_note_def)

section \<open>The player serves its requests\<close>

text \<open>The block of the player for the note it receives.\<close>

definition note_block :: "msg_content \<Rightarrow> bool" where
  "note_block d = (\<exists>bs. mc_data d = Some bs \<and> length bs = 256 \<and> mc_capacity d = MAESTRO_NOTE_SIZE)"

lemma note_block_reset: "note_block d \<Longrightarrow> \<exists>d'. msg_content_data_reset d = Some d' \<and> note_block d'"
  by (auto simp: note_block_def msg_content_data_reset_def overlay_def MAESTRO_NOTE_SIZE_def)

lemma note_block_new:
  "al 40 = None \<Longrightarrow> al 256 = None \<Longrightarrow> \<exists>d. msg_content_data_new al MAESTRO_NOTE_SIZE st = (Some d, st) \<and> note_block d"
  by (simp add: msg_content_data_new_def MAESTRO_NOTE_SIZE_def note_block_def zero_block_def)

text \<open>
  What a player relies on in the messaging functions of its connection, which is without
  statistics: in a world that is \<open>up\<close>, \<open>inbox\<close> are the messages that wait for it, received whole
  and in order when they fit into its block, and \<open>outbox\<close> is what it sent, with the topics.
\<close>

locale note_link =
  fixes receive send :: "msg_ctxt \<Rightarrow> handlers \<Rightarrow> msg_content \<Rightarrow> gru_status \<Rightarrow> 'w \<Rightarrow> vmsl_stat \<times> msg_content \<times> gru_status \<times> 'w"
    and h :: handlers and up :: "'w \<Rightarrow> bool" and inbox :: "'w \<Rightarrow> byte list list" and outbox :: "'w \<Rightarrow> (string \<times> byte list) list"
  assumes receive_note: "up w \<Longrightarrow> inbox w = bs # bss \<Longrightarrow> length bs \<le> 256 \<Longrightarrow> note_block d \<Longrightarrow> mo_statistics (msg_opts c) = MSG_STAT_NONE \<Longrightarrow>
      \<exists>d' w'. receive c h d St_New w = (VMSL_SUCCESS, d', St_New, w') \<and> content_bytes d' = Some bs \<and> note_block d' \<and>
        up w' \<and> inbox w' = bss \<and> outbox w' = outbox w"
    and receive_nothing: "up w \<Longrightarrow> inbox w = [] \<Longrightarrow> note_block d \<Longrightarrow> mo_statistics (msg_opts c) = MSG_STAT_NONE \<Longrightarrow>
      \<exists>d' st' w'. receive c h d St_New w = (VMSL_SUCCESS OR VMSL_NO_DATA, d', st', w') \<and> note_block d' \<and>
        up w' \<and> inbox w' = [] \<and> outbox w' = outbox w"
    and send_note: "up w \<Longrightarrow> content_bytes d = Some bs \<Longrightarrow> length bs < 2 ^ 31 \<Longrightarrow> mo_statistics (msg_opts c) = MSG_STAT_NONE \<Longrightarrow>
      \<exists>ret d' st' w'. send c h d St_New w = (ret, d', st', w') \<and> up w' \<and> inbox w' = inbox w \<and>
        outbox w' = outbox w @ [(uri_path (mo_uri (msg_opts c)), bs)]"

text \<open>
  What the sheet does with a sequence of messages, on the state \<open>'s\<close> of the daemon: the answers
  to those that have an instrument; the others are passed over.
\<close>

inductive serves :: "'s instrument list \<Rightarrow> player_info \<Rightarrow> maestro_message list \<Rightarrow> maestro_message list \<Rightarrow> 's \<Rightarrow> 's \<Rightarrow> bool" for "is" pinfo where
  serves_none: "serves is pinfo [] [] s s"
| serves_reply: "find (\<lambda>i. n_command (tessitura i) = snd (message_head m)) is = Some i \<Longrightarrow>
    (\<And>request. note_view request = Some m \<Longrightarrow> play i request (fresh_response pinfo) pinfo s = Inr (response, s1)) \<Longrightarrow>
    note_view response = Some r \<Longrightarrow> n_payload response \<noteq> PWild \<Longrightarrow> serves is pinfo ms rs s1 s2 \<Longrightarrow> serves is pinfo (m # ms) (r # rs) s s2"
| serves_pass: "find (\<lambda>i. n_command (tessitura i) = snd (message_head m)) is = None \<Longrightarrow>
    serves is pinfo ms rs s s2 \<Longrightarrow> serves is pinfo (m # ms) rs s s2"

inductive_cases serves_ConsE: "serves is pinfo (m # ms) rs s s2"
inductive_cases serves_NilE: "serves is pinfo [] rs s s2"

text \<open>Requests that fit into the block, and answers for which there is memory.\<close>

definition request_fits :: "msgpack_api \<Rightarrow> gru_allocator \<Rightarrow> maestro_message \<Rightarrow> bool" where
  "request_fits mp al m = (message_ok al m \<and> message_proper m \<and> length (message_bytes mp m) \<le> 256)"

definition answer_fits :: "msgpack_api \<Rightarrow> gru_allocator \<Rightarrow> maestro_message \<Rightarrow> bool" where
  "answer_fits mp al r = (message_bytes mp r \<noteq> [] \<and> length (message_bytes mp r) < 2 ^ 31 \<and> al (length (message_bytes mp r)) = None)"

text \<open>A player that is connected, with its instruments.\<close>

definition playing :: "'s instrument list \<Rightarrow> player_info \<Rightarrow>
    (msg_ctxt \<Rightarrow> handlers \<Rightarrow> msg_content \<Rightarrow> gru_status \<Rightarrow> 'w \<Rightarrow> vmsl_stat \<times> msg_content \<times> gru_status \<times> 'w) \<Rightarrow>
    (msg_ctxt \<Rightarrow> handlers \<Rightarrow> msg_content \<Rightarrow> gru_status \<Rightarrow> 'w \<Rightarrow> vmsl_stat \<times> msg_content \<times> gru_status \<times> 'w) \<Rightarrow> handlers \<Rightarrow>
    ('w, 's) player \<Rightarrow> bool" where
  "playing is pinfo receive send h pl = (player_info_of pl = Some pinfo \<and> (\<exists>sh. pl_sheet pl = Some sh \<and> instruments sh = Some is) \<and>
     (\<exists>c. pl_ctxt pl = Some c \<and> mo_statistics (msg_opts c) = MSG_STAT_NONE) \<and> v_receive (pl_mmsl pl) = Some receive \<and>
     v_send (pl_mmsl pl) = Some send \<and> pl_handlers pl = h)"

lemma playing_set_path:
  "playing is pinfo receive send h pl \<Longrightarrow> pl_ctxt pl = Some c \<Longrightarrow> playing is pinfo receive send h (pl\<lparr>pl_ctxt := Some (ctxt_set_path p c)\<rparr>)"
  by (auto simp: playing_def player_info_of_def ctxt_set_path_def)

lemma player_loop_step:
  assumes "\<not> cancelled k" and "msg_content_data_reset d = Some d1" and "v_receive (pl_mmsl pl) = Some receive" and "pl_ctxt pl = Some c"
    and "receive c (pl_handlers pl) d1 St_New w = (rstat, d2, st, w1)" and "\<not> vmsl_stat_error rstat"
  shows "player_loop mp al cancelled (Suc fuel) k pl d s w =
    (if vmsl_has_data rstat then run_bind (maestro_player_handle_note mp al pl d2 st s w1)
       (\<lambda>(pl', st', s', w'). player_loop mp al cancelled fuel (Suc k) pl' d2 s' w')
     else player_loop mp al cancelled fuel (Suc k) pl d2 s w1)"
  using assms by simp

context note_link
begin

text \<open>A request that has an instrument is answered, on the topic of the maestro clients.\<close>

lemma answers_note:
  assumes "msgpack mp" and "playing is pinfo receive send h pl" and "up w" and "content_bytes d = Some (message_bytes mp m)" and "request_fits mp al m"
    and "find (\<lambda>i. n_command (tessitura i) = snd (message_head m)) is = Some i"
    and "\<And>request. note_view request = Some m \<Longrightarrow> play i request (fresh_response pinfo) pinfo s = Inr (response, s1)"
    and "note_view response = Some r" and "n_payload response \<noteq> PWild" and "answer_fits mp al r"
  shows "\<exists>pl' st' w'. maestro_player_handle_note mp al pl d St_New s w = Inr (pl', st', s1, w') \<and> playing is pinfo receive send h pl' \<and>
    up w' \<and> inbox w' = inbox w \<and> outbox w' = outbox w @ [(MAESTRO_TOPIC, message_bytes mp r)]"
proof -
  obtain sh c where p: "player_info_of pl = Some pinfo" "pl_sheet pl = Some sh" "instruments sh = Some is" "pl_ctxt pl = Some c"
    "mo_statistics (msg_opts c) = MSG_STAT_NONE" "v_send (pl_mmsl pl) = Some send" "pl_handlers pl = h"
    using assms(2) by (auto simp: playing_def)
  have f: "message_ok al m" "message_proper m" "al (length (message_bytes mp r)) = None" "length (message_bytes mp r) < 2 ^ 64"
    "length (message_bytes mp r) < 2 ^ 31" "message_bytes mp r \<noteq> []"
    using assms(5,10) by (simp_all add: request_fits_def answer_fits_def)
  obtain resp where r: "maestro_sheet_play mp al sh pinfo d zero_content St_New s = Inr (resp, St_New, s1)"
    "content_bytes resp = Some (message_bytes mp r)"
    using sheet_reply [OF assms(1,4) f(1,2) p(3) assms(6-9) f(3,4), of zero_content St_New] by blast
  then have "mc_data resp \<noteq> None" using f(6) by (auto simp: content_bytes_def split: if_splits option.splits)
  note reply = handle_note_reply [OF p(1,2,4,6) r(1) _ this, of w]
  let ?c = "ctxt_set_path MAESTRO_TOPIC c"
  have "mo_statistics (msg_opts ?c) = MSG_STAT_NONE" "uri_path (mo_uri (msg_opts ?c)) = MAESTRO_TOPIC" using p(5) by (simp_all add: ctxt_set_path_def)
  with send_note [OF assms(3) r(2) f(5), of ?c] obtain ret d' st' w' where
    "send ?c h resp St_New w = (ret, d', st', w')" "up w'" "inbox w' = inbox w" "outbox w' = outbox w @ [(MAESTRO_TOPIC, message_bytes mp r)]"
    by auto
  with reply p(7) playing_set_path [OF assms(2) p(4)] show ?thesis by simp
qed

lemma passes_note:
  assumes "msgpack mp" and "playing is pinfo receive send h pl" and "content_bytes d = Some (message_bytes mp m)" and "request_fits mp al m"
    and "find (\<lambda>i. n_command (tessitura i) = snd (message_head m)) is = None"
  shows "maestro_player_handle_note mp al pl d St_New s w = Inr (pl, St_New, s, w)"
proof -
  obtain sh where p: "player_info_of pl = Some pinfo" "pl_sheet pl = Some sh" "instruments sh = Some is" using assms(2) by (auto simp: playing_def)
  have "maestro_sheet_play mp al sh pinfo d zero_content St_New s = Inr (zero_content, St_New, s)"
    using sheet_ignores_unknown [OF assms(1,3) _ _ p(3) assms(5)] assms(4) by (simp add: request_fits_def)
  with p(1,2) show ?thesis by (simp add: maestro_player_handle_note_def zero_content_def)
qed

lemma loop_serves:
  assumes "msgpack mp" and "cancelled (k + n)" and "\<forall>j < n. \<not> cancelled (k + j)"
    and "playing is pinfo receive send h pl" and "note_block d" and "up w" and "inbox w = map (message_bytes mp) ms"
    and "serves is pinfo ms rs s s'" and "list_all (request_fits mp al) ms" and "list_all (answer_fits mp al) rs" and "length ms \<le> n"
  shows "\<exists>pl' w'. player_loop mp al cancelled (Suc n + extra) k pl d s w = Inr (pl', s', w') \<and> inbox w' = [] \<and>
    outbox w' = outbox w @ map (\<lambda>r. (MAESTRO_TOPIC, message_bytes mp r)) rs"
  using assms(2-)
proof (induction n arbitrary: k pl d w ms rs s)
  case 0
  then show ?case by (auto elim: serves_NilE)
next
  case (Suc n)
  obtain c where c: "pl_ctxt pl = Some c" "mo_statistics (msg_opts c) = MSG_STAT_NONE" "v_receive (pl_mmsl pl) = Some receive" "pl_handlers pl = h"
    using Suc.prems(3) by (auto simp: playing_def)
  obtain d1 where d1: "msg_content_data_reset d = Some d1" "note_block d1" using note_block_reset [OF Suc.prems(4)] by blast
  have go: "\<not> cancelled k" "cancelled (Suc k + n)" "\<forall>j < n. \<not> cancelled (Suc k + j)" using Suc.prems(1,2) by auto
  note step = Suc.IH [OF go(2,3)]
  show ?case
  proof (cases ms)
    case Nil
    with receive_nothing [OF Suc.prems(5) _ d1(2) c(2)] Suc.prems(6) obtain d2 st w1 where r:
      "receive c h d1 St_New w = (VMSL_SUCCESS OR VMSL_NO_DATA, d2, st, w1)" "note_block d2" "up w1" "inbox w1 = []" "outbox w1 = outbox w" by auto
    have "player_loop mp al cancelled (Suc (Suc n) + extra) k pl d s w = player_loop mp al cancelled (Suc n + extra) (Suc k) pl d2 s w1"
      using player_loop_step [where cancelled = cancelled, OF go(1) d1(1) c(3,1), of w _ d2 st w1 mp al "Suc n + extra" s] c(4) r(1)
      by (simp add: vmsl_stat_defs del: player_loop.simps)
    with step [OF Suc.prems(3) r(2,3), of "[]" rs s] r(4,5) Suc.prems(7-9) Nil show ?thesis by (simp del: player_loop.simps)
  next
    case (Cons m ms')
    have fit: "request_fits mp al m" "list_all (request_fits mp al) ms'" using Suc.prems(8) Cons by simp_all
    then have len: "length (message_bytes mp m) \<le> 256" by (simp add: request_fits_def)
    from receive_note [OF Suc.prems(5) _ len d1(2) c(2), of "map (message_bytes mp) ms'"] Suc.prems(6) Cons obtain d2 w1 where r:
      "receive c h d1 St_New w = (VMSL_SUCCESS, d2, St_New, w1)" "content_bytes d2 = Some (message_bytes mp m)" "note_block d2" "up w1"
      "inbox w1 = map (message_bytes mp) ms'" "outbox w1 = outbox w" by auto
    have eq: "player_loop mp al cancelled (Suc (Suc n) + extra) k pl d s w = run_bind (maestro_player_handle_note mp al pl d2 St_New s w1)
        (\<lambda>(pl', st', s', w'). player_loop mp al cancelled (Suc n + extra) (Suc k) pl' d2 s' w')"
      using player_loop_step [where cancelled = cancelled, OF go(1) d1(1) c(3,1), of w _ d2 St_New w1 mp al "Suc n + extra" s] c(4) r(1)
      by (simp add: vmsl_stat_defs del: player_loop.simps)
    from Suc.prems(7) [unfolded Cons] consider
      (reply) i response s1 ra rs' where "rs = ra # rs'" "find (\<lambda>i. n_command (tessitura i) = snd (message_head m)) is = Some i"
        "\<And>request. note_view request = Some m \<Longrightarrow> play i request (fresh_response pinfo) pinfo s = Inr (response, s1)"
        "note_view response = Some ra" "n_payload response \<noteq> PWild" "serves is pinfo ms' rs' s1 s'"
      | (pass) "find (\<lambda>i. n_command (tessitura i) = snd (message_head m)) is = None" "serves is pinfo ms' rs s s'"
      by (elim serves_ConsE) blast+
    then show ?thesis
    proof cases
      case reply
      then have a: "answer_fits mp al ra" "list_all (answer_fits mp al) rs'" using Suc.prems(9) by simp_all
      obtain pl1 st1 w2 where "maestro_player_handle_note mp al pl d2 St_New s w1 = Inr (pl1, st1, s1, w2)" "playing is pinfo receive send h pl1"
        "up w2" "inbox w2 = inbox w1" "outbox w2 = outbox w1 @ [(MAESTRO_TOPIC, message_bytes mp ra)]"
        using answers_note [OF assms(1) Suc.prems(3) r(4,2) fit(1) reply(2-5) a(1)] by blast
      with eq step [of pl1 d2 w2 ms' rs' s1] r(3,5,6) reply(1,6) a(2) fit(2) Suc.prems(10) Cons show ?thesis by (auto simp del: player_loop.simps)
    next
      case pass
      with eq passes_note [OF assms(1) Suc.prems(3) r(2) fit(1), of s w1] step [OF Suc.prems(3) r(3,4), of ms' rs s] r(5,6) fit(2)
        Suc.prems(9,10) Cons show ?thesis by (auto simp del: player_loop.simps)
    qed
  qed
qed

end

text \<open>
  Property C33, player_serves. The thread of a player, over every connection that keeps its
  contract, with messages of at most 256 bytes waiting and the flag that cancels it seen set for the
  first time at iteration \<open>k\<close>, not before all the messages could be received: the thread ends,
  it has received all of them and has sent exactly one answer, in the same order and on the
  topic \<open>/mpt/maestro\<close>, for each that has an instrument; the state of the daemon is the one
  that the handlers of these messages leave, one after the other.
\<close>

theorem player_serves:
  assumes "note_link receive send h up inbox outbox" and "msgpack mp" and "al 40 = None" and "al 256 = None"
    and "playing is pinfo receive send h pl" and "up w" and "inbox w = map (message_bytes mp) ms" and "serves is pinfo ms rs s s'"
    and "list_all (request_fits mp al) ms" and "list_all (answer_fits mp al) rs"
    and "cancelled k" and "\<forall>j < k. \<not> cancelled j" and "length ms \<le> k" and "k < fuel"
  shows "\<exists>pl' w'. maestro_player_run mp al cancelled fuel pl s w = Inr (pl', s', w') \<and> inbox w' = [] \<and>
    outbox w' = outbox w @ map (\<lambda>r. (''/mpt/maestro'', message_bytes mp r)) rs"
proof -
  obtain d where d: "msg_content_data_new al MAESTRO_NOTE_SIZE St_New = (Some d, St_New)" "note_block d" using note_block_new [OF assms(3,4)] by blast
  obtain extra where "fuel = Suc k + extra" using assms(14) less_iff_Suc_add by auto
  with note_link.loop_serves [OF assms(1,2), of cancelled 0 k "is" pinfo pl d w ms rs s s' al extra] assms(5-13) d show ?thesis
    by (simp add: maestro_player_run_def MAESTRO_TOPIC_def)
qed

text \<open>A connection whose world is the two lists.\<close>

type_synonym post = "byte list list \<times> (string \<times> byte list) list"

definition post_receive :: "msg_ctxt \<Rightarrow> handlers \<Rightarrow> msg_content \<Rightarrow> gru_status \<Rightarrow> post \<Rightarrow> vmsl_stat \<times> msg_content \<times> gru_status \<times> post" where
  "post_receive c h d st w = (case fst w of
     [] \<Rightarrow> (VMSL_SUCCESS OR VMSL_NO_DATA, d, st, w)
   | bs # bss \<Rightarrow> (VMSL_SUCCESS, d\<lparr>mc_data := Some (bs @ zero_block (256 - length bs)), mc_size := word_of_nat (length bs)\<rparr>, st, (bss, snd w)))"

definition post_send :: "msg_ctxt \<Rightarrow> handlers \<Rightarrow> msg_content \<Rightarrow> gru_status \<Rightarrow> post \<Rightarrow> vmsl_stat \<times> msg_content \<times> gru_status \<times> post" where
  "post_send c h d st w = (VMSL_SUCCESS, d, st, (fst w, snd w @ [(uri_path (mo_uri (msg_opts c)), the (content_bytes d))]))"

interpretation post: note_link post_receive post_send h "\<lambda>w. True" fst snd for h
  by unfold_locales
    (auto simp: post_receive_def post_send_def note_block_def content_bytes_def zero_block_def MAESTRO_NOTE_SIZE_def unat_word_of_nat64 word_le_nat_alt)

definition post_player :: "(post, nat) player" where
  "post_player = \<lparr>pl_thread = True, pl_uri = zero_uri, pl_mmsl = vmsl_init\<lparr>v_receive := Some post_receive, v_send := Some post_send\<rparr>,
     pl_handlers = vmslh_new (\<lambda>i. True), pl_ctxt = Some sample_ctxt, pl_sheet = Some sample_sheet,
     pl_id = Some ''7'', pl_name = ''p'', pl_cancel = False\<rparr>"

theorem player_serves_witness:
  "\<exists>pl' w'. maestro_player_run msgpack_format (\<lambda>n. None) (\<lambda>k. 3 \<le> k) 5 post_player 4
      ([message_bytes msgpack_format (Plain_Request 6), message_bytes msgpack_format (Plain_Request 3)], []) = Inr (pl', 5, w') \<and>
    fst w' = [] \<and> snd w' = [(''/mpt/maestro'', message_bytes msgpack_format (Plain_Response 11 ''7'' ''p''))]"
proof -
  let ?is = "the (instruments sample_sheet)"
  have "serves ?is sample_info [Plain_Request 6, Plain_Request 3] [Plain_Response 11 ''7'' ''p''] 4 5"
  proof (rule serves_reply)
    show "find (\<lambda>i. n_command (tessitura i) = snd (message_head (Plain_Request 6))) ?is = Some (hd ?is)"
      by (simp add: sample_sheet_def maestro_note_set_cmd_def)
    show "play (hd ?is) request (fresh_response sample_info) sample_info 4
        = Inr (maestro_note_set_cmd MAESTRO_NOTE_OK (fresh_response sample_info), 5)" for request
      by (simp add: sample_sheet_def)
    show "note_view (maestro_note_set_cmd MAESTRO_NOTE_OK (fresh_response sample_info)) = Some (Plain_Response 11 ''7'' ''p'')"
      by (simp add: fresh_response_view sample_info_def)
    show "serves ?is sample_info [Plain_Request 3] [] 5 5"
      by (rule serves_pass [OF _ serves_none]) (simp add: sample_sheet_def maestro_note_set_cmd_def)
  qed (simp add: fresh_response_def maestro_note_set_cmd_def)
  moreover have "playing ?is sample_info post_receive post_send (vmslh_new (\<lambda>i. True)) post_player"
    by (simp add: playing_def post_player_def player_info_of_def sample_info_def sample_ctxt_def sample_sheet_def)
  ultimately show ?thesis
    using player_serves [OF post.note_link_axioms mpf.msgpack_axioms, of "\<lambda>n. None" ?is sample_info "vmslh_new (\<lambda>i. True)" post_player
        "([message_bytes msgpack_format (Plain_Request 6), message_bytes msgpack_format (Plain_Request 3)], [])"
        "[Plain_Request 6, Plain_Request 3]" "[Plain_Response 11 ''7'' ''p'']" 4 5 "\<lambda>k. 3 \<le> k" 3 5]
    by (simp add: request_fits_def answer_fits_def message_ok_def format_defs)
qed

section \<open>Properties of notifications and of start and stop\<close>

lemma notification_note_view:
  assumes "al sizeof_payload = None"
  shows "\<exists>n. notification_note al cmd pinfo msg = Some n \<and> n_payload n \<noteq> PWild \<and>
    note_view n = Some (Notification (command_code cmd) (pi_id pinfo) (pi_name pinfo) msg)"
  using assms
  by (simp add: notification_note_def payload_prepare_ok maestro_note_response_set_id_def
      maestro_note_response_set_name_def maestro_note_notification_set_message_def note_store_def
      maestro_note_set_cmd_def maestro_note_set_type_def zero_note_def view_defs payload_cells_def
      del: command_code.simps)

lemma send_notification_effect:
  assumes "pl_ctxt pl = Some ctxt" and "player_info_of pl = Some pinfo" and "v_send (pl_mmsl pl) = Some send"
    and "before_send (pl_handlers pl) = Some cs" and "callbacks_wf cs"
    and "al sizeof_payload = None" and "al 16 = None"
    and "al 256 = None"
    and "al (length (message_bytes mp (Notification (command_code cmd) (pi_id pinfo) (pi_name pinfo) msg))) = None"
    and "length (message_bytes mp (Notification (command_code cmd) (pi_id pinfo) (pi_name pinfo) msg)) < 2 ^ 64"
  shows "\<exists>h data. before_send h = Some (put_callback Arg_Null CB_retained (Arg_Variant (boolean_variant True)) cs) \<and>
    content_bytes data
      = Some (message_bytes mp (Notification (command_code cmd) (pi_id pinfo) (pi_name pinfo) msg)) \<and>
    send_notification mp al True cmd msg (Some pl) st w =
      (case send (ctxt_set_path MAESTRO_NOTIFICATIONS ctxt) h data st w of
         (ret, data', st', w') \<Rightarrow> Some (pl\<lparr>pl_ctxt := Some (ctxt_set_path MAESTRO_NOTIFICATIONS ctxt),
           pl_handlers := (pl_handlers pl)\<lparr>before_send := Some (put_callback Arg_Null CB_retained Arg_Null
             (put_callback Arg_Null CB_retained (Arg_Variant (boolean_variant True)) cs))\<rparr>\<rparr>, st', w'))"
proof -
  let ?m = "Notification (command_code cmd) (pi_id pinfo) (pi_name pinfo) msg"
  obtain n where n: "notification_note al cmd pinfo msg = Some n" "n_payload n \<noteq> PWild" "note_view n = Some ?m"
    using notification_note_view [where al = al, OF assms(6)] by blast
  obtain d0 where init: "msg_content_data_init al MAESTRO_NOTE_SIZE st zero_content = (d0, st)"
    using assms(8) by (simp add: msg_content_data_init_def MAESTRO_NOTE_SIZE_def)
  let ?data = "snd (msg_content_data_copy al d0 (message_bytes mp ?m))"
  let ?h = "(pl_handlers pl)\<lparr>before_send := Some (put_callback Arg_Null CB_retained
    (Arg_Variant (boolean_variant True)) cs)\<rparr>"
  have ser: "maestro_serialize_note mp al n d0 = Some (True, ?data)"
    using serialize_note_view [OF n(3)] by (simp add: emit_def)
  have cb: "content_bytes ?data = Some (message_bytes mp ?m)"
    using assms(9,10) by (simp add: copy_bytes)
  have add: "add_before_send al True CB_retained a (h, st') = Some (h\<lparr>before_send :=
      Some (put_callback Arg_Null CB_retained a l)\<rparr>, st')" if "before_send h = Some l" for a h l st'
    using that assms(7) by (simp add: add_before_send_def add_handler_def vmslh_add_ok)
  have "send_notification mp al True cmd msg (Some pl) st w =
      (case send (ctxt_set_path MAESTRO_NOTIFICATIONS ctxt) ?h ?data st w of
         (ret, data', st', w') \<Rightarrow> Some (pl\<lparr>pl_ctxt := Some (ctxt_set_path MAESTRO_NOTIFICATIONS ctxt),
           pl_handlers := (pl_handlers pl)\<lparr>before_send := Some (put_callback Arg_Null CB_retained Arg_Null
             (put_callback Arg_Null CB_retained (Arg_Variant (boolean_variant True)) cs))\<rparr>\<rparr>, st', w'))"
    using assms(1-4) n(1) note_view_cleanup [OF n(3,2)]
    by (simp add: send_notification_def init ser add [OF assms(4)] add Let_def case_prod_beta)
  with cb show ?thesis by (intro exI [of _ ?h] exI [of _ ?data]) simp
qed

text \<open>
  Also proved, notify_failure_published. A test-failure notification goes to
  \<open>/mpt/notifications\<close> with the player's identity and the message of the status, and
  is sent while the \<open>retained\<close> callback carries true. Afterwards the callback carries
  the default again, also where the user had set another value for it.
\<close>

theorem notify_failure_published:
  assumes "pl_ctxt pl = Some ctxt" and "player_info_of pl = Some pinfo" and "v_send (pl_mmsl pl) = Some send"
    and "before_send (pl_handlers pl) = Some cs" and "callbacks_wf cs"
    and "\<And>n. al n = None"
    and "length (message_bytes mp (Notification (command_code MAESTRO_NOTE_NOTIFY_FAIL) (pi_id pinfo)
          (pi_name pinfo) (gru_status_message st))) < 2 ^ 64"
  shows "\<exists>h data cs1 pl' cs2. maestro_notify_test_failed mp al True (Some pl) st w =
      (case send (ctxt_set_path MAESTRO_NOTIFICATIONS ctxt) h data st w of
         (ret, data', st', w') \<Rightarrow> Some (pl', st', w')) \<and>
    content_bytes data = Some (message_bytes mp (Notification (command_code MAESTRO_NOTE_NOTIFY_FAIL)
      (pi_id pinfo) (pi_name pinfo) (gru_status_message st))) \<and>
    before_send h = Some cs1 \<and> payload_of cs1 CB_retained = Some (Arg_Variant (boolean_variant True)) \<and>
    before_send (pl_handlers pl') = Some cs2 \<and> payload_of cs2 CB_retained = Some Arg_Null \<and> callbacks_wf cs2"
proof -
  let ?c1 = "put_callback Arg_Null CB_retained (Arg_Variant (boolean_variant True)) cs"
  let ?c2 = "put_callback Arg_Null CB_retained Arg_Null ?c1"
  let ?pl = "pl\<lparr>pl_ctxt := Some (ctxt_set_path MAESTRO_NOTIFICATIONS ctxt),
    pl_handlers := (pl_handlers pl)\<lparr>before_send := Some ?c2\<rparr>\<rparr>"
  have t: "payload_of ?c1 CB_retained = Some (Arg_Variant (boolean_variant True))"
    "payload_of ?c2 CB_retained = Some Arg_Null" "callbacks_wf ?c2"
    using assms(5) by (simp_all add: cbt.get_put cbt.inv_put)
  obtain h data where h: "before_send h = Some ?c1"
    "content_bytes data = Some (message_bytes mp (Notification (command_code MAESTRO_NOTE_NOTIFY_FAIL)
      (pi_id pinfo) (pi_name pinfo) (gru_status_message st)))"
    "maestro_notify_test_failed mp al True (Some pl) st w =
      (case send (ctxt_set_path MAESTRO_NOTIFICATIONS ctxt) h data st w of
         (ret, data', st', w') \<Rightarrow> Some (?pl, st', w'))"
    using send_notification_effect [where al = al and st = st and w = w,
      OF assms(1-5) assms(6) assms(6) assms(6) assms(6) assms(7)]
    unfolding maestro_notify_test_failed_def by blast
  have "before_send (pl_handlers ?pl) = Some ?c2" by simp
  with t h show ?thesis by blast
qed

theorem notify_failure_published_witness:
  "\<exists>h data cs1 pl' cs2. maestro_notify_test_failed msgpack_format (\<lambda>n. None) True (Some sample_player) St_New [] =
      (case the (v_send sample_vmsl) (ctxt_set_path MAESTRO_NOTIFICATIONS sample_ctxt) h data St_New [] of
         (ret, data', st', w') \<Rightarrow> Some (pl', st', w')) \<and>
    content_bytes data = Some (message_bytes msgpack_format (Notification (command_code MAESTRO_NOTE_NOTIFY_FAIL)
      (pi_id sample_info) (pi_name sample_info) (gru_status_message St_New))) \<and>
    before_send h = Some cs1 \<and> payload_of cs1 CB_retained = Some (Arg_Variant (boolean_variant True)) \<and>
    before_send (pl_handlers pl') = Some cs2 \<and> payload_of cs2 CB_retained = Some Arg_Null \<and> callbacks_wf cs2"
  by (rule notify_failure_published [OF _ sample_player_info, where cs = "[]"])
     (simp_all add: sample_player_defs vmsl_init_def vmslh_new_def new_list_def callbacks_wf_Nil format_defs
       sample_info_def)

lemma sint_low_word:
  assumes "k < 2 ^ 31" shows "sint (ucast (word_of_nat k :: u64) :: u32) = int k"
proof -
  have "ucast (word_of_nat k :: u64) = (word_of_nat k :: u32)"
    by (simp add: unsigned_of_nat word_of_nat_eq_iff)
  with assms show ?thesis by (simp add: signed_of_nat signed_take_bit_int_eq_self)
qed

text \<open>
  Also proved, disconnect_will. The will registered before connecting is a
  notification that the client disconnected abnormally, with the player's
  identity, on the topic of the notifications.
\<close>

theorem disconnect_will:
  assumes "\<And>n. al n = None"
    and "length (message_bytes mp (Notification (command_code MAESTRO_NOTE_ABNORMAL_DISCONNECT) (pi_id pinfo)
          (pi_name pinfo) ''The client disconnected abnormally'')) < 2 ^ 31"
  shows "maestro_notify_abnormal_disconnect mp al pinfo opts = Some (opts\<lparr>mqtt_will := Some
    (Some (message_bytes mp (Notification (command_code MAESTRO_NOTE_ABNORMAL_DISCONNECT) (pi_id pinfo)
       (pi_name pinfo) ''The client disconnected abnormally'')),
     int (length (message_bytes mp (Notification (command_code MAESTRO_NOTE_ABNORMAL_DISCONNECT) (pi_id pinfo)
       (pi_name pinfo) ''The client disconnected abnormally''))),
     ''/mpt/notifications'')\<rparr>)"
proof -
  let ?t = "''The client disconnected abnormally''"
  let ?m = "Notification (command_code MAESTRO_NOTE_ABNORMAL_DISCONNECT) (pi_id pinfo) (pi_name pinfo) ?t"
  obtain n where n: "notification_note al MAESTRO_NOTE_ABNORMAL_DISCONNECT pinfo ?t = Some n" "note_view n = Some ?m"
    using notification_note_view [where al = al, OF assms(1)] by blast
  obtain wd where w: "fst (msg_content_data_new al MAESTRO_NOTE_SIZE St_New) = Some wd"
    using assms(1) by (simp add: msg_content_data_new_def)
  have len: "sint (ucast (word_of_nat (length (message_bytes mp ?m)) :: u64) :: u32)
      = int (length (message_bytes mp ?m))"
    using assms(2) by (intro sint_low_word) simp
  show ?thesis
    using serialize_note_view [OF n(2), of mp al wd] assms(1) n(1) w len
    by (simp add: maestro_notify_abnormal_disconnect_def emit_def msg_content_data_copy_def
        MAESTRO_NOTIFICATIONS_def Let_def del: command_code.simps)
qed

theorem disconnect_will_witness:
  "maestro_notify_abnormal_disconnect msgpack_format (\<lambda>n. None) sample_info
      \<lparr>keepAliveInterval = 20, cleansession = 1, mqtt_will = None\<rparr>
    = Some (\<lparr>keepAliveInterval = 20, cleansession = 1, mqtt_will = None\<rparr>\<lparr>mqtt_will := Some
    (Some (message_bytes msgpack_format (Notification (command_code MAESTRO_NOTE_ABNORMAL_DISCONNECT)
       (pi_id sample_info) (pi_name sample_info) ''The client disconnected abnormally'')),
     int (length (message_bytes msgpack_format (Notification (command_code MAESTRO_NOTE_ABNORMAL_DISCONNECT)
       (pi_id sample_info) (pi_name sample_info) ''The client disconnected abnormally''))),
     ''/mpt/notifications'')\<rparr>)"
  by (rule disconnect_will) (simp_all add: format_defs sample_info_def be_bytes.simps)

lemma player_start_sets:
  "maestro_player_start env al sh None st w = Some (ok, sp, st', w') \<Longrightarrow> \<exists>pl. sp = Some pl"
  by (auto simp: maestro_player_start_def player_start_connected_def bind_eq_Some_conv Let_def case_prod_beta
      split: if_splits option.splits)

text \<open>
  Also proved, player_start_once. Whatever the outcome of \<open>maestro_player_start\<close>, the
  static player stays set, so a second start fails with the message that the
  player is already initialized, and changes nothing; only a stop clears it.
\<close>

theorem player_start_once:
  assumes "maestro_player_start env al sh None st w = Some (ok, sp, st', w')"
  shows "maestro_player_start env2 al2 sh2 sp st2 w2
      = Some (False, sp, St_Set GRU_FAILURE ''Maestro player is already initialized'', w2) \<and>
    (\<forall>r sp3 st3 w3. maestro_player_stop sp st2 w2 = Some (r, sp3, st3, w3) \<longrightarrow> r \<and> sp3 = None)"
  using player_start_sets [OF assms]
  by (auto simp: maestro_player_start_def maestro_player_stop_def bind_eq_Some_conv)

definition sample_env :: "unit player_env" where
  "sample_env = \<lparr>pe_name = ''p'', pe_clone = (\<lambda>st. (zero_uri, st)), pe_assign = (\<lambda>u v. (False, v)),
     pe_uuid = None, pe_list_new = (\<lambda>i. True), pe_append = True, pe_pthread_create = 0\<rparr>"

lemma sample_start:
  "maestro_player_start sample_env (\<lambda>n. None) sample_sheet None St_New ()
    = Some (False, Some ((the (maestro_player_new (\<lambda>n. None)))\<lparr>pl_sheet := Some sample_sheet, pl_uri := zero_uri\<rparr>),
        St_Set GRU_FAILURE ''Unable to assign a VMSL for the maestro player'', ())"
  by (simp add: maestro_player_start_def maestro_player_new_def sample_env_def)

theorem player_start_once_witness:
  "maestro_player_start sample_env (\<lambda>n. None) sample_sheet
      (Some ((the (maestro_player_new (\<lambda>n. None)))\<lparr>pl_sheet := Some sample_sheet, pl_uri := zero_uri\<rparr>)) St_New ()
    = Some (False, Some ((the (maestro_player_new (\<lambda>n. None)))\<lparr>pl_sheet := Some sample_sheet, pl_uri := zero_uri\<rparr>),
        St_Set GRU_FAILURE ''Maestro player is already initialized'', ())"
  using player_start_once [OF sample_start] by blast

end
