(* ===== verification/Manager.thy ===== *)
theory Manager
  imports Process Worker_Loops
begin

text \<open>
  The process that runs a test: the information it keeps about its children
  (\<open>src/worker/worker_info.c\<close>), the global list of them behind a mutex
  (\<open>worker_list.c\<close>) and the operations that create, watch and stop them
  (\<open>worker_manager.c\<close>).

  The global variables \<open>gwlist\<close>, \<open>mutex\<close> and \<open>errors\<close> are the record \<open>globals\<close>. Taking
  the mutex when it is held is \<^term>\<open>Deadlock\<close>: it is a default mutex, so the thread
  waits for itself or for a thread that has returned without giving it back. The
  loop that drains a queue runs on fuel.
\<close>

section \<open>Workers and their list\<close>

record 'w worker_info =
  wi_flags :: worker_flags
  wi_writer :: "'w stats_writer"
  wi_child :: int
  wi_snapshot :: worker_snapshot
  wi_queue :: "worker_queue option"

definition sizeof_worker_info :: nat where
  "sizeof_worker_info = 200"

text \<open>The block of a failed worker is not freed; the child is killed when it exists.\<close>

definition worker_info_new :: "'w wenv \<Rightarrow> 'w os_api \<Rightarrow> 'w worker \<Rightarrow> int \<Rightarrow> gru_status \<Rightarrow> 'w \<Rightarrow>
    'w worker_info option \<times> gru_status \<times> 'w" where
  "worker_info_new env os wk child st w =
    (case e_alloc env sizeof_worker_info of
       Some m \<Rightarrow> (None, alloc_fail m, w)
     | None \<Rightarrow>
        (case worker_name env (wk_name wk) child st of
           (None, st1) \<Rightarrow> (None, st1, snd (os_kill os child SIGKILL w))
         | (Some cname, st1) \<Rightarrow>
            (case worker_queue_new (e_ipc env) (e_alloc env) cname (worker_queue_new_opt (wk_flags wk)) st1 w of
               (None, st2, w2) \<Rightarrow>
                 (None, St_Set GRU_FAILURE (''Unable to create a posix queue: '' @ gru_status_message st2),
                  snd (os_kill os child SIGKILL w2))
             | (Some q, st2, w2) \<Rightarrow>
                 (Some \<lparr>wi_flags = wk_flags wk, wi_writer = wk_writer wk, wi_child = child,
                   wi_snapshot = zero_snapshot, wi_queue = Some q\<rparr>, st2, w2))))"

definition worker_info_destroy :: "'w wenv \<Rightarrow> 'w worker_info option \<Rightarrow> 'w \<Rightarrow> 'w" where
  "worker_info_destroy env wi w =
    (case wi of None \<Rightarrow> w | Some i \<Rightarrow> worker_queue_destroy (e_ipc env) (wi_queue i) w)"

record 'w globals =
  g_list :: "'w worker_info list option"
  g_locked :: bool
  g_errors :: u32

definition worker_list_lock :: "'w globals \<Rightarrow> 'w globals run" where
  "worker_list_lock g = (if g_locked g then Inl Deadlock else Inr (g\<lparr>g_locked := True\<rparr>))"

definition worker_list_unlock :: "'w globals \<Rightarrow> 'w globals" where
  "worker_list_unlock g = g\<lparr>g_locked := False\<rparr>"

definition worker_list_destroy :: "'w wenv \<Rightarrow> 'w worker_info list option \<Rightarrow> 'w \<Rightarrow> 'w" where
  "worker_list_destroy env l w =
    (case l of None \<Rightarrow> w | Some wis \<Rightarrow> fold (\<lambda>wi. worker_info_destroy env (Some wi)) wis w)"

text \<open>An empty list, unless the structure or the list in it cannot be allocated: the list
  of the workers is list number 7 for \<open>gru_list_new\<close>, which reports its failure in the status.\<close>

definition worker_list_new :: "'w wenv \<Rightarrow> gru_status \<Rightarrow> 'w worker_info list option \<times> gru_status" where
  "worker_list_new env st =
    (case e_alloc env 8 of
       Some m \<Rightarrow> (None, alloc_fail m)
     | None \<Rightarrow> if e_list_new env 7 then (Some [], st) else (None, alloc_fail []))"

definition worker_list_init :: "'w wenv \<Rightarrow> 'w globals \<Rightarrow> gru_status \<Rightarrow> bool \<times> 'w globals \<times> gru_status" where
  "worker_list_init env g st =
    (if g_list g \<noteq> None then (False, g, st)
     else case worker_list_new env st of (l, st') \<Rightarrow> (l \<noteq> None, g\<lparr>g_list := l\<rparr>, st'))"

definition worker_list_clean :: "'w wenv \<Rightarrow> 'w globals \<Rightarrow> 'w \<Rightarrow> ('w globals \<times> 'w) run" where
  "worker_list_clean env g w =
    run_bind (worker_list_lock g) (\<lambda>g1.
    Inr (worker_list_unlock (g1\<lparr>g_list := None\<rparr>), worker_list_destroy env (g_list g1) w))"

definition worker_list_append :: "'w os_api \<Rightarrow> 'w worker_info \<Rightarrow> 'w globals \<Rightarrow> gru_status \<Rightarrow>
    (bool \<times> 'w globals \<times> gru_status) run" where
  "worker_list_append os wi g st =
    run_bind (worker_list_lock g) (\<lambda>g1.
    case g_list g1 of
      None \<Rightarrow> Inr (False, worker_list_unlock g1, st)
    | Some wis \<Rightarrow>
        if \<not> os_list_append os (length wis) then
          Inr (False, worker_list_unlock g1,
            St_Set GRU_FAILURE (''Unable register new worker: '' @ gru_status_message st))
        else Inr (True, worker_list_unlock (g1\<lparr>g_list := Some (wis @ [wi])\<rparr>), st))"

definition worker_list_count :: "'w globals \<Rightarrow> (u32 \<times> 'w globals) run" where
  "worker_list_count g =
    run_bind (worker_list_lock g) (\<lambda>g1.
    Inr (case g_list g1 of None \<Rightarrow> 0 | Some wis \<Rightarrow> word_of_nat (length wis), worker_list_unlock g1))"

definition worker_list_is_running :: "'w globals \<Rightarrow> bool" where
  "worker_list_is_running g = (g_list g \<noteq> None)"

text \<open>The nodes from \<open>worker_list_root\<close> on.\<close>

definition worker_list_root :: "'w globals \<Rightarrow> 'w worker_info list" where
  "worker_list_root g = (case g_list g of None \<Rightarrow> [] | Some wis \<Rightarrow> wis)"

text \<open>After a traversal the list holds the nodes that were kept, when there is a list.\<close>

definition put_nodes :: "'w worker_info list \<Rightarrow> 'w globals \<Rightarrow> 'w globals" where
  "put_nodes wis g = g\<lparr>g_list := map_option (\<lambda>_. wis) (g_list g)\<rparr>"

lemma lock_simps [simp, list_step_simps]:
  "\<not> g_locked g \<Longrightarrow> worker_list_lock g = Inr (g\<lparr>g_locked := True\<rparr>)"
  "g_locked g \<Longrightarrow> worker_list_lock g = Inl Deadlock"
  "g_locked (worker_list_unlock g) = False" "g_list (worker_list_unlock g) = g_list g"
  "g_errors (worker_list_unlock g) = g_errors g"
  "g_locked (put_nodes wis g) = g_locked g" "g_errors (put_nodes wis g) = g_errors g"
  by (simp_all add: worker_list_lock_def worker_list_unlock_def put_nodes_def)

section \<open>Snapshots\<close>

text \<open>What one snapshot is written to; the results of the writes are only logged.\<close>

definition write_snapshot :: "'w worker_info \<Rightarrow> gru_status \<Rightarrow> 'w \<Rightarrow> (gru_status \<times> 'w) undef" where
  "write_snapshot wi st w = do {
     (st1, w1) \<leftarrow> (if wrk_has (wi_flags wi) WRK_RECEIVER then do {
         write \<leftarrow> wr_write (w_latency (wi_writer wi));
         Some (snd (write (ws_latency (wi_snapshot wi)) st w)) }
       else Some (st, w));
     if wrk_has (wi_flags wi) WRK_DAEMON then do {
         write \<leftarrow> wr_write (w_rate (wi_writer wi));
         Some (snd (write (ws_throughput (wi_snapshot wi), ws_eta (wi_snapshot wi)) st1 w1)) }
     else Some (st1, w1)
   }"

definition take_snapshot :: "worker_snapshot option \<Rightarrow> 'w worker_info \<Rightarrow> 'w worker_info" where
  "take_snapshot m wi = (case m of None \<Rightarrow> wi | Some s \<Rightarrow> wi\<lparr>wi_snapshot := s\<rparr>)"

fun update_snapshot :: "'w wenv \<Rightarrow> nat \<Rightarrow> 'w worker_info \<Rightarrow> gru_status \<Rightarrow> 'w \<Rightarrow> ('w worker_info \<times> 'w) run" where
  "update_snapshot env 0 wi st w = Inl Out_of_fuel"
| "update_snapshot env (Suc fuel) wi st w =
    run_bind (of_undef (worker_queue_read (e_ipc env) (wi_queue wi) sizeof_snapshot w)) (\<lambda>(stat, m, w1).
    let wi1 = take_snapshot m wi in
    if wq_has_data stat then
      run_bind (of_undef (write_snapshot wi1 st w1)) (\<lambda>(st2, w2). update_snapshot env fuel wi1 st2 w2)
    else Inr (wi1, w1))"

definition worker_manager_update_snapshot :: "'w wenv \<Rightarrow> nat \<Rightarrow> 'w worker_info \<Rightarrow> 'w \<Rightarrow> ('w worker_info \<times> 'w) run" where
  "worker_manager_update_snapshot env fuel wi w = update_snapshot env fuel wi St_New w"

section \<open>The watchdog\<close>

definition WRK_HANDLE_EVAL :: u32 where "WRK_HANDLE_EVAL = 1"
definition WRK_HANDLE_PRINT :: u32 where "WRK_HANDLE_PRINT = 2"

record 'w worker_handler =
  h_flags :: u32
  h_eval :: "('w worker_info \<Rightarrow> gru_status \<Rightarrow> 'w \<Rightarrow> bool \<times> gru_status \<times> 'w) option"
  h_print :: "('w worker_info \<Rightarrow> 'w \<Rightarrow> 'w) option"

definition h_has :: "'w worker_handler \<Rightarrow> u32 \<Rightarrow> bool" where
  "h_has h flag = (h_flags h AND flag \<noteq> 0)"

text \<open>
  How a pass over the list ends: at the end of the list, at a flag whose function
  is missing (the function returns with the mutex held), or because the
  evaluation asked to stop.
\<close>

datatype pass_end = Pass_Done | Pass_No_Function | Pass_Eval_Failed

definition run_print :: "'w worker_handler \<Rightarrow> 'w worker_info \<Rightarrow> gru_status \<Rightarrow> 'w \<Rightarrow> pass_end \<times> gru_status \<times> 'w" where
  "run_print h wi st w =
    (if h_has h WRK_HANDLE_PRINT then
       (case h_print h of
          None \<Rightarrow> (Pass_No_Function,
            St_Set GRU_FAILURE ''Worker handler print flag is set but no print function given'', w)
        | Some print \<Rightarrow> (Pass_Done, st, print wi w))
     else (Pass_Done, st, w))"

definition run_eval :: "'w worker_handler \<Rightarrow> 'w worker_info \<Rightarrow> gru_status \<Rightarrow> 'w \<Rightarrow> pass_end \<times> gru_status \<times> 'w" where
  "run_eval h wi st w =
    (if h_has h WRK_HANDLE_EVAL then
       (case h_eval h of
          None \<Rightarrow> (Pass_No_Function,
            St_Set GRU_FAILURE ''Worker handler eval flag is set but no eval function given'', w)
        | Some ev \<Rightarrow> (case ev wi st w of (ok, st1, w1) \<Rightarrow>
            (if ok then Pass_Done else Pass_Eval_Failed, st1, w1)))
     else (Pass_Done, st, w))"

definition run_handler :: "'w worker_handler \<Rightarrow> 'w worker_info \<Rightarrow> gru_status \<Rightarrow> 'w \<Rightarrow> pass_end \<times> gru_status \<times> 'w" where
  "run_handler h wi st w =
    (case run_print h wi st w of (e, st1, w1) \<Rightarrow>
       if e = Pass_Done then run_eval h wi st1 w1 else (e, st1, w1))"

text \<open>Whether the end of a child counts as an error.\<close>

definition child_error :: "u32 \<Rightarrow> bool" where
  "child_error s =
    (if WIFEXITED s then False
     else if WIFSIGNALED s then WTERMSIG s \<noteq> SIGINT
     else if WIFSTOPPED s then WSTOPSIG s \<noteq> SIGINT
     else False)"

text \<open>The loop over the nodes: the way it ends, the nodes still in the list, the errors.\<close>

fun watchdog_nodes :: "'w wenv \<Rightarrow> 'w os_api \<Rightarrow> nat \<Rightarrow> 'w worker_handler \<Rightarrow> 'w worker_info list \<Rightarrow> u32 \<Rightarrow>
    gru_status \<Rightarrow> 'w \<Rightarrow> (pass_end \<times> 'w worker_info list \<times> u32 \<times> gru_status \<times> 'w) run" where
  "watchdog_nodes env os fuel h [] errs st w = Inr (Pass_Done, [], errs, st, w)"
| "watchdog_nodes env os fuel h (wi # wis) errs st w =
    run_bind (worker_manager_update_snapshot env fuel wi w) (\<lambda>(wi1, w1).
    case os_waitpid os (wi_child wi1) w1 of (pid, wstatus, w2) \<Rightarrow>
      if pid = 0 then
        (case run_handler h wi1 st w2 of (e, st1, w3) \<Rightarrow>
           if e = Pass_Done then
             run_bind (watchdog_nodes env os fuel h wis errs st1 w3) (\<lambda>(e', wis', errs', st', w').
             Inr (e', wi1 # wis', errs', st', w'))
           else Inr (e, wi1 # wis, errs, st1, w3))
      else
        watchdog_nodes env os fuel h wis (if child_error wstatus then errs + 1 else errs) st
          (worker_info_destroy env (Some wi1) w2))"

definition worker_manager_watchdog :: "'w wenv \<Rightarrow> 'w os_api \<Rightarrow> nat \<Rightarrow> 'w worker_handler \<Rightarrow> 'w globals \<Rightarrow> gru_status \<Rightarrow> 'w \<Rightarrow>
    (bool \<times> 'w globals \<times> gru_status \<times> 'w) run" where
  "worker_manager_watchdog env os fuel h g st w =
    run_bind (worker_list_lock g) (\<lambda>g1.
    run_bind (watchdog_nodes env os fuel h (worker_list_root g1) (g_errors g1) st w) (\<lambda>(e, wis, errs, st1, w1).
    let g2 = (put_nodes wis g1)\<lparr>g_errors := errs\<rparr> in
    Inr (e = Pass_Done, if e = Pass_No_Function then g2 else worker_list_unlock g2, st1, w1)))"

definition watchdog_wait_time :: "u32 \<Rightarrow> u32" where
  "watchdog_wait_time count = (if 10 < count then 1000000 div count else 100000)"

fun watchdog_rounds :: "'w wenv \<Rightarrow> 'w os_api \<Rightarrow> nat \<Rightarrow> nat \<Rightarrow> 'w worker_handler \<Rightarrow> u32 \<Rightarrow> u32 \<Rightarrow> 'w globals \<Rightarrow> gru_status \<Rightarrow> 'w \<Rightarrow>
    ('w globals \<times> gru_status \<times> 'w) run" where
  "watchdog_rounds env os 0 fuel h wait_time count g st w = Inl Out_of_fuel"
| "watchdog_rounds env os (Suc rounds) fuel h wait_time count g st w =
    (if worker_list_is_running g \<and> 0 < count then
       run_bind (worker_manager_watchdog env os fuel h g st w) (\<lambda>(ok, g1, st1, w1).
       if ok then
         run_bind (worker_list_count g1) (\<lambda>(count', g2).
         watchdog_rounds env os rounds fuel h wait_time count' g2 st1 (e_usleep env wait_time w1))
       else Inr (g1, st1, w1))
     else Inr (g, st, w))"

definition worker_manager_watchdog_loop :: "'w wenv \<Rightarrow> 'w os_api \<Rightarrow> nat \<Rightarrow> nat \<Rightarrow> 'w worker_handler \<Rightarrow> 'w globals \<Rightarrow>
    gru_status \<Rightarrow> 'w \<Rightarrow> ('w globals \<times> gru_status \<times> 'w) run" where
  "worker_manager_watchdog_loop env os rounds fuel h g st w =
    run_bind (worker_list_count g) (\<lambda>(count, g1).
    run_bind (watchdog_rounds env os rounds fuel h (watchdog_wait_time count) count g1 st w) (\<lambda>(g2, st1, w1).
    Inr (g2, if 0 < g_errors g2
      then St_Set GRU_FAILURE ''There were %u child process that ended with failure'' else st1, w1)))"

section \<open>Stopping\<close>

text \<open>The polls of one child: at most \<open>retry\<close>, then it is killed.\<close>

fun stop_wait :: "'w wenv \<Rightarrow> 'w os_api \<Rightarrow> int \<Rightarrow> nat \<Rightarrow> 'w \<Rightarrow> 'w" where
  "stop_wait env os child 0 w = w"
| "stop_wait env os child (Suc retry) w =
    (case os_waitpid os child w of (pid, wstatus, w1) \<Rightarrow>
       if 0 < pid \<or> pid = - 1 then w1
       else
         let w2 = e_usleep env 100000 w1;
             w3 = (if retry = 0 then snd (os_kill os child SIGKILL w2) else w2) in
         if pid = 0 \<and> 0 < retry then stop_wait env os child retry w3 else w3)"

fun stop_nodes :: "'w wenv \<Rightarrow> 'w os_api \<Rightarrow> nat \<Rightarrow> int \<Rightarrow> 'w worker_info list \<Rightarrow> 'w \<Rightarrow> ('w worker_info list \<times> 'w) run" where
  "stop_nodes env os fuel sig [] w = Inr ([], w)"
| "stop_nodes env os fuel sig (wi # wis) w =
    (case os_kill os (wi_child wi) sig w of (ok, w1) \<Rightarrow>
       if \<not> ok then
         run_bind (stop_nodes env os fuel sig wis w1) (\<lambda>(wis', w'). Inr (wi # wis', w'))
       else
         run_bind (worker_manager_update_snapshot env fuel wi (stop_wait env os (wi_child wi) 10 w1)) (\<lambda>(wi1, w2).
         run_bind (stop_nodes env os fuel sig wis w2) (\<lambda>(wis', w'). Inr (wi1 # wis', w'))))"

definition worker_manager_do_stop :: "'w wenv \<Rightarrow> 'w os_api \<Rightarrow> nat \<Rightarrow> int \<Rightarrow> 'w globals \<Rightarrow> 'w \<Rightarrow> (bool \<times> 'w globals \<times> 'w) run" where
  "worker_manager_do_stop env os fuel sig g w =
    run_bind (worker_list_lock g) (\<lambda>g1.
    run_bind (stop_nodes env os fuel sig (worker_list_root g1) w) (\<lambda>(wis, w1).
    run_bind (worker_list_clean env (worker_list_unlock (put_nodes wis g1)) w1) (\<lambda>(g2, w2).
    Inr (True, g2, w2))))"

definition worker_manager_stop :: "'w wenv \<Rightarrow> 'w os_api \<Rightarrow> nat \<Rightarrow> 'w globals \<Rightarrow> 'w \<Rightarrow> (bool \<times> 'w globals \<times> 'w) run" where
  "worker_manager_stop env os fuel g w = worker_manager_do_stop env os fuel SIGINT g w"

definition worker_manager_abort :: "'w wenv \<Rightarrow> 'w os_api \<Rightarrow> nat \<Rightarrow> 'w globals \<Rightarrow> 'w \<Rightarrow> (bool \<times> 'w globals \<times> 'w) run" where
  "worker_manager_abort env os fuel g w =
    worker_manager_do_stop env os fuel SIGTERM (g\<lparr>g_errors := g_errors g + 1\<rparr>) w"

section \<open>Starting\<close>

type_synonym 'w start_fn = "'w worker \<Rightarrow> worker_snapshot \<Rightarrow> gru_status \<Rightarrow> 'w \<Rightarrow>
  (worker_ret \<times> worker_snapshot \<times> gru_status \<times> 'w) run"

type_synonym 'w clone_result = "(worker_ret \<times> 'w worker \<times> 'w globals \<times> gru_status \<times> 'w) run"

text \<open>A child runs the worker and returns with its own copy of the globals.\<close>

definition run_child :: "'w os_api \<Rightarrow> 'w start_fn \<Rightarrow> 'w worker \<Rightarrow> 'w globals \<Rightarrow> gru_status \<Rightarrow> 'w \<Rightarrow> 'w clone_result" where
  "run_child os start wk g st w =
    (case remap_log os (wk_log_dir wk) (wk_name wk) (os_getppid os w) (os_getpid os w) st w of (ok, st1, w1) \<Rightarrow>
       run_bind (start wk zero_snapshot st1 (os_install_handler os w1)) (\<lambda>(wret, snap, st2, w2).
       Inr (wret OR WORKER_CHILD, wk, g, st2, w2)))"

fun clone_loop :: "'w wenv \<Rightarrow> 'w os_api \<Rightarrow> 'w start_fn \<Rightarrow> nat \<Rightarrow> 'w worker \<Rightarrow> 'w globals \<Rightarrow> gru_status \<Rightarrow> 'w \<Rightarrow>
    'w clone_result" where
  "clone_loop env os start 0 wk g st w = Inr (WORKER_SUCCESS, wk, g, st, w)"
| "clone_loop env os start (Suc n) wk g st w =
    (case os_fork os w of (child, w1) \<Rightarrow>
       if child = 0 then run_child os start wk g st w1
       else case worker_info_new env os wk child st w1 of
           (None, st2, w2) \<Rightarrow> Inr (WORKER_FAILURE, wk, g, st2, w2)
         | (Some wi, st2, w2) \<Rightarrow>
             run_bind (worker_list_append os wi g st2) (\<lambda>(ok, g3, st3).
             if \<not> ok then
               Inr (WORKER_FAILURE, wk, g3, st3,
                 worker_info_destroy env (Some wi) (snd (os_kill os (wi_child wi) SIGKILL w2)))
             else clone_loop env os start n wk g3 st3 w2))"

text \<open>\<open>v_info\<close> is called through its pointer; the writer tables are filled in before the first fork.\<close>

definition worker_manager_clone :: "'w wenv \<Rightarrow> 'w os_api \<Rightarrow> 'w config_api \<Rightarrow> (report_format \<Rightarrow> 'w stats_writer) \<Rightarrow>
    'w start_fn \<Rightarrow> 'w worker \<Rightarrow> 'w globals \<Rightarrow> gru_status \<Rightarrow> 'w \<Rightarrow> 'w clone_result" where
  "worker_manager_clone env os cfg impl start wk g st w =
    (case worker_list_init env (g\<lparr>g_errors := 0\<rparr>) st of (ok, g1, st1) \<Rightarrow>
       if \<not> ok then Inr (WORKER_FAILURE, wk, g1, st1, w)
       else
         run_bind (of_undef (v_info (wk_vmsl wk))) (\<lambda>info.
         run_bind (of_undef (worker_dump cfg (wk_log_dir wk) (wk_options wk) (Some info) st1 w)) (\<lambda>(dumped, st2, w2).
         if \<not> dumped then Inr (WORKER_FAILURE, wk, g1, st2, w2)
         else
           run_bind (of_undef (naming_initialize_writer impl (wk_writer wk) (wk_report_format wk) (wk_naming_options wk)
               \<lparr>nm_source = wk_name wk, nm_location = wk_log_dir wk\<rparr> st2 w2)) (\<lambda>(named, wr, st3, w3).
           let wk3 = wk\<lparr>wk_writer := wr\<rparr> in
           if \<not> named then Inr (WORKER_FAILURE, wk3, g1, st3, w3)
           else clone_loop env os start (unat (wo_parallel_count (wk_options wk))) wk3 g1 st3 w3))))"


section \<open>The mutex\<close>

text \<open>A handler has the functions its flags announce.\<close>

definition handler_complete :: "'w worker_handler \<Rightarrow> bool" where
  "handler_complete h = ((h_has h WRK_HANDLE_PRINT \<longrightarrow> h_print h \<noteq> None) \<and> (h_has h WRK_HANDLE_EVAL \<longrightarrow> h_eval h \<noteq> None))"

lemma complete_handler_end:
  "handler_complete h \<Longrightarrow> fst (run_handler h wi st w) \<noteq> Pass_No_Function"
  by (auto simp: handler_complete_def run_handler_def run_print_def run_eval_def split: prod.splits option.splits)

lemma complete_pass_end:
  assumes "handler_complete h"
  shows "watchdog_nodes env os fuel h wis errs st w = Inr (e, wis', errs', st', w') \<Longrightarrow> e \<noteq> Pass_No_Function"
proof (induction wis arbitrary: errs st w e wis' errs' st' w')
  case (Cons wi wis)
  obtain wi1 w1 where u: "worker_manager_update_snapshot env fuel wi w = Inr (wi1, w1)"
    using Cons.prems by (auto simp: run_bind_eq_Inr)
  obtain pid s w2 where p: "os_waitpid os (wi_child wi1) w1 = (pid, s, w2)" by (metis prod_cases3)
  obtain e1 st1 w3 where h: "run_handler h wi1 st w2 = (e1, st1, w3)" by (metis prod_cases3)
  have "e1 \<noteq> Pass_No_Function" using complete_handler_end [OF assms, of wi1 st w2] h by simp
  with Cons.prems u p h show ?case by (auto simp: run_bind_eq_Inr split: if_splits dest: Cons.IH)
qed simp

text \<open>Nothing below the operations on the list takes the mutex.\<close>

lemma of_undef_no_deadlock [simp]: "of_undef u \<noteq> Inl Deadlock"
  by (simp add: of_undef_def split: option.splits)

lemma update_no_deadlock [simp]: "update_snapshot env fuel wi st w \<noteq> Inl Deadlock"
  by (induction fuel arbitrary: wi st w) (auto simp: run_bind_eq_Inl Let_def split: if_splits)

lemma watchdog_nodes_no_deadlock [simp]: "watchdog_nodes env os fuel h wis errs st w \<noteq> Inl Deadlock"
  by (induction wis arbitrary: errs st w)
    (auto simp: run_bind_eq_Inl worker_manager_update_snapshot_def split: prod.splits if_splits)

lemma stop_nodes_no_deadlock [simp]: "stop_nodes env os fuel sig wis w \<noteq> Inl Deadlock"
  by (induction wis arbitrary: w)
    (auto simp: run_bind_eq_Inl worker_manager_update_snapshot_def split: prod.splits if_splits)

lemma do_stop_no_deadlock: "\<not> g_locked g \<Longrightarrow> worker_manager_do_stop env os fuel sig g w \<noteq> Inl Deadlock"
  by (auto simp: run_bind_eq_Inl worker_manager_do_stop_def worker_list_clean_def)

lemma watchdog_no_deadlock: "\<not> g_locked g \<Longrightarrow> worker_manager_watchdog env os fuel h g st w \<noteq> Inl Deadlock"
  by (auto simp: run_bind_eq_Inl worker_manager_watchdog_def Let_def)

text \<open>What the operations leave of the globals when they return.\<close>

lemma do_stop_result:
  "worker_manager_do_stop env os fuel sig g w = Inr (ok, g', w') \<Longrightarrow>
   \<not> g_locked g \<and> ok \<and> g' = g\<lparr>g_list := None, g_locked := False\<rparr>"
  by (cases "g_locked g") (auto simp: worker_manager_do_stop_def run_bind_eq_Inr worker_list_clean_def
      worker_list_unlock_def put_nodes_def)

lemma watchdog_unlocks:
  "handler_complete h \<Longrightarrow> worker_manager_watchdog env os fuel h g st w = Inr (ok, g', st', w') \<Longrightarrow> \<not> g_locked g'"
  using complete_pass_end by (fastforce simp: worker_manager_watchdog_def run_bind_eq_Inr Let_def)

lemma count_unlocks: "worker_list_count g = Inr (n, g') \<Longrightarrow> \<not> g_locked g'"
  by (cases "g_locked g") (auto simp: worker_list_count_def)

lemma watchdog_rounds_unlocked:
  assumes "handler_complete h"
  shows "watchdog_rounds env os rounds fuel h t n g st w = Inr (g', st', w') \<Longrightarrow> \<not> g_locked g \<Longrightarrow> \<not> g_locked g'"
proof (induction rounds arbitrary: n g st w)
  case (Suc rounds)
  then show ?case
    using watchdog_unlocks [OF assms] count_unlocks by (fastforce simp: run_bind_eq_Inr split: if_splits)
qed simp

lemma watchdog_loop_unlocked:
  "handler_complete h \<Longrightarrow> worker_manager_watchdog_loop env os rounds fuel h g st w = Inr (g', st', w') \<Longrightarrow> \<not> g_locked g'"
  using watchdog_rounds_unlocked count_unlocks by (fastforce simp: worker_manager_watchdog_loop_def run_bind_eq_Inr)

lemma append_unlocks:
  "worker_list_append os wi g st = Inr (ok, g', st') \<Longrightarrow> \<not> g_locked g'"
  by (cases "g_locked g") (auto simp: worker_list_append_def split: option.splits if_splits)

lemma clone_loop_unlocked:
  "clone_loop env os start n wk g st w = Inr (ret, wk', g', st', w') \<Longrightarrow> \<not> g_locked g \<Longrightarrow> \<not> g_locked g'"
proof (induction n arbitrary: g st w)
  case (Suc n)
  then show ?case
    using append_unlocks
    by (fastforce simp: run_child_def run_bind_eq_Inr split: prod.splits option.splits if_splits)
qed simp

lemma list_init_locked [simp]: "worker_list_init env g st = (ok, g', st') \<Longrightarrow> g_locked g' = g_locked g"
  by (auto simp: worker_list_init_def split: if_splits prod.splits)

lemma clone_unlocked:
  "worker_manager_clone env os cfg impl start wk g st w = Inr (ret, wk', g', st', w') \<Longrightarrow> \<not> g_locked g \<Longrightarrow> \<not> g_locked g'"
  using clone_loop_unlocked list_init_locked
  by (fastforce simp: worker_manager_clone_def run_bind_eq_Inr Let_def split: prod.splits if_splits)

text \<open>
  The manager as a transition system: any sequence of the operations the daemons
  and the command line tools perform, with complete handlers.
\<close>

inductive manager_step :: "'w wenv \<Rightarrow> 'w os_api \<Rightarrow> 'w globals \<times> 'w \<Rightarrow> 'w globals \<times> 'w \<Rightarrow> bool" for env os where
  step_clone: "worker_manager_clone env os cfg impl start wk g st w = Inr (ret, wk', g', st', w') \<Longrightarrow>
    manager_step env os (g, w) (g', w')"
| step_watchdog: "handler_complete h \<Longrightarrow> worker_manager_watchdog env os fuel h g st w = Inr (ok, g', st', w') \<Longrightarrow>
    manager_step env os (g, w) (g', w')"
| step_stop: "worker_manager_stop env os fuel g w = Inr (ok, g', w') \<Longrightarrow> manager_step env os (g, w) (g', w')"
| step_abort: "worker_manager_abort env os fuel g w = Inr (ok, g', w') \<Longrightarrow> manager_step env os (g, w) (g', w')"

inductive_cases manager_stepE: "manager_step env os s s'"

lemma manager_step_unlocked:
  "manager_step env os s s' \<Longrightarrow> \<not> g_locked (fst s) \<Longrightarrow> \<not> g_locked (fst s')"
  by (erule manager_stepE)
    (auto dest: clone_unlocked watchdog_unlocks do_stop_result
      simp: worker_manager_stop_def worker_manager_abort_def)

lemma manager_reachable_unlocked:
  "(manager_step env os)\<^sup>*\<^sup>* s s' \<Longrightarrow> \<not> g_locked (fst s) \<Longrightarrow> \<not> g_locked (fst s')"
  by (induction rule: rtranclp_induct) (auto dest: manager_step_unlocked)


section \<open>Quiet queues and settled children\<close>

text \<open>A queue with nothing in it; the answers of \<open>waitpid\<close> during a pass.\<close>

definition queue_idle :: "'w wenv \<Rightarrow> 'w worker_info \<Rightarrow> bool" where
  "queue_idle env wi = (\<forall>w. worker_queue_read (e_ipc env) (wi_queue wi) sizeof_snapshot w
     = Some (MPT_WQ_SUCCESS OR MPT_WQ_NO_DATA, None, w))"

definition settled :: "'w os_api \<Rightarrow> (int \<Rightarrow> int) \<Rightarrow> (int \<Rightarrow> u32) \<Rightarrow> bool" where
  "settled os ans stat = (\<forall>pid w. \<exists>w'. os_waitpid os pid w = (ans pid, stat pid, w'))"

lemma update_idle [list_step_simps]:
  "queue_idle env wi \<Longrightarrow> worker_manager_update_snapshot env (Suc fuel) wi w = Inr (wi, w)"
  by (simp add: queue_idle_def worker_manager_update_snapshot_def take_snapshot_def)

text \<open>
  A handler that has the functions of its flags and whose evaluation, if it has one, answers
  \<open>verdict\<close>; a pass goes on behind a child that has ended and behind one that is found good.
\<close>

definition judges :: "'w worker_handler \<Rightarrow> ('w worker_info \<Rightarrow> bool) \<Rightarrow> bool" where
  "judges h verdict = ((h_has h WRK_HANDLE_PRINT \<longrightarrow> h_print h \<noteq> None) \<and>
     (if h_has h WRK_HANDLE_EVAL then \<exists>ev. h_eval h = Some ev \<and> (\<forall>wi st w. fst (ev wi st w) = verdict wi) else \<forall>wi. verdict wi))"

definition goes_on :: "(int \<Rightarrow> int) \<Rightarrow> ('w worker_info \<Rightarrow> bool) \<Rightarrow> 'w worker_info \<Rightarrow> bool" where
  "goes_on ans verdict wi = (ans (wi_child wi) = 0 \<longrightarrow> verdict wi)"

definition failed_children :: "(int \<Rightarrow> int) \<Rightarrow> (int \<Rightarrow> u32) \<Rightarrow> 'w worker_info list \<Rightarrow> 'w worker_info list" where
  "failed_children ans stat wis = filter (\<lambda>wi. ans (wi_child wi) \<noteq> 0 \<and> child_error (stat (wi_child wi))) wis"

lemma judged_handler:
  assumes "judges h verdict"
  shows "\<exists>st' w'. run_handler h wi st w = (if verdict wi then Pass_Done else Pass_Eval_Failed, st', w') \<and>
    (\<not> h_has h WRK_HANDLE_EVAL \<longrightarrow> st' = st)"
  using assms by (auto simp: judges_def run_handler_def run_print_def run_eval_def case_prod_unfold split: if_splits)

lemma watchdog_nodes_judged:
  assumes "settled os ans stat" and "judges h verdict" and "\<And>wi. wi \<in> set wis \<Longrightarrow> queue_idle env wi"
  shows "\<exists>st' w'. watchdog_nodes env os (Suc fuel) h wis errs st w =
    Inr (if list_all (goes_on ans verdict) wis then Pass_Done else Pass_Eval_Failed,
      filter (\<lambda>wi. ans (wi_child wi) = 0) (takeWhile (goes_on ans verdict) wis) @ dropWhile (goes_on ans verdict) wis,
      errs + word_of_nat (length (failed_children ans stat (takeWhile (goes_on ans verdict) wis))), st', w') \<and>
    (\<not> h_has h WRK_HANDLE_EVAL \<longrightarrow> st' = st)"
  using assms(3)
proof (induction wis arbitrary: errs st w)
  case (Cons wi wis)
  obtain w1 where w1: "os_waitpid os (wi_child wi) w = (ans (wi_child wi), stat (wi_child wi), w1)"
    using assms(1) unfolding settled_def by blast
  have idle: "queue_idle env wi" using Cons.prems by simp
  note ih = Cons.IH [OF Cons.prems [OF list.set_intros(2)]]
  show ?case
  proof (cases "ans (wi_child wi) = 0")
    case True
    obtain st1 w2 where h: "run_handler h wi st w1 = (if verdict wi then Pass_Done else Pass_Eval_Failed, st1, w2)"
      "\<not> h_has h WRK_HANDLE_EVAL \<longrightarrow> st1 = st" using judged_handler [OF assms(2)] by blast
    from ih [of errs st1 w2] h w1 True show ?thesis
      by (auto simp: list_step_simps idle goes_on_def failed_children_def)
  next
    case False
    from ih [of "if child_error (stat (wi_child wi)) then errs + 1 else errs" st "worker_info_destroy env (Some wi) w1"]
      w1 False show ?thesis by (auto simp: list_step_simps idle goes_on_def failed_children_def algebra_simps)
  qed
qed (simp add: failed_children_def)

lemma quiet_judges: "h_flags h = 0 \<Longrightarrow> judges h (\<lambda>wi. True)" "h_flags h = 0 \<Longrightarrow> \<not> h_has h WRK_HANDLE_EVAL"
  by (simp_all add: judges_def h_has_def)

lemma goes_on_all [simp]:
  "takeWhile (goes_on ans (\<lambda>wi. True)) wis = wis" "dropWhile (goes_on ans (\<lambda>wi. True)) wis = []" "list_all (goes_on ans (\<lambda>wi. True)) wis"
  by (simp_all add: goes_on_def list_all_iff)

definition reaped :: "(int \<Rightarrow> int) \<Rightarrow> (int \<Rightarrow> u32) \<Rightarrow> 'w worker_info list \<Rightarrow> 'w globals \<Rightarrow> 'w globals" where
  "reaped ans stat wis g = g\<lparr>g_list := Some (filter (\<lambda>wi. ans (wi_child wi) = 0) wis),
     g_errors := g_errors g + word_of_nat (length (failed_children ans stat wis))\<rparr>"

lemma watchdog_reap_step:
  assumes "\<not> g_locked g" and "g_list g = Some wis" and "settled os ans stat" and "h_flags h = 0"
    and "\<And>wi. wi \<in> set wis \<Longrightarrow> queue_idle env wi"
  shows "\<exists>w'. worker_manager_watchdog env os (Suc fuel) h g st w = Inr (True, reaped ans stat wis g, st, w')"
proof -
  from watchdog_nodes_judged [OF assms(3) quiet_judges(1) [OF assms(4)] assms(5), of wis fuel "g_errors g" st w] obtain w' where
    "watchdog_nodes env os (Suc fuel) h wis (g_errors g) st w = Inr (Pass_Done, filter (\<lambda>wi. ans (wi_child wi) = 0) wis,
      g_errors g + word_of_nat (length (failed_children ans stat wis)), st, w')"
    using quiet_judges(2) [OF assms(4)] by auto
  with assms(1,2) show ?thesis
    by (simp add: worker_manager_watchdog_def worker_list_root_def put_nodes_def worker_list_unlock_def reaped_def)
qed

section \<open>Draining a queue\<close>

text \<open>A writer that logs what it is given to \<open>seen\<close> and leaves \<open>other\<close> alone.\<close>

definition logs_to :: "('w, 'd) writer_table \<Rightarrow> ('w \<Rightarrow> 'd list) \<Rightarrow> ('w \<Rightarrow> 'o) \<Rightarrow> bool" where
  "logs_to t seen other = (\<exists>wfn. wr_write t = Some wfn \<and>
     (\<forall>d st w. seen (snd (snd (wfn d st w))) = seen w @ [d] \<and> other (snd (snd (wfn d st w))) = other w))"

definition latency_log :: "worker_flags \<Rightarrow> worker_snapshot list \<Rightarrow> stat_latency list" where
  "latency_log fs ss = (if wrk_has fs WRK_RECEIVER then map ws_latency ss else [])"

definition rate_log :: "worker_flags \<Rightarrow> worker_snapshot list \<Rightarrow> (stat_throughput \<times> timestamp) list" where
  "rate_log fs ss = (if wrk_has fs WRK_DAEMON then map (\<lambda>s. (ws_throughput s, ws_eta s)) ss else [])"

lemma write_snapshot_logs:
  assumes "logs_to (w_latency (wi_writer wi)) lat (\<lambda>w. (contents w, rate w))"
    and "logs_to (w_rate (wi_writer wi)) rate (\<lambda>w. (contents w, lat w))"
  shows "\<exists>st' w'. write_snapshot wi st w = Some (st', w') \<and> contents w' = contents w \<and>
    lat w' = lat w @ latency_log (wi_flags wi) [wi_snapshot wi] \<and> rate w' = rate w @ rate_log (wi_flags wi) [wi_snapshot wi]"
proof -
  from assms obtain f g where f: "wr_write (w_latency (wi_writer wi)) = Some f"
    "\<And>d st w. lat (snd (snd (f d st w))) = lat w @ [d] \<and> contents (snd (snd (f d st w))) = contents w \<and>
       rate (snd (snd (f d st w))) = rate w"
    and g: "wr_write (w_rate (wi_writer wi)) = Some g"
    "\<And>d st w. rate (snd (snd (g d st w))) = rate w @ [d] \<and> contents (snd (snd (g d st w))) = contents w \<and>
       lat (snd (snd (g d st w))) = lat w"
    by (fastforce simp: logs_to_def)
  define p where "p = (if wrk_has (wi_flags wi) WRK_RECEIVER then snd (f (ws_latency (wi_snapshot wi)) st w) else (st, w))"
  define q where "q = (if wrk_has (wi_flags wi) WRK_DAEMON
    then snd (g (ws_throughput (wi_snapshot wi), ws_eta (wi_snapshot wi)) (fst p) (snd p)) else p)"
  have "write_snapshot wi st w = Some (fst q, snd q)"
    using f(1) g(1) by (simp add: write_snapshot_def p_def q_def case_prod_beta)
  moreover have "contents (snd p) = contents w" "rate (snd p) = rate w"
    "lat (snd p) = lat w @ latency_log (wi_flags wi) [wi_snapshot wi]"
    using f(2) by (simp_all add: p_def latency_log_def)
  moreover have "contents (snd q) = contents (snd p)" "lat (snd q) = lat (snd p)"
    "rate (snd q) = rate (snd p) @ rate_log (wi_flags wi) [wi_snapshot wi]"
    using g(2) by (simp_all add: q_def rate_log_def)
  ultimately show ?thesis by (cases q) simp
qed

lemma update_drains_loop:
  assumes "snapshot_queue wr (worker_queue_read (e_ipc env) q sizeof_snapshot) contents room"
    and "\<And>w s m w'. worker_queue_read (e_ipc env) q sizeof_snapshot w = Some (s, m, w') \<Longrightarrow> lat w' = lat w \<and> rate w' = rate w"
    and "logs_to (w_latency wr') lat (\<lambda>w. (contents w, rate w))" and "logs_to (w_rate wr') rate (\<lambda>w. (contents w, lat w))"
    and "wi_queue wi = q" and "wi_writer wi = wr'" and "length (contents w) < fuel"
  shows "\<exists>w'. update_snapshot env fuel wi st w = Inr (wi\<lparr>wi_snapshot := last (wi_snapshot wi # contents w)\<rparr>, w') \<and>
    contents w' = [] \<and> lat w' = lat w @ latency_log (wi_flags wi) (contents w) \<and>
    rate w' = rate w @ rate_log (wi_flags wi) (contents w)"
  using assms(5-7)
proof (induction fuel arbitrary: wi st w)
  case (Suc fuel)
  show ?case
  proof (cases "contents w")
    case Nil
    with snapshot_queue.read_empty [OF assms(1) Nil] Suc.prems(1) show ?thesis
      by (simp add: take_snapshot_def latency_log_def rate_log_def)
  next
    case (Cons m ms)
    from snapshot_queue.read_first [OF assms(1) Cons] obtain w1 where
      r: "worker_queue_read (e_ipc env) q sizeof_snapshot w = Some (MPT_WQ_SUCCESS, Some m, w1)" "contents w1 = ms"
      by blast
    let ?wi = "wi\<lparr>wi_snapshot := m\<rparr>"
    from write_snapshot_logs [of ?wi lat contents rate st w1] assms(3,4) Suc.prems(2) obtain st2 w2 where
      s: "write_snapshot ?wi st w1 = Some (st2, w2)" "contents w2 = ms" "lat w2 = lat w1 @ latency_log (wi_flags wi) [m]"
        "rate w2 = rate w1 @ rate_log (wi_flags wi) [m]" using r(2) by auto
    from Suc.IH [of ?wi w2 st2] Suc.prems Cons s(2) obtain w' where
      "update_snapshot env fuel ?wi st2 w2 = Inr (?wi\<lparr>wi_snapshot := last (m # ms)\<rparr>, w')" "contents w' = []"
      "lat w' = lat w2 @ latency_log (wi_flags wi) ms" "rate w' = rate w2 @ rate_log (wi_flags wi) ms" by auto
    moreover have "lat w1 = lat w" "rate w1 = rate w" using assms(2) [OF r(1)] by simp_all
    ultimately show ?thesis
      using r(1) s Suc.prems(1) Cons by (simp add: take_snapshot_def latency_log_def rate_log_def)
  qed
qed simp


section \<open>Properties\<close>

text \<open>A kernel that reports every child as \<open>pid\<close> with the status word \<open>s\<close>.\<close>

definition sample_os :: "int \<Rightarrow> u32 \<Rightarrow> 'w os_api" where
  "sample_os pid s = \<lparr>os_fork = (\<lambda>w. (40, w)), os_kill = (\<lambda>p sig w. (True, w)), os_waitpid = (\<lambda>p w. (pid, s, w)),
     os_getpid = (\<lambda>w. 7), os_getppid = (\<lambda>w. 1), os_asprintf = True, os_io_remap = (\<lambda>d n st w. (True, st, w)),
     os_relink = (\<lambda>p t w. w), os_detach = (\<lambda>w. w), os_install_handler = (\<lambda>w. w), os_list_append = (\<lambda>n. True)\<rparr>"

definition sample_child :: "int \<Rightarrow> 'w worker_info" where
  "sample_child pid = \<lparr>wi_flags = WRK_SENDER, wi_writer = sample_writer, wi_child = pid, wi_snapshot = zero_snapshot,
     wi_queue = Some (MPT_Q_SYSV (Some \<lparr>vq_queue = 0\<rparr>))\<rparr>"

definition sample_globals :: "'w globals" where
  "sample_globals = \<lparr>g_list = Some [sample_child 41, sample_child 42], g_locked = False, g_errors = 0\<rparr>"

definition sample_handler :: "u32 \<Rightarrow> 'w worker_handler" where
  "sample_handler fs = \<lparr>h_flags = fs, h_eval = None, h_print = None\<rparr>"

lemmas sample_manager_defs = sample_os_def sample_child_def sample_globals_def sample_handler_def

lemma sample_idle [simp]: "queue_idle sample_wenv (sample_child pid)"
  by (simp add: queue_idle_def sample_child_def sample_wenv_def sample_ipc_def queue_defs)

lemma sample_settled [simp]: "settled (sample_os pid s) (\<lambda>_. pid) (\<lambda>_. s)"
  by (simp add: settled_def sample_os_def)

text \<open>
  Property C29, manager_mutex_free. From a state with the mutex free, any sequence of
  clone, watchdog, stop and abort operations, with handlers that have the functions
  their flags announce, leads to a state with the mutex free: neither a watchdog
  pass nor a stop can deadlock there.
\<close>

theorem manager_mutex_free:
  assumes "(manager_step env os)\<^sup>*\<^sup>* (g, w) (g', w')" and "\<not> g_locked g"
  shows "\<not> g_locked g' \<and> worker_manager_watchdog env os fuel h g' st w' \<noteq> Inl Deadlock \<and>
    worker_manager_stop env os fuel g' w' \<noteq> Inl Deadlock \<and> worker_manager_abort env os fuel g' w' \<noteq> Inl Deadlock"
proof -
  from manager_reachable_unlocked [OF assms(1)] assms(2) have "\<not> g_locked g'" by simp
  then show ?thesis
    using do_stop_no_deadlock [of "g'\<lparr>g_errors := g_errors g' + 1\<rparr>"]
    by (simp add: watchdog_no_deadlock do_stop_no_deadlock worker_manager_stop_def worker_manager_abort_def)
qed

lemma sample_stop:
  "worker_manager_stop sample_wenv (sample_os 41 0) (Suc 0) sample_globals () = Inr (True, sample_globals\<lparr>g_list := None\<rparr>, ())"
  using update_idle [where fuel = 0 and w = "()", OF sample_idle] by (simp add: worker_manager_stop_def worker_manager_do_stop_def
      worker_list_clean_def worker_list_root_def sample_globals_def sample_os_def put_nodes_def worker_list_unlock_def)

theorem manager_mutex_free_witness:
  "\<not> g_locked (sample_globals\<lparr>g_list := None\<rparr> :: unit globals) \<and>
    worker_manager_watchdog sample_wenv (sample_os 41 0) 1 (sample_handler 0) (sample_globals\<lparr>g_list := None\<rparr>) St_New () \<noteq> Inl Deadlock \<and>
    worker_manager_stop sample_wenv (sample_os 41 0) 1 (sample_globals\<lparr>g_list := None\<rparr>) () \<noteq> Inl Deadlock \<and>
    worker_manager_abort sample_wenv (sample_os 41 0) 1 (sample_globals\<lparr>g_list := None\<rparr>) () \<noteq> Inl Deadlock"
  by (rule manager_mutex_free [OF r_into_rtranclp [where r = "manager_step sample_wenv (sample_os 41 0)", OF step_stop [OF sample_stop]]])
    (simp add: sample_globals_def)

text \<open>
  Also proved, watchdog_missing_function. When a flag of the handler is set without its
  function and a child is still running, the pass fails with the mutex held: every
  later watchdog pass, count, stop or abort waits for it for ever.
\<close>

theorem watchdog_missing_function:
  assumes "\<not> g_locked g" and "g_list g = Some (wi # wis)" and "queue_idle env wi"
    and "os_waitpid os (wi_child wi) w = (0, s, w')"
    and "h_has h WRK_HANDLE_PRINT" and "h_print h = None"
  shows "\<exists>g' st'. worker_manager_watchdog env os (Suc fuel) h g st w = Inr (False, g', st', w') \<and>
    \<not> gru_status_success st' \<and> worker_manager_stop env os n g' v = Inl Deadlock \<and>
    worker_manager_abort env os n g' v = Inl Deadlock \<and> worker_list_count g' = Inl Deadlock \<and>
    worker_manager_watchdog env os n h' g' st'' v = Inl Deadlock"
  using assms
  by (simp add: worker_manager_watchdog_def worker_list_root_def list_step_simps run_handler_def run_print_def
      worker_manager_stop_def worker_manager_abort_def worker_manager_do_stop_def worker_list_count_def)

theorem watchdog_missing_function_witness:
  "\<exists>g' st'. worker_manager_watchdog sample_wenv (sample_os 0 0) (Suc 0) (sample_handler WRK_HANDLE_PRINT) sample_globals St_New ()
      = Inr (False, g', st', ()) \<and>
    \<not> gru_status_success st' \<and> worker_manager_stop sample_wenv (sample_os 0 0) 1 g' () = Inl Deadlock \<and>
    worker_manager_abort sample_wenv (sample_os 0 0) 1 g' () = Inl Deadlock \<and> worker_list_count g' = Inl Deadlock \<and>
    worker_manager_watchdog sample_wenv (sample_os 0 0) 1 (sample_handler 0) g' St_New () = Inl Deadlock"
  by (rule watchdog_missing_function [where wi = "sample_child 41" and wis = "[sample_child 42]"])
    (simp_all add: sample_globals_def sample_os_def sample_handler_def h_has_def WRK_HANDLE_PRINT_def)

text \<open>
  Property C17, watchdog_reaps. A pass over children with nothing queued, with a handler that
  has the functions of its flags. Behind the first running child that the evaluation
  of the handler finds bad nothing is done: the pass fails, and that child and those after
  it stay in the list, ended or not, and uncounted. Of the children before it (of all of them,
  when none is found bad, and then the pass succeeds) exactly those that \<open>waitpid\<close> reports
  as running are kept, in their order, and one error is added for each of the others that a
  signal other than \<open>SIGINT\<close> ended or stopped. In both cases the mutex is released.
\<close>

theorem watchdog_reaps:
  assumes "\<not> g_locked g" and "g_list g = Some wis" and "settled os ans stat" and "judges h verdict"
    and "\<forall>wi \<in> set wis. queue_idle env wi"
  shows "\<exists>g' st' w'. worker_manager_watchdog env os (Suc fuel) h g st w = Inr (list_all (goes_on ans verdict) wis, g', st', w') \<and>
    g_list g' = Some (filter (\<lambda>wi. ans (wi_child wi) = 0) (takeWhile (goes_on ans verdict) wis) @ dropWhile (goes_on ans verdict) wis) \<and>
    g_errors g' = g_errors g + word_of_nat (length (failed_children ans stat (takeWhile (goes_on ans verdict) wis))) \<and>
    \<not> g_locked g' \<and> (\<not> h_has h WRK_HANDLE_EVAL \<longrightarrow> st' = st)"
proof -
  obtain st' w' where "watchdog_nodes env os (Suc fuel) h wis (g_errors g) st w =
    Inr (if list_all (goes_on ans verdict) wis then Pass_Done else Pass_Eval_Failed,
      filter (\<lambda>wi. ans (wi_child wi) = 0) (takeWhile (goes_on ans verdict) wis) @ dropWhile (goes_on ans verdict) wis,
      g_errors g + word_of_nat (length (failed_children ans stat (takeWhile (goes_on ans verdict) wis))), st', w')"
    "\<not> h_has h WRK_HANDLE_EVAL \<longrightarrow> st' = st"
    using watchdog_nodes_judged [OF assms(3,4), of wis env fuel "g_errors g" st w] assms(5) by blast
  with assms(1,2) show ?thesis
    by (simp add: worker_manager_watchdog_def worker_list_root_def put_nodes_def worker_list_unlock_def)
qed

definition sample_judge :: "unit worker_handler" where
  "sample_judge = \<lparr>h_flags = WRK_HANDLE_EVAL, h_eval = Some (\<lambda>wi st w. (wi_child wi = 41, st, w)), h_print = None\<rparr>"

theorem watchdog_reaps_witness:
  "(\<exists>g' st' w'. worker_manager_watchdog sample_wenv (sample_os 41 9) (Suc 0) sample_judge sample_globals St_New () = Inr (True, g', st', w') \<and>
     g_list g' = Some [] \<and> g_errors g' = g_errors (sample_globals :: unit globals) + 2 \<and> \<not> g_locked g') \<and>
   (\<exists>g' st' w'. worker_manager_watchdog sample_wenv (sample_os 0 0) (Suc 0) sample_judge sample_globals St_New () = Inr (False, g', st', w') \<and>
     g_list g' = Some [sample_child 41, sample_child 42] \<and> g_errors g' = g_errors (sample_globals :: unit globals) \<and> \<not> g_locked g')"
proof -
  have j: "judges sample_judge (\<lambda>wi. wi_child wi = 41)"
    by (simp add: judges_def sample_judge_def h_has_def WRK_HANDLE_EVAL_def WRK_HANDLE_PRINT_def)
  have c: "wi_child (sample_child p :: unit worker_info) = p" for p by (simp add: sample_child_def)
  have g: "\<not> g_locked (sample_globals :: unit globals)" "g_list (sample_globals :: unit globals) = Some [sample_child 41, sample_child 42]"
    by (simp_all add: sample_globals_def)
  have i: "\<forall>wi \<in> set [sample_child 41, sample_child 42]. queue_idle sample_wenv wi" by simp
  note d = goes_on_def failed_children_def c child_error_def wait_defs SIGINT_def
  show ?thesis
    using watchdog_reaps [OF g sample_settled [of 41 9] j i, of 0 St_New "()"] watchdog_reaps [OF g sample_settled [of 0 0] j i, of 0 St_New "()"]
    by (simp add: d) blast
qed

text \<open>
  Also proved, watchdog_loop_ends. Once every child has ended, the watchdog loop returns
  after one pass with an empty list and the mutex free, and its status is a failure
  exactly when the errors counted so far are not zero.
\<close>

theorem watchdog_loop_ends:
  assumes "\<not> g_locked g" and "g_list g = Some wis" and "length wis < 2 ^ 32" and "wis \<noteq> []"
    and "settled os ans stat" and "\<And>pid. ans pid \<noteq> 0" and "h_flags h = 0" and "\<forall>wi \<in> set wis. queue_idle env wi"
    and "gru_status_success st"
  shows "\<exists>g' st' w'. worker_manager_watchdog_loop env os (Suc (Suc rounds)) (Suc fuel) h g st w = Inr (g', st', w') \<and>
    g_list g' = Some [] \<and> \<not> g_locked g' \<and>
    g_errors g' = g_errors g + word_of_nat (length (filter (\<lambda>wi. child_error (stat (wi_child wi))) wis)) \<and>
    gru_status_success st' = (g_errors g' = 0)"
proof -
  have g: "worker_list_count g = Inr (word_of_nat (length wis), g)"
    using assms(1,2) by (simp add: worker_list_count_def worker_list_unlock_def)
  have "unat (word_of_nat (length wis) :: u32) = length wis" using assms(3) by (simp add: unsigned_of_nat take_bit_nat_eq_self)
  then have n: "0 < (word_of_nat (length wis) :: u32)" using assms(4) by (simp add: word_less_nat_alt)
  from watchdog_reap_step [OF assms(1,2,5,7), of env fuel st w] assms(8) obtain w' where
    r: "worker_manager_watchdog env os (Suc fuel) h g st w = Inr (True, reaped ans stat wis g, st, w')" by blast
  have c: "worker_list_count (reaped ans stat wis g) = Inr (0, reaped ans stat wis g)"
    using assms(1,6) by (simp add: worker_list_count_def reaped_def worker_list_unlock_def)
  show ?thesis
    using g n r c assms(1,2,6,9)
    by (auto simp: worker_manager_watchdog_loop_def worker_list_is_running_def reaped_def failed_children_def word_gt_0)
qed

theorem watchdog_loop_ends_witness:
  "\<exists>g' st' w'. worker_manager_watchdog_loop sample_wenv (sample_os 41 9) (Suc (Suc 0)) (Suc 0) (sample_handler 0) sample_globals St_New ()
      = Inr (g', st', w') \<and> g_list g' = Some [] \<and> \<not> g_locked g' \<and>
    g_errors g' = g_errors (sample_globals :: unit globals) + word_of_nat (length
      (filter (\<lambda>wi. child_error ((\<lambda>_. 9) (wi_child wi))) [sample_child 41, sample_child 42 :: unit worker_info])) \<and>
    gru_status_success st' = (g_errors g' = 0)"
  by (rule watchdog_loop_ends [where stat = "\<lambda>_. 9", OF _ _ _ _ sample_settled]) (simp_all add: sample_globals_def sample_handler_def)

text \<open>
  Property C18, update_drains. Over a first-in first-out queue and writers that keep what
  they are given, with fuel for one read more than there are snapshots in the queue,
  the update of a child empties the queue, ends with the newest snapshot, and writes
  every snapshot once and in order: its latency when the child is a receiver, its
  throughput and expected time when it works for a daemon.
\<close>

theorem update_drains:
  assumes "snapshot_queue wr (worker_queue_read (e_ipc env) (wi_queue wi) sizeof_snapshot) contents room"
    and "\<And>v s m v'. worker_queue_read (e_ipc env) (wi_queue wi) sizeof_snapshot v = Some (s, m, v') \<Longrightarrow>
      lat v' = lat v \<and> rate v' = rate v"
    and "logs_to (w_latency (wi_writer wi)) lat (\<lambda>v. (contents v, rate v))"
    and "logs_to (w_rate (wi_writer wi)) rate (\<lambda>v. (contents v, lat v))"
    and "length (contents w) < fuel"
  shows "\<exists>w'. worker_manager_update_snapshot env fuel wi w
      = Inr (wi\<lparr>wi_snapshot := last (wi_snapshot wi # contents w)\<rparr>, w') \<and>
    contents w' = [] \<and> lat w' = lat w @ latency_log (wi_flags wi) (contents w) \<and>
    rate w' = rate w @ rate_log (wi_flags wi) (contents w)"
  unfolding worker_manager_update_snapshot_def
  by (rule update_drains_loop [OF assms(1-4) refl refl assms(5)])

text \<open>A world with a kernel queue and the two logs.\<close>

type_synonym log_world = "worker_snapshot kernel_queue \<times> stat_latency list \<times> (stat_throughput \<times> timestamp) list"

definition log_ipc :: "(worker_snapshot, log_world) ipc_api" where
  "log_ipc = \<lparr>ipc_ftok = (\<lambda>p. p), ipc_msgget = (\<lambda>k w. (0, w)),
     ipc_msgsnd = (\<lambda>q n m (k, l). case kq_send m k of (ok, k') \<Rightarrow> (ok, (k', l))),
     ipc_msgrcv = (\<lambda>q n (k, l). case kq_receive k of (m, k') \<Rightarrow> (m, (k', l))), ipc_asprintf = True,
     ipc_mq_open = (\<lambda>n s w. (Some 0, w)), ipc_mq_send = (\<lambda>q n m w. (True, w)),
     ipc_mq_receive = (\<lambda>q n w. (Empty_Queue, w)), ipc_mq_close = (\<lambda>q w. w), ipc_strerror = [], ipc_use_posix = False\<rparr>"

definition log_env :: "log_world wenv" where
  "log_env = \<lparr>e_now = (\<lambda>w. (zero_ts, w)), e_elapsed_secs = (\<lambda>a b. 0), e_elapsed_milli = (\<lambda>a b. 0),
     e_add_micros = (\<lambda>t n. t), e_usleep = (\<lambda>n w. w), e_interrupted = (\<lambda>w. False), e_alloc = (\<lambda>n. None),
     e_list_new = (\<lambda>n. True), e_uuid = ''id'', e_getpid = 7, e_asprintf = True, e_fdiv = (\<lambda>a b. a), e_ipc = log_ipc\<rparr>"

definition log_writer :: "log_world stats_writer" where
  "log_writer = sample_writer\<lparr>w_latency := sample_table\<lparr>wr_write := Some (\<lambda>d st (k, l, r). (True, st, (k, l @ [d], r)))\<rparr>,
     w_rate := sample_table\<lparr>wr_write := Some (\<lambda>d st (k, l, r). (True, st, (k, l, r @ [d])))\<rparr>\<rparr>"

definition log_info :: "log_world worker_info" where
  "log_info = (sample_child 41)\<lparr>wi_flags := WRK_RECEIVER OR WRK_DAEMON, wi_writer := log_writer\<rparr>"

definition counted_snapshot :: "u64 \<Rightarrow> worker_snapshot" where
  "counted_snapshot n = zero_snapshot\<lparr>ws_count := n\<rparr>"

interpretation logged: snapshot_queue "\<lambda>m. worker_queue_write (e_ipc log_env) (wi_queue log_info) m sizeof_snapshot"
    "worker_queue_read (e_ipc log_env) (wi_queue log_info) sizeof_snapshot" "\<lambda>w. kq_messages (fst w)" "\<lambda>w. kq_room (fst w)"
  by unfold_locales
    (auto simp: log_env_def log_ipc_def log_info_def sample_child_def queue_defs kq_send_def kq_receive_def kq_room_def split: list.splits)

lemma log_read_keeps:
  "worker_queue_read (e_ipc log_env) (wi_queue log_info) sizeof_snapshot v = Some (s, m, v') \<Longrightarrow>
     fst (snd v') = fst (snd v) \<and> snd (snd v') = snd (snd v)"
  by (cases v) (auto simp: log_env_def log_ipc_def log_info_def sample_child_def queue_defs kq_send_def kq_receive_def split: list.splits)

lemma log_writes:
  "logs_to (w_latency (wi_writer log_info)) (\<lambda>w. fst (snd w)) (\<lambda>v. (kq_messages (fst v), snd (snd v)))"
  "logs_to (w_rate (wi_writer log_info)) (\<lambda>w. snd (snd w)) (\<lambda>v. (kq_messages (fst v), fst (snd v)))"
  by (auto simp: logs_to_def log_info_def log_writer_def)

theorem update_drains_witness:
  "\<exists>w'. worker_manager_update_snapshot log_env 3 log_info
        (\<lparr>kq_messages = [counted_snapshot 1, counted_snapshot 2], kq_max = 8\<rparr>, [], [])
      = Inr (log_info\<lparr>wi_snapshot := last (wi_snapshot log_info # [counted_snapshot 1, counted_snapshot 2])\<rparr>, w') \<and>
    kq_messages (fst w') = [] \<and>
    fst (snd w') = [] @ latency_log (wi_flags log_info) [counted_snapshot 1, counted_snapshot 2] \<and>
    snd (snd w') = [] @ rate_log (wi_flags log_info) [counted_snapshot 1, counted_snapshot 2]"
  using update_drains [where lat = "\<lambda>w. fst (snd w)" and rate = "\<lambda>w. snd (snd w)" and fuel = 3 and
      w = "(\<lparr>kq_messages = [counted_snapshot 1, counted_snapshot 2], kq_max = 8\<rparr>, [], [])",
      OF logged.snapshot_queue_axioms log_read_keeps log_writes]
  by simp

text \<open>
  Also proved, update_spins_on_error. A read error counts as data. In particular, for a
  child whose SysV queue could not be created (which nothing reports), the update
  never returns, whatever the fuel.
\<close>

theorem update_spins_on_error:
  assumes "wi_queue wi = Some (MPT_Q_SYSV None)"
  shows "worker_manager_update_snapshot env fuel wi w \<noteq> Inr r"
proof -
  have "update_snapshot env fuel wi st w \<noteq> Inr r" for st
    using assms
  proof (induction fuel arbitrary: st w)
    case (Suc fuel)
    then show ?case
      by (auto simp: worker_queue_read_def worker_vqueue_read_def take_snapshot_def run_bind_eq_Inr)
  qed simp
  then show ?thesis by (simp add: worker_manager_update_snapshot_def)
qed

theorem update_spins_on_error_witness:
  "worker_manager_update_snapshot sample_wenv 1000 ((sample_child 41)\<lparr>wi_queue := Some (MPT_Q_SYSV None)\<rparr>) ()
    \<noteq> Inr (sample_child 41, ())"
  by (rule update_spins_on_error) simp

text \<open>
  Also proved, stop_clears. When a stop or an abort returns, the list is gone, so that a
  new test can start, and the mutex is free; a stop keeps the number of errors and
  an abort adds one, so that the watchdog loop reports the test as failed.
\<close>

theorem stop_clears:
  "(worker_manager_stop env os fuel g w = Inr (ok, g', w') \<longrightarrow>
      ok \<and> g_list g' = None \<and> \<not> g_locked g' \<and> g_errors g' = g_errors g) \<and>
   (worker_manager_abort env os fuel g w = Inr (ok, g', w') \<longrightarrow>
      ok \<and> g_list g' = None \<and> \<not> g_locked g' \<and> g_errors g' = g_errors g + 1)"
  by (auto simp: worker_manager_stop_def worker_manager_abort_def dest: do_stop_result)

theorem stop_clears_witness:
  "worker_manager_stop sample_wenv (sample_os 41 0) (Suc 0) sample_globals () = Inr (True, sample_globals\<lparr>g_list := None\<rparr>, ()) \<and>
   g_list (sample_globals\<lparr>g_list := None\<rparr> :: unit globals) = None"
  using stop_clears [of sample_wenv "sample_os 41 0" "Suc 0" sample_globals "()" True "sample_globals\<lparr>g_list := None\<rparr>" "()"]
    sample_stop by blast

text \<open>
  Also proved, stop_kills_stubborn. A child that does not end is polled ten times, with a
  pause after each poll, and then killed: the wait for it is bounded.
\<close>

theorem stop_kills_stubborn:
  assumes "\<And>v. os_waitpid os child v = (0, 0, poll v)"
  shows "stop_wait env os child 10 w
    = snd (os_kill os child SIGKILL (((\<lambda>v. e_usleep env 100000 (poll v)) ^^ 10) w))"
  using assms by (simp add: eval_nat_numeral)

theorem stop_kills_stubborn_witness:
  "stop_wait sample_wenv (sample_os 0 0) 41 10 ()
    = snd (os_kill (sample_os 0 0) 41 SIGKILL (((\<lambda>v. e_usleep sample_wenv 100000 (id v)) ^^ 10) ()))"
  by (rule stop_kills_stubborn) (simp add: sample_os_def)

lemma child_ret_not_success: "wret OR WORKER_CHILD \<noteq> WORKER_SUCCESS"
proof
  assume "wret OR WORKER_CHILD = WORKER_SUCCESS"
  then have "(wret OR 2) AND 2 = (1 :: u32) AND 2" by (simp add: worker_ret_defs)
  then show False by (simp add: bit.conj_disj_distrib2)
qed

lemma info_new_fields:
  "worker_info_new env os wk child st w = (Some wi, st', w') \<Longrightarrow>
     wi_flags wi = wk_flags wk \<and> wi_writer wi = wk_writer wk \<and> wi_child wi = child \<and> wi_snapshot wi = zero_snapshot"
  by (auto simp: worker_info_new_def split: option.splits prod.splits)

lemma append_result:
  "worker_list_append os wi g st = Inr (True, g', st') \<Longrightarrow>
     \<exists>wis. g_list g = Some wis \<and> g' = g\<lparr>g_list := Some (wis @ [wi]), g_locked := False\<rparr>"
  by (cases "g_locked g") (auto simp: worker_list_append_def worker_list_unlock_def split: option.splits if_splits)

lemma clone_loop_registers:
  assumes "clone_loop env os start n wk g st w = Inr (WORKER_SUCCESS, wk', g', st', w')" and "g_list g = Some wis"
  shows "\<exists>new. g_list g' = Some (wis @ new) \<and> length new = n \<and> wk' = wk \<and> g_errors g' = g_errors g \<and>
    (\<forall>wi \<in> set new. wi_flags wi = wk_flags wk \<and> wi_writer wi = wk_writer wk)"
  using assms
proof (induction n arbitrary: g st w wis)
  case (Suc n)
  obtain child w1 where f: "os_fork os w = (child, w1)" by fastforce
  then have "child \<noteq> 0" using Suc.prems(1) child_ret_not_success
    by (auto simp: run_child_def run_bind_eq_Inr split: prod.splits)
  with f Suc.prems(1) obtain wi st2 w2 g3 st3 where
    i: "worker_info_new env os wk child st w1 = (Some wi, st2, w2)" and
    a: "worker_list_append os wi g st2 = Inr (True, g3, st3)" and
    r: "clone_loop env os start n wk g3 st3 w2 = Inr (WORKER_SUCCESS, wk', g', st', w')"
    by (auto simp: run_bind_eq_Inr worker_ret_defs split: option.splits prod.splits if_splits)
  from append_result [OF a] Suc.prems(2) have g3: "g_list g3 = Some (wis @ [wi])" "g_errors g3 = g_errors g" by auto
  from Suc.IH [OF r g3(1)] obtain new where "g_list g' = Some ((wis @ [wi]) @ new)" "length new = n" "wk' = wk"
    "g_errors g' = g_errors g3" "\<forall>wi \<in> set new. wi_flags wi = wk_flags wk \<and> wi_writer wi = wk_writer wk" by blast
  with g3 info_new_fields [OF i] show ?case by (intro exI [of _ "wi # new"]) simp
qed auto

lemma clone_loop_worker:
  "clone_loop env os start n wk g st w = Inr (ret, wk', g', st', w') \<Longrightarrow> wk' = wk"
proof (induction n arbitrary: g st w)
  case (Suc n)
  then show ?case
    by (fastforce simp: run_child_def run_bind_eq_Inr split: prod.splits option.splits if_splits)
qed simp

lemma clone_named:
  assumes "worker_manager_clone env os cfg impl start wk g st w = Inr (ret, wk', g', st', w')" and "\<not> worker_error ret"
  shows "\<exists>nm st2 w2 st3 w3. naming_initialize_writer impl (wk_writer wk) (wk_report_format wk) (wk_naming_options wk) nm st2 w2
    = Some (True, wk_writer wk', st3, w3)"
  using assms
  by (fastforce simp: worker_manager_clone_def run_bind_eq_Inr worker_ret_defs Let_def of_undef_def
      split: if_splits prod.splits option.splits dest: clone_loop_worker)

lemma list_init_result:
  "worker_list_init env g st = (True, g', st') \<Longrightarrow> g_list g = None \<and> g' = g\<lparr>g_list := Some []\<rparr>"
  by (auto simp: worker_list_init_def worker_list_new_def split: if_splits option.splits prod.splits)

definition sample_config :: "'w config_api" where
  "sample_config = \<lparr>cfg_new = (\<lambda>d n st. (True, st)), cfg_payload = (\<lambda>st. (True, st)),
     cfg_dump = (\<lambda>d n es st w. (True, st, w)), cfg_format = (\<lambda>u. uri_path u), cfg_seconds = (\<lambda>d. 0),
     cfg_string = (\<lambda>v. [])\<rparr>"

definition sample_start :: "unit start_fn" where
  "sample_start wk snap st w = Inr (WORKER_SUCCESS, snap, st, w)"

definition sample_cloned :: "unit worker" where
  "sample_cloned = (sample_worker VMSL_SUCCESS)\<lparr>wk_report_format := FORMAT_OUT\<rparr>"

lemma sample_child_new:
  "worker_info_new sample_wenv (sample_os p s) sample_cloned 40 St_New () = (Some (sample_child 40), St_New, ())"
proof -
  have "worker_name (sample_wenv :: unit wenv) (wk_name sample_cloned) 40 St_New = (Some (''sender-'' @ int_dec 40), St_New)"
    by (simp add: worker_name_def sample_wenv_def sample_cloned_def sample_worker_def del: int_dec_def)
  then show ?thesis
    by (simp add: worker_info_new_def worker_queue_new_def worker_vqueue_new_def create_queue_def
        worker_queue_new_opt_def sample_wenv_def sample_cloned_def sample_worker_def sample_ipc_def sample_child_def)
qed

lemma sample_clone:
  "worker_manager_clone sample_wenv (sample_os p s) sample_config (\<lambda>f. sample_writer) sample_start
      sample_cloned (sample_globals\<lparr>g_list := None\<rparr>) St_New ()
    = Inr (WORKER_SUCCESS, sample_cloned, sample_globals\<lparr>g_list := Some [sample_child 40]\<rparr>, St_New, ())"
proof -
  have d: "worker_dump sample_config (wk_log_dir sample_cloned) (wk_options sample_cloned) (Some i) St_New ()
      = Some (True, St_New, ())" for i
    by (simp add: worker_dump_def worker_dump_data_def dump_protocol_def sample_config_def sample_cloned_def
        sample_worker_def sample_options_def)
  have i: "worker_list_init sample_wenv (sample_globals\<lparr>g_list := None, g_errors := 0\<rparr>) St_New
      = (True, sample_globals\<lparr>g_list := Some []\<rparr>, St_New)"
    by (simp add: worker_list_init_def worker_list_new_def sample_wenv_def sample_globals_def)
  have n: "naming_initialize_writer (\<lambda>f. sample_writer) (wk_writer sample_cloned) (wk_report_format sample_cloned) o' nm St_New ()
      = Some (True, wk_writer sample_cloned, St_New, ())" for o' nm
    by (simp add: naming_initialize_writer_def naming_initialize_out_writer_def sample_cloned_def sample_worker_def
        sample_writer_def)
  have f: "v_info (wk_vmsl sample_cloned) = Some (''sample'', ''1'')" "wo_parallel_count (wk_options sample_cloned) = 1"
    "os_fork (sample_os p s) () = (40, ())"
    "worker_list_append (sample_os p s) wi (sample_globals\<lparr>g_list := Some []\<rparr>) St_New
      = Inr (True, sample_globals\<lparr>g_list := Some [wi]\<rparr>, St_New)" for wi :: "unit worker_info"
    by (simp_all add: sample_cloned_def sample_worker_def sample_transport_def sample_options_def sample_os_def
        worker_list_append_def worker_list_unlock_def sample_globals_def)
  show ?thesis
    by (simp add: worker_manager_clone_def d i n f sample_child_new)
qed

text \<open>
  Also proved, clone_registers_all. When the parent's clone returns success, the test was
  not running before, and now the list holds exactly one entry for each of the
  parallel workers asked for, each with the flags and the report writer of the
  worker; no error is counted. (A child's return value is never success: it carries
  the child bit.)
\<close>

theorem clone_registers_all:
  assumes "worker_manager_clone env os cfg impl start wk g st w = Inr (WORKER_SUCCESS, wk', g', st', w')"
  shows "g_list g = None \<and> g_errors g' = 0 \<and>
    (\<exists>wis. g_list g' = Some wis \<and> length wis = unat (wo_parallel_count (wk_options wk)) \<and>
      (\<forall>wi \<in> set wis. wi_flags wi = wk_flags wk \<and> wi_writer wi = wk_writer wk'))"
proof -
  obtain ok g1 st1 where i: "worker_list_init env (g\<lparr>g_errors := 0\<rparr>) st = (ok, g1, st1)" by (metis prod_cases3)
  with assms have "ok" by (auto simp: worker_manager_clone_def worker_ret_defs split: if_splits)
  with i have g: "g_list g = None" "g_list g1 = Some []" "g_errors g1 = 0"
    using list_init_result by fastforce+
  from assms i \<open>ok\<close> obtain wr st3 w3 where
    "clone_loop env os start (unat (wo_parallel_count (wk_options wk))) (wk\<lparr>wk_writer := wr\<rparr>) g1 st3 w3
      = Inr (WORKER_SUCCESS, wk', g', st', w')"
    by (auto simp: worker_manager_clone_def run_bind_eq_Inr worker_ret_defs Let_def split: if_splits)
  from clone_loop_registers [OF this g(2)] g show ?thesis by auto
qed

theorem clone_registers_all_witness:
  "g_list (sample_globals\<lparr>g_list := None\<rparr> :: unit globals) = None \<and>
    g_errors (sample_globals\<lparr>g_list := Some [sample_child 40]\<rparr> :: unit globals) = 0 \<and>
    (\<exists>wis. g_list (sample_globals\<lparr>g_list := Some [sample_child 40]\<rparr>) = Some wis \<and>
      length wis = unat (wo_parallel_count (wk_options sample_cloned)) \<and>
      (\<forall>wi \<in> set wis. wi_flags wi = wk_flags sample_cloned \<and> wi_writer wi = wk_writer sample_cloned))"
  by (rule clone_registers_all [OF sample_clone])

text \<open>
  Also proved, clone_refused. While a list exists (a test is running, or an earlier clone
  failed half way and nothing has stopped it), a clone fails without creating a child:
  the list and the world stay as they are, but the error count is reset.
\<close>

theorem clone_refused:
  assumes "g_list g \<noteq> None"
  shows "worker_manager_clone env os cfg impl start wk g st w = Inr (WORKER_FAILURE, wk, g\<lparr>g_errors := 0\<rparr>, st, w)"
  using assms by (simp add: worker_manager_clone_def worker_list_init_def)

theorem clone_refused_witness:
  "worker_manager_clone sample_wenv (sample_os 0 0) sample_config (\<lambda>f. sample_writer) sample_start
      (sample_worker VMSL_SUCCESS) sample_globals St_New ()
    = Inr (WORKER_FAILURE, sample_worker VMSL_SUCCESS, sample_globals\<lparr>g_errors := 0\<rparr>, St_New, ())"
  by (rule clone_refused) (simp add: sample_globals_def)

text \<open>
  Also proved, clone_keeps_failed_fork. The result -1 of \<open>fork\<close> is not looked at: the
  failed fork is registered as a child with the process id -1, the id that a stop
  later signals and that \<open>kill\<close> takes for every process of the user.
\<close>

theorem clone_keeps_failed_fork:
  assumes "os_fork os w = (- 1, w1)" and "\<And>k. e_alloc env k = None" and "e_asprintf env"
    and "os_list_append os 0" and "\<not> g_locked g" and "g_list g = Some []"
  shows "\<exists>wi st' w'. clone_loop env os start 1 wk g st w = Inr (WORKER_SUCCESS, wk, g\<lparr>g_list := Some [wi]\<rparr>, st', w') \<and>
    wi_child wi = - 1"
proof -
  obtain q st2 w2 where "worker_queue_new (e_ipc env) (e_alloc env) (wk_name wk @ ''-'' @ int_dec (- 1))
      (worker_queue_new_opt (wk_flags wk)) st w1 = (Some q, st2, w2)"
    using queue_new_some [where al = "e_alloc env", OF assms(2), of "e_ipc env"] by blast
  with assms show ?thesis
    by (cases g) (simp add: worker_info_new_def worker_name_def worker_list_append_def worker_list_unlock_def)
qed

theorem clone_keeps_failed_fork_witness:
  "\<exists>wi st' w'. clone_loop sample_wenv ((sample_os 0 0)\<lparr>os_fork := (\<lambda>w. (- 1, w))\<rparr>) sample_start 1 (sample_worker VMSL_SUCCESS)
      (sample_globals\<lparr>g_list := Some []\<rparr>) St_New ()
      = Inr (WORKER_SUCCESS, sample_worker VMSL_SUCCESS, sample_globals\<lparr>g_list := Some [wi]\<rparr>, st', w') \<and>
    wi_child wi = - 1"
  using clone_keeps_failed_fork [of "(sample_os 0 0)\<lparr>os_fork := (\<lambda>w. (- 1, w))\<rparr>" "()" "()" sample_wenv
      "sample_globals\<lparr>g_list := Some []\<rparr>" sample_start "sample_worker VMSL_SUCCESS" St_New]
  by (auto simp: sample_os_def sample_globals_def sample_wenv_def)

end
