(* ===== verification/Daemon.thy ===== *)
theory Daemon
  imports Player Manager
begin

text \<open>
  The sender and the receiver daemon: \<open>daemon_common.c\<close>, \<open>senderd_worker.c\<close> and
  \<open>receiverd_worker.c\<close> under \<open>src/applications/mpt-daemons\<close>. A daemon answers the
  requests of the maestro broker through the handlers of its sheet, which run in
  the player thread, and executes a test in its main loop when a start request
  has set its flag. The two daemons share most of their code line by line; the
  shared handlers are modelled once, and each daemon has its own names for them.
\<close>

section \<open>State and environment\<close>

text \<open>The globals \<open>started\<close>, \<open>halt\<close> and \<open>worker_options\<close>, those of the worker manager, and
  the world of the processes and queues.\<close>

record 'w daemon =
  d_started :: bool
  d_halt :: bool
  d_options :: worker_options
  d_globals :: "'w globals"
  d_world :: 'w

text \<open>
  What the daemons call elsewhere: the worker environment and the system calls, the
  parsers and the clock of gru (\<open>gru_uri_parse\<close>, \<open>gru_duration_parse\<close>,
  \<open>gru_logger_get_level\<close>, \<open>gru_time_to_milli\<close>, \<open>gru_time_write_str\<close>, \<open>gru_uri_simple_format\<close>),
  sums and quotients of doubles, the report writers, the file system and the
  options of the command line. \<open>de_fuel\<close> bounds the loops that depend on other
  processes.
\<close>

record 'w denv =
  de_worker :: "'w wenv"
  de_os :: "'w os_api"
  de_config :: "'w config_api"
  de_writers :: "report_format \<Rightarrow> 'w stats_writer"
  de_uri_parse :: "string \<Rightarrow> gru_uri"
  de_duration_parse :: "string \<Rightarrow> gru_duration option"
  de_log_level :: "string \<Rightarrow> int"
  de_to_milli :: "timestamp \<Rightarrow> int"
  de_time_str :: "timestamp \<Rightarrow> string"
  de_uri_format :: "gru_uri \<Rightarrow> string option"
  de_fadd :: "u64 \<Rightarrow> u64 \<Rightarrow> u64"
  de_ratio :: "u64 \<Rightarrow> u32 \<Rightarrow> u64"
  de_log_dir :: string
  de_path_exists :: "string \<Rightarrow> gru_status \<Rightarrow> bool \<times> gru_status"
  de_mkdirs :: "string \<Rightarrow> gru_status \<Rightarrow> 'w \<Rightarrow> bool \<times> gru_status \<times> 'w"
  de_assign :: "gru_uri \<Rightarrow> 'w vmsl \<Rightarrow> bool \<times> 'w vmsl"
  de_random :: rand_stream
  de_fuel :: nat

section \<open>Common handlers\<close>

text \<open>What an option does with its value; the cascade of \<open>commond_handle_set\<close>.\<close>

definition set_duration :: "'w denv \<Rightarrow> string \<Rightarrow> worker_options \<Rightarrow> worker_options" where
  "set_duration env v o' =
    (case de_duration_parse env v of
       None \<Rightarrow> o'\<lparr>wo_duration := Message_Count (atol v)\<rparr>
     | Some d \<Rightarrow> o'\<lparr>wo_duration := Test_Time d\<rparr>)"

text \<open>An \<open>int\<close> is sign-extended to the width of \<open>size_t\<close> and of \<open>int64_t\<close>.\<close>

definition set_message_size :: "string \<Rightarrow> worker_options \<Rightarrow> worker_options" where
  "set_message_size v o' =
    (if v \<noteq> [] \<and> hd v = CHR ''~''
     then o'\<lparr>wo_message_size := scast (atoi (tl v)), wo_variable_size := True\<rparr>
     else o'\<lparr>wo_message_size := scast (atoi v)\<rparr>)"

text \<open>For the log level the code also sets the minimum level of the logger of the process; like all that
  only concerns the lines of the log it is left out.\<close>

definition set_worker_option :: "'w denv \<Rightarrow> u64 \<Rightarrow> (string \<Rightarrow> worker_options \<Rightarrow> worker_options) option" where
  "set_worker_option env opt =
    (if opt = opt_code MAESTRO_NOTE_OPT_SET_BROKER then Some (\<lambda>v o'. o'\<lparr>wo_uri := de_uri_parse env v\<rparr>)
     else if opt = opt_code MAESTRO_NOTE_OPT_SET_DURATION_TYPE then Some (set_duration env)
     else if opt = opt_code MAESTRO_NOTE_OPT_SET_LOG_LEVEL then Some (\<lambda>v o'. o'\<lparr>wo_log_level := de_log_level env v\<rparr>)
     else if opt = opt_code MAESTRO_NOTE_OPT_SET_PARALLEL_COUNT then Some (\<lambda>v o'. o'\<lparr>wo_parallel_count := ucast (atoi v)\<rparr>)
     else if opt = opt_code MAESTRO_NOTE_OPT_SET_MESSAGE_SIZE then Some set_message_size
     else if opt = opt_code MAESTRO_NOTE_OPT_SET_THROTTLE then Some (\<lambda>v o'. o'\<lparr>wo_throttle := atoi v\<rparr>)
     else if opt = opt_code MAESTRO_NOTE_OPT_SET_RATE then Some (\<lambda>v o'. o'\<lparr>wo_rate := atoi v\<rparr>)
     else if opt = opt_code MAESTRO_NOTE_OPT_FCL then
       Some (\<lambda>v o'. o'\<lparr>wo_condition_type := MPT_COND_LATENCY, wo_condition := scast (atoi v)\<rparr>)
     else None)"

definition commond_handle_set :: "'w denv \<Rightarrow> maestro_note \<Rightarrow> maestro_note \<Rightarrow> worker_options \<Rightarrow>
    (maestro_note \<times> worker_options) undef" where
  "commond_handle_set env request response opts = do {
     opt \<leftarrow> note_bits request set_opt_cell;
     (case set_worker_option env opt of
        None \<Rightarrow> Some (maestro_note_set_cmd MAESTRO_NOTE_PROTOCOL_ERROR response, opts)
      | Some f \<Rightarrow> do {
          v \<leftarrow> note_str request set_value;
          Some (maestro_note_set_cmd MAESTRO_NOTE_OK response, f v opts)
        })
   }"

type_synonym 'w handler = "'w daemon play"

definition daemon_handle_set :: "'w denv \<Rightarrow> 'w handler" where
  "daemon_handle_set env request response pinfo d =
    run_bind (of_undef (commond_handle_set env request response (d_options d))) (\<lambda>(resp, opts).
    Inr (resp, d\<lparr>d_options := opts\<rparr>))"

definition commond_handle_flush :: "'w handler" where
  "commond_handle_flush request response pinfo d = Inr (maestro_note_set_cmd MAESTRO_NOTE_OK response, d)"

definition commond_handle_ping :: "'w denv \<Rightarrow> 'w handler" where
  "commond_handle_ping env request response pinfo d =
    (case e_now (de_worker env) (d_world d) of (now, w) \<Rightarrow>
       run_bind (of_undef (do {
         sec \<leftarrow> note_bits request ping_sec;
         usec \<leftarrow> note_bits request ping_usec;
         maestro_note_ping_set_elapsed
           (word_of_int (e_elapsed_milli (de_worker env) \<lparr>tv_sec = sint sec, tv_usec = sint usec\<rparr> now))
           (maestro_note_set_cmd MAESTRO_NOTE_PING response) })) (\<lambda>resp.
       Inr (resp, d\<lparr>d_world := w\<rparr>)))"

section \<open>Handlers of the daemons\<close>

definition daemon_handle_start :: "'w handler" where
  "daemon_handle_start request response pinfo d =
    (if d_started d \<or> worker_list_is_running (d_globals d)
     then Inr (maestro_note_set_cmd MAESTRO_NOTE_INTERNAL_ERROR response, d)
     else Inr (maestro_note_set_cmd MAESTRO_NOTE_OK response, d\<lparr>d_started := True\<rparr>))"

text \<open>The rest of a stop or abort request: \<open>op\<close> stops the workers.\<close>

definition stop_workers :: "('w globals \<Rightarrow> 'w \<Rightarrow> (bool \<times> 'w globals \<times> 'w) run) \<Rightarrow> maestro_note \<Rightarrow> 'w daemon \<Rightarrow>
    (maestro_note \<times> 'w daemon) run" where
  "stop_workers op response d =
    run_bind (op (d_globals d) (d_world d)) (\<lambda>(ok, g, w).
    Inr (maestro_note_set_cmd (if ok then MAESTRO_NOTE_OK else MAESTRO_NOTE_INTERNAL_ERROR) response,
      d\<lparr>d_globals := g, d_world := w\<rparr>))"

definition daemon_handle_stop :: "'w denv \<Rightarrow> 'w handler" where
  "daemon_handle_stop env request response pinfo d =
    (let d1 = d\<lparr>d_started := False\<rparr> in
     if worker_list_is_running (d_globals d1)
     then stop_workers (worker_manager_stop (de_worker env) (de_os env) (de_fuel env)) response d1
     else Inr (maestro_note_set_cmd MAESTRO_NOTE_OK response, d1))"

text \<open>The message of the notification is read for the log when a test is running.\<close>

definition daemon_handle_test_failed :: "'w denv \<Rightarrow> 'w handler" where
  "daemon_handle_test_failed env request response pinfo d =
    (let d1 = d\<lparr>d_started := False\<rparr> in
     if worker_list_is_running (d_globals d1)
     then run_bind (of_undef (note_str request notification_message)) (\<lambda>msg.
       stop_workers (worker_manager_abort (de_worker env) (de_os env) (de_fuel env)) response d1)
     else Inr (maestro_note_set_cmd MAESTRO_NOTE_OK response, d1))"

definition daemon_handle_halt :: "'w denv \<Rightarrow> 'w handler" where
  "daemon_handle_halt env request response pinfo d =
    run_bind (daemon_handle_stop env request response pinfo d) (\<lambda>(resp, d1).
    Inr (maestro_note_set_cmd MAESTRO_NOTE_OK resp, d1\<lparr>d_halt := True\<rparr>))"

definition MPT_CLIENT_ROLE_INFO :: string where
  "MPT_CLIENT_ROLE_INFO = ''msg-perf-tool C test client''"

text \<open>The sums of the loop over the children.\<close>

definition total_msg :: "'w worker_info list \<Rightarrow> u64" where
  "total_msg wis = fold (\<lambda>wi t. t + ws_count (wi_snapshot wi)) wis 0"

definition total_rate :: "'w denv \<Rightarrow> 'w worker_info list \<Rightarrow> u64" where
  "total_rate env wis = fold (\<lambda>wi t. de_fadd env t (stp_rate (ws_throughput (wi_snapshot wi)))) wis 0"

definition total_lat :: "'w denv \<Rightarrow> 'w worker_info list \<Rightarrow> u64" where
  "total_lat env wis = fold (\<lambda>wi t. t + word_of_int (de_to_milli env (sl_elapsed (ws_latency (wi_snapshot wi))))) wis 0"

definition stats_fields :: "u32 \<Rightarrow> string \<Rightarrow> string \<Rightarrow> u64 \<Rightarrow> u64 \<Rightarrow> u64 \<Rightarrow> maestro_note \<Rightarrow> maestro_note undef" where
  "stats_fields children role ts msgs rate lat response = do {
     n1 \<leftarrow> maestro_note_stats_set_child_count children response;
     n2 \<leftarrow> maestro_note_stats_set_role role n1;
     n3 \<leftarrow> maestro_note_stats_set_roleinfo MPT_CLIENT_ROLE_INFO n2;
     n4 \<leftarrow> maestro_note_stats_set_stat_type (stat_type_code MAESTRO_STAT_PERF) n3;
     n5 \<leftarrow> maestro_note_stats_set_perf_ts ts n4;
     n6 \<leftarrow> maestro_note_stats_set_perf_count msgs n5;
     n7 \<leftarrow> maestro_note_stats_set_perf_rate rate n6;
     maestro_note_stats_set_perf_latency lat n7
   }"

text \<open>\<open>role\<close> and the latency, from the children and their number, are what the daemons differ in.\<close>

definition daemon_handle_stats :: "'w denv \<Rightarrow> string \<Rightarrow> ('w worker_info list \<Rightarrow> u32 \<Rightarrow> u64) \<Rightarrow> 'w handler" where
  "daemon_handle_stats env role latency request response pinfo d =
    (if \<not> worker_list_is_running (d_globals d)
     then Inr (maestro_note_set_cmd MAESTRO_NOTE_INTERNAL_ERROR response, d)
     else
       let wis = worker_list_root (d_globals d) in
       run_bind (worker_list_count (d_globals d)) (\<lambda>(children, g).
       case e_now (de_worker env) (d_world d) of (now, w) \<Rightarrow>
         run_bind (of_undef (stats_fields children role (de_time_str env now) (total_msg wis) (total_rate env wis)
           (latency wis children) (maestro_note_set_cmd MAESTRO_NOTE_STATS response))) (\<lambda>resp.
         Inr (resp, d\<lparr>d_globals := g, d_world := w\<rparr>))))"

definition senderd_handle_set :: "'w denv \<Rightarrow> 'w handler" where "senderd_handle_set = daemon_handle_set"
definition senderd_handle_start :: "'w handler" where "senderd_handle_start = daemon_handle_start"
definition senderd_handle_stop :: "'w denv \<Rightarrow> 'w handler" where "senderd_handle_stop = daemon_handle_stop"
definition senderd_handle_test_failed :: "'w denv \<Rightarrow> 'w handler" where "senderd_handle_test_failed = daemon_handle_test_failed"
definition senderd_handle_halt :: "'w denv \<Rightarrow> 'w handler" where "senderd_handle_halt = daemon_handle_halt"

definition senderd_handle_stats :: "'w denv \<Rightarrow> 'w handler" where
  "senderd_handle_stats env = daemon_handle_stats env ''sender'' (\<lambda>wis n. 0)"

definition receiverd_handle_set :: "'w denv \<Rightarrow> 'w handler" where "receiverd_handle_set = daemon_handle_set"
definition receiverd_handle_start :: "'w handler" where "receiverd_handle_start = daemon_handle_start"
definition receiverd_handle_stop :: "'w denv \<Rightarrow> 'w handler" where "receiverd_handle_stop = daemon_handle_stop"
definition receiverd_handle_test_failed :: "'w denv \<Rightarrow> 'w handler" where "receiverd_handle_test_failed = daemon_handle_test_failed"
definition receiverd_handle_halt :: "'w denv \<Rightarrow> 'w handler" where "receiverd_handle_halt = daemon_handle_halt"

definition receiverd_handle_stats :: "'w denv \<Rightarrow> 'w handler" where
  "receiverd_handle_stats env = daemon_handle_stats env ''receiver'' (\<lambda>wis n. de_ratio env (total_lat env wis) n)"

lemmas daemon_handlers = senderd_handle_set_def senderd_handle_start_def senderd_handle_stop_def
  senderd_handle_test_failed_def senderd_handle_halt_def senderd_handle_stats_def
  receiverd_handle_set_def receiverd_handle_start_def receiverd_handle_stop_def
  receiverd_handle_test_failed_def receiverd_handle_halt_def receiverd_handle_stats_def

section \<open>Sheets\<close>

definition MAESTRO_DAEMON_SHEETS_COUNT :: int where "MAESTRO_DAEMON_SHEETS_COUNT = 3"

definition MAESTRO_SENDER_DAEMON_SHEETS :: "string list" where
  "MAESTRO_SENDER_DAEMON_SHEETS = [MAESTRO_ALL_DAEMONS, MAESTRO_NOTIFICATIONS, ''/mpt/daemon/sender'']"

definition MAESTRO_RECEIVER_DAEMON_SHEETS :: "string list" where
  "MAESTRO_RECEIVER_DAEMON_SHEETS = [MAESTRO_ALL_DAEMONS, MAESTRO_NOTIFICATIONS, ''/mpt/daemon/receiver'']"

text \<open>Instruments are created and added one after the other. One that cannot be
  allocated is added as a null pointer, which the next request dereferences: the
  model is undefined at once.\<close>

fun add_instruments :: "gru_allocator \<Rightarrow> (maestro_command \<times> 's play) list \<Rightarrow> 's sheet \<Rightarrow> gru_status \<Rightarrow>
    ('s sheet \<times> gru_status) undef" where
  "add_instruments al [] sh st = Some (sh, st)"
| "add_instruments al ((cmd, p) # ps) sh st =
    (case maestro_instrument_new al cmd p st of
       (None, st1) \<Rightarrow> None
     | (Some i, st1) \<Rightarrow> add_instruments al ps (maestro_sheet_add_instrument i sh) st1)"

definition daemon_new_sheet :: "gru_allocator \<Rightarrow> string option \<Rightarrow> string list \<Rightarrow> (maestro_command \<times> 's play) list \<Rightarrow>
    gru_status \<Rightarrow> ('s sheet option \<times> gru_status) undef" where
  "daemon_new_sheet al nl topics ps st =
    (case maestro_sheet_new al nl st of
       (None, st1) \<Rightarrow> Some (None, st1)
     | (Some sh, st1) \<Rightarrow> do {
         (sh', st2) \<leftarrow> add_instruments al ps
           (maestro_sheet_set_location MAESTRO_DAEMON_SHEETS_COUNT topics MAESTRO_DEFAULT_QOS sh) st1;
         Some (Some sh', st2)
       })"

definition senderd_handlers :: "'w denv \<Rightarrow> (maestro_command \<times> 'w handler) list" where
  "senderd_handlers env =
    [(MAESTRO_NOTE_START_SENDER, senderd_handle_start), (MAESTRO_NOTE_STOP_SENDER, senderd_handle_stop env),
     (MAESTRO_NOTE_FLUSH, commond_handle_flush), (MAESTRO_NOTE_SET, senderd_handle_set env),
     (MAESTRO_NOTE_PING, commond_handle_ping env), (MAESTRO_NOTE_STATS, senderd_handle_stats env),
     (MAESTRO_NOTE_HALT, senderd_handle_halt env), (MAESTRO_NOTE_NOTIFY_FAIL, senderd_handle_test_failed env)]"

definition receiverd_handlers :: "'w denv \<Rightarrow> (maestro_command \<times> 'w handler) list" where
  "receiverd_handlers env =
    [(MAESTRO_NOTE_START_RECEIVER, receiverd_handle_start), (MAESTRO_NOTE_STOP_RECEIVER, receiverd_handle_stop env),
     (MAESTRO_NOTE_FLUSH, commond_handle_flush), (MAESTRO_NOTE_SET, receiverd_handle_set env),
     (MAESTRO_NOTE_PING, commond_handle_ping env), (MAESTRO_NOTE_STATS, receiverd_handle_stats env),
     (MAESTRO_NOTE_HALT, receiverd_handle_halt env), (MAESTRO_NOTE_NOTIFY_FAIL, receiverd_handle_test_failed env)]"

definition senderd_new_sheet :: "'w denv \<Rightarrow> gru_allocator \<Rightarrow> string option \<Rightarrow> gru_status \<Rightarrow>
    ('w daemon sheet option \<times> gru_status) undef" where
  "senderd_new_sheet env al nl st = daemon_new_sheet al nl MAESTRO_SENDER_DAEMON_SHEETS (senderd_handlers env) st"

definition receiverd_new_sheet :: "'w denv \<Rightarrow> gru_allocator \<Rightarrow> string option \<Rightarrow> gru_status \<Rightarrow>
    ('w daemon sheet option \<times> gru_status) undef" where
  "receiverd_new_sheet env al nl st = daemon_new_sheet al nl MAESTRO_RECEIVER_DAEMON_SHEETS (receiverd_handlers env) st"


section \<open>Executing a test\<close>

definition WRK_HANDLE_NONE :: u32 where "WRK_HANDLE_NONE = 0"

definition receiverd_worker_eval_latency :: "'w denv \<Rightarrow> worker_options \<Rightarrow> 'w worker_info \<Rightarrow> gru_status \<Rightarrow> 'w \<Rightarrow>
    bool \<times> gru_status \<times> 'w" where
  "receiverd_worker_eval_latency env opts wi st w =
    (let latency = de_to_milli env (sl_elapsed (ws_latency (wi_snapshot wi))) in
     if condition_latency opts < latency then
       if sint (e_elapsed_secs (de_worker env) (ws_start (wi_snapshot wi)) (ws_now (wi_snapshot wi))) < 90
       then (True, st, w)
       else (False, St_Set GRU_FAILURE ''Current latency %d exceeds the maximum value %d'', w)
     else (True, st, w))"

text \<open>The worker of a test, from the zeroed structure.\<close>

definition zero_strategy :: pl_strategy where
  "zero_strategy = \<lparr>pl_st_init = None, pl_st_load = None, pl_st_cleanup = None\<rparr>"

definition daemon_worker :: "'w denv \<Rightarrow> string \<Rightarrow> worker_flags \<Rightarrow> report_format \<Rightarrow> naming_opt \<Rightarrow> pl_strategy \<Rightarrow>
    'w vmsl \<Rightarrow> string \<Rightarrow> worker_options \<Rightarrow> 'w worker" where
  "daemon_worker env name flags format naming strategy vmsl dir opts =
    \<lparr>wk_name = name, wk_log_dir = dir, wk_vmsl = vmsl, wk_options = opts, wk_writer = null_writer,
     wk_report_format = format, wk_naming_options = naming, wk_can_continue = Some (worker_check (de_worker env)),
     wk_flags = flags, wk_strategy = strategy\<rparr>"

text \<open>A start function as the manager calls it; the globals of the strategies are those of the child.\<close>

definition start_with :: "(nat \<Rightarrow> 'w worker \<Rightarrow> worker_snapshot \<Rightarrow> gru_status \<Rightarrow> pl_state \<Rightarrow> 'w \<Rightarrow> 'w worker_result) \<Rightarrow>
    nat \<Rightarrow> pl_state \<Rightarrow> 'w start_fn" where
  "start_with f fuel pg wk snap st w =
    run_bind (f fuel wk snap st pg w) (\<lambda>(ret, snap', st', pg', w'). Inr (ret, snap', st', w'))"

text \<open>
  After the clone: the watchdog, the links to the log directory, the notification
  of the result, the writers \<open>fin\<close> and the stop of the workers. \<open>notify\<close> sends the
  notification of a failure or of success for a status.
\<close>

type_synonym 'v notifier = "gru_status \<Rightarrow> 'v \<Rightarrow> (gru_status \<times> 'v) undef"

definition worker_log_link_create :: "'w denv \<Rightarrow> string \<Rightarrow> string \<Rightarrow> 'w \<Rightarrow> 'w" where
  "worker_log_link_create env target name w =
    os_relink (de_os env) (take (PATH_MAX - 2) (de_log_dir env @ ''/'' @ name)) target w"

definition daemon_finish :: "'w denv \<Rightarrow> 'v notifier \<Rightarrow> 'v notifier \<Rightarrow> 'w worker_handler \<Rightarrow>
    ('w stats_writer \<Rightarrow> gru_status \<Rightarrow> 'w \<Rightarrow> (gru_status \<times> 'w) undef) \<Rightarrow> worker_ret \<Rightarrow> 'w worker \<Rightarrow> gru_status \<Rightarrow>
    'w daemon \<Rightarrow> 'v \<Rightarrow> (worker_ret \<times> 'w daemon \<times> 'v) run" where
  "daemon_finish env failed successful h fin ret wk st d v =
    run_bind (worker_manager_watchdog_loop (de_worker env) (de_os env) (de_fuel env) (de_fuel env) h (d_globals d) st
      (d_world d)) (\<lambda>(g1, st1, w1).
    let ok = gru_status_success st1;
        w2 = worker_log_link_create env (wk_log_dir wk) (if ok then ''lastSuccessful'' else ''lastFailed'') w1 in
    run_bind (of_undef ((if ok then successful else failed) st1 v)) (\<lambda>(st2, v2).
    run_bind (of_undef (fin (wk_writer wk) st2 (worker_log_link_create env (wk_log_dir wk) ''last'' w2))) (\<lambda>(st3, w3).
    run_bind (worker_manager_stop (de_worker env) (de_os env) (de_fuel env) g1 w3) (\<lambda>(stopped, g4, w4).
    Inr (ret, d\<lparr>d_globals := g4, d_world := w4\<rparr>, v2)))))"

text \<open>The common frame of \<open>senderd_worker_execute\<close> and \<open>receiverd_worker_execute\<close>: \<open>mk\<close> makes the worker for
  the log directory, \<open>start\<close> is what its children run.\<close>

definition daemon_execute :: "'w denv \<Rightarrow> 'v notifier \<Rightarrow> 'v notifier \<Rightarrow> (string \<Rightarrow> 'w worker) \<Rightarrow> 'w start_fn \<Rightarrow> 'w worker_handler \<Rightarrow>
    ('w stats_writer \<Rightarrow> gru_status \<Rightarrow> 'w \<Rightarrow> (gru_status \<times> 'w) undef) \<Rightarrow> 'w daemon \<Rightarrow> 'v \<Rightarrow>
    (worker_ret \<times> 'w daemon \<times> 'v) run" where
  "daemon_execute env failed successful mk start h fin d v =
    (case worker_log_init (de_path_exists env) (de_mkdirs env) (de_log_dir env) St_New (d_world d) of
       (ok, dir, st, w) \<Rightarrow>
         if \<not> ok then Inr (WORKER_FAILURE, d\<lparr>d_world := w\<rparr>, v)
         else
           run_bind (worker_manager_clone (de_worker env) (de_os env) (de_config env) (de_writers env) start (mk dir)
             (d_globals d) st w) (\<lambda>(ret, wk, g1, st1, w1).
           let d1 = d\<lparr>d_globals := g1, d_world := w1\<rparr> in
           if worker_error ret \<or> worker_child ret then Inr (ret, d1, v)
           else daemon_finish env failed successful h fin ret wk st1 d1 v))"

definition senderd_worker_execute :: "'w denv \<Rightarrow> 'v notifier \<Rightarrow> 'v notifier \<Rightarrow> pl_state \<Rightarrow> 'w vmsl \<Rightarrow> 'w daemon \<Rightarrow> 'v \<Rightarrow>
    (worker_ret \<times> 'w daemon \<times> 'v) run" where
  "senderd_worker_execute env failed successful pg vmsl d v =
    (let opts = d_options d;
         rated = 0 < wo_rate opts;
         strategy = pl_strategy_assign (de_random env) zero_strategy (wo_variable_size opts) in
     daemon_execute env failed successful
       (\<lambda>dir. daemon_worker env ''senderd'' (WRK_SENDER OR WRK_DAEMON OR WRK_FORKED) FORMAT_CSV
         (if rated then NM_RATE else NM_THROUGHPUT) strategy vmsl dir opts)
       (start_with (if rated then rate_sender_start (de_worker env) else naive_sender_start (de_worker env)) (de_fuel env) pg)
       \<lparr>h_flags = WRK_HANDLE_NONE, h_eval = None, h_print = None\<rparr>
       (\<lambda>wr. finalize_table (w_rate wr)) d v)"

definition receiverd_worker_execute :: "'w denv \<Rightarrow> 'v notifier \<Rightarrow> 'v notifier \<Rightarrow> pl_state \<Rightarrow> 'w vmsl \<Rightarrow> 'w daemon \<Rightarrow> 'v \<Rightarrow>
    (worker_ret \<times> 'w daemon \<times> 'v) run" where
  "receiverd_worker_execute env failed successful pg vmsl d v =
    (let opts = d_options d;
         rated = 0 < wo_rate opts in
     daemon_execute env failed successful
       (\<lambda>dir. daemon_worker env ''receiverd'' (WRK_RECEIVER OR WRK_DAEMON OR WRK_FORKED) FORMAT_HDR
         (if rated then NM_RATE OR NM_LATENCY else NM_LATENCY OR NM_THROUGHPUT) zero_strategy vmsl dir opts)
       (start_with (if rated then rate_receiver_start (de_worker env) else naive_receiver_start (de_worker env)) (de_fuel env) pg)
       (if rated \<and> 0 < condition_latency opts
        then \<lparr>h_flags = WRK_HANDLE_EVAL, h_eval = Some (receiverd_worker_eval_latency env opts), h_print = None\<rparr>
        else \<lparr>h_flags = WRK_HANDLE_NONE, h_eval = None, h_print = None\<rparr>)
       (\<lambda>wr st w. do {
          (st1, w1) \<leftarrow> finalize_table (w_rate wr) st w;
          finalize_table (w_latency wr) st1 w1 }) d v)"

section \<open>The main loop\<close>

text \<open>
  \<open>served k d\<close> is the state after the requests that the player thread serves during
  the idle time of iteration \<open>k\<close>. The result of the last test, when there was one, is
  what the code has in \<open>ret\<close> at the end.
\<close>

fun daemon_loop :: "'w denv \<Rightarrow> ('w vmsl \<Rightarrow> 'w daemon \<Rightarrow> 'v \<Rightarrow> (worker_ret \<times> 'w daemon \<times> 'v) run) \<Rightarrow>
    (nat \<Rightarrow> 'w daemon \<Rightarrow> 'w daemon run) \<Rightarrow> nat \<Rightarrow> nat \<Rightarrow> worker_ret option \<Rightarrow> 'w daemon \<Rightarrow> 'v \<Rightarrow>
    (worker_ret option \<times> 'w daemon \<times> 'v) run" where
  "daemon_loop env execute served 0 k ret d v = Inl Out_of_fuel"
| "daemon_loop env execute served (Suc fuel) k ret d v =
    (if d_halt d then Inr (ret, d, v)
     else
       run_bind (served k (d\<lparr>d_world := e_usleep (de_worker env) 500000 (d_world d)\<rparr>)) (\<lambda>d1.
       if d_started d1 then
         (case de_assign env (wo_uri (d_options d1)) vmsl_init of (assigned, vmsl) \<Rightarrow>
            if \<not> assigned then
              (if de_uri_format env (wo_uri (d_options d1)) = None
               then daemon_loop env execute served fuel (Suc k) ret d1 v
               else Inr (ret, d1, v))
            else
              run_bind (execute vmsl d1 v) (\<lambda>(ret2, d2, v2).
              if worker_child ret2 then Inr (Some ret2, d2, v2)
              else daemon_loop env execute served fuel (Suc k) (Some ret2) (d2\<lparr>d_started := False\<rparr>) v2))
       else daemon_loop env execute served fuel (Suc k) ret d1 v))"

text \<open>The end of the start functions. In the sender \<open>ret\<close> has no value before the first
  test: reading it then is undefined.\<close>

definition daemon_exit :: "worker_ret option \<Rightarrow> (bool \<times> int) undef" where
  "daemon_exit ret = map_option (\<lambda>r. (\<not> worker_child r, if worker_success r then 0 else 1)) ret"

text \<open>
  The start functions. The world of the maestro connection is \<open>'v\<close>; the static player
  travels with it. A null sheet is dereferenced when the player subscribes, so it
  is undefined here.
\<close>

type_synonym ('v, 's) link = "'v \<times> ('v, 's) player option"

definition notify_link :: "(('v, 's) player option \<Rightarrow> gru_status \<Rightarrow> 'v \<Rightarrow>
    (('v, 's) player \<times> gru_status \<times> 'v) undef) \<Rightarrow> ('v, 's) link notifier" where
  "notify_link notify st l = map_option (\<lambda>(pl, st', v'). (st', (v', Some pl))) (notify (snd l) st (fst l))"

definition daemon_start :: "'w denv \<Rightarrow> 'v player_env \<Rightarrow> gru_allocator \<Rightarrow>
    ('w vmsl \<Rightarrow> 'w daemon \<Rightarrow> ('v, 'w daemon) link \<Rightarrow> (worker_ret \<times> 'w daemon \<times> ('v, 'w daemon) link) run) \<Rightarrow>
    (nat \<Rightarrow> 'w daemon \<Rightarrow> 'w daemon run) \<Rightarrow> nat \<Rightarrow> worker_ret option \<Rightarrow> ('w daemon sheet option \<times> gru_status) undef \<Rightarrow>
    'w daemon \<Rightarrow> 'v \<Rightarrow> (int \<times> 'w daemon \<times> ('v, 'w daemon) link) run" where
  "daemon_start env penv al execute served fuel ret0 sheet d v =
    run_bind (of_undef sheet) (\<lambda>(sh, st).
    run_bind (of_undef sh) (\<lambda>sh'.
    run_bind (of_undef (maestro_player_start penv al sh' None st v)) (\<lambda>(connected, splayer, st1, v1).
    if \<not> connected then
      run_bind (of_undef (maestro_player_stop splayer st1 v1)) (\<lambda>(stopped, splayer2, st2, v2). Inr (1, d, (v2, splayer2)))
    else
      run_bind (daemon_loop env execute served fuel 0 ret0 d (v1, splayer)) (\<lambda>(ret, d2, l2).
      run_bind (of_undef (daemon_exit ret)) (\<lambda>(parent, code).
      if parent then
        run_bind (of_undef (maestro_player_stop (snd l2) st1 (fst l2))) (\<lambda>(stopped, splayer3, st3, v3).
        Inr (code, d2, (v3, splayer3)))
      else Inr (code, d2, l2))))))"

definition senderd_worker_start :: "'w denv \<Rightarrow> 'v player_env \<Rightarrow> msgpack_api \<Rightarrow> gru_allocator \<Rightarrow> string option \<Rightarrow>
    (nat \<Rightarrow> 'w daemon \<Rightarrow> 'w daemon run) \<Rightarrow> nat \<Rightarrow> pl_state \<Rightarrow> 'w daemon \<Rightarrow> 'v \<Rightarrow> (int \<times> 'w daemon \<times> ('v, 'w daemon) link) run" where
  "senderd_worker_start env penv mp al nl served fuel pg d v =
    daemon_start env penv al
      (senderd_worker_execute env (notify_link (maestro_notify_test_failed mp al (pe_append penv)))
        (notify_link (maestro_notify_test_successful mp al (pe_append penv))) pg)
      served fuel None (senderd_new_sheet env al nl St_New) d v"

text \<open>The main function has checked that there is a maestro host.\<close>

definition receiverd_worker_start :: "'w denv \<Rightarrow> 'v player_env \<Rightarrow> msgpack_api \<Rightarrow> gru_allocator \<Rightarrow> string option \<Rightarrow>
    (nat \<Rightarrow> 'w daemon \<Rightarrow> 'w daemon run) \<Rightarrow> nat \<Rightarrow> pl_state \<Rightarrow> 'w daemon \<Rightarrow> 'v \<Rightarrow> (int \<times> 'w daemon \<times> ('v, 'w daemon) link) run" where
  "receiverd_worker_start env penv mp al nl served fuel pg d v =
    daemon_start env penv al
      (receiverd_worker_execute env (notify_link (maestro_notify_test_failed mp al (pe_append penv)))
        (notify_link (maestro_notify_test_successful mp al (pe_append penv))) pg)
      served fuel (Some WORKER_SUCCESS) (receiverd_new_sheet env al nl St_New) d v"

section \<open>What a daemon answers\<close>

text \<open>The sheet of a daemon lists its handlers by command.\<close>

definition new_instrument :: "maestro_command \<times> 's play \<Rightarrow> 's instrument" where
  "new_instrument cp = \<lparr>tessitura = (maestro_note_set_cmd (fst cp) zero_note)\<lparr>n_payload := PNull\<rparr>, play = snd cp\<rparr>"

lemma add_instruments_all:
  "al 24 = None \<Longrightarrow> add_instruments al ps sh st
     = Some (sh\<lparr>instruments := map_option (\<lambda>is. is @ map new_instrument ps) (instruments sh)\<rparr>, st)"
  by (induction ps arbitrary: sh)
    (auto simp: maestro_instrument_new_def maestro_sheet_add_instrument_def new_instrument_def option.map_comp comp_def
      option.map_id0 [unfolded id_def])

lemma new_sheet_instruments:
  assumes "daemon_new_sheet al nl topics ps st = Some (Some sh, st')"
  shows "instruments sh = Some (map new_instrument ps)"
proof -
  have "al 24 = None" "nl = None"
    using assms by (auto simp: daemon_new_sheet_def maestro_sheet_new_def split: option.splits)
  with assms show ?thesis
    by (auto simp: daemon_new_sheet_def maestro_sheet_new_def add_instruments_all maestro_sheet_set_location_def)
qed

lemma new_sheet_topics:
  assumes "daemon_new_sheet al nl topics ps st = Some (Some sh, st')"
  shows "mt_topics (location sh) = topics"
proof -
  have "al 24 = None"
    using assms by (auto simp: daemon_new_sheet_def maestro_sheet_new_def split: option.splits)
  with assms show ?thesis
    by (auto simp: daemon_new_sheet_def add_instruments_all maestro_sheet_set_location_def split: prod.splits option.splits)
qed

lemma find_instrument:
  "map_of ps c = Some p \<Longrightarrow>
   find (\<lambda>i. n_command (tessitura i) = command_code c) (map new_instrument ps) = Some (new_instrument (c, p))"
  by (induction ps) (auto simp: new_instrument_def maestro_note_set_cmd_def simp del: command_code.simps)

text \<open>What a sheet built from a list of handlers answers to the bytes of a request.\<close>

lemma handler_answers:
  assumes "msgpack mp" and "content_bytes req = Some (message_bytes mp m)"
    and "message_ok al m" and "message_proper m" and "daemon_new_sheet al nl topics ps st0 = Some (Some sh, st1)"
    and "map_of ps c = Some p" and "snd (message_head m) = command_code c"
    and "\<And>request. note_view request = Some m \<Longrightarrow> p request (fresh_response pinfo) pinfo d = Inr (response, d')"
    and "note_view response = Some r" and "n_payload response \<noteq> PWild"
    and "al (length (message_bytes mp r)) = None" and "length (message_bytes mp r) < 2 ^ 64"
  shows "\<exists>out. maestro_sheet_play mp al sh pinfo req resp st d = Inr (out, st, d') \<and>
    content_bytes out = Some (message_bytes mp r)"
  by (rule sheet_reply [OF assms(1-4) new_sheet_instruments [OF assms(5)], where i = "new_instrument (c, p)"])
    (use assms find_instrument [OF assms(6)] in \<open>simp_all add: new_instrument_def\<close>)

lemma handler_answers_plain:
  assumes "msgpack mp" and "content_bytes req = Some (message_bytes mp m)"
    and "message_ok al m" and "message_proper m" and "daemon_new_sheet al nl topics ps st0 = Some (Some sh, st1)"
    and "map_of ps c = Some p" and "snd (message_head m) = command_code c"
    and "\<And>request. note_view request = Some m \<Longrightarrow>
      p request (fresh_response pinfo) pinfo d = Inr (maestro_note_set_cmd c' (fresh_response pinfo), d')"
    and "c' \<notin> {MAESTRO_NOTE_PING, MAESTRO_NOTE_STATS}"
    and "\<And>k. al k = None" and "length (message_bytes mp (Plain_Response (command_code c') (pi_id pinfo) (pi_name pinfo))) < 2 ^ 64"
  shows "\<exists>out. maestro_sheet_play mp al sh pinfo req resp st d = Inr (out, st, d') \<and>
    content_bytes out = Some (message_bytes mp (Plain_Response (command_code c') (pi_id pinfo) (pi_name pinfo)))"
  by (rule handler_answers [OF assms(1-8) fresh_response_view [OF assms(9)] _ assms(10,11)])
    (simp_all add: maestro_note_set_cmd_def fresh_response_def)

text \<open>
  The interface of a daemon to the maestro broker: which of its commands start and
  stop a test, and the handlers it shares with the other daemon.
\<close>

locale daemon_role =
  fixes handlers :: "'w denv \<Rightarrow> (maestro_command \<times> 'w handler) list"
    and topics :: "string list" and start_cmd stop_cmd :: maestro_command
  assumes start_handler: "map_of (handlers env) start_cmd = Some daemon_handle_start"
    and stop_handler: "map_of (handlers env) stop_cmd = Some (daemon_handle_stop env)"
    and set_handler: "map_of (handlers env) MAESTRO_NOTE_SET = Some (daemon_handle_set env)"
    and halt_handler: "map_of (handlers env) MAESTRO_NOTE_HALT = Some (daemon_handle_halt env)"
    and failed_handler: "map_of (handlers env) MAESTRO_NOTE_NOTIFY_FAIL = Some (daemon_handle_test_failed env)"
    and ping_handler: "map_of (handlers env) MAESTRO_NOTE_PING = Some (commond_handle_ping env)"
    and plain_commands: "{start_cmd, stop_cmd} \<inter> {MAESTRO_NOTE_SET, MAESTRO_NOTE_PING} = {}"
begin

lemma plain_start: "message_proper (Plain_Request (command_code start_cmd))"
  using plain_commands by (auto simp del: command_code.simps)

text \<open>A start request is granted when no test is running or requested.\<close>

lemma answers_start:
  assumes "msgpack mp" and "content_bytes req = Some (message_bytes mp (Plain_Request (command_code start_cmd)))"
    and "daemon_new_sheet al nl topics (handlers env) st0 = Some (Some sh, st1)" and "\<And>k. al k = None"
    and "\<And>c. length (message_bytes mp (Plain_Response c (pi_id pinfo) (pi_name pinfo))) < 2 ^ 64"
    and "busy = (d_started d \<or> worker_list_is_running (d_globals d))"
  shows "\<exists>out. maestro_sheet_play mp al sh pinfo req resp st d = Inr (out, st, if busy then d else d\<lparr>d_started := True\<rparr>) \<and>
    content_bytes out = Some (message_bytes mp (Plain_Response
      (command_code (if busy then MAESTRO_NOTE_INTERNAL_ERROR else MAESTRO_NOTE_OK)) (pi_id pinfo) (pi_name pinfo)))"
  by (rule handler_answers_plain [OF assms(1,2) _ plain_start assms(3) start_handler])
    (use assms(4-6) in \<open>auto simp: message_ok_def daemon_handle_start_def simp del: command_code.simps\<close>)

text \<open>A set request is answered with OK and changes the options as its option says.\<close>

lemma answers_set:
  assumes "msgpack mp" and "content_bytes req = Some (message_bytes mp (Set_Request opt v))"
    and "daemon_new_sheet al nl topics (handlers env) st0 = Some (Some sh, st1)" and "\<And>k. al k = None"
    and "\<And>c. length (message_bytes mp (Plain_Response c (pi_id pinfo) (pi_name pinfo))) < 2 ^ 64"
    and "set_worker_option env opt = Some f" and "no_nul v" and "length v < 2 ^ 31"
  shows "\<exists>out. maestro_sheet_play mp al sh pinfo req resp st d = Inr (out, st, d\<lparr>d_options := f v (d_options d)\<rparr>) \<and>
    content_bytes out = Some (message_bytes mp (Plain_Response (command_code MAESTRO_NOTE_OK) (pi_id pinfo) (pi_name pinfo)))"
proof (rule handler_answers_plain [OF assms(1,2) _ _ assms(3) set_handler])
  fix request
  assume "note_view request = Some (Set_Request opt v)"
  then have "note_bits request set_opt_cell = Some opt" "note_str request set_value = Some v"
    by (auto simp: note_view_def request_view_def response_view_def stats_view_def notification_view_def bind_eq_Some_conv
        split: if_splits)
  then show "daemon_handle_set env request (fresh_response pinfo) pinfo d
      = Inr (maestro_note_set_cmd MAESTRO_NOTE_OK (fresh_response pinfo), d\<lparr>d_options := f v (d_options d)\<rparr>)"
    using assms(6) by (simp add: daemon_handle_set_def commond_handle_set_def)
qed (use assms(4,5,7,8) in \<open>auto simp: message_ok_def text_ok_def simp del: command_code.simps\<close>)

text \<open>A ping is answered with the time that passed since the moment it carries.\<close>

lemma answers_ping:
  assumes "msgpack mp" and "content_bytes req = Some (message_bytes mp (Ping_Request sec usec))"
    and "daemon_new_sheet al nl topics (handlers env) st0 = Some (Some sh, st1)" and "\<And>k. al k = None"
    and "\<And>e. length (message_bytes mp (Ping_Response (pi_id pinfo) (pi_name pinfo) e)) < 2 ^ 64"
    and "e_now (de_worker env) (d_world d) = (now, w)"
    and "e = word_of_int (e_elapsed_milli (de_worker env) \<lparr>tv_sec = sint sec, tv_usec = sint usec\<rparr> now)"
  shows "\<exists>out. maestro_sheet_play mp al sh pinfo req resp st d = Inr (out, st, d\<lparr>d_world := w\<rparr>) \<and>
    content_bytes out = Some (message_bytes mp (Ping_Response (pi_id pinfo) (pi_name pinfo) e))"
proof -
  let ?r = "(fresh_response pinfo)\<lparr>n_command := command_code MAESTRO_NOTE_PING,
    n_payload := PAt (zero_payload[response_id := Str (pi_id pinfo), response_name := Str (pi_name pinfo), ping_elapsed := Bits e])\<rparr>"
  have p: "commond_handle_ping env request (fresh_response pinfo) pinfo d = Inr (?r, d\<lparr>d_world := w\<rparr>)"
    if "note_view request = Some (Ping_Request sec usec)" for request
  proof -
    from that have "note_bits request ping_sec = Some sec" "note_bits request ping_usec = Some usec"
      by (auto simp: note_view_def request_view_def response_view_def stats_view_def notification_view_def bind_eq_Some_conv
          split: if_splits)
    with assms(6,7) show ?thesis
      by (simp add: commond_handle_ping_def maestro_note_ping_set_elapsed_def note_store_def maestro_note_set_cmd_def
          fresh_response_def payload_cells_def)
  qed
  have v: "note_view ?r = Some (Ping_Response (pi_id pinfo) (pi_name pinfo) e)"
    by (simp add: fresh_response_def view_defs payload_cells_def)
  show ?thesis
    by (rule handler_answers [OF assms(1,2) _ _ assms(3) ping_handler _ p v _ assms(4,5)])
      (use assms(4) in \<open>simp_all add: message_ok_def\<close>)
qed

end

interpretation sender: daemon_role senderd_handlers MAESTRO_SENDER_DAEMON_SHEETS
    MAESTRO_NOTE_START_SENDER MAESTRO_NOTE_STOP_SENDER
  by unfold_locales (simp_all add: senderd_handlers_def daemon_handlers)

interpretation receiver: daemon_role receiverd_handlers MAESTRO_RECEIVER_DAEMON_SHEETS
    MAESTRO_NOTE_START_RECEIVER MAESTRO_NOTE_STOP_RECEIVER
  by unfold_locales (simp_all add: receiverd_handlers_def daemon_handlers)


section \<open>Daemons as state machines\<close>

text \<open>
  A step of a daemon: a request served by one of its handlers, or a test executed by
  its main loop. Between two steps nobody holds the mutex.
\<close>

inductive daemon_step :: "'w denv \<Rightarrow> 'v notifier \<Rightarrow> 'v notifier \<Rightarrow> (maestro_command \<times> 'w handler) list \<Rightarrow>
    'w daemon \<Rightarrow> 'w daemon \<Rightarrow> bool" for env failed successful hs where
  step_request: "map_of hs c = Some p \<Longrightarrow> p request response pinfo d = Inr (response', d') \<Longrightarrow> daemon_step env failed successful hs d d'"
| step_sender_test: "senderd_worker_execute env failed successful pg vmsl d v = Inr (ret, d', v') \<Longrightarrow> daemon_step env failed successful hs d d'"
| step_receiver_test: "receiverd_worker_execute env failed successful pg vmsl d v = Inr (ret, d', v') \<Longrightarrow> daemon_step env failed successful hs d d'"

inductive_cases daemon_stepE: "daemon_step env failed successful hs d d'"

definition mutex_free :: "'w daemon \<Rightarrow> bool" where
  "mutex_free d = (\<not> g_locked (d_globals d))"

lemma stop_workers_free:
  "stop_workers (worker_manager_stop e os n) resp d = Inr (r, d') \<Longrightarrow>
     mutex_free d' \<and> g_list (d_globals d') = None \<and> d_started d' = d_started d \<and> d_halt d' = d_halt d"
  "stop_workers (worker_manager_abort e os n) resp d = Inr (r, d') \<Longrightarrow>
     mutex_free d' \<and> g_list (d_globals d') = None \<and> d_started d' = d_started d \<and> d_halt d' = d_halt d"
  by (auto simp: stop_workers_def run_bind_eq_Inr mutex_free_def worker_manager_stop_def worker_manager_abort_def
      dest: do_stop_result)

lemma stop_result:
  "daemon_handle_stop env req resp pinfo d = Inr (r, d') \<Longrightarrow>
     g_list (d_globals d') = None \<and> \<not> d_started d' \<and> d_halt d' = d_halt d \<and> (mutex_free d \<longrightarrow> mutex_free d')"
  by (auto simp: daemon_handle_stop_def Let_def mutex_free_def worker_list_is_running_def split: if_splits
      dest: stop_workers_free)

lemma common_handlers_free:
  "daemon_handle_set env req resp pinfo d = Inr (r, d') \<Longrightarrow> mutex_free d \<Longrightarrow> mutex_free d'"
  "commond_handle_flush req resp pinfo d = Inr (r, d') \<Longrightarrow> mutex_free d \<Longrightarrow> mutex_free d'"
  "commond_handle_ping env req resp pinfo d = Inr (r, d') \<Longrightarrow> mutex_free d \<Longrightarrow> mutex_free d'"
  "daemon_handle_start req resp pinfo d = Inr (r, d') \<Longrightarrow> mutex_free d \<Longrightarrow> mutex_free d'"
  by (auto simp: daemon_handle_set_def commond_handle_flush_def commond_handle_ping_def daemon_handle_start_def
      run_bind_eq_Inr mutex_free_def split: prod.splits if_splits)

lemma worker_handlers_free:
  "daemon_handle_stop env req resp pinfo d = Inr (r, d') \<Longrightarrow> mutex_free d \<Longrightarrow> mutex_free d'"
  "daemon_handle_halt env req resp pinfo d = Inr (r, d') \<Longrightarrow> mutex_free d \<Longrightarrow> mutex_free d'"
  "daemon_handle_test_failed env req resp pinfo d = Inr (r, d') \<Longrightarrow> mutex_free d \<Longrightarrow> mutex_free d'"
  "daemon_handle_stats env role latency req resp pinfo d = Inr (r, d') \<Longrightarrow> mutex_free d \<Longrightarrow> mutex_free d'"
  subgoal by (auto dest: stop_result)
  subgoal by (fastforce simp: daemon_handle_halt_def run_bind_eq_Inr mutex_free_def dest: stop_result)
  subgoal by (auto simp: daemon_handle_test_failed_def Let_def run_bind_eq_Inr mutex_free_def split: if_splits
        dest: stop_workers_free)
  subgoal by (cases "e_now (de_worker env) (d_world d)")
      (auto simp: daemon_handle_stats_def Let_def run_bind_eq_Inr mutex_free_def split: if_splits dest: count_unlocks)
  done

lemma daemon_finish_free:
  "handler_complete h \<Longrightarrow> daemon_finish env failed successful h fin ret wk st d v = Inr (ret', d', v') \<Longrightarrow> mutex_free d'"
  by (auto simp: daemon_finish_def Let_def run_bind_eq_Inr mutex_free_def worker_manager_stop_def dest: do_stop_result)

lemma daemon_execute_free:
  "handler_complete h \<Longrightarrow> daemon_execute env failed successful mk start h fin d v = Inr (ret, d', v') \<Longrightarrow>
     mutex_free d \<Longrightarrow> mutex_free d'"
  using clone_unlocked
  by (fastforce simp: daemon_execute_def Let_def run_bind_eq_Inr split: prod.splits if_splits dest: daemon_finish_free
      simp: mutex_free_def)

lemma sender_request_free:
  assumes "map_of (senderd_handlers env) c = Some p" and "p req resp pinfo d = Inr (r, d')" and "mutex_free d"
  shows "mutex_free d'"
  using assms common_handlers_free worker_handlers_free
  by (auto simp: senderd_handlers_def daemon_handlers split: if_splits)

lemma receiver_request_free:
  assumes "map_of (receiverd_handlers env) c = Some p" and "p req resp pinfo d = Inr (r, d')" and "mutex_free d"
  shows "mutex_free d'"
  using assms common_handlers_free worker_handlers_free
  by (auto simp: receiverd_handlers_def daemon_handlers split: if_splits)

lemma daemon_handlers_complete:
  "handler_complete \<lparr>h_flags = WRK_HANDLE_NONE, h_eval = e, h_print = p\<rparr>"
  "handler_complete \<lparr>h_flags = WRK_HANDLE_EVAL, h_eval = Some f, h_print = p\<rparr>"
  by (simp_all add: handler_complete_def h_has_def WRK_HANDLE_NONE_def WRK_HANDLE_EVAL_def WRK_HANDLE_PRINT_def)

lemma daemon_step_free:
  assumes "daemon_step env failed successful hs d d'" and "hs = senderd_handlers env \<or> hs = receiverd_handlers env" and "mutex_free d"
  shows "mutex_free d'"
  using assms(1)
proof (rule daemon_stepE)
  fix c p request response pinfo response'
  assume "map_of hs c = Some p" "p request response pinfo d = Inr (response', d')"
  with assms(2,3) show ?thesis using sender_request_free receiver_request_free by metis
next
  fix pg vmsl v ret v'
  assume "senderd_worker_execute env failed successful pg vmsl d v = Inr (ret, d', v')"
  then show ?thesis
    unfolding senderd_worker_execute_def Let_def
    by (rule daemon_execute_free [OF daemon_handlers_complete(1)]) (rule assms(3))
next
  fix pg vmsl v ret v'
  assume "receiverd_worker_execute env failed successful pg vmsl d v = Inr (ret, d', v')"
  with assms(3) show ?thesis
    unfolding receiverd_worker_execute_def Let_def
    by (auto intro: daemon_execute_free [OF daemon_handlers_complete(1)] daemon_execute_free [OF daemon_handlers_complete(2)]
        split: if_splits)
qed


lemma daemon_reachable_free:
  assumes "(daemon_step env failed successful hs)\<^sup>*\<^sup>* d d'" and "hs = senderd_handlers env \<or> hs = receiverd_handlers env"
    and "mutex_free d"
  shows "mutex_free d'"
  using assms(1) by (induction rule: rtranclp_induct) (use assms(2,3) daemon_step_free in blast)+

lemma stop_workers_live:
  "mutex_free d \<Longrightarrow> stop_workers (worker_manager_stop e os n) resp d \<noteq> Inl Deadlock"
  "mutex_free d \<Longrightarrow> stop_workers (worker_manager_abort e os n) resp d \<noteq> Inl Deadlock"
  using do_stop_no_deadlock [of "d_globals d"] do_stop_no_deadlock [of "(d_globals d)\<lparr>g_errors := g_errors (d_globals d) + 1\<rparr>"]
  by (auto simp: stop_workers_def run_bind_eq_Inl worker_manager_stop_def worker_manager_abort_def mutex_free_def)

lemma handlers_live:
  assumes "mutex_free d"
  shows "daemon_handle_stop env req resp pinfo d \<noteq> Inl Deadlock"
    and "daemon_handle_halt env req resp pinfo d \<noteq> Inl Deadlock"
    and "daemon_handle_test_failed env req resp pinfo d \<noteq> Inl Deadlock"
    and "daemon_handle_stats env role latency req resp pinfo d \<noteq> Inl Deadlock"
    and "daemon_handle_set env req resp pinfo d \<noteq> Inl Deadlock"
    and "commond_handle_ping env req resp pinfo d \<noteq> Inl Deadlock"
    and "commond_handle_flush req resp pinfo d \<noteq> Inl Deadlock"
    and "daemon_handle_start req resp pinfo d \<noteq> Inl Deadlock"
proof -
  have m: "mutex_free (d\<lparr>d_started := False\<rparr>)" using assms by (simp add: mutex_free_def)
  note live = stop_workers_live [OF m]
  show stop: "daemon_handle_stop env req resp pinfo d \<noteq> Inl Deadlock"
    using live by (simp add: daemon_handle_stop_def Let_def)
  from stop show "daemon_handle_halt env req resp pinfo d \<noteq> Inl Deadlock"
    by (auto simp: daemon_handle_halt_def run_bind_eq_Inl)
  show "daemon_handle_test_failed env req resp pinfo d \<noteq> Inl Deadlock"
    using live by (auto simp: daemon_handle_test_failed_def run_bind_eq_Inl Let_def)
  show "daemon_handle_stats env role latency req resp pinfo d \<noteq> Inl Deadlock"
    using assms by (cases "e_now (de_worker env) (d_world d)")
      (auto simp: daemon_handle_stats_def run_bind_eq_Inl Let_def worker_list_count_def mutex_free_def)
qed (auto simp: daemon_handle_set_def commond_handle_ping_def commond_handle_flush_def daemon_handle_start_def
    run_bind_eq_Inl split: prod.splits)

lemma requests_live:
  assumes "mutex_free d" and "map_of (senderd_handlers env) c = Some p \<or> map_of (receiverd_handlers env) c = Some p"
  shows "p req resp pinfo d \<noteq> Inl Deadlock"
  using assms(2) handlers_live [OF assms(1)]
  by (auto simp: senderd_handlers_def receiverd_handlers_def daemon_handlers split: if_splits)

section \<open>Properties\<close>

text \<open>A concrete daemon: one child, which ends at once, and writers that succeed.\<close>

definition sample_denv :: "unit denv" where
  "sample_denv = \<lparr>de_worker = sample_wenv, de_os = sample_os 40 0, de_config = sample_config, de_writers = (\<lambda>f. sample_writer),
     de_uri_parse = (\<lambda>s. zero_uri), de_duration_parse = (\<lambda>s. None), de_log_level = (\<lambda>s. 0), de_to_milli = (\<lambda>t. tv_sec t * 1000),
     de_time_str = (\<lambda>t. ''now''), de_uri_format = (\<lambda>u. None), de_fadd = (\<lambda>a b. a + b), de_ratio = (\<lambda>a b. a div ucast b),
     de_log_dir = ''/l'', de_path_exists = (\<lambda>p st. (False, st)), de_mkdirs = (\<lambda>p st w. (True, st, w)),
     de_assign = (\<lambda>u v. (True, v)), de_random = (\<lambda>k. 0), de_fuel = 3\<rparr>"

definition sample_daemon :: "unit daemon" where
  "sample_daemon = \<lparr>d_started = True, d_halt = False, d_options = sample_options,
     d_globals = \<lparr>g_list = None, g_locked = False, g_errors = 0\<rparr>, d_world = ()\<rparr>"

definition silent :: "unit notifier" where
  "silent st v = Some (st, v)"

definition sample_test :: "(worker_ret \<times> unit daemon \<times> unit) run" where
  "sample_test = senderd_worker_execute sample_denv silent silent sample_pl_state (sample_transport VMSL_SUCCESS) sample_daemon ()"

lemma sample_test_succeeds:
  "case sample_test of Inr (ret, r) \<Rightarrow> worker_success ret \<and> \<not> worker_child ret | Inl e \<Rightarrow> False"
  by code_simp

text \<open>
  Property C14, daemon_never_deadlocks. From a state with the mutex free, after any
  sequence of requests and tests, serving one more request does not deadlock, in
  either daemon.
\<close>

theorem daemon_never_deadlocks:
  assumes "(daemon_step env failed successful hs)\<^sup>*\<^sup>* d d'" and "hs = senderd_handlers env \<or> hs = receiverd_handlers env"
    and "\<not> g_locked (d_globals d)" and "map_of hs c = Some p"
  shows "p request response pinfo d' \<noteq> Inl Deadlock"
proof -
  have "mutex_free d'" using daemon_reachable_free [OF assms(1,2)] assms(3) by (simp add: mutex_free_def)
  moreover have "map_of (senderd_handlers env) c = Some p \<or> map_of (receiverd_handlers env) c = Some p"
    using assms(2,4) by auto
  ultimately show ?thesis by (rule requests_live)
qed


theorem daemon_never_deadlocks_witness:
  "senderd_handle_stop sample_denv zero_note zero_note \<lparr>pi_id = [], pi_name = []\<rparr>
     (sample_daemon\<lparr>d_globals := sample_globals\<rparr>) \<noteq> Inl Deadlock"
  by (rule daemon_never_deadlocks [where env = sample_denv and hs = "senderd_handlers sample_denv" and
        c = MAESTRO_NOTE_STOP_SENDER and failed = silent and successful = silent, OF rtranclp.rtrancl_refl])
    (simp_all add: senderd_handlers_def sample_daemon_def sample_globals_def)

lemma execute_finalized:
  assumes "daemon_execute env failed successful mk start h fin d v = Inr (ret, d', v')"
    and "\<not> worker_error ret" and "\<not> worker_child ret"
  shows "\<exists>dir nm st2 w2 st3 w3 wr st4 w4. naming_initialize_writer (de_writers env) (wk_writer (mk dir))
      (wk_report_format (mk dir)) (wk_naming_options (mk dir)) nm st2 w2 = Some (True, wr, st3, w3) \<and> fin wr st4 w4 \<noteq> None"
proof -
  obtain ok dir st w where l: "worker_log_init (de_path_exists env) (de_mkdirs env) (de_log_dir env) St_New (d_world d)
      = (ok, dir, st, w)" by (metis prod_cases4)
  have "ok" using assms l by (auto simp: daemon_execute_def worker_ret_defs split: if_splits)
  with assms l obtain wk g1 st1 w1 ret1 where c: "worker_manager_clone (de_worker env) (de_os env) (de_config env)
      (de_writers env) start (mk dir) (d_globals d) st w = Inr (ret1, wk, g1, st1, w1)"
    and f: "\<not> worker_error ret1" "daemon_finish env failed successful h fin ret1 wk st1 (d\<lparr>d_globals := g1, d_world := w1\<rparr>) v
      = Inr (ret, d', v')"
    by (auto simp: daemon_execute_def run_bind_eq_Inr Let_def split: if_splits)
  from f(2) have "\<exists>st4 w4. fin (wk_writer wk) st4 w4 \<noteq> None"
    by (auto simp: daemon_finish_def run_bind_eq_Inr Let_def of_undef_def split: option.splits)
  with clone_named [OF c f(1)] show ?thesis by blast
qed

text \<open>
  Also proved, daemon_rate_required. A test executed by a daemon ends only when a rate was
  set: without a rate no rate writer is assigned, and its null finaliser is called
  after every test, in the sender and in the receiver daemon.
\<close>

theorem daemon_rate_required:
  assumes "senderd_worker_execute env failed successful pg vmsl d v = Inr (ret, d', v') \<or>
      receiverd_worker_execute env failed successful pg vmsl d v = Inr (ret, d', v')"
    and "worker_success ret" and "\<not> worker_child ret"
  shows "0 < wo_rate (d_options d)"
proof (rule ccontr)
  assume no: "\<not> 0 < wo_rate (d_options d)"
  have e: "\<not> worker_error ret" using assms(2) by (simp add: worker_ret_defs)
  have n: "\<not> nm_has NM_THROUGHPUT NM_RATE" "\<not> nm_has (NM_LATENCY OR NM_THROUGHPUT) NM_RATE"
    by (simp_all add: nm_has_def NM_THROUGHPUT_def NM_RATE_def NM_LATENCY_def)
  have null: "finalize_table (w_rate wr) st w = None" if "w_rate wr = w_rate null_writer" for wr :: "'a stats_writer" and st w
    using that by (simp add: finalize_table_def null_writer_def null_table_def)
  from assms(1) show False
  proof
    assume "senderd_worker_execute env failed successful pg vmsl d v = Inr (ret, d', v')"
    from execute_finalized [OF this [unfolded senderd_worker_execute_def Let_def] e assms(3)] no n(1) null
    show False by (auto simp: daemon_worker_def dest!: naming_keeps_rate)
  next
    assume "receiverd_worker_execute env failed successful pg vmsl d v = Inr (ret, d', v')"
    from execute_finalized [OF this [unfolded receiverd_worker_execute_def Let_def] e assms(3)] no n(2) null
    show False by (auto simp: daemon_worker_def dest!: naming_keeps_rate)
  qed
qed

theorem daemon_rate_required_witness:
  "\<exists>ret d'. senderd_worker_execute sample_denv silent silent sample_pl_state (sample_transport VMSL_SUCCESS) sample_daemon ()
      = Inr (ret, d', ()) \<and> worker_success ret \<and> \<not> worker_child ret \<and> 0 < wo_rate (d_options sample_daemon)"
proof -
  from sample_test_succeeds obtain ret d' where t: "sample_test = Inr (ret, d', ())" "worker_success ret" "\<not> worker_child ret"
    by (auto split: sum.splits prod.splits)
  from daemon_rate_required [OF disjI1, OF t(1) [unfolded sample_test_def] t(2,3)] t show ?thesis
    by (auto simp: sample_test_def)
qed

text \<open>
  Also proved, halt_stops_test. A halt request that is answered is answered with OK, and
  leaves the daemon halted, not started, and without a list of workers.
\<close>

theorem halt_stops_test:
  assumes "daemon_handle_halt env request response pinfo d = Inr (response', d')"
  shows "n_command response' = command_code MAESTRO_NOTE_OK \<and> d_halt d' \<and> \<not> d_started d' \<and> g_list (d_globals d') = None"
  using assms by (auto simp: daemon_handle_halt_def run_bind_eq_Inr maestro_note_set_cmd_def simp del: command_code.simps
      dest: stop_result)

theorem halt_stops_test_witness:
  "n_command (maestro_note_set_cmd MAESTRO_NOTE_OK zero_note) = command_code MAESTRO_NOTE_OK \<and>
    d_halt (sample_daemon\<lparr>d_started := False, d_halt := True\<rparr>) \<and> \<not> d_started (sample_daemon\<lparr>d_started := False, d_halt := True\<rparr>) \<and>
    g_list (d_globals (sample_daemon\<lparr>d_started := False, d_halt := True\<rparr>)) = None"
  by (rule halt_stops_test [where env = sample_denv and request = zero_note and response = zero_note and
        pinfo = "\<lparr>pi_id = [], pi_name = []\<rparr>" and d = sample_daemon])
    (simp add: daemon_handle_halt_def daemon_handle_stop_def worker_list_is_running_def sample_daemon_def
      maestro_note_set_cmd_def zero_note_def)

text \<open>
  Also proved, test_failed_needs_message. A failure notification for a running test is read
  for its message: one that came without a payload (the request form of the command)
  makes the daemon dereference a null pointer.
\<close>

theorem test_failed_needs_message:
  assumes "g_list (d_globals d) = Some wis" and "n_payload request = PNull"
  shows "senderd_handle_test_failed env request response pinfo d = Inl Undefined \<and>
    receiverd_handle_test_failed env request response pinfo d = Inl Undefined"
  using assms by (simp add: daemon_handlers daemon_handle_test_failed_def Let_def worker_list_is_running_def
      note_str_def note_cell_def)

theorem test_failed_needs_message_witness:
  "senderd_handle_test_failed sample_denv zero_note zero_note \<lparr>pi_id = [], pi_name = []\<rparr>
      (sample_daemon\<lparr>d_globals := sample_globals\<rparr>) = Inl Undefined \<and>
    receiverd_handle_test_failed sample_denv zero_note zero_note \<lparr>pi_id = [], pi_name = []\<rparr>
      (sample_daemon\<lparr>d_globals := sample_globals\<rparr>) = Inl Undefined"
  by (rule test_failed_needs_message [where wis = "[sample_child 41, sample_child 42]"])
    (simp_all add: sample_globals_def zero_note_def)

definition slow_child :: "unit worker_info" where
  "slow_child = (sample_child 41)\<lparr>wi_snapshot := zero_snapshot\<lparr>ws_latency := zero_latency\<lparr>sl_elapsed := \<lparr>tv_sec = 7, tv_usec = 0\<rparr>\<rparr>\<rparr>\<rparr>"

definition slow_denv :: "unit denv" where
  "slow_denv = sample_denv\<lparr>de_worker := sample_wenv\<lparr>e_elapsed_secs := (\<lambda>a b. 100)\<rparr>\<rparr>"

text \<open>
  Also proved, latency_condition. The receiver daemon stops a test for its latency exactly
  when the latency of a child exceeds the limit and the child has been running for
  ninety seconds; then the status says why.
\<close>

theorem latency_condition:
  "receiverd_worker_eval_latency env opts wi st w = (ok, st', w') \<Longrightarrow>
    (\<not> ok \<longleftrightarrow> condition_latency opts < de_to_milli env (sl_elapsed (ws_latency (wi_snapshot wi))) \<and>
      90 \<le> sint (e_elapsed_secs (de_worker env) (ws_start (wi_snapshot wi)) (ws_now (wi_snapshot wi)))) \<and>
    w' = w \<and> (if ok then st' = st else \<not> gru_status_success st')"
  by (auto simp: receiverd_worker_eval_latency_def Let_def split: if_splits)


theorem latency_condition_witness:
  "(\<not> False \<longleftrightarrow> condition_latency sample_options < de_to_milli slow_denv (sl_elapsed (ws_latency (wi_snapshot slow_child))) \<and>
      90 \<le> sint (e_elapsed_secs (de_worker slow_denv) (ws_start (wi_snapshot slow_child)) (ws_now (wi_snapshot slow_child)))) \<and>
    () = () \<and> (if False then St_Set GRU_FAILURE ''Current latency %d exceeds the maximum value %d'' = St_New
      else \<not> gru_status_success (St_Set GRU_FAILURE ''Current latency %d exceeds the maximum value %d''))"
  by (rule latency_condition)
    (simp add: receiverd_worker_eval_latency_def slow_denv_def slow_child_def sample_denv_def sample_wenv_def
      condition_latency_def sample_options_def sample_child_def zero_snapshot_def zero_latency_def)


text \<open>The evaluation of the receiver daemon is a verdict on the snapshot of a child, as the watchdog asks for.\<close>

lemma receiverd_judges:
  "judges \<lparr>h_flags = WRK_HANDLE_EVAL, h_eval = Some (receiverd_worker_eval_latency env opts), h_print = None\<rparr>
    (\<lambda>wi. condition_latency opts < de_to_milli env (sl_elapsed (ws_latency (wi_snapshot wi))) \<longrightarrow>
      sint (e_elapsed_secs (de_worker env) (ws_start (wi_snapshot wi)) (ws_now (wi_snapshot wi))) < 90)"
  by (simp add: judges_def h_has_def WRK_HANDLE_EVAL_def WRK_HANDLE_PRINT_def receiverd_worker_eval_latency_def Let_def)

lemma nat_dec_hd: "hd (nat_dec n) \<noteq> CHR ''~''"
  using nat_dec_digits [of "hd (nat_dec n)" n] by (auto simp: is_digit_def)

text \<open>
  Property C30, set_numeric_options. The decimal text of a number below two to the 31
  sets the numeric options to that number: the rate, the throttle, the message size
  (and its variable form, after a tilde), the latency limit, the message count when
  the text is no duration; the number of parallel workers is kept modulo two to the 16.
\<close>

theorem set_numeric_options:
  assumes "n < 2 ^ 31"
  shows "map_option (\<lambda>f. f (nat_dec n) o') (set_worker_option env (opt_code MAESTRO_NOTE_OPT_SET_RATE)) = Some (o'\<lparr>wo_rate := word_of_nat n\<rparr>) \<and>
    map_option (\<lambda>f. f (nat_dec n) o') (set_worker_option env (opt_code MAESTRO_NOTE_OPT_SET_THROTTLE)) = Some (o'\<lparr>wo_throttle := word_of_nat n\<rparr>) \<and>
    map_option (\<lambda>f. f (nat_dec n) o') (set_worker_option env (opt_code MAESTRO_NOTE_OPT_SET_MESSAGE_SIZE))
      = Some (o'\<lparr>wo_message_size := word_of_nat n\<rparr>) \<and>
    map_option (\<lambda>f. f (CHR ''~'' # nat_dec n) o') (set_worker_option env (opt_code MAESTRO_NOTE_OPT_SET_MESSAGE_SIZE))
      = Some (o'\<lparr>wo_message_size := word_of_nat n, wo_variable_size := True\<rparr>) \<and>
    map_option (\<lambda>f. condition_latency (f (nat_dec n) o')) (set_worker_option env (opt_code MAESTRO_NOTE_OPT_FCL)) = Some (int n) \<and>
    map_option (\<lambda>f. f (nat_dec n) o') (set_worker_option env (opt_code MAESTRO_NOTE_OPT_SET_PARALLEL_COUNT))
      = Some (o'\<lparr>wo_parallel_count := word_of_nat n\<rparr>) \<and>
    (de_duration_parse env (nat_dec n) = None \<longrightarrow>
      map_option (\<lambda>f. f (nat_dec n) o') (set_worker_option env (opt_code MAESTRO_NOTE_OPT_SET_DURATION_TYPE))
        = Some (o'\<lparr>wo_duration := Message_Count (word_of_nat n)\<rparr>))"
proof -
  have "n < 2 ^ 63" using assms by simp
  then have l: "atol (nat_dec n) = word_of_nat n" by (rule atol_nat_dec)
  have s: "sint (word_of_nat n :: u64) = int n" using assms by (simp add: signed_of_nat signed_take_bit_int_eq_self)
  show ?thesis
    using atoi_nat_dec [OF assms] l nat_dec_hd [of n] s
    by (simp add: set_worker_option_def set_message_size_def set_duration_def scast_small [OF assms] ucast_narrow condition_latency_def)
qed

theorem set_numeric_options_witness:
  "map_option (\<lambda>f. f (nat_dec 250) sample_options) (set_worker_option sample_denv (opt_code MAESTRO_NOTE_OPT_SET_RATE))
     = Some (sample_options\<lparr>wo_rate := word_of_nat 250\<rparr>)"
  using set_numeric_options [of 250 sample_options sample_denv] by simp

text \<open>
  Property C31, stats_report_totals. While a test runs, a statistics request to the sender
  daemon is answered with the number of children, the sum of their message counts and
  of their rates, the role and the time; the state of the test does not change.
\<close>

theorem stats_report_totals:
  assumes "g_list (d_globals d) = Some wis" and "\<not> g_locked (d_globals d)"
    and "e_now (de_worker env) (d_world d) = (now, w)"
  shows "\<exists>response. senderd_handle_stats env request (fresh_response pinfo) pinfo d = Inr (response, d\<lparr>d_world := w\<rparr>) \<and>
    note_view response = Some (Stats_Response (pi_id pinfo) (pi_name pinfo) (word_of_nat (length wis)) ''sender''
      MPT_CLIENT_ROLE_INFO 0 (de_time_str env now) (sum_list (map (\<lambda>wi. ws_count (wi_snapshot wi)) wis)) (total_rate env wis) 0)"
proof -
  have t: "total_msg wis = sum_list (map (\<lambda>wi. ws_count (wi_snapshot wi)) wis)"
    unfolding total_msg_def by (induction wis rule: rev_induct) (simp_all add: add.commute)
  have g: "worker_list_count (d_globals d) = Inr (word_of_nat (length wis), d_globals d)"
    using assms(1,2) by (cases "d_globals d") (simp add: worker_list_count_def worker_list_unlock_def)
  show ?thesis
    using assms g t
    by (simp add: daemon_handlers daemon_handle_stats_def worker_list_is_running_def worker_list_root_def Let_def stats_fields_def
        maestro_note_stats_set_child_count_def maestro_note_stats_set_role_def maestro_note_stats_set_roleinfo_def
        maestro_note_stats_set_stat_type_def maestro_note_stats_set_perf_ts_def maestro_note_stats_set_perf_count_def
        maestro_note_stats_set_perf_rate_def maestro_note_stats_set_perf_latency_def note_store_def note_cell_def
        fresh_response_def maestro_note_set_cmd_def payload_cells_def low_half_def view_defs)
qed


theorem stats_report_totals_witness:
  "\<exists>response. senderd_handle_stats sample_denv zero_note (fresh_response \<lparr>pi_id = ''7'', pi_name = ''p''\<rparr>) \<lparr>pi_id = ''7'', pi_name = ''p''\<rparr>
      (sample_daemon\<lparr>d_globals := sample_globals\<rparr>) = Inr (response, sample_daemon\<lparr>d_globals := sample_globals, d_world := ()\<rparr>) \<and>
    note_view response = Some (Stats_Response ''7'' ''p'' 2 ''sender'' MPT_CLIENT_ROLE_INFO 0 ''now'' 0 0 0)"
  using stats_report_totals [where d = "sample_daemon\<lparr>d_globals := sample_globals\<rparr>" and env = sample_denv and
      wis = "[sample_child 41, sample_child 42]" and now = zero_ts and w = "()" and request = zero_note and
      pinfo = "\<lparr>pi_id = ''7'', pi_name = ''p''\<rparr>"]
  by (simp add: sample_globals_def sample_daemon_def sample_denv_def sample_wenv_def sample_child_def zero_snapshot_def
      zero_throughput_def total_rate_def)

text \<open>
  Also proved, sender_exit_undefined. A sender daemon that is halted before its first test
  reads its result variable before anything was stored in it.
\<close>

theorem sender_exit_undefined:
  assumes "senderd_new_sheet env al nl St_New = Some (Some sh, st)"
    and "maestro_player_start penv al sh None st v = Some (True, sp, st1, v1)" and "\<not> d_halt d"
    and "served 0 (d\<lparr>d_world := e_usleep (de_worker env) 500000 (d_world d)\<rparr>) = Inr halted" and "d_halt halted" and "\<not> d_started halted"
  shows "senderd_worker_start env penv mp al nl served (Suc (Suc fuel)) pg d v = Inl Undefined"
  using assms by (simp add: senderd_worker_start_def daemon_start_def daemon_exit_def)

definition sample_penv :: "unit player_env" where
  "sample_penv = \<lparr>pe_name = ''p'', pe_clone = (\<lambda>st. (zero_uri, st)), pe_assign = (\<lambda>u v. (True, sample_transport VMSL_SUCCESS)),
     pe_uuid = Some ''7'', pe_list_new = (\<lambda>i. True), pe_append = True, pe_pthread_create = 0\<rparr>"

definition halted_after_idle :: "nat \<Rightarrow> unit daemon \<Rightarrow> unit daemon run" where
  "halted_after_idle k d = Inr (d\<lparr>d_started := False, d_halt := True\<rparr>)"

lemma sample_sender_sheet:
  "\<exists>sh. senderd_new_sheet sample_denv (\<lambda>k. None) None St_New = Some (Some sh, St_New)"
  by (simp add: senderd_new_sheet_def daemon_new_sheet_def maestro_sheet_new_def add_instruments_all)

lemma sample_player_starts:
  "case maestro_player_start sample_penv (\<lambda>k. None) (the (fst (the (senderd_new_sheet sample_denv (\<lambda>k. None) None St_New))))
      None St_New () of Some (ok, r) \<Rightarrow> ok | None \<Rightarrow> False"
  by code_simp

theorem sender_exit_undefined_witness:
  "senderd_worker_start sample_denv sample_penv msgpack_format (\<lambda>k. None) None halted_after_idle (Suc (Suc 0)) sample_pl_state
     sample_daemon () = Inl Undefined"
proof -
  obtain sh where sh: "senderd_new_sheet sample_denv (\<lambda>k. None) None St_New = Some (Some sh, St_New)"
    using sample_sender_sheet by blast
  with sample_player_starts obtain sp st1 v1 where
    "maestro_player_start sample_penv (\<lambda>k. None) sh None St_New () = Some (True, sp, st1, v1)"
    by (cases "maestro_player_start sample_penv (\<lambda>k. None) sh None St_New ()") auto
  with sh show ?thesis
    by (rule sender_exit_undefined [where served = halted_after_idle and
          halted = "sample_daemon\<lparr>d_started := False, d_halt := True\<rparr>"]) (simp_all add: halted_after_idle_def sample_daemon_def)
qed

end
