(* ===== verification/Report.thy ===== *)
theory Report
  imports Stats
begin

text \<open>
  The report writers of \<open>src/common/statistics\<close>: \<open>csv_writer.c\<close> (compressed text files),
  \<open>hdr_writer.c\<close> with \<open>hdr_wrapper.c\<close> (histograms), \<open>out_writer.c\<close> (the terminal) and
  \<open>nop_writer.c\<close>, as tables of the type \<open>stats_writer.h\<close> asks for. The static variables of
  these files are part of the state the tables act on; zlib, HdrHistogram and the path
  functions of gru are parameters. The locale \<open>report_writer\<close> states what a table
  promises about its file, a header followed by one row for each record written, and is
  interpreted on the three tables of the CSV writer.
\<close>

section \<open>State and environment\<close>

text \<open>The open files (\<^term>\<open>None\<close> for a null pointer) and the other statics, in front of
  the world outside.\<close>

record 'w reports =
  r_lat_file :: "int option"
  r_tp_file :: "int option"
  r_tpr_file :: "int option"
  r_hdr_file :: "int option"
  r_hdr_start :: timestamp
  r_last_latency :: timestamp
  r_world :: 'w

text \<open>
  \<open>gru_path_format\<close>, \<open>gru_path_rename\<close>, \<open>gru_io_open_file_path\<close>, \<open>gru_time_write_format\<close> and
  \<open>gru_time_to_milli\<close> of gru; \<open>gzopen\<close>, \<open>gzprintf\<close>, \<open>gzflush\<close> and \<open>gzclose\<close> of zlib (a null file
  is an error for them; \<open>True\<close> is the return value 0); the recorder and the log of
  HdrHistogram; standard output; \<open>strerror\<close>; \<open>\%.2f\<close>.
\<close>

record 'w io_api =
  io_path_format :: "string \<Rightarrow> string \<Rightarrow> gru_status \<Rightarrow> string option \<times> gru_status"
  io_path_rename :: "string option \<Rightarrow> gru_status \<Rightarrow> 'w \<Rightarrow> bool \<times> gru_status \<times> 'w"
  io_gzopen :: "string option \<Rightarrow> 'w \<Rightarrow> int option \<times> 'w"
  io_gzprintf :: "int option \<Rightarrow> string \<Rightarrow> 'w \<Rightarrow> 'w"
  io_gzflush :: "int option \<Rightarrow> 'w \<Rightarrow> bool \<times> 'w"
  io_gzclose :: "int option \<Rightarrow> 'w \<Rightarrow> bool \<times> 'w"
  io_open :: "string option \<Rightarrow> gru_status \<Rightarrow> 'w \<Rightarrow> int option \<times> gru_status \<times> 'w"
  io_fflush :: "int option \<Rightarrow> 'w \<Rightarrow> 'w"
  io_fclose :: "int option \<Rightarrow> 'w \<Rightarrow> 'w"
  io_time_format :: "timestamp \<Rightarrow> gru_status \<Rightarrow> string option \<times> gru_status"
  io_to_milli :: "timestamp \<Rightarrow> int"
  io_hdr_init :: "'w \<Rightarrow> bool \<times> 'w"
  io_hdr_record :: "int \<Rightarrow> 'w \<Rightarrow> 'w"
  io_hdr_gettime :: "'w \<Rightarrow> timestamp \<times> 'w"
  io_hdr_getnow :: "'w \<Rightarrow> timestamp \<times> 'w"
  io_hdr_write_header :: "int \<Rightarrow> string \<Rightarrow> timestamp \<Rightarrow> 'w \<Rightarrow> 'w"
  io_hdr_write_log :: "int option \<Rightarrow> timestamp \<Rightarrow> timestamp \<Rightarrow> 'w \<Rightarrow> 'w"
  io_printf :: "string \<Rightarrow> 'w \<Rightarrow> 'w"
  io_strerror :: string
  io_fmt2 :: "u64 \<Rightarrow> string"

definition gz_print :: "'w io_api \<Rightarrow> int option \<Rightarrow> string \<Rightarrow> 'w reports \<Rightarrow> 'w reports" where
  "gz_print io f s r = r\<lparr>r_world := io_gzprintf io f s (r_world r)\<rparr>"

section \<open>Compressed files\<close>

definition csv_write_open_file :: "'w io_api \<Rightarrow> string \<Rightarrow> string \<Rightarrow> gru_status \<Rightarrow> 'w \<Rightarrow> int option \<times> gru_status \<times> 'w" where
  "csv_write_open_file io dir name st w =
    (case io_path_format io dir name st of (fullpath, st1) \<Rightarrow>
     case io_path_rename io fullpath st1 w of (renamed, st2, w2) \<Rightarrow>
       if \<not> renamed then (None, st2, w2)
       else case io_gzopen io fullpath w2 of
         (None, w3) \<Rightarrow> (None, St_Set GRU_FAILURE (io_strerror io), w3)
       | (Some f, w3) \<Rightarrow> (Some f, st2, w3))"

definition csv_write_initialize :: "'w io_api \<Rightarrow> string option \<Rightarrow> string option \<Rightarrow> gru_status \<Rightarrow> 'w \<Rightarrow>
    int option \<times> gru_status \<times> 'w" where
  "csv_write_initialize io directory name st w =
    (case (directory, name) of
       (Some d, Some n) \<Rightarrow> csv_write_open_file io d n st w
     | _ \<Rightarrow> (None, St_Set GRU_FAILURE ''Path and name are required for the CSV writer'', w))"

definition csv_writer_finalize :: "'w io_api \<Rightarrow> int option \<Rightarrow> gru_status \<Rightarrow> 'w reports \<Rightarrow> bool \<times> gru_status \<times> 'w reports" where
  "csv_writer_finalize io f st r =
    (case io_gzclose io f (r_world r) of (ok, w) \<Rightarrow>
       if ok then (True, st, r\<lparr>r_world := w\<rparr>) else (False, St_Set GRU_FAILURE (io_strerror io), r\<lparr>r_world := w\<rparr>))"

definition csv_writer_flush :: "'w io_api \<Rightarrow> int option \<Rightarrow> gru_status \<Rightarrow> 'w reports \<Rightarrow> bool \<times> gru_status \<times> 'w reports" where
  "csv_writer_flush io f st r =
    (case io_gzflush io f (r_world r) of (ok, w) \<Rightarrow>
       if ok then (True, st, r\<lparr>r_world := w\<rparr>) else (False, St_Set GRU_FAILURE (io_strerror io), r\<lparr>r_world := w\<rparr>))"

text \<open>
  The initialisation the three writers share: open the file, keep it in a static
  variable with \<open>keep\<close>, print the header and flush. \<open>MPT_STATS_V1\<close> is the only version. Every caller passes the
  address of a structure, so that the test for missing I/O information never fires.
\<close>

definition csv_initialize :: "'w io_api \<Rightarrow> (int option \<Rightarrow> 'w reports \<Rightarrow> 'w reports) \<Rightarrow> string \<Rightarrow>
    stat_io_info \<Rightarrow> gru_status \<Rightarrow> 'w reports \<Rightarrow> bool \<times> gru_status \<times> 'w reports" where
  "csv_initialize io keep header info st r =
    (case csv_write_initialize io (Some (io_location info)) (Some (io_name info)) st (r_world r) of (f, st1, w1) \<Rightarrow>
       let r1 = keep f (r\<lparr>r_world := w1\<rparr>) in
       if f = None then (False, st1, r1)
       else csv_writer_flush io f st1 (gz_print io f header r1))"

definition csv_lat_writer_initialize :: "'w io_api \<Rightarrow> stat_io_info \<Rightarrow> gru_status \<Rightarrow> 'w reports \<Rightarrow> bool \<times> gru_status \<times> 'w reports" where
  "csv_lat_writer_initialize io =
     csv_initialize io (\<lambda>f r. r\<lparr>r_lat_file := f\<rparr>) (''creation,latency'' @ [CHR 0x0A])"

definition csv_tp_writer_initialize :: "'w io_api \<Rightarrow> stat_io_info \<Rightarrow> gru_status \<Rightarrow> 'w reports \<Rightarrow> bool \<times> gru_status \<times> 'w reports" where
  "csv_tp_writer_initialize io =
     csv_initialize io (\<lambda>f r. r\<lparr>r_tp_file := f\<rparr>) (''timestamp,count,rate'' @ [CHR 0x0A])"

definition csv_tpr_writer_initialize :: "'w io_api \<Rightarrow> stat_io_info \<Rightarrow> gru_status \<Rightarrow> 'w reports \<Rightarrow> bool \<times> gru_status \<times> 'w reports" where
  "csv_tpr_writer_initialize io =
     csv_initialize io (\<lambda>f r. r\<lparr>r_tpr_file := f\<rparr>) (''eta;ata'' @ [CHR 0x0A])"

text \<open>\<open>\%03d\<close> of a number below 2 to the 31st; \<open>%lu\<close> of a signed number reads its bits.\<close>

definition dec3 :: "nat \<Rightarrow> string" where
  "dec3 n = replicate (3 - length (nat_dec n)) (CHR ''0'') @ nat_dec n"

definition dec_u64 :: "int \<Rightarrow> string" where
  "dec_u64 i = nat_dec (unat (word_of_int i :: u64))"

text \<open>\<open>(uint32_t) tv_usec / 1000\<close>: the conversion comes first.\<close>

definition latency_milli :: "stat_latency \<Rightarrow> nat" where
  "latency_milli l = unat (word_of_int (tv_usec (dur_start (sl_duration l))) :: u32) div 1000"

definition quoted :: "string \<Rightarrow> string" where
  "quoted s = [CHR 0x22] @ s @ [CHR 0x22]"

definition csv_lat_writer_write :: "'w io_api \<Rightarrow> stat_latency \<Rightarrow> gru_status \<Rightarrow> 'w reports \<Rightarrow> bool \<times> gru_status \<times> 'w reports" where
  "csv_lat_writer_write io l st r =
    (case io_time_format io (dur_start (sl_duration l)) st of
       (None, st1) \<Rightarrow> (False, st1, r)
     | (Some str, st1) \<Rightarrow> (True, st1, gz_print io (r_lat_file r)
         (quoted (str @ ''.'' @ dec3 (latency_milli l)) @ '','' @ dec_u64 (io_to_milli io (sl_elapsed l)) @ [CHR 0x0A]) r))"

definition csv_tp_writer_write :: "'w io_api \<Rightarrow> stat_throughput \<Rightarrow> gru_status \<Rightarrow> 'w reports \<Rightarrow> bool \<times> gru_status \<times> 'w reports" where
  "csv_tp_writer_write io tp st r =
    (case io_time_format io (dur_end (stp_duration tp)) st of
       (None, st1) \<Rightarrow> (False, st1, r)
     | (Some str, st1) \<Rightarrow> (True, st1, gz_print io (r_tp_file r)
         (quoted str @ '','' @ nat_dec (unat (stp_count tp)) @ '','' @ io_fmt2 io (stp_rate tp) @ [CHR 0x0A]) r))"

text \<open>The microseconds are printed without leading zeros; \<open>\%d\<close> and \<open>\%u\<close> of a \<open>long\<close> read its low half.\<close>

definition csv_tpr_writer_write :: "'w io_api \<Rightarrow> stat_throughput \<times> timestamp \<Rightarrow> gru_status \<Rightarrow> 'w reports \<Rightarrow>
    bool \<times> gru_status \<times> 'w reports" where
  "csv_tpr_writer_write io d st r =
    (case d of (tp, eta) \<Rightarrow>
     case io_time_format io eta st of
       (None, st1) \<Rightarrow> (False, st1, r)
     | (Some eta_str, st1) \<Rightarrow>
        (case io_time_format io (dur_end (stp_duration tp)) st1 of
           (None, st2) \<Rightarrow> (False, st2, r)
         | (Some ata_str, st2) \<Rightarrow> (True, st2, gz_print io (r_tpr_file r)
             (quoted (eta_str @ ''.'' @ int_dec (sint (word_of_int (tv_usec eta) :: u32))) @ '','' @
              quoted (ata_str @ ''.'' @ nat_dec (unat (word_of_int (tv_usec (dur_end (stp_duration tp))) :: u32))) @ [CHR 0x0A]) r)))"

definition csv_lat_writer_flush :: "'w io_api \<Rightarrow> gru_status \<Rightarrow> 'w reports \<Rightarrow> bool \<times> gru_status \<times> 'w reports" where
  "csv_lat_writer_flush io st r = csv_writer_flush io (r_lat_file r) st r"

definition csv_lat_writer_finalize :: "'w io_api \<Rightarrow> gru_status \<Rightarrow> 'w reports \<Rightarrow> bool \<times> gru_status \<times> 'w reports" where
  "csv_lat_writer_finalize io st r = csv_writer_finalize io (r_lat_file r) st r"

definition csv_tp_writer_flush :: "'w io_api \<Rightarrow> gru_status \<Rightarrow> 'w reports \<Rightarrow> bool \<times> gru_status \<times> 'w reports" where
  "csv_tp_writer_flush io st r = csv_writer_flush io (r_tp_file r) st r"

definition csv_tp_writer_finalize :: "'w io_api \<Rightarrow> gru_status \<Rightarrow> 'w reports \<Rightarrow> bool \<times> gru_status \<times> 'w reports" where
  "csv_tp_writer_finalize io st r = csv_writer_finalize io (r_tp_file r) st r"

definition csv_tpr_writer_flush :: "'w io_api \<Rightarrow> gru_status \<Rightarrow> 'w reports \<Rightarrow> bool \<times> gru_status \<times> 'w reports" where
  "csv_tpr_writer_flush io st r = csv_writer_flush io (r_tpr_file r) st r"

definition csv_tpr_writer_finalize :: "'w io_api \<Rightarrow> gru_status \<Rightarrow> 'w reports \<Rightarrow> bool \<times> gru_status \<times> 'w reports" where
  "csv_tpr_writer_finalize io st r = csv_writer_finalize io (r_tpr_file r) st r"

definition csv_writer_latency_assign :: "'w io_api \<Rightarrow> ('w reports, stat_latency) writer_table" where
  "csv_writer_latency_assign io = \<lparr>wr_initialize = Some (csv_lat_writer_initialize io), wr_write = Some (csv_lat_writer_write io),
     wr_flush = Some (csv_lat_writer_flush io), wr_finalize = Some (csv_lat_writer_finalize io)\<rparr>"

definition csv_writer_throughput_assign :: "'w io_api \<Rightarrow> ('w reports, stat_throughput) writer_table" where
  "csv_writer_throughput_assign io = \<lparr>wr_initialize = Some (csv_tp_writer_initialize io), wr_write = Some (csv_tp_writer_write io),
     wr_flush = Some (csv_tp_writer_flush io), wr_finalize = Some (csv_tp_writer_finalize io)\<rparr>"

definition csv_writer_tpr_assign :: "'w io_api \<Rightarrow> ('w reports, stat_throughput \<times> timestamp) writer_table" where
  "csv_writer_tpr_assign io = \<lparr>wr_initialize = Some (csv_tpr_writer_initialize io), wr_write = Some (csv_tpr_writer_write io),
     wr_flush = Some (csv_tpr_writer_flush io), wr_finalize = Some (csv_tpr_writer_finalize io)\<rparr>"

section \<open>Histograms\<close>

definition hdr_open_file :: "'w io_api \<Rightarrow> string \<Rightarrow> string \<Rightarrow> gru_status \<Rightarrow> 'w \<Rightarrow> int option \<times> gru_status \<times> 'w" where
  "hdr_open_file io dir name st w =
    (case io_path_format io dir name st of (fullpath, st1) \<Rightarrow>
     case io_path_rename io fullpath st1 w of (renamed, st2, w2) \<Rightarrow>
       if \<not> renamed then (None, st2, w2) else io_open io fullpath st2 w2)"

definition hdr_initialize :: "'w io_api \<Rightarrow> gru_status \<Rightarrow> 'w \<Rightarrow> bool \<times> gru_status \<times> 'w" where
  "hdr_initialize io st w =
    (case io_hdr_init io w of (ok, w1) \<Rightarrow>
       if ok then (True, st, w1) else (False, St_Set GRU_FAILURE ''Unable to initialize HDR histogram library'', w1))"

definition hdr_wrapper_initialize :: "'w io_api \<Rightarrow> stat_io_info \<Rightarrow> gru_status \<Rightarrow> 'w reports \<Rightarrow> bool \<times> gru_status \<times> 'w reports" where
  "hdr_wrapper_initialize io info st r =
    (case hdr_initialize io st (r_world r) of (ok, st1, w1) \<Rightarrow>
       if \<not> ok then (False, st1, r\<lparr>r_world := w1\<rparr>)
       else case hdr_open_file io (io_location info) (io_name info) st1 w1 of
         (None, st2, w2) \<Rightarrow> (False, st2, r\<lparr>r_hdr_file := None, r_world := w2\<rparr>)
       | (Some f, st2, w2) \<Rightarrow>
          (case io_hdr_gettime io w2 of (start, w3) \<Rightarrow>
           case io_hdr_getnow io w3 of (now, w4) \<Rightarrow>
             (True, st2, r\<lparr>r_hdr_file := Some f, r_hdr_start := start, r_world := io_hdr_write_header io f ''mpt'' now w4\<rparr>)))"

definition hdr_wrapper_finalize :: "'w io_api \<Rightarrow> 'w reports \<Rightarrow> 'w reports" where
  "hdr_wrapper_finalize io r =
    (case io_hdr_gettime io (r_world r) of (end', w1) \<Rightarrow>
       r\<lparr>r_world := io_fclose io (r_hdr_file r) (io_fflush io (r_hdr_file r)
         (io_hdr_write_log io (r_hdr_file r) (r_hdr_start r) end' w1))\<rparr>)"

definition hdr_lat_writer_initialize :: "'w io_api \<Rightarrow> stat_io_info \<Rightarrow> gru_status \<Rightarrow> 'w reports \<Rightarrow> bool \<times> gru_status \<times> 'w reports" where
  "hdr_lat_writer_initialize io info st r = hdr_wrapper_initialize io info st r"

definition hdr_lat_writer_write :: "'w io_api \<Rightarrow> stat_latency \<Rightarrow> gru_status \<Rightarrow> 'w reports \<Rightarrow> bool \<times> gru_status \<times> 'w reports" where
  "hdr_lat_writer_write io l st r = (True, st, r\<lparr>r_world := io_hdr_record io (io_to_milli io (sl_elapsed l)) (r_world r)\<rparr>)"

definition hdr_lat_writer_flush :: "'w io_api \<Rightarrow> gru_status \<Rightarrow> 'w reports \<Rightarrow> bool \<times> gru_status \<times> 'w reports" where
  "hdr_lat_writer_flush io st r = (True, st, r\<lparr>r_world := io_fflush io (r_hdr_file r) (r_world r)\<rparr>)"

definition hdr_lat_writer_finalize :: "'w io_api \<Rightarrow> gru_status \<Rightarrow> 'w reports \<Rightarrow> bool \<times> gru_status \<times> 'w reports" where
  "hdr_lat_writer_finalize io st r = (True, st, hdr_wrapper_finalize io r)"

definition hdr_writer_latency_assign :: "'w io_api \<Rightarrow> ('w reports, stat_latency) writer_table" where
  "hdr_writer_latency_assign io = \<lparr>wr_initialize = Some (hdr_lat_writer_initialize io), wr_write = Some (hdr_lat_writer_write io),
     wr_flush = Some (hdr_lat_writer_flush io), wr_finalize = Some (hdr_lat_writer_finalize io)\<rparr>"

definition hdr_writer_throughput_assign :: "'w io_api \<Rightarrow> ('w reports, stat_throughput) writer_table" where
  "hdr_writer_throughput_assign io = \<lparr>wr_initialize = Some (csv_tp_writer_initialize io), wr_write = Some (csv_tp_writer_write io),
     wr_flush = Some (csv_tp_writer_flush io), wr_finalize = Some (csv_tp_writer_finalize io)\<rparr>"

definition hdr_writer_tpr_assign :: "'w io_api \<Rightarrow> ('w reports, stat_throughput \<times> timestamp) writer_table" where
  "hdr_writer_tpr_assign io = \<lparr>wr_initialize = Some (csv_tpr_writer_initialize io), wr_write = Some (csv_tpr_writer_write io),
     wr_flush = Some (csv_tpr_writer_flush io), wr_finalize = Some (csv_tpr_writer_finalize io)\<rparr>"

section \<open>The terminal\<close>

definition always :: "bool \<Rightarrow> gru_status \<Rightarrow> 'w reports \<Rightarrow> bool \<times> gru_status \<times> 'w reports" where
  "always b st r = (b, st, r)"

definition print_out :: "'w io_api \<Rightarrow> string \<Rightarrow> 'w reports \<Rightarrow> 'w reports" where
  "print_out io s r = r\<lparr>r_world := io_printf io s (r_world r)\<rparr>"

definition flush_stdout :: "'w io_api \<Rightarrow> gru_status \<Rightarrow> 'w reports \<Rightarrow> bool \<times> gru_status \<times> 'w reports" where
  "flush_stdout io st r = (True, st, r\<lparr>r_world := io_fflush io (Some 1) (r_world r)\<rparr>)"

definition out_lat_writer_initialize :: "stat_io_info \<Rightarrow> gru_status \<Rightarrow> 'w reports \<Rightarrow> bool \<times> gru_status \<times> 'w reports" where
  "out_lat_writer_initialize info = always True"

text \<open>The static \<open>last\<close> stays 0: a latency whose start has at most one microsecond is skipped.\<close>

definition out_lat_writer_write :: "stat_latency \<Rightarrow> gru_status \<Rightarrow> 'w reports \<Rightarrow> bool \<times> gru_status \<times> 'w reports" where
  "out_lat_writer_write l st r =
    (if tv_usec (dur_start (sl_duration l)) - 1 \<le> 0 then (True, st, r)
     else (True, st, r\<lparr>r_last_latency := sl_elapsed l\<rparr>))"

definition out_lat_writer_flush :: "'w io_api \<Rightarrow> gru_status \<Rightarrow> 'w reports \<Rightarrow> bool \<times> gru_status \<times> 'w reports" where
  "out_lat_writer_flush io = flush_stdout io"

definition out_lat_writer_finalize :: "gru_status \<Rightarrow> 'w reports \<Rightarrow> bool \<times> gru_status \<times> 'w reports" where
  "out_lat_writer_finalize = always True"

definition out_tp_writer_initialize :: "stat_io_info \<Rightarrow> gru_status \<Rightarrow> 'w reports \<Rightarrow> bool \<times> gru_status \<times> 'w reports" where
  "out_tp_writer_initialize info = always True"

text \<open>\<open>CLEAR_LINE\<close> is a text of gru.\<close>

definition out_tp_writer_write :: "'w io_api \<Rightarrow> string \<Rightarrow> stat_throughput \<Rightarrow> gru_status \<Rightarrow> 'w reports \<Rightarrow>
    bool \<times> gru_status \<times> 'w reports" where
  "out_tp_writer_write io clear_line tp st r =
    (case io_time_format io (dur_end (stp_duration tp)) st of
       (None, st1) \<Rightarrow> (False, st1, r)
     | (Some str, st1) \<Rightarrow> flush_stdout io st1 (print_out io (clear_line @ [CHR 0x0D] @ ''Sampling time: '' @ str @
         '' - Count: '' @ nat_dec (unat (stp_count tp)) @ '' msgs - Rate: '' @ io_fmt2 io (stp_rate tp) @
         '' msg/s - Last lat: '' @ dec_u64 (io_to_milli io (r_last_latency r)) @ ''ms '' @ [CHR 0x0D]) r))"

definition out_tp_writer_flush :: "'w io_api \<Rightarrow> gru_status \<Rightarrow> 'w reports \<Rightarrow> bool \<times> gru_status \<times> 'w reports" where
  "out_tp_writer_flush io = flush_stdout io"

definition out_tp_writer_finalize :: "'w io_api \<Rightarrow> gru_status \<Rightarrow> 'w reports \<Rightarrow> bool \<times> gru_status \<times> 'w reports" where
  "out_tp_writer_finalize io st r = (True, st, print_out io [CHR 0x0A] r)"

definition out_tpr_writer_initialize :: "stat_io_info \<Rightarrow> gru_status \<Rightarrow> 'w reports \<Rightarrow> bool \<times> gru_status \<times> 'w reports" where
  "out_tpr_writer_initialize info = always True"

definition out_tpr_writer_write :: "'w io_api \<Rightarrow> string \<Rightarrow> stat_throughput \<times> timestamp \<Rightarrow> gru_status \<Rightarrow> 'w reports \<Rightarrow>
    bool \<times> gru_status \<times> 'w reports" where
  "out_tpr_writer_write io clear_line d st r =
    (case d of (tp, eta) \<Rightarrow>
     case io_time_format io eta st of
       (None, st1) \<Rightarrow> (False, st1, r)
     | (Some eta_str, st1) \<Rightarrow>
        (case io_time_format io (dur_end (stp_duration tp)) st1 of
           (None, st2) \<Rightarrow> (False, st2, r)
         | (Some ata_str, st2) \<Rightarrow> (True, st2, print_out io (clear_line @ [CHR 0x0D] @ ''Estimated time of action: '' @
             eta_str @ ''.'' @ dec_u64 (tv_usec eta) @ '' Actual time of action: '' @ ata_str @ ''.'' @
             dec_u64 (tv_usec (dur_end (stp_duration tp))) @ [CHR 0x0D]) r)))"

definition out_tpr_writer_flush :: "'w io_api \<Rightarrow> gru_status \<Rightarrow> 'w reports \<Rightarrow> bool \<times> gru_status \<times> 'w reports" where
  "out_tpr_writer_flush io = flush_stdout io"

definition out_tpr_writer_finalize :: "'w io_api \<Rightarrow> gru_status \<Rightarrow> 'w reports \<Rightarrow> bool \<times> gru_status \<times> 'w reports" where
  "out_tpr_writer_finalize io st r = (True, st, print_out io [CHR 0x0A] r)"

definition out_writer_latency_assign :: "'w io_api \<Rightarrow> ('w reports, stat_latency) writer_table" where
  "out_writer_latency_assign io = \<lparr>wr_initialize = Some out_lat_writer_initialize, wr_write = Some out_lat_writer_write,
     wr_flush = Some (out_lat_writer_flush io), wr_finalize = Some out_lat_writer_finalize\<rparr>"

definition out_writer_throughput_assign :: "'w io_api \<Rightarrow> string \<Rightarrow> ('w reports, stat_throughput) writer_table" where
  "out_writer_throughput_assign io clear_line = \<lparr>wr_initialize = Some out_tp_writer_initialize,
     wr_write = Some (out_tp_writer_write io clear_line), wr_flush = Some (out_tp_writer_flush io),
     wr_finalize = Some (out_tp_writer_finalize io)\<rparr>"

definition out_writer_tpr_assign :: "'w io_api \<Rightarrow> string \<Rightarrow> ('w reports, stat_throughput \<times> timestamp) writer_table" where
  "out_writer_tpr_assign io clear_line = \<lparr>wr_initialize = Some out_tpr_writer_initialize,
     wr_write = Some (out_tpr_writer_write io clear_line), wr_flush = Some (out_tpr_writer_flush io),
     wr_finalize = Some (out_tpr_writer_finalize io)\<rparr>"

section \<open>No report\<close>

text \<open>The twelve functions of \<open>nop_writer.c\<close> all return true and do nothing else.\<close>

definition nop_writer_assign :: "('w reports, 'd) writer_table" where
  "nop_writer_assign = \<lparr>wr_initialize = Some (\<lambda>info. always True), wr_write = Some (\<lambda>d. always True),
     wr_flush = Some (always True), wr_finalize = Some (always True)\<rparr>"

definition nop_writer_latency_assign :: "('w reports, stat_latency) writer_table" where
  "nop_writer_latency_assign = nop_writer_assign"

definition nop_writer_throughput_assign :: "('w reports, stat_throughput) writer_table" where
  "nop_writer_throughput_assign = nop_writer_assign"

definition nop_writer_tpr_assign :: "('w reports, stat_throughput \<times> timestamp) writer_table" where
  "nop_writer_tpr_assign = nop_writer_assign"

text \<open>The tables the initialisation of \<open>naming_utils.c\<close> chooses from.\<close>

definition report_tables :: "'w io_api \<Rightarrow> string \<Rightarrow> report_format \<Rightarrow> 'w reports stats_writer" where
  "report_tables io clear_line f =
    (case f of
       FORMAT_CSV \<Rightarrow> \<lparr>w_latency = csv_writer_latency_assign io, w_throughput = csv_writer_throughput_assign io,
         w_rate = csv_writer_tpr_assign io\<rparr>
     | FORMAT_HDR \<Rightarrow> \<lparr>w_latency = hdr_writer_latency_assign io, w_throughput = hdr_writer_throughput_assign io,
         w_rate = hdr_writer_tpr_assign io\<rparr>
     | FORMAT_OUT \<Rightarrow> \<lparr>w_latency = out_writer_latency_assign io, w_throughput = out_writer_throughput_assign io clear_line,
         w_rate = out_writer_tpr_assign io clear_line\<rparr>
     | FORMAT_NOP \<Rightarrow> \<lparr>w_latency = nop_writer_latency_assign, w_throughput = nop_writer_throughput_assign,
         w_rate = nop_writer_tpr_assign\<rparr>)"

section \<open>What a writer promises\<close>

text \<open>
  What the writers rely on of zlib and gru: a file that was opened is empty and holds
  the texts printed to it, flushing does not change it, printing to another file does
  not either; a time is formatted by \<open>fmt\<close>.
\<close>

locale gz_files =
  fixes io :: "'w io_api" and content :: "'w \<Rightarrow> int \<Rightarrow> string" and fmt :: "timestamp \<Rightarrow> string"
  assumes print_appends: "content (io_gzprintf io (Some f) s w) g = (if g = f then content w f @ s else content w g)"
    and flush_same: "\<exists>w'. io_gzflush io (Some f) w = (True, w') \<and> content w' = content w"
    and open_empty: "io_gzopen io path w = (Some f, w') \<Longrightarrow> content w' f = []"
    and time_format: "io_time_format io t st = (Some (fmt t), st)"

text \<open>A table of a report: \<open>handle\<close> is the open file of its static variable.\<close>

fun write_rows :: "('d \<Rightarrow> gru_status \<Rightarrow> 's \<Rightarrow> bool \<times> gru_status \<times> 's) \<Rightarrow> 'd list \<Rightarrow> gru_status \<Rightarrow> 's \<Rightarrow> bool \<times> gru_status \<times> 's" where
  "write_rows wr [] st s = (True, st, s)"
| "write_rows wr (d # ds) st s = (case wr d st s of (ok, st1, s1) \<Rightarrow> if ok then write_rows wr ds st1 s1 else (False, st1, s1))"

locale report_writer =
  fixes ini :: "stat_io_info \<Rightarrow> gru_status \<Rightarrow> 's \<Rightarrow> bool \<times> gru_status \<times> 's"
    and wr :: "'d \<Rightarrow> gru_status \<Rightarrow> 's \<Rightarrow> bool \<times> gru_status \<times> 's"
    and fl :: "gru_status \<Rightarrow> 's \<Rightarrow> bool \<times> gru_status \<times> 's"
    and handle :: "'s \<Rightarrow> int option" and text_of :: "'s \<Rightarrow> int \<Rightarrow> string" and header :: string and row :: "'d \<Rightarrow> string"
  assumes init_header: "ini info st s = (True, st', s') \<Longrightarrow> \<exists>f. handle s' = Some f \<and> text_of s' f = header"
    and write_row: "handle s = Some f \<Longrightarrow>
      \<exists>s'. wr d st s = (True, st, s') \<and> handle s' = Some f \<and> text_of s' f = text_of s f @ row d"
    and flush_keeps: "handle s = Some f \<Longrightarrow> \<exists>s'. fl st s = (True, st, s') \<and> handle s' = Some f \<and> text_of s' f = text_of s f"
begin

lemma write_rows_text:
  "handle s = Some f \<Longrightarrow> \<exists>s'. write_rows wr ds st s = (True, st, s') \<and> handle s' = Some f \<and>
     text_of s' f = text_of s f @ concat (map row ds)"
proof (induction ds arbitrary: s)
  case (Cons d ds)
  from write_row [OF Cons.prems, of d st] obtain s1 where
    s1: "wr d st s = (True, st, s1)" "handle s1 = Some f" "text_of s1 f = text_of s f @ row d" by blast
  from Cons.IH [OF s1(2)] s1 show ?case by auto
qed simp

text \<open>A report is its header followed by the rows of the records written, in order.\<close>

lemma report_text:
  assumes "ini info st s = (True, st', s')"
  shows "\<exists>f s2 s3. write_rows wr ds st' s' = (True, st', s2) \<and> fl st' s2 = (True, st', s3) \<and> handle s3 = Some f \<and>
    text_of s3 f = header @ concat (map row ds)"
proof -
  obtain f where f: "handle s' = Some f" "text_of s' f = header" using init_header [OF assms] by blast
  obtain s2 where s2: "write_rows wr ds st' s' = (True, st', s2)" "handle s2 = Some f" "text_of s2 f = header @ concat (map row ds)"
    using write_rows_text [OF f(1), of ds st'] f(2) by auto
  from flush_keeps [OF s2(2), of st'] s2 show ?thesis by metis
qed

end

section \<open>The tables of the CSV writer\<close>

definition latency_row :: "'w io_api \<Rightarrow> (timestamp \<Rightarrow> string) \<Rightarrow> stat_latency \<Rightarrow> string" where
  "latency_row io fmt l = quoted (fmt (dur_start (sl_duration l)) @ ''.'' @ dec3 (latency_milli l)) @ '','' @
     dec_u64 (io_to_milli io (sl_elapsed l)) @ [CHR 0x0A]"

definition throughput_row :: "'w io_api \<Rightarrow> (timestamp \<Rightarrow> string) \<Rightarrow> stat_throughput \<Rightarrow> string" where
  "throughput_row io fmt tp = quoted (fmt (dur_end (stp_duration tp))) @ '','' @ nat_dec (unat (stp_count tp)) @ '','' @
     io_fmt2 io (stp_rate tp) @ [CHR 0x0A]"

definition rate_row :: "(timestamp \<Rightarrow> string) \<Rightarrow> stat_throughput \<times> timestamp \<Rightarrow> string" where
  "rate_row fmt d = quoted (fmt (snd d) @ ''.'' @ int_dec (sint (word_of_int (tv_usec (snd d)) :: u32))) @ '','' @
     quoted (fmt (dur_end (stp_duration (fst d))) @ ''.'' @
       nat_dec (unat (word_of_int (tv_usec (dur_end (stp_duration (fst d)))) :: u32))) @ [CHR 0x0A]"

lemma csv_open_some:
  "csv_write_initialize io (Some d) (Some n) st w = (Some f, st', w') \<Longrightarrow> \<exists>path v. io_gzopen io path v = (Some f, w')"
  by (auto simp: csv_write_initialize_def csv_write_open_file_def split: prod.splits if_splits option.splits)

context gz_files
begin

lemma csv_initialize_header:
  assumes "csv_initialize io keep header info st r = (True, st', r')" and "\<And>g q. r_world (keep g q) = r_world q"
    and "\<And>g q w. handle ((keep g q)\<lparr>r_world := w\<rparr>) = g"
  shows "\<exists>f. handle r' = Some f \<and> content (r_world r') f = header"
proof -
  obtain g st1 w1 where o: "csv_write_initialize io (Some (io_location info)) (Some (io_name info)) st (r_world r) = (g, st1, w1)"
    by (metis prod_cases3)
  with assms(1) obtain f where f: "g = Some f" by (cases g) (auto simp: csv_initialize_def)
  from csv_open_some [OF o [unfolded f]] open_empty have e: "content w1 f = []" by blast
  obtain w' where w': "io_gzflush io (Some f) (io_gzprintf io (Some f) header w1) = (True, w')"
    "content w' = content (io_gzprintf io (Some f) header w1)" using flush_same by blast
  with assms(1,2) o f have "r' = (keep (Some f) (r\<lparr>r_world := w1\<rparr>))\<lparr>r_world := w'\<rparr>"
    by (simp add: csv_initialize_def csv_writer_flush_def gz_print_def Let_def)
  with w'(2) assms(3) e print_appends [of f header w1 f] show ?thesis by simp
qed

end
sublocale gz_files \<subseteq> csv_lat: report_writer "csv_lat_writer_initialize io" "csv_lat_writer_write io" "csv_lat_writer_flush io"
    r_lat_file "\<lambda>r. content (r_world r)" "''creation,latency'' @ [CHR 0x0A]" "latency_row io fmt"
proof
  show "\<exists>f. r_lat_file s' = Some f \<and> content (r_world s') f = ''creation,latency'' @ [CHR 0x0A]"
    if "csv_lat_writer_initialize io info st s = (True, st', s')" for info st s st' s'
    by (rule csv_initialize_header [OF that [unfolded csv_lat_writer_initialize_def]]) simp_all
  show "\<exists>s'. csv_lat_writer_write io d st s = (True, st, s') \<and> r_lat_file s' = Some f \<and>
      content (r_world s') f = content (r_world s) f @ latency_row io fmt d"
    if "r_lat_file s = Some f" for s f d st
    using that by (simp add: csv_lat_writer_write_def time_format gz_print_def print_appends latency_row_def)
  show "\<exists>s'. csv_lat_writer_flush io st s = (True, st, s') \<and> r_lat_file s' = Some f \<and> content (r_world s') f = content (r_world s) f"
    if "r_lat_file s = Some f" for s f st
    using that flush_same [of f "r_world s"] by (auto simp: csv_lat_writer_flush_def csv_writer_flush_def)
qed

sublocale gz_files \<subseteq> csv_tp: report_writer "csv_tp_writer_initialize io" "csv_tp_writer_write io" "csv_tp_writer_flush io"
    r_tp_file "\<lambda>r. content (r_world r)" "''timestamp,count,rate'' @ [CHR 0x0A]" "throughput_row io fmt"
proof
  show "\<exists>f. r_tp_file s' = Some f \<and> content (r_world s') f = ''timestamp,count,rate'' @ [CHR 0x0A]"
    if "csv_tp_writer_initialize io info st s = (True, st', s')" for info st s st' s'
    by (rule csv_initialize_header [OF that [unfolded csv_tp_writer_initialize_def]]) simp_all
  show "\<exists>s'. csv_tp_writer_write io d st s = (True, st, s') \<and> r_tp_file s' = Some f \<and>
      content (r_world s') f = content (r_world s) f @ throughput_row io fmt d"
    if "r_tp_file s = Some f" for s f d st
    using that by (simp add: csv_tp_writer_write_def time_format gz_print_def print_appends throughput_row_def)
  show "\<exists>s'. csv_tp_writer_flush io st s = (True, st, s') \<and> r_tp_file s' = Some f \<and> content (r_world s') f = content (r_world s) f"
    if "r_tp_file s = Some f" for s f st
    using that flush_same [of f "r_world s"] by (auto simp: csv_tp_writer_flush_def csv_writer_flush_def)
qed

sublocale gz_files \<subseteq> csv_tpr: report_writer "csv_tpr_writer_initialize io" "csv_tpr_writer_write io" "csv_tpr_writer_flush io"
    r_tpr_file "\<lambda>r. content (r_world r)" "''eta;ata'' @ [CHR 0x0A]" "rate_row fmt"
proof
  show "\<exists>f. r_tpr_file s' = Some f \<and> content (r_world s') f = ''eta;ata'' @ [CHR 0x0A]"
    if "csv_tpr_writer_initialize io info st s = (True, st', s')" for info st s st' s'
    by (rule csv_initialize_header [OF that [unfolded csv_tpr_writer_initialize_def]]) simp_all
  show "\<exists>s'. csv_tpr_writer_write io d st s = (True, st, s') \<and> r_tpr_file s' = Some f \<and>
      content (r_world s') f = content (r_world s) f @ rate_row fmt d"
    if "r_tpr_file s = Some f" for s f d st
    using that by (cases d) (simp add: csv_tpr_writer_write_def time_format gz_print_def print_appends rate_row_def)
  show "\<exists>s'. csv_tpr_writer_flush io st s = (True, st, s') \<and> r_tpr_file s' = Some f \<and> content (r_world s') f = content (r_world s) f"
    if "r_tpr_file s = Some f" for s f st
    using that flush_same [of f "r_world s"] by (auto simp: csv_tpr_writer_flush_def csv_writer_flush_def)
qed

context gz_files
begin

lemmas latency_report = csv_lat.report_text
lemmas throughput_report = csv_tp.report_text
lemmas rate_init = csv_tpr.init_header
lemmas rate_write = csv_tpr.write_row

end

section \<open>A file store\<close>

text \<open>A store of files by handle: opening a path gives the next handle and an empty file.\<close>

record file_store =
  fs_text :: "int \<Rightarrow> string"
  fs_next :: int
  fs_paths :: "string option list"

definition store_io :: "(timestamp \<Rightarrow> string) \<Rightarrow> (u64 \<Rightarrow> string) \<Rightarrow> file_store io_api" where
  "store_io fmt fmt2 = \<lparr>
     io_path_format = (\<lambda>d n st. (Some (d @ ''/'' @ n), st)),
     io_path_rename = (\<lambda>p st w. (True, st, w)),
     io_gzopen = (\<lambda>p w. (Some (fs_next w), w\<lparr>fs_text := (fs_text w)(fs_next w := []), fs_next := fs_next w + 1,
       fs_paths := fs_paths w @ [p]\<rparr>)),
     io_gzprintf = (\<lambda>f s w. case f of None \<Rightarrow> w | Some i \<Rightarrow> w\<lparr>fs_text := (fs_text w)(i := fs_text w i @ s)\<rparr>),
     io_gzflush = (\<lambda>f w. (f \<noteq> None, w)), io_gzclose = (\<lambda>f w. (f \<noteq> None, w)),
     io_open = (\<lambda>p st w. (Some (fs_next w), st, w\<lparr>fs_next := fs_next w + 1\<rparr>)),
     io_fflush = (\<lambda>f w. w), io_fclose = (\<lambda>f w. w), io_time_format = (\<lambda>t st. (Some (fmt t), st)),
     io_to_milli = (\<lambda>t. tv_sec t * 1000 + tv_usec t div 1000), io_hdr_init = (\<lambda>w. (True, w)), io_hdr_record = (\<lambda>v w. w),
     io_hdr_gettime = (\<lambda>w. (zero_ts, w)), io_hdr_getnow = (\<lambda>w. (zero_ts, w)), io_hdr_write_header = (\<lambda>f s t w. w),
     io_hdr_write_log = (\<lambda>f s e w. w), io_printf = (\<lambda>s w. w), io_strerror = [], io_fmt2 = fmt2\<rparr>"

interpretation store: gz_files "store_io fmt fmt2" fs_text fmt for fmt fmt2
  by unfold_locales (auto simp: store_io_def)

definition sample_fmt :: "timestamp \<Rightarrow> string" where
  "sample_fmt t = int_dec (tv_sec t)"

definition sample_io :: "file_store io_api" where
  "sample_io = store_io sample_fmt (\<lambda>x. ''1.50'')"

definition sample_reports :: "file_store reports" where
  "sample_reports = \<lparr>r_lat_file = None, r_tp_file = None, r_tpr_file = None, r_hdr_file = None, r_hdr_start = zero_ts,
     r_last_latency = zero_ts, r_world = \<lparr>fs_text = (\<lambda>f. []), fs_next = 3, fs_paths = []\<rparr>\<rparr>"

definition sample_io_info :: stat_io_info where
  "sample_io_info = \<lparr>io_name = ''senderd-latency.csv.gz'', io_location = ''/l''\<rparr>"

definition sample_lat :: "int \<Rightarrow> stat_latency" where
  "sample_lat n = calc_latency zero_latency \<lparr>tv_sec = n, tv_usec = 5000\<rparr> \<lparr>tv_sec = n, tv_usec = 9000\<rparr>"

section \<open>Properties\<close>

text \<open>
  Property C28, csv_report_text. Over zlib files, once the latency writer of the CSV format is
  initialised, writing any list of latencies and flushing succeeds and the file holds
  the header followed by one row for each latency, in the order they were written;
  the same holds of the throughput writer.
\<close>

theorem csv_report_text:
  assumes "gz_files io content fmt"
    and "csv_lat_writer_initialize io info st r = (True, st1, r1)"
    and "csv_tp_writer_initialize io info' st' q = (True, st2, q1)"
  shows "(\<exists>f r2 r3. write_rows (csv_lat_writer_write io) ls st1 r1 = (True, st1, r2) \<and>
      csv_lat_writer_flush io st1 r2 = (True, st1, r3) \<and> r_lat_file r3 = Some f \<and>
      content (r_world r3) f = (''creation,latency'' @ [CHR 0x0A]) @ concat (map (latency_row io fmt) ls)) \<and>
    (\<exists>f q2 q3. write_rows (csv_tp_writer_write io) tps st2 q1 = (True, st2, q2) \<and>
      csv_tp_writer_flush io st2 q2 = (True, st2, q3) \<and> r_tp_file q3 = Some f \<and>
      content (r_world q3) f = (''timestamp,count,rate'' @ [CHR 0x0A]) @ concat (map (throughput_row io fmt) tps))"
  using gz_files.latency_report [OF assms(1,2)] gz_files.throughput_report [OF assms(1,3)] by blast

theorem csv_report_text_witness:
  "\<exists>st1 r1 st2 q1.
    (\<exists>f r2 r3. write_rows (csv_lat_writer_write sample_io) [sample_lat 1, sample_lat 2] st1 r1 = (True, st1, r2) \<and>
      csv_lat_writer_flush sample_io st1 r2 = (True, st1, r3) \<and> r_lat_file r3 = Some f \<and>
      fs_text (r_world r3) f = (''creation,latency'' @ [CHR 0x0A]) @ concat (map (latency_row sample_io sample_fmt) [sample_lat 1, sample_lat 2])) \<and>
    (\<exists>f q2 q3. write_rows (csv_tp_writer_write sample_io) [zero_throughput] st2 q1 = (True, st2, q2) \<and>
      csv_tp_writer_flush sample_io st2 q2 = (True, st2, q3) \<and> r_tp_file q3 = Some f \<and>
      fs_text (r_world q3) f = (''timestamp,count,rate'' @ [CHR 0x0A]) @ concat (map (throughput_row sample_io sample_fmt) [zero_throughput]))"
proof -
  have g: "gz_files sample_io fs_text sample_fmt" unfolding sample_io_def by (rule store.gz_files_axioms)
  obtain r1 q1 where i: "csv_lat_writer_initialize sample_io sample_io_info St_New sample_reports = (True, St_New, r1)"
    "csv_tp_writer_initialize sample_io sample_io_info St_New sample_reports = (True, St_New, q1)"
    by (simp add: csv_lat_writer_initialize_def csv_tp_writer_initialize_def csv_initialize_def csv_write_initialize_def
        csv_write_open_file_def csv_writer_flush_def sample_io_def store_io_def)
  show ?thesis using csv_report_text [OF g i, of "[sample_lat 1, sample_lat 2]" "[zero_throughput]"] by blast
qed

text \<open>The number of columns of a line, and texts without a separator.\<close>

definition columns :: "char \<Rightarrow> string \<Rightarrow> nat" where
  "columns sep s = Suc (count_list s sep)"

lemma dec_no_comma [simp]:
  "CHR '','' \<notin> set (nat_dec n)" "CHR '','' \<notin> set (int_dec i)" "CHR '','' \<notin> set (dec_u64 i)"
proof -
  have n: "CHR '','' \<notin> set (nat_dec n)" for n using nat_dec_digits [of "CHR '',''" n] by (auto simp: is_digit_def)
  then show "CHR '','' \<notin> set (nat_dec n)" "CHR '','' \<notin> set (int_dec i)" "CHR '','' \<notin> set (dec_u64 i)"
    by (simp_all add: int_dec_def dec_u64_def)
qed

lemma count_replicate_other [simp]: "a \<noteq> b \<Longrightarrow> count_list (replicate n a) b = 0"
  by (induction n) simp_all

lemma row_columns:
  assumes "\<And>t. CHR '','' \<notin> set (fmt t)" and "\<And>x. CHR '','' \<notin> set (io_fmt2 io x)"
  shows "columns (CHR '','') (latency_row io fmt l) = 2" "columns (CHR '','') (throughput_row io fmt tp) = 3"
    "columns (CHR '','') (rate_row fmt d) = 2"
  using assms
  by (simp_all add: columns_def latency_row_def throughput_row_def rate_row_def quoted_def dec3_def count_list_append count_notin)

text \<open>
  Also proved, rate_header_separator. With times and rates that contain no comma, the rows of
  the latency and of the throughput report have as many comma-separated columns as
  their headers; the rows of the rate report have two, but its header is written with
  a semicolon and has only one.
\<close>

theorem rate_header_separator:
  assumes "\<And>t. CHR '','' \<notin> set (fmt t)" and "\<And>x. CHR '','' \<notin> set (io_fmt2 io x)"
    and "gz_files io content fmt" and "csv_tpr_writer_initialize io info st r = (True, st1, r1)"
  shows "columns (CHR '','') (latency_row io fmt l) = columns (CHR '','') ''creation,latency'' \<and>
    columns (CHR '','') (throughput_row io fmt tp) = columns (CHR '','') ''timestamp,count,rate'' \<and>
    (\<exists>f r2. csv_tpr_writer_write io d st1 r1 = (True, st1, r2) \<and> r_tpr_file r2 = Some f \<and>
      content (r_world r2) f = ''eta;ata'' @ [CHR 0x0A] @ rate_row fmt d \<and>
      columns (CHR '','') ''eta;ata'' = 1 \<and> columns (CHR '','') (rate_row fmt d) = 2)"
proof -
  obtain f where f: "r_tpr_file r1 = Some f" "content (r_world r1) f = ''eta;ata'' @ [CHR 0x0A]"
    using gz_files.rate_init [OF assms(3,4)] by blast
  have "columns (CHR '','') ''eta;ata'' = 1" "columns (CHR '','') ''creation,latency'' = 2"
    "columns (CHR '','') ''timestamp,count,rate'' = 3" by (simp_all add: columns_def)
  with gz_files.rate_write [OF assms(3) f(1), of d st1] f(2) row_columns [where io = io and fmt = fmt, OF assms(1,2)]
  show ?thesis by auto
qed

theorem rate_header_separator_witness:
  "\<exists>st1 r1. columns (CHR '','') (latency_row sample_io sample_fmt (sample_lat 1)) = columns (CHR '','') ''creation,latency'' \<and>
    columns (CHR '','') (throughput_row sample_io sample_fmt zero_throughput) = columns (CHR '','') ''timestamp,count,rate'' \<and>
    (\<exists>f r2. csv_tpr_writer_write sample_io (zero_throughput, zero_ts) st1 r1 = (True, st1, r2) \<and> r_tpr_file r2 = Some f \<and>
      fs_text (r_world r2) f = ''eta;ata'' @ [CHR 0x0A] @ rate_row sample_fmt (zero_throughput, zero_ts) \<and>
      columns (CHR '','') ''eta;ata'' = 1 \<and> columns (CHR '','') (rate_row sample_fmt (zero_throughput, zero_ts)) = 2)"
proof -
  have g: "gz_files sample_io fs_text sample_fmt" unfolding sample_io_def by (rule store.gz_files_axioms)
  have t: "CHR '','' \<notin> set (sample_fmt t)" for t
    by (simp add: sample_fmt_def)
  have "\<exists>r1. csv_tpr_writer_initialize sample_io sample_io_info St_New sample_reports = (True, St_New, r1)"
    by (simp add: csv_tpr_writer_initialize_def csv_initialize_def csv_write_initialize_def
        csv_write_open_file_def csv_writer_flush_def sample_io_def store_io_def)
  then obtain r1 where r1: "csv_tpr_writer_initialize sample_io sample_io_info St_New sample_reports = (True, St_New, r1)" by blast
  show ?thesis
    by (intro exI, rule rate_header_separator [OF t _ g r1]) (simp add: sample_io_def store_io_def)
qed

end
