(* ===== verification/Inspector.thy ===== *)
theory Inspector
  imports Daemon Report
begin

text \<open>
  The broker inspector: \<open>broker/brokerd_worker.c\<close> under \<open>src/applications/mpt-daemons\<close>,
  with \<open>src/common/bmic/bmic_utils.c\<close> and \<open>src/common/bmic/bmic_writer.c\<close>. The daemon answers
  the maestro requests through its sheet, as the sender and the receiver do; while an
  inspection is running it reads the broker through the bmic library every ten seconds
  and appends one row to a compressed report. The bmic library is a parameter. What the
  player thread serves while the loops sleep is an argument of the loops.
\<close>

section \<open>Data of the bmic library\<close>

text \<open>The values the library returns, as the fields the code reads. Numbers are the 64 bits they
  are printed from; \<open>ji_modern\<close> tells whether the memory model is \<open>BMIC_JAVA_MODERN\<close>.\<close>

record os_info =
  oi_name :: string
  oi_arch :: string
  oi_version :: string
  oi_cpus :: u64
  oi_mem_total :: u64
  oi_swap_total :: u64
  oi_load_average :: u64
  oi_open_fd :: u64
  oi_max_fd :: u64
  oi_mem_free :: u64
  oi_swap_free :: u64
  oi_swap_committed :: u64

record java_info =
  ji_name :: string
  ji_version :: string
  ji_package_version :: string
  ji_modern :: bool

record mem_info =
  mi_init :: u64
  mi_committed :: u64
  mi_max :: u64
  mi_used :: u64

record queue_stat =
  qs_queue_size :: u64
  qs_consumer_count :: u64
  qs_msg_ack_count :: u64
  qs_msg_exp_count :: u64

record mpt_java_mem =
  jm_eden :: mem_info
  jm_survivor :: mem_info
  jm_tenured :: mem_info
  jm_metaperm :: mem_info

text \<open>The set of statistics; the product is a pointer to a name and a version.\<close>

record bmic_stats_set =
  ss_java_info :: java_info
  ss_os_info :: os_info
  ss_product_info :: "(string \<times> string) option"
  ss_java_mem :: mpt_java_mem
  ss_queue_stats :: queue_stat

definition zero_os_info :: os_info where
  "zero_os_info = \<lparr>oi_name = [], oi_arch = [], oi_version = [], oi_cpus = 0, oi_mem_total = 0, oi_swap_total = 0,
     oi_load_average = 0, oi_open_fd = 0, oi_max_fd = 0, oi_mem_free = 0, oi_swap_free = 0, oi_swap_committed = 0\<rparr>"

definition zero_mem :: mem_info where
  "zero_mem = \<lparr>mi_init = 0, mi_committed = 0, mi_max = 0, mi_used = 0\<rparr>"

definition zero_stats_set :: bmic_stats_set where
  "zero_stats_set = \<lparr>ss_java_info = \<lparr>ji_name = [], ji_version = [], ji_package_version = [], ji_modern = False\<rparr>,
     ss_os_info = zero_os_info, ss_product_info = None,
     ss_java_mem = \<lparr>jm_eden = zero_mem, jm_survivor = zero_mem, jm_tenured = zero_mem, jm_metaperm = zero_mem\<rparr>,
     ss_queue_stats = \<lparr>qs_queue_size = 0, qs_consumer_count = 0, qs_msg_ack_count = 0, qs_msg_exp_count = 0\<rparr>\<rparr>"

text \<open>
  The functions of the library. The context (\<open>ctxt\<close> in the code) is part of the world;
  \<open>b_init host user password\<close> is \<open>bmic_context_init_simple\<close>, \<open>b_capabilities\<close> returns the
  exchange the other calls are given, or a null pointer. \<open>b_unit_mb\<close> is \<open>gru_unit_mb\<close>,
  \<open>b_fmt1\<close> the format \<open>\%.1f\<close> of a double and \<open>b_sleep\<close> is \<open>sleep\<close>.
\<close>

record 'w bmic_api =
  b_init :: "string option \<Rightarrow> string \<Rightarrow> string \<Rightarrow> gru_status \<Rightarrow> 'w \<Rightarrow> bool \<times> gru_status \<times> 'w"
  b_cleanup :: "'w \<Rightarrow> 'w"
  b_capabilities :: "gru_status \<Rightarrow> 'w \<Rightarrow> int option \<times> gru_status \<times> 'w"
  b_queue_purge :: "int \<Rightarrow> string \<Rightarrow> gru_status \<Rightarrow> 'w \<Rightarrow> bool \<times> gru_status \<times> 'w"
  b_queue_reset :: "int \<Rightarrow> string \<Rightarrow> gru_status \<Rightarrow> 'w \<Rightarrow> bool \<times> gru_status \<times> 'w"
  b_queue_stats :: "int \<Rightarrow> string \<Rightarrow> gru_status \<Rightarrow> 'w \<Rightarrow> queue_stat \<times> gru_status \<times> 'w"
  b_product_info :: "int \<Rightarrow> gru_status \<Rightarrow> 'w \<Rightarrow> (string \<times> string) option \<times> gru_status \<times> 'w"
  b_java_info :: "gru_status \<Rightarrow> 'w \<Rightarrow> java_info \<times> gru_status \<times> 'w"
  b_os_info :: "gru_status \<Rightarrow> 'w \<Rightarrow> os_info \<times> gru_status \<times> 'w"
  b_eden_info :: "gru_status \<Rightarrow> 'w \<Rightarrow> mem_info \<times> gru_status \<times> 'w"
  b_survivor_info :: "gru_status \<Rightarrow> 'w \<Rightarrow> mem_info \<times> gru_status \<times> 'w"
  b_tenured_info :: "gru_status \<Rightarrow> 'w \<Rightarrow> mem_info \<times> gru_status \<times> 'w"
  b_metaspace_info :: "gru_status \<Rightarrow> 'w \<Rightarrow> mem_info \<times> gru_status \<times> 'w"
  b_permgen_info :: "gru_status \<Rightarrow> 'w \<Rightarrow> mem_info \<times> gru_status \<times> 'w"
  b_product_cleanup :: "(string \<times> string) option \<Rightarrow> 'w \<Rightarrow> 'w"
  b_java_cleanup :: "java_info \<Rightarrow> 'w \<Rightarrow> 'w"
  b_unit_mb :: "u64 \<Rightarrow> u64"
  b_fmt1 :: "u64 \<Rightarrow> string"
  b_sleep :: "nat \<Rightarrow> 'w \<Rightarrow> 'w"

section \<open>Reading the broker\<close>

definition mpt_init_bmic_ctxt :: "'w bmic_api \<Rightarrow> gru_uri \<Rightarrow> gru_status \<Rightarrow> 'w \<Rightarrow> bool \<times> gru_status \<times> 'w" where
  "mpt_init_bmic_ctxt b uri st w =
    (case b_init b (uri_host uri) ''admin'' ''admin'' st w of (ok, st1, w1) \<Rightarrow>
       if \<not> ok then (False, st1, b_cleanup b w1)
       else case b_capabilities b st1 w1 of
         (None, st2, w2) \<Rightarrow> (False, st2, b_cleanup b w2)
       | (Some cap, st2, w2) \<Rightarrow> (True, st2, w2))"

text \<open>Without capabilities the old statistics stay.\<close>

definition mpt_get_queue_stats :: "'w bmic_api \<Rightarrow> string \<Rightarrow> queue_stat \<Rightarrow> gru_status \<Rightarrow> 'w \<Rightarrow> queue_stat \<times> gru_status \<times> 'w" where
  "mpt_get_queue_stats b name stat st w =
    (case b_capabilities b st w of
       (None, st1, w1) \<Rightarrow> (stat, st1, w1)
     | (Some cap, st1, w1) \<Rightarrow> b_queue_stats b cap name st1 w1)"

definition mpt_get_mem_info :: "'w bmic_api \<Rightarrow> bool \<Rightarrow> gru_status \<Rightarrow> 'w \<Rightarrow> mpt_java_mem \<times> gru_status \<times> 'w" where
  "mpt_get_mem_info b modern st w =
    (case b_eden_info b st w of (eden, st1, w1) \<Rightarrow>
     case b_survivor_info b st1 w1 of (survivor, st2, w2) \<Rightarrow>
     case b_tenured_info b st2 w2 of (tenured, st3, w3) \<Rightarrow>
     case (if modern then b_metaspace_info b st3 w3 else b_permgen_info b st3 w3) of (metaperm, st4, w4) \<Rightarrow>
       (\<lparr>jm_eden = eden, jm_survivor = survivor, jm_tenured = tenured, jm_metaperm = metaperm\<rparr>, st4, w4))"

text \<open>The result of the purge is only logged; the result of the reset is returned.\<close>

definition mpt_purge_queue :: "'w bmic_api \<Rightarrow> string \<Rightarrow> gru_status \<Rightarrow> 'w \<Rightarrow> bool \<times> gru_status \<times> 'w" where
  "mpt_purge_queue b name st w =
    (case b_capabilities b st w of
       (None, st1, w1) \<Rightarrow> (False, st1, w1)
     | (Some cap, st1, w1) \<Rightarrow>
        (case b_queue_purge b cap name st1 w1 of (purged, st2, w2) \<Rightarrow> b_queue_reset b cap name st2 w2))"

section \<open>The report\<close>

text \<open>The file \<open>report\<close> of \<open>bmic_writer.c\<close> is passed as an argument, \<open>None\<close> for a null pointer.\<close>

definition bmic_writer_open_file :: "'w io_api \<Rightarrow> string \<Rightarrow> string \<Rightarrow> gru_status \<Rightarrow> 'w \<Rightarrow> int option \<times> gru_status \<times> 'w" where
  "bmic_writer_open_file io dir name st w =
    (case io_path_format io dir name st of (fullpath, st1) \<Rightarrow>
     case io_path_rename io fullpath st1 w of (renamed, st2, w2) \<Rightarrow>
       if \<not> renamed then (None, st2, w2)
       else case io_gzopen io fullpath w2 of
         (None, w3) \<Rightarrow> (None, St_Set GRU_FAILURE (io_strerror io), w3)
       | (Some f, w3) \<Rightarrow> (Some f, st2, w3))"

definition bmic_writer_add_header_column :: "'w io_api \<Rightarrow> int option \<Rightarrow> string \<Rightarrow> bool \<Rightarrow> 'w \<Rightarrow> 'w" where
  "bmic_writer_add_header_column io f name again w =
    io_gzprintf io f (quoted name @ (if again then '','' else [CHR 0x0A])) w"

definition header_columns :: "string list" where
  "header_columns = [''timestamp'', ''load'', ''open fds'', ''free fds'', ''free mem'', ''swap free'', ''swap committed'',
     ''eden initial'', ''eden committed'', ''eden max'', ''eden used'',
     ''survivor initial'', ''survivor committed'', ''survivor max'', ''survivor used'',
     ''tenured initial'', ''tenured committed'', ''tenured max'', ''tenured used'',
     ''pm initial'', ''pm committed'', ''pm max'', ''pm used'',
     ''queue size'', ''consumers'', ''ack'']"

definition bmic_writer_initialize :: "'w io_api \<Rightarrow> string \<Rightarrow> string \<Rightarrow> gru_status \<Rightarrow> 'w \<Rightarrow>
    bool \<times> int option \<times> gru_status \<times> 'w" where
  "bmic_writer_initialize io dir name st w =
    (case bmic_writer_open_file io dir name st w of (f, st1, w1) \<Rightarrow>
       if f = None then (False, f, st1, w1)
       else (True, f, st1, bmic_writer_add_header_column io f ''exp'' False
         (fold (\<lambda>c. bmic_writer_add_header_column io f c True) header_columns w1)))"

definition bmic_writer_flush :: "'w io_api \<Rightarrow> int option \<Rightarrow> gru_status \<Rightarrow> 'w \<Rightarrow> bool \<times> gru_status \<times> 'w" where
  "bmic_writer_flush io f st w =
    (case io_gzflush io f w of (ok, w1) \<Rightarrow> if ok then (True, st, w1) else (False, St_Set GRU_FAILURE (io_strerror io), w1))"

definition bmic_writer_current_time :: "'w wenv \<Rightarrow> 'w io_api \<Rightarrow> int option \<Rightarrow> gru_status \<Rightarrow> 'w \<Rightarrow> bool \<times> gru_status \<times> 'w" where
  "bmic_writer_current_time env io f st w =
    (case e_now env w of (now, w1) \<Rightarrow>
     case io_time_format io now st of
       (None, st1) \<Rightarrow> (False, st1, w1)
     | (Some str, st1) \<Rightarrow> (True, st1, io_gzprintf io f (quoted str @ '','') w1))"

text \<open>\<open>\%ld\<close> of 64 bits.\<close>

definition dec_i64 :: "u64 \<Rightarrow> string" where
  "dec_i64 x = int_dec (sint x)"

definition bmic_writer_osinfo_free_fd :: "os_info \<Rightarrow> u64" where
  "bmic_writer_osinfo_free_fd oi = oi_max_fd oi - oi_open_fd oi"

definition bmic_writer_osinfo :: "'w bmic_api \<Rightarrow> 'w io_api \<Rightarrow> int option \<Rightarrow> os_info \<Rightarrow> 'w \<Rightarrow> 'w" where
  "bmic_writer_osinfo b io f oi w =
    (let w1 = io_gzprintf io f (b_fmt1 b (oi_load_average oi) @ '','') w;
         w2 = io_gzprintf io f (dec_i64 (oi_open_fd oi) @ '','' @ dec_i64 (bmic_writer_osinfo_free_fd oi) @ '','') w1;
         w3 = io_gzprintf io f (dec_i64 (b_unit_mb b (oi_mem_free oi)) @ '','') w2 in
     io_gzprintf io f (dec_i64 (b_unit_mb b (oi_swap_free oi)) @ '','' @ dec_i64 (b_unit_mb b (oi_swap_committed oi)) @ '','') w3)"

definition bmic_write_mem :: "'w bmic_api \<Rightarrow> 'w io_api \<Rightarrow> int option \<Rightarrow> mem_info \<Rightarrow> 'w \<Rightarrow> 'w" where
  "bmic_write_mem b io f m w = io_gzprintf io f
    (dec_i64 (b_unit_mb b (mi_init m)) @ '','' @ dec_i64 (b_unit_mb b (mi_committed m)) @ '','' @
     dec_i64 (b_unit_mb b (mi_max m)) @ '','' @ dec_i64 (b_unit_mb b (mi_used m)) @ '','') w"

definition bmic_writer_java_mem :: "'w bmic_api \<Rightarrow> 'w io_api \<Rightarrow> int option \<Rightarrow> mpt_java_mem \<Rightarrow> bool \<Rightarrow> 'w \<Rightarrow> 'w" where
  "bmic_writer_java_mem b io f jm modern w =
    (let w3 = bmic_write_mem b io f (jm_tenured jm) (bmic_write_mem b io f (jm_survivor jm) (bmic_write_mem b io f (jm_eden jm) w)) in
     if modern then bmic_write_mem b io f (jm_metaperm jm) w3 else w3)"

definition bmic_writer_queue_stat :: "'w io_api \<Rightarrow> int option \<Rightarrow> queue_stat \<Rightarrow> 'w \<Rightarrow> 'w" where
  "bmic_writer_queue_stat io f q w = io_gzprintf io f
    (dec_i64 (qs_queue_size q) @ '','' @ dec_i64 (qs_consumer_count q) @ '','' @ dec_i64 (qs_msg_ack_count q) @ '','' @
     dec_i64 (qs_msg_exp_count q) @ [CHR 0x0A]) w"

definition bmic_writer_finalize :: "'w io_api \<Rightarrow> int option \<Rightarrow> gru_status \<Rightarrow> 'w \<Rightarrow> bool \<times> gru_status \<times> 'w" where
  "bmic_writer_finalize io f st w =
    (case io_gzclose io f w of (ok, w1) \<Rightarrow> if ok then (True, st, w1) else (False, St_Set GRU_FAILURE (io_strerror io), w1))"

section \<open>State and handlers of the daemon\<close>

text \<open>The globals of the daemon and the file of the report. The daemon has no workers: the
  globals of the worker manager inside \<open>i_daemon\<close> are not used.\<close>

record 'w inspector =
  i_daemon :: "'w daemon"
  i_report :: "int option"

definition on_daemon :: "'w handler \<Rightarrow> 'w inspector play" where
  "on_daemon h request response pinfo s =
    run_bind (h request response pinfo (i_daemon s)) (\<lambda>(resp, d). Inr (resp, s\<lparr>i_daemon := d\<rparr>))"

definition brokerd_handle_set :: "'w denv \<Rightarrow> 'w inspector play" where
  "brokerd_handle_set env request response pinfo s =
    run_bind (of_undef (commond_handle_set env request response (d_options (i_daemon s)))) (\<lambda>(resp, opts).
    Inr (resp, s\<lparr>i_daemon := (i_daemon s)\<lparr>d_options := opts\<rparr>\<rparr>))"

definition brokerd_handle_flush :: "'w io_api \<Rightarrow> 'w inspector play" where
  "brokerd_handle_flush io request response pinfo s =
    run_bind (on_daemon commond_handle_flush request response pinfo s) (\<lambda>(resp, s1).
    if d_started (i_daemon s1) then
      (case bmic_writer_flush io (i_report s1) St_New (d_world (i_daemon s1)) of (ok, st, w) \<Rightarrow>
         Inr (maestro_note_set_cmd (if ok then MAESTRO_NOTE_OK else MAESTRO_NOTE_INTERNAL_ERROR) resp,
           s1\<lparr>i_daemon := (i_daemon s1)\<lparr>d_world := w\<rparr>\<rparr>))
    else Inr (maestro_note_set_cmd MAESTRO_NOTE_OK resp, s1))"

definition brokerd_handle_start :: "'w inspector play" where
  "brokerd_handle_start request response pinfo s =
    (if d_started (i_daemon s) then Inr (maestro_note_set_cmd MAESTRO_NOTE_INTERNAL_ERROR response, s)
     else Inr (maestro_note_set_cmd MAESTRO_NOTE_OK response, s\<lparr>i_daemon := (i_daemon s)\<lparr>d_started := True\<rparr>\<rparr>))"

definition brokerd_handle_stop :: "'w inspector play" where
  "brokerd_handle_stop request response pinfo s =
    Inr (maestro_note_set_cmd MAESTRO_NOTE_OK response, s\<lparr>i_daemon := (i_daemon s)\<lparr>d_started := False\<rparr>\<rparr>)"

definition brokerd_handle_halt :: "'w inspector play" where
  "brokerd_handle_halt request response pinfo s =
    run_bind (brokerd_handle_stop request response pinfo s) (\<lambda>(resp, s1).
    Inr (maestro_note_set_cmd MAESTRO_NOTE_OK resp, s1\<lparr>i_daemon := (i_daemon s1)\<lparr>d_halt := True\<rparr>\<rparr>))"

text \<open>The response to a statistics request is an OK without statistics.\<close>

definition brokerd_handle_stats :: "'w inspector play" where
  "brokerd_handle_stats request response pinfo s = Inr (maestro_note_set_cmd MAESTRO_NOTE_OK response, s)"

definition MAESTRO_BROKERI_DAEMON_SHEETS :: "string list" where
  "MAESTRO_BROKERI_DAEMON_SHEETS = [MAESTRO_ALL_DAEMONS, MAESTRO_NOTIFICATIONS, ''/mpt/daemon/brokerd'']"

definition brokerd_handlers :: "'w denv \<Rightarrow> 'w io_api \<Rightarrow> (maestro_command \<times> 'w inspector play) list" where
  "brokerd_handlers env io =
    [(MAESTRO_NOTE_START_INSPECTOR, brokerd_handle_start), (MAESTRO_NOTE_STOP_INSPECTOR, brokerd_handle_stop),
     (MAESTRO_NOTE_FLUSH, brokerd_handle_flush io), (MAESTRO_NOTE_SET, brokerd_handle_set env),
     (MAESTRO_NOTE_PING, on_daemon (commond_handle_ping env)), (MAESTRO_NOTE_STATS, brokerd_handle_stats),
     (MAESTRO_NOTE_HALT, brokerd_handle_halt)]"

definition brokerd_new_sheet :: "'w denv \<Rightarrow> 'w io_api \<Rightarrow> gru_allocator \<Rightarrow> string option \<Rightarrow> gru_status \<Rightarrow>
    ('w inspector sheet option \<times> gru_status) undef" where
  "brokerd_new_sheet env io al nl st = daemon_new_sheet al nl MAESTRO_BROKERI_DAEMON_SHEETS (brokerd_handlers env io) st"

section \<open>An inspection\<close>

text \<open>The counters are compared without sign, as \<open>duration.count\<close> is unsigned.\<close>

definition brokerd_abort_check :: "'w wenv \<Rightarrow> worker_options \<Rightarrow> queue_stat \<Rightarrow> 'w \<Rightarrow> bool \<times> 'w" where
  "brokerd_abort_check env opts q w =
    (case wo_duration opts of
       Message_Count n \<Rightarrow> (n \<le> qs_msg_ack_count q + qs_msg_exp_count q, w)
     | Test_Time d \<Rightarrow> (case e_now env w of (now, w1) \<Rightarrow> (tv_sec (dur_end d) \<le> tv_sec now, w1)))"

text \<open>A null product is dereferenced.\<close>

definition bmic_dump_data :: "bmic_stats_set \<Rightarrow> config undef" where
  "bmic_dump_data ss = do {
     (name, version) \<leftarrow> ss_product_info ss;
     Some [(''jvmName'', Cfg_String (ji_name (ss_java_info ss))), (''jvmVersion'', Cfg_String (ji_version (ss_java_info ss))),
       (''jvmPackageVersion'', Cfg_String (ji_package_version (ss_java_info ss))),
       (''operatingSystemName'', Cfg_String (oi_name (ss_os_info ss))), (''operatingSystemArch'', Cfg_String (oi_arch (ss_os_info ss))),
       (''operatingSystemVersion'', Cfg_String (oi_version (ss_os_info ss))),
       (''systemCpuCount'', Cfg_Long (sint (oi_cpus (ss_os_info ss)))), (''systemMemory'', Cfg_Long (sint (oi_mem_total (ss_os_info ss)))),
       (''systemSwap'', Cfg_Long (sint (oi_swap_total (ss_os_info ss)))),
       (''productName'', Cfg_String name), (''productVersion'', Cfg_String version)]
   }"

definition brokerd_dump :: "'w config_api \<Rightarrow> string \<Rightarrow> bmic_stats_set \<Rightarrow> gru_status \<Rightarrow> 'w \<Rightarrow> (bool \<times> gru_status \<times> 'w) undef" where
  "brokerd_dump cfg dir ss st w =
    (case cfg_new cfg dir ''broker.properties'' st of (made, st1) \<Rightarrow>
       if \<not> made then Some (False, st1, w)
       else case cfg_payload cfg st1 of (ok, st2) \<Rightarrow>
         if \<not> ok then Some (False, st2, w)
         else do {
           entries \<leftarrow> bmic_dump_data ss;
           Some (cfg_dump cfg dir ''broker.properties'' entries st2 w)
         })"

text \<open>\<open>&uri.path[1]\<close>: the path without its first character, outside the string when it is empty.\<close>

definition queue_name :: "worker_options \<Rightarrow> string undef" where
  "queue_name opts = (case uri_path (wo_uri opts) of [] \<Rightarrow> None | c # cs \<Rightarrow> Some cs)"

definition brokerd_update :: "'w denv \<Rightarrow> 'w bmic_api \<Rightarrow> 'w io_api \<Rightarrow> int option \<Rightarrow> worker_options \<Rightarrow> bmic_stats_set \<Rightarrow>
    gru_status \<Rightarrow> 'w \<Rightarrow> (bool \<times> bmic_stats_set \<times> gru_status \<times> 'w) undef" where
  "brokerd_update env b io f opts ss st w =
    (case bmic_writer_current_time (de_worker env) io f st w of (timed, st1, w1) \<Rightarrow>
       if \<not> timed then Some (False, ss, st1, w1)
       else case b_os_info b st1 w1 of (oi, st2, w2) \<Rightarrow>
         let ss2 = ss\<lparr>ss_os_info := oi\<rparr>; modern = ji_modern (ss_java_info ss) in
         (case mpt_get_mem_info b modern st2 (bmic_writer_osinfo b io f oi w2) of (jm, st3, w3) \<Rightarrow>
            let ss3 = ss2\<lparr>ss_java_mem := jm\<rparr> in
            if gru_status_error st3 then Some (False, ss3, st3, w3)
            else do {
              name \<leftarrow> queue_name opts;
              (case mpt_get_queue_stats b name (ss_queue_stats ss) st3 (bmic_writer_java_mem b io f jm modern w3) of (q, st4, w4) \<Rightarrow>
                 let ss4 = ss3\<lparr>ss_queue_stats := q\<rparr> in
                 if gru_status_error st4 then Some (False, ss4, st4, w4)
                 else Some (True, ss4, st4, bmic_writer_queue_stat io f q w4))
            }))"

definition brokerd_clean_stats_set :: "'w bmic_api \<Rightarrow> bmic_stats_set \<Rightarrow> 'w \<Rightarrow> 'w" where
  "brokerd_clean_stats_set b ss w = b_java_cleanup b (ss_java_info ss) (b_product_cleanup b (ss_product_info ss) w)"

text \<open>
  The functions from here on act on the state \<open>s\<close> of the daemon; \<open>in_world s w\<close> puts a
  world into it.
\<close>

definition in_world :: "'w inspector \<Rightarrow> 'w \<Rightarrow> 'w inspector" where
  "in_world s w = s\<lparr>i_daemon := (i_daemon s)\<lparr>d_world := w\<rparr>\<rparr>"

abbreviation i_options :: "'w inspector \<Rightarrow> worker_options" where
  "i_options s \<equiv> d_options (i_daemon s)"

abbreviation i_world :: "'w inspector \<Rightarrow> 'w" where
  "i_world s \<equiv> d_world (i_daemon s)"

text \<open>
  The first part of \<open>brokerd_collect\<close>: the report file, the context, the purge and the
  properties. The first component is \<open>False\<close> where the code jumps to \<open>err_exit\<close>; the
  context is then already cleaned once when the capabilities could not be loaded.
\<close>

definition read_properties :: "'w denv \<Rightarrow> 'w bmic_api \<Rightarrow> string \<Rightarrow> gru_status \<Rightarrow> 'w inspector \<Rightarrow>
    (bool \<times> bmic_stats_set \<times> gru_status \<times> 'w inspector) undef" where
  "read_properties env b dir st s =
    (case b_capabilities b st (i_world s) of
       (None, st1, w1) \<Rightarrow> Some (False, zero_stats_set, st1, in_world s (b_cleanup b w1))
     | (Some cap, st1, w1) \<Rightarrow>
        (case b_product_info b cap st1 w1 of (product, st2, w2) \<Rightarrow>
         case b_java_info b st2 w2 of (ji, st3, w3) \<Rightarrow>
         case b_os_info b st3 w3 of (oi, st4, w4) \<Rightarrow>
           let ss = zero_stats_set\<lparr>ss_product_info := product, ss_java_info := ji, ss_os_info := oi\<rparr> in
           do {
             (dumped, st5, w5) \<leftarrow> brokerd_dump (de_config env) dir ss st4 w4;
             if \<not> dumped then Some (False, ss, st5, in_world s w5)
             else do {
               (tested, st6, w6) \<leftarrow> worker_dump (de_config env) dir (i_options s) None st5 w5;
               Some (tested, ss, st6, in_world s w6)
             }
           }))"

definition brokerd_prepare :: "'w denv \<Rightarrow> 'w bmic_api \<Rightarrow> 'w io_api \<Rightarrow> string \<Rightarrow> gru_status \<Rightarrow> 'w inspector \<Rightarrow>
    (bool \<times> bmic_stats_set \<times> gru_status \<times> 'w inspector) undef" where
  "brokerd_prepare env b io dir st s =
    (case bmic_writer_initialize io dir ''broker-jvm-inspector.csv.gz'' st (i_world s) of (opened, f, st1, w1) \<Rightarrow>
       let s1 = (in_world s w1)\<lparr>i_report := f\<rparr> in
       if \<not> opened then Some (False, zero_stats_set, st1, s1)
       else case mpt_init_bmic_ctxt b (wo_uri (i_options s1)) st1 w1 of (ready, st2, w2) \<Rightarrow>
         if \<not> ready then Some (False, zero_stats_set, st2, in_world s1 w2)
         else do {
           name \<leftarrow> queue_name (i_options s1);
           (case mpt_purge_queue b name st2 w2 of (reset, st3, w3) \<Rightarrow>
              if \<not> reset then Some (False, zero_stats_set, st3, in_world s1 w3)
              else read_properties env b dir st3 (in_world s1 w3))
         })"

definition MPT_BROKERD_COLLECT_WAIT_TIME :: nat where
  "MPT_BROKERD_COLLECT_WAIT_TIME = 10"

text \<open>The loop of an inspection. The result of the flush is ignored, its status is not.\<close>

fun inspection_loop :: "'w denv \<Rightarrow> 'w bmic_api \<Rightarrow> 'w io_api \<Rightarrow> (nat \<Rightarrow> 'w inspector \<Rightarrow> 'w inspector run) \<Rightarrow> nat \<Rightarrow> nat \<Rightarrow>
    bmic_stats_set \<Rightarrow> gru_status \<Rightarrow> 'w inspector \<Rightarrow> (bmic_stats_set \<times> gru_status \<times> 'w inspector) run" where
  "inspection_loop env b io served 0 j ss st s = Inl Out_of_fuel"
| "inspection_loop env b io served (Suc fuel) j ss st s =
    (if \<not> d_started (i_daemon s) then Inr (ss, st, s)
     else
       run_bind (of_undef (brokerd_update env b io (i_report s) (i_options s) ss st (i_world s))) (\<lambda>(updated, ss1, st1, w1).
       if \<not> updated then Inr (ss1, st1, in_world s w1)
       else case brokerd_abort_check (de_worker env) (i_options s) (ss_queue_stats ss1) w1 of (finished, w2) \<Rightarrow>
         if finished then Inr (ss1, st1, in_world s w2)
         else case bmic_writer_flush io (i_report s) st1 w2 of (ok, st2, w3) \<Rightarrow>
           run_bind (served j (in_world s (b_sleep b MPT_BROKERD_COLLECT_WAIT_TIME w3))) (\<lambda>s4.
           inspection_loop env b io served fuel (Suc j) ss1 st2 s4)))"

text \<open>The links in the log directory after an inspection.\<close>

definition link_logs :: "'w denv \<Rightarrow> string \<Rightarrow> string \<Rightarrow> 'w \<Rightarrow> 'w" where
  "link_logs env dir result w = worker_log_link_create env dir result (worker_log_link_create env dir ''last'' w)"

text \<open>The end of an inspection that reached the loop.\<close>

definition inspection_end :: "'w denv \<Rightarrow> 'w bmic_api \<Rightarrow> 'w io_api \<Rightarrow> 'v notifier \<Rightarrow> 'v notifier \<Rightarrow> string \<Rightarrow> bmic_stats_set \<Rightarrow>
    gru_status \<Rightarrow> 'w inspector \<Rightarrow> 'v \<Rightarrow> (bool \<times> gru_status \<times> 'w inspector \<times> 'v) undef" where
  "inspection_end env b io failed successful dir ss st s v =
    (if \<not> gru_status_success st then
       (case bmic_writer_finalize io (i_report s) st (i_world s) of (closed, st1, w1) \<Rightarrow>
          map_option (\<lambda>(st2, v2). (False, st2, in_world s (link_logs env dir ''lastFailed'' (b_cleanup b w1)), v2)) (failed st1 v))
     else
       let w1 = link_logs env dir ''lastSuccessful'' (brokerd_clean_stats_set b ss (i_world s)) in
       do {
         (st2, v2) \<leftarrow> successful st v;
         (case bmic_writer_finalize io (i_report s) st2 w1 of (closed, st3, w3) \<Rightarrow>
            Some (True, st3, in_world s (b_cleanup b w3), v2))
       })"

definition inspection_err_exit :: "'w denv \<Rightarrow> 'w bmic_api \<Rightarrow> 'w io_api \<Rightarrow> 'v notifier \<Rightarrow> string \<Rightarrow> bmic_stats_set \<Rightarrow>
    gru_status \<Rightarrow> 'w inspector \<Rightarrow> 'v \<Rightarrow> (bool \<times> gru_status \<times> 'w inspector \<times> 'v) undef" where
  "inspection_err_exit env b io failed dir ss st s v =
    (let w1 = link_logs env dir ''lastFailed'' (brokerd_clean_stats_set b ss (i_world s)) in
     do {
       (st2, v2) \<leftarrow> failed st v;
       (case bmic_writer_finalize io (i_report s) st2 w1 of (closed, st3, w3) \<Rightarrow>
          Some (False, st3, in_world s (b_cleanup b w3), v2))
     })"

text \<open>\<open>WORKER_FAILURE\<close> is 0, so that the first return is false. The log directory of the options is that of \<open>env\<close>.\<close>

definition brokerd_collect :: "'w denv \<Rightarrow> 'w bmic_api \<Rightarrow> 'w io_api \<Rightarrow> 'v notifier \<Rightarrow> 'v notifier \<Rightarrow>
    (nat \<Rightarrow> 'w inspector \<Rightarrow> 'w inspector run) \<Rightarrow> nat \<Rightarrow> gru_status \<Rightarrow> 'w inspector \<Rightarrow> 'v \<Rightarrow>
    (bool \<times> gru_status \<times> 'w inspector \<times> 'v) run" where
  "brokerd_collect env b io failed successful served fuel st s v =
    (case worker_log_init (de_path_exists env) (de_mkdirs env) (de_log_dir env) st (i_world s) of (ok, dir, st1, w1) \<Rightarrow>
       if \<not> ok then Inr (WORKER_FAILURE \<noteq> 0, st1, in_world s w1, v)
       else
         run_bind (of_undef (brokerd_prepare env b io dir st1 (in_world s w1))) (\<lambda>(ready, ss, st2, s2).
         if \<not> ready then of_undef (inspection_err_exit env b io failed dir ss st2 s2 v)
         else
           run_bind (inspection_loop env b io served fuel 0 ss st2 s2) (\<lambda>(ss3, st3, s3).
           of_undef (inspection_end env b io failed successful dir ss3 st3 s3 v))))"

section \<open>The main loop\<close>

text \<open>
  \<open>served k 0\<close> is what the player thread does during the idle time of iteration \<open>k\<close>, and
  \<open>served k (Suc j)\<close> what it does during the \<open>j\<close>th wait of the inspection of that iteration. The
  status is never reset between inspections.
\<close>

definition set_started :: "bool \<Rightarrow> 'w inspector \<Rightarrow> 'w inspector" where
  "set_started x s = s\<lparr>i_daemon := (i_daemon s)\<lparr>d_started := x\<rparr>\<rparr>"

fun brokerd_loop :: "'w denv \<Rightarrow> 'w bmic_api \<Rightarrow> 'w io_api \<Rightarrow> 'v notifier \<Rightarrow> 'v notifier \<Rightarrow>
    (nat \<Rightarrow> nat \<Rightarrow> 'w inspector \<Rightarrow> 'w inspector run) \<Rightarrow> nat \<Rightarrow> nat \<Rightarrow> gru_status \<Rightarrow> 'w inspector \<Rightarrow> 'v \<Rightarrow>
    (gru_status \<times> 'w inspector \<times> 'v) run" where
  "brokerd_loop env b io failed successful served 0 k st s v = Inl Out_of_fuel"
| "brokerd_loop env b io failed successful served (Suc fuel) k st s v =
    (if d_halt (i_daemon s) then Inr (st, s, v)
     else
       run_bind (served k 0 (in_world s (e_usleep (de_worker env) 500000 (i_world s)))) (\<lambda>s1.
       if d_started (i_daemon s1) then
         run_bind (brokerd_collect env b io failed successful (\<lambda>j. served k (Suc j)) (de_fuel env) st s1 v) (\<lambda>(ok, st2, s2, v2).
         brokerd_loop env b io failed successful served fuel (Suc k) st2 (set_started False s2) v2)
       else brokerd_loop env b io failed successful served fuel (Suc k) st s1 v))"

definition brokerd_worker_start :: "'w denv \<Rightarrow> 'w bmic_api \<Rightarrow> 'w io_api \<Rightarrow> 'v player_env \<Rightarrow> msgpack_api \<Rightarrow> gru_allocator \<Rightarrow>
    string option \<Rightarrow> (nat \<Rightarrow> nat \<Rightarrow> 'w inspector \<Rightarrow> 'w inspector run) \<Rightarrow> nat \<Rightarrow> 'w inspector \<Rightarrow> 'v \<Rightarrow>
    (int \<times> 'w inspector \<times> ('v, 'w inspector) link) run" where
  "brokerd_worker_start env b io penv mp al nl served fuel s v =
    run_bind (of_undef (brokerd_new_sheet env io al nl St_New)) (\<lambda>(sh, st).
    run_bind (of_undef sh) (\<lambda>sh'.
    run_bind (of_undef (maestro_player_start penv al sh' None st v)) (\<lambda>(connected, splayer, st1, v1).
    if \<not> connected then
      run_bind (of_undef (maestro_player_stop splayer st1 v1)) (\<lambda>(stopped, splayer2, st2, v2). Inr (1, s, (v2, splayer2)))
    else
      run_bind (brokerd_loop env b io (notify_link (maestro_notify_test_failed mp al (pe_append penv)))
        (notify_link (maestro_notify_test_successful mp al (pe_append penv))) served fuel 0 st1 s (v1, splayer)) (\<lambda>(st2, s2, l2).
      run_bind (of_undef (maestro_player_stop (snd l2) st2 (fst l2))) (\<lambda>(stopped, splayer3, st3, v3).
      Inr (0, s2, (v3, splayer3)))))))"

section \<open>What an inspection writes\<close>

text \<open>
  What the report relies on besides zlib: no other call touches the content of an open
  file. \<open>keeps\<close> says so of a call with a status, \<open>keeps_plain\<close> of one without.
\<close>

definition keeps :: "('w \<Rightarrow> int \<Rightarrow> string) \<Rightarrow> (gru_status \<Rightarrow> 'w \<Rightarrow> 'x \<times> gru_status \<times> 'w) \<Rightarrow> bool" where
  "keeps content g = (\<forall>st w x st' w'. g st w = (x, st', w') \<longrightarrow> content w' = content w)"

definition keeps_plain :: "('w \<Rightarrow> int \<Rightarrow> string) \<Rightarrow> ('w \<Rightarrow> 'w) \<Rightarrow> bool" where
  "keeps_plain content g = (\<forall>w. content (g w) = content w)"

locale broker_report = gz_files io content fmt
  for io :: "'w io_api" and content :: "'w \<Rightarrow> int \<Rightarrow> string" and fmt :: "timestamp \<Rightarrow> string" +
  fixes env :: "'w denv" and b :: "'w bmic_api" and served :: "nat \<Rightarrow> 'w inspector \<Rightarrow> 'w inspector run"
  assumes now_keeps: "e_now (de_worker env) w = (t, w') \<Longrightarrow> content w' = content w"
    and close_keeps: "io_gzclose io f w = (ok, w') \<Longrightarrow> content w' = content w"
    and init_keeps: "keeps content (b_init b h u p)"
    and cap_keeps: "keeps content (b_capabilities b)"
    and purge_keeps: "keeps content (b_queue_purge b cap q)" "keeps content (b_queue_reset b cap q)"
    and stats_keeps: "keeps content (b_queue_stats b cap q)"
    and product_keeps: "keeps content (b_product_info b cap)"
    and java_keeps: "keeps content (b_java_info b)"
    and os_keeps: "keeps content (b_os_info b)"
    and mem_keeps: "keeps content (b_eden_info b)" "keeps content (b_survivor_info b)" "keeps content (b_tenured_info b)"
      "keeps content (b_metaspace_info b)" "keeps content (b_permgen_info b)"
    and dump_keeps: "keeps content (cfg_dump (de_config env) dir name entries)"
    and link_keeps: "keeps_plain content (os_relink (de_os env) path target)"
    and clean_keeps: "keeps_plain content (b_cleanup b)" "keeps_plain content (b_product_cleanup b pr)"
      "keeps_plain content (b_java_cleanup b ji)" "keeps_plain content (b_sleep b n)"
    and served_keeps: "served j s = Inr s' \<Longrightarrow> content (i_world s') = content (i_world s) \<and> i_report s' = i_report s"
begin

lemmas keeps_facts = init_keeps cap_keeps purge_keeps stats_keeps product_keeps java_keeps os_keeps mem_keeps dump_keeps
lemmas keepsD = keeps_facts [unfolded keeps_def, rule_format]
lemmas plainD [simp] = link_keeps [unfolded keeps_plain_def, rule_format] clean_keeps [unfolded keeps_plain_def, rule_format]

lemma print_same [simp]: "content (io_gzprintf io (Some f) s w) f = content w f @ s"
  by (simp add: print_appends)

end

text \<open>The row an update appends, and the parts of it.\<close>

definition mem_columns :: "'w bmic_api \<Rightarrow> mem_info \<Rightarrow> string" where
  "mem_columns b m = dec_i64 (b_unit_mb b (mi_init m)) @ '','' @ dec_i64 (b_unit_mb b (mi_committed m)) @ '','' @
     dec_i64 (b_unit_mb b (mi_max m)) @ '','' @ dec_i64 (b_unit_mb b (mi_used m)) @ '',''"

definition inspector_row :: "'w bmic_api \<Rightarrow> string \<Rightarrow> bmic_stats_set \<Rightarrow> string" where
  "inspector_row b now ss =
    (let oi = ss_os_info ss; jm = ss_java_mem ss; q = ss_queue_stats ss in
     quoted now @ '','' @ b_fmt1 b (oi_load_average oi) @ '','' @ dec_i64 (oi_open_fd oi) @ '','' @
     dec_i64 (oi_max_fd oi - oi_open_fd oi) @ '','' @ dec_i64 (b_unit_mb b (oi_mem_free oi)) @ '','' @
     dec_i64 (b_unit_mb b (oi_swap_free oi)) @ '','' @ dec_i64 (b_unit_mb b (oi_swap_committed oi)) @ '','' @
     mem_columns b (jm_eden jm) @ mem_columns b (jm_survivor jm) @ mem_columns b (jm_tenured jm) @
     (if ji_modern (ss_java_info ss) then mem_columns b (jm_metaperm jm) else []) @
     dec_i64 (qs_queue_size q) @ '','' @ dec_i64 (qs_consumer_count q) @ '','' @ dec_i64 (qs_msg_ack_count q) @ '','' @
     dec_i64 (qs_msg_exp_count q) @ [CHR 0x0A])"

definition inspector_header :: string where
  "inspector_header = concat (map (\<lambda>c. quoted c @ '','') header_columns) @ quoted ''exp'' @ [CHR 0x0A]"

context broker_report begin

lemma header_written:
  assumes "bmic_writer_initialize io dir name st w = (True, h, st', w')"
  shows "\<exists>f. h = Some f \<and> content w' f = inspector_header"
proof -
  have cols: "content (fold (\<lambda>c. bmic_writer_add_header_column io (Some f) c True) cs w) f
      = content w f @ concat (map (\<lambda>c. quoted c @ '','') cs)" for f cs and w
    by (induction cs arbitrary: w) (simp_all add: bmic_writer_add_header_column_def)
  show ?thesis
    using assms open_empty
    by (auto simp: bmic_writer_initialize_def bmic_writer_open_file_def inspector_header_def cols
        bmic_writer_add_header_column_def split: prod.splits option.splits if_splits)
qed

lemma mem_info_keeps: "mpt_get_mem_info b modern st w = (jm, st', w') \<Longrightarrow> content w' = content w"
  by (auto simp: mpt_get_mem_info_def split: prod.splits if_splits dest!: keepsD)

lemma queue_stats_keeps: "mpt_get_queue_stats b name q st w = (q', st', w') \<Longrightarrow> content w' = content w"
  by (auto simp: mpt_get_queue_stats_def split: prod.splits option.splits dest!: keepsD)

lemma update_row:
  assumes "brokerd_update env b io (Some f) opts ss st w = Some (True, ss', st', w')"
  shows "ss_java_info ss' = ss_java_info ss \<and> (\<exists>t. content w' f = content w f @ inspector_row b (fmt t) ss')"
proof -
  obtain t w1 where t: "e_now (de_worker env) w = (t, w1)" by fastforce
  obtain oi st2 w2 where oi: "b_os_info b st (io_gzprintf io (Some f) (quoted (fmt t) @ '','') w1) = (oi, st2, w2)"
    by (metis prod_cases3)
  let ?modern = "ji_modern (ss_java_info ss)"
  obtain jm st3 w3 where jm: "mpt_get_mem_info b ?modern st2 (bmic_writer_osinfo b io (Some f) oi w2) = (jm, st3, w3)"
    by (metis prod_cases3)
  from assms have "\<not> gru_status_error st3 \<and> queue_name opts \<noteq> None"
    by (cases "queue_name opts") (auto simp: brokerd_update_def bmic_writer_current_time_def time_format Let_def t oi jm split: if_splits)
  then obtain name where name: "queue_name opts = Some name" and e3: "\<not> gru_status_error st3" by blast
  obtain q st4 w4 where q: "mpt_get_queue_stats b name (ss_queue_stats ss) st3
      (bmic_writer_java_mem b io (Some f) jm ?modern w3) = (q, st4, w4)"
    by (metis prod_cases3)
  have r: "ss' = ss\<lparr>ss_os_info := oi, ss_java_mem := jm, ss_queue_stats := q\<rparr>" "w' = bmic_writer_queue_stat io (Some f) q w4"
    using assms name e3
    by (auto simp: brokerd_update_def bmic_writer_current_time_def time_format Let_def t oi jm q split: if_splits)
  note now_keeps [OF t] keepsD(8) [OF oi] mem_info_keeps [OF jm] queue_stats_keeps [OF q]
  then show ?thesis
    by (auto simp: r bmic_writer_queue_stat_def bmic_writer_java_mem_def bmic_write_mem_def bmic_writer_osinfo_def
        bmic_writer_osinfo_free_fd_def inspector_row_def mem_columns_def Let_def print_appends intro!: exI [of _ t])
qed

end

text \<open>The rows of an inspection, each with the time it was written and the statistics it shows.\<close>

definition rows_text :: "'w bmic_api \<Rightarrow> (timestamp \<Rightarrow> string) \<Rightarrow> (timestamp \<times> bmic_stats_set) list \<Rightarrow> string" where
  "rows_text b fmt rows = concat (map (\<lambda>(t, r). inspector_row b (fmt t) r) rows)"

context broker_report begin

lemma abort_keeps: "brokerd_abort_check (de_worker env) opts q w = (x, w') \<Longrightarrow> content w' = content w"
  using now_keeps by (auto simp: brokerd_abort_check_def split: test_duration.splits prod.splits)

lemma writer_flush_ok: "\<exists>w'. bmic_writer_flush io (Some f) st w = (True, st, w') \<and> content w' = content w"
  using flush_same [of f w] by (auto simp: bmic_writer_flush_def)

lemma update_false_status:
  "brokerd_update env b io h opts ss st w = Some (False, ss', st', w') \<Longrightarrow> gru_status_error st'"
  by (auto simp: brokerd_update_def bmic_writer_current_time_def time_format Let_def bind_eq_Some_conv case_prod_unfold
      split: if_splits)

text \<open>An inspection that ends without an error has appended whole rows only.\<close>

lemma loop_rows:
  assumes "inspection_loop env b io served fuel j ss st s = Inr (ss', st', s')" and "i_report s = Some f"
    and "\<not> gru_status_error st'"
  shows "i_report s' = Some f \<and> ss_java_info ss' = ss_java_info ss \<and>
    (\<exists>rows. content (i_world s') f = content (i_world s) f @ rows_text b fmt rows \<and>
      (\<forall>r \<in> set rows. ss_java_info (snd r) = ss_java_info ss))"
  using assms(1,2)
proof (induction fuel arbitrary: j ss st s)
  case (Suc fuel)
  show ?case
  proof (cases "d_started (i_daemon s)")
    case False
    with Suc.prems show ?thesis by (auto simp: rows_text_def intro!: exI [of _ "[]"])
  next
    case True
    with Suc.prems obtain updated ss1 st1 w1 where
      u: "brokerd_update env b io (Some f) (i_options s) ss st (i_world s) = Some (updated, ss1, st1, w1)"
      by (auto simp: run_bind_eq_Inr of_undef_def split: option.splits)
    with True Suc.prems update_false_status assms(3) have up: "updated" by (cases updated) auto
    from update_row [OF u [unfolded eqTrueI [OF up]]] obtain t where
      t: "ss_java_info ss1 = ss_java_info ss" "content w1 f = content (i_world s) f @ inspector_row b (fmt t) ss1" by blast
    obtain finished w2 where fin: "brokerd_abort_check (de_worker env) (i_options s) (ss_queue_stats ss1) w1 = (finished, w2)"
      by fastforce
    obtain w3 where w3: "bmic_writer_flush io (Some f) st1 w2 = (True, st1, w3)" "content w3 = content w2"
      using writer_flush_ok by blast
    note c2 = abort_keeps [OF fin]
    show ?thesis
    proof (cases finished)
      case True
      with Suc.prems \<open>d_started (i_daemon s)\<close> u up fin t c2 show ?thesis
        by (auto simp: in_world_def rows_text_def intro!: exI [of _ "[(t, ss1)]"])
    next
      case False
      with Suc.prems True u up fin w3 obtain s4 where
        s4: "served j (in_world s (b_sleep b MPT_BROKERD_COLLECT_WAIT_TIME w3)) = Inr s4"
        and rest: "inspection_loop env b io served fuel (Suc j) ss1 st1 s4 = Inr (ss', st', s')"
        by (auto simp: run_bind_eq_Inr)
      from served_keeps [OF s4] w3(2) c2 Suc.prems(2) have c4: "content (i_world s4) = content w1" "i_report s4 = Some f"
        by (auto simp: in_world_def)
      from Suc.IH [OF rest c4(2)] obtain rows where "i_report s' = Some f" "ss_java_info ss' = ss_java_info ss1"
        "content (i_world s') f = content (i_world s4) f @ rows_text b fmt rows" "\<forall>r \<in> set rows. ss_java_info (snd r) = ss_java_info ss1"
        by blast
      with c4 t show ?thesis
        by (auto simp: rows_text_def intro!: exI [of _ "(t, ss1) # rows"])
    qed
  qed
qed simp

end

context broker_report begin

lemma worker_dump_keeps: "worker_dump (de_config env) dir opts info st w = Some (x, st', w') \<Longrightarrow> content w' = content w"
  by (auto simp: worker_dump_def bind_eq_Some_conv split: prod.splits if_splits dest!: keepsD)

lemma brokerd_dump_keeps: "brokerd_dump (de_config env) dir ss st w = Some (x, st', w') \<Longrightarrow> content w' = content w"
  by (auto simp: brokerd_dump_def bind_eq_Some_conv split: prod.splits if_splits dest!: keepsD)

lemma read_properties_keeps:
  assumes "read_properties env b dir st s = Some (True, ss, st', s')"
  shows "content (i_world s') = content (i_world s) \<and> i_report s' = i_report s"
proof -
  obtain cap st1 w1 where c: "b_capabilities b st (i_world s) = (Some cap, st1, w1)"
    using assms by (cases "b_capabilities b st (i_world s)") (auto simp: read_properties_def split: option.splits)
  obtain product st2 w2 ji st3 w3 oi st4 w4 where
    r: "b_product_info b cap st1 w1 = (product, st2, w2)" "b_java_info b st2 w2 = (ji, st3, w3)" "b_os_info b st3 w3 = (oi, st4, w4)"
    by (metis prod_cases3)
  have "content w4 = content (i_world s)"
    using keepsD(2) [OF c] keepsD(6) [OF r(1)] keepsD(7) [OF r(2)] keepsD(8) [OF r(3)] by simp
  with assms show ?thesis
    by (auto simp: read_properties_def c r Let_def bind_eq_Some_conv in_world_def split: if_splits
        dest!: worker_dump_keeps brokerd_dump_keeps)
qed

lemma prepare_header:
  assumes "brokerd_prepare env b io dir st s = Some (True, ss, st', s')"
  shows "\<exists>f. i_report s' = Some f \<and> content (i_world s') f = inspector_header"
proof -
  obtain opened h st1 w1 where o: "bmic_writer_initialize io dir ''broker-jvm-inspector.csv.gz'' st (i_world s) = (opened, h, st1, w1)"
    by (metis prod_cases4)
  with assms have opened by (auto simp: brokerd_prepare_def Let_def split: if_splits)
  with header_written o obtain f where f: "h = Some f" "content w1 f = inspector_header" by (metis (full_types))
  obtain ready st2 w2 where m: "mpt_init_bmic_ctxt b (wo_uri (i_options s)) st1 w1 = (ready, st2, w2)" by (metis prod_cases3)
  with assms o \<open>opened\<close> have ready by (auto simp: brokerd_prepare_def Let_def in_world_def split: if_splits)
  with m have c2: "content w2 = content w1"
    by (auto simp: mpt_init_bmic_ctxt_def split: prod.splits option.splits if_splits dest!: keepsD)
  from assms o m \<open>opened\<close> \<open>ready\<close> obtain name where n: "queue_name (i_options s) = Some name"
    by (auto simp: brokerd_prepare_def Let_def in_world_def bind_eq_Some_conv)
  obtain reset st3 w3 where p: "mpt_purge_queue b name st2 w2 = (reset, st3, w3)" by (metis prod_cases3)
  then have c3: "content w3 = content w2"
    by (auto simp: mpt_purge_queue_def split: prod.splits option.splits dest!: keepsD)
  from assms o m n p \<open>opened\<close> \<open>ready\<close> have "read_properties env b dir st3 (in_world ((in_world s w1)\<lparr>i_report := h\<rparr>) w3) = Some (True, ss, st', s')"
    by (auto simp: brokerd_prepare_def Let_def in_world_def split: if_splits)
  from read_properties_keeps [OF this] f c2 c3 show ?thesis by (simp add: in_world_def)
qed

lemma writer_finalize_keeps: "content (snd (snd (bmic_writer_finalize io h st w))) = content w"
  using close_keeps [of h w] by (auto simp: bmic_writer_finalize_def split: prod.splits)

lemma end_keeps:
  assumes "inspection_end env b io failed successful dir ss st s v = Some (ok, st', s', v')"
  shows "content (i_world s') = content (i_world s) \<and> i_report s' = i_report s \<and> ok = gru_status_success st"
  using assms
  by (auto simp: inspection_end_def Let_def bind_eq_Some_conv in_world_def link_logs_def worker_log_link_create_def
      brokerd_clean_stats_set_def case_prod_unfold writer_finalize_keeps simp del: take_append split: if_splits)

text \<open>The report of a successful inspection.\<close>

lemma collect_report:
  assumes "brokerd_collect env b io failed successful served fuel st s v = Inr (True, st', s', v')"
  shows "\<exists>f ji rows. i_report s' = Some f \<and> content (i_world s') f = inspector_header @ rows_text b fmt rows \<and>
    (\<forall>r \<in> set rows. ss_java_info (snd r) = ji)"
proof -
  obtain ok dir st1 w1 where l: "worker_log_init (de_path_exists env) (de_mkdirs env) (de_log_dir env) st (i_world s) = (ok, dir, st1, w1)"
    by (metis prod_cases4)
  from assms l obtain ready ss st2 s2 where
    p: "brokerd_prepare env b io dir st1 (in_world s w1) = Some (ready, ss, st2, s2)" and ok
    by (auto simp: brokerd_collect_def run_bind_eq_Inr of_undef_def worker_ret_defs split: if_splits option.splits)
  with assms l have ready
    by (auto simp: brokerd_collect_def inspection_err_exit_def Let_def of_undef_def bind_eq_Some_conv case_prod_unfold
        split: if_splits option.splits)
  with assms l p \<open>ok\<close> obtain ss3 st3 s3 where
    loop: "inspection_loop env b io served fuel 0 ss st2 s2 = Inr (ss3, st3, s3)"
    and e: "inspection_end env b io failed successful dir ss3 st3 s3 v = Some (True, st', s', v')"
    by (auto simp: brokerd_collect_def run_bind_eq_Inr of_undef_def split: if_splits option.splits)
  from prepare_header p \<open>ready\<close> obtain f where f: "i_report s2 = Some f" "content (i_world s2) f = inspector_header" by (metis (full_types))
  from end_keeps [OF e] loop_rows [OF loop f(1)] f(2) show ?thesis
    by (auto simp: gru_status_error_def)
qed

end

section \<open>A broker\<close>

text \<open>A broker that answers every call with the same values, in the world of the file store.\<close>

definition steady_bmic :: "java_info \<Rightarrow> os_info \<Rightarrow> mem_info \<Rightarrow> queue_stat \<Rightarrow> 'w bmic_api" where
  "steady_bmic ji oi mi q = \<lparr>b_init = (\<lambda>h u p st w. (True, st, w)), b_cleanup = (\<lambda>w. w),
     b_capabilities = (\<lambda>st w. (Some 1, st, w)), b_queue_purge = (\<lambda>c n st w. (True, st, w)),
     b_queue_reset = (\<lambda>c n st w. (True, st, w)), b_queue_stats = (\<lambda>c n st w. (q, st, w)),
     b_product_info = (\<lambda>c st w. (Some (''artemis'', ''2''), st, w)), b_java_info = (\<lambda>st w. (ji, st, w)),
     b_os_info = (\<lambda>st w. (oi, st, w)), b_eden_info = (\<lambda>st w. (mi, st, w)), b_survivor_info = (\<lambda>st w. (mi, st, w)),
     b_tenured_info = (\<lambda>st w. (mi, st, w)), b_metaspace_info = (\<lambda>st w. (mi, st, w)), b_permgen_info = (\<lambda>st w. (mi, st, w)),
     b_product_cleanup = (\<lambda>p w. w), b_java_cleanup = (\<lambda>j w. w), b_unit_mb = (\<lambda>x. x div 1048576), b_fmt1 = (\<lambda>x. ''0.5''),
     b_sleep = (\<lambda>n w. w)\<rparr>"

definition store_denv :: "(string \<Rightarrow> gru_status \<Rightarrow> bool \<times> gru_status) \<Rightarrow> 'w denv" where
  "store_denv ex = \<lparr>de_worker = sample_wenv, de_os = sample_os 40 0, de_config = sample_config, de_writers = (\<lambda>f. sample_writer),
     de_uri_parse = (\<lambda>s. zero_uri), de_duration_parse = (\<lambda>s. None), de_log_level = (\<lambda>s. 0), de_to_milli = (\<lambda>t. tv_sec t * 1000),
     de_time_str = (\<lambda>t. ''now''), de_uri_format = (\<lambda>u. None), de_fadd = (\<lambda>a b. a + b), de_ratio = (\<lambda>a b. a div ucast b),
     de_log_dir = ''/l'', de_path_exists = ex, de_mkdirs = (\<lambda>p st w. (True, st, w)),
     de_assign = (\<lambda>u v. (True, v)), de_random = (\<lambda>k. 0), de_fuel = 3\<rparr>"

lemmas steady_defs = steady_bmic_def store_denv_def sample_wenv_def sample_os_def sample_config_def

text \<open>Handlers of the sheet that are served while an inspection waits.\<close>

definition serve :: "(maestro_command \<times> 'w inspector play) list \<Rightarrow> maestro_command \<Rightarrow> 'w inspector \<Rightarrow> 'w inspector run" where
  "serve ps c s = (case map_of ps c of None \<Rightarrow> Inr s
     | Some p \<Rightarrow> run_bind (p zero_note zero_note \<lparr>pi_id = [], pi_name = []\<rparr> s) (\<lambda>(resp, s'). Inr s'))"

lemma serve_keeps:
  "serve (brokerd_handlers (store_denv ex) (store_io fmt fmt2)) c s = Inr s' \<Longrightarrow>
     fs_text (i_world s') = fs_text (i_world s) \<and> i_report s' = i_report s"
  by (auto simp: serve_def brokerd_handlers_def run_bind_eq_Inr brokerd_handle_start_def brokerd_handle_stop_def
      brokerd_handle_flush_def brokerd_handle_halt_def brokerd_handle_stats_def brokerd_handle_set_def on_daemon_def
      commond_handle_flush_def commond_handle_ping_def bmic_writer_flush_def store_io_def steady_defs
      split: option.splits if_splits)

interpretation steady: broker_report "store_io fmt fmt2" fs_text fmt "store_denv ex" "steady_bmic ji oi mi q"
    "\<lambda>j. serve (brokerd_handlers (store_denv ex) (store_io fmt fmt2)) (cs j)" for fmt fmt2 ex ji oi mi q cs
  by unfold_locales (use serve_keeps in \<open>auto simp: keeps_def keeps_plain_def steady_defs store_io_def\<close>)

section \<open>Properties\<close>

lemma dec_i64_no_comma [simp]: "CHR '','' \<notin> set (dec_i64 x)"
  by (simp add: dec_i64_def del: int_dec_def)

lemma header_length: "columns (CHR '','') inspector_header = 27"
  by (simp add: columns_def inspector_header_def header_columns_def quoted_def)

lemma inspector_row_columns:
  assumes "CHR '','' \<notin> set now" and "\<And>x. CHR '','' \<notin> set (b_fmt1 b x)"
  shows "columns (CHR '','') (inspector_row b now ss) = (if ji_modern (ss_java_info ss) then 27 else 23)"
  using assms by (simp add: columns_def inspector_row_def mem_columns_def quoted_def Let_def count_list_append count_notin)

text \<open>
  Property C16, inspector_report. A successful inspection leaves a report that is the header
  followed by whole rows. With times and loads that print without a comma the header
  has 27 columns; every row has 27 as well when the broker reports the modern memory
  model, but only 23 for any other model, so that the last four values stand under the
  headings of the memory pool that was left out.
\<close>

theorem inspector_report:
  assumes "broker_report io content fmt env b served"
    and "brokerd_collect env b io failed successful served fuel st s v = Inr (True, st', s', v')"
    and "\<And>t. CHR '','' \<notin> set (fmt t)" and "\<And>x. CHR '','' \<notin> set (b_fmt1 b x)"
  shows "\<exists>f ji rows. i_report s' = Some f \<and> content (i_world s') f = inspector_header @ rows_text b fmt rows \<and>
    columns (CHR '','') inspector_header = 27 \<and>
    (\<forall>(t, r) \<in> set rows. ss_java_info r = ji \<and>
      columns (CHR '','') (inspector_row b (fmt t) r) = (if ji_modern ji then 27 else 23))"
proof -
  obtain f ji rows where r: "i_report s' = Some f" "content (i_world s') f = inspector_header @ rows_text b fmt rows"
    "\<forall>r \<in> set rows. ss_java_info (snd r) = ji"
    using broker_report.collect_report [OF assms(1,2)] by blast
  have "columns (CHR '','') (inspector_row b (fmt t) r) = (if ji_modern ji then 27 else 23)" if "(t, r) \<in> set rows" for t r
    using r(3) that inspector_row_columns [where b = b, OF assms(3,4)] by fastforce
  with r header_length show ?thesis by (intro exI [of _ f] exI [of _ ji] exI [of _ rows]) auto
qed

definition no_dirs :: "string \<Rightarrow> gru_status \<Rightarrow> bool \<times> gru_status" where
  "no_dirs p st = (False, st)"

definition one_dir :: "string \<Rightarrow> gru_status \<Rightarrow> bool \<times> gru_status" where
  "one_dir p st = (p = ''/l/0'', st)"

definition sample_bmic :: "bool \<Rightarrow> file_store bmic_api" where
  "sample_bmic modern = steady_bmic \<lparr>ji_name = ''jvm'', ji_version = ''8'', ji_package_version = ''1'', ji_modern = modern\<rparr>
     zero_os_info zero_mem \<lparr>qs_queue_size = 5, qs_consumer_count = 1, qs_msg_ack_count = 1, qs_msg_exp_count = 2\<rparr>"

definition sample_inspector :: "file_store inspector" where
  "sample_inspector = \<lparr>i_daemon = \<lparr>d_started = True, d_halt = False, d_options = sample_options,
     d_globals = \<lparr>g_list = None, g_locked = False, g_errors = 0\<rparr>,
     d_world = \<lparr>fs_text = (\<lambda>f. []), fs_next = 3, fs_paths = []\<rparr>\<rparr>, i_report = None\<rparr>"

definition sample_serving :: "maestro_command \<Rightarrow> nat \<Rightarrow> file_store inspector \<Rightarrow> file_store inspector run" where
  "sample_serving c j = serve (brokerd_handlers (store_denv no_dirs) sample_io) c"

definition sample_collect :: "bool \<Rightarrow> (bool \<times> gru_status \<times> file_store inspector \<times> unit) run" where
  "sample_collect modern = brokerd_collect (store_denv no_dirs) (sample_bmic modern) sample_io silent silent
     (sample_serving MAESTRO_NOTE_PING) 2 St_New sample_inspector ()"

lemma sample_log_init:
  "worker_log_init (de_path_exists (store_denv no_dirs)) (de_mkdirs (store_denv no_dirs)) (de_log_dir (store_denv no_dirs)) st w
    = (True, log_dir_path ''/l'' (PATH_MAX - 1) 0, st, w)"
  by (simp add: worker_log_init_def worker_log_fill_last_dir_def log_fill_loop.simps no_dirs_def store_denv_def)

lemma sample_prepare:
  "\<exists>ss s. brokerd_prepare (store_denv no_dirs) (sample_bmic modern) sample_io dir St_New sample_inspector = Some (True, ss, St_New, s) \<and>
     d_started (i_daemon s) \<and> i_options s = sample_options"
  by (simp add: brokerd_prepare_def bmic_writer_initialize_def bmic_writer_open_file_def mpt_init_bmic_ctxt_def mpt_purge_queue_def
      read_properties_def brokerd_dump_def bmic_dump_data_def worker_dump_def worker_dump_data_def dump_protocol_def
      queue_name_def in_world_def sample_bmic_def steady_defs sample_io_def store_io_def sample_inspector_def sample_options_def)

lemma sample_loop:
  assumes "d_started (i_daemon s)" and "i_options s = sample_options"
  shows "\<exists>ss' s'. inspection_loop (store_denv no_dirs) (sample_bmic modern) sample_io served (Suc fuel) j ss St_New s = Inr (ss', St_New, s')"
  using assms
  by (cases "ji_modern (ss_java_info ss)") (simp_all add: Let_def brokerd_update_def bmic_writer_current_time_def mpt_get_mem_info_def mpt_get_queue_stats_def queue_name_def
      brokerd_abort_check_def sample_bmic_def steady_defs sample_io_def store_io_def sample_options_def gru_status_error_def)

lemma sample_collect_succeeds: "\<exists>st' s'. sample_collect modern = Inr (True, st', s', ())"
proof -
  obtain ss s where p: "brokerd_prepare (store_denv no_dirs) (sample_bmic modern) sample_io (log_dir_path ''/l'' (PATH_MAX - 1) 0)
      St_New sample_inspector = Some (True, ss, St_New, s)" "d_started (i_daemon s)" "i_options s = sample_options"
    using sample_prepare by blast
  obtain ss' s' where l: "inspection_loop (store_denv no_dirs) (sample_bmic modern) sample_io (sample_serving MAESTRO_NOTE_PING)
      2 0 ss St_New s = Inr (ss', St_New, s')"
    using sample_loop [OF p(2,3), of modern _ 1] by (metis numeral_2_eq_2 One_nat_def)
  have "in_world sample_inspector (i_world sample_inspector) = sample_inspector" by (simp add: in_world_def)
  with p(1) l show ?thesis
    by (simp add: sample_collect_def brokerd_collect_def sample_log_init inspection_end_def silent_def case_prod_unfold Let_def)
qed

theorem inspector_report_witness:
  "\<exists>(s' :: file_store inspector) f ji rows. i_report s' = Some f \<and> fs_text (i_world s') f = inspector_header @ rows_text (sample_bmic False) sample_fmt rows \<and>
    columns (CHR '','') inspector_header = 27 \<and>
    (\<forall>(t, r) \<in> set rows. ss_java_info r = ji \<and>
      columns (CHR '','') (inspector_row (sample_bmic False) (sample_fmt t) r) = (if ji_modern ji then 27 else 23))"
proof -
  obtain st' s' where c: "sample_collect False = Inr (True, st', s', ())" using sample_collect_succeeds by blast
  have g: "broker_report sample_io fs_text sample_fmt (store_denv no_dirs) (sample_bmic False) (sample_serving MAESTRO_NOTE_PING)"
    unfolding sample_io_def sample_bmic_def sample_serving_def by (rule steady.broker_report_axioms)
  show ?thesis
    by (rule exI [of _ s'], rule inspector_report [OF g c [unfolded sample_collect_def]])
      (simp_all add: sample_fmt_def sample_bmic_def steady_bmic_def del: int_dec_def)
qed

lemma loop_ends:
  assumes "\<And>k s. returns (served k s)" and "\<And>s s'. served (j + n) s = Inr s' \<Longrightarrow> \<not> d_started (i_daemon s')" and "n + 1 < fuel"
  shows "returns (inspection_loop env b io served fuel j ss st s)"
  using assms(2,3)
proof (induction n arbitrary: fuel j ss st s)
  case 0
  then obtain m where "fuel = Suc (Suc m)" by (metis Suc_eq_plus1 add_0 gr0_conv_Suc less_iff_Suc_add add_Suc_shift)
  with 0 assms(1) show ?case
    by (auto intro!: returns_bind simp: case_prod_unfold split: if_splits)
next
  case (Suc n)
  then obtain m where m: "fuel = Suc m" "n + 1 < m" by (cases fuel) auto
  with Suc.IH [of "Suc j" m] Suc.prems(1) assms(1) show ?case
    by (auto intro!: returns_bind simp: case_prod_unfold)
qed

text \<open>
  Property C32, inspection_ends. An inspection returns: when the player thread serves a stop
  or a halt during the \<open>n\<close>th wait, the inspection ends after at most one wait more,
  whatever the broker answers.
\<close>

theorem inspection_ends:
  assumes "\<And>k s. returns (served k s)" and "\<And>s. served n s = serve (brokerd_handlers env io) c s"
    and "c = MAESTRO_NOTE_STOP_INSPECTOR \<or> c = MAESTRO_NOTE_HALT" and "n + 1 < fuel"
  shows "returns (brokerd_collect env b io failed successful served fuel st s v)"
proof -
  have "\<not> d_started (i_daemon s')" if "served n s = Inr s'" for s s'
    using that assms(2,3)
    by (auto simp: serve_def brokerd_handlers_def brokerd_handle_stop_def brokerd_handle_halt_def)
  then show ?thesis
    using loop_ends [where j = 0 and n = n and served = served and fuel = fuel] assms(1,4)
    by (auto simp: brokerd_collect_def case_prod_unfold intro!: returns_bind)
qed

definition idle_bmic :: "file_store bmic_api" where
  "idle_bmic = steady_bmic \<lparr>ji_name = ''jvm'', ji_version = ''8'', ji_package_version = ''1'', ji_modern = True\<rparr>
     zero_os_info zero_mem \<lparr>qs_queue_size = 0, qs_consumer_count = 0, qs_msg_ack_count = 0, qs_msg_exp_count = 0\<rparr>"

theorem inspection_ends_witness:
  "returns (brokerd_collect (store_denv no_dirs) idle_bmic sample_io silent silent
     (\<lambda>j. if j = 2 then sample_serving MAESTRO_NOTE_STOP_INSPECTOR j else Inr) 4 St_New sample_inspector ())"
  by (rule inspection_ends [where n = 2 and c = MAESTRO_NOTE_STOP_INSPECTOR])
    (auto simp: sample_serving_def serve_def brokerd_handlers_def brokerd_handle_stop_def)

lemma collect_refused:
  assumes "gru_status_error st"
    and "de_path_exists env (log_dir_path (de_log_dir env) (PATH_MAX - 1) 0) st = (True, st)"
  shows "brokerd_collect env b io failed successful served fuel st s v = Inr (False, st, s, v)"
  using assms
  by (simp add: brokerd_collect_def worker_log_init_def worker_log_fill_last_dir_def log_fill_loop.simps in_world_def worker_ret_defs)

text \<open>
  Also proved, inspector_stuck. The status is not reset between inspections: once one has
  failed and a log directory exists, every later start request is acknowledged but its
  inspection returns at once, with the state untouched and no notification sent, until
  the daemon is halted.
\<close>

theorem inspector_stuck:
  assumes "gru_status_error st"
    and "de_path_exists env (log_dir_path (de_log_dir env) (PATH_MAX - 1) 0) st = (True, st)"
  shows "brokerd_collect env b io failed successful serving n st s v = Inr (False, st, s, v) \<and>
    (brokerd_loop env b io failed successful served fuel k st s v = Inr (st', s', v') \<longrightarrow> st' = st \<and> v' = v)"
proof -
  have "st' = st \<and> v' = v" if "brokerd_loop env b io failed successful served fuel k st s v = Inr (st', s', v')" for fuel k s
    using that
    by (induction fuel arbitrary: k s)
      (auto simp: collect_refused [OF assms] run_bind_eq_Inr split: if_splits)
  then show ?thesis using collect_refused [OF assms] by simp
qed

theorem inspector_stuck_witness:
  "brokerd_collect (store_denv one_dir) idle_bmic sample_io silent silent (sample_serving MAESTRO_NOTE_PING) 5
      (St_Set GRU_FAILURE ''down'') sample_inspector () = Inr (False, St_Set GRU_FAILURE ''down'', sample_inspector, ())"
proof -
  have e: "gru_status_error (St_Set GRU_FAILURE ''down'')"
    "de_path_exists (store_denv one_dir :: file_store denv) (log_dir_path (de_log_dir (store_denv one_dir :: file_store denv)) (PATH_MAX - 1) 0) (St_Set GRU_FAILURE ''down'')
      = (True, St_Set GRU_FAILURE ''down'')"
    by (simp_all add: gru_status_error_def store_denv_def one_dir_def log_dir_path_def PATH_MAX_def nat_dec_small)
  show ?thesis by (rule inspector_stuck [OF e, THEN conjunct1])
qed

text \<open>
  Also proved, inspector_start_request. When the bytes of a start or stop request for the
  inspector arrive at the sheet of the inspector daemon, it starts exactly when no
  inspection is running or requested and stops in any case, and the bytes it answers
  say which.
\<close>

theorem inspector_start_request:
  assumes "msgpack mp" and "\<And>k. al k = None" and "brokerd_new_sheet env io al nl st0 = Some (Some sh, st1)"
    and "content_bytes req = Some (message_bytes mp (Plain_Request (command_code MAESTRO_NOTE_START_INSPECTOR)))"
    and "content_bytes req' = Some (message_bytes mp (Plain_Request (command_code MAESTRO_NOTE_STOP_INSPECTOR)))"
    and "\<And>c. length (message_bytes mp (Plain_Response c (pi_id pinfo) (pi_name pinfo))) < 2 ^ 64"
    and "busy = d_started (i_daemon s)"
  shows "(\<exists>out. maestro_sheet_play mp al sh pinfo req resp st s = Inr (out, st, if busy then s else set_started True s) \<and>
      content_bytes out = Some (message_bytes mp (Plain_Response
        (command_code (if busy then MAESTRO_NOTE_INTERNAL_ERROR else MAESTRO_NOTE_OK)) (pi_id pinfo) (pi_name pinfo)))) \<and>
    (\<exists>out. maestro_sheet_play mp al sh pinfo req' resp st s = Inr (out, st, set_started False s) \<and>
      content_bytes out = Some (message_bytes mp (Plain_Response (command_code MAESTRO_NOTE_OK) (pi_id pinfo) (pi_name pinfo))))"
proof (rule conjI, goal_cases)
  case 1
  note sh = assms(3) [unfolded brokerd_new_sheet_def]
  show ?case
    by (rule handler_answers_plain [OF assms(1,4) _ _ sh, where c = MAESTRO_NOTE_START_INSPECTOR and p = brokerd_handle_start])
      (use assms(2,6,7) in \<open>auto simp: message_ok_def brokerd_handlers_def brokerd_handle_start_def set_started_def\<close>)
next
  case 2
  note sh = assms(3) [unfolded brokerd_new_sheet_def]
  show ?case
    by (rule handler_answers_plain [OF assms(1,5) _ _ sh, where c = MAESTRO_NOTE_STOP_INSPECTOR and p = brokerd_handle_stop])
      (use assms(2,6) in \<open>auto simp: message_ok_def brokerd_handlers_def brokerd_handle_stop_def set_started_def\<close>)
qed

lemma sample_inspector_sheet:
  "\<exists>sh. brokerd_new_sheet (store_denv no_dirs) sample_io (\<lambda>k. None) None St_New = Some (Some sh, St_New)"
  by (simp add: brokerd_new_sheet_def daemon_new_sheet_def maestro_sheet_new_def add_instruments_all)

theorem inspector_start_request_witness:
  "\<exists>sh. (\<exists>out. maestro_sheet_play msgpack_format (\<lambda>k. None) sh \<lparr>pi_id = ''7'', pi_name = ''p''\<rparr>
        (sample_content (message_bytes msgpack_format (Plain_Request (command_code MAESTRO_NOTE_START_INSPECTOR)))) zero_content St_New
        (set_started False sample_inspector) = Inr (out, St_New, sample_inspector) \<and>
      content_bytes out = Some (message_bytes msgpack_format (Plain_Response 11 ''7'' ''p''))) \<and>
    (\<exists>out. maestro_sheet_play msgpack_format (\<lambda>k. None) sh \<lparr>pi_id = ''7'', pi_name = ''p''\<rparr>
        (sample_content (message_bytes msgpack_format (Plain_Request (command_code MAESTRO_NOTE_STOP_INSPECTOR)))) zero_content St_New
        (set_started False sample_inspector) = Inr (out, St_New, set_started False sample_inspector) \<and>
      content_bytes out = Some (message_bytes msgpack_format (Plain_Response 11 ''7'' ''p'')))"
proof -
  obtain sh where sh: "brokerd_new_sheet (store_denv no_dirs) sample_io (\<lambda>k. None) None St_New = Some (Some sh, St_New)"
    using sample_inspector_sheet by blast
  have r: "content_bytes (sample_content (message_bytes msgpack_format (Plain_Request c)))
      = Some (message_bytes msgpack_format (Plain_Request c))" for c
    by (rule sample_content_bytes) (simp add: format_defs)
  have l: "length (message_bytes msgpack_format (Plain_Response c ''7'' ''p'')) < 2 ^ 64" for c
    by (simp add: format_defs)
  show ?thesis
    using inspector_start_request [where al = "\<lambda>k. None" and s = "set_started False sample_inspector" and
        pinfo = "\<lparr>pi_id = ''7'', pi_name = ''p''\<rparr>" and resp = zero_content and st = St_New,
        OF mpf.msgpack_axioms _ sh r r _ refl] l
    by (auto simp: sample_inspector_def set_started_def)
qed

end
