(* ===== verification/Client.thy ===== *)
theory Client
  imports Player Queue
begin

text \<open>
  The maestro client, \<open>src/applications/maestro\<close>: the context of a connection
  (\<open>maestro_cmd_ctxt.c\<close>), the commands a user can give (\<open>maestro_command.c\<close>) and the
  process that forwards the answers of the daemons into a local SysV queue
  (\<open>maestro_forward_daemon.c\<close>, \<open>maestro_forward_queue.c\<close>). A command opens a connection,
  publishes one request and closes the connection; the answers are read from the
  queue by the \<open>collect\<close> command.

  A message of a SysV queue is a type of eight bytes followed by a text. The
  forwarder passes the bytes of a note where such a structure is expected, so the
  first eight bytes travel as the type; the messages of the queue are therefore
  pairs of byte lists here.
\<close>

section \<open>State and environment\<close>

record 'w cmd_ctxt =
  cc_vmsl :: "'w vmsl"
  cc_handlers :: handlers
  cc_msg_ctxt :: "msg_ctxt option"
  cc_queue :: int

type_synonym sysv_msg = "byte list \<times> byte list"

text \<open>
  What the client calls elsewhere: msgpack and \<open>gru_alloc\<close>; the URL of the options and
  \<open>gru_uri_clone\<close>; the protocol assignment; \<open>gru_list_new\<close>; the generator of identifiers;
  the SysV calls; the clock and \<open>sleep\<close>; the terminal; \<open>\%.2f\<close>; \<open>gru_trim\<close> and \<open>gru_split\<close>.
  \<open>ce_fuel\<close> bounds the loops that depend on other processes.
\<close>

record 'w cenv =
  ce_mp :: msgpack_api
  ce_al :: gru_allocator
  ce_uri :: gru_uri
  ce_clone :: "gru_uri \<Rightarrow> gru_status \<Rightarrow> gru_uri \<times> gru_status"
  ce_assign :: "gru_uri \<Rightarrow> 'w vmsl \<Rightarrow> bool \<times> 'w vmsl"
  ce_list_new :: "nat \<Rightarrow> bool"
  ce_uuid :: "'w \<Rightarrow> string \<times> 'w"
  ce_ipc :: "(sysv_msg, 'w) ipc_api"
  ce_now :: "'w \<Rightarrow> timestamp \<times> 'w"
  ce_sleep :: "u32 \<Rightarrow> 'w \<Rightarrow> 'w"
  ce_print :: "string \<Rightarrow> 'w \<Rightarrow> 'w"
  ce_fmt2 :: "u64 \<Rightarrow> string"
  ce_trim :: "string \<Rightarrow> string"
  ce_split :: "string \<Rightarrow> gru_status \<Rightarrow> string list option \<times> gru_status"
  ce_fuel :: nat

type_synonym 'w command_result = "int \<times> 'w cmd_ctxt \<times> gru_status \<times> 'w"

section \<open>The connection of a command\<close>

text \<open>\<open>msg_conn_info_gen_id\<close> of \<open>src/common/msg_conn_info.c\<close>: the block of 37 bytes is not checked.\<close>

definition msg_conn_info_gen_id :: "gru_allocator \<Rightarrow> ('w \<Rightarrow> string \<times> 'w) \<Rightarrow> 'w \<Rightarrow> (string \<times> 'w) undef" where
  "msg_conn_info_gen_id al uuid w = (case al 37 of Some m \<Rightarrow> None | None \<Rightarrow> Some (uuid w))"

definition create_forward_queue :: "(sysv_msg, 'w) ipc_api \<Rightarrow> gru_status \<Rightarrow> 'w \<Rightarrow> int \<times> gru_status \<times> 'w" where
  "create_forward_queue ipc st w = create_queue ipc (ipc_ftok ipc 49) st w"

definition sizeof_cmd_ctxt :: nat where
  "sizeof_cmd_ctxt = 136"

definition maestro_cmd_ctxt_new :: "'w cenv \<Rightarrow> gru_uri \<Rightarrow> gru_status \<Rightarrow> 'w \<Rightarrow>
    'w cmd_ctxt option \<times> gru_status \<times> 'w" where
  "maestro_cmd_ctxt_new env uri st w =
    (case ce_al env sizeof_cmd_ctxt of
       Some m \<Rightarrow> (None, alloc_fail m, w)
     | None \<Rightarrow> (case ce_assign env uri vmsl_init of (ok, v) \<Rightarrow>
         if \<not> ok then (None, st, w)
         else (case create_forward_queue (ce_ipc env) st w of (q, st1, w1) \<Rightarrow>
           if q < 0
           then (None, St_Set GRU_FAILURE (''Unable to initialize forward queue: '' @ gru_status_message st1 @ [CHR 0x0A]), w1)
           else (Some \<lparr>cc_vmsl = v, cc_handlers = vmslh_new (ce_list_new env), cc_msg_ctxt = None, cc_queue = q\<rparr>, st1, w1))))"

definition maestro_cmd_ctxt_destroy :: "'w cmd_ctxt option \<Rightarrow> 'w \<Rightarrow> 'w undef" where
  "maestro_cmd_ctxt_destroy p w =
    (case p of
       None \<Rightarrow> Some w
     | Some cc \<Rightarrow>
        (case cc_msg_ctxt cc of
           None \<Rightarrow> Some w
         | Some c \<Rightarrow> do {
             stop \<leftarrow> v_stop (cc_vmsl cc);
             destroy \<leftarrow> v_destroy (cc_vmsl cc);
             (case stop (Some c) St_New w of (st1, w1) \<Rightarrow> Some (snd (destroy (Some c) st1 w1)))
           }))"

definition maestro_cmd_ctxt_start :: "'w cmd_ctxt \<Rightarrow> msg_opt \<Rightarrow> gru_status \<Rightarrow> 'w \<Rightarrow>
    (bool \<times> 'w cmd_ctxt \<times> gru_status \<times> 'w) undef" where
  "maestro_cmd_ctxt_start cc opt st w = do {
     init \<leftarrow> v_init (cc_vmsl cc);
     (case init opt (cc_handlers cc) st w of (ctxt, h, st1, w1) \<Rightarrow>
       let cc1 = cc\<lparr>cc_msg_ctxt := ctxt, cc_handlers := h\<rparr> in
       case ctxt of
         None \<Rightarrow> Some (False, cc1, st1, w1)
       | Some c \<Rightarrow> do {
           start \<leftarrow> v_start (cc_vmsl cc);
           (case start c h st1 w1 of (sstat, st2, w2) \<Rightarrow> Some (\<not> vmsl_stat_error sstat, cc1, st2, w2))
         })
   }"

definition maestro_cmd_ctxt_stop :: "'w cmd_ctxt \<Rightarrow> gru_status \<Rightarrow> 'w \<Rightarrow> ('w cmd_ctxt \<times> gru_status \<times> 'w) undef" where
  "maestro_cmd_ctxt_stop cc st w = do {
     stop \<leftarrow> v_stop (cc_vmsl cc);
     destroy \<leftarrow> v_destroy (cc_vmsl cc);
     (case stop (cc_msg_ctxt cc) st w of (st1, w1) \<Rightarrow> do {
       c \<leftarrow> cc_msg_ctxt cc;
       (case destroy (Some c) st1 w1 of (st2, w2) \<Rightarrow> Some (cc\<lparr>cc_msg_ctxt := None\<rparr>, st2, w2))
     })
   }"

definition maestro_cmd_ctxt_forwarder :: "'w cmd_ctxt \<Rightarrow> mtopic_spec \<Rightarrow> gru_status \<Rightarrow> 'w \<Rightarrow>
    (bool \<times> gru_status \<times> 'w) undef" where
  "maestro_cmd_ctxt_forwarder cc mtopic st w = do {
     subscribe \<leftarrow> v_subscribe (cc_vmsl cc);
     c \<leftarrow> cc_msg_ctxt cc;
     (case subscribe c (Some mtopic) st w of (rstat, st1, w1) \<Rightarrow>
       if vmsl_stat_error rstat then do {
         w2 \<leftarrow> maestro_cmd_ctxt_destroy (Some cc) w1;
         Some (False, St_Set GRU_FAILURE ''Unable to subscribe to maestro broker'', w2)
       } else Some (True, st1, w1))
   }"

definition maestro_cmd_ctxt_send :: "'w cmd_ctxt \<Rightarrow> msg_content \<Rightarrow> gru_status \<Rightarrow> 'w \<Rightarrow>
    (bool \<times> gru_status \<times> 'w) undef" where
  "maestro_cmd_ctxt_send cc cmd st w = do {
     send \<leftarrow> v_send (cc_vmsl cc);
     c \<leftarrow> cc_msg_ctxt cc;
     (case send c (cc_handlers cc) cmd st w of (rstat, cmd', st1, w1) \<Rightarrow> Some (rstat = VMSL_SUCCESS, st1, w1))
   }"

section \<open>Commands that send a request\<close>

definition cmd_opts :: "string \<Rightarrow> gru_uri \<Rightarrow> msg_opt" where
  "cmd_opts cid uri = \<lparr>mo_direction = MSG_DIRECTION_SENDER, mo_statistics = MSG_STAT_NONE,
     mo_conn_id = cid, mo_uri = uri\<rparr>"

definition maestro_cmd_connect :: "'w cenv \<Rightarrow> 'w cmd_ctxt \<Rightarrow> gru_uri \<Rightarrow> gru_status \<Rightarrow> 'w \<Rightarrow> 'w command_result undef" where
  "maestro_cmd_connect env cc uri st w = do {
     (cid, w1) \<leftarrow> msg_conn_info_gen_id (ce_al env) (ce_uuid env) w;
     (case ce_clone env uri St_New of (u, st1) \<Rightarrow>
       if gru_status_error st1 then Some (- 1, cc, st1, w1)
       else do {
         (ok, cc1, st2, w2) \<leftarrow> maestro_cmd_ctxt_start cc (cmd_opts cid u) st1 w1;
         Some (if ok then 0 else 1, cc1, st2, w2)
       })
   }"

text \<open>\<open>gru_uri_set_path\<close> on the options of the open connection.\<close>

definition cmd_set_path :: "string \<Rightarrow> 'w cmd_ctxt \<Rightarrow> 'w cmd_ctxt undef" where
  "cmd_set_path path cc = map_option (\<lambda>c. cc\<lparr>cc_msg_ctxt := Some (ctxt_set_path path c)\<rparr>) (cc_msg_ctxt cc)"

text \<open>Sending the request and closing the connection; \<open>failed\<close> starts the message about a failure.\<close>

definition cmd_send_and_stop :: "'w cenv \<Rightarrow> string \<Rightarrow> 'w cmd_ctxt \<Rightarrow> msg_content \<Rightarrow> gru_status \<Rightarrow> 'w \<Rightarrow>
    'w command_result undef" where
  "cmd_send_and_stop env failed cc req st w = do {
     (ok, st1, w1) \<leftarrow> maestro_cmd_ctxt_send cc req st w;
     (let w2 = (if ok then w1 else ce_print env (failed @ '': '' @ gru_status_message st1 @ [CHR 0x0A]) w1) in do {
       (cc1, st2, w3) \<leftarrow> maestro_cmd_ctxt_stop cc st1 w2;
       Some (if ok then 0 else 1, cc1, st2, w3)
     })
   }"

definition maestro_cmd_without_payload :: "'w cenv \<Rightarrow> 'w cmd_ctxt \<Rightarrow> string \<Rightarrow> maestro_command \<Rightarrow> gru_status \<Rightarrow> 'w \<Rightarrow>
    'w command_result undef" where
  "maestro_cmd_without_payload env cc path cmd st w = do {
     (ret, cc1, st1, w1) \<leftarrow> maestro_cmd_connect env cc (ce_uri env) st w;
     if ret \<noteq> 0 then Some (ret, cc1, st1, w1)
     else do {
       cc2 \<leftarrow> cmd_set_path path cc1;
       req \<leftarrow> maestro_easy_request (ce_mp env) (ce_al env) zero_content cmd;
       cmd_send_and_stop env (''Failed to send command to '' @ path) cc2 req st1 w1
     }
   }"

definition MAESTRO_SENDER_DAEMONS :: string where "MAESTRO_SENDER_DAEMONS = ''/mpt/daemon/sender''"
definition MAESTRO_RECEIVER_DAEMONS :: string where "MAESTRO_RECEIVER_DAEMONS = ''/mpt/daemon/receiver''"
definition MAESTRO_BROKER_INSPECTOR_DAEMONS :: string where
  "MAESTRO_BROKER_INSPECTOR_DAEMONS = ''/mpt/daemon/brokerd''"

definition maestro_cmd_start_receiver :: "'w cenv \<Rightarrow> 'w cmd_ctxt \<Rightarrow> gru_status \<Rightarrow> 'w \<Rightarrow> 'w command_result undef" where
  "maestro_cmd_start_receiver env cc st w =
     maestro_cmd_without_payload env cc MAESTRO_RECEIVER_DAEMONS MAESTRO_NOTE_START_RECEIVER st w"

definition maestro_cmd_stop_receiver :: "'w cenv \<Rightarrow> 'w cmd_ctxt \<Rightarrow> gru_status \<Rightarrow> 'w \<Rightarrow> 'w command_result undef" where
  "maestro_cmd_stop_receiver env cc st w =
     maestro_cmd_without_payload env cc MAESTRO_RECEIVER_DAEMONS MAESTRO_NOTE_STOP_RECEIVER st w"

definition maestro_cmd_start_sender :: "'w cenv \<Rightarrow> 'w cmd_ctxt \<Rightarrow> gru_status \<Rightarrow> 'w \<Rightarrow> 'w command_result undef" where
  "maestro_cmd_start_sender env cc st w =
     maestro_cmd_without_payload env cc MAESTRO_SENDER_DAEMONS MAESTRO_NOTE_START_SENDER st w"

definition maestro_cmd_stop_sender :: "'w cenv \<Rightarrow> 'w cmd_ctxt \<Rightarrow> gru_status \<Rightarrow> 'w \<Rightarrow> 'w command_result undef" where
  "maestro_cmd_stop_sender env cc st w =
     maestro_cmd_without_payload env cc MAESTRO_SENDER_DAEMONS MAESTRO_NOTE_STOP_SENDER st w"

definition maestro_cmd_start_inspector :: "'w cenv \<Rightarrow> 'w cmd_ctxt \<Rightarrow> gru_status \<Rightarrow> 'w \<Rightarrow> 'w command_result undef" where
  "maestro_cmd_start_inspector env cc st w =
     maestro_cmd_without_payload env cc MAESTRO_BROKER_INSPECTOR_DAEMONS MAESTRO_NOTE_START_INSPECTOR st w"

definition maestro_cmd_stop_inspector :: "'w cenv \<Rightarrow> 'w cmd_ctxt \<Rightarrow> gru_status \<Rightarrow> 'w \<Rightarrow> 'w command_result undef" where
  "maestro_cmd_stop_inspector env cc st w =
     maestro_cmd_without_payload env cc MAESTRO_BROKER_INSPECTOR_DAEMONS MAESTRO_NOTE_STOP_INSPECTOR st w"

definition maestro_cmd_start_all :: "'w cenv \<Rightarrow> 'w cmd_ctxt \<Rightarrow> gru_status \<Rightarrow> 'w \<Rightarrow> 'w command_result undef" where
  "maestro_cmd_start_all env cc st w = do {
     (r1, cc1, st1, w1) \<leftarrow> maestro_cmd_start_inspector env cc st w;
     (r2, cc2, st2, w2) \<leftarrow> maestro_cmd_start_receiver env cc1 st1 w1;
     maestro_cmd_start_sender env cc2 st2 w2
   }"

definition maestro_cmd_stop_all :: "'w cenv \<Rightarrow> 'w cmd_ctxt \<Rightarrow> gru_status \<Rightarrow> 'w \<Rightarrow> 'w command_result undef" where
  "maestro_cmd_stop_all env cc st w = do {
     (r1, cc1, st1, w1) \<leftarrow> maestro_cmd_stop_sender env cc st w;
     (r2, cc2, st2, w2) \<leftarrow> maestro_cmd_stop_receiver env cc1 st1 w1;
     maestro_cmd_stop_inspector env cc2 st2 w2
   }"

definition maestro_cmd_flush :: "'w cenv \<Rightarrow> 'w cmd_ctxt \<Rightarrow> gru_status \<Rightarrow> 'w \<Rightarrow> 'w command_result undef" where
  "maestro_cmd_flush env cc st w = maestro_cmd_without_payload env cc MAESTRO_ALL_DAEMONS MAESTRO_NOTE_FLUSH st w"

definition maestro_cmd_halt :: "'w cenv \<Rightarrow> 'w cmd_ctxt \<Rightarrow> gru_status \<Rightarrow> 'w \<Rightarrow> 'w command_result undef" where
  "maestro_cmd_halt env cc st w = maestro_cmd_without_payload env cc MAESTRO_ALL_DAEMONS MAESTRO_NOTE_HALT st w"

section \<open>Options and pings\<close>

text \<open>The cascade of \<open>strcmp\<close> of \<open>maestro_cmd_set_opt_by_name\<close>.\<close>

definition opt_by_name :: "string \<Rightarrow> set_opt option" where
  "opt_by_name opt =
    (if opt = ''broker'' then Some MAESTRO_NOTE_OPT_SET_BROKER
     else if opt = ''duration'' then Some MAESTRO_NOTE_OPT_SET_DURATION_TYPE
     else if opt = ''log-level'' then Some MAESTRO_NOTE_OPT_SET_LOG_LEVEL
     else if opt = ''parallel-count'' then Some MAESTRO_NOTE_OPT_SET_PARALLEL_COUNT
     else if opt = ''message-size'' then Some MAESTRO_NOTE_OPT_SET_MESSAGE_SIZE
     else if opt = ''throttle'' then Some MAESTRO_NOTE_OPT_SET_THROTTLE
     else if opt = ''rate'' then Some MAESTRO_NOTE_OPT_SET_RATE
     else if opt = ''fcl'' then Some MAESTRO_NOTE_OPT_FCL
     else None)"

definition maestro_cmd_set_opt_by_name :: "msgpack_api \<Rightarrow> gru_allocator \<Rightarrow> msg_content \<Rightarrow> string \<Rightarrow> string \<Rightarrow> gru_status \<Rightarrow>
    (int \<times> msg_content \<times> gru_status) undef" where
  "maestro_cmd_set_opt_by_name mp al data opt val st =
    (let note = maestro_note_set_cmd MAESTRO_NOTE_SET (maestro_note_set_type MAESTRO_TYPE_REQUEST zero_note) in
     case maestro_note_payload_prepare al note st of (ok, note1, st1) \<Rightarrow>
       if \<not> ok then Some (- 1, data, st1)
       else (case opt_by_name opt of
           None \<Rightarrow> Some (- 1, data, st1)
         | Some o' \<Rightarrow> do {
             note2 \<leftarrow> maestro_note_set_opt al o' val note1;
             (b, data') \<leftarrow> maestro_serialize_note mp al note2 data;
             note3 \<leftarrow> maestro_note_payload_cleanup note2;
             Some (0, data', st1)
           }))"

text \<open>The words of a command line; \<open>gru_list_get\<close> beyond the end is a null pointer.\<close>

definition maestro_cmd_get_string :: "string list option \<Rightarrow> nat \<Rightarrow> string option" where
  "maestro_cmd_get_string strings pos =
    (case strings of None \<Rightarrow> None | Some ss \<Rightarrow> if pos < length ss then Some (ss ! pos) else None)"

definition maestro_cmd_set_opt :: "'w cenv \<Rightarrow> 'w cmd_ctxt \<Rightarrow> string list option \<Rightarrow> gru_status \<Rightarrow> 'w \<Rightarrow>
    'w command_result undef" where
  "maestro_cmd_set_opt env cc strings st w =
    (case maestro_cmd_get_string strings 1 of
       None \<Rightarrow> Some (1, cc, St_Set GRU_FAILURE ''Missing option name'', w)
     | Some opt \<Rightarrow>
        (case maestro_cmd_get_string strings 2 of
           None \<Rightarrow> Some (1, cc, St_Set GRU_FAILURE ''Missing option value: parser error'', w)
         | Some val \<Rightarrow> do {
             (ret, cc1, st1, w1) \<leftarrow> maestro_cmd_connect env cc (ce_uri env) st w;
             if ret \<noteq> 0 then Some (ret, cc1, st1, w1)
             else do {
               cc2 \<leftarrow> cmd_set_path MAESTRO_ALL_DAEMONS cc1;
               (r, req, st2) \<leftarrow> maestro_cmd_set_opt_by_name (ce_mp env) (ce_al env) zero_content opt val st1;
               if r = - 1 then do {
                 (cc3, st3, w3) \<leftarrow> maestro_cmd_ctxt_stop cc2 (St_Set GRU_FAILURE (''Invalid option: '' @ opt)) w1;
                 Some (1, cc3, st3, w3)
               } else cmd_send_and_stop env ''Failed to send command'' cc2 req st2 w1
             }
           }))"

definition maestro_cmd_request_ping :: "msgpack_api \<Rightarrow> gru_allocator \<Rightarrow> ('w \<Rightarrow> timestamp \<times> 'w) \<Rightarrow> msg_content \<Rightarrow>
    gru_status \<Rightarrow> 'w \<Rightarrow> (msg_content \<times> gru_status \<times> 'w) undef" where
  "maestro_cmd_request_ping mp al now out st w =
    (case maestro_note_payload_prepare al zero_note st of (ok, note, st1) \<Rightarrow>
       if \<not> ok then Some (out, st1, w)
       else (case now w of (ts, w1) \<Rightarrow> do {
         note1 \<leftarrow> maestro_note_ping_set_ts ts
           (maestro_note_set_cmd MAESTRO_NOTE_PING (maestro_note_set_type MAESTRO_TYPE_REQUEST note));
         (b, out') \<leftarrow> maestro_serialize_note mp al note1 out;
         note2 \<leftarrow> maestro_note_payload_cleanup note1;
         Some (out', st1, w1)
       }))"

text \<open>When the ping cannot be built, the command returns with the connection open.\<close>

definition maestro_cmd_ping :: "'w cenv \<Rightarrow> 'w cmd_ctxt \<Rightarrow> gru_status \<Rightarrow> 'w \<Rightarrow> 'w command_result undef" where
  "maestro_cmd_ping env cc st w = do {
     (ret, cc1, st1, w1) \<leftarrow> maestro_cmd_connect env cc (ce_uri env) st w;
     if ret \<noteq> 0 then Some (ret, cc1, st1, w1)
     else do {
       cc2 \<leftarrow> cmd_set_path MAESTRO_ALL_DAEMONS cc1;
       (req, st2, w2) \<leftarrow> maestro_cmd_request_ping (ce_mp env) (ce_al env) (ce_now env) zero_content st1 w1;
       if \<not> gru_status_success st2 then Some (1, cc2, st2, w2)
       else cmd_send_and_stop env ''Failed to send command'' cc2 req st2 w2
     }
   }"

section \<open>Collecting the answers\<close>

text \<open>What \<open>printf\<close> writes for \<open>\%-\<close>\<^emph>\<open>n\<close>\<open>s\<close>.\<close>

definition pad_right :: "nat \<Rightarrow> string \<Rightarrow> string" where
  "pad_right n s = s @ replicate (n - length s) (CHR '' '')"

definition cmd_switch :: "u32 \<Rightarrow> (maestro_command \<times> 'a) list \<Rightarrow> 'a \<Rightarrow> 'a" where
  "cmd_switch c cases dflt =
    (case find (\<lambda>(k, a). command_code k = c) cases of Some (k, a) \<Rightarrow> a | None \<Rightarrow> dflt)"

definition response_line :: "'w cenv \<Rightarrow> maestro_note \<Rightarrow> string undef" where
  "response_line env note = cmd_switch (n_command note)
    [(MAESTRO_NOTE_OK, Some ''Response: OK''),
     (MAESTRO_NOTE_PING, do {
        e \<leftarrow> note_bits note ping_elapsed;
        Some (''Time: '' @ nat_dec (unat e) @ '' ms'')
      }),
     (MAESTRO_NOTE_STATS, do {
        cc \<leftarrow> note_bits note stats_child_count;
        c \<leftarrow> note_bits note perf_count;
        r \<leftarrow> note_bits note perf_rate;
        l \<leftarrow> note_bits note perf_latency;
        Some (''Children: '' @ nat_dec (unat (ucast cc :: u32)) @ '' Count: '' @ nat_dec (unat c) @
          '' Rate: '' @ ce_fmt2 env r @ '' Latency: '' @ ce_fmt2 env l)
      }),
     (MAESTRO_NOTE_PROTOCOL_ERROR, Some ''Error: one of more of the commands did not complete successfully''),
     (MAESTRO_NOTE_INTERNAL_ERROR, Some ''Error: internal server error'')]
    (Some (''Error: unhandled response: '' @ int_dec (sint (n_command note))))"

definition maestro_cmd_print_responses :: "'w cenv \<Rightarrow> maestro_note \<Rightarrow> 'w \<Rightarrow> 'w undef" where
  "maestro_cmd_print_responses env note w = do {
     name \<leftarrow> note_str note response_name;
     cid \<leftarrow> note_str note response_id;
     line \<leftarrow> response_line env note;
     Some (ce_print env (''Name: '' @ pad_right 45 name @ [CHR 0x09] @ ''ID: '' @ pad_right 40 cid @ '' '' @
       line @ [CHR 0x0A]) w)
   }"

definition notification_line :: "maestro_note \<Rightarrow> string undef" where
  "notification_line note = cmd_switch (n_command note)
    [(MAESTRO_NOTE_ABNORMAL_DISCONNECT, note_str note notification_message),
     (MAESTRO_NOTE_NOTIFY_FAIL, note_str note notification_message),
     (MAESTRO_NOTE_NOTIFY_SUCCESS, note_str note notification_message)]
    (Some ''Error: unhandled notification'')"

definition maestro_cmd_print_notifications :: "'w cenv \<Rightarrow> maestro_note \<Rightarrow> 'w \<Rightarrow> 'w undef" where
  "maestro_cmd_print_notifications env note w = do {
     name \<leftarrow> note_str note response_name;
     cid \<leftarrow> note_str note response_id;
     line \<leftarrow> notification_line note;
     Some (ce_print env (''Notification from: '' @ pad_right 45 name @ [CHR 0x09] @ ''ID: '' @ pad_right 40 cid @
       '' Message: '' @ line @ [CHR 0x0A]) w)
   }"

text \<open>One message from the queue: what is printed for it, and the status the parser leaves.\<close>

definition collect_message :: "'w cenv \<Rightarrow> byte list \<Rightarrow> gru_status \<Rightarrow> 'w \<Rightarrow> (gru_status \<times> 'w) undef" where
  "collect_message env bytes st w =
    (let msg = snd (msg_content_data_copy (ce_al env) zero_content bytes) in do {
       (ok, note, st1) \<leftarrow> maestro_deserialize_note (ce_mp env) (ce_al env) msg zero_note st;
       w1 \<leftarrow> (if \<not> ok then Some (ce_print env (''Unknown protocol data'' @ [CHR 0x0A]) w)
             else if n_type note = type_code MAESTRO_TYPE_RESPONSE then maestro_cmd_print_responses env note w
             else maestro_cmd_print_notifications env note w);
       note' \<leftarrow> maestro_note_payload_cleanup note;
       Some (st1, w1)
     })"

text \<open>
  \<open>msgrcv\<close> stores the type and the text of the message from the start of a local
  buffer of \<open>MAESTRO_NOTE_SIZE\<close> bytes and returns the length of the text.
\<close>

fun maestro_cmd_do_collect :: "'w cenv \<Rightarrow> nat \<Rightarrow> 'w cmd_ctxt \<Rightarrow> gru_status \<Rightarrow> 'w \<Rightarrow> (int \<times> gru_status \<times> 'w) run" where
  "maestro_cmd_do_collect env 0 cc st w = Inl Out_of_fuel"
| "maestro_cmd_do_collect env (Suc fuel) cc st w =
    (case ipc_msgrcv (ce_ipc env) (cc_queue cc) (unat MAESTRO_NOTE_SIZE) w of
       (Empty_Queue, w1) \<Rightarrow> Inr (0, st, w1)
     | (Receive_Error, w1) \<Rightarrow> Inr (1, st, ce_print env (''Failed to read 256 bytes from the local forward queue: '' @
         ipc_strerror (ce_ipc env) @ [CHR 0x0A]) w1)
     | (Received (mtype, mtext), w1) \<Rightarrow>
         run_bind (of_undef (overlay (mtype @ mtext) (zero_block (unat MAESTRO_NOTE_SIZE)))) (\<lambda>buf.
         run_bind (of_undef (collect_message env (take (length mtext) buf) st w1)) (\<lambda>(st', w').
         maestro_cmd_do_collect env fuel cc st' w')))"

text \<open>
  The counted loop of \<open>collect\<close> and \<open>stats\<close>. Its counter is an \<open>int\<close> and its bound a
  \<open>uint32_t\<close>: with a bound above the largest \<open>int\<close> the increment overflows, which is
  undefined.
\<close>

fun cmd_rounds :: "'w cenv \<Rightarrow> ('w cmd_ctxt \<Rightarrow> gru_status \<Rightarrow> 'w \<Rightarrow> 'w command_result run) \<Rightarrow> bool \<Rightarrow> nat \<Rightarrow> u32 \<Rightarrow>
    'w cmd_ctxt \<Rightarrow> gru_status \<Rightarrow> 'w \<Rightarrow> 'w command_result run" where
  "cmd_rounds env body overflow 0 interval cc st w = (if overflow then Inl Undefined else Inr (0, cc, st, w))"
| "cmd_rounds env body overflow (Suc n) interval cc st w =
    run_bind (body cc st w) (\<lambda>(ret, cc1, st1, w1).
    if ret \<noteq> 0 then Inr (ret, cc1, st1, w1)
    else cmd_rounds env body overflow n interval cc1 st1 (ce_sleep env interval w1))"

definition cmd_counted :: "'w cenv \<Rightarrow> ('w cmd_ctxt \<Rightarrow> gru_status \<Rightarrow> 'w \<Rightarrow> 'w command_result run) \<Rightarrow> u32 \<Rightarrow> u32 \<Rightarrow>
    'w cmd_ctxt \<Rightarrow> gru_status \<Rightarrow> 'w \<Rightarrow> 'w command_result run" where
  "cmd_counted env body count interval cc st w =
     cmd_rounds env body (2 ^ 31 \<le> unat count) (min (unat count) (2 ^ 31)) interval cc st w"

definition do_collect :: "'w cenv \<Rightarrow> 'w cmd_ctxt \<Rightarrow> gru_status \<Rightarrow> 'w \<Rightarrow> 'w command_result run" where
  "do_collect env cc st w =
     run_bind (maestro_cmd_do_collect env (ce_fuel env) cc st w) (\<lambda>(ret, st', w'). Inr (ret, cc, st', w'))"

definition maestro_cmd_collect :: "'w cenv \<Rightarrow> 'w cmd_ctxt \<Rightarrow> string list option \<Rightarrow> gru_status \<Rightarrow> 'w \<Rightarrow>
    'w command_result run" where
  "maestro_cmd_collect env cc strings st w =
    (case (maestro_cmd_get_string strings 1, maestro_cmd_get_string strings 2) of
       (Some count, Some interval) \<Rightarrow> cmd_counted env (do_collect env) (atoi count) (atoi interval) cc st w
     | _ \<Rightarrow> do_collect env cc st w)"

definition stats_round :: "'w cenv \<Rightarrow> 'w cmd_ctxt \<Rightarrow> gru_status \<Rightarrow> 'w \<Rightarrow> 'w command_result run" where
  "stats_round env cc st w =
    run_bind (of_undef (maestro_cmd_without_payload env cc MAESTRO_ALL_DAEMONS MAESTRO_NOTE_STATS st w))
      (\<lambda>(ret, cc1, st1, w1). if ret \<noteq> 0 then Inr (ret, cc1, st1, w1) else do_collect env cc1 st1 w1)"

definition maestro_cmd_stats :: "'w cenv \<Rightarrow> 'w cmd_ctxt \<Rightarrow> string list option \<Rightarrow> gru_status \<Rightarrow> 'w \<Rightarrow>
    'w command_result run" where
  "maestro_cmd_stats env cc strings st w =
    (case (maestro_cmd_get_string strings 1, maestro_cmd_get_string strings 2) of
       (Some count, Some interval) \<Rightarrow> cmd_counted env (stats_round env) (atoi count) (atoi interval) cc st w
     | _ \<Rightarrow> of_undef (maestro_cmd_without_payload env cc MAESTRO_ALL_DAEMONS MAESTRO_NOTE_STATS st w))"

section \<open>The forward daemon\<close>

text \<open>\<open>msgsnd (queue, data, size)\<close>: the type is the first eight bytes of the block, the
  text the next \<open>size\<close> bytes; a null pointer makes the call fail.\<close>

definition forward_send :: "'w cenv \<Rightarrow> int \<Rightarrow> msg_content \<Rightarrow> 'w \<Rightarrow> (bool \<times> 'w) undef" where
  "forward_send env q resp w =
    (case mc_data resp of
       None \<Rightarrow> Some (False, w)
     | Some d \<Rightarrow>
        (if 8 + unat (mc_size resp) \<le> length d
         then Some (ipc_msgsnd (ce_ipc env) q (unat (mc_size resp)) (take 8 d, take (unat (mc_size resp)) (drop 8 d)) w)
         else None))"

definition MAESTRO_FWD_DATA_WAIT :: nat where "MAESTRO_FWD_DATA_WAIT = 500000"

text \<open>\<open>usleep\<close> is a parameter; the loop ends only when a receive fails.\<close>

fun forward_loop :: "'w cenv \<Rightarrow> (nat \<Rightarrow> 'w \<Rightarrow> 'w) \<Rightarrow> nat \<Rightarrow> 'w cmd_ctxt \<Rightarrow> int \<Rightarrow> msg_content \<Rightarrow> gru_status \<Rightarrow> 'w \<Rightarrow>
    (gru_status \<times> 'w) run" where
  "forward_loop env usleep 0 cc q resp st w = Inl Out_of_fuel"
| "forward_loop env usleep (Suc fuel) cc q resp st w =
    run_bind (of_undef (v_receive (cc_vmsl cc))) (\<lambda>receive.
    run_bind (of_undef (cc_msg_ctxt cc)) (\<lambda>c.
    case receive c (cc_handlers cc) resp st w of (rstat, resp1, st1, w1) \<Rightarrow>
      if vmsl_stat_error rstat then Inr (St_Set GRU_FAILURE ''Error receiving maestro message'', w1)
      else if \<not> vmsl_has_data rstat then
        forward_loop env usleep fuel cc q resp1 st1 (usleep MAESTRO_FWD_DATA_WAIT w1)
      else
        run_bind (of_undef (forward_send env q resp1 w1)) (\<lambda>(ok, w2).
        run_bind (of_undef (msg_content_data_reset resp1)) (\<lambda>resp2.
        forward_loop env usleep fuel cc q resp2
          (if ok then st1 else St_Set GRU_FAILURE ''Unable to send message through the local forward queue'') w2))))"

definition maestro_loop_reply_run :: "'w cenv \<Rightarrow> (nat \<Rightarrow> 'w \<Rightarrow> 'w) \<Rightarrow> 'w cmd_ctxt \<Rightarrow> int \<Rightarrow> gru_status \<Rightarrow> 'w \<Rightarrow>
    (gru_status \<times> 'w) run" where
  "maestro_loop_reply_run env usleep cc q st w =
    (case msg_content_data_init (ce_al env) MAESTRO_NOTE_SIZE st zero_content of
       (resp, st1) \<Rightarrow> forward_loop env usleep (ce_fuel env) cc q resp st1 w)"

definition MAESTRO_CLI_COUNT :: int where "MAESTRO_CLI_COUNT = 2"
definition MAESTRO_CLI_TOPICS :: "string list" where "MAESTRO_CLI_TOPICS = [MAESTRO_TOPIC, MAESTRO_NOTIFICATIONS]"

definition forward_location :: mtopic_spec where
  "forward_location = \<lparr>mt_count = MAESTRO_CLI_COUNT, mt_topics = MAESTRO_CLI_TOPICS, mt_qos = MAESTRO_DEFAULT_QOS\<rparr>"

text \<open>A failed start returns with whatever status the messaging functions left.\<close>

definition maestro_loop_reply :: "'w cenv \<Rightarrow> (nat \<Rightarrow> 'w \<Rightarrow> 'w) \<Rightarrow> gru_status \<Rightarrow> 'w \<Rightarrow> (gru_status \<times> 'w) run" where
  "maestro_loop_reply env usleep st w =
    (case ce_clone env (ce_uri env) st of (uri, st1) \<Rightarrow>
      if \<not> gru_status_success st1 then Inr (st1, w)
      else run_bind (of_undef (msg_conn_info_gen_id (ce_al env) (ce_uuid env) w)) (\<lambda>(cid, w1).
        let uri' = uri\<lparr>uri_path := MAESTRO_TOPIC\<rparr>;
            opt = \<lparr>mo_direction = MSG_DIRECTION_RECEIVER, mo_statistics = MSG_STAT_NONE, mo_conn_id = cid, mo_uri = uri'\<rparr> in
        case maestro_cmd_ctxt_new env uri' st1 w1 of
          (None, st2, w2) \<Rightarrow> Inr (St_Set GRU_FAILURE ''Unable to initialize command context'', w2)
        | (Some cc, st2, w2) \<Rightarrow>
            run_bind (of_undef (maestro_cmd_ctxt_start cc opt st2 w2)) (\<lambda>(ok, cc1, st3, w3).
            if \<not> ok then Inr (st3, w3)
            else run_bind (of_undef (maestro_cmd_ctxt_forwarder cc1 forward_location st3 w3)) (\<lambda>(sub, st4, w4).
              if \<not> sub then Inr (st4, w4)
              else run_bind (maestro_loop_reply_run env usleep cc1 (cc_queue cc1) st4 w4) (\<lambda>(st5, w5).
                run_bind (of_undef (maestro_cmd_ctxt_destroy (Some cc1) w5)) (\<lambda>w6. Inr (st5, w6)))))))"

definition maestro_forward_daemon_run :: "'w cenv \<Rightarrow> (nat \<Rightarrow> 'w \<Rightarrow> 'w) \<Rightarrow> 'w \<Rightarrow> (int \<times> 'w) run" where
  "maestro_forward_daemon_run env usleep w =
    run_bind (maestro_loop_reply env usleep St_New w) (\<lambda>(st, w').
    Inr (if gru_status_success st then 0 else 1, w'))"

section \<open>What is printed for a message\<close>

text \<open>The line a user sees for an answer or a notification that says \<open>m\<close>.\<close>

definition response_head :: "string \<Rightarrow> string \<Rightarrow> string" where
  "response_head name cid = ''Name: '' @ pad_right 45 name @ [CHR 0x09] @ ''ID: '' @ pad_right 40 cid @ '' ''"

definition plain_text :: "u32 \<Rightarrow> string" where
  "plain_text c = cmd_switch c
    [(MAESTRO_NOTE_OK, ''Response: OK''),
     (MAESTRO_NOTE_PROTOCOL_ERROR, ''Error: one of more of the commands did not complete successfully''),
     (MAESTRO_NOTE_INTERNAL_ERROR, ''Error: internal server error'')]
    (''Error: unhandled response: '' @ int_dec (sint c))"

fun message_line :: "'w cenv \<Rightarrow> maestro_message \<Rightarrow> string" where
  "message_line env (Ping_Response cid name e) = response_head name cid @ ''Time: '' @ nat_dec (unat e) @ '' ms'' @ [CHR 0x0A]"
| "message_line env (Stats_Response cid name cc role info ty ts c r l) = response_head name cid @
     ''Children: '' @ nat_dec (unat cc) @ '' Count: '' @ nat_dec (unat c) @ '' Rate: '' @ ce_fmt2 env r @
     '' Latency: '' @ ce_fmt2 env l @ [CHR 0x0A]"
| "message_line env (Plain_Response c cid name) = response_head name cid @ plain_text c @ [CHR 0x0A]"
| "message_line env (Notification c cid name m) = ''Notification from: '' @ pad_right 45 name @ [CHR 0x09] @ ''ID: '' @
     pad_right 40 cid @ '' Message: '' @
     (if c \<in> command_code ` {MAESTRO_NOTE_ABNORMAL_DISCONNECT, MAESTRO_NOTE_NOTIFY_FAIL, MAESTRO_NOTE_NOTIFY_SUCCESS}
      then m else ''Error: unhandled notification'') @ [CHR 0x0A]"
| "message_line env m = []"

fun is_answer :: "maestro_message \<Rightarrow> bool" where
  "is_answer (Set_Request opt v) = False"
| "is_answer (Ping_Request s u) = False"
| "is_answer (Plain_Request c) = False"
| "is_answer m = True"

lemma cmd_switch_simps [simp]:
  "cmd_switch c [] d = d"
  "cmd_switch c ((k, a) # cs) d = (if command_code k = c then a else cmd_switch c cs d)"
  by (simp_all add: cmd_switch_def)

lemma print_response:
  assumes "n_type n = type_code MAESTRO_TYPE_RESPONSE" and "response_view n = Some m"
  shows "maestro_cmd_print_responses env n w = Some (ce_print env (message_line env m) w)"
  using assms
  by (auto simp: response_view_def stats_view_def maestro_cmd_print_responses_def response_line_def response_head_def
      plain_text_def bind_eq_Some_conv int_dec_def split: if_splits)

lemma print_notification:
  assumes "notification_view n = Some m"
  shows "maestro_cmd_print_notifications env n w = Some (ce_print env (message_line env m) w)"
  using assms
  by (auto simp: notification_view_def maestro_cmd_print_notifications_def notification_line_def bind_eq_Some_conv
      split: if_splits)

lemma print_answer:
  assumes "note_view n = Some m" and "is_answer m"
  shows "(if n_type n = type_code MAESTRO_TYPE_RESPONSE then maestro_cmd_print_responses env n w
     else maestro_cmd_print_notifications env n w) = Some (ce_print env (message_line env m) w)"
proof (cases "n_type n = type_code MAESTRO_TYPE_RESPONSE")
  case True
  with assms(1) show ?thesis by (simp add: note_view_def print_response)
next
  case False
  then have "n_type n = type_code MAESTRO_TYPE_NOTIFICATION"
    using assms by (auto simp: note_view_def request_view_def bind_eq_Some_conv split: if_splits)
  with assms(1) show ?thesis by (simp add: note_view_def print_notification)
qed

lemma collect_message_line:
  assumes "msgpack (ce_mp env)" and "message_ok (ce_al env) m" and "message_proper m" and "is_answer m"
    and "ce_al env (length (message_bytes (ce_mp env) m)) = None" and "length (message_bytes (ce_mp env) m) < 2 ^ 64"
  shows "collect_message env (message_bytes (ce_mp env) m) st w = Some (st, ce_print env (message_line env m) w)"
proof -
  let ?msg = "snd (msg_content_data_copy (ce_al env) zero_content (message_bytes (ce_mp env) m))"
  have "content_bytes ?msg = Some (message_bytes (ce_mp env) m @ [])" using assms(5,6) by (simp add: copy_bytes)
  from msgpack.deserialize_message [OF assms(1-3) this]
  obtain n where n: "maestro_deserialize_note (ce_mp env) (ce_al env) ?msg zero_note st = Some (True, n, st)"
    "note_view n = Some m" "note_wf n"
    by blast
  then have "maestro_note_payload_cleanup n = Some (n\<lparr>n_payload := PNull\<rparr>)"
    by (intro note_view_cleanup) (auto simp: note_wf_def)
  with n print_answer [OF n(2) assms(4), of env w] show ?thesis
    by (simp add: collect_message_def Let_def)
qed

section \<open>The queue between the forwarder and the client\<close>

text \<open>
  The bytes \<open>bs\<close> of a note in a block that has eight more bytes after them, as the
  forwarder hands them to \<open>msgsnd\<close>.
\<close>

definition framed :: "byte list \<Rightarrow> sysv_msg \<Rightarrow> bool" where
  "framed bs m = (length (fst m) = 8 \<and> length (snd m) = length bs \<and> take (length bs) (fst m @ snd m) = bs)"

text \<open>\<open>msgsnd\<close> refuses a type that is not positive as a \<open>long\<close>.\<close>

definition mtype_ok :: "byte list \<Rightarrow> bool" where
  "mtype_ok t = (0 < le_val t \<and> le_val t < 2 ^ 63)"

lemma framed_buffer:
  assumes "framed bs (t, x)" and "length bs \<le> 248"
  shows "\<exists>buf. overlay (t @ x) (zero_block (unat MAESTRO_NOTE_SIZE)) = Some buf \<and> take (length x) buf = bs"
  using assms by (auto simp: framed_def overlay_def MAESTRO_NOTE_SIZE_def)

lemma forward_send_framed:
  assumes "content_bytes resp = Some bs" and "mc_data resp = Some d" and "8 + length bs \<le> length d"
  shows "\<exists>m. framed bs m \<and> fst m = take 8 d \<and> forward_send env q resp w = Some (ipc_msgsnd (ce_ipc env) q (length bs) m w)"
proof -
  from assms(1,2) have s: "unat (mc_size resp) = length bs" "take (length bs) d = bs"
    using assms(3) by (auto simp: content_bytes_def split: if_splits)
  have "take 8 d @ take (length bs) (drop 8 d) = take (8 + length bs) d" by (simp add: take_add)
  moreover have "min (length bs) (length d - 8) = length bs" and "min (length d) 8 = 8" using assms(3) by linarith+
  ultimately have "framed bs (take 8 d, take (length bs) (drop 8 d))"
    using s(2) by (simp add: framed_def min.absorb1)
  with s(1) assms(2,3) show ?thesis by (intro exI [of _ "(take 8 d, take (length bs) (drop 8 d))"]) (simp add: forward_send_def)
qed

text \<open>
  What the client relies on: the calls on the SysV queue keep messages in order,
  accept a message whose type is positive when there is room, deliver a text that fits the length
  asked for and leave the terminal alone; printing appends a text to what the
  terminal shows and leaves the queue alone.
\<close>

locale client_queue =
  fixes env :: "'w cenv" and q :: int and queued :: "'w \<Rightarrow> sysv_msg list" and printed :: "'w \<Rightarrow> string list"
    and room :: "'w \<Rightarrow> nat"
  assumes receive_first: "queued w = m # ms \<Longrightarrow> length (snd m) \<le> n \<Longrightarrow>
      \<exists>w'. ipc_msgrcv (ce_ipc env) q n w = (Received m, w') \<and> queued w' = ms \<and> printed w' = printed w"
    and receive_empty: "queued w = [] \<Longrightarrow> ipc_msgrcv (ce_ipc env) q n w = (Empty_Queue, w)"
    and send_last: "mtype_ok (fst m) \<Longrightarrow> length (snd m) = n \<Longrightarrow> 0 < room w \<Longrightarrow>
      \<exists>w'. ipc_msgsnd (ce_ipc env) q n m w = (True, w') \<and> queued w' = queued w @ [m] \<and> printed w' = printed w \<and>
        room w = Suc (room w')"
    and print_queue: "queued (ce_print env s w) = queued w"
    and print_text: "printed (ce_print env s w) = printed w @ [s]"
begin

lemma collect_first:
  assumes "queued w = m # ms" and "framed bs m" and "length bs \<le> 248"
    and "\<And>v. collect_message env bs st v = Some (st, ce_print env line v)" and "cc_queue cc = q"
  shows "\<exists>w'. maestro_cmd_do_collect env (Suc fuel) cc st w = maestro_cmd_do_collect env fuel cc st w' \<and>
    queued w' = ms \<and> printed w' = printed w @ [line]"
proof -
  obtain t x where m: "m = (t, x)" by (cases m)
  have "length (snd m) \<le> unat MAESTRO_NOTE_SIZE" using assms(2,3) by (simp add: framed_def MAESTRO_NOTE_SIZE_def)
  from receive_first [OF assms(1) this] obtain w1 where
    w1: "ipc_msgrcv (ce_ipc env) q (unat MAESTRO_NOTE_SIZE) w = (Received m, w1)" "queued w1 = ms" "printed w1 = printed w"
    by blast
  obtain buf where b: "overlay (t @ x) (zero_block (unat MAESTRO_NOTE_SIZE)) = Some buf" "take (length x) buf = bs"
    using framed_buffer [of bs t x] assms(2,3) m by blast
  show ?thesis
    by (rule exI [of _ "ce_print env line w1"]) (use w1 b m assms(4,5) in \<open>simp add: print_queue print_text\<close>)
qed

text \<open>A collection prints a line for every message in the queue, in order, and empties it.\<close>

lemma collect_all:
  assumes "list_all2 (\<lambda>bs m. framed bs m \<and> length bs \<le> 248) bss (queued w)"
    and "list_all2 (\<lambda>bs line. \<forall>v. collect_message env bs st v = Some (st, ce_print env line v)) bss lines"
    and "length bss < fuel" and "cc_queue cc = q"
  shows "\<exists>w'. maestro_cmd_do_collect env fuel cc st w = Inr (0, st, w') \<and> queued w' = [] \<and>
    printed w' = printed w @ lines"
  using assms
proof (induction bss arbitrary: w lines fuel)
  case Nil
  then obtain f where "fuel = Suc f" by (cases fuel) auto
  with Nil show ?case by (simp add: receive_empty)
next
  case (Cons bs bss)
  from Cons.prems(1) obtain m ms where q: "queued w = m # ms" "framed bs m" "length bs \<le> 248"
    "list_all2 (\<lambda>bs m. framed bs m \<and> length bs \<le> 248) bss ms" by (auto simp: list_all2_Cons1)
  from Cons.prems(2) obtain l ls where l: "lines = l # ls" "\<And>v. collect_message env bs st v = Some (st, ce_print env l v)"
    "list_all2 (\<lambda>bs line. \<forall>v. collect_message env bs st v = Some (st, ce_print env line v)) bss ls"
    by (auto simp: list_all2_Cons1)
  from Cons.prems(3) obtain f where f: "fuel = Suc f" "length bss < f" by (cases fuel) auto
  from collect_first [OF q(1-3) l(2) Cons.prems(4), of f] obtain w1 where
    w1: "maestro_cmd_do_collect env fuel cc st w = maestro_cmd_do_collect env f cc st w1"
    "queued w1 = ms" "printed w1 = printed w @ [l]" using f(1) by blast
  from Cons.IH [of w1 ls f] q(4) l(1,3) f(2) w1 Cons.prems(4) show ?case by auto
qed

lemma forward_enqueues:
  assumes "content_bytes resp = Some bs" and "mc_data resp = Some d" and "8 + length bs \<le> length d"
    and "mtype_ok (take 8 d)" and "0 < room w"
  shows "\<exists>m w'. framed bs m \<and> forward_send env q resp w = Some (True, w') \<and> queued w' = queued w @ [m] \<and>
    printed w' = printed w \<and> room w = Suc (room w') \<and> ipc_msgsnd (ce_ipc env) q (length bs) m w = (True, w')"
proof -
  obtain m where m: "framed bs m" "fst m = take 8 d"
    "forward_send env q resp w = Some (ipc_msgsnd (ce_ipc env) q (length bs) m w)"
    using forward_send_framed [OF assms(1-3), of env q w] by blast
  then have "mtype_ok (fst m)" and "length (snd m) = length bs" using assms(4) by (simp_all add: framed_def)
  from send_last [OF this assms(5)] obtain w' where
    "ipc_msgsnd (ce_ipc env) q (length bs) m w = (True, w')" "queued w' = queued w @ [m]" "printed w' = printed w"
    "room w = Suc (room w')" by blast
  with m(1,3) show ?thesis by (intro exI [of _ m] exI [of _ w']) simp
qed

end

text \<open>The block the forwarder receives into, as allocated and as reset after every message.\<close>

definition empty_block :: "msg_content \<Rightarrow> bool" where
  "empty_block r = (mc_data r = Some (zero_block 256) \<and> mc_capacity r = MAESTRO_NOTE_SIZE)"

definition forwardable :: "byte list \<Rightarrow> bool" where
  "forwardable bs = (length bs \<le> 248 \<and> mtype_ok (take 8 (bs @ zero_block 8)))"

lemma padded_head: "length bs \<le> 248 \<Longrightarrow> take 8 (bs @ zero_block (256 - length bs)) = take 8 (bs @ zero_block 8)"
  by (simp add: zero_block_def min_def)

text \<open>
  What the forwarder relies on besides: a receive delivers the next message into the
  block it is given, or reports an error when the connection is lost, and a message
  that was queued stays there until it is received.
\<close>

locale forwarder_link = client_queue +
  fixes cc :: "'a cmd_ctxt" and incoming :: "'a \<Rightarrow> byte list list"
    and receive :: "msg_ctxt \<Rightarrow> handlers \<Rightarrow> msg_content \<Rightarrow> gru_status \<Rightarrow> 'a \<Rightarrow> vmsl_stat \<times> msg_content \<times> gru_status \<times> 'a"
    and ctxt :: msg_ctxt
  assumes receive_fn: "v_receive (cc_vmsl cc) = Some receive" and receive_ctxt: "cc_msg_ctxt cc = Some ctxt"
    and receive_next: "incoming w = bs # bss \<Longrightarrow> mc_data r = Some d \<Longrightarrow> overlay bs d = Some d' \<Longrightarrow>
      \<exists>w'. receive ctxt (cc_handlers cc) r st w
        = (VMSL_SUCCESS, r\<lparr>mc_data := Some d', mc_size := word_of_nat (length bs)\<rparr>, st, w') \<and>
        incoming w' = bss \<and> queued w' = queued w \<and> printed w' = printed w \<and> room w' = room w"
    and receive_lost: "incoming w = [] \<Longrightarrow> \<exists>w'. receive ctxt (cc_handlers cc) r st w = (VMSL_ERROR, r, st, w') \<and>
        incoming w' = [] \<and> queued w' = queued w \<and> printed w' = printed w"
    and send_incoming: "ipc_msgsnd (ce_ipc env) q n m w = (ok, w') \<Longrightarrow> incoming w' = incoming w"
begin

lemma forward_step:
  assumes "incoming w = bs # bss" and "forwardable bs" and "empty_block r" and "0 < room w"
  shows "\<exists>m r' w'. forward_loop env usleep (Suc fuel) cc q r st w = forward_loop env usleep fuel cc q r' st w' \<and>
    framed bs m \<and> empty_block r' \<and> incoming w' = bss \<and> queued w' = queued w @ [m] \<and> printed w' = printed w \<and>
    room w = Suc (room w')"
proof -
  let ?d = "bs @ zero_block (256 - length bs)"
  let ?r = "r\<lparr>mc_data := Some ?d, mc_size := word_of_nat (length bs)\<rparr>"
  have l: "length bs \<le> 248" using assms(2) by (simp add: forwardable_def)
  have o: "overlay bs (zero_block 256) = Some ?d" using l by (simp add: overlay_def zero_block_def)
  from receive_next [OF assms(1) _ o, of r st] assms(3) obtain w1 where
    w1: "receive ctxt (cc_handlers cc) r st w = (VMSL_SUCCESS, ?r, st, w1)"
      "incoming w1 = bss" "queued w1 = queued w" "printed w1 = printed w" "room w1 = room w"
    by (auto simp: empty_block_def)
  have "unat (word_of_nat (length bs) :: u64) = length bs" using l by (intro unat_word_of_nat64) simp
  then have c: "content_bytes ?r = Some bs" by (simp add: content_bytes_def)
  obtain m w2 where m: "framed bs m" "forward_send env q ?r w1 = Some (True, w2)" "queued w2 = queued w1 @ [m]"
      "printed w2 = printed w1" "room w1 = Suc (room w2)" "ipc_msgsnd (ce_ipc env) q (length bs) m w1 = (True, w2)"
    using forward_enqueues [OF c, of ?d w1] l assms(2,4) w1(5) padded_head [OF l] by (auto simp: forwardable_def)
  have "msg_content_data_reset ?r = Some (?r\<lparr>mc_data := Some (zero_block 256), mc_size := 0\<rparr>)"
    using assms(3) l by (simp add: msg_content_data_reset_def empty_block_def MAESTRO_NOTE_SIZE_def overlay_def)
  then have "forward_loop env usleep (Suc fuel) cc q r st w
      = forward_loop env usleep fuel cc q (?r\<lparr>mc_data := Some (zero_block 256), mc_size := 0\<rparr>) st w2"
    using w1(1) m(2) by (simp add: receive_fn receive_ctxt status_simps)
  moreover have "empty_block (?r\<lparr>mc_data := Some (zero_block 256), mc_size := 0\<rparr>)"
    using assms(3) by (simp add: empty_block_def)
  ultimately show ?thesis using m w1 send_incoming [OF m(6)] by metis
qed

text \<open>Until the connection is lost, every message that arrives goes to the end of the queue.\<close>

lemma forward_all:
  assumes "list_all forwardable (incoming w)" and "empty_block r" and "length (incoming w) \<le> room w"
    and "length (incoming w) < fuel"
  shows "\<exists>w' ms. forward_loop env usleep fuel cc q r st w
      = Inr (St_Set GRU_FAILURE ''Error receiving maestro message'', w') \<and>
    list_all2 framed (incoming w) ms \<and> queued w' = queued w @ ms \<and> printed w' = printed w"
  using assms
proof (induction "incoming w" arbitrary: w r fuel)
  case Nil
  then obtain f where "fuel = Suc f" by (cases fuel) auto
  with Nil receive_lost [of w r st] show ?case by (auto simp: receive_fn receive_ctxt status_simps)
next
  case (Cons bs bss)
  then obtain f where f: "fuel = Suc f" by (cases fuel) auto
  from Cons.hyps(2) [symmetric] Cons.prems have b: "forwardable bs" "list_all forwardable bss"
    "0 < room w" "length bss < room w" "length bss < f" using f by auto
  from forward_step [OF Cons.hyps(2) [symmetric] b(1) Cons.prems(2) b(3), of usleep f st] obtain m r' w1 where
    m: "forward_loop env usleep fuel cc q r st w = forward_loop env usleep f cc q r' st w1"
      "framed bs m" "empty_block r'" "incoming w1 = bss" "queued w1 = queued w @ [m]" "printed w1 = printed w"
      "room w = Suc (room w1)" using f by blast
  from Cons.hyps(1) [OF m(4) [symmetric] _ m(3), of f] m b obtain w' ms where
    "forward_loop env usleep f cc q r' st w1 = Inr (St_Set GRU_FAILURE ''Error receiving maestro message'', w')"
    "list_all2 framed bss ms" "queued w' = queued w1 @ ms" "printed w' = printed w1" by auto
  with m Cons.hyps(2) [symmetric] show ?case by (intro exI [of _ w'] exI [of _ "m # ms"]) simp
qed

end

section \<open>A kernel queue and a terminal\<close>

text \<open>
  The world of the client with one queue of the kernel, a terminal and a connection
  that delivers the messages given and is then lost. \<open>msgsnd\<close> refuses a type that
  is not positive and a queue that is full; \<open>msgrcv\<close> refuses a text longer than the
  length asked for.
\<close>

record client_world =
  cw_kernel :: "sysv_msg kernel_queue"
  cw_terminal :: "string list"
  cw_incoming :: "byte list list"

definition client_msgsnd :: "int \<Rightarrow> nat \<Rightarrow> sysv_msg \<Rightarrow> client_world \<Rightarrow> bool \<times> client_world" where
  "client_msgsnd q n m w =
    (if mtype_ok (fst m) \<and> length (snd m) = n
     then (case kq_send m (cw_kernel w) of (ok, k) \<Rightarrow> (ok, w\<lparr>cw_kernel := k\<rparr>)) else (False, w))"

definition client_msgrcv :: "int \<Rightarrow> nat \<Rightarrow> client_world \<Rightarrow> sysv_msg received \<times> client_world" where
  "client_msgrcv q n w =
    (case kq_messages (cw_kernel w) of
       [] \<Rightarrow> (Empty_Queue, w)
     | m # ms \<Rightarrow> if length (snd m) \<le> n
         then (case kq_receive (cw_kernel w) of (r, k) \<Rightarrow> (r, w\<lparr>cw_kernel := k\<rparr>)) else (Receive_Error, w))"

definition client_ipc :: "(sysv_msg, client_world) ipc_api" where
  "client_ipc = \<lparr>ipc_ftok = (\<lambda>p. p), ipc_msgget = (\<lambda>k w. (0, w)), ipc_msgsnd = client_msgsnd, ipc_msgrcv = client_msgrcv,
     ipc_asprintf = True, ipc_mq_open = (\<lambda>n s w. (None, w)), ipc_mq_send = (\<lambda>q n m w. (False, w)),
     ipc_mq_receive = (\<lambda>q n w. (Receive_Error, w)), ipc_mq_close = (\<lambda>q w. w), ipc_strerror = [], ipc_use_posix = False\<rparr>"

definition on_kernel :: "client_world cenv \<Rightarrow> client_world cenv" where
  "on_kernel env = env\<lparr>ce_ipc := client_ipc, ce_print := (\<lambda>s w. w\<lparr>cw_terminal := cw_terminal w @ [s]\<rparr>)\<rparr>"

definition deliver :: "msg_ctxt \<Rightarrow> handlers \<Rightarrow> msg_content \<Rightarrow> gru_status \<Rightarrow> client_world \<Rightarrow>
    vmsl_stat \<times> msg_content \<times> gru_status \<times> client_world" where
  "deliver c h r st w =
    (case (cw_incoming w, mc_data r) of
       (bs # bss, Some d) \<Rightarrow> (case overlay bs d of
          Some d' \<Rightarrow> (VMSL_SUCCESS, r\<lparr>mc_data := Some d', mc_size := word_of_nat (length bs)\<rparr>, st, w\<lparr>cw_incoming := bss\<rparr>)
        | None \<Rightarrow> (VMSL_ERROR, r, st, w))
     | _ \<Rightarrow> (VMSL_ERROR, r, st, w))"

definition client_queued :: "client_world \<Rightarrow> sysv_msg list" where
  "client_queued w = kq_messages (cw_kernel w)"

definition client_room :: "client_world \<Rightarrow> nat" where
  "client_room w = kq_max (cw_kernel w) - length (kq_messages (cw_kernel w))"

definition client_ctxt :: "msg_ctxt \<Rightarrow> client_world cmd_ctxt" where
  "client_ctxt c = \<lparr>cc_vmsl = vmsl_init\<lparr>v_receive := Some deliver\<rparr>, cc_handlers = no_handlers,
     cc_msg_ctxt = Some c, cc_queue = 0\<rparr>"

lemmas client_world_defs = client_msgsnd_def client_msgrcv_def client_ipc_def on_kernel_def client_queued_def
  client_room_def kq_send_def kq_receive_def

interpretation kernel_client: client_queue "on_kernel env" q client_queued cw_terminal client_room for env q
  by unfold_locales (auto simp: client_world_defs)

interpretation kernel_forwarder: forwarder_link "on_kernel env" q client_queued cw_terminal client_room
    "client_ctxt c" cw_incoming deliver c for env q c
  by unfold_locales (auto simp: client_world_defs client_ctxt_def deliver_def split: if_splits option.splits)

section \<open>Properties of the answers\<close>

text \<open>
  Property C6, answers_reach_user. While the forward daemon is connected, the answers and
  notifications it receives go through the local queue as they are: when the
  connection ends, a collection prints the line of every one of them, in the order
  they arrived, and leaves the queue empty. This holds for messages of up to 248
  bytes whose first eight bytes are a positive number, the queue having room.
\<close>

theorem answers_reach_user:
  assumes "forwarder_link env q queued printed room cc incoming receive ctxt" and "msgpack (ce_mp env)" and "\<And>k. ce_al env k = None"
    and "incoming w = map (message_bytes (ce_mp env)) ms" and "queued w = []" and "cc_queue cc = q"
    and "\<And>m. m \<in> set ms \<Longrightarrow> is_answer m \<and> message_proper m \<and> message_ok (ce_al env) m \<and> forwardable (message_bytes (ce_mp env) m)"
    and "length ms \<le> room w" and "length ms < ce_fuel env"
  shows "\<exists>w1 w2. maestro_loop_reply_run env usleep cc q st w
      = Inr (St_Set GRU_FAILURE ''Error receiving maestro message'', w1) \<and>
    maestro_cmd_do_collect env (ce_fuel env) cc st' w1 = Inr (0, st', w2) \<and>
    printed w2 = printed w @ map (message_line env) ms \<and> queued w2 = []"
proof -
  let ?r = "zero_content\<lparr>mc_data := Some (zero_block 256), mc_capacity := MAESTRO_NOTE_SIZE, mc_size := 0\<rparr>"
  have cq: "client_queue env q queued printed room" using assms(1) by (rule forwarder_link.axioms(1))
  have init: "msg_content_data_init (ce_al env) MAESTRO_NOTE_SIZE st zero_content = (?r, st)"
    using assms(3) by (simp add: init_ok MAESTRO_NOTE_SIZE_def)
  obtain w1 fs where w1: "forward_loop env usleep (ce_fuel env) cc q ?r st w
      = Inr (St_Set GRU_FAILURE ''Error receiving maestro message'', w1)"
    "list_all2 framed (map (message_bytes (ce_mp env)) ms) fs" "queued w1 = fs" "printed w1 = printed w"
    using forwarder_link.forward_all [OF assms(1), of w ?r "ce_fuel env" usleep st] assms(4,5,7,8,9)
    by (auto simp: list_all_iff empty_block_def)
  have "list_all2 (\<lambda>bs m. framed bs m \<and> length bs \<le> 248) (map (message_bytes (ce_mp env)) ms) (queued w1)"
    using w1(2,3) assms(7) by (auto simp: list_all2_conv_all_nth forwardable_def)
  moreover have "list_all2 (\<lambda>bs line. \<forall>v. collect_message env bs st' v = Some (st', ce_print env line v))
      (map (message_bytes (ce_mp env)) ms) (map (message_line env) ms)"
  proof (simp add: list_all2_conv_all_nth, intro allI impI)
    fix i v
    assume "i < length ms"
    then have "ms ! i \<in> set ms" by simp
    from assms(7) [OF this] show "collect_message env (message_bytes (ce_mp env) (ms ! i)) st' v
        = Some (st', ce_print env (message_line env (ms ! i)) v)"
      using assms(3) by (intro collect_message_line [OF assms(2)]) (auto simp: forwardable_def)
  qed
  ultimately show ?thesis
    using client_queue.collect_all [OF cq, of "map (message_bytes (ce_mp env)) ms" w1 st' "map (message_line env) ms" "ce_fuel env" cc]
      w1 assms(6,9) init by (simp add: maestro_loop_reply_run_def) metis
qed

text \<open>A client over a kernel queue of ten messages.\<close>

fun split_words :: "string \<Rightarrow> string \<Rightarrow> string list" where
  "split_words acc [] = (if acc = [] then [] else [acc])"
| "split_words acc (c # s) =
    (if c = CHR '' '' then (if acc = [] then split_words [] s else acc # split_words [] s) else split_words (acc @ [c]) s)"

definition sample_cenv :: "client_world cenv" where
  "sample_cenv = on_kernel \<lparr>ce_mp = msgpack_format, ce_al = (\<lambda>k. None), ce_uri = zero_uri, ce_clone = (\<lambda>u st. (u, st)),
     ce_assign = (\<lambda>u v. (True, v)), ce_list_new = (\<lambda>i. True), ce_uuid = (\<lambda>w. (''7'', w)), ce_ipc = client_ipc,
     ce_now = (\<lambda>w. (\<lparr>tv_sec = 3, tv_usec = 5\<rparr>, w)), ce_sleep = (\<lambda>n w. w), ce_print = (\<lambda>s w. w),
     ce_fmt2 = (\<lambda>x. ''0.00''), ce_trim = (\<lambda>s. s), ce_split = (\<lambda>s st. (Some (split_words [] s), st)), ce_fuel = 5\<rparr>"

definition sample_cworld :: client_world where
  "sample_cworld = \<lparr>cw_kernel = \<lparr>kq_messages = [], kq_max = 10\<rparr>, cw_terminal = [], cw_incoming = []\<rparr>"

definition sample_answers :: "maestro_message list" where
  "sample_answers = [Plain_Response 11 ''0123456789'' ''receiver'', Notification 15 ''0123456789'' ''sender'' ''failed'']"

lemma sample_cenv_sel [simp]:
  "ce_mp sample_cenv = msgpack_format" "ce_al sample_cenv k = None" "ce_fuel sample_cenv = 5"
  "ce_clone sample_cenv u st = (u, st)" "ce_uri sample_cenv = zero_uri" "ce_uuid sample_cenv w = (''7'', w)"
  by (simp_all add: sample_cenv_def on_kernel_def)

lemma sample_forwarder:
  "forwarder_link sample_cenv 0 client_queued cw_terminal client_room (client_ctxt sample_ctxt) cw_incoming deliver sample_ctxt"
  unfolding sample_cenv_def by (rule kernel_forwarder.forwarder_link_axioms)

lemma sample_answers_ok:
  "list_all (\<lambda>m. is_answer m \<and> message_proper m \<and> forwardable (message_bytes msgpack_format m)) sample_answers"
  by (simp add: sample_answers_def forwardable_def mtype_ok_def format_defs zero_block_def)

lemma sample_answers_text: "m \<in> set sample_answers \<Longrightarrow> message_ok (\<lambda>k. None) m"
  by (auto simp: sample_answers_def message_ok_def text_ok_def no_nul_def NUL_def)

theorem answers_reach_user_witness:
  "\<exists>w1 w2. maestro_loop_reply_run sample_cenv (\<lambda>n w. w) (client_ctxt sample_ctxt) 0 St_New
        (sample_cworld\<lparr>cw_incoming := map (message_bytes msgpack_format) sample_answers\<rparr>)
      = Inr (St_Set GRU_FAILURE ''Error receiving maestro message'', w1) \<and>
    maestro_cmd_do_collect sample_cenv (ce_fuel sample_cenv) (client_ctxt sample_ctxt) St_New w1 = Inr (0, St_New, w2) \<and>
    cw_terminal w2 = cw_terminal (sample_cworld\<lparr>cw_incoming := map (message_bytes msgpack_format) sample_answers\<rparr>) @
      map (message_line sample_cenv) sample_answers \<and> client_queued w2 = []"
proof (rule answers_reach_user [OF sample_forwarder])
  show "msgpack (ce_mp sample_cenv)" using mpf.msgpack_axioms by simp
  fix m assume "m \<in> set sample_answers"
  then show "is_answer m \<and> message_proper m \<and> message_ok (ce_al sample_cenv) m \<and>
      forwardable (message_bytes (ce_mp sample_cenv) m)"
    using sample_answers_ok sample_answers_text [of m] by (auto simp: list_all_iff sample_cenv_def on_kernel_def)
qed (simp_all add: sample_cworld_def client_queued_def client_room_def client_ctxt_def sample_answers_def)

text \<open>
  Also proved, long_answer_overflows. The block a note is received into has 256 bytes, and so
  has the buffer of the collection; the type of a queue message takes eight of them.
  Forwarding a note of 249 to 256 bytes therefore reads past the block, and collecting
  a queue message with such a text writes past the buffer.
\<close>

theorem long_answer_overflows:
  assumes "248 < length bs" and "v_receive (cc_vmsl cc) = Some receive" and "cc_msg_ctxt cc = Some ctxt"
    and "receive ctxt (cc_handlers cc) r st w = (VMSL_SUCCESS, r', st', w')"
    and "content_bytes r' = Some bs" and "mc_data r' = Some d" and "length d = 256"
    and "ipc_msgrcv (ce_ipc env) (cc_queue cc) (unat MAESTRO_NOTE_SIZE) v = (Received (t, x), v')"
    and "length t = 8" and "length x = length bs"
  shows "forward_loop env usleep (Suc fuel) cc q r st w = Inl Undefined \<and>
    maestro_cmd_do_collect env (Suc fuel) cc st v = Inl Undefined"
proof -
  have "unat (mc_size r') = length bs"
    using assms(5,6) by (auto simp: content_bytes_def split: if_splits)
  with assms(1,6,7) have "forward_send env q r' w' = None" by (simp add: forward_send_def)
  moreover have "overlay (t @ x) (zero_block (unat MAESTRO_NOTE_SIZE)) = None"
    using assms(1,9,10) by (simp add: overlay_def MAESTRO_NOTE_SIZE_def)
  ultimately show ?thesis using assms by (simp add: status_simps)
qed

definition long_note :: msg_content where
  "long_note = \<lparr>mc_data = Some (replicate 256 (CHR ''x'')), mc_capacity = 256, mc_size = 250, mc_created = zero_ts\<rparr>"

theorem long_answer_overflows_witness:
  "forward_loop (sample_cenv\<lparr>ce_ipc := client_ipc\<lparr>ipc_msgrcv := (\<lambda>q n w. (Received (replicate 8 (CHR ''x''), replicate 250 (CHR ''x'')), w))\<rparr>\<rparr>)
      (\<lambda>n w. w) (Suc 0)
      ((client_ctxt sample_ctxt)\<lparr>cc_vmsl := vmsl_init\<lparr>v_receive := Some (\<lambda>c h r st w. (VMSL_SUCCESS, long_note, st, w))\<rparr>\<rparr>) 0
      zero_content St_New sample_cworld = Inl Undefined \<and>
    maestro_cmd_do_collect (sample_cenv\<lparr>ce_ipc := client_ipc\<lparr>ipc_msgrcv := (\<lambda>q n w. (Received (replicate 8 (CHR ''x''), replicate 250 (CHR ''x'')), w))\<rparr>\<rparr>)
      (Suc 0) ((client_ctxt sample_ctxt)\<lparr>cc_vmsl := vmsl_init\<lparr>v_receive := Some (\<lambda>c h r st w. (VMSL_SUCCESS, long_note, st, w))\<rparr>\<rparr>)
      St_New sample_cworld = Inl Undefined"
  by (rule long_answer_overflows [where bs = "replicate 250 (CHR ''x'')" and r' = long_note and st' = St_New and w' = sample_cworld and
        d = "replicate 256 (CHR ''x'')" and ctxt = sample_ctxt and t = "replicate 8 (CHR ''x'')" and x = "replicate 250 (CHR ''x'')"])
     (simp_all add: client_ctxt_def long_note_def content_bytes_def take_replicate)

section \<open>Properties of the commands\<close>

lemma easy_request_bytes:
  assumes "cmd \<notin> {MAESTRO_NOTE_SET, MAESTRO_NOTE_PING}"
  shows "maestro_easy_request mp al out cmd
    = Some (snd (msg_content_data_copy al out (message_bytes mp (Plain_Request (command_code cmd)))))"
proof -
  have "note_view (maestro_note_set_cmd cmd (maestro_note_set_type MAESTRO_TYPE_REQUEST zero_note))
      = Some (Plain_Request (command_code cmd))"
    using assms by (auto simp: note_view_def request_view_def maestro_note_set_cmd_def maestro_note_set_type_def
        simp del: command_code.simps)
  from serialize_note_view [OF this] show ?thesis by (simp add: maestro_easy_request_def emit_def)
qed

text \<open>A connection that was opened has a context, and the table is that of the client.\<close>

lemma ctxt_start_open:
  assumes "maestro_cmd_ctxt_start cc opt st w = Some (True, cc1, st1, w1)"
  shows "cc_vmsl cc1 = cc_vmsl cc \<and> cc_msg_ctxt cc1 \<noteq> None \<and> cc_queue cc1 = cc_queue cc"
proof -
  from assms obtain init where i: "v_init (cc_vmsl cc) = Some init"
    by (auto simp: maestro_cmd_ctxt_start_def bind_eq_Some_conv)
  obtain ctxt h s v where r: "init opt (cc_handlers cc) st w = (ctxt, h, s, v)" by (metis prod_cases4)
  with assms i show ?thesis
    by (cases ctxt) (auto simp: maestro_cmd_ctxt_start_def bind_eq_Some_conv case_prod_unfold)
qed

lemma connect_open:
  assumes "maestro_cmd_connect env cc uri st w = Some (0, cc1, st1, w1)"
  shows "cc_vmsl cc1 = cc_vmsl cc \<and> cc_msg_ctxt cc1 \<noteq> None \<and> cc_queue cc1 = cc_queue cc"
proof -
  obtain u s where c: "ce_clone env uri St_New = (u, s)" by (cases "ce_clone env uri St_New")
  with assms ctxt_start_open [of cc _ s _ cc1 st1 w1] show ?thesis
    by (auto simp: maestro_cmd_connect_def bind_eq_Some_conv split: if_splits)
qed

text \<open>What a command does with its request once the connection is open: publish it on a
  topic and close the connection, whatever \<open>send\<close> answers.\<close>

definition publish_and_close :: "'w cenv \<Rightarrow> string \<Rightarrow> string \<Rightarrow> 'w cmd_ctxt \<Rightarrow> msg_ctxt \<Rightarrow> msg_content \<Rightarrow> gru_status \<Rightarrow> 'w \<Rightarrow>
    'w command_result undef" where
  "publish_and_close env failed topic cc c req st w = do {
     send \<leftarrow> v_send (cc_vmsl cc);
     stop \<leftarrow> v_stop (cc_vmsl cc);
     destroy \<leftarrow> v_destroy (cc_vmsl cc);
     (let ctxt = ctxt_set_path topic c in
      case send ctxt (cc_handlers cc) req st w of (rstat, req', st1, w1) \<Rightarrow>
        let w2 = (if rstat = VMSL_SUCCESS then w1 else ce_print env (failed @ '': '' @ gru_status_message st1 @ [CHR 0x0A]) w1) in
        case stop (Some ctxt) st1 w2 of (st2, w3) \<Rightarrow>
          case destroy (Some ctxt) st2 w3 of (st3, w4) \<Rightarrow>
            Some (if rstat = VMSL_SUCCESS then 0 else 1, cc\<lparr>cc_msg_ctxt := None\<rparr>, st3, w4))
   }"

lemma send_and_stop_publishes:
  assumes "cc_msg_ctxt cc = Some c"
  shows "Option.bind (cmd_set_path topic cc) (\<lambda>cc2. cmd_send_and_stop env failed cc2 req st w)
    = publish_and_close env failed topic cc c req st w"
  using assms
  by (cases "v_send (cc_vmsl cc)"; cases "v_stop (cc_vmsl cc)"; cases "v_destroy (cc_vmsl cc)")
     (auto simp: publish_and_close_def cmd_set_path_def cmd_send_and_stop_def maestro_cmd_ctxt_send_def
        maestro_cmd_ctxt_stop_def Let_def split: prod.splits)

lemma without_payload_publishes:
  assumes "maestro_cmd_connect env cc (ce_uri env) st w = Some (0, cc1, st1, w1)" and "cc_msg_ctxt cc1 = Some c"
    and "cmd \<notin> {MAESTRO_NOTE_SET, MAESTRO_NOTE_PING}"
  shows "maestro_cmd_without_payload env cc path cmd st w
    = publish_and_close env (''Failed to send command to '' @ path) path cc1 c
        (snd (msg_content_data_copy (ce_al env) zero_content (message_bytes (ce_mp env) (Plain_Request (command_code cmd))))) st1 w1"
  using assms send_and_stop_publishes [OF assms(2), of path env]
  by (simp add: maestro_cmd_without_payload_def easy_request_bytes)

end
