(* ===== verification/Client_Loop.thy ===== *)
theory Client_Loop
  imports Client
begin

text \<open>
  The command loop of the maestro client, \<open>src/applications/maestro/maestro_loop.c\<close>: the
  dispatch of a command by its name, the interactive loop over the lines \<open>readline\<close>
  returns, and the loop over the lines of a script. The script loop is compared with
  a reference that runs the command lines of the text one after the other.
\<close>

section \<open>Dispatch\<close>

definition maestro_loop_cmd :: "'w cenv \<Rightarrow> 'w cmd_ctxt \<Rightarrow> string \<Rightarrow> string list option \<Rightarrow> gru_status \<Rightarrow> 'w \<Rightarrow>
    'w command_result run" where
  "maestro_loop_cmd env cc cmd strings st w =
    (if cmd = ''quit'' \<or> cmd = ''exit'' then Inr (- 2, cc, st, w)
     else if cmd = ''start-receiver'' then of_undef (maestro_cmd_start_receiver env cc st w)
     else if cmd = ''stop-receiver'' then of_undef (maestro_cmd_stop_receiver env cc st w)
     else if cmd = ''start-sender'' then of_undef (maestro_cmd_start_sender env cc st w)
     else if cmd = ''stop-sender'' then of_undef (maestro_cmd_stop_sender env cc st w)
     else if cmd = ''start-inspector'' then of_undef (maestro_cmd_start_inspector env cc st w)
     else if cmd = ''stop-inspector'' then of_undef (maestro_cmd_stop_inspector env cc st w)
     else if cmd = ''start-all'' then of_undef (maestro_cmd_start_all env cc st w)
     else if cmd = ''stop-all'' then of_undef (maestro_cmd_stop_all env cc st w)
     else if cmd = ''collect'' then maestro_cmd_collect env cc strings st w
     else if cmd = ''flush'' then of_undef (maestro_cmd_flush env cc st w)
     else if cmd = ''set'' then of_undef (maestro_cmd_set_opt env cc strings st w)
     else if cmd = ''ping'' then of_undef (maestro_cmd_ping env cc st w)
     else if cmd = ''stats'' then maestro_cmd_stats env cc strings st w
     else if cmd = ''halt'' then of_undef (maestro_cmd_halt env cc st w)
     else Inr (- 1, cc, st, w))"

text \<open>The first word of a command line, through a null pointer when there is none.\<close>

definition first_word :: "string list option \<Rightarrow> string undef" where
  "first_word strings = (case strings of Some (c # cs) \<Rightarrow> Some c | _ \<Rightarrow> None)"

section \<open>The interactive loop\<close>

text \<open>The list holds the lines \<open>readline\<close> returns until the end of the input.\<close>

fun maestro_loop_cli :: "'w cenv \<Rightarrow> string list \<Rightarrow> int \<Rightarrow> 'w cmd_ctxt \<Rightarrow> gru_status \<Rightarrow> 'w \<Rightarrow> 'w command_result run" where
  "maestro_loop_cli env [] ret cc st w = Inr (ret, cc, st, w)"
| "maestro_loop_cli env (raw_line # lines) ret cc st w =
    (if raw_line = [] then maestro_loop_cli env lines ret cc st w
     else case ce_split env (ce_trim env raw_line) st of (strings, st1) \<Rightarrow>
       let w1 = (if strings = None
                 then ce_print env (''Unable to split command: '' @ gru_status_message st1 @ [CHR 0x0A]) w else w) in
       run_bind (of_undef (first_word strings)) (\<lambda>command.
       run_bind (maestro_loop_cmd env cc command strings st1 w1) (\<lambda>(ret', cc', st2, w2).
       if ret' = 0 then maestro_loop_cli env lines ret' cc' st2 w2
       else if ret' = - 1 then
         maestro_loop_cli env lines ret' cc' st2 (ce_print env (''Unknown command: '' @ command @ [CHR 0x0A]) w2)
       else if ret' = - 2 then Inr (0, cc', st2, w2)
       else maestro_loop_cli env lines ret' cc' st2 (ce_print env (gru_status_message st2 @ [CHR 0x0A]) w2))))"

section \<open>The script loop\<close>

text \<open>
  \<open>fgets\<close> on the text that is left, with room for \<open>n\<close> characters: the line with its
  newline, what follows it, and whether the end of the file was met.
\<close>

fun fgets :: "nat \<Rightarrow> string \<Rightarrow> string \<times> string \<times> bool" where
  "fgets 0 s = ([], s, False)"
| "fgets (Suc n) [] = ([], [], True)"
| "fgets (Suc n) (c # s) =
    (if c = CHR 0x0A then ([c], s, False) else (case fgets n s of (l, r, e) \<Rightarrow> (c # l, r, e)))"

text \<open>A line that starts with \<open>#\<close> or a blank is skipped.\<close>

definition skipped_line :: "string \<Rightarrow> bool" where
  "skipped_line l = (l = [] \<or> hd l = CHR ''#'' \<or> is_space (hd l))"

text \<open>A command line: whether the loop goes on, and the value it would return.\<close>

definition script_line :: "'w cenv \<Rightarrow> string \<Rightarrow> 'w cmd_ctxt \<Rightarrow> gru_status \<Rightarrow> 'w \<Rightarrow> (bool \<times> 'w command_result) run" where
  "script_line env raw_line cc st w =
    (case ce_split env (ce_trim env raw_line) st of
       (None, st1) \<Rightarrow> Inr (False, 1, cc, st1, ce_print env (''Unable to split command: '' @ gru_status_message st1 @ [CHR 0x0A]) w)
     | (Some strings, st1) \<Rightarrow>
        run_bind (of_undef (first_word (Some strings))) (\<lambda>command.
        run_bind (maestro_loop_cmd env cc command (Some strings) st1 w) (\<lambda>(ret, cc', st2, w2).
        Inr (if ret = 0 then (True, 0, cc', st2, w2)
          else if ret = - 1 then (False, - 1, cc', st2, ce_print env (''Unknown command: '' @ command @ [CHR 0x0A]) w2)
          else if ret = - 2 then (False, - 2, cc', st2, w2)
          else (True, ret, cc', st2, ce_print env (gru_status_message st2 @ [CHR 0x0A]) w2)))))"

lemma fgets_shrinks: "fgets n s = (l, r, False) \<Longrightarrow> 0 < n \<Longrightarrow> length r < length s"
proof (induction n s arbitrary: l r rule: fgets.induct)
  case (3 n c s)
  then show ?case by (cases n) (auto split: if_splits prod.splits)
qed simp_all

function maestro_loop_file :: "'w cenv \<Rightarrow> string \<Rightarrow> int \<Rightarrow> 'w cmd_ctxt \<Rightarrow> gru_status \<Rightarrow> 'w \<Rightarrow> 'w command_result run" where
  "maestro_loop_file env text ret cc st w =
    (case fgets 1022 text of (raw, rest, eof) \<Rightarrow>
      if skipped_line (cstr raw) then
        (if eof then Inr (ret, cc, st, w) else maestro_loop_file env rest ret cc st w)
      else run_bind (script_line env (cstr raw) cc st w) (\<lambda>(more, ret', cc', st', w').
        if \<not> more \<or> eof then Inr (ret', cc', st', w')
        else maestro_loop_file env rest ret' cc' st' w'))"
  by pat_completeness auto
termination
  by (relation "measure (\<lambda>(env, text, ret, cc, st, w). length text)") (auto dest!: fgets_shrinks [OF sym])

declare maestro_loop_file.simps [simp del]

section \<open>The client\<close>

text \<open>Where the commands come from: a script file (\<^term>\<open>None\<close> when it cannot be opened) or
  a terminal.\<close>

datatype command_source = Script "string option" | Terminal "string list"

definition maestro_loop :: "'w cenv \<Rightarrow> command_source \<Rightarrow> gru_status \<Rightarrow> 'w \<Rightarrow> (int \<times> gru_status \<times> 'w) run" where
  "maestro_loop env src st w =
    (case maestro_cmd_ctxt_new env (ce_uri env) st w of
       (None, st1, w1) \<Rightarrow> Inr (1, st1, ce_print env (''Unable to initialize command processor: '' @ gru_status_message st1 @ [CHR 0x0A]) w1)
     | (Some cc, st1, w1) \<Rightarrow>
        run_bind (case src of
            Script None \<Rightarrow> Inr (- 1, cc, St_Set GRU_FAILURE (ipc_strerror (ce_ipc env)), w1)
          | Script (Some text) \<Rightarrow> maestro_loop_file env text 0 cc st1 w1
          | Terminal lines \<Rightarrow> maestro_loop_cli env lines (- 1) cc st1 w1) (\<lambda>(ret, cc', st2, w2).
        run_bind (of_undef (maestro_cmd_ctxt_destroy (Some cc') w2)) (\<lambda>w3. Inr (ret, st2, w3))))"

section \<open>The reference of the script loop\<close>

text \<open>The lines of a text, each with its newline; the lines that are commands.\<close>

fun text_lines :: "string \<Rightarrow> string list" where
  "text_lines [] = []"
| "text_lines (c # s) =
    (if c = CHR 0x0A then [c] # text_lines s
     else (case text_lines s of [] \<Rightarrow> [[c]] | l # ls \<Rightarrow> (c # l) # ls))"

definition script_commands :: "string \<Rightarrow> string list" where
  "script_commands text = filter (\<lambda>l. \<not> skipped_line l) (map cstr (text_lines text))"

fun run_script :: "'w cenv \<Rightarrow> string list \<Rightarrow> int \<Rightarrow> 'w cmd_ctxt \<Rightarrow> gru_status \<Rightarrow> 'w \<Rightarrow> 'w command_result run" where
  "run_script env [] ret cc st w = Inr (ret, cc, st, w)"
| "run_script env (l # ls) ret cc st w =
    run_bind (script_line env l cc st w) (\<lambda>(more, ret', cc', st', w').
    if more then run_script env ls ret' cc' st' w' else Inr (ret', cc', st', w'))"

lemma text_lines_Nil [simp]: "text_lines s = [] \<longleftrightarrow> s = []"
  by (cases s) (auto split: list.splits)

text \<open>On a line that fits, \<open>fgets\<close> returns the first line of the text.\<close>

lemma fgets_first_line:
  assumes "text_lines s = l # ls" and "length l < n"
  shows "(\<exists>r. fgets n s = (l, r, False) \<and> text_lines r = ls) \<or> (fgets n s = (l, [], True) \<and> ls = [])"
  using assms
proof (induction s arbitrary: l n)
  case (Cons c s)
  from Cons.prems(2) obtain k where k: "n = Suc k" by (cases n) auto
  show ?case
  proof (cases "c = CHR 0x0A \<or> s = []")
    case True
    with Cons.prems k show ?thesis by (cases k) (auto split: if_splits)
  next
    case False
    with Cons.prems(1) obtain l' where "text_lines s = l' # ls" "l = c # l'" by (auto split: list.splits)
    with Cons.IH [of l' k] Cons.prems(2) k False show ?thesis by auto
  qed
qed simp

lemma fgets_empty: "0 < n \<Longrightarrow> fgets n [] = ([], [], True)"
  by (cases n) simp_all

lemma loop_file_runs:
  assumes "list_all (\<lambda>l. length l < 1022) (text_lines script)"
  shows "maestro_loop_file env script ret cc st w = run_script env (script_commands script) ret cc st w"
  using assms
proof (induction "text_lines script" arbitrary: script ret cc st w)
  case Nil
  then have "script = []" using text_lines_Nil by metis
  then show ?case
    by (simp add: maestro_loop_file.simps [of env "[]"] fgets_empty skipped_line_def cstr_def script_commands_def)
next
  case (Cons l ls)
  have l: "text_lines script = l # ls" using Cons.hyps(2) by simp
  with Cons.prems have n: "length l < 1022" by simp
  have rest: "maestro_loop_file env r ret' cc' st' w' = run_script env (script_commands r) ret' cc' st' w'"
    if "text_lines r = ls" for r ret' cc' st' w'
    using Cons.hyps(1) [of r] Cons.prems that l by simp
  have c: "script_commands script = (if skipped_line (cstr l) then [] else [cstr l]) @ script_commands r"
    if "text_lines r = ls" for r using that l by (simp add: script_commands_def)
  from fgets_first_line [OF l n] show ?case
  proof (elim disjE exE conjE)
    fix r
    assume "fgets 1022 script = (l, r, False)" and r: "text_lines r = ls"
    then show ?thesis
      by (auto simp: maestro_loop_file.simps [of env script] c [OF r] rest [OF r] run_bind_def split: sum.splits)
  next
    assume "fgets 1022 script = (l, [], True)" and "ls = []"
    then show ?thesis
      by (auto simp: maestro_loop_file.simps [of env script] c [of "[]"] script_commands_def [of "[]"] run_bind_def split: sum.splits)
  qed
qed

text \<open>
  Property C27, script_runs_commands. On a text whose lines are shorter than the buffer, the
  loop over \<open>fgets\<close> and \<open>feof\<close> runs exactly the command lines of the text, in order,
  skipping comments and blank lines, whether or not the last line ends with a newline.
\<close>

theorem script_runs_commands:
  assumes "list_all (\<lambda>l. length l < 1022) (text_lines script)"
  shows "maestro_loop_file env script ret cc st w = run_script env (script_commands script) ret cc st w"
  using assms by (rule loop_file_runs)

text \<open>A script with a comment, a blank line, a command without a connection and no final newline.\<close>

definition sample_script :: string where
  "sample_script = ''# stop'' @ [CHR 0x0A, CHR 0x0A] @ ''collect'' @ [CHR 0x0A] @ ''quit''"

theorem script_runs_commands_witness:
  "list_all (\<lambda>l. length l < 1022) (text_lines sample_script) \<and>
   maestro_loop_file sample_cenv sample_script 0 (client_ctxt sample_ctxt) St_New sample_cworld
     = run_script sample_cenv (script_commands sample_script) 0 (client_ctxt sample_ctxt) St_New sample_cworld"
proof -
  have "list_all (\<lambda>l. length l < 1022) (text_lines sample_script)" by (simp add: sample_script_def)
  with script_runs_commands [OF this, of sample_cenv 0 "client_ctxt sample_ctxt" St_New sample_cworld] show ?thesis by blast
qed

section \<open>Properties of the commands\<close>

text \<open>The commands that publish one request without a payload: their topic and the request.\<close>

definition plain_command :: "string \<Rightarrow> (string \<times> maestro_command) option" where
  "plain_command = map_of
    [(''start-receiver'', ''/mpt/daemon/receiver'', MAESTRO_NOTE_START_RECEIVER),
     (''stop-receiver'', ''/mpt/daemon/receiver'', MAESTRO_NOTE_STOP_RECEIVER),
     (''start-sender'', ''/mpt/daemon/sender'', MAESTRO_NOTE_START_SENDER),
     (''stop-sender'', ''/mpt/daemon/sender'', MAESTRO_NOTE_STOP_SENDER),
     (''start-inspector'', ''/mpt/daemon/brokerd'', MAESTRO_NOTE_START_INSPECTOR),
     (''stop-inspector'', ''/mpt/daemon/brokerd'', MAESTRO_NOTE_STOP_INSPECTOR),
     (''flush'', ''/mpt/daemon'', MAESTRO_NOTE_FLUSH), (''halt'', ''/mpt/daemon'', MAESTRO_NOTE_HALT)]"

lemmas plain_command_defs = maestro_loop_cmd_def maestro_cmd_start_receiver_def maestro_cmd_stop_receiver_def
  maestro_cmd_start_sender_def maestro_cmd_stop_sender_def maestro_cmd_start_inspector_def
  maestro_cmd_stop_inspector_def maestro_cmd_flush_def maestro_cmd_halt_def MAESTRO_RECEIVER_DAEMONS_def
  MAESTRO_SENDER_DAEMONS_def MAESTRO_BROKER_INSPECTOR_DAEMONS_def MAESTRO_ALL_DAEMONS_def

lemma plain_command_request:
  "plain_command cmd = Some (topic, c) \<Longrightarrow>
   maestro_loop_cmd env cc cmd strings st w = of_undef (maestro_cmd_without_payload env cc topic c st w) \<and>
   c \<notin> {MAESTRO_NOTE_SET, MAESTRO_NOTE_PING}"
  by (auto simp: plain_command_def plain_command_defs split: if_splits)

text \<open>
  Property C26, command_publishes. Once its connection is open, each of the commands to start
  or stop a daemon, to flush and to halt publishes one message: the bytes of the
  request of that name, on the topic of the daemons it is for. It then closes the
  connection and returns 0 exactly when the send succeeded.
\<close>

theorem command_publishes:
  assumes "plain_command cmd = Some (topic, c)" and "maestro_cmd_connect env cc (ce_uri env) st w = Some (0, cc1, st1, w1)"
    and "ce_al env (length (message_bytes (ce_mp env) (Plain_Request (command_code c)))) = None"
    and "length (message_bytes (ce_mp env) (Plain_Request (command_code c))) < 2 ^ 64"
  shows "\<exists>ctxt req. cc_msg_ctxt cc1 = Some ctxt \<and>
    content_bytes req = Some (message_bytes (ce_mp env) (Plain_Request (command_code c))) \<and>
    maestro_loop_cmd env cc cmd strings st w
      = of_undef (publish_and_close env (''Failed to send command to '' @ topic) topic cc1 ctxt req st1 w1)"
proof -
  obtain ctxt where ctxt: "cc_msg_ctxt cc1 = Some ctxt" using connect_open [OF assms(2)] by blast
  from plain_command_request [OF assms(1)] without_payload_publishes [OF assms(2) ctxt, of c topic] assms(3,4) ctxt
  show ?thesis by (metis copy_bytes)
qed

text \<open>A connection that always opens, in a world that records what is sent and closed.\<close>

definition open_vmsl :: "string list vmsl" where
  "open_vmsl = vmsl_init\<lparr>v_init := Some (\<lambda>opt h st w. (Some \<lparr>msg_opts = opt\<rparr>, h, st, w @ [''init''])),
     v_start := Some (\<lambda>c h st w. (VMSL_SUCCESS, st, w @ [''start''])),
     v_send := Some (\<lambda>c h m st w. (VMSL_SUCCESS, m, st, w @ [uri_path (mo_uri (msg_opts c)), the (content_bytes m)])),
     v_stop := Some (\<lambda>c st w. (st, w @ [''stop''])), v_destroy := Some (\<lambda>c st w. (st, w @ [''destroy'']))\<rparr>"

definition open_client :: "string list cmd_ctxt" where
  "open_client = \<lparr>cc_vmsl = open_vmsl, cc_handlers = no_handlers, cc_msg_ctxt = None, cc_queue = 0\<rparr>"

definition open_cenv :: "string list cenv" where
  "open_cenv = \<lparr>ce_mp = msgpack_format, ce_al = (\<lambda>k. None), ce_uri = zero_uri, ce_clone = (\<lambda>u st. (u, st)),
     ce_assign = (\<lambda>u v. (True, open_vmsl)), ce_list_new = (\<lambda>i. True), ce_uuid = (\<lambda>w. (''7'', w)), ce_ipc =
       \<lparr>ipc_ftok = (\<lambda>p. p), ipc_msgget = (\<lambda>k w. (0, w)), ipc_msgsnd = (\<lambda>q n m w. (False, w)),
       ipc_msgrcv = (\<lambda>q n w. (Empty_Queue, w)), ipc_asprintf = True, ipc_mq_open = (\<lambda>n s w. (None, w)),
       ipc_mq_send = (\<lambda>q n m w. (False, w)), ipc_mq_receive = (\<lambda>q n w. (Receive_Error, w)),
       ipc_mq_close = (\<lambda>q w. w), ipc_strerror = [], ipc_use_posix = False\<rparr>,
     ce_now = (\<lambda>w. (\<lparr>tv_sec = 3, tv_usec = 5\<rparr>, w)), ce_sleep = (\<lambda>n w. w), ce_print = (\<lambda>s w. w @ [s]),
     ce_fmt2 = (\<lambda>x. ''0.00''), ce_trim = takeWhile (\<lambda>c. c \<noteq> CHR 0x0A), ce_split = (\<lambda>s st. (Some (split_words [] s), st)), ce_fuel = 5\<rparr>"

lemma open_connect:
  "maestro_cmd_connect open_cenv open_client (ce_uri open_cenv) st w
    = Some (0, open_client\<lparr>cc_msg_ctxt := Some \<lparr>msg_opts = cmd_opts ''7'' zero_uri\<rparr>\<rparr>, St_New, w @ [''init'', ''start''])"
  by (simp add: maestro_cmd_connect_def msg_conn_info_gen_id_def maestro_cmd_ctxt_start_def open_cenv_def open_client_def
      open_vmsl_def vmsl_init_def gru_status_error_def status_simps)

theorem command_publishes_witness:
  "\<exists>ctxt req. cc_msg_ctxt (open_client\<lparr>cc_msg_ctxt := Some \<lparr>msg_opts = cmd_opts ''7'' zero_uri\<rparr>\<rparr>) = Some ctxt \<and>
    content_bytes req = Some (message_bytes (ce_mp open_cenv) (Plain_Request (command_code MAESTRO_NOTE_START_SENDER))) \<and>
    maestro_loop_cmd open_cenv open_client ''start-sender'' None St_New []
      = of_undef (publish_and_close open_cenv (''Failed to send command to '' @ ''/mpt/daemon/sender'') ''/mpt/daemon/sender''
          (open_client\<lparr>cc_msg_ctxt := Some \<lparr>msg_opts = cmd_opts ''7'' zero_uri\<rparr>\<rparr>) ctxt req St_New ([] @ [''init'', ''start'']))"
  by (rule command_publishes [OF _ open_connect]) (simp_all add: plain_command_def open_cenv_def format_defs)

text \<open>The request of the \<open>set\<close> command says the option of that name and the value.\<close>

lemma set_opt_view:
  assumes "al sizeof_payload = None"
  shows "\<exists>n. maestro_note_set_opt al o' v ((maestro_note_set_cmd MAESTRO_NOTE_SET
      (maestro_note_set_type MAESTRO_TYPE_REQUEST zero_note))\<lparr>n_payload := PAt zero_payload\<rparr>) = Some n \<and>
    note_view n = Some (Set_Request (opt_code o') v) \<and> n_payload n \<noteq> PWild"
  using assms
  by (simp add: maestro_note_set_opt_def payload_prepare_ok note_store_def maestro_note_set_cmd_def
      maestro_note_set_type_def view_defs payload_cells_def)

lemma set_opt_by_name_bytes:
  assumes "al sizeof_payload = None" and "opt_by_name opt = Some o'"
  shows "maestro_cmd_set_opt_by_name mp al data opt v st
    = Some (0, snd (msg_content_data_copy al data (message_bytes mp (Set_Request (opt_code o') v))), st)"
proof -
  obtain n where n: "maestro_note_set_opt al o' v ((maestro_note_set_cmd MAESTRO_NOTE_SET
      (maestro_note_set_type MAESTRO_TYPE_REQUEST zero_note))\<lparr>n_payload := PAt zero_payload\<rparr>) = Some n"
    "note_view n = Some (Set_Request (opt_code o') v)" "n_payload n \<noteq> PWild"
    using set_opt_view [where al = al, OF assms(1), of o' v] by blast
  with serialize_note_view [OF n(2)] note_view_cleanup [OF n(2,3)] assms show ?thesis
    by (simp add: maestro_cmd_set_opt_by_name_def payload_prepare_ok emit_def)
qed

lemma set_command_publishes:
  assumes "maestro_cmd_connect env cc (ce_uri env) st w = Some (0, cc1, st1, w1)" and "cc_msg_ctxt cc1 = Some c"
    and "ce_al env sizeof_payload = None" and "opt_by_name opt = Some o'"
  shows "maestro_cmd_set_opt env cc (Some (cmd # opt # v # ws)) st w
    = publish_and_close env ''Failed to send command'' MAESTRO_ALL_DAEMONS cc1 c
        (snd (msg_content_data_copy (ce_al env) zero_content (message_bytes (ce_mp env) (Set_Request (opt_code o') v)))) st1 w1"
  using assms(1) send_and_stop_publishes [OF assms(2), of MAESTRO_ALL_DAEMONS env "''Failed to send command''"]
  by (simp add: maestro_cmd_set_opt_def maestro_cmd_get_string_def set_opt_by_name_bytes [where al = "ce_al env", OF assms(3,4)])

text \<open>The request of the \<open>ping\<close> command says the time at which it was made.\<close>

lemma request_ping_bytes:
  assumes "al sizeof_payload = None" and "now w = (ts, w1)"
  shows "maestro_cmd_request_ping mp al now out st w
    = Some (snd (msg_content_data_copy al out (message_bytes mp
        (Ping_Request (word_of_int (tv_sec ts)) (word_of_int (tv_usec ts))))), st, w1)"
proof -
  obtain n where n: "maestro_note_ping_set_ts ts (maestro_note_set_cmd MAESTRO_NOTE_PING
      (maestro_note_set_type MAESTRO_TYPE_REQUEST (zero_note\<lparr>n_payload := PAt zero_payload\<rparr>))) = Some n"
    "note_view n = Some (Ping_Request (word_of_int (tv_sec ts)) (word_of_int (tv_usec ts)))" "n_payload n \<noteq> PWild"
    by (simp add: maestro_note_ping_set_ts_def note_store_def maestro_note_set_cmd_def
        maestro_note_set_type_def view_defs payload_cells_def)
  with serialize_note_view [OF n(2)] note_view_cleanup [OF n(2,3)] assms show ?thesis
    by (simp add: maestro_cmd_request_ping_def payload_prepare_ok emit_def)
qed

lemma ping_command_publishes:
  assumes "maestro_cmd_connect env cc (ce_uri env) st w = Some (0, cc1, st1, w1)" and "cc_msg_ctxt cc1 = Some c"
    and "ce_al env sizeof_payload = None" and "ce_now env w1 = (ts, w2)" and "gru_status_success st1"
  shows "maestro_cmd_ping env cc st w
    = publish_and_close env ''Failed to send command'' MAESTRO_ALL_DAEMONS cc1 c
        (snd (msg_content_data_copy (ce_al env) zero_content (message_bytes (ce_mp env)
          (Ping_Request (word_of_int (tv_sec ts)) (word_of_int (tv_usec ts)))))) st1 w2"
  using assms(1,5) send_and_stop_publishes [OF assms(2), of MAESTRO_ALL_DAEMONS env "''Failed to send command''"]
  by (simp add: maestro_cmd_ping_def request_ping_bytes [where al = "ce_al env" and now = "ce_now env", OF assms(3,4)])

lemma set_command_dispatch: "maestro_loop_cmd env cc ''set'' strings st w = of_undef (maestro_cmd_set_opt env cc strings st w)"
  by (simp add: maestro_loop_cmd_def)

lemma ping_command_dispatch: "maestro_loop_cmd env cc ''ping'' strings st w = of_undef (maestro_cmd_ping env cc st w)"
  by (simp add: maestro_loop_cmd_def)

lemma loop_cmd_quit: "maestro_loop_cmd env cc ''quit'' strings st w = Inr (- 2, cc, st, w)"
  by (simp add: maestro_loop_cmd_def)

text \<open>
  Also proved, script_quit_fails. The command \<open>quit\<close> ends the interactive loop with 0, but a
  script whose first command it is ends with -2: the client reports a failure.
\<close>

theorem script_quit_fails:
  assumes "list_all (\<lambda>l. length l < 1022) (text_lines script)" and "script_commands script = l # ls"
    and "ce_split env (ce_trim env l) st1 = (Some (''quit'' # ws), st1)" and "l \<noteq> []"
    and "maestro_cmd_ctxt_new env (ce_uri env) st w = (Some cc, st1, w1)" and "cc_msg_ctxt cc = None"
  shows "maestro_loop env (Script (Some script)) st w = Inr (- 2, st1, w1) \<and>
    maestro_loop env (Terminal (l # lines)) st w = Inr (0, st1, w1)"
proof -
  have "script_line env l cc st1 w1 = Inr (False, - 2, cc, st1, w1)"
    using assms(3) by (simp add: script_line_def first_word_def loop_cmd_quit)
  then have "maestro_loop_file env script 0 cc st1 w1 = Inr (- 2, cc, st1, w1)"
    using loop_file_runs [OF assms(1), of env 0 cc st1 w1] assms(2) by simp
  moreover have "maestro_loop_cli env (l # lines) (- 1) cc st1 w1 = Inr (0, cc, st1, w1)"
    using assms(3,4) by (simp add: first_word_def loop_cmd_quit)
  ultimately show ?thesis
    using assms(5,6) by (simp add: maestro_loop_def maestro_cmd_ctxt_destroy_def)
qed

lemma open_ctxt_new:
  "maestro_cmd_ctxt_new open_cenv (ce_uri open_cenv) st w
    = (Some \<lparr>cc_vmsl = open_vmsl, cc_handlers = vmslh_new (\<lambda>i. True), cc_msg_ctxt = None, cc_queue = 0\<rparr>, st, w)"
  by (simp add: maestro_cmd_ctxt_new_def open_cenv_def create_forward_queue_def create_queue_def)

theorem script_quit_fails_witness:
  "maestro_loop open_cenv (Script (Some ''quit'')) St_New [] = Inr (- 2, St_New, []) \<and>
   maestro_loop open_cenv (Terminal [''quit'']) St_New [] = Inr (0, St_New, [])"
  by (rule script_quit_fails [OF _ _ _ _ open_ctxt_new, where l = "''quit''" and ls = "[]" and ws = "[]"])
     (simp_all add: script_commands_def cstr_def NUL_def skipped_line_def is_space_def open_cenv_def)

end
