(* ===== verification/Programs.thy ===== *)
theory Programs
  imports Options Inspector Client_Loop
begin

text \<open>
  The programs: the sender (\<open>src/applications/sender\<close>), the receiver
  (\<open>src/applications/receiver\<close>), the main functions of the three daemons
  (\<open>src/applications/mpt-daemons\<close>) and of the client (\<open>src/applications/maestro\<close>). They read
  the options, open a log and run what the other theories model.
\<close>

section \<open>Environment\<close>

text \<open>
  What the programs call elsewhere: the environment of the daemons, the options, the log (of
  which the summaries of a test are kept), \<open>\%.2f\<close>, the help functions of gru (usage of a program under its name, one option), and
  \<open>waitpid\<close> without flags.
\<close>

record 'w prog_env =
  pg_denv :: "'w denv"
  pg_opt :: "'w opt_api"
  pg_log :: "string \<Rightarrow> 'w \<Rightarrow> 'w"
  pg_fmt2 :: "u64 \<Rightarrow> string"
  pg_usage :: "string \<Rightarrow> 'w \<Rightarrow> 'w"
  pg_option_help :: "string \<Rightarrow> string \<Rightarrow> string \<Rightarrow> 'w \<Rightarrow> 'w"
  pg_waitpid :: "int \<Rightarrow> 'w \<Rightarrow> 'w"

definition NL :: string where
  "NL = [CHR 0x0A]"

text \<open>The help of a program: its name, and for each option the long name, the character and a text.\<close>

type_synonym prog_help = "string \<times> (string \<times> string \<times> string) list"

definition show_help :: "'w prog_env \<Rightarrow> prog_help \<Rightarrow> 'w \<Rightarrow> 'w" where
  "show_help pe h w = fold (\<lambda>(l, c, t) w. pg_option_help pe l c t w) (snd h) (pg_usage pe (fst h) w)"

definition long_opt :: "string \<Rightarrow> char \<Rightarrow> long_option" where
  "long_opt name c = \<lparr>lo_name = name, lo_arg = True, lo_char = c\<rparr>"

definition help_opt :: long_option where
  "help_opt = \<lparr>lo_name = ''help'', lo_arg = False, lo_char = CHR ''h''\<rparr>"

section \<open>The options of the programs\<close>

definition level_text :: string where
  "level_text = ''runs in the given verbose (info, stat, debug, etc) level mode''"

definition perf_help :: prog_help where
  "perf_help = (''mpt-sender'', [(''help'', ''h'', ''show this help''), (''broker-url'', ''b'', ''broker URL to connect to''),
     (''count'', ''c'', ''sends a fixed number of messages''),
     (''duration'', ''d'', ''runs for the specified amount of time. It must be suffixed by 's', 'm', 'h' or 'd' (ie.: 1h15s, 10m)''),
     (''log-level'', ''l'', level_text), (''log-dir'', ''L'', ''a directory to save the logs''),
     (''parallel-count'', ''p'', ''number of parallel connections to the broker (require a log directory for > 1)''),
     (''size'', ''s'', ''message size (in bytes). Use ~ to set a 5%% variability to the message size''),
     (''throttle'', ''t'', ''sets a fixed rate of messages (in messages per second per connection)'')])"

definition perf_long_options :: "long_option list" where
  "perf_long_options = [long_opt ''broker-url'' (CHR ''b''), long_opt ''count'' (CHR ''c''), long_opt ''log-level'' (CHR ''l''),
     long_opt ''parallel-count'' (CHR ''p''), long_opt ''duration'' (CHR ''d''), long_opt ''size'' (CHR ''s''),
     long_opt ''log-dir'' (CHR ''L''), long_opt ''throttle'' (CHR ''t''), help_opt]"

definition perf_optstring :: string where
  "perf_optstring = ''b:c:l:p:d:s:L:t:h''"

definition receiver_help :: prog_help where
  "receiver_help = (''mpt-receiver'', [(''help'', ''h'', ''show this help''), (''broker-url'', ''b'', ''broker URL to connect to''),
     (''duration'', ''d'', ''runs for the specified amount of time. It must be suffixed by 's', 'm', 'h' or 'd' (ie.: 1h15s, 10m)''),
     (''log-level'', ''l'', level_text), (''log-dir'', ''L'', ''a directory to save the logs''),
     (''parallel-count'', ''p'', ''number of parallel connections to the broker (require a log directory for > 1)''),
     (''size'', ''s'', ''message size (in bytes)'')])"

definition receiver_long_options :: "long_option list" where
  "receiver_long_options = [long_opt ''broker-url'' (CHR ''b''), long_opt ''duration'' (CHR ''d''), long_opt ''log-level'' (CHR ''l''),
     long_opt ''log-dir'' (CHR ''L''), long_opt ''parallel-count'' (CHR ''p''), long_opt ''message-size'' (CHR ''s''), help_opt]"

definition receiver_optstring :: string where
  "receiver_optstring = ''b:d:l:L:p:s:h''"

text \<open>The three daemons take the same options; the inspector shows the name of the receiver.\<close>

definition daemon_help :: "string \<Rightarrow> string \<Rightarrow> prog_help" where
  "daemon_help name dir_text = (name, [(''help'', ''h'', ''show this help''), (''log-level'', ''l'', level_text), (''log-dir'', ''L'', dir_text),
     (''maestro-url'', ''m'', ''maestro URL to connect to''), (''name'', ''n'', ''the node name'')])"

definition senderd_help :: prog_help where
  "senderd_help = daemon_help ''mpt-sender-daemon'' ''a directory to save the logs''"

definition receiverd_help :: prog_help where
  "receiverd_help = daemon_help ''mpt-receiver-daemon'' ''a directory to save the logs''"

definition brokerd_help :: prog_help where
  "brokerd_help = daemon_help ''mpt-receiver-daemon'' ''a directory to save the logs (mandatory for --daemon)''"

definition daemon_long_options :: "long_option list" where
  "daemon_long_options = [long_opt ''log-level'' (CHR ''l''), long_opt ''log-dir'' (CHR ''L''), long_opt ''maestro-url'' (CHR ''m''),
     long_opt ''name'' (CHR ''n''), help_opt]"

definition daemon_optstring :: string where
  "daemon_optstring = ''l:L:m:n:h''"

definition maestro_help :: prog_help where
  "maestro_help = (''mpt-maestro'', [(''help'', ''h'', ''show this help''), (''maestro_script'', ''f'', ''maestro script file to execute''),
     (''maestro-url'', ''m'', ''maestro URL to connect to''),
     (''log-level'', ''l'', ''runs in the given verbose (info, debug, trace, etc) level mode'')])"

definition maestro_long_options :: "long_option list" where
  "maestro_long_options = [long_opt ''file'' (CHR ''f''), long_opt ''maestro-url'' (CHR ''m''), long_opt ''log-level'' (CHR ''l''), help_opt]"

definition maestro_optstring :: string where
  "maestro_optstring = ''f:m:l:h''"

text \<open>
  The beginning of a main function: without arguments the help is shown; otherwise the
  options are created and read. \<open>invalid\<close> is the exit code for an invalid option, \<open>run\<close>
  the rest of the program, from the options, the status and the world. \<open>args\<close> are the
  arguments after the name of the program, \<open>zero\<close> is the zeroed object.
\<close>

definition with_options :: "'w prog_env \<Rightarrow> prog_help \<Rightarrow> long_option list \<Rightarrow> string \<Rightarrow> int \<Rightarrow> ('w \<Rightarrow> 'r) \<Rightarrow>
    (opt_store \<Rightarrow> gru_status \<Rightarrow> 'w \<Rightarrow> (int \<times> 'r) run) \<Rightarrow> string list \<Rightarrow> options \<Rightarrow> 'w \<Rightarrow> (int \<times> 'r) run" where
  "with_options pe h los optstring invalid ret run args zero w =
    (if args = [] then Inr (EXIT_FAILURE, ret (show_help pe h w))
     else case options_new (pg_opt pe) zero St_New w of
       (None, st, w1) \<Rightarrow>
         Inr (EXIT_FAILURE, ret (op_print (pg_opt pe) (''Unable to create options object: '' @ gru_status_message st) w1))
     | (Some obj, st, w1) \<Rightarrow>
         run_bind (of_undef (parse_options (pg_opt pe) (getopt_long los optstring args)
           (set_options_object \<lparr>os_obj = obj, os_static = False\<rparr>, st, w1))) (\<lambda>(e, s, st2, w2).
         case e of
           Help \<Rightarrow> Inr (EXIT_SUCCESS, ret (show_help pe h w2))
         | Invalid \<Rightarrow> Inr (invalid, ret (show_help pe h (op_print (pg_opt pe) (''Invalid or missing option'' @ NL) w2)))
         | Refused m \<Rightarrow> Inr (EXIT_FAILURE, ret (op_print (pg_opt pe) (m @ NL) w2))
         | Parsed \<Rightarrow> run s st2 w2))"

section \<open>The sender\<close>

text \<open>The naming information of a report without files is a null pointer that is not read.\<close>

definition program_initialize_writer :: "'w denv \<Rightarrow> string \<Rightarrow> naming_opt \<Rightarrow> opt_store \<Rightarrow> 'w stats_writer \<Rightarrow> gru_status \<Rightarrow> 'w \<Rightarrow>
    'w naming_result" where
  "program_initialize_writer env source naming s wr st w = do {
     dir \<leftarrow> options_get_log_dir s;
     parallel \<leftarrow> options_get_parallel_count s;
     (case dir of
        Some d \<Rightarrow> naming_initialize_writer (de_writers env) wr FORMAT_CSV naming \<lparr>nm_source = source, nm_location = d\<rparr> st w
      | None \<Rightarrow> naming_initialize_writer (de_writers env) wr (if 1 < parallel then FORMAT_NOP else FORMAT_OUT) naming
          \<lparr>nm_source = [], nm_location = []\<rparr> st w)
   }"

definition perf_initialize_writer :: "'w denv \<Rightarrow> opt_store \<Rightarrow> 'w stats_writer \<Rightarrow> gru_status \<Rightarrow> 'w \<Rightarrow> 'w naming_result" where
  "perf_initialize_writer env = program_initialize_writer env ''sender'' NM_THROUGHPUT"

text \<open>The summary of a test in the log.\<close>

definition summary :: "'w prog_env \<Rightarrow> string \<Rightarrow> worker_snapshot \<Rightarrow> string" where
  "summary pe did snapshot =
    did @ nat_dec (unat (ws_count snapshot)) @ '' messages in '' @
    nat_dec (unat (e_elapsed_secs (de_worker (pg_denv pe)) (ws_start snapshot) (ws_now snapshot))) @
    '' seconds (rate: '' @ pg_fmt2 pe (stp_rate (ws_throughput snapshot)) @ '' msgs/sec)''"

text \<open>The partial summary is made from a zeroed snapshot, not from that of the child.\<close>

definition partial_summary :: "'w prog_env \<Rightarrow> string \<Rightarrow> 'w worker_info \<Rightarrow> 'w \<Rightarrow> 'w" where
  "partial_summary pe did wi w =
    pg_log pe (''Partial summary: PID '' @ int_dec (wi_child wi) @ summary pe did zero_snapshot) w"

definition perf_print_partial :: "'w prog_env \<Rightarrow> 'w worker_info \<Rightarrow> 'w \<Rightarrow> 'w" where
  "perf_print_partial pe = partial_summary pe '' sent ''"

text \<open>The worker options, from the zeroed structure: neither the flag of a variable size nor a rate
  or a condition is set.\<close>

definition program_options :: "test_duration \<Rightarrow> opt_store \<Rightarrow> worker_options undef" where
  "program_options duration s = do {
     uri \<leftarrow> options_get_broker_uri s;
     parallel \<leftarrow> options_get_parallel_count s;
     level \<leftarrow> options_get_log_level s;
     size \<leftarrow> options_get_message_size s;
     throttle \<leftarrow> options_get_throttle s;
     Some \<lparr>wo_uri = uri, wo_duration = duration, wo_condition_type = MPT_COND_NONE, wo_condition = 0, wo_log_level = level,
       wo_parallel_count = parallel, wo_message_size = size, wo_variable_size = False, wo_throttle = throttle, wo_rate = 0\<rparr>
   }"

definition perf_duration :: "opt_store \<Rightarrow> test_duration undef" where
  "perf_duration s = do {
     count \<leftarrow> options_get_count s;
     d \<leftarrow> options_get_duration s;
     Some (if count = 0 then Test_Time d else Message_Count count)
   }"

text \<open>The watchdog and the stop at the end of a test with several connections.\<close>

definition finish_clones :: "'w prog_env \<Rightarrow> ('w worker_info \<Rightarrow> 'w \<Rightarrow> 'w) \<Rightarrow> 'w clone_result \<Rightarrow> (int \<times> 'w globals \<times> 'w) run" where
  "finish_clones pe print result =
    (let env = pg_denv pe in
     run_bind result (\<lambda>(ret, wk, g, st, w).
       if worker_error ret then Inr (1, g, w)
       else if worker_child ret then Inr (0, g, w)
       else
         run_bind (worker_manager_watchdog_loop (de_worker env) (de_os env) (de_fuel env) (de_fuel env)
           \<lparr>h_flags = WRK_HANDLE_PRINT, h_eval = None, h_print = Some print\<rparr> g st w) (\<lambda>(g1, st1, w1).
         run_bind (worker_manager_stop (de_worker env) (de_os env) (de_fuel env) g1 w1) (\<lambda>(stopped, g2, w2). Inr (0, g2, w2)))))"

text \<open>The log directory as \<open>worker_log_init\<close> uses it: a null pointer is formatted as a string.\<close>

definition program_log_dir :: "opt_store \<Rightarrow> string undef" where
  "program_log_dir s = Option.bind (options_get_log_dir s) (\<lambda>dir. dir)"

text \<open>The failure to make the log directory of the worker returns \<open>WORKER_FAILURE\<close>.\<close>

definition perf_worker_start :: "'w prog_env \<Rightarrow> pl_state \<Rightarrow> 'w globals \<Rightarrow> opt_store \<Rightarrow> 'w vmsl \<Rightarrow> 'w \<Rightarrow> (int \<times> 'w globals \<times> 'w) run" where
  "perf_worker_start pe pg g s vmsl w =
    (let env = pg_denv pe in
     run_bind (of_undef (Option.bind (perf_duration s) (\<lambda>d. program_options d s))) (\<lambda>opts.
     run_bind (of_undef (program_log_dir s)) (\<lambda>base.
     case worker_log_init (de_path_exists env) (de_mkdirs env) base St_New w of (ok, dir, st, w1) \<Rightarrow>
       if \<not> ok then Inr (uint WORKER_FAILURE, g, w1)
       else
         run_bind (of_undef (perf_initialize_writer env s null_writer st w1)) (\<lambda>(named, wr, st2, w2).
         if \<not> named then Inr (1, g, w2)
         else
           run_bind (of_undef (options_get_variable_size s)) (\<lambda>variable.
           let wk = (\<lambda>flags. (daemon_worker env ''sender'' flags FORMAT_CSV 0 (pl_strategy_assign (de_random env) zero_strategy variable)
                 vmsl dir opts)\<lparr>wk_writer := wr\<rparr>) in
           if wo_parallel_count opts = 1 then
             run_bind (naive_sender_start (de_worker env) (de_fuel env) (wk WRK_SENDER) zero_snapshot st2 pg w2)
               (\<lambda>(ret, snap, st3, pg3, w3).
                 if ret \<noteq> WORKER_SUCCESS then Inr (1, g, w3) else Inr (0, g, pg_log pe (summary pe ''Summary: sent '' snap) w3))
           else finish_clones pe (perf_print_partial pe)
             (worker_manager_clone (de_worker env) (de_os env) (de_config env) (de_writers env)
               (start_with (naive_sender_start (de_worker env)) (de_fuel env) pg) (wk (WRK_SENDER OR WRK_FORKED)) g st2 w2))))))"

text \<open>The rest of the main functions of the sender and the receiver: \<open>start\<close> runs the test.\<close>

definition test_main :: "'w prog_env \<Rightarrow> string \<Rightarrow> (opt_store \<Rightarrow> 'w vmsl \<Rightarrow> 'w \<Rightarrow> (int \<times> 'w globals \<times> 'w) run) \<Rightarrow>
    opt_store \<Rightarrow> gru_status \<Rightarrow> 'w \<Rightarrow> (int \<times> 'w) run" where
  "test_main pe name start s st w =
    (let os = de_os (pg_denv pe) in
     run_bind (of_undef (do { d \<leftarrow> options_get_log_dir s; p \<leftarrow> options_get_parallel_count s; u \<leftarrow> options_get_broker_uri s; Some (d, p, u) }))
       (\<lambda>(dir, parallel, uri).
     if dir = None \<and> 1 < parallel then
       Inr (EXIT_FAILURE, op_print (pg_opt pe) (''Multiple concurrent process require a log directory'' @ NL) w)
     else
       let w1 = (case dir of Some d \<Rightarrow> snd (snd (remap_log_with_link os d name 0 (os_getpid os w) st w)) | None \<Rightarrow> w) in
       case de_assign (pg_denv pe) uri vmsl_init of (assigned, vmsl) \<Rightarrow>
         if \<not> assigned then Inr (EXIT_FAILURE, w1)
         else run_bind (start s vmsl w1) (\<lambda>(ret, g, w2). Inr (if ret = 0 then EXIT_SUCCESS else EXIT_FAILURE, w2))))"

definition perf_main :: "'w prog_env \<Rightarrow> pl_state \<Rightarrow> 'w globals \<Rightarrow> string list \<Rightarrow> options \<Rightarrow> 'w \<Rightarrow> (int \<times> 'w) run" where
  "perf_main pe pg g args zero w = with_options pe perf_help perf_long_options perf_optstring EXIT_FAILURE (\<lambda>w. w)
     (test_main pe ''mpt-sender'' (perf_worker_start pe pg g)) args zero w"

section \<open>The receiver\<close>

definition receiver_initialize_writer :: "'w denv \<Rightarrow> opt_store \<Rightarrow> 'w stats_writer \<Rightarrow> gru_status \<Rightarrow> 'w \<Rightarrow> 'w naming_result" where
  "receiver_initialize_writer env = program_initialize_writer env ''receiver'' (NM_LATENCY OR NM_THROUGHPUT)"

definition receiver_print_partial :: "'w prog_env \<Rightarrow> 'w worker_info \<Rightarrow> 'w \<Rightarrow> 'w" where
  "receiver_print_partial pe = partial_summary pe '' received ''"

text \<open>\<open>receiver_start\<close> of \<open>receiver_worker.c\<close>.\<close>

definition receiver_start_test :: "'w prog_env \<Rightarrow> pl_state \<Rightarrow> 'w globals \<Rightarrow> opt_store \<Rightarrow> 'w vmsl \<Rightarrow> 'w \<Rightarrow> (int \<times> 'w globals \<times> 'w) run" where
  "receiver_start_test pe pg g s vmsl w =
    (let env = pg_denv pe in
     run_bind (of_undef (Option.bind (options_get_duration s) (\<lambda>d. program_options (Test_Time d) s))) (\<lambda>opts.
     run_bind (of_undef (program_log_dir s)) (\<lambda>base.
     case worker_log_init (de_path_exists env) (de_mkdirs env) base St_New w of (ok, dir, st, w1) \<Rightarrow>
       if \<not> ok then Inr (uint WORKER_FAILURE, g, w1)
       else if wo_parallel_count opts = 1 then
         run_bind (of_undef (receiver_initialize_writer env s null_writer st w1)) (\<lambda>(named, wr, st2, w2).
         if \<not> named then Inr (1, g, w2)
         else
           run_bind (naive_receiver_start (de_worker env) (de_fuel env)
               ((daemon_worker env ''receiver'' WRK_RECEIVER FORMAT_CSV 0 zero_strategy vmsl dir opts)\<lparr>wk_writer := wr\<rparr>) zero_snapshot st2 pg w2)
             (\<lambda>(ret, snap, st3, pg3, w3).
               if ret \<noteq> WORKER_SUCCESS
               then Inr (1, g, op_print (pg_opt pe) (''Unable to execute worker: '' @ gru_status_message st3 @ NL) w3)
               else Inr (0, g, pg_log pe (summary pe ''Summary: received '' snap) w3)))
       else finish_clones pe (receiver_print_partial pe)
         (worker_manager_clone (de_worker env) (de_os env) (de_config env) (de_writers env)
           (start_with (naive_receiver_start (de_worker env)) (de_fuel env) pg)
           (daemon_worker env ''receiver'' (WRK_RECEIVER OR WRK_FORKED) FORMAT_CSV (NM_LATENCY OR NM_THROUGHPUT) zero_strategy vmsl dir opts)
           g st w1))))"

definition receiver_main :: "'w prog_env \<Rightarrow> pl_state \<Rightarrow> 'w globals \<Rightarrow> string list \<Rightarrow> options \<Rightarrow> 'w \<Rightarrow> (int \<times> 'w) run" where
  "receiver_main pe pg g args zero w = with_options pe receiver_help receiver_long_options receiver_optstring EXIT_FAILURE (\<lambda>w. w)
     (test_main pe ''mpt-receiver'' (receiver_start_test pe pg g)) args zero w"

section \<open>The daemons\<close>

text \<open>
  The rest of the main function of a daemon: the log directory and the host of the
  maestro URL are mandatory, then the controller is forked; the parent is done. \<open>start\<close> is
  called with the log directory, the name and the maestro URL of the options. The result
  is the world, or what \<open>start\<close> leaves.
\<close>

definition daemon_main :: "'w prog_env \<Rightarrow> string \<Rightarrow> string \<Rightarrow> (string \<Rightarrow> string \<Rightarrow> gru_uri \<Rightarrow> 'w \<Rightarrow> (int \<times> 'r) run) \<Rightarrow>
    opt_store \<Rightarrow> gru_status \<Rightarrow> 'w \<Rightarrow> (int \<times> ('w + 'r)) run" where
  "daemon_main pe what log_name start s st w =
    run_bind (of_undef (do { d \<leftarrow> options_get_log_dir s; h \<leftarrow> options_get_maestro_host s; u \<leftarrow> options_get_maestro_uri s;
        n \<leftarrow> options_get_name s; Some (d, h, u, n) })) (\<lambda>(dir, host, uri, name).
    case dir of
      None \<Rightarrow> Inr (EXIT_FAILURE, Inl (op_print (pg_opt pe) (''Log directory is mandatory for the '' @ what @ '' daemon'' @ NL) w))
    | Some d \<Rightarrow>
       (case de_mkdirs (pg_denv pe) d st w of (made, st1, w1) \<Rightarrow>
          if \<not> made then
            Inr (EXIT_FAILURE, Inl (op_print (pg_opt pe) (''Unable to create log directory: '' @ gru_status_message st1 @ NL) w1))
          else if host = None then
            Inr (EXIT_FAILURE, Inl (op_print (pg_opt pe) (''Maestro host is mandatory for the '' @ what @ '' daemon'' @ NL) w1))
          else case init_controller (de_os (pg_denv pe)) d log_name w1 of (cret, w2) \<Rightarrow>
            if cret = 0 then
              run_bind (of_undef name) (\<lambda>n.
              run_bind (start d n uri w2) (\<lambda>(ret, r). Inr (if ret \<noteq> 0 then EXIT_FAILURE else EXIT_SUCCESS, Inr r)))
            else Inr (if 0 < cret then EXIT_SUCCESS else EXIT_FAILURE, Inl w2)))"

text \<open>The environments of a daemon with the options in them; \<open>clone\<close> is \<open>gru_uri_clone\<close>.\<close>

definition denv_with :: "string \<Rightarrow> 'w denv \<Rightarrow> 'w denv" where
  "denv_with dir env = env\<lparr>de_log_dir := dir\<rparr>"

definition penv_with :: "(gru_uri \<Rightarrow> gru_status \<Rightarrow> gru_uri \<times> gru_status) \<Rightarrow> string \<Rightarrow> gru_uri \<Rightarrow> 'v player_env \<Rightarrow> 'v player_env" where
  "penv_with clone name uri penv = penv\<lparr>pe_name := name, pe_clone := clone uri\<rparr>"

definition senderd_main :: "'w prog_env \<Rightarrow> 'v player_env \<Rightarrow> (gru_uri \<Rightarrow> gru_status \<Rightarrow> gru_uri \<times> gru_status) \<Rightarrow> msgpack_api \<Rightarrow>
    gru_allocator \<Rightarrow> string option \<Rightarrow> (nat \<Rightarrow> 'w daemon \<Rightarrow> 'w daemon run) \<Rightarrow> nat \<Rightarrow> pl_state \<Rightarrow> ('w \<Rightarrow> 'w daemon) \<Rightarrow> 'v \<Rightarrow>
    string list \<Rightarrow> options \<Rightarrow> 'w \<Rightarrow> (int \<times> ('w + 'w daemon \<times> ('v, 'w daemon) link)) run" where
  "senderd_main pe penv clone mp al nl served fuel pg d v args zero w =
    with_options pe senderd_help daemon_long_options daemon_optstring EXIT_FAILURE Inl
      (daemon_main pe ''sender'' ''mpt-sender-daemon'' (\<lambda>dir name uri w.
        senderd_worker_start (denv_with dir (pg_denv pe)) (penv_with clone name uri penv) mp al nl served fuel pg (d w) v)) args zero w"

definition receiverd_main :: "'w prog_env \<Rightarrow> 'v player_env \<Rightarrow> (gru_uri \<Rightarrow> gru_status \<Rightarrow> gru_uri \<times> gru_status) \<Rightarrow> msgpack_api \<Rightarrow>
    gru_allocator \<Rightarrow> string option \<Rightarrow> (nat \<Rightarrow> 'w daemon \<Rightarrow> 'w daemon run) \<Rightarrow> nat \<Rightarrow> pl_state \<Rightarrow> ('w \<Rightarrow> 'w daemon) \<Rightarrow> 'v \<Rightarrow>
    string list \<Rightarrow> options \<Rightarrow> 'w \<Rightarrow> (int \<times> ('w + 'w daemon \<times> ('v, 'w daemon) link)) run" where
  "receiverd_main pe penv clone mp al nl served fuel pg d v args zero w =
    with_options pe receiverd_help daemon_long_options daemon_optstring EXIT_SUCCESS Inl
      (daemon_main pe ''receiver'' ''mpt-receiver-daemon'' (\<lambda>dir name uri w.
        receiverd_worker_start (denv_with dir (pg_denv pe)) (penv_with clone name uri penv) mp al nl served fuel pg (d w) v)) args zero w"

definition brokerd_main :: "'w prog_env \<Rightarrow> 'w bmic_api \<Rightarrow> 'w io_api \<Rightarrow> 'v player_env \<Rightarrow> (gru_uri \<Rightarrow> gru_status \<Rightarrow> gru_uri \<times> gru_status) \<Rightarrow>
    msgpack_api \<Rightarrow> gru_allocator \<Rightarrow> string option \<Rightarrow> (nat \<Rightarrow> nat \<Rightarrow> 'w inspector \<Rightarrow> 'w inspector run) \<Rightarrow> nat \<Rightarrow> ('w \<Rightarrow> 'w inspector) \<Rightarrow> 'v \<Rightarrow>
    string list \<Rightarrow> options \<Rightarrow> 'w \<Rightarrow> (int \<times> ('w + 'w inspector \<times> ('v, 'w inspector) link)) run" where
  "brokerd_main pe b io penv clone mp al nl served fuel d v args zero w =
    with_options pe brokerd_help daemon_long_options
      daemon_optstring EXIT_SUCCESS Inl
      (daemon_main pe ''receiver'' ''mpt-broker-inspector'' (\<lambda>dir name uri w.
        brokerd_worker_start (denv_with dir (pg_denv pe)) b io (penv_with clone name uri penv) mp al nl served fuel (d w) v)) args zero w"

section \<open>The client\<close>

text \<open>The child runs the forward daemon; the parent runs the loop and then ends the child, unless the
  loop failed. \<open>src\<close> opens the script or the terminal.\<close>

definition maestro_run :: "'w prog_env \<Rightarrow> 'w cenv \<Rightarrow> (nat \<Rightarrow> 'w \<Rightarrow> 'w) \<Rightarrow> (string option \<Rightarrow> command_source) \<Rightarrow>
    opt_store \<Rightarrow> gru_status \<Rightarrow> 'w \<Rightarrow> (int \<times> 'w) run" where
  "maestro_run pe env usleep src s st w =
    (let os = de_os (pg_denv pe) in
     run_bind (of_undef (do { u \<leftarrow> options_get_maestro_uri s; f \<leftarrow> options_get_maestro_script s; Some (u, f) })) (\<lambda>(uri, script).
     let env' = env\<lparr>ce_uri := uri\<rparr> in
     case os_fork os w of (child, w1) \<Rightarrow>
       if child = 0 then
         run_bind (maestro_forward_daemon_run env' usleep w1) (\<lambda>(ret, w2). Inr (EXIT_SUCCESS, w2))
       else if 0 < child then
         run_bind (maestro_loop env' (src script) st w1) (\<lambda>(ret, st2, w2).
         if ret \<noteq> 0 then Inr (EXIT_FAILURE, op_print (pg_opt pe) (gru_status_message st2 @ NL) w2)
         else Inr (EXIT_SUCCESS, pg_waitpid pe child (snd (os_kill os child SIGTERM w2))))
       else Inr (EXIT_FAILURE, op_print (pg_opt pe) (''Unable to launch child process'' @ NL) w1)))"

definition maestro_main :: "'w prog_env \<Rightarrow> 'w cenv \<Rightarrow> (nat \<Rightarrow> 'w \<Rightarrow> 'w) \<Rightarrow> (string option \<Rightarrow> command_source) \<Rightarrow>
    string list \<Rightarrow> options \<Rightarrow> 'w \<Rightarrow> (int \<times> 'w) run" where
  "maestro_main pe env usleep src args zero w =
    with_options pe maestro_help maestro_long_options maestro_optstring EXIT_SUCCESS (\<lambda>w. w) (maestro_run pe env usleep src) args zero w"

section \<open>Reading options back\<close>

text \<open>The ways to write an option with an argument on a command line.\<close>

datatype spelling = Long_Separate | Long_Equals | Short_Separate | Short_Joined

fun spell :: "spelling \<Rightarrow> long_option \<Rightarrow> string \<Rightarrow> string list" where
  "spell Long_Separate l v = [''--'' @ lo_name l, v]"
| "spell Long_Equals l v = [''--'' @ lo_name l @ ''='' @ v]"
| "spell Short_Separate l v = [[CHR ''-'', lo_char l], v]"
| "spell Short_Joined l v = [[CHR ''-'', lo_char l] @ v]"

text \<open>An option of the tables that can be spelled: its name is not empty and has no equals sign, its
  character is not a dash, and the option string agrees with the long options. An argument joined to
  the character must not be empty.\<close>

definition spellable :: "long_option list \<Rightarrow> string \<Rightarrow> spelling \<times> long_option \<times> string \<Rightarrow> bool" where
  "spellable los optstring x = (case x of (sp, l, v) \<Rightarrow>
     l \<in> set los \<and> lo_arg l \<and> lo_name l \<noteq> [] \<and> CHR ''='' \<notin> set (lo_name l) \<and> lo_char l \<noteq> CHR ''-'' \<and>
     short_option optstring (lo_char l) = Some True \<and> (sp = Short_Joined \<longrightarrow> v \<noteq> []))"

lemma until_char:
  "x \<notin> set s \<Longrightarrow> takeWhile (\<lambda>c. c \<noteq> x) s = s" "x \<notin> set s \<Longrightarrow> dropWhile (\<lambda>c. c \<noteq> x) s = []"
  "x \<notin> set s \<Longrightarrow> takeWhile (\<lambda>c. c \<noteq> x) (s @ x # v) = s" "x \<notin> set s \<Longrightarrow> dropWhile (\<lambda>c. c \<noteq> x) (s @ x # v) = x # v"
  by (induction s) auto

lemma split_equals_plain: "CHR ''='' \<notin> set s \<Longrightarrow> split_equals s = (s, None)"
  by (simp add: split_equals_def until_char)

lemma split_equals_value: "CHR ''='' \<notin> set s \<Longrightarrow> split_equals (s @ CHR ''='' # v) = (s, Some v)"
  by (simp add: split_equals_def until_char)

lemma long_option_exact:
  assumes "distinct (map lo_name los)" and "l \<in> set los"
  shows "long_option_of los (lo_name l) = Some l"
proof -
  have "find (\<lambda>k. lo_name k = lo_name l) los = Some l"
    using assms by (induction los) (auto split: if_splits)
  then show ?thesis by (simp add: long_option_of_def)
qed

lemma getopt_spelled:
  assumes "distinct (map lo_name los)" and "spellable los optstring (sp, l, v)"
  shows "getopt_long los optstring (spell sp l v @ args) = Opt (lo_char l) (Some v) # getopt_long los optstring args"
proof -
  have l: "long_option_of los (lo_name l) = Some l" using long_option_exact [OF assms(1)] assms(2) by (simp add: spellable_def)
  show ?thesis
    using assms(2) l by (cases sp) (auto simp: spellable_def split_equals_plain split_equals_value)
qed

lemma getopt_all_spelled:
  assumes "distinct (map lo_name los)" and "\<forall>x \<in> set xs. spellable los optstring x"
  shows "getopt_long los optstring (concat (map (\<lambda>(sp, l, v). spell sp l v) xs) @ args)
    = map (\<lambda>(sp, l, v). Opt (lo_char l) (Some v)) xs @ getopt_long los optstring args"
  using assms(2)
proof (induction xs)
  case (Cons x xs)
  then show ?case using getopt_spelled [OF assms(1)] by (cases x) simp
qed simp

text \<open>
  What the user of the sender asks for, apart from the program that reads it: the options
  of its help, each with its value. \<open>written\<close> is the name, the letter and the text of the
  value; \<open>asked\<close> is what it asks for, as an update of the options (and the minimum level of
  the logger); \<open>option_fits\<close> are the values the fields can hold, and the durations gru reads.
\<close>

datatype sender_option = Broker_Url string | Count nat | Log_Level string | Parallel_Count nat | Duration string
  | Size nat | Variable_Size nat | Log_Dir string | Throttle nat

fun written :: "sender_option \<Rightarrow> string \<times> char \<times> string" where
  "written (Broker_Url u) = (''broker-url'', CHR ''b'', u)"
| "written (Count n) = (''count'', CHR ''c'', nat_dec n)"
| "written (Log_Level v) = (''log-level'', CHR ''l'', v)"
| "written (Parallel_Count n) = (''parallel-count'', CHR ''p'', nat_dec n)"
| "written (Duration v) = (''duration'', CHR ''d'', v)"
| "written (Size n) = (''size'', CHR ''s'', nat_dec n)"
| "written (Variable_Size n) = (''size'', CHR ''s'', CHR ''~'' # nat_dec n)"
| "written (Log_Dir d) = (''log-dir'', CHR ''L'', d)"
| "written (Throttle n) = (''throttle'', CHR ''t'', nat_dec n)"

fun asked :: "'w opt_api \<Rightarrow> (string \<Rightarrow> gru_uri) \<Rightarrow> (string \<Rightarrow> gru_duration) \<Rightarrow> sender_option \<Rightarrow> options \<times> 'w \<Rightarrow> options \<times> 'w" where
  "asked op parsed duration (Broker_Url u) (x, w) = (x\<lparr>opt_broker_uri := parsed u\<rparr>, w)"
| "asked op parsed duration (Count n) (x, w) = (x\<lparr>opt_count := word_of_nat n\<rparr>, w)"
| "asked op parsed duration (Log_Level v) (x, w) = (x\<lparr>opt_log_level := op_get_level op v\<rparr>, op_set_minimum op (op_get_level op v) w)"
| "asked op parsed duration (Parallel_Count n) (x, w) = (x\<lparr>opt_parallel_count := word_of_nat n\<rparr>, w)"
| "asked op parsed duration (Duration v) (x, w) = (x\<lparr>opt_duration := duration v\<rparr>, w)"
| "asked op parsed duration (Size n) (x, w) = (x\<lparr>opt_message_size := word_of_nat n\<rparr>, w)"
| "asked op parsed duration (Variable_Size n) (x, w) = (x\<lparr>opt_message_size := word_of_nat n, opt_variable_size := True\<rparr>, w)"
| "asked op parsed duration (Log_Dir d) (x, w) = (x\<lparr>opt_log_dir := Some d\<rparr>, w)"
| "asked op parsed duration (Throttle n) (x, w) = (x\<lparr>opt_throttle := word_of_nat n\<rparr>, w)"

fun option_fits :: "'w opt_api \<Rightarrow> (string \<Rightarrow> gru_duration) \<Rightarrow> sender_option \<Rightarrow> bool" where
  "option_fits op duration (Count n) = (n < 2 ^ 63)"
| "option_fits op duration (Parallel_Count n) = (n < 2 ^ 16)"
| "option_fits op duration (Size n) = (n < 2 ^ 31)"
| "option_fits op duration (Variable_Size n) = (n < 2 ^ 31)"
| "option_fits op duration (Throttle n) = (n < 2 ^ 31)"
| "option_fits op duration (Duration v) = (\<forall>d. op_duration_parse op v d = (True, duration v))"
| "option_fits op duration _ = True"

text \<open>The words of a command line; a value that is joined to the letter must not be empty.\<close>

definition command_words :: "(spelling \<times> sender_option) list \<Rightarrow> string list" where
  "command_words xs = concat (map (\<lambda>(sp, x). case written x of (name, c, v) \<Rightarrow> spell sp (long_opt name c) v) xs)"

definition can_join :: "spelling \<times> sender_option \<Rightarrow> bool" where
  "can_join y = (fst y = Short_Joined \<longrightarrow> snd (snd (written (snd y))) \<noteq> [])"

lemma sender_spellable:
  "can_join (sp, x) \<Longrightarrow> (case written x of (name, c, v) \<Rightarrow> spellable perf_long_options perf_optstring (sp, long_opt name c, v))"
  by (cases x) (simp_all add: spellable_def perf_long_options_def perf_optstring_def long_opt_def can_join_def)

lemma getopt_command:
  assumes "list_all can_join xs"
  shows "getopt_long perf_long_options perf_optstring (command_words xs)
    = map (\<lambda>(sp, x). case written x of (name, c, v) \<Rightarrow> Opt c (Some v)) xs"
proof -
  have d: "distinct (map lo_name perf_long_options)" by (simp add: perf_long_options_def long_opt_def help_opt_def)
  let ?ys = "map (\<lambda>(sp, x). case written x of (name, c, v) \<Rightarrow> (sp, long_opt name c, v)) xs"
  have "\<forall>y \<in> set ?ys. spellable perf_long_options perf_optstring y"
    using assms by (auto simp: list_all_iff split: prod.splits dest!: bspec dest: sender_spellable)
  from getopt_all_spelled [OF d this, of "[]"] show ?thesis
    by (simp add: command_words_def case_prod_unfold comp_def) (simp add: long_opt_def)
qed

section \<open>The defaults\<close>

text \<open>
  Memory is there, and every URL is read: \<open>parsed\<close> is what it is read to.
\<close>

definition options_work :: "'w opt_api \<Rightarrow> (string \<Rightarrow> gru_uri) \<Rightarrow> bool" where
  "options_work op parsed = (op_alloc op (op_sizeof_options op) = None \<and> (\<forall>u st. op_uri_parse op u st = (parsed u, st)) \<and>
     (\<forall>s. op_strdup op s))"

definition default_options :: "'w opt_api \<Rightarrow> (string \<Rightarrow> gru_uri) \<Rightarrow> options" where
  "default_options op parsed = \<lparr>opt_broker_uri = parsed ''amqp://localhost:5672/test.performance.queue'',
     opt_maestro_uri = parsed ''mqtt://localhost:1883/mpt/maestro'', opt_log_dir = None, opt_log_level = op_INFO op,
     opt_parallel_count = 1, opt_message_size = 32, opt_variable_size = False, opt_count = 0,
     opt_duration = op_duration_new op, opt_throttle = 0,
     opt_name = Some (case op_hostname op of Some h \<Rightarrow> h | None \<Rightarrow> ''undefined''), opt_maestro_script = None\<rparr>"

lemma options_new_default:
  "options_work op parsed \<Longrightarrow> options_new op zero St_New w = (Some (default_options op parsed), St_New, w)"
  by (simp add: options_work_def options_new_def options_set_defaults_def default_options_def dup_def gru_status_error_def)

lemmas option_setters = options_set_broker_uri_def options_set_message_count_def options_set_log_level_def options_set_parallel_count_def
  options_set_duration_def options_set_message_size_def options_set_logdir_def options_set_throttle_def Let_def

text \<open>The switch of the program does what the option asks for.\<close>

lemma option_case_asked:
  assumes "options_work op parsed" and "option_fits op duration x"
  shows "case written x of (name, c, v) \<Rightarrow> c \<noteq> CHR ''h'' \<and>
    option_case op c v (\<lparr>os_obj = obj, os_static = True\<rparr>, St_New, w) = (case asked op parsed duration x (obj, w) of
      (obj', w') \<Rightarrow> Some (None, \<lparr>os_obj = obj', os_static = True\<rparr>, St_New, w'))"
  using assms by (cases x) (simp_all add: option_case_def options_work_def refuse_def dup_def gru_status_error_def atoi_nat_dec atol_nat_dec
    scast_small ucast_narrow nat_dec_hd option_setters)

lemma parse_asked:
  assumes "options_work op parsed" and "list_all (option_fits op duration) (map snd xs)"
  shows "parse_options op (map (\<lambda>(sp, x). case written x of (name, c, v) \<Rightarrow> Opt c (Some v)) xs) (\<lparr>os_obj = obj, os_static = True\<rparr>, St_New, w)
    = (case fold (asked op parsed duration) (map snd xs) (obj, w) of
        (obj', w') \<Rightarrow> Some (Parsed, \<lparr>os_obj = obj', os_static = True\<rparr>, St_New, w'))"
  using assms(2)
proof (induction xs arbitrary: obj w)
  case (Cons y ys)
  obtain sp x where y: "y = (sp, x)" by fastforce
  obtain name c v where n: "written x = (name, c, v)" by (cases "written x")
  obtain obj1 w1 where a: "asked op parsed duration x (obj, w) = (obj1, w1)" by fastforce
  from Cons.prems y have "option_fits op duration x" by simp
  from option_case_asked [OF assms(1) this, of obj w] Cons y n a show ?case by simp
qed simp

definition default_store :: "'w opt_api \<Rightarrow> (string \<Rightarrow> gru_uri) \<Rightarrow> opt_store" where
  "default_store op parsed = \<lparr>os_obj = default_options op parsed, os_static = True\<rparr>"

lemma with_options_end:
  assumes "options_work (pg_opt pe) parsed" and "args \<noteq> []"
    and "parse_options (pg_opt pe) (getopt_long los optstring args) (default_store (pg_opt pe) parsed, St_New, w) = Some (e, s, st, w2)"
  shows "with_options pe h los optstring invalid ret run args zero w = (case e of
      Help \<Rightarrow> Inr (EXIT_SUCCESS, ret (show_help pe h w2))
    | Invalid \<Rightarrow> Inr (invalid, ret (show_help pe h (op_print (pg_opt pe) (''Invalid or missing option'' @ NL) w2)))
    | Refused m \<Rightarrow> Inr (EXIT_FAILURE, ret (op_print (pg_opt pe) (m @ NL) w2))
    | Parsed \<Rightarrow> run s st w2)"
  using assms by (simp add: with_options_def options_new_default set_options_object_def default_store_def)

lemmas option_tables = perf_long_options_def perf_optstring_def receiver_long_options_def receiver_optstring_def
  daemon_long_options_def daemon_optstring_def maestro_long_options_def maestro_optstring_def long_opt_def help_opt_def

lemma option_case_logdir:
  "op_strdup op v \<Longrightarrow> option_case op (CHR ''L'') v (s, st, w)
    = Some (None, s\<lparr>os_obj := (os_obj s)\<lparr>opt_log_dir := Some v\<rparr>\<rparr>, st, w)"
  by (simp add: option_case_def options_set_logdir_def dup_def refuse_def)

lemma option_case_count:
  "option_case op (CHR ''c'') v (s, st, w) = Some (None, s\<lparr>os_obj := (os_obj s)\<lparr>opt_count := atol v\<rparr>\<rparr>, st, w)"
  by (simp add: option_case_def options_set_message_count_def)

text \<open>The options of a sender with a log directory and a count, and of a receiver with a log directory.\<close>

definition sender_store :: "'w opt_api \<Rightarrow> (string \<Rightarrow> gru_uri) \<Rightarrow> string option \<Rightarrow> u64 \<Rightarrow> opt_store" where
  "sender_store op parsed dir n = \<lparr>os_obj = (default_options op parsed)\<lparr>opt_log_dir := dir, opt_count := n\<rparr>, os_static = True\<rparr>"

lemma parse_counted:
  "options_work op parsed \<Longrightarrow>
    parse_options op (getopt_long perf_long_options perf_optstring [''--log-dir'', dir, ''--count'', v]) (default_store op parsed, St_New, w)
    = Some (Parsed, sender_store op parsed (Some dir) (atol v), St_New, w)"
  "parse_options op (getopt_long perf_long_options perf_optstring [''--count'', v]) (default_store op parsed, St_New, w)
    = Some (Parsed, sender_store op parsed None (atol v), St_New, w)"
  by (simp_all add: option_tables split_equals_def long_option_of_def default_store_def options_work_def option_case_logdir
      option_case_count sender_store_def default_options_def)

lemma parse_receiver:
  "options_work op parsed \<Longrightarrow>
    parse_options op (getopt_long receiver_long_options receiver_optstring [''--log-dir'', dir]) (default_store op parsed, St_New, w)
    = Some (Parsed, sender_store op parsed (Some dir) 0, St_New, w)"
  by (simp add: option_tables split_equals_def long_option_of_def default_store_def options_work_def option_case_logdir
      sender_store_def default_options_def)

lemma perf_main_counted:
  assumes "options_work (pg_opt pe) parsed"
  shows "perf_main pe pg g [''--log-dir'', dir, ''--count'', v] zero w
      = test_main pe ''mpt-sender'' (perf_worker_start pe pg g) (sender_store (pg_opt pe) parsed (Some dir) (atol v)) St_New w"
    and "perf_main pe pg g [''--count'', v] zero w
      = test_main pe ''mpt-sender'' (perf_worker_start pe pg g) (sender_store (pg_opt pe) parsed None (atol v)) St_New w"
    and "receiver_main pe pg g [''--log-dir'', dir] zero w
      = test_main pe ''mpt-receiver'' (receiver_start_test pe pg g) (sender_store (pg_opt pe) parsed (Some dir) 0) St_New w"
  unfolding perf_main_def receiver_main_def
  using with_options_end [OF assms _ parse_counted(1) [OF assms]] with_options_end [OF assms _ parse_counted(2)]
    with_options_end [OF assms _ parse_receiver [OF assms]] by simp_all

lemma sender_store_gets [simp]:
  "options_get_log_dir (sender_store op parsed dir n) = Some dir"
  "options_get_parallel_count (sender_store op parsed dir n) = Some 1"
  "options_get_broker_uri (sender_store op parsed dir n) = Some (parsed ''amqp://localhost:5672/test.performance.queue'')"
  "options_get_count (sender_store op parsed dir n) = Some n"
  "options_get_duration (sender_store op parsed dir n) = Some (op_duration_new op)"
  "options_get_log_level (sender_store op parsed dir n) = Some (op_INFO op)"
  "options_get_message_size (sender_store op parsed dir n) = Some 32"
  "options_get_variable_size (sender_store op parsed dir n) = Some False"
  "options_get_throttle (sender_store op parsed dir n) = Some 0"
  by (simp_all add: options_get_defs sender_store_def default_options_def)

lemma test_main_succeeds:
  assumes "de_assign (pg_denv pe) (parsed ''amqp://localhost:5672/test.performance.queue'') vmsl_init = (True, vmsl)"
    and "\<And>w. \<exists>w'. start (sender_store op parsed (Some base) n) vmsl w = Inr (0, g, w')"
  shows "\<exists>w'. test_main pe name start (sender_store op parsed (Some base) n) st w = Inr (EXIT_SUCCESS, w')"
proof -
  let ?w = "snd (snd (remap_log_with_link (de_os (pg_denv pe)) base name 0 (os_getpid (de_os (pg_denv pe)) w) st w))"
  obtain w' where "start (sender_store op parsed (Some base) n) vmsl ?w = Inr (0, g, w')" using assms(2) by blast
  with assms(1) show ?thesis by (simp add: test_main_def Let_def)
qed

text \<open>The worker of a sender of \<open>n\<close> messages.\<close>

definition counted_options :: "'w opt_api \<Rightarrow> (string \<Rightarrow> gru_uri) \<Rightarrow> u64 \<Rightarrow> worker_options" where
  "counted_options op parsed n = \<lparr>wo_uri = parsed ''amqp://localhost:5672/test.performance.queue'', wo_duration = Message_Count n,
     wo_condition_type = MPT_COND_NONE, wo_condition = 0, wo_log_level = op_INFO op, wo_parallel_count = 1, wo_message_size = 32,
     wo_variable_size = False, wo_throttle = 0, wo_rate = 0\<rparr>"

definition counted_worker :: "'w prog_env \<Rightarrow> (string \<Rightarrow> gru_uri) \<Rightarrow> 'w vmsl \<Rightarrow> string \<Rightarrow> 'w stats_writer \<Rightarrow> u64 \<Rightarrow> 'w worker" where
  "counted_worker pe parsed vmsl dir wr n =
    (daemon_worker (pg_denv pe) ''sender'' WRK_SENDER FORMAT_CSV 0 (pl_strategy_assign (de_random (pg_denv pe)) zero_strategy False)
      vmsl dir (counted_options (pg_opt pe) parsed n))\<lparr>wk_writer := wr\<rparr>"

lemma counted_options_of:
  "n \<noteq> 0 \<Longrightarrow> Option.bind (perf_duration (sender_store op parsed dir n)) (\<lambda>d. program_options d (sender_store op parsed dir n))
    = Some (counted_options op parsed n)"
  by (simp add: perf_duration_def program_options_def counted_options_def)

text \<open>
  The sender program with a log directory and a count, from the run of its worker: the log
  of the program, the directory of the test and the report are made in turn, and the
  summary says what the worker counted.
\<close>

lemma perf_main_runs:
  assumes "0 < n" and "n < 2 ^ 63" and "options_work (pg_opt pe) parsed"
    and "de_assign (pg_denv pe) (parsed ''amqp://localhost:5672/test.performance.queue'') vmsl_init = (True, vmsl)"
    and "snd (snd (remap_log_with_link (de_os (pg_denv pe)) base ''mpt-sender'' 0 (os_getpid (de_os (pg_denv pe)) w) St_New w)) = w1"
    and "worker_log_init (de_path_exists (pg_denv pe)) (de_mkdirs (pg_denv pe)) base St_New w1 = (True, dir, St_New, w2)"
    and "perf_initialize_writer (pg_denv pe) (sender_store (pg_opt pe) parsed (Some base) (word_of_nat n)) null_writer St_New w2
      = Some (True, wr, St_New, w3)"
    and "naive_sender_start (de_worker (pg_denv pe)) (de_fuel (pg_denv pe)) (counted_worker pe parsed vmsl dir wr (word_of_nat n)) zero_snapshot St_New pg w3
      = Inr (WORKER_SUCCESS, snap, st, pg', w4)"
    and "ws_count snap = word_of_nat n"
  shows "\<exists>rest. perf_main pe pg g [''--log-dir'', base, ''--count'', nat_dec n] zero w
    = Inr (EXIT_SUCCESS, pg_log pe (''Summary: sent '' @ nat_dec n @ '' messages in '' @ rest) w4)"
proof -
  have n: "unat (word_of_nat n :: u64) = n" using assms(2) by (simp add: unsigned_of_nat take_bit_nat_eq_self)
  have n0: "(word_of_nat n :: u64) \<noteq> 0" using n assms(1) by auto
  have "wo_parallel_count (counted_options (pg_opt pe) parsed (word_of_nat n)) = 1" by (simp add: counted_options_def)
  then have "perf_worker_start pe pg g (sender_store (pg_opt pe) parsed (Some base) (word_of_nat n)) vmsl w1
      = Inr (0, g, pg_log pe (summary pe ''Summary: sent '' snap) w4)"
    using assms(6-8) unfolding counted_worker_def
    by (simp add: perf_worker_start_def Let_def counted_options_of [OF n0] program_log_dir_def)
  then show ?thesis
    unfolding perf_main_counted(1) [OF assms(3)] atol_nat_dec [OF assms(2)]
    using assms(4,5,9) n by (auto simp: test_main_def Let_def summary_def)
qed

text \<open>A concrete program: gru reads every URL to one of a host, the broker takes every message.\<close>

definition sample_opt_api :: "unit opt_api" where
  "sample_opt_api = \<lparr>op_uri_parse = (\<lambda>u st. (wo_uri sample_options, st)), op_duration_new = \<lparr>dur_start = zero_ts, dur_end = zero_ts\<rparr>,
     op_duration_parse = (\<lambda>s d. (False, d)), op_get_level = (\<lambda>s. 0), op_set_minimum = (\<lambda>n w. w), op_INFO = 4,
     op_hostname = Some ''node'', op_strdup = (\<lambda>s. True), op_print = (\<lambda>s w. w), op_alloc = (\<lambda>n. None), op_sizeof_options = 200\<rparr>"

definition sample_prog :: "unit prog_env" where
  "sample_prog = \<lparr>pg_denv = sample_denv\<lparr>de_assign := (\<lambda>u v. (True, sample_transport VMSL_SUCCESS)), de_fuel := 6\<rparr>,
     pg_opt = sample_opt_api, pg_log = (\<lambda>s w. w), pg_fmt2 = (\<lambda>x. ''0.00''), pg_usage = (\<lambda>s w. w), pg_option_help = (\<lambda>l c t w. w),
     pg_waitpid = (\<lambda>p w. w)\<rparr>"

lemma sample_options_work: "options_work (pg_opt sample_prog) (\<lambda>u. wo_uri sample_options)"
  by (simp add: options_work_def sample_prog_def sample_opt_api_def)

lemma sample_prog_assign: "de_assign (pg_denv sample_prog) u v = (True, sample_transport VMSL_SUCCESS)"
  by (simp add: sample_prog_def)

section \<open>Properties\<close>

text \<open>
  Property C12, options_read. The sender called with any options of its help but the help itself, in any order, each
  in any of the four spellings (long or short, the value separate or joined): the program
  goes on to the test with the default options changed, one option after the other,
  in exactly the fields these options ask for, and with the values that were written.
\<close>

theorem options_read:
  assumes "options_work (pg_opt pe) parsed" and "list_all (option_fits (pg_opt pe) duration) (map snd xs)" and "list_all can_join xs" and "xs \<noteq> []"
  shows "perf_main pe pg g (command_words xs) zero w
    = (case fold (asked (pg_opt pe) parsed duration) (map snd xs) (default_options (pg_opt pe) parsed, w) of
        (obj, w') \<Rightarrow> test_main pe ''mpt-sender'' (perf_worker_start pe pg g) \<lparr>os_obj = obj, os_static = True\<rparr> St_New w')"
proof -
  obtain obj w' where f: "fold (asked (pg_opt pe) parsed duration) (map snd xs) (default_options (pg_opt pe) parsed, w) = (obj, w')" by fastforce
  have "command_words xs \<noteq> []"
    using assms(4) by (cases xs) (auto simp: command_words_def split: prod.splits elim!: spell.elims)
  then show ?thesis
    using parse_asked [OF assms(1,2), of "default_options (pg_opt pe) parsed" w] f
    by (simp add: perf_main_def with_options_def options_new_default [OF assms(1)] set_options_object_def getopt_command [OF assms(3)])
qed

theorem options_read_witness:
  "perf_main sample_prog sample_pl_state sample_globals [''--count=5'', ''-p'', ''2'', ''--size'', ''~10'', ''-Llogs''] (default_options sample_opt_api (\<lambda>u. zero_uri)) ()
    = test_main sample_prog ''mpt-sender'' (perf_worker_start sample_prog sample_pl_state sample_globals)
        \<lparr>os_obj = (default_options sample_opt_api (\<lambda>u. wo_uri sample_options))\<lparr>opt_count := 5, opt_parallel_count := 2,
           opt_message_size := 10, opt_variable_size := True, opt_log_dir := Some ''logs''\<rparr>, os_static = True\<rparr> St_New ()"
proof -
  let ?xs = "[(Long_Equals, Count 5), (Short_Separate, Parallel_Count 2), (Long_Separate, Variable_Size 10), (Short_Joined, Log_Dir ''logs'')]"
  have "command_words ?xs = [''--count=5'', ''-p'', ''2'', ''--size'', ''~10'', ''-Llogs'']"
    by (simp add: command_words_def long_opt_def nat_dec.simps char_of_def bit_0)
  moreover have "pg_opt sample_prog = sample_opt_api" by (simp add: sample_prog_def)
  moreover have "list_all can_join ?xs" by (simp add: can_join_def)
  ultimately show ?thesis
    using options_read [OF sample_options_work, of "\<lambda>v. op_duration_new sample_opt_api" ?xs sample_pl_state sample_globals "default_options sample_opt_api (\<lambda>u. zero_uri)" "()"] by simp
qed

text \<open>
  Property C37, failed_log_succeeds. When the directory of the test's logs cannot be made, the
  sender and the receiver run no test and exit with success: \<open>worker_log_init\<close> fails, the
  start function returns \<open>WORKER_FAILURE\<close>, which is zero, and zero is success to the main
  function.
\<close>

theorem failed_log_succeeds:
  assumes "options_work (pg_opt pe) parsed"
    and "de_assign (pg_denv pe) (parsed ''amqp://localhost:5672/test.performance.queue'') vmsl_init = (True, vmsl)"
    and "\<And>w. \<not> fst (worker_log_init (de_path_exists (pg_denv pe)) (de_mkdirs (pg_denv pe)) base St_New w)"
  shows "(\<exists>w'. perf_main pe pg g [''--log-dir'', base, ''--count'', v] zero w = Inr (EXIT_SUCCESS, w')) \<and>
    (\<exists>w'. receiver_main pe pg g [''--log-dir'', base] zero w = Inr (EXIT_SUCCESS, w'))"
proof -
  have l: "\<exists>d st w'. worker_log_init (de_path_exists (pg_denv pe)) (de_mkdirs (pg_denv pe)) base St_New w = (False, d, st, w')" for w
    using assms(3) [of w] by (metis (full_types) prod.collapse)
  have "\<exists>w'. perf_worker_start pe pg g (sender_store (pg_opt pe) parsed (Some base) n) vmsl w = Inr (0, g, w')" for n w
    using l [of w] by (auto simp: perf_worker_start_def Let_def program_log_dir_def perf_duration_def program_options_def WORKER_FAILURE_def)
  moreover have "\<exists>w'. receiver_start_test pe pg g (sender_store (pg_opt pe) parsed (Some base) n) vmsl w = Inr (0, g, w')" for n w
    using l [of w] by (auto simp: receiver_start_test_def Let_def program_log_dir_def program_options_def WORKER_FAILURE_def)
  ultimately show ?thesis
    unfolding perf_main_counted(1,3) [OF assms(1)] by (intro conjI test_main_succeeds [where parsed = parsed, OF assms(2)])
qed

definition full_disk :: "unit prog_env" where
  "full_disk = sample_prog\<lparr>pg_denv := (pg_denv sample_prog)\<lparr>de_mkdirs := (\<lambda>p st w. (False, st, w))\<rparr>\<rparr>"

theorem failed_log_succeeds_witness:
  "(\<exists>w'. perf_main full_disk sample_pl_state sample_globals [''--log-dir'', ''logs'', ''--count'', ''5''] (default_options sample_opt_api (\<lambda>u. zero_uri)) ()
      = Inr (EXIT_SUCCESS, w')) \<and>
    (\<exists>w'. receiver_main full_disk sample_pl_state sample_globals [''--log-dir'', ''logs''] (default_options sample_opt_api (\<lambda>u. zero_uri)) ()
      = Inr (EXIT_SUCCESS, w'))"
  by (rule failed_log_succeeds [of full_disk "\<lambda>u. wo_uri sample_options" "sample_transport VMSL_SUCCESS" "''logs''" sample_pl_state sample_globals "''5''"])
    (simp_all add: full_disk_def sample_options_work sample_prog_assign worker_log_init_def split: prod.splits)

text \<open>
  Also proved, program_needs_log_dir. Without a log directory the sender with one
  connection formats a null pointer as a string before the test begins, although only
  several connections are documented to need one.
\<close>

theorem program_needs_log_dir:
  assumes "options_work (pg_opt pe) parsed"
    and "de_assign (pg_denv pe) (parsed ''amqp://localhost:5672/test.performance.queue'') vmsl_init = (True, vmsl)"
  shows "perf_main pe pg g [''--count'', v] zero w = Inl Undefined"
  unfolding perf_main_counted(2) [OF assms(1)]
  using assms(2) by (simp add: test_main_def Let_def perf_worker_start_def perf_duration_def program_options_def program_log_dir_def)

text \<open>
  Also proved, documented_options_refused. The options the help of the sender and of the
  daemons shows are the options they take; the receiver refuses the \<open>--size\<close> of its own
  help, the client the \<open>--maestro_script\<close> of its help, and the client, which then only
  shows the help, exits with success.
\<close>

definition documented :: "prog_help \<Rightarrow> long_option list \<Rightarrow> bool" where
  "documented h los = (list_all (\<lambda>(l, c, t). list_ex (\<lambda>o'. lo_name o' = l \<and> [lo_char o'] = c) los) (snd h) \<and>
     list_all (\<lambda>o'. list_ex (\<lambda>(l, c, t). lo_name o' = l \<and> [lo_char o'] = c) (snd h)) los)"

lemmas help_defs = documented_def perf_help_def receiver_help_def daemon_help_def senderd_help_def receiverd_help_def
  brokerd_help_def maestro_help_def option_tables

lemma options_documented:
  "documented perf_help perf_long_options" "documented senderd_help daemon_long_options"
  "documented receiverd_help daemon_long_options" "documented brokerd_help daemon_long_options"
  by (simp_all add: help_defs)

lemma options_undocumented:
  "\<not> documented receiver_help receiver_long_options" "\<not> documented maestro_help maestro_long_options"
  by (simp_all add: help_defs)

theorem documented_options_refused:
  assumes "options_work (pg_opt pe) parsed"
  shows "receiver_main pe pg g [''--size'', v] zero w
      = Inr (EXIT_FAILURE, show_help pe receiver_help (op_print (pg_opt pe) (''Invalid or missing option'' @ NL) w)) \<and>
    maestro_main pe env usleep src [''--maestro_script'', v] zero w
      = Inr (EXIT_SUCCESS, show_help pe maestro_help (op_print (pg_opt pe) (''Invalid or missing option'' @ NL) w))"
proof -
  have p: "parse_options (pg_opt pe) (getopt_long receiver_long_options receiver_optstring [''--size'', v]) x = Some (Invalid, x)"
    "parse_options (pg_opt pe) (getopt_long maestro_long_options maestro_optstring [''--maestro_script'', v]) x = Some (Invalid, x)" for x
    by (simp_all add: option_tables split_equals_def long_option_of_def)
  show ?thesis unfolding receiver_main_def maestro_main_def
    by (simp add: with_options_end [OF assms _ p(1)] with_options_end [OF assms _ p(2)])
qed

text \<open>
  Also proved, client_leaves_child. When the loop of the client fails, the client exits
  without ending the forward daemon it started: whatever the signal does, it is not sent.
\<close>

theorem client_leaves_child:
  assumes "os_fork (de_os (pg_denv pe)) w = (child, w1)" and "0 < child" and "os_static s"
    and "maestro_loop (env\<lparr>ce_uri := opt_maestro_uri (os_obj s)\<rparr>) (src (opt_maestro_script (os_obj s))) st w1 = Inr (ret, st2, w2)" and "ret \<noteq> 0"
  shows "maestro_run (pe\<lparr>pg_denv := (pg_denv pe)\<lparr>de_os := (de_os (pg_denv pe))\<lparr>os_kill := kill\<rparr>\<rparr>\<rparr>) env usleep src s st w
    = Inr (EXIT_FAILURE, op_print (pg_opt pe) (gru_status_message st2 @ NL) w2)"
  using assms by (simp add: maestro_run_def Let_def options_get_defs)

end
