(* ===== verification/Wrapper.thy ===== *)
theory Wrapper
  imports Vmsl
begin

text \<open>
  What the adapters to the client libraries (\<open>src/api\<close>) share: \<open>src/common/msgctxt.c\<close>, the
  callback lists nobody fills, and the table of functions that the rest of the
  development takes as an argument. A call that runs into undefined behaviour returns
  \<^term>\<open>None\<close>; in the table such a call leaves the world \<^term>\<open>None\<close>, from which nothing
  returns to a defined one.
\<close>

section \<open>Contexts\<close>

definition null_uri :: gru_uri where
  "null_uri = \<lparr>uri_scheme = None, uri_host = None, uri_path = [], uri_query = None\<rparr>"

definition null_opt :: msg_opt where
  "null_opt = \<lparr>mo_direction = MSG_DIRECTION_SENDER, mo_statistics = 0, mo_conn_id = [], mo_uri = null_uri\<rparr>"

text \<open>The context is zeroed memory; \<open>n\<close> is its size.\<close>

definition msg_ctxt_init :: "gru_allocator \<Rightarrow> nat \<Rightarrow> gru_status \<Rightarrow> msg_ctxt option \<times> gru_status" where
  "msg_ctxt_init al n st = (case al n of
     Some m \<Rightarrow> (None, alloc_fail m)
   | None \<Rightarrow> (Some \<lparr>msg_opts = null_opt\<lparr>mo_statistics := MSG_STAT_DEFAULT\<rparr>\<rparr>, st))"

definition msg_ctxt_destroy :: "msg_ctxt option \<Rightarrow> msg_ctxt option" where
  "msg_ctxt_destroy c = None"

text \<open>No function of the program is registered in the other lists: a callback there would be
  called with arguments it cannot read, which is undefined.\<close>

definition run_other :: "(callback_fn, cb_arg) callbacks option \<Rightarrow> unit undef" where
  "run_other cs = vmslh_run (\<lambda>f a s. None) cs ()"

lemma run_other_None [simp]: "run_other None = Some ()"
  by (simp add: run_other_def vmslh_run_def)

lemma run_other_Nil [simp]: "run_other (Some []) = Some ()"
  by (simp add: run_other_def vmslh_run_def)

section \<open>The table\<close>

text \<open>The functions of an adapter, on its world.\<close>

record 'x wrapper =
  wr_init :: "msg_opt \<Rightarrow> handlers \<Rightarrow> gru_status \<Rightarrow> 'x \<Rightarrow> (msg_ctxt option \<times> handlers \<times> gru_status \<times> 'x) undef"
  wr_start :: "msg_ctxt \<Rightarrow> handlers \<Rightarrow> gru_status \<Rightarrow> 'x \<Rightarrow> (vmsl_stat \<times> gru_status \<times> 'x) undef"
  wr_send :: "msg_ctxt \<Rightarrow> handlers \<Rightarrow> msg_content \<Rightarrow> gru_status \<Rightarrow> 'x \<Rightarrow> (vmsl_stat \<times> msg_content \<times> gru_status \<times> 'x) undef"
  wr_subscribe :: "msg_ctxt \<Rightarrow> mtopic_spec option \<Rightarrow> gru_status \<Rightarrow> 'x \<Rightarrow> (vmsl_stat \<times> gru_status \<times> 'x) undef"
  wr_receive :: "msg_ctxt \<Rightarrow> handlers \<Rightarrow> msg_content \<Rightarrow> gru_status \<Rightarrow> 'x \<Rightarrow> (vmsl_stat \<times> msg_content \<times> gru_status \<times> 'x) undef"
  wr_stop :: "msg_ctxt option \<Rightarrow> gru_status \<Rightarrow> 'x \<Rightarrow> (gru_status \<times> 'x) undef"
  wr_destroy :: "msg_ctxt option \<Rightarrow> gru_status \<Rightarrow> 'x \<Rightarrow> (gru_status \<times> 'x) undef"
  wr_info :: "string \<times> string"

text \<open>A call on a world that may be gone: \<open>dflt\<close> stands for the results nobody can see.\<close>

definition on_world :: "('x \<Rightarrow> ('r \<times> 'x) undef) \<Rightarrow> 'r \<Rightarrow> 'x option \<Rightarrow> 'r \<times> 'x option" where
  "on_world f dflt w = (case Option.bind w f of None \<Rightarrow> (dflt, None) | Some (r, w') \<Rightarrow> (r, Some w'))"

definition wrapper_table :: "'x wrapper \<Rightarrow> 'x option vmsl" where
  "wrapper_table x = \<lparr>
     v_init = Some (\<lambda>opt h st w. case on_world (\<lambda>w. map_option (\<lambda>(c, h', st', w'). ((c, h', st'), w')) (wr_init x opt h st w))
       (None, h, st) w of ((c, h', st'), w') \<Rightarrow> (c, h', st', w')),
     v_start = Some (\<lambda>c h st w. case on_world (\<lambda>w. map_option (\<lambda>(r, st', w'). ((r, st'), w')) (wr_start x c h st w))
       (VMSL_ERROR, st) w of ((r, st'), w') \<Rightarrow> (r, st', w')),
     v_send = Some (\<lambda>c h d st w. case on_world (\<lambda>w. map_option (\<lambda>(r, d', st', w'). ((r, d', st'), w')) (wr_send x c h d st w))
       (VMSL_ERROR, d, st) w of ((r, d', st'), w') \<Rightarrow> (r, d', st', w')),
     v_subscribe = Some (\<lambda>c t st w. case on_world (\<lambda>w. map_option (\<lambda>(r, st', w'). ((r, st'), w')) (wr_subscribe x c t st w))
       (VMSL_ERROR, st) w of ((r, st'), w') \<Rightarrow> (r, st', w')),
     v_receive = Some (\<lambda>c h d st w. case on_world (\<lambda>w. map_option (\<lambda>(r, d', st', w'). ((r, d', st'), w')) (wr_receive x c h d st w))
       (VMSL_ERROR, d, st) w of ((r, d', st'), w') \<Rightarrow> (r, d', st', w')),
     v_stop = Some (\<lambda>c st w. on_world (wr_stop x c st) st w),
     v_destroy = Some (\<lambda>c st w. on_world (wr_destroy x c st) st w),
     v_info = Some (wr_info x)\<rparr>"

text \<open>A call from a defined world that is defined shows its results.\<close>

lemma table_send_ok:
  "wr_send x c h d st w = Some (r, d', st', w') \<Longrightarrow> the (v_send (wrapper_table x)) c h d st (Some w) = (r, d', st', Some w')"
  by (simp add: wrapper_table_def on_world_def)

lemma table_receive_ok:
  "wr_receive x c h d st w = Some (r, d', st', w') \<Longrightarrow> the (v_receive (wrapper_table x)) c h d st (Some w) = (r, d', st', Some w')"
  by (simp add: wrapper_table_def on_world_def)

section \<open>Registration\<close>

lemma keys_puts:
  "callbacks_wf t \<Longrightarrow> set (map fst xs) \<subseteq> set (callback_keys t) \<Longrightarrow> callback_keys (cbt.puts pz xs t) = callback_keys t"
  by (induction xs arbitrary: t) (auto simp: cbt.inv_put cbt.fns_put)

lemma arg_variant_or_null [simp]: "arg_variant (arg_or_null v) = v"
  by (simp add: arg_or_null_def split: option.splits)

section \<open>Contents\<close>

definition plain_stats :: "msg_ctxt \<Rightarrow> bool" where
  "plain_stats c = (mo_statistics (msg_opts c) AND MSG_STAT_LATENCY = 0)"

text \<open>A block that can hold messages of up to \<open>n\<close> bytes.\<close>

definition room_for :: "nat \<Rightarrow> msg_content \<Rightarrow> bool" where
  "room_for n r = (\<exists>d. mc_data r = Some d \<and> length d = unat (mc_capacity r) \<and> n \<le> unat (mc_capacity r))"

lemma content_bytes_length: "content_bytes d = Some bs \<Longrightarrow> unat (mc_size d) = length bs"
  by (auto simp: content_bytes_def split: option.splits if_splits)

end
