(* ===== verification/Proton_Handlers.thy ===== *)
theory Proton_Handlers
  imports Wrapper
begin

text \<open>
  The callbacks of AMQP: \<open>src/api/qpid-proton/proton-handlers.c\<close>, which set the fields of
  a message before it is sent, choose how deliveries are settled, and settle them. The
  proton library is a parameter.
\<close>

section \<open>State and the client library\<close>

text \<open>
  The context behind \<open>api_context\<close> (the messenger and the handlers), the globals \<open>url\<close>
  of \<open>proton-wrapper.c\<close> and \<open>properties\<close> of \<open>proton-handlers.c\<close> (a list of pointers to key
  pairs), and the three static variables of \<open>proton_receive\<close>. The lists of handlers are
  shared with the program; callbacks add to them, so the functions read them here.
\<close>

record 'p proton =
  pr_url :: "string option"
  pr_properties :: "gru_keypair option list option"
  pr_handlers :: handlers
  pr_nmsgs :: int
  pr_cur :: int
  pr_last_ack :: int
  pr_messenger :: 'p

datatype pn_snd_settle_mode = PN_SND_UNSETTLED | PN_SND_SETTLED
datatype pn_rcv_settle_mode = PN_RCV_FIRST | PN_RCV_SECOND

text \<open>
  The functions of proton on a messenger \<open>'p\<close> (with the network behind it) and a message
  \<open>'g\<close>; those of gru and of the operating system that the wrapper calls. A flag of
  \<open>pn_settle\<close> and \<open>pn_accept\<close> tells whether they are cumulative. \<open>pn_body_format\<close> returns
  the bytes it writes and the size it stores; \<open>pn_null_equals_str\<close> is
  \<open>gru_variant_equals_str\<close> on a null pointer.
\<close>

record ('p, 'g) proton_api =
  pn_messenger :: "'p \<Rightarrow> 'p"
  pn_messenger_free :: "'p \<Rightarrow> 'p"
  pn_messenger_start :: "'p \<Rightarrow> int \<times> 'p"
  pn_messenger_stop :: "'p \<Rightarrow> int \<times> 'p"
  pn_messenger_stopped :: "'p \<Rightarrow> bool"
  pn_INPROGRESS :: int
  pn_usleep :: "nat \<Rightarrow> 'p \<Rightarrow> 'p"
  pn_sleep :: "nat \<Rightarrow> 'p \<Rightarrow> 'p"
  pn_messenger_errno :: "'p \<Rightarrow> int"
  pn_error_text :: "'p \<Rightarrow> string"
  pn_messenger_put :: "'g \<Rightarrow> 'p \<Rightarrow> 'p"
  pn_messenger_send :: "int \<Rightarrow> 'p \<Rightarrow> 'p"
  pn_messenger_subscribe :: "string option \<Rightarrow> 'p \<Rightarrow> 'p"
  pn_messenger_set_blocking :: "bool \<Rightarrow> 'p \<Rightarrow> 'p"
  pn_messenger_set_incoming_window :: "int \<Rightarrow> 'p \<Rightarrow> 'p"
  pn_messenger_set_outgoing_window :: "int \<Rightarrow> 'p \<Rightarrow> 'p"
  pn_messenger_set_snd_settle_mode :: "pn_snd_settle_mode \<Rightarrow> 'p \<Rightarrow> 'p"
  pn_messenger_set_rcv_settle_mode :: "pn_rcv_settle_mode \<Rightarrow> 'p \<Rightarrow> 'p"
  pn_messenger_recv :: "int \<Rightarrow> 'p \<Rightarrow> int \<times> 'p"
  pn_messenger_incoming :: "'p \<Rightarrow> int"
  pn_messenger_get :: "'g \<Rightarrow> 'p \<Rightarrow> 'g \<times> 'p"
  pn_outgoing_tracker :: "'p \<Rightarrow> int"
  pn_incoming_tracker :: "'p \<Rightarrow> int"
  pn_settle :: "int \<Rightarrow> bool \<Rightarrow> 'p \<Rightarrow> 'p"
  pn_accept :: "int \<Rightarrow> bool \<Rightarrow> 'p \<Rightarrow> 'p"
  pn_message :: 'g
  pn_set_address :: "string option \<Rightarrow> 'g \<Rightarrow> 'g"
  pn_put_body :: "byte list \<Rightarrow> 'g \<Rightarrow> 'g"
  pn_body_format :: "'g \<Rightarrow> u64 \<Rightarrow> byte list \<times> u64"
  pn_set_creation_time :: "int \<Rightarrow> 'g \<Rightarrow> 'g"
  pn_get_creation_time :: "'g \<Rightarrow> int"
  pn_set_content_type :: "string \<Rightarrow> 'g \<Rightarrow> 'g"
  pn_set_ttl :: "u32 \<Rightarrow> 'g \<Rightarrow> 'g"
  pn_set_durable :: "bool \<Rightarrow> 'g \<Rightarrow> 'g"
  pn_set_priority :: "u8 \<Rightarrow> 'g \<Rightarrow> 'g"
  pn_put_map :: "'g \<Rightarrow> 'g"
  pn_enter :: "'g \<Rightarrow> 'g"
  pn_put_property :: "string \<Rightarrow> 'g \<Rightarrow> 'g"
  pn_exit :: "'g \<Rightarrow> 'g"
  pn_rand :: "'p \<Rightarrow> int \<times> 'p"
  pn_gettimeofday :: "'p \<Rightarrow> timestamp option \<times> 'p"
  pn_strerror :: string
  pn_time_from_milli :: "int \<Rightarrow> timestamp"
  pn_null_equals_str :: "string \<Rightarrow> bool undef"
  pn_list_new :: bool
  pn_split :: "string \<Rightarrow> gru_status \<Rightarrow> string list option \<times> gru_status"
  pn_keypair_parse :: "string \<Rightarrow> gru_status \<Rightarrow> gru_keypair option \<times> gru_status"
  pn_uri_simple_format :: "gru_uri \<Rightarrow> gru_status \<Rightarrow> string option \<times> gru_status"
  pn_version :: string
  pn_alloc :: gru_allocator
  pn_append :: bool
  pn_sizeof_msg_ctxt :: nat
  pn_sizeof_proton_ctxt :: nat

section \<open>Callbacks\<close>

definition proton_param_cleanup :: "'p proton \<Rightarrow> 'p proton" where
  "proton_param_cleanup w = w\<lparr>pr_properties := None\<rparr>"

text \<open>The key pairs of the list go into the map of the message in turn; a null entry or a value that
  is not a string is read as one.\<close>

fun put_properties :: "('p, 'g) proton_api \<Rightarrow> gru_keypair option list \<Rightarrow> 'g \<Rightarrow> 'g undef" where
  "put_properties pa [] g = Some g"
| "put_properties pa (node # ps) g = do {
     property \<leftarrow> node;
     v \<leftarrow> vr_string (kp_pair property);
     put_properties pa ps (pn_put_property pa v (pn_put_property pa (kp_key property) g))
   }"

definition proton_set_properties :: "('p, 'g) proton_api \<Rightarrow> gru_keypair option list option \<Rightarrow> 'g \<Rightarrow> 'g undef" where
  "proton_set_properties pa pl_properties g = do {
     ps \<leftarrow> pl_properties;
     g' \<leftarrow> put_properties pa ps (pn_enter pa (pn_put_map pa g));
     Some (pn_exit pa g')
   }"

fun proton_set_content_type :: "('p, 'g) proton_api \<Rightarrow> cb_arg \<Rightarrow> 'g \<Rightarrow> 'g undef" where
  "proton_set_content_type pa Arg_Null g = Some (pn_set_content_type pa ''text/plain'' g)"
| "proton_set_content_type pa (Arg_String (Some s)) g = Some (pn_set_content_type pa s g)"
| "proton_set_content_type pa a g = None"

definition proton_set_ttl :: "('p, 'g) proton_api \<Rightarrow> gru_variant option \<Rightarrow> 'g \<Rightarrow> 'g" where
  "proton_set_ttl pa payload g = (case payload of
     None \<Rightarrow> pn_set_ttl pa 5000 g
   | Some v \<Rightarrow> pn_set_ttl pa (word_of_int (vr_inumber v)) g)"

definition proton_set_durable :: "('p, 'g) proton_api \<Rightarrow> gru_variant option \<Rightarrow> 'g \<Rightarrow> 'g" where
  "proton_set_durable pa payload g = (case payload of
     None \<Rightarrow> pn_set_durable pa False g
   | Some v \<Rightarrow> pn_set_durable pa (vr_flag v) g)"

definition proton_set_priority :: "('p, 'g) proton_api \<Rightarrow> gru_variant option \<Rightarrow> 'g \<times> 'p \<Rightarrow> ('g \<times> 'p) undef" where
  "proton_set_priority pa payload s = (case (payload, s) of
     (None, g, m) \<Rightarrow> None
   | (Some v, g, m) \<Rightarrow>
      (if vr_is_integer v then Some (pn_set_priority pa (word_of_int (vr_inumber v)) g, m)
       else case pn_rand pa m of (r, m1) \<Rightarrow> Some (pn_set_priority pa (word_of_int (r mod 9)) g, m1)))"

text \<open>The callbacks that settle register further callbacks, with a status of their own; whether the
  registration succeeds is only logged.\<close>

definition add_after_send :: "gru_allocator \<Rightarrow> bool \<Rightarrow> callback_fn \<Rightarrow> handlers \<Rightarrow> handlers undef" where
  "add_after_send al app f h = do {
     (l, st') \<leftarrow> add_handler al app (after_send h) f Arg_Null St_New;
     Some (h\<lparr>after_send := l\<rparr>)
   }"

definition add_finalize_receive :: "gru_allocator \<Rightarrow> bool \<Rightarrow> callback_fn \<Rightarrow> handlers \<Rightarrow> handlers undef" where
  "add_finalize_receive al app f h = do {
     (l, st') \<leftarrow> add_handler al app (finalize_receive h) f Arg_Null St_New;
     Some (h\<lparr>finalize_receive := l\<rparr>)
   }"

definition proton_set_qos_mode_send :: "('p, 'g) proton_api \<Rightarrow> gru_variant option \<Rightarrow> 'p proton \<Rightarrow> 'p proton undef" where
  "proton_set_qos_mode_send pa payload w =
    (if (case payload of None \<Rightarrow> True | Some v \<Rightarrow> vr_equals_str v ''at-most-once'') then
       Some (w\<lparr>pr_messenger := pn_messenger_set_snd_settle_mode pa PN_SND_SETTLED (pr_messenger w)\<rparr>)
     else do {
       h \<leftarrow> add_after_send (pn_alloc pa) (pn_append pa) CB_commit (pr_handlers w);
       Some (w\<lparr>pr_handlers := h, pr_messenger := pn_messenger_set_snd_settle_mode pa PN_SND_UNSETTLED
         (pn_messenger_set_outgoing_window pa 1 (pr_messenger w))\<rparr>)
     })"

definition variant_equals_str :: "('p, 'g) proton_api \<Rightarrow> gru_variant option \<Rightarrow> string \<Rightarrow> bool undef" where
  "variant_equals_str pa payload s = (case payload of
     None \<Rightarrow> pn_null_equals_str pa s
   | Some v \<Rightarrow> Some (vr_equals_str v s))"

text \<open>The branch for at most once has no return: the comparisons that follow read a null variant.\<close>

definition proton_set_qos_mode_recv :: "('p, 'g) proton_api \<Rightarrow> gru_variant option \<Rightarrow> 'p proton \<Rightarrow> 'p proton undef" where
  "proton_set_qos_mode_recv pa payload w = do {
     h \<leftarrow> (if (case payload of None \<Rightarrow> True | Some v \<Rightarrow> vr_equals_str v ''at-most-once'')
           then add_finalize_receive (pn_alloc pa) (pn_append pa) CB_accept (pr_handlers w) else Some (pr_handlers w));
     at_least \<leftarrow> variant_equals_str pa payload ''at-least-once'';
     if at_least then
       Some (w\<lparr>pr_handlers := h, pr_messenger := pn_messenger_set_rcv_settle_mode pa PN_RCV_FIRST (pr_messenger w)\<rparr>)
     else do {
       exactly \<leftarrow> variant_equals_str pa payload ''exactly-once'';
       if exactly then
         Some (w\<lparr>pr_handlers := h, pr_messenger := pn_messenger_set_rcv_settle_mode pa PN_RCV_SECOND (pr_messenger w)\<rparr>)
       else Some (w\<lparr>pr_handlers := h\<rparr>)
     }
   }"

definition proton_do_commit :: "('p, 'g) proton_api \<Rightarrow> 'p \<Rightarrow> 'p" where
  "proton_do_commit pa m = pn_settle pa (pn_outgoing_tracker pa m) False m"

definition proton_commit :: "('p, 'g) proton_api \<Rightarrow> 'p proton \<Rightarrow> 'p proton" where
  "proton_commit pa w = w\<lparr>pr_messenger := proton_do_commit pa (pr_messenger w)\<rparr>"

definition proton_do_accept :: "('p, 'g) proton_api \<Rightarrow> 'p \<Rightarrow> 'p" where
  "proton_do_accept pa m =
    (let tracker = pn_incoming_tracker pa m in pn_settle pa tracker True (pn_accept pa tracker True m))"

definition proton_accept :: "('p, 'g) proton_api \<Rightarrow> 'p proton \<Rightarrow> 'p proton" where
  "proton_accept pa w = w\<lparr>pr_messenger := proton_do_accept pa (pr_messenger w)\<rparr>"

text \<open>A callback by its address, on the message (which may be null) and the context. A callback that
  needs a message and gets none, and one of MQTT, reads what is not there.\<close>

fun proton_callback :: "('p, 'g) proton_api \<Rightarrow> callback_fn \<Rightarrow> cb_arg \<Rightarrow> 'g option \<times> 'p proton \<Rightarrow> ('g option \<times> 'p proton) undef" where
  "proton_callback pa CB_content_type a s =
     Option.bind (fst s) (\<lambda>g. map_option (\<lambda>g'. (Some g', snd s)) (proton_set_content_type pa a g))"
| "proton_callback pa CB_properties a s =
     (if a = Arg_Properties
      then Option.bind (fst s) (\<lambda>g. map_option (\<lambda>g'. (Some g', snd s)) (proton_set_properties pa (pr_properties (snd s)) g))
      else None)"
| "proton_callback pa CB_ttl a s = map_option (\<lambda>g. (Some (proton_set_ttl pa (arg_variant a) g), snd s)) (fst s)"
| "proton_callback pa CB_durable a s = map_option (\<lambda>g. (Some (proton_set_durable pa (arg_variant a) g), snd s)) (fst s)"
| "proton_callback pa CB_priority a s = Option.bind (fst s) (\<lambda>g.
     map_option (\<lambda>(g', m). (Some g', (snd s)\<lparr>pr_messenger := m\<rparr>)) (proton_set_priority pa (arg_variant a) (g, pr_messenger (snd s))))"
| "proton_callback pa CB_qos_mode_send a s = map_option (\<lambda>w. (fst s, w)) (proton_set_qos_mode_send pa (arg_variant a) (snd s))"
| "proton_callback pa CB_qos_mode_recv a s = map_option (\<lambda>w. (fst s, w)) (proton_set_qos_mode_recv pa (arg_variant a) (snd s))"
| "proton_callback pa CB_commit a s = Some (fst s, proton_commit pa (snd s))"
| "proton_callback pa CB_accept a s = Some (fst s, proton_accept pa (snd s))"
| "proton_callback pa f a s = None"

section \<open>Registration\<close>

fun parse_properties :: "('p, 'g) proton_api \<Rightarrow> string list \<Rightarrow> gru_status \<Rightarrow> gru_keypair option list \<times> gru_status" where
  "parse_properties pa [] st = ([], st)"
| "parse_properties pa (x # xs) st =
     (case pn_keypair_parse pa x st of (property, st1) \<Rightarrow>
      case parse_properties pa xs st1 of (ps, st2) \<Rightarrow> (property # ps, st2))"

text \<open>The state of a registration: the handlers, the status and the global list of properties. A null
  list handed on to gru, and a null result of the split, are not followed further.\<close>

type_synonym registration = "(handlers \<times> gru_status) \<times> gru_keypair option list option"

definition on_handlers :: "(handlers \<times> gru_status \<Rightarrow> (handlers \<times> gru_status) undef) \<Rightarrow> registration \<Rightarrow> registration undef" where
  "on_handlers f s = map_option (\<lambda>hs. (hs, snd s)) (f (fst s))"

definition add_application_properties :: "('p, 'g) proton_api \<Rightarrow> gru_keypair \<Rightarrow> registration \<Rightarrow> registration undef" where
  "add_application_properties pa kp s = do {
     ps \<leftarrow> (case snd s of Some ps \<Rightarrow> Some ps | None \<Rightarrow> if pn_list_new pa then Some [] else None);
     v \<leftarrow> vr_string (kp_pair kp);
     (case pn_split pa v (snd (fst s)) of (tmp, st1) \<Rightarrow> do {
        parts \<leftarrow> tmp;
        (case parse_properties pa parts st1 of (new, st2) \<Rightarrow> do {
           hs \<leftarrow> add_before_send (pn_alloc pa) (pn_append pa) CB_properties Arg_Properties (fst (fst s), st2);
           Some (hs, Some (ps @ new))
         })
      })
   }"

definition proton_set_parameter_by_name :: "('p, 'g) proton_api \<Rightarrow> msg_direction \<Rightarrow> gru_keypair \<Rightarrow> registration \<Rightarrow> registration undef" where
  "proton_set_parameter_by_name pa dir kp s0 =
    (let send = (\<lambda>f a. on_handlers (add_before_send (pn_alloc pa) (pn_append pa) f a));
         conn = (\<lambda>f a. on_handlers (add_before_connect (pn_alloc pa) (pn_append pa) f a)) in do {
     s1 \<leftarrow> (if kp_key kp = ''content-type'' then send CB_content_type (Arg_String (vr_string (kp_pair kp))) s0 else Some s0);
     s2 \<leftarrow> (if kp_key kp = ''application-properties'' then add_application_properties pa kp s1 else Some s1);
     s3 \<leftarrow> (if kp_key kp = ''ttl'' then send CB_ttl (Arg_Variant (kp_pair kp)) s2 else Some s2);
     s4 \<leftarrow> (if kp_key kp = ''durable'' then send CB_durable (Arg_Variant (kp_pair kp)) s3 else Some s3);
     s5 \<leftarrow> (if kp_key kp = ''priority'' then send CB_priority (Arg_Variant (kp_pair kp)) s4 else Some s4);
     if kp_key kp = ''qos-mode'' then
       (if dir = MSG_DIRECTION_SENDER then conn CB_qos_mode_send (Arg_Variant (kp_pair kp)) s5
        else conn CB_qos_mode_recv (Arg_Variant (kp_pair kp)) s5)
     else Some s5
   })"

fun proton_set_each :: "('p, 'g) proton_api \<Rightarrow> msg_direction \<Rightarrow> gru_keypair list \<Rightarrow> registration \<Rightarrow> registration undef" where
  "proton_set_each pa dir [] s = Some s"
| "proton_set_each pa dir (kp # kps) s = do {
     s' \<leftarrow> proton_set_parameter_by_name pa dir kp s;
     proton_set_each pa dir kps s'
   }"

definition proton_set_user_parameters :: "('p, 'g) proton_api \<Rightarrow> msg_opt \<Rightarrow> registration \<Rightarrow> registration undef" where
  "proton_set_user_parameters pa opt s = (case uri_query (mo_uri opt) of
     None \<Rightarrow> Some s | Some kps \<Rightarrow> proton_set_each pa (mo_direction opt) kps s)"

definition proton_set_default_parameters :: "('p, 'g) proton_api \<Rightarrow> msg_opt \<Rightarrow> handlers \<times> gru_status \<Rightarrow> (handlers \<times> gru_status) undef" where
  "proton_set_default_parameters pa opt s0 =
    (let send = (\<lambda>f. add_before_send (pn_alloc pa) (pn_append pa) f Arg_Null);
         conn = (\<lambda>f. add_before_connect (pn_alloc pa) (pn_append pa) f Arg_Null) in do {
     s1 \<leftarrow> conn (if mo_direction opt = MSG_DIRECTION_SENDER then CB_qos_mode_send else CB_qos_mode_recv) s0;
     s2 \<leftarrow> send CB_ttl s1;
     s3 \<leftarrow> send CB_durable s2;
     send CB_content_type s3
   })"

end
