(* ===== verification/Proton.thy ===== *)
theory Proton
  imports Proton_Handlers
begin

text \<open>
  The AMQP wrapper: \<open>proton-wrapper.c\<close> and \<open>proton-context.c\<close> under \<open>src/api/qpid-proton\<close>.
  The locale \<open>proton_link\<close> says what is asked of the messenger that receives: its local
  buffer, and the messages that were taken from it and not settled yet. It is
  interpreted on a messenger with lists.
\<close>

section \<open>Operations\<close>

definition window :: int where
  "window = 10"

text \<open>An error text is used as the format of \<open>gru_status_set\<close> or of the logger, without arguments: a
  percent sign in it, unless doubled, reads an argument that is not there.\<close>

fun format_text :: "string \<Rightarrow> string undef" where
  "format_text [] = Some []"
| "format_text [c] = (if c = CHR ''%'' then None else Some [c])"
| "format_text (c # d # s) =
     (if c = CHR ''%'' then if d = CHR ''%'' then map_option (\<lambda>t. CHR ''%'' # t) (format_text s) else None
      else map_option (\<lambda>t. c # t) (format_text (d # s)))"

definition failed :: "('p, 'g) proton_api \<Rightarrow> 'p \<Rightarrow> bool" where
  "failed pa m = (pn_messenger_errno pa m \<noteq> 0)"

definition proton_error :: "('p, 'g) proton_api \<Rightarrow> 'p \<Rightarrow> gru_status undef" where
  "proton_error pa m = map_option (St_Set GRU_FAILURE) (format_text (pn_error_text pa m))"

definition proton_context_init :: "('p, 'g) proton_api \<Rightarrow> gru_status \<Rightarrow> bool \<times> gru_status" where
  "proton_context_init pa st = (case pn_alloc pa (pn_sizeof_proton_ctxt pa) of
     Some m \<Rightarrow> (False, alloc_fail m)
   | None \<Rightarrow> (True, st))"

definition proton_init :: "('p, 'g) proton_api \<Rightarrow> msg_opt \<Rightarrow> handlers \<Rightarrow> gru_status \<Rightarrow> 'p proton \<Rightarrow>
    (msg_ctxt option \<times> handlers \<times> gru_status \<times> 'p proton) undef" where
  "proton_init pa opt h st w =
    (case msg_ctxt_init (pn_alloc pa) (pn_sizeof_msg_ctxt pa) st of
       (None, st1) \<Rightarrow> Some (None, h, st1, w)
     | (Some c, st1) \<Rightarrow>
        (case proton_context_init pa st1 of
           (False, st2) \<Rightarrow> Some (msg_ctxt_destroy (Some c), h, st2, w)
         | (True, st2) \<Rightarrow> do {
            hs1 \<leftarrow> proton_set_default_parameters pa opt (h, st2);
            ((h2, st3), props) \<leftarrow> proton_set_user_parameters pa opt (hs1, pr_properties w);
            Some (Some (c\<lparr>msg_opts := opt\<rparr>), h2, st3,
              w\<lparr>pr_properties := props, pr_handlers := h2, pr_messenger := pn_messenger pa (pr_messenger w)\<rparr>)
          }))"

definition proton_start :: "('p, 'g) proton_api \<Rightarrow> msg_ctxt \<Rightarrow> handlers \<Rightarrow> gru_status \<Rightarrow> 'p proton \<Rightarrow>
    (vmsl_stat \<times> gru_status \<times> 'p proton) undef" where
  "proton_start pa c h st w = do {
     (g, w1) \<leftarrow> vmslh_run (proton_callback pa) (before_connect (pr_handlers w)) (None, w);
     (case pn_messenger_start pa (pr_messenger w1) of (err, m1) \<Rightarrow>
        if err \<noteq> 0 then Some (VMSL_ERROR, St_Set GRU_FAILURE ''Unable to start the proton messenger'', w1\<lparr>pr_messenger := m1\<rparr>)
        else case pn_uri_simple_format pa (mo_uri (msg_opts c)) st of (url, st1) \<Rightarrow>
          let w2 = w1\<lparr>pr_messenger := m1, pr_url := url\<rparr> in
          if gru_status_error st1 then Some (VMSL_ERROR, st1, w2)
          else do {
            (g', w3) \<leftarrow> vmslh_run (proton_callback pa) (after_connect (pr_handlers w2)) (None, w2);
            Some (VMSL_SUCCESS, st1, w3)
          })
   }"

fun stop_wait :: "('p, 'g) proton_api \<Rightarrow> nat \<Rightarrow> 'p \<Rightarrow> 'p" where
  "stop_wait pa 0 m = m"
| "stop_wait pa (Suc n) m = (if pn_messenger_stopped pa m then m else stop_wait pa n (pn_usleep pa 50000 m))"

definition proton_stop :: "('p, 'g) proton_api \<Rightarrow> msg_ctxt option \<Rightarrow> gru_status \<Rightarrow> 'p proton \<Rightarrow> (gru_status \<times> 'p proton) undef" where
  "proton_stop pa c st w = do {
     c' \<leftarrow> c;
     (case pn_messenger_stop pa (pr_messenger w) of (ret, m1) \<Rightarrow>
        Some (st, w\<lparr>pr_messenger := (if ret = pn_INPROGRESS pa then stop_wait pa 20 m1 else m1)\<rparr>))
   }"

definition proton_destroy :: "('p, 'g) proton_api \<Rightarrow> msg_ctxt option \<Rightarrow> gru_status \<Rightarrow> 'p proton \<Rightarrow> (gru_status \<times> 'p proton) undef" where
  "proton_destroy pa c st w = do {
     c' \<leftarrow> c;
     Some (st, proton_param_cleanup (w\<lparr>pr_messenger := pn_messenger_free pa (pr_messenger w), pr_url := None\<rparr>))
   }"

text \<open>The time in milliseconds, \<open>-1\<close> with the status set when there is none.\<close>

definition proton_now :: "('p, 'g) proton_api \<Rightarrow> gru_status \<Rightarrow> 'p \<Rightarrow> int \<times> gru_status \<times> 'p" where
  "proton_now pa st m = (case pn_gettimeofday pa m of
     (None, m1) \<Rightarrow> (- 1, St_Set GRU_FAILURE (pn_strerror pa), m1)
   | (Some now, m1) \<Rightarrow> (tv_sec now * 1000 + tv_usec now div 1000, st, m1))"

definition proton_do_send :: "('p, 'g) proton_api \<Rightarrow> 'g \<Rightarrow> gru_status \<Rightarrow> 'p \<Rightarrow> (vmsl_stat \<times> gru_status \<times> 'p) undef" where
  "proton_do_send pa message st m =
    (let m1 = pn_messenger_put pa message m in
     if failed pa m1 then map_option (\<lambda>e. (VMSL_ERROR, e, m1)) (proton_error pa m1)
     else let m2 = pn_messenger_send pa (- 1) m1 in
       if failed pa m2 then map_option (\<lambda>e. (VMSL_ERROR, e, m2)) (proton_error pa m2)
       else Some (VMSL_SUCCESS, st, m2))"

definition proton_send :: "('p, 'g) proton_api \<Rightarrow> msg_ctxt \<Rightarrow> handlers \<Rightarrow> msg_content \<Rightarrow> gru_status \<Rightarrow> 'p proton \<Rightarrow>
    (vmsl_stat \<times> msg_content \<times> gru_status \<times> 'p proton) undef" where
  "proton_send pa c h data st w = do {
     bs \<leftarrow> content_bytes data;
     (msg, w1) \<leftarrow> vmslh_run (proton_callback pa) (before_send (pr_handlers w))
       (Some (pn_put_body pa bs (pn_set_address pa (pr_url w) (pn_message pa))), w);
     g \<leftarrow> msg;
     (case proton_now pa st (pr_messenger w1) of (ts, st1, m1) \<Rightarrow>
        let message = pn_set_creation_time pa ts g in do {
          (ret, st2, m2) \<leftarrow> proton_do_send pa message st1 m1;
          if vmsl_stat_error ret then Some (ret, data, st2, w1\<lparr>pr_messenger := m2\<rparr>)
          else do {
            (msg', w2) \<leftarrow> vmslh_run (proton_callback pa) (after_send (pr_handlers w1)) (Some message, w1\<lparr>pr_messenger := m2\<rparr>);
            Some (VMSL_SUCCESS, data, st2, w2)
          }
        })
   }"

definition proton_subscribe :: "('p, 'g) proton_api \<Rightarrow> msg_ctxt \<Rightarrow> mtopic_spec option \<Rightarrow> gru_status \<Rightarrow> 'p proton \<Rightarrow>
    (vmsl_stat \<times> gru_status \<times> 'p proton) undef" where
  "proton_subscribe pa c mtopic st w =
    (let m1 = pn_messenger_subscribe pa (pr_url w) (pr_messenger w) in
     if failed pa m1 then map_option (\<lambda>e. (VMSL_ERROR, e, w\<lparr>pr_messenger := m1\<rparr>)) (proton_error pa m1)
     else case pn_messenger_recv pa 1 (pn_messenger_set_incoming_window pa window (pn_messenger_set_blocking pa False m1)) of (ret, m2) \<Rightarrow>
       if ret \<noteq> 0 \<and> failed pa m2 then map_option (\<lambda>e. (VMSL_ERROR, e, w\<lparr>pr_messenger := m2\<rparr>)) (proton_error pa m2)
       else Some (VMSL_SUCCESS, st, w\<lparr>pr_messenger := m2\<rparr>))"

definition proton_receive_local :: "('p, 'g) proton_api \<Rightarrow> gru_status \<Rightarrow> 'p \<Rightarrow> (vmsl_stat \<times> gru_status \<times> 'p) undef" where
  "proton_receive_local pa st m =
    (case pn_messenger_recv pa 1024 m of (ret, m1) \<Rightarrow>
       if ret \<noteq> 0 then
         if failed pa m1 then map_option (\<lambda>e. (VMSL_ERROR, e, m1)) (proton_error pa m1)
         else Some (VMSL_SUCCESS OR VMSL_NO_DATA, st, m1)
       else Some (VMSL_SUCCESS, st, m1))"

text \<open>The text the body is formatted as goes into the block. The result is 1 on an error, with the
  error text for the logger.\<close>

definition proton_do_receive :: "('p, 'g) proton_api \<Rightarrow> 'g \<Rightarrow> msg_content \<Rightarrow> 'p \<Rightarrow> (int \<times> 'g \<times> msg_content \<times> 'p) undef" where
  "proton_do_receive pa message content m =
    (case pn_messenger_get pa message m of (g, m1) \<Rightarrow>
       if failed pa m1 then map_option (\<lambda>e. (1, g, content, m1)) (proton_error pa m1)
       else case pn_body_format pa g (mc_capacity content) of (bs, n) \<Rightarrow> do {
         data \<leftarrow> mc_data content;
         data' \<leftarrow> overlay bs data;
         (let content' = content\<lparr>mc_data := Some data', mc_size := n\<rparr> in
          if failed pa m1 then map_option (\<lambda>e. (1, g, content', m1)) (proton_error pa m1)
          else Some (0, g, content', m1))
       })"

text \<open>
  The end of a successful receive: \<open>cur\<close> counts the message, and the deliveries are
  finalized when the window is full or the message was the last of the local buffer.
\<close>

definition proton_settle_batch :: "('p, 'g) proton_api \<Rightarrow> 'g \<Rightarrow> 'p proton \<Rightarrow> 'p proton undef" where
  "proton_settle_batch pa g w = do {
     (msg, w1) \<leftarrow> vmslh_run (proton_callback pa) (after_receive (pr_handlers w)) (Some g, w\<lparr>pr_cur := pr_cur w + 1\<rparr>);
     if pr_last_ack w1 + window = pr_cur w1 \<or> pr_nmsgs w1 = 1 then do {
       (msg', w2) \<leftarrow> vmslh_run (proton_callback pa) (finalize_receive (pr_handlers w1)) (None, w1);
       Some (w2\<lparr>pr_cur := 0, pr_last_ack := 0\<rparr>)
     }
     else Some w1
   }"

text \<open>A message taken from the local buffer, from \<open>pn_message\<close> on.\<close>

definition proton_take :: "('p, 'g) proton_api \<Rightarrow> msg_ctxt \<Rightarrow> msg_content \<Rightarrow> gru_status \<Rightarrow> 'p proton \<Rightarrow>
    (vmsl_stat \<times> msg_content \<times> gru_status \<times> 'p proton) undef" where
  "proton_take pa c content st w = do {
     (msg, w1) \<leftarrow> vmslh_run (proton_callback pa) (before_receive (pr_handlers w)) (Some (pn_message pa), w);
     g0 \<leftarrow> msg;
     (ret, g, content1, m1) \<leftarrow> proton_do_receive pa g0 content (pr_messenger w1);
     (let w2 = w1\<lparr>pr_messenger := m1\<rparr>; ts = pn_get_creation_time pa g; latency = mo_statistics (msg_opts c) AND MSG_STAT_LATENCY \<noteq> 0 in
      if ret = 0 \<and> latency \<and> \<not> 0 < ts then
        Some (VMSL_ERROR OR VMSL_NO_TIMESTAMP, content1, St_Set GRU_FAILURE ''A timestamp was not set for a message'',
          w2\<lparr>pr_messenger := pn_sleep pa 1 m1\<rparr>)
      else if ret \<noteq> 0 then Some (VMSL_ERROR, content1, St_Set GRU_FAILURE ''Error receiving a message'', w2)
      else do {
        w3 \<leftarrow> proton_settle_batch pa g w2;
        Some (VMSL_SUCCESS, if latency then content1\<lparr>mc_created := pn_time_from_milli pa ts\<rparr> else content1, st, w3)
      })
   }"

definition proton_receive :: "('p, 'g) proton_api \<Rightarrow> msg_ctxt \<Rightarrow> handlers \<Rightarrow> msg_content \<Rightarrow> gru_status \<Rightarrow> 'p proton \<Rightarrow>
    (vmsl_stat \<times> msg_content \<times> gru_status \<times> 'p proton) undef" where
  "proton_receive pa c h content st w =
    (let nmsgs = pn_messenger_incoming pa (pr_messenger w); w0 = w\<lparr>pr_nmsgs := nmsgs\<rparr> in
     if nmsgs = 0 then do {
       (local_ret, st1, m1) \<leftarrow> proton_receive_local pa st (pr_messenger w);
       (let w1 = w0\<lparr>pr_messenger := m1\<rparr> in
        if local_ret = VMSL_ERROR then Some (local_ret, content, st1, w1)
        else if local_ret AND VMSL_NO_DATA \<noteq> 0 then Some (local_ret, content, st1, w1)
        else let n = pn_messenger_incoming pa m1; w2 = w1\<lparr>pr_nmsgs := n, pr_cur := 0, pr_last_ack := 0\<rparr> in
          if n = 0 then Some (VMSL_SUCCESS OR VMSL_NO_DATA, content, st1, w2)
          else proton_take pa c content st1 w2)
     }
     else proton_take pa c content st w0)"

definition proton_info :: "('p, 'g) proton_api \<Rightarrow> string \<times> string" where
  "proton_info pa = (''Qpid Proton C - Messenger API'', pn_version pa)"

definition proton_wrapper :: "('p, 'g) proton_api \<Rightarrow> 'p proton wrapper" where
  "proton_wrapper pa = \<lparr>wr_init = proton_init pa, wr_start = proton_start pa, wr_send = proton_send pa,
     wr_subscribe = proton_subscribe pa, wr_receive = proton_receive pa, wr_stop = proton_stop pa, wr_destroy = proton_destroy pa,
     wr_info = proton_info pa\<rparr>"

definition proton_vmsl_assign :: "('p, 'g) proton_api \<Rightarrow> 'p proton option vmsl \<Rightarrow> bool \<times> 'p proton option vmsl" where
  "proton_vmsl_assign pa v = (True, wrapper_table (proton_wrapper pa))"

section \<open>What is asked of the messenger\<close>

text \<open>
  A messenger that receives: its local buffer, and how many messages were taken from it
  and are neither accepted nor settled. A message that is taken while fewer than
  \<open>window\<close> are unsettled joins them (beyond the window the library accepts the oldest
  by itself); a cumulative accept and settle of the last tracker covers all of them;
  receiving from the peer settles nothing.
\<close>

locale proton_link =
  fixes pa :: "('p, 'g) proton_api" and buffer :: "'p \<Rightarrow> 'g list" and unsettled :: "'p \<Rightarrow> nat"
  assumes incoming_length: "pn_messenger_incoming pa m = int (length (buffer m))"
    and get_first: "buffer m = g # gs \<Longrightarrow>
      \<exists>m'. pn_messenger_get pa g0 m = (g, m') \<and> buffer m' = gs \<and> pn_messenger_errno pa m' = 0 \<and>
        (int (unsettled m) < window \<longrightarrow> unsettled m' = Suc (unsettled m))"
    and recv_settles_nothing: "unsettled (snd (pn_messenger_recv pa n m)) = unsettled m"
    and accept_keeps: "buffer (pn_accept pa t b m) = buffer m" "pn_incoming_tracker pa (pn_accept pa t b m) = pn_incoming_tracker pa m"
    and settle_keeps: "buffer (pn_settle pa t b m) = buffer m"
    and settle_all: "unsettled (pn_settle pa (pn_incoming_tracker pa m) True m) = 0"
    and sleep_keeps: "buffer (pn_sleep pa k m) = buffer m" "unsettled (pn_sleep pa k m) = unsettled m"

text \<open>The lists of a receiver: nothing around a receive, and \<open>finals\<close> to finalize.\<close>

definition receiver_lists :: "(callback_fn, cb_arg) callbacks \<Rightarrow> 'p proton \<Rightarrow> bool" where
  "receiver_lists finals w = (before_receive (pr_handlers w) = Some [] \<and> after_receive (pr_handlers w) = Some [] \<and>
     finalize_receive (pr_handlers w) = Some finals)"

definition accepts :: "(callback_fn, cb_arg) callbacks" where
  "accepts = [Some \<lparr>cb_call = Some CB_accept, cb_payload = Arg_Null\<rparr>]"

text \<open>
  The counters of \<open>proton_receive\<close> agree with the messenger: \<open>cur\<close> is the number of
  messages to settle, which is below the window, and zero when the local buffer is
  empty.
\<close>

definition ack_inv :: "('p \<Rightarrow> 'g list) \<Rightarrow> ('p \<Rightarrow> nat) \<Rightarrow> 'p proton \<Rightarrow> bool" where
  "ack_inv buffer unsettled w = (pr_cur w = int (unsettled (pr_messenger w)) \<and> pr_cur w < window \<and> pr_last_ack w = 0 \<and>
     (buffer (pr_messenger w) = [] \<longrightarrow> pr_cur w = 0))"

lemma run_nil [simp]: "vmslh_run call (Some []) s = Some s"
  by (simp add: vmslh_run_def)

lemma run_accepts [simp]: "vmslh_run (proton_callback pa) (Some accepts) (g, w) = Some (g, proton_accept pa w)"
  by (simp add: vmslh_run_def accepts_def)

lemma receiver_lists_update [simp]:
  "receiver_lists finals (w\<lparr>pr_messenger := m\<rparr>) = receiver_lists finals w"
  "receiver_lists finals (w\<lparr>pr_nmsgs := n\<rparr>) = receiver_lists finals w"
  "receiver_lists finals (w\<lparr>pr_cur := n\<rparr>) = receiver_lists finals w"
  "receiver_lists finals (w\<lparr>pr_last_ack := n\<rparr>) = receiver_lists finals w"
  by (simp_all add: receiver_lists_def)

lemma receiver_lists_accept [simp]: "receiver_lists finals (proton_accept pa w) = receiver_lists finals w"
  by (simp add: proton_accept_def)

text \<open>The end of a receive with and without a callback to finalize.\<close>

lemma settle_batch_accepts:
  assumes "receiver_lists accepts w"
  shows "proton_settle_batch pa g w = Some (let w1 = w\<lparr>pr_cur := pr_cur w + 1\<rparr> in
    if pr_last_ack w + window = pr_cur w + 1 \<or> pr_nmsgs w = 1 then (proton_accept pa w1)\<lparr>pr_cur := 0, pr_last_ack := 0\<rparr> else w1)"
  using assms by (simp add: proton_settle_batch_def receiver_lists_def Let_def)

lemma settle_batch_nothing:
  assumes "receiver_lists [] w"
  shows "proton_settle_batch pa g w = Some (if pr_last_ack w + window = pr_cur w + 1 \<or> pr_nmsgs w = 1
    then w\<lparr>pr_cur := 0, pr_last_ack := 0\<rparr> else w\<lparr>pr_cur := pr_cur w + 1\<rparr>)"
  using assms by (simp add: proton_settle_batch_def receiver_lists_def)

text \<open>What a take leaves, from a message in the buffer.\<close>

context proton_link begin

lemma accept_settles [simp]:
  "buffer (proton_do_accept pa m) = buffer m" "unsettled (proton_do_accept pa m) = 0"
  using settle_all [of "pn_accept pa (pn_incoming_tracker pa m) True m"]
  by (simp_all add: proton_do_accept_def Let_def settle_keeps accept_keeps)

lemma do_receive_takes:
  assumes "proton_do_receive pa g0 content m = Some (ret, g, content1, m1)" and "buffer m = x # xs"
  shows "ret = 0 \<and> g = x \<and> buffer m1 = xs \<and> (int (unsettled m) < window \<longrightarrow> unsettled m1 = Suc (unsettled m))"
proof -
  obtain m' where m: "pn_messenger_get pa g0 m = (x, m')" "buffer m' = xs" "pn_messenger_errno pa m' = 0"
    "int (unsettled m) < window \<longrightarrow> unsettled m' = Suc (unsettled m)" using get_first [OF assms(2)] by blast
  then have "ret = 0 \<and> g = x \<and> m1 = m'"
    using assms(1) by (auto simp: proton_do_receive_def failed_def case_prod_unfold Let_def split: bind_splits)
  with m show ?thesis by simp
qed

text \<open>A take from a full buffer either loses the time stamp or keeps the invariant.\<close>

lemma take_acks:
  assumes "proton_take pa c content st w = Some (ret, content', st', w')" and "receiver_lists accepts w"
    and "ack_inv buffer unsettled w" and "buffer (pr_messenger w) = x # xs" and "pr_nmsgs w = int (length (x # xs))"
    and "ret AND VMSL_NO_TIMESTAMP = 0"
  shows "ack_inv buffer unsettled w' \<and> receiver_lists accepts w' \<and> ret = VMSL_SUCCESS \<and> buffer (pr_messenger w') = xs"
proof -
  have b: "vmslh_run (proton_callback pa) (before_receive (pr_handlers w)) s = Some s" for s
    using assms(2) by (simp add: receiver_lists_def)
  obtain r g content1 m1 where d: "proton_do_receive pa (pn_message pa) content (pr_messenger w) = Some (r, g, content1, m1)"
    using assms(1) b by (auto simp: proton_take_def split: bind_splits)
  note t = do_receive_takes [OF d assms(4)]
  have r: "(VMSL_ERROR OR VMSL_NO_TIMESTAMP) AND VMSL_NO_TIMESTAMP \<noteq> 0" by (simp add: vmsl_stat_defs)
  then have w': "ret = VMSL_SUCCESS" "proton_settle_batch pa g (w\<lparr>pr_messenger := m1\<rparr>) = Some w'"
    using assms(1,6) b d t by (auto simp: proton_take_def Let_def split: bind_splits if_splits)
  have "receiver_lists accepts (w\<lparr>pr_messenger := m1\<rparr>)" using assms(2) by simp
  from settle_batch_accepts [OF this, of pa g] w'(2) t assms(2,3,5)
  show ?thesis
    by (auto simp: Let_def ack_inv_def proton_accept_def window_def w'(1) split: if_splits)
qed

end

text \<open>A sequence of receives of a process, each of which gave a message with a time stamp, no data or
  an error.\<close>

inductive receiving :: "('p, 'g) proton_api \<Rightarrow> msg_ctxt \<Rightarrow> 'p proton \<Rightarrow> 'p proton \<Rightarrow> bool" for pa c where
  receiving_none: "receiving pa c w w"
| receiving_one: "receiving pa c w w1 \<Longrightarrow> proton_receive pa c h content st w1 = Some (ret, content', st', w2) \<Longrightarrow>
    ret AND VMSL_NO_TIMESTAMP = 0 \<Longrightarrow> receiving pa c w w2"

lemma receive_local_cases:
  assumes "proton_receive_local pa st m = Some (ret, st', m')"
  shows "m' = snd (pn_messenger_recv pa 1024 m) \<and> (ret = VMSL_ERROR \<or> ret = VMSL_SUCCESS OR VMSL_NO_DATA \<or> ret = VMSL_SUCCESS)"
  using assms by (auto simp: proton_receive_local_def case_prod_unfold split: if_splits)

context proton_link begin

lemma receive_acks:
  assumes "proton_receive pa c h content st w = Some (ret, content', st', w')" and "receiver_lists accepts w"
    and "ack_inv buffer unsettled w" and "ret AND VMSL_NO_TIMESTAMP = 0"
  shows "ack_inv buffer unsettled w' \<and> receiver_lists accepts w'"
proof (cases "buffer (pr_messenger w)")
  case Nil
  then have n: "pn_messenger_incoming pa (pr_messenger w) = 0" by (simp add: incoming_length)
  obtain lr st1 m1 where l: "proton_receive_local pa st (pr_messenger w) = Some (lr, st1, m1)"
    using assms(1) n by (auto simp: proton_receive_def split: bind_splits)
  have u: "unsettled m1 = 0" "pr_cur w = 0"
    using receive_local_cases [OF l] recv_settles_nothing Nil assms(3) by (auto simp: ack_inv_def)
  let ?w2 = "w\<lparr>pr_messenger := m1, pr_nmsgs := int (length (buffer m1)), pr_cur := 0, pr_last_ack := 0\<rparr>"
  have inv: "ack_inv buffer unsettled ?w2" using u by (simp add: ack_inv_def window_def)
  consider "w' = w\<lparr>pr_nmsgs := 0, pr_messenger := m1\<rparr>" | "w' = ?w2" |
    x xs where "buffer m1 = x # xs" "proton_take pa c content st1 ?w2 = Some (ret, content', st', w')"
    using assms(1) n l
    by (cases "buffer m1") (auto simp: proton_receive_def incoming_length Let_def split: if_splits)
  then show ?thesis
  proof cases
    case 1
    then show ?thesis using u assms(2,3) by (simp add: ack_inv_def window_def)
  next
    case 2
    then show ?thesis using inv assms(2) by simp
  next
    case 3
    from take_acks [OF 3(2) _ inv _ _ assms(4)] 3(1) assms(2) show ?thesis by simp
  qed
next
  case (Cons x xs)
  let ?w = "w\<lparr>pr_nmsgs := int (length (x # xs))\<rparr>"
  have t: "proton_take pa c content st ?w = Some (ret, content', st', w')"
    using assms(1) Cons by (simp add: proton_receive_def incoming_length Let_def)
  have "ack_inv buffer unsettled ?w" using assms(3) by (auto simp: ack_inv_def)
  from take_acks [OF t _ this _ _ assms(4)] assms(2) Cons show ?thesis by simp
qed

lemma receiving_acks:
  assumes "receiving pa c w w'" and "receiver_lists accepts w" and "ack_inv buffer unsettled w"
  shows "ack_inv buffer unsettled w' \<and> receiver_lists accepts w'"
  using assms by (induction rule: receiving.induct) (use receive_acks in blast)+

end

section \<open>What a connection registers\<close>

definition proton_connect_regs :: "msg_direction \<Rightarrow> gru_keypair \<Rightarrow> (callback_fn \<times> cb_arg) list" where
  "proton_connect_regs dir kp =
    (if kp_key kp = ''qos-mode''
     then [(if dir = MSG_DIRECTION_SENDER then CB_qos_mode_send else CB_qos_mode_recv, Arg_Variant (kp_pair kp))] else [])"

definition proton_send_regs :: "gru_keypair \<Rightarrow> (callback_fn \<times> cb_arg) list" where
  "proton_send_regs kp =
    (if kp_key kp = ''content-type'' then [(CB_content_type, Arg_String (vr_string (kp_pair kp)))]
     else if kp_key kp = ''application-properties'' then [(CB_properties, Arg_Properties)]
     else if kp_key kp = ''ttl'' then [(CB_ttl, Arg_Variant (kp_pair kp))]
     else if kp_key kp = ''durable'' then [(CB_durable, Arg_Variant (kp_pair kp))]
     else if kp_key kp = ''priority'' then [(CB_priority, Arg_Variant (kp_pair kp))] else [])"

lemma add_before_ok:
  assumes "al 16 = None"
  shows "before_send h = Some b \<Longrightarrow> add_before_send al True f a (h, st) = Some (h\<lparr>before_send := Some (put_callback Arg_Null f a b)\<rparr>, st)"
    and "before_connect h = Some b \<Longrightarrow> add_before_connect al True f a (h, st) = Some (h\<lparr>before_connect := Some (put_callback Arg_Null f a b)\<rparr>, st)"
  using assms by (simp_all add: add_before_send_def add_before_connect_def add_handler_def vmslh_add_ok)

lemma proton_parameter_regs:
  assumes "proton_set_parameter_by_name pa dir kp ((h, st), props) = Some ((h', st'), props')"
    and "pn_alloc pa 16 = None" and "pn_append pa" and "before_connect h = Some a" and "before_send h = Some b"
  shows "h' = h\<lparr>before_connect := Some (cbt.puts Arg_Null (proton_connect_regs dir kp) a),
    before_send := Some (cbt.puts Arg_Null (proton_send_regs kp) b)\<rparr>"
  using assms
  by (cases h) (auto simp: proton_set_parameter_by_name_def add_application_properties_def on_handlers_def add_before_ok
      proton_connect_regs_def proton_send_regs_def Let_def case_prod_unfold split: if_splits bind_splits)

lemma proton_each_regs:
  assumes "proton_set_each pa dir kps ((h, st), props) = Some ((h', st'), props')"
    and "pn_alloc pa 16 = None" and "pn_append pa" and "before_connect h = Some a" and "before_send h = Some b"
  shows "h' = h\<lparr>before_connect := Some (cbt.puts Arg_Null (concat (map (proton_connect_regs dir) kps)) a),
    before_send := Some (cbt.puts Arg_Null (concat (map proton_send_regs kps)) b)\<rparr>"
  using assms(1,4,5)
proof (induction kps arbitrary: h st props a b)
  case Nil
  then show ?case by (cases h) simp
next
  case (Cons kp kps)
  obtain h1 st1 props1 where s1: "proton_set_parameter_by_name pa dir kp ((h, st), props) = Some ((h1, st1), props1)"
    "proton_set_each pa dir kps ((h1, st1), props1) = Some ((h', st'), props')"
    using Cons.prems(1) by (auto split: bind_splits)
  note h1 = proton_parameter_regs [OF s1(1) assms(2,3) Cons.prems(2,3)]
  show ?case
    using Cons.IH [OF s1(2), of "cbt.puts Arg_Null (proton_connect_regs dir kp) a" "cbt.puts Arg_Null (proton_send_regs kp) b"]
    by (simp add: h1 puts_append)
qed

text \<open>The lists after \<open>proton_init\<close>: the defaults and then the parameters of the URL.\<close>

definition query_of :: "msg_opt \<Rightarrow> gru_keypair list" where
  "query_of opt = (case uri_query (mo_uri opt) of None \<Rightarrow> [] | Some kps \<Rightarrow> kps)"

definition qos_fn :: "msg_direction \<Rightarrow> callback_fn" where
  "qos_fn dir = (if dir = MSG_DIRECTION_SENDER then CB_qos_mode_send else CB_qos_mode_recv)"

definition proton_url_connect :: "msg_direction \<Rightarrow> gru_keypair list \<Rightarrow> (callback_fn, cb_arg) callbacks" where
  "proton_url_connect dir kps = cbt.puts Arg_Null (concat (map (proton_connect_regs dir) kps)) (put_callback Arg_Null (qos_fn dir) Arg_Null [])"

definition proton_url_send :: "gru_keypair list \<Rightarrow> (callback_fn, cb_arg) callbacks" where
  "proton_url_send kps = cbt.puts Arg_Null (concat (map proton_send_regs kps))
     (cbt.puts Arg_Null [(CB_ttl, Arg_Null), (CB_durable, Arg_Null), (CB_content_type, Arg_Null)] [])"

lemma proton_defaults:
  assumes "pn_alloc pa 16 = None" and "pn_append pa" and "before_connect h = Some []" and "before_send h = Some []"
  shows "proton_set_default_parameters pa opt (h, st)
    = Some (h\<lparr>before_connect := Some (put_callback Arg_Null (qos_fn (mo_direction opt)) Arg_Null []),
       before_send := Some (cbt.puts Arg_Null [(CB_ttl, Arg_Null), (CB_durable, Arg_Null), (CB_content_type, Arg_Null)] [])\<rparr>, st)"
  using assms by (simp add: proton_set_default_parameters_def add_before_ok Let_def qos_fn_def)

lemma proton_connection:
  assumes "proton_init pa opt (vmslh_new new) st w0 = Some (Some c, h, st1, w1)"
    and "pn_alloc pa 16 = None" and "pn_append pa" and "\<And>i. new i"
  shows "h = (vmslh_new new)\<lparr>before_connect := Some (proton_url_connect (mo_direction opt) (query_of opt)),
      before_send := Some (proton_url_send (query_of opt))\<rparr> \<and> msg_opts c = opt \<and> pr_handlers w1 = h \<and>
    pr_cur w1 = pr_cur w0 \<and> pr_last_ack w1 = pr_last_ack w0"
proof -
  have new: "before_connect (vmslh_new new :: handlers) = Some []" "before_send (vmslh_new new :: handlers) = Some []"
    using assms(4) by (simp_all add: vmslh_new_def new_list_def)
  let ?h = "(vmslh_new new)\<lparr>before_connect := Some (put_callback Arg_Null (qos_fn (mo_direction opt)) Arg_Null []),
      before_send := Some (cbt.puts Arg_Null [(CB_ttl, Arg_Null), (CB_durable, Arg_Null), (CB_content_type, Arg_Null)] [])\<rparr> :: handlers"
  note d = proton_defaults [where opt = opt, OF assms(2,3) new]
  obtain st2 st3 h2 props where u: "proton_set_user_parameters pa opt ((?h, st2), pr_properties w0) = Some ((h2, st3), props)" "h = h2"
    and r: "msg_opts c = opt" "pr_handlers w1 = h2" "pr_cur w1 = pr_cur w0" "pr_last_ack w1 = pr_last_ack w0"
    using assms(1) by (auto simp: proton_init_def d case_prod_unfold msg_ctxt_destroy_def simp del: cbt.puts.simps
        split: option.splits bool.splits bind_splits)
  have "h2 = ?h\<lparr>before_connect := Some (proton_url_connect (mo_direction opt) (query_of opt)), before_send := Some (proton_url_send (query_of opt))\<rparr>"
  proof (cases "uri_query (mo_uri opt)")
    case None
    with u(1) show ?thesis
      by (auto simp: proton_set_user_parameters_def query_of_def proton_url_connect_def proton_url_send_def)
  next
    case (Some kps)
    with u(1) have "proton_set_each pa (mo_direction opt) kps ((?h, st2), pr_properties w0) = Some ((h2, st3), props)"
      by (simp add: proton_set_user_parameters_def del: cbt.puts.simps)
    from proton_each_regs [OF this assms(2,3)] Some show ?thesis
      by (simp add: query_of_def proton_url_connect_def proton_url_send_def del: cbt.puts.simps)
  qed
  with u(2) r show ?thesis by simp
qed

lemma proton_connect_list:
  "callbacks_wf (proton_url_connect dir kps)" "callback_keys (proton_url_connect dir kps) = [qos_fn dir]"
  "payload_of (proton_url_connect dir kps) (qos_fn dir) = Some (arg_or_null (query_value kps ''qos-mode''))"
proof -
  let ?d = "put_callback Arg_Null (qos_fn dir) Arg_Null []"
  have wf: "callbacks_wf ?d" by (rule put_callback_wf [OF callbacks_wf_Nil])
  have keys: "callback_keys ?d = [qos_fn dir]" by (simp add: put_callback_keys callbacks_wf_Nil)
  show "callbacks_wf (proton_url_connect dir kps)" unfolding proton_url_connect_def using wf by (rule cbt.inv_puts)
  have "set (map fst (concat (map (proton_connect_regs dir) kps))) \<subseteq> {qos_fn dir}"
    by (auto simp: proton_connect_regs_def qos_fn_def split: if_splits)
  then show "callback_keys (proton_url_connect dir kps) = [qos_fn dir]"
    unfolding proton_url_connect_def using keys_puts [OF wf] keys by simp
  have "map_of (rev (concat (map (proton_connect_regs dir) kps))) (qos_fn dir) = map_option Arg_Variant (query_value kps ''qos-mode'')"
    by (induction kps) (auto simp: proton_connect_regs_def qos_fn_def query_value_def map_add_def split: option.splits)
  then show "payload_of (proton_url_connect dir kps) (qos_fn dir) = Some (arg_or_null (query_value kps ''qos-mode''))"
    by (simp add: proton_url_connect_def cbt.get_puts [OF wf] payload_of_put callbacks_wf_Nil arg_or_null_def split: option.splits)
qed

lemma run_connect_list:
  "vmslh_run call (Some (proton_url_connect dir kps)) s = call (qos_fn dir) (arg_or_null (query_value kps ''qos-mode'')) s"
  by (simp add: vmslh_run_def run_callbacks_fold [OF proton_connect_list(1)] proton_connect_list(2,3))

text \<open>Whether the URL leaves the mode of delivery to the default or asks for at most once.\<close>

definition at_most_once :: "msg_opt \<Rightarrow> bool" where
  "at_most_once opt = (case query_value (query_of opt) ''qos-mode'' of None \<Rightarrow> True | Some v \<Rightarrow> vr_equals_str v ''at-most-once'')"

lemma qos_recv_lists:
  assumes "proton_set_qos_mode_recv pa q w = Some w'" and "pn_alloc pa 16 = None" and "pn_append pa" and "finalize_receive (pr_handlers w) = Some []"
  shows "pr_handlers w' = (pr_handlers w)\<lparr>finalize_receive :=
      Some (if case q of None \<Rightarrow> True | Some v \<Rightarrow> vr_equals_str v ''at-most-once'' then accepts else [])\<rparr> \<and>
    pr_cur w' = pr_cur w \<and> pr_last_ack w' = pr_last_ack w"
proof -
  have "add_finalize_receive (pn_alloc pa) True CB_accept (pr_handlers w) = Some ((pr_handlers w)\<lparr>finalize_receive := Some accepts\<rparr>)"
    using assms(2,4) by (simp add: add_finalize_receive_def add_handler_def vmslh_add_def vmslh_by_addr_def accepts_def)
  then show ?thesis
    using assms(1,3,4) by (cases "pr_handlers w") (auto simp: proton_set_qos_mode_recv_def split: bind_splits if_splits option.splits)
qed

text \<open>A receiver that has been opened and started.\<close>

lemma receiver_started:
  assumes "proton_init pa opt (vmslh_new new) st w0 = Some (Some c, h, st1, w1)"
    and "proton_start pa c h st1 w1 = Some (VMSL_SUCCESS, st2, w2)"
    and "pn_alloc pa 16 = None" and "pn_append pa" and "\<And>i. new i" and "mo_direction opt = MSG_DIRECTION_RECEIVER"
  shows "receiver_lists (if at_most_once opt then accepts else []) w2 \<and> pr_cur w2 = pr_cur w0 \<and> pr_last_ack w2 = pr_last_ack w0"
proof -
  note c = proton_connection [where new = new, OF assms(1,3,4,5)]
  have l: "after_connect (pr_handlers w1) = Some []" "before_receive (pr_handlers w1) = Some []" "after_receive (pr_handlers w1) = Some []"
    "finalize_receive (pr_handlers w1) = Some []" using c assms(5) by (simp_all add: vmslh_new_def new_list_def)
  have b: "before_connect (pr_handlers w1) = Some (proton_url_connect MSG_DIRECTION_RECEIVER (query_of opt))" using c assms(6) by simp
  obtain w' where q: "proton_set_qos_mode_recv pa (query_value (query_of opt) ''qos-mode'') w1 = Some w'"
    using assms(2) by (auto simp: proton_start_def b run_connect_list qos_fn_def split: bind_splits)
  note w' = qos_recv_lists [OF q assms(3,4) l(4)]
  have "after_connect (pr_handlers w') = Some []" using w' l(1) by simp
  then have "\<exists>m u. w2 = w'\<lparr>pr_messenger := m, pr_url := u\<rparr>"
    using assms(2) q by (auto simp: proton_start_def b run_connect_list qos_fn_def case_prod_unfold Let_def vmsl_stat_defs split: if_splits)
  then show ?thesis using w' l c by (auto simp: receiver_lists_def at_most_once_def)
qed

text \<open>A number of receives that each give a message.\<close>

fun proton_receive_all :: "('p, 'g) proton_api \<Rightarrow> msg_ctxt \<Rightarrow> handlers \<Rightarrow> msg_content \<Rightarrow> nat \<Rightarrow> 'p proton \<Rightarrow> 'p proton undef" where
  "proton_receive_all pa c h r 0 w = Some w"
| "proton_receive_all pa c h r (Suc n) w = do {
     (ret, r', st', w') \<leftarrow> proton_receive pa c h r St_New w;
     if ret = VMSL_SUCCESS then proton_receive_all pa c h r n w' else None
   }"

context proton_link begin

lemma take_unsettled:
  assumes "proton_take pa c content st w = Some (VMSL_SUCCESS, content', st', w')" and "receiver_lists [] w"
    and "buffer (pr_messenger w) = x # xs" and "int (unsettled (pr_messenger w)) < window"
  shows "unsettled (pr_messenger w') = Suc (unsettled (pr_messenger w)) \<and> receiver_lists [] w'"
proof -
  have b: "vmslh_run (proton_callback pa) (before_receive (pr_handlers w)) s = Some s" for s
    using assms(2) by (simp add: receiver_lists_def)
  obtain r g content1 m1 where d: "proton_do_receive pa (pn_message pa) content (pr_messenger w) = Some (r, g, content1, m1)"
    using assms(1) b by (auto simp: proton_take_def split: bind_splits)
  note t = do_receive_takes [OF d assms(3)]
  have "proton_settle_batch pa g (w\<lparr>pr_messenger := m1\<rparr>) = Some w'"
    using assms(1) b d t by (auto simp: proton_take_def Let_def vmsl_stat_defs split: bind_splits if_splits)
  with settle_batch_nothing [of "w\<lparr>pr_messenger := m1\<rparr>" pa g] t assms(2,4) show ?thesis
    by (auto split: if_splits)
qed

lemma receive_unsettled:
  assumes "proton_receive pa c h content st w = Some (VMSL_SUCCESS, content', st', w')" and "receiver_lists [] w"
    and "int (unsettled (pr_messenger w)) < window"
  shows "unsettled (pr_messenger w') = Suc (unsettled (pr_messenger w)) \<and> receiver_lists [] w'"
proof (cases "buffer (pr_messenger w)")
  case Nil
  then have n: "pn_messenger_incoming pa (pr_messenger w) = 0" by (simp add: incoming_length)
  obtain lr st1 m1 where l: "proton_receive_local pa st (pr_messenger w) = Some (lr, st1, m1)"
    using assms(1) n by (auto simp: proton_receive_def split: bind_splits)
  have u: "unsettled m1 = unsettled (pr_messenger w)" using receive_local_cases [OF l] recv_settles_nothing by simp
  let ?w = "w\<lparr>pr_messenger := m1, pr_nmsgs := int (length (buffer m1)), pr_cur := 0, pr_last_ack := 0\<rparr>"
  have ne: "VMSL_SUCCESS \<noteq> VMSL_ERROR" "VMSL_SUCCESS \<noteq> VMSL_SUCCESS OR VMSL_NO_DATA" "VMSL_SUCCESS AND VMSL_NO_DATA = 0"
    by (simp_all add: vmsl_stat_defs)
  have "buffer m1 \<noteq> [] \<and> proton_take pa c content st1 ?w = Some (VMSL_SUCCESS, content', st', w')"
    using assms(1) n l ne by (auto simp: proton_receive_def incoming_length Let_def split: if_splits)
  then show ?thesis
    using take_unsettled [of c content st1 ?w content' st' w'] assms(2,3) u by (cases "buffer m1") auto
next
  case (Cons x xs)
  then have "proton_take pa c content st (w\<lparr>pr_nmsgs := int (length (x # xs))\<rparr>) = Some (VMSL_SUCCESS, content', st', w')"
    using assms(1) by (simp add: proton_receive_def incoming_length Let_def)
  from take_unsettled [OF this] assms(2,3) Cons show ?thesis by simp
qed

lemma receive_all_unsettled:
  assumes "proton_receive_all pa c h r n w = Some w'" and "receiver_lists [] w" and "int (unsettled (pr_messenger w) + n) \<le> window"
  shows "unsettled (pr_messenger w') = unsettled (pr_messenger w) + n"
  using assms
proof (induction n arbitrary: w)
  case (Suc n)
  then obtain r' st' w1 where w1: "proton_receive pa c h r St_New w = Some (VMSL_SUCCESS, r', st', w1)"
    "proton_receive_all pa c h r n w1 = Some w'" by (auto split: bind_splits if_splits)
  from receive_unsettled [OF w1(1) Suc.prems(2)] Suc.prems(3) have
    "unsettled (pr_messenger w1) = Suc (unsettled (pr_messenger w))" "receiver_lists [] w1" by auto
  with Suc.IH [OF w1(2)] Suc.prems(3) show ?case by simp
qed simp

end

text \<open>The list that runs before a send, for a URL without a priority and properties.\<close>

definition plain_query :: "gru_keypair list \<Rightarrow> bool" where
  "plain_query kps = (\<forall>kp \<in> set kps. kp_key kp \<noteq> ''priority'' \<and> kp_key kp \<noteq> ''application-properties'' \<and>
     (kp_key kp = ''content-type'' \<longrightarrow> vr_string (kp_pair kp) \<noteq> None))"

definition url_settings :: "('p, 'g) proton_api \<Rightarrow> gru_keypair list \<Rightarrow> 'g \<Rightarrow> 'g" where
  "url_settings pa kps g = pn_set_content_type pa
     (case query_value kps ''content-type'' of None \<Rightarrow> ''text/plain'' | Some v \<Rightarrow> the (vr_string v))
     (proton_set_durable pa (query_value kps ''durable'') (proton_set_ttl pa (query_value kps ''ttl'') g))"

lemma proton_send_list:
  assumes "plain_query kps"
  shows "callbacks_wf (proton_url_send kps)" "callback_keys (proton_url_send kps) = [CB_ttl, CB_durable, CB_content_type]"
    "payload_of (proton_url_send kps) CB_ttl = Some (arg_or_null (query_value kps ''ttl''))"
    "payload_of (proton_url_send kps) CB_durable = Some (arg_or_null (query_value kps ''durable''))"
    "payload_of (proton_url_send kps) CB_content_type
      = Some (case query_value kps ''content-type'' of None \<Rightarrow> Arg_Null | Some v \<Rightarrow> Arg_String (vr_string v))"
proof -
  let ?d = "cbt.puts Arg_Null [(CB_ttl, Arg_Null), (CB_durable, Arg_Null), (CB_content_type, Arg_Null)] []"
  have wf: "callbacks_wf ?d" by (rule cbt.inv_puts [OF callbacks_wf_Nil])
  have keys: "callback_keys ?d = [CB_ttl, CB_durable, CB_content_type]"
    by (simp add: cbt.fns_put cbt.inv_put callbacks_wf_Nil)
  have get: "payload_of ?d CB_ttl = Some Arg_Null" "payload_of ?d CB_durable = Some Arg_Null" "payload_of ?d CB_content_type = Some Arg_Null"
    by (simp_all add: cbt.get_puts [OF callbacks_wf_Nil] del: cbt.puts.simps)
  show "callbacks_wf (proton_url_send kps)" unfolding proton_url_send_def using wf by (rule cbt.inv_puts)
  have "set (map fst (concat (map proton_send_regs kps))) \<subseteq> {CB_ttl, CB_durable, CB_content_type}"
    using assms by (auto simp: proton_send_regs_def plain_query_def split: if_splits)
  then show "callback_keys (proton_url_send kps) = [CB_ttl, CB_durable, CB_content_type]"
    unfolding proton_url_send_def using keys_puts [OF wf] keys by simp
  have "map_of (rev (concat (map proton_send_regs kps))) CB_ttl = map_option Arg_Variant (query_value kps ''ttl'')"
    "map_of (rev (concat (map proton_send_regs kps))) CB_durable = map_option Arg_Variant (query_value kps ''durable'')"
    "map_of (rev (concat (map proton_send_regs kps))) CB_content_type
      = map_option (\<lambda>v. Arg_String (vr_string v)) (query_value kps ''content-type'')"
    by (induction kps) (auto simp: proton_send_regs_def query_value_def map_add_def split: option.splits)
  then show "payload_of (proton_url_send kps) CB_ttl = Some (arg_or_null (query_value kps ''ttl''))"
    "payload_of (proton_url_send kps) CB_durable = Some (arg_or_null (query_value kps ''durable''))"
    "payload_of (proton_url_send kps) CB_content_type
      = Some (case query_value kps ''content-type'' of None \<Rightarrow> Arg_Null | Some v \<Rightarrow> Arg_String (vr_string v))"
    by (simp_all add: proton_url_send_def cbt.get_puts [OF wf] get arg_or_null_def del: cbt.puts.simps split: option.splits)
qed

lemma query_content_type:
  assumes "plain_query kps" and "query_value kps ''content-type'' = Some v"
  shows "vr_string v \<noteq> None"
proof -
  have "(''content-type'', v) \<in> set (rev (map (\<lambda>kp. (kp_key kp, kp_pair kp)) kps))"
    using assms(2) by (auto simp: query_value_def dest: map_of_SomeD)
  with assms(1) show ?thesis by (auto simp: plain_query_def)
qed

lemma run_send_list:
  assumes "plain_query kps"
  shows "vmslh_run (proton_callback pa) (Some (proton_url_send kps)) (Some g, w) = Some (Some (url_settings pa kps g), w)"
  using query_content_type [OF assms]
  by (auto simp: vmslh_run_def run_callbacks_fold [OF proton_send_list(1) [OF assms]] proton_send_list [OF assms] url_settings_def
      split: option.splits)

section \<open>Sending and receiving\<close>

text \<open>
  What is asked of a messenger that sends: a message put and sent reaches the peer, and
  reading the clock sends nothing; of messages, that the creation time is kept and that
  a body is formatted into the room there is; of gru, that milliseconds are split into
  seconds and microseconds.
\<close>

locale proton_wire = proton_link +
  fixes sent :: "'a \<Rightarrow> 'b list"
  assumes send_delivers: "sent (pn_messenger_send pa n (pn_messenger_put pa g m)) = sent m @ [g]"
    and send_succeeds: "pn_messenger_errno pa (pn_messenger_put pa g m) = 0" "pn_messenger_errno pa (pn_messenger_send pa n m) = 0"
    and clock_keeps: "sent (snd (pn_gettimeofday pa m)) = sent m"
    and creation_time: "pn_get_creation_time pa (pn_set_creation_time pa t g) = t"
    and format_fits: "length (fst (pn_body_format pa g k)) \<le> unat k"
    and from_milli: "0 \<le> t \<Longrightarrow> pn_time_from_milli pa t = \<lparr>tv_sec = t div 1000, tv_usec = t mod 1000 * 1000\<rparr>"

text \<open>The lists of a sender that has been opened and started, for delivery at most once.\<close>

definition sender_lists :: "gru_keypair list \<Rightarrow> 'p proton \<Rightarrow> bool" where
  "sender_lists kps w = (before_send (pr_handlers w) = Some (proton_url_send kps) \<and> after_send (pr_handlers w) = Some [])"

text \<open>The message that is sent.\<close>

definition amqp_message :: "('p, 'g) proton_api \<Rightarrow> gru_keypair list \<Rightarrow> string option \<Rightarrow> byte list \<Rightarrow> timestamp \<Rightarrow> 'g" where
  "amqp_message pa kps url bs now = pn_set_creation_time pa (tv_sec now * 1000 + tv_usec now div 1000)
     (url_settings pa kps (pn_put_body pa bs (pn_set_address pa url (pn_message pa))))"

lemma sender_started:
  assumes "proton_init pa opt (vmslh_new new) st w0 = Some (Some c, h, st1, w1)"
    and "proton_start pa c h st1 w1 = Some (VMSL_SUCCESS, st2, w2)"
    and "pn_alloc pa 16 = None" and "pn_append pa" and "\<And>i. new i" and "mo_direction opt = MSG_DIRECTION_SENDER" and "at_most_once opt"
  shows "sender_lists (query_of opt) w2"
proof -
  note c = proton_connection [where new = new, OF assms(1,3,4,5)]
  have l: "after_connect (pr_handlers w1) = Some []" "after_send (pr_handlers w1) = Some []"
    using c assms(5) by (simp_all add: vmslh_new_def new_list_def)
  have b: "before_connect (pr_handlers w1) = Some (proton_url_connect MSG_DIRECTION_SENDER (query_of opt))" using c assms(6) by simp
  have "\<exists>m u. w2 = w1\<lparr>pr_messenger := m, pr_url := u\<rparr>"
    using assms(2,7) l(1) by (auto simp: proton_start_def b run_connect_list qos_fn_def proton_set_qos_mode_send_def at_most_once_def
        case_prod_unfold Let_def vmsl_stat_defs split: if_splits)
  with c l show ?thesis by (auto simp: sender_lists_def)
qed

lemma settle_batch_returns:
  assumes "receiver_lists finals w" and "finals = accepts \<or> finals = []"
  shows "\<exists>w'. proton_settle_batch pa g w = Some w'"
  using assms settle_batch_accepts [of w pa g] settle_batch_nothing [of w pa g] by auto

context proton_wire begin

lemma sends_message:
  assumes "sender_lists kps w" and "plain_query kps" and "content_bytes d = Some bs"
    and "pn_gettimeofday pa (pr_messenger w) = (Some now, m1)"
  shows "\<exists>w'. proton_send pa c h d st w = Some (VMSL_SUCCESS, d, st, w') \<and>
    sent (pr_messenger w') = sent (pr_messenger w) @ [amqp_message pa kps (pr_url w) bs now]"
proof -
  have "sent m1 = sent (pr_messenger w)" using clock_keeps [of "pr_messenger w"] assms(4) by simp
  with assms show ?thesis
    by (simp add: proton_send_def sender_lists_def run_send_list proton_now_def proton_do_send_def failed_def send_succeeds
        send_delivers amqp_message_def Let_def status_simps)
qed

text \<open>The creation time of a message is the time of the send, cut to milliseconds.\<close>

lemma message_time:
  assumes "0 < tv_sec now" and "0 \<le> tv_usec now" and "tv_usec now < 1000000"
  shows "0 < pn_get_creation_time pa (amqp_message pa kps url bs now)"
    and "pn_time_from_milli pa (pn_get_creation_time pa (amqp_message pa kps url bs now))
      = \<lparr>tv_sec = tv_sec now, tv_usec = tv_usec now - tv_usec now mod 1000\<rparr>"
proof -
  let ?t = "tv_sec now * 1000 + tv_usec now div 1000"
  have t: "pn_get_creation_time pa (amqp_message pa kps url bs now) = ?t" by (simp add: amqp_message_def creation_time)
  have "tv_usec now div 1000 < 1000" using assms(3) by simp
  then have ms: "?t div 1000 = tv_sec now" "?t mod 1000 * 1000 = tv_usec now - tv_usec now mod 1000" and pos: "0 < ?t"
    using assms(1,2) by (simp_all add: minus_mod_eq_mult_div pos_add_strict)
  show "0 < pn_get_creation_time pa (amqp_message pa kps url bs now)" unfolding t by (rule pos)
  show "pn_time_from_milli pa (pn_get_creation_time pa (amqp_message pa kps url bs now))
      = \<lparr>tv_sec = tv_sec now, tv_usec = tv_usec now - tv_usec now mod 1000\<rparr>"
    using from_milli [OF order.strict_implies_order [OF pos]] unfolding t ms .
qed

text \<open>Taking a message out of the local buffer into a block.\<close>

lemma do_receive_returns:
  assumes "buffer m = g # gs" and "mc_data r = Some d" and "length d = unat (mc_capacity r)"
  shows "\<exists>r1 m1. proton_do_receive pa g0 r m = Some (0, g, r1, m1) \<and> buffer m1 = gs \<and> mc_created r1 = mc_created r \<and>
    (int (unsettled m) < window \<longrightarrow> unsettled m1 = Suc (unsettled m))"
proof -
  obtain m1 where m1: "pn_messenger_get pa g0 m = (g, m1)" "buffer m1 = gs" "pn_messenger_errno pa m1 = 0"
    "int (unsettled m) < window \<longrightarrow> unsettled m1 = Suc (unsettled m)" using get_first [OF assms(1)] by blast
  obtain bs k where f: "pn_body_format pa g (mc_capacity r) = (bs, k)" by fastforce
  then have "length bs \<le> length d" using format_fits [of g "mc_capacity r"] assms(3) by simp
  then obtain d' where "overlay bs d = Some d'" by (auto simp: overlay_def)
  with m1 f assms(2) show ?thesis by (simp add: proton_do_receive_def failed_def)
qed

lemma receive_nonempty:
  assumes "buffer (pr_messenger v) = g # gs"
  shows "proton_receive pa c h r st v = proton_take pa c r st (v\<lparr>pr_nmsgs := int (length (g # gs))\<rparr>)"
  using assms by (simp add: proton_receive_def incoming_length Let_def)

lemma receives_time:
  assumes "receiver_lists finals v" and "finals = accepts \<or> finals = []" and "buffer (pr_messenger v) = g # gs"
    and "\<not> plain_stats c" and "room_for 0 r" and "0 < pn_get_creation_time pa g"
  shows "\<exists>r' v'. proton_receive pa c h r st v = Some (VMSL_SUCCESS, r', st, v') \<and>
    mc_created r' = pn_time_from_milli pa (pn_get_creation_time pa g)"
proof -
  obtain d where d: "mc_data r = Some d" "length d = unat (mc_capacity r)" using assms(5) by (auto simp: room_for_def)
  obtain r1 m1 where m1: "proton_do_receive pa (pn_message pa) r (pr_messenger v) = Some (0, g, r1, m1)"
    using do_receive_returns [OF assms(3) d] by blast
  have "receiver_lists finals (v\<lparr>pr_nmsgs := int (length (g # gs)), pr_messenger := m1\<rparr>)" using assms(1) by simp
  from settle_batch_returns [OF this assms(2), of pa g] obtain v' where
    "proton_settle_batch pa g (v\<lparr>pr_nmsgs := int (length (g # gs)), pr_messenger := m1\<rparr>) = Some v'" by blast
  with m1 assms(1,4,6) show ?thesis
    by (simp add: receive_nonempty [OF assms(3)] proton_take_def receiver_lists_def plain_stats_def Let_def)
qed

lemma receives_untimed:
  assumes "receiver_lists finals v" and "buffer (pr_messenger v) = g # gs"
    and "\<not> plain_stats c" and "room_for 0 r" and "\<not> 0 < pn_get_creation_time pa g" and "int (unsettled (pr_messenger v)) < window"
  shows "\<exists>r' v'. proton_receive pa c h r st v
      = Some (VMSL_ERROR OR VMSL_NO_TIMESTAMP, r', St_Set GRU_FAILURE ''A timestamp was not set for a message'', v') \<and>
    buffer (pr_messenger v') = gs \<and> pr_cur v' = pr_cur v \<and> unsettled (pr_messenger v') = Suc (unsettled (pr_messenger v))"
proof -
  obtain d where d: "mc_data r = Some d" "length d = unat (mc_capacity r)" using assms(4) by (auto simp: room_for_def)
  obtain r1 m1 where "proton_do_receive pa (pn_message pa) r (pr_messenger v) = Some (0, g, r1, m1)" "buffer m1 = gs"
    "unsettled m1 = Suc (unsettled (pr_messenger v))"
    using do_receive_returns [OF assms(2) d] assms(6) by blast
  with assms(1,3,5) show ?thesis
    by (simp add: receive_nonempty [OF assms(2)] proton_take_def receiver_lists_def plain_stats_def Let_def sleep_keeps)
qed

end

section \<open>A messenger\<close>

text \<open>A messenger whose peer holds a list of messages; a message is its body and creation time. The
  process keeps a log of durations beside it.\<close>

record list_messenger =
  lm_buffer :: "(byte list \<times> int) list"
  lm_remote :: "(byte list \<times> int) list"
  lm_unsettled :: nat
  lm_sent :: "(byte list \<times> int) list"
  lm_log :: "(gru_duration \<times> timestamp) list"

definition list_proton :: "timestamp \<Rightarrow> (list_messenger, byte list \<times> int) proton_api" where
  "list_proton now = \<lparr>pn_messenger = (\<lambda>m. m), pn_messenger_free = (\<lambda>m. m), pn_messenger_start = (\<lambda>m. (0, m)),
     pn_messenger_stop = (\<lambda>m. (0, m)), pn_messenger_stopped = (\<lambda>m. True), pn_INPROGRESS = - 9, pn_usleep = (\<lambda>n m. m), pn_sleep = (\<lambda>n m. m),
     pn_messenger_errno = (\<lambda>m. 0), pn_error_text = (\<lambda>m. []), pn_messenger_put = (\<lambda>g m. m\<lparr>lm_sent := lm_sent m @ [g]\<rparr>),
     pn_messenger_send = (\<lambda>n m. m), pn_messenger_subscribe = (\<lambda>u m. m), pn_messenger_set_blocking = (\<lambda>b m. m),
     pn_messenger_set_incoming_window = (\<lambda>n m. m), pn_messenger_set_outgoing_window = (\<lambda>n m. m),
     pn_messenger_set_snd_settle_mode = (\<lambda>s m. m), pn_messenger_set_rcv_settle_mode = (\<lambda>s m. m),
     pn_messenger_recv = (\<lambda>n m. if lm_remote m = [] then (- 9, m) else (0, m\<lparr>lm_buffer := lm_buffer m @ lm_remote m, lm_remote := []\<rparr>)),
     pn_messenger_incoming = (\<lambda>m. int (length (lm_buffer m))),
     pn_messenger_get = (\<lambda>g m. case lm_buffer m of [] \<Rightarrow> (g, m)
       | x # xs \<Rightarrow> (x, m\<lparr>lm_buffer := xs, lm_unsettled := min 10 (Suc (lm_unsettled m))\<rparr>)),
     pn_outgoing_tracker = (\<lambda>m. 0), pn_incoming_tracker = (\<lambda>m. 0), pn_settle = (\<lambda>t b m. m\<lparr>lm_unsettled := 0\<rparr>), pn_accept = (\<lambda>t b m. m),
     pn_message = ([], 0), pn_set_address = (\<lambda>u g. g), pn_put_body = (\<lambda>bs g. (bs, snd g)),
     pn_body_format = (\<lambda>g n. (take (unat n) (fst g), word_of_nat (length (take (unat n) (fst g))))),
     pn_set_creation_time = (\<lambda>t g. (fst g, t)), pn_get_creation_time = snd, pn_set_content_type = (\<lambda>s g. g), pn_set_ttl = (\<lambda>n g. g),
     pn_set_durable = (\<lambda>b g. g), pn_set_priority = (\<lambda>n g. g), pn_put_map = (\<lambda>g. g), pn_enter = (\<lambda>g. g), pn_put_property = (\<lambda>s g. g),
     pn_exit = (\<lambda>g. g), pn_rand = (\<lambda>m. (0, m)), pn_gettimeofday = (\<lambda>m. (Some now, m)), pn_strerror = [],
     pn_time_from_milli = (\<lambda>t. \<lparr>tv_sec = t div 1000, tv_usec = t mod 1000 * 1000\<rparr>), pn_null_equals_str = (\<lambda>s. Some False),
     pn_list_new = True, pn_split = (\<lambda>s st. (Some [], st)), pn_keypair_parse = (\<lambda>s st. (None, st)),
     pn_uri_simple_format = (\<lambda>u st. (Some (uri_path u), st)), pn_version = ''0.17'', pn_alloc = (\<lambda>n. None), pn_append = True,
     pn_sizeof_msg_ctxt = 80, pn_sizeof_proton_ctxt = 16\<rparr>"

lemma list_proton_simps [simp]:
  "pn_alloc (list_proton now) = (\<lambda>n. None)" "pn_append (list_proton now)" "pn_messenger (list_proton now) = (\<lambda>m. m)"
  "pn_messenger_set_rcv_settle_mode (list_proton now) = (\<lambda>s m. m)" "pn_get_creation_time (list_proton now) = snd"
  "pn_gettimeofday (list_proton now) = (\<lambda>m. (Some now, m))"
  by (simp_all add: list_proton_def)

interpretation list_proton: proton_wire "list_proton now" lm_buffer lm_unsettled lm_sent for now
proof unfold_locales
  fix m :: list_messenger and x xs g0
  assume "lm_buffer m = x # xs"
  then show "\<exists>m'. pn_messenger_get (list_proton now) g0 m = (x, m') \<and> lm_buffer m' = xs \<and> pn_messenger_errno (list_proton now) m' = 0 \<and>
      (int (lm_unsettled m) < window \<longrightarrow> lm_unsettled m' = Suc (lm_unsettled m))"
    by (auto simp: list_proton_def window_def)
qed (simp_all add: list_proton_def)

section \<open>Properties\<close>

lemma subscribe_keeps:
  "proton_subscribe pa c mtopic st w = Some (ret, st', w') \<Longrightarrow> \<exists>m. w' = w\<lparr>pr_messenger := m\<rparr>"
  by (auto simp: proton_subscribe_def case_prod_unfold Let_def split: if_splits)

text \<open>
  Property C23, proton_acks. A receiver opened with the default mode of delivery or with at most
  once, started and subscribed, settles in time: after any sequence of receives that lose
  no time stamp fewer messages than the window are unsettled, and none when the local
  buffer is empty. So no message leaves the window unsettled.
\<close>

theorem proton_acks:
  assumes "proton_link pa buffer unsettled" and "pn_alloc pa 16 = None" and "pn_append pa" and "\<And>i. new i"
    and "mo_direction opt = MSG_DIRECTION_RECEIVER" and "at_most_once opt"
    and "proton_init pa opt (vmslh_new new) st w0 = Some (Some c, h, st1, w1)" and "pr_cur w0 = 0" and "pr_last_ack w0 = 0"
    and "proton_start pa c h st1 w1 = Some (VMSL_SUCCESS, st2, w2)"
    and "proton_subscribe pa c mtopic st2 w2 = Some (VMSL_SUCCESS, st3, w3)" and "unsettled (pr_messenger w3) = 0"
    and "receiving pa c w3 w"
  shows "int (unsettled (pr_messenger w)) < window \<and> (buffer (pr_messenger w) = [] \<longrightarrow> unsettled (pr_messenger w) = 0)"
proof -
  have w2: "receiver_lists accepts w2" "pr_cur w2 = 0" "pr_last_ack w2 = 0"
    using receiver_started [where new = new, OF assms(7,10,2-5)] assms(6,8,9) by auto
  obtain m where "w3 = w2\<lparr>pr_messenger := m\<rparr>" using subscribe_keeps [OF assms(11)] by blast
  then have "receiver_lists accepts w3" "ack_inv buffer unsettled w3"
    using w2 assms(12) by (simp_all add: ack_inv_def window_def)
  from proton_link.receiving_acks [OF assms(1,13) this] show ?thesis by (auto simp: ack_inv_def)
qed

definition amqp_world :: "(byte list \<times> int) list \<Rightarrow> list_messenger proton" where
  "amqp_world remote = \<lparr>pr_url = None, pr_properties = None, pr_handlers = no_handlers, pr_nmsgs = 0, pr_cur = 0, pr_last_ack = 0,
     pr_messenger = \<lparr>lm_buffer = [], lm_remote = remote, lm_unsettled = 0, lm_sent = [], lm_log = []\<rparr>\<rparr>"

definition amqp_now :: timestamp where
  "amqp_now = \<lparr>tv_sec = 1500000000, tv_usec = 250999\<rparr>"

text \<open>The mode of delivery in a URL.\<close>

definition qos_opt :: "msg_direction \<Rightarrow> string \<Rightarrow> msg_opt" where
  "qos_opt dir s = null_opt\<lparr>mo_direction := dir, mo_statistics := 3, mo_uri := null_uri\<lparr>uri_query := Some [\<lparr>kp_key = ''qos-mode'',
     kp_pair = (boolean_variant False)\<lparr>vr_string := Some s, vr_equals_str := (\<lambda>t. t = s)\<rparr>\<rparr>]\<rparr>\<rparr>"

definition qos_lists :: "string \<Rightarrow> handlers" where
  "qos_lists s = (vmslh_new (\<lambda>i. True))\<lparr>before_connect := Some (proton_url_connect MSG_DIRECTION_RECEIVER (query_of (qos_opt MSG_DIRECTION_RECEIVER s))),
     before_send := Some (proton_url_send (query_of (qos_opt MSG_DIRECTION_RECEIVER s)))\<rparr>"

lemma query_qos_opt: "query_of (qos_opt dir s) = [\<lparr>kp_key = ''qos-mode'', kp_pair = (boolean_variant False)\<lparr>vr_string := Some s,
    vr_equals_str := (\<lambda>t. t = s)\<rparr>\<rparr>]"
  by (simp add: query_of_def qos_opt_def)

lemma sample_init:
  "proton_init (list_proton amqp_now) (qos_opt MSG_DIRECTION_RECEIVER s) (vmslh_new (\<lambda>i. True)) St_New (amqp_world remote)
    = Some (Some \<lparr>msg_opts = qos_opt MSG_DIRECTION_RECEIVER s\<rparr>, qos_lists s, St_New, (amqp_world remote)\<lparr>pr_handlers := qos_lists s\<rparr>)"
proof -
  have new: "before_connect (vmslh_new (\<lambda>i. True) :: handlers) = Some []" "before_send (vmslh_new (\<lambda>i. True) :: handlers) = Some []"
    by (simp_all add: vmslh_new_def new_list_def)
  have q: "uri_query (mo_uri (qos_opt d s)) = Some (query_of (qos_opt d s))" for d by (simp add: query_of_def qos_opt_def)
  have o: "mo_direction (qos_opt d s) = d" for d by (simp add: qos_opt_def)
  show ?thesis
    by (simp add: proton_init_def msg_ctxt_init_def proton_context_init_def proton_defaults new proton_set_user_parameters_def q o
        query_qos_opt proton_set_parameter_by_name_def on_handlers_def add_before_ok qos_lists_def proton_url_connect_def proton_url_send_def
        proton_connect_regs_def proton_send_regs_def Let_def amqp_world_def)
qed

lemma sample_receiver:
  "\<exists>w2 w3. proton_start (list_proton amqp_now) \<lparr>msg_opts = qos_opt MSG_DIRECTION_RECEIVER s\<rparr> (qos_lists s) St_New ((amqp_world remote)\<lparr>pr_handlers := qos_lists s\<rparr>)
      = Some (VMSL_SUCCESS, St_New, w2) \<and>
    proton_subscribe (list_proton amqp_now) \<lparr>msg_opts = qos_opt MSG_DIRECTION_RECEIVER s\<rparr> None St_New w2 = Some (VMSL_SUCCESS, St_New, w3) \<and>
    lm_unsettled (pr_messenger w3) = 0 \<and> lm_buffer (pr_messenger w3) = remote"
proof -
  have l: "before_connect (qos_lists s) = Some (proton_url_connect MSG_DIRECTION_RECEIVER (query_of (qos_opt MSG_DIRECTION_RECEIVER s)))"
    "after_connect (qos_lists s) = Some []" "finalize_receive (qos_lists s) = Some []"
    by (simp_all add: qos_lists_def vmslh_new_def new_list_def)
  let ?w = "(amqp_world remote)\<lparr>pr_handlers := qos_lists s\<rparr>"
  have f: "add_finalize_receive (pn_alloc (list_proton amqp_now)) (pn_append (list_proton amqp_now)) CB_accept (qos_lists s)
      = Some ((qos_lists s)\<lparr>finalize_receive := Some accepts\<rparr>)"
    using l(3) by (simp add: add_finalize_receive_def add_handler_def vmslh_add_def vmslh_by_addr_def accepts_def)
  have "\<exists>hh. proton_set_qos_mode_recv (list_proton amqp_now) (Some ((boolean_variant False)\<lparr>vr_string := Some s, vr_equals_str := (\<lambda>t. t = s)\<rparr>)) ?w
      = Some ((amqp_world remote)\<lparr>pr_handlers := hh\<rparr>) \<and> after_connect hh = Some []"
    using l(2) by (simp add: proton_set_qos_mode_recv_def variant_equals_str_def f [simplified]) (auto simp: amqp_world_def)
  then obtain hh where q: "proton_set_qos_mode_recv (list_proton amqp_now) (query_value (query_of (qos_opt MSG_DIRECTION_RECEIVER s)) ''qos-mode'') ?w
      = Some ((amqp_world remote)\<lparr>pr_handlers := hh\<rparr>)" "after_connect hh = Some []"
    by (auto simp: query_qos_opt query_value_def)
  have "proton_start (list_proton amqp_now) \<lparr>msg_opts = qos_opt MSG_DIRECTION_RECEIVER s\<rparr> (qos_lists s) St_New ((amqp_world remote)\<lparr>pr_handlers := qos_lists s\<rparr>)
      = Some (VMSL_SUCCESS, St_New, (amqp_world remote)\<lparr>pr_handlers := hh, pr_url := Some []\<rparr>)"
    using q l by (simp add: proton_start_def run_connect_list qos_fn_def list_proton_def Let_def qos_opt_def null_opt_def null_uri_def
        amqp_world_def gru_status_error_def)
  then show ?thesis
    by (cases "remote = []") (simp_all add: proton_subscribe_def list_proton_def failed_def amqp_world_def Let_def)
qed

lemma qos_opt_simps [simp]: "mo_direction (qos_opt d s) = d" "at_most_once (qos_opt d s) = (s = ''at-most-once'')"
  by (auto simp: at_most_once_def query_qos_opt query_value_def) (simp add: qos_opt_def)

text \<open>A receiver of the list messenger, opened, started and subscribed.\<close>

lemma opened_receiver:
  fixes s remote defines "c \<equiv> \<lparr>msg_opts = qos_opt MSG_DIRECTION_RECEIVER s\<rparr>"
  obtains w2 w3 where "proton_start (list_proton amqp_now) c (qos_lists s) St_New ((amqp_world remote)\<lparr>pr_handlers := qos_lists s\<rparr>)
      = Some (VMSL_SUCCESS, St_New, w2)"
    "proton_subscribe (list_proton amqp_now) c None St_New w2 = Some (VMSL_SUCCESS, St_New, w3)"
    "lm_unsettled (pr_messenger w3) = 0" "lm_buffer (pr_messenger w3) = remote"
    "receiver_lists (if s = ''at-most-once'' then accepts else []) w3" "\<not> plain_stats c"
proof -
  obtain w2 w3 where r: "proton_start (list_proton amqp_now) c (qos_lists s) St_New ((amqp_world remote)\<lparr>pr_handlers := qos_lists s\<rparr>)
      = Some (VMSL_SUCCESS, St_New, w2)"
    "proton_subscribe (list_proton amqp_now) c None St_New w2 = Some (VMSL_SUCCESS, St_New, w3)"
    "lm_unsettled (pr_messenger w3) = 0" "lm_buffer (pr_messenger w3) = remote"
    using sample_receiver unfolding c_def by blast
  have "receiver_lists (if s = ''at-most-once'' then accepts else []) w2"
    using receiver_started [where new = "\<lambda>i. True", OF sample_init r(1) [unfolded c_def]] by simp
  with subscribe_keeps [OF r(2)] have "receiver_lists (if s = ''at-most-once'' then accepts else []) w3" by auto
  moreover have "\<not> plain_stats c" by (simp add: plain_stats_def c_def qos_opt_def MSG_STAT_LATENCY_def)
  ultimately show ?thesis using r that by blast
qed

definition amqp_block :: msg_content where
  "amqp_block = \<lparr>mc_data = Some (zero_block 8), mc_capacity = 8, mc_size = 0, mc_created = zero_ts\<rparr>"

lemma amqp_block_room [simp]: "room_for 0 amqp_block"
  by (simp add: room_for_def amqp_block_def zero_block_def)

theorem proton_acks_witness:
  "\<exists>w3 w4 (w :: list_messenger proton). receiving (list_proton amqp_now) \<lparr>msg_opts = qos_opt MSG_DIRECTION_RECEIVER ''at-most-once''\<rparr> w3 w \<and>
    lm_buffer (pr_messenger w3) = [(''a'', 5)] \<and> proton_receive (list_proton amqp_now) \<lparr>msg_opts = qos_opt MSG_DIRECTION_RECEIVER ''at-most-once''\<rparr>
      (qos_lists ''at-most-once'') amqp_block St_New w3 = Some w4 \<and>
    int (lm_unsettled (pr_messenger w)) < window \<and> (lm_buffer (pr_messenger w) = [] \<longrightarrow> lm_unsettled (pr_messenger w) = 0)"
proof -
  let ?c = "\<lparr>msg_opts = qos_opt MSG_DIRECTION_RECEIVER ''at-most-once''\<rparr>"
  obtain w2 w3 where r: "proton_start (list_proton amqp_now) ?c (qos_lists ''at-most-once'') St_New
      ((amqp_world [(''a'', 5)])\<lparr>pr_handlers := qos_lists ''at-most-once''\<rparr>) = Some (VMSL_SUCCESS, St_New, w2)"
    "proton_subscribe (list_proton amqp_now) ?c None St_New w2 = Some (VMSL_SUCCESS, St_New, w3)"
    "lm_unsettled (pr_messenger w3) = 0" "lm_buffer (pr_messenger w3) = [(''a'', 5)]" "receiver_lists accepts w3" "\<not> plain_stats ?c"
    by (rule opened_receiver [of "''at-most-once''" "[(''a'', 5)]"]) simp
  obtain r' w where t: "proton_receive (list_proton amqp_now) ?c (qos_lists ''at-most-once'') amqp_block St_New w3 = Some (VMSL_SUCCESS, r', St_New, w)"
    using list_proton.receives_time [OF r(5) _ r(4,6) amqp_block_room, of amqp_now "qos_lists ''at-most-once''" St_New] by auto
  have run: "receiving (list_proton amqp_now) ?c w3 w"
    by (rule receiving_one [OF receiving_none t]) (simp add: vmsl_stat_defs)
  have "int (lm_unsettled (pr_messenger w)) < window \<and> (lm_buffer (pr_messenger w) = [] \<longrightarrow> lm_unsettled (pr_messenger w) = 0)"
    by (rule proton_acks [where new = "\<lambda>i. True", OF list_proton.proton_link_axioms _ _ _ _ _ sample_init _ _ r(1-3) run])
      (simp_all add: amqp_world_def)
  with run r(4) t show ?thesis by blast
qed



text \<open>
  Also proved, proton_latency. A sender opened for delivery at most once sends exactly one
  message with the body, the address and the settings of the URL, and a receiver that
  takes it records as its creation time the time of the send, cut to milliseconds.
\<close>

theorem proton_latency:
  assumes "proton_wire pa buffer unsettled sent" and "sender_lists kps w" and "plain_query kps" and "content_bytes d = Some bs"
    and "pn_gettimeofday pa (pr_messenger w) = (Some now, m1)" and "0 < tv_sec now" and "0 \<le> tv_usec now" and "tv_usec now < 1000000"
    and "receiver_lists finals v" and "finals = accepts \<or> finals = []" and "\<not> plain_stats c'" and "room_for 0 r"
    and "buffer (pr_messenger v) = amqp_message pa kps (pr_url w) bs now # gs"
  shows "\<exists>w' r' v'. proton_send pa c h d st w = Some (VMSL_SUCCESS, d, st, w') \<and>
    sent (pr_messenger w') = sent (pr_messenger w) @ [amqp_message pa kps (pr_url w) bs now] \<and>
    proton_receive pa c' h' r st' v = Some (VMSL_SUCCESS, r', st', v') \<and>
    mc_created r' = \<lparr>tv_sec = tv_sec now, tv_usec = tv_usec now - tv_usec now mod 1000\<rparr>"
  using proton_wire.sends_message [OF assms(1-5), of c h st] proton_wire.receives_time [OF assms(1,9,10,13,11,12), of h' st']
    proton_wire.message_time [OF assms(1,6-8)] by auto

definition amqp_sender :: "list_messenger proton" where
  "amqp_sender = (amqp_world [])\<lparr>pr_handlers := (vmslh_new (\<lambda>i. True))\<lparr>before_send := Some (proton_url_send [])\<rparr>\<rparr>"

definition amqp_receiver :: "(byte list \<times> int) list \<Rightarrow> list_messenger proton" where
  "amqp_receiver gs = (amqp_world [])\<lparr>pr_handlers := (vmslh_new (\<lambda>i. True))\<lparr>finalize_receive := Some accepts\<rparr>,
     pr_messenger := \<lparr>lm_buffer = gs, lm_remote = [], lm_unsettled = 0, lm_sent = [], lm_log = []\<rparr>\<rparr>"

lemma amqp_sample_lists:
  "sender_lists [] amqp_sender" "receiver_lists accepts (amqp_receiver gs)" "lm_buffer (pr_messenger (amqp_receiver gs)) = gs"
  by (simp_all add: sender_lists_def amqp_sender_def receiver_lists_def amqp_receiver_def vmslh_new_def new_list_def)

theorem proton_latency_witness:
  "\<exists>w' r' v'. proton_send (list_proton amqp_now) \<lparr>msg_opts = null_opt\<rparr> no_handlers \<lparr>mc_data = Some ''ab'', mc_capacity = 2, mc_size = 2,
      mc_created = zero_ts\<rparr> St_New amqp_sender = Some (VMSL_SUCCESS, \<lparr>mc_data = Some ''ab'', mc_capacity = 2, mc_size = 2,
      mc_created = zero_ts\<rparr>, St_New, w') \<and>
    lm_sent (pr_messenger w') = lm_sent (pr_messenger amqp_sender) @ [amqp_message (list_proton amqp_now) [] (pr_url amqp_sender) ''ab'' amqp_now] \<and>
    proton_receive (list_proton amqp_now) \<lparr>msg_opts = null_opt\<lparr>mo_statistics := 3\<rparr>\<rparr> no_handlers amqp_block St_New
      (amqp_receiver [amqp_message (list_proton amqp_now) [] (pr_url amqp_sender) ''ab'' amqp_now]) = Some (VMSL_SUCCESS, r', St_New, v') \<and>
    mc_created r' = \<lparr>tv_sec = tv_sec amqp_now, tv_usec = tv_usec amqp_now - tv_usec amqp_now mod 1000\<rparr>"
  by (rule proton_latency [OF list_proton.proton_wire_axioms amqp_sample_lists(1) _ _ _ _ _ _ amqp_sample_lists(2) _ _ _ amqp_sample_lists(3)])
    (simp_all add: plain_query_def content_bytes_def amqp_now_def plain_stats_def MSG_STAT_LATENCY_def)

text \<open>
  Also proved, proton_no_timestamp. With latency statistics a message without a creation time is
  taken out of the buffer and reported as an error without a time stamp, but it is
  neither counted nor settled: the counters of the receiver no longer agree with the
  messenger.
\<close>

theorem proton_no_timestamp:
  assumes "proton_wire pa buffer unsettled sent" and "receiver_lists finals v" and "buffer (pr_messenger v) = g # gs"
    and "\<not> plain_stats c" and "room_for 0 r" and "pn_get_creation_time pa g \<le> 0" and "ack_inv buffer unsettled v"
  shows "\<exists>r' v'. proton_receive pa c h r st v
      = Some (VMSL_ERROR OR VMSL_NO_TIMESTAMP, r', St_Set GRU_FAILURE ''A timestamp was not set for a message'', v') \<and>
    buffer (pr_messenger v') = gs \<and> int (unsettled (pr_messenger v')) = pr_cur v' + 1 \<and> \<not> ack_inv buffer unsettled v'"
proof -
  have "int (unsettled (pr_messenger v)) < window" "pr_cur v = int (unsettled (pr_messenger v))" using assms(7) by (auto simp: ack_inv_def)
  with proton_wire.receives_untimed [OF assms(1-5), of h st] assms(6) show ?thesis by (fastforce simp: ack_inv_def)
qed

theorem proton_no_timestamp_witness:
  "\<exists>r' v'. proton_receive (list_proton amqp_now) \<lparr>msg_opts = null_opt\<lparr>mo_statistics := 3\<rparr>\<rparr> no_handlers amqp_block St_New (amqp_receiver [(''ab'', 0)])
      = Some (VMSL_ERROR OR VMSL_NO_TIMESTAMP, r', St_Set GRU_FAILURE ''A timestamp was not set for a message'', v') \<and>
    lm_buffer (pr_messenger v') = [] \<and> int (lm_unsettled (pr_messenger v')) = pr_cur v' + 1 \<and> \<not> ack_inv lm_buffer lm_unsettled v'"
  by (rule proton_no_timestamp [OF list_proton.proton_wire_axioms amqp_sample_lists(2,3)])
    (simp_all add: plain_stats_def MSG_STAT_LATENCY_def ack_inv_def amqp_receiver_def amqp_world_def window_def)

end
