(* ===== verification/Amqp_Test.thy ===== *)
theory Amqp_Test
  imports Programs Proton
begin

text \<open>
  A whole test over AMQP: the loops of the sender and of the receiver on the functions of
  the AMQP wrapper, from the call of the start function to its return. The locale
  \<open>proton_peer\<close> adds to the contract of a messenger what the peer holds for it; the loops
  are instances of \<open>counted_iteration\<close>.
\<close>

section \<open>What happens around the connection\<close>

text \<open>
  A step of the process that leaves the connection alone: of the state of the wrapper only
  the outside behind the messenger may change, and what \<open>view\<close> shows of it stays.
\<close>

definition beside :: "('p \<Rightarrow> 'v) \<Rightarrow> 'p proton option \<Rightarrow> 'p proton option \<Rightarrow> bool" where
  "beside view w w' = (\<forall>v. w = Some v \<longrightarrow> (\<exists>m. w' = Some (v\<lparr>pr_messenger := m\<rparr>) \<and> view m = view (pr_messenger v)))"

lemma beside_refl [simp]: "beside view w w"
proof -
  have "\<exists>m. v = v\<lparr>pr_messenger := m\<rparr> \<and> view m = view (pr_messenger v)" for v :: "'a proton"
    by (rule exI [of _ "pr_messenger v"]) simp
  then show ?thesis by (simp add: beside_def)
qed

lemma beside_trans: "beside view u v \<Longrightarrow> beside view v w \<Longrightarrow> beside view u w"
  by (fastforce simp: beside_def)

lemma besideE:
  assumes "beside view (Some v) w"
  obtains m where "w = Some (v\<lparr>pr_messenger := m\<rparr>)" "view m = view (pr_messenger v)"
  using assms by (auto simp: beside_def)

text \<open>The clock, the waits and the queue to the parent leave the connection alone.\<close>

definition around :: "('p \<Rightarrow> 'v) \<Rightarrow> 'p proton option wenv \<Rightarrow> session \<Rightarrow> bool" where
  "around view env se = ((\<forall>w. beside view w (snd (e_now env w))) \<and> (\<forall>n w. beside view w (e_usleep env n w)) \<and>
     (\<forall>s w. \<exists>stat w'. worker_queue_write (e_ipc env) (se_queue se) s sizeof_snapshot w = Some (stat, w') \<and> beside view w w') \<and>
     (\<forall>w. beside view w (worker_queue_destroy (e_ipc env) (se_queue se) w)))"

text \<open>A report whose writes succeed, and which leaves the connection alone.\<close>

definition report_around :: "('p \<Rightarrow> 'v) \<Rightarrow> ('p proton option, 'd) writer_table \<Rightarrow> bool" where
  "report_around view t = ((\<exists>write. wr_write t = Some write \<and>
       (\<forall>d st w. fst (write d st w) \<and> beside view w (snd (snd (write d st w))))) \<and>
     (\<exists>finalize. wr_finalize t = Some finalize \<and> (\<forall>st w. beside view w (snd (snd (finalize st w))))))"

lemma snap_now_around: "around view env se \<Longrightarrow> beside view (ls_world ls) (ls_world (snap_now env ls))"
  by (cases "e_now env (ls_world ls)") (auto simp: around_def snap_now_def dest: spec [of _ "ls_world ls"])

lemma throttle_around: "around view env se \<Longrightarrow> beside view (ls_world ls) (ls_world (throttle_wait env wk ls))"
  by (simp add: around_def throttle_wait_def Let_def)

lemma queue_snapshot_around:
  assumes "around view env se"
  shows "\<exists>ls'. queue_snapshot env se ls = Some ls' \<and> same_message ls' ls \<and> beside view (ls_world ls) (ls_world ls')"
proof -
  obtain stat w' where "worker_queue_write (e_ipc env) (se_queue se) (ls_snap ls) sizeof_snapshot (ls_world ls) = Some (stat, w')"
    "beside view (ls_world ls) w'" using assms unfolding around_def by blast
  then show ?thesis by (simp add: queue_snapshot_def same_message_def)
qed

lemma naive_sample_around:
  assumes "around view env se" and "report_around view (w_throughput (wk_writer wk))"
  shows "\<exists>ls'. naive_sample env wk se ls = Some (True, ls') \<and> same_message ls' ls \<and> beside view (ls_world ls) (ls_world ls')"
proof (cases "sample_due env 10 ls")
  case True
  let ?ls1 = "snap_throughput env ls"
  from assms(2) obtain wfn where wr: "wr_write (w_throughput (wk_writer wk)) = Some wfn"
    "\<And>d st w. fst (wfn d st w)" "\<And>d st w. beside view w (snd (snd (wfn d st w)))" by (auto simp: report_around_def)
  obtain st w where w: "wfn (ws_throughput (ls_snap ?ls1)) (ls_status ?ls1) (ls_world ?ls1) = (True, st, w)"
    using wr(2) by (metis prod.collapse)
  have b: "beside view (ls_world ls) w"
    using wr(3) [of "ls_world ?ls1" "ws_throughput (ls_snap ?ls1)" "ls_status ?ls1"] w by (simp add: snap_throughput_def Let_def)
  let ?ls2 = "mark_sample (?ls1\<lparr>ls_status := st, ls_world := w\<rparr>)"
  obtain ls3 where q: "queue_snapshot env se ?ls2 = Some ls3" "same_message ls3 ?ls2" "beside view (ls_world ?ls2) (ls_world ls3)"
    using queue_snapshot_around [OF assms(1)] by blast
  have "beside view (ls_world ls) (ls_world ls3)" using beside_trans [OF b] q(3) by (simp add: mark_sample_def)
  with True wr(1) w q(1,2) show ?thesis
    by (simp add: naive_sample_def Let_def same_message_def mark_sample_def snap_throughput_def)
qed (simp add: naive_sample_def)

lemma finalize_around:
  assumes "report_around view t"
  shows "\<exists>st' w'. finalize_table t st w = Some (st', w') \<and> beside view w w'"
proof -
  obtain f where "wr_finalize t = Some f" "beside view w (snd (snd (f st w)))" using assms by (auto simp: report_around_def)
  then show ?thesis by (cases "f st w") (simp add: finalize_table_def)
qed

section \<open>The messenger and its peer\<close>

text \<open>
  What the peer holds for a receiver: taking, accepting and settling leave it alone, and as long
  as it is not empty a receive fetches some of it. What was sent stays sent when the messenger
  stops, waits and is freed.
\<close>

locale proton_peer = proton_wire +
  fixes remote :: "'a \<Rightarrow> 'b list"
  assumes recv_fetches: "buffer m = [] \<Longrightarrow> remote m \<noteq> [] \<Longrightarrow>
      \<exists>m'. pn_messenger_recv pa n m = (0, m') \<and> buffer m' \<noteq> [] \<and> buffer m' @ remote m' = remote m"
    and get_keeps: "remote (snd (pn_messenger_get pa g m)) = remote m"
    and settle_remote: "remote (pn_accept pa t b m) = remote m" "remote (pn_settle pa t b m) = remote m"
    and stop_keeps: "sent (snd (pn_messenger_stop pa m)) = sent m" "sent (pn_usleep pa k m) = sent m" "sent (pn_messenger_free pa m) = sent m"

text \<open>A time of the clock of the sender; the messages of a fixed size it sends.\<close>

definition valid_time :: "timestamp \<Rightarrow> bool" where
  "valid_time t = (0 < tv_sec t \<and> 0 \<le> tv_usec t \<and> tv_usec t < 1000000)"

definition test_message :: "('p, 'g) proton_api \<Rightarrow> gru_keypair list \<Rightarrow> string option \<Rightarrow> u64 \<Rightarrow> timestamp \<Rightarrow> 'g" where
  "test_message pa kps url sz now = amqp_message pa kps url (replicate (unat sz) (CHR ''d'')) now"

definition clock_runs :: "('p, 'g) proton_api \<Rightarrow> bool" where
  "clock_runs pa = (\<forall>m. \<exists>now m'. pn_gettimeofday pa m = (Some now, m') \<and> valid_time now)"

text \<open>The \<open>k\<close>-th of the times is the clock reading of the messenger after \<open>k\<close> of the messages.\<close>

definition sent_at :: "('p, 'g) proton_api \<Rightarrow> ('p \<Rightarrow> 'g list) \<Rightarrow> (timestamp \<Rightarrow> 'g) \<Rightarrow> 'g list \<Rightarrow> timestamp list \<Rightarrow> nat \<Rightarrow> bool" where
  "sent_at pa sent msg base ts k = (\<exists>m. sent m = base @ map msg (take k ts) \<and> fst (pn_gettimeofday pa m) = Some (ts ! k))"

lemma sent_at_snoc:
  assumes "\<forall>k<length ts. sent_at pa sent msg base ts k" and "sent m = base @ map msg ts" and "fst (pn_gettimeofday pa m) = Some t"
  shows "\<forall>k<length (ts @ [t]). sent_at pa sent msg base (ts @ [t]) k"
  using assms by (auto simp: sent_at_def less_Suc_eq nth_append)

section \<open>The loop of the sender\<close>

definition amqp_sending :: "('p, 'g) proton_api \<Rightarrow> ('p \<Rightarrow> 'g list) \<Rightarrow> gru_keypair list \<Rightarrow> string option \<Rightarrow> 'g list \<Rightarrow>
    'p proton option wenv \<Rightarrow> 'p proton option worker \<Rightarrow> session \<Rightarrow> 'p proton option loop_state \<Rightarrow> bool" where
  "amqp_sending pa sent kps url base env wk se ls =
    (clock_runs pa \<and> wk_vmsl wk = wrapper_table (proton_wrapper pa) \<and> plain_query kps \<and> around sent env se \<and>
     report_around sent (w_throughput (wk_writer wk)) \<and> 0 < wo_message_size (wk_options wk) \<and> pl_st_load (wk_strategy wk) = Some pl_fixed_load \<and>
     fixed_ready (wo_message_size (wk_options wk)) (ls_pl ls) (ls_content ls) \<and>
     (\<exists>v ts. ls_world ls = Some v \<and> sender_lists kps v \<and> pr_url v = url \<and> length ts = unat (ws_count (ls_snap ls)) \<and>
        list_all valid_time ts \<and> sent (pr_messenger v) = base @ map (test_message pa kps url (wo_message_size (wk_options wk))) ts \<and>
        (\<forall>k<length ts. sent_at pa sent (test_message pa kps url (wo_message_size (wk_options wk))) base ts k)))"

lemma sender_lists_messenger [simp]: "sender_lists kps (v\<lparr>pr_messenger := m\<rparr>) = sender_lists kps v"
  by (simp add: sender_lists_def)

lemma proton_table_send:
  assumes "proton_send pa c h d st v = Some (r, d', st', v')"
  shows "\<exists>send. v_send (wrapper_table (proton_wrapper pa)) = Some send \<and> send c h d st (Some v) = (r, d', st', Some v')"
  using assms by (simp add: wrapper_table_def on_world_def proton_wrapper_def)

lemma proton_table_receive:
  assumes "proton_receive pa c h d st v = Some (r, d', st', v')"
  shows "\<exists>receive. v_receive (wrapper_table (proton_wrapper pa)) = Some receive \<and> receive c h d st (Some v) = (r, d', st', Some v')"
  using assms by (simp add: wrapper_table_def on_world_def proton_wrapper_def)

lemma send_keeps_lists:
  assumes "sender_lists kps w" and "plain_query kps" and "proton_send pa c h d st w = Some (VMSL_SUCCESS, d', st', w')"
  shows "sender_lists kps w' \<and> pr_url w' = pr_url w"
  using assms by (auto simp: proton_send_def sender_lists_def run_send_list case_prod_unfold Let_def split: bind_splits if_splits)

context proton_peer begin

lemma sending_sends:
  assumes "amqp_sending pa sent kps url base env wk se ls" and "unat (ws_count (ls_snap ls) + 1) = Suc (unat (ws_count (ls_snap ls)))"
  shows "\<exists>ls'. send_one wk se ls = Some (True, ls') \<and> ls_snap ls' = ls_snap ls \<and> amqp_sending pa sent kps url base env wk se (snap_count ls')"
proof -
  let ?sz = "wo_message_size (wk_options wk)"
  obtain v ts where v: "ls_world ls = Some v" "sender_lists kps v" "pr_url v = url" "length ts = unat (ws_count (ls_snap ls))"
    "list_all valid_time ts" "sent (pr_messenger v) = base @ map (test_message pa kps url ?sz) ts" "plain_query kps" "clock_runs pa"
    "\<forall>k<length ts. sent_at pa sent (test_message pa kps url ?sz) base ts k"
    using assms(1) unfolding amqp_sending_def by blast
  have f: "fixed_ready ?sz (ls_pl ls) (ls_content ls)" "pl_st_load (wk_strategy wk) = Some pl_fixed_load" "wk_vmsl wk = wrapper_table (proton_wrapper pa)" "0 < ?sz"
    using assms(1) by (simp_all add: amqp_sending_def)
  obtain c' pg' where l: "pl_fixed_load (ls_content ls) (ls_pl ls) = Some (?sz, c', pg')" "fixed_ready ?sz pg' c'"
    using fixed.load_ready [OF f(4,1)] by blast
  have b: "content_bytes c' = Some (replicate (unat ?sz) (CHR ''d''))" using l(2) by (simp add: fixed_ready_def content_bytes_def)
  obtain now m1 where now: "pn_gettimeofday pa (pr_messenger v) = (Some now, m1)" "valid_time now" using v(8) unfolding clock_runs_def by blast
  obtain v' where s: "proton_send pa (se_ctxt se) (se_handlers se) c' (ls_status ls) v = Some (VMSL_SUCCESS, c', ls_status ls, v')"
    "sent (pr_messenger v') = sent (pr_messenger v) @ [amqp_message pa kps (pr_url v) (replicate (unat ?sz) (CHR ''d'')) now]"
    using sends_message [OF v(2,7) b now(1)] by blast
  obtain send where t: "v_send (wk_vmsl wk) = Some send"
    "send (se_ctxt se) (se_handlers se) c' (ls_status ls) (Some v) = (VMSL_SUCCESS, c', ls_status ls, Some v')"
    using proton_table_send [OF s(1)] f(3) by auto
  have "sender_lists kps v'" "pr_url v' = url" using send_keeps_lists [OF v(2,7) s(1)] v(3) by auto
  moreover have "sent (pr_messenger v') = base @ map (test_message pa kps url ?sz) (ts @ [now])"
    using s(2) v(3,6) by (simp add: test_message_def)
  moreover have "length (ts @ [now]) = unat (ws_count (ls_snap ls) + 1)" "list_all valid_time (ts @ [now])" using v(4,5) assms(2) now(2) by simp_all
  moreover have "\<forall>k<length (ts @ [now]). sent_at pa sent (test_message pa kps url ?sz) base (ts @ [now]) k"
    by (rule sent_at_snoc [OF v(9,6)]) (simp add: now(1))
  ultimately have "\<exists>v1 ts1. Some v' = Some v1 \<and> sender_lists kps v1 \<and> pr_url v1 = url \<and> length ts1 = unat (ws_count (ls_snap ls) + 1) \<and>
      list_all valid_time ts1 \<and> sent (pr_messenger v1) = base @ map (test_message pa kps url ?sz) ts1 \<and>
      (\<forall>k<length ts1. sent_at pa sent (test_message pa kps url ?sz) base ts1 k)" by blast
  then show ?thesis
    using assms(1) l f t v(1) by (simp add: send_one_def amqp_sending_def snap_count_def vmsl_stat_defs Let_def)
qed

lemma sending_beside:
  assumes "amqp_sending pa sent kps url base env wk se ls" and "same_message ls' ls" and "beside sent (ls_world ls) (ls_world ls')"
  shows "amqp_sending pa sent kps url base env wk se ls'"
proof -
  obtain v where "ls_world ls = Some v" using assms(1) by (auto simp: amqp_sending_def)
  with assms(3) obtain m where "ls_world ls' = Some (v\<lparr>pr_messenger := m\<rparr>)" "sent m = sent (pr_messenger v)"
    by (auto elim: besideE)
  with assms(1,2) \<open>ls_world ls = Some v\<close> show ?thesis by (simp add: amqp_sending_def same_message_def)
qed

end

sublocale proton_peer < amqp_send: counted_iteration naive_sender_iter "amqp_sending pa sent kps url base" for kps url base
proof
  fix env wk se ls n
  assume able: "amqp_sending pa sent kps url base env wk se ls" and n: "ws_count (ls_snap ls) < n"
  obtain ls1 where s: "send_one wk se ls = Some (True, ls1)" "ls_snap ls1 = ls_snap ls" "amqp_sending pa sent kps url base env wk se (snap_count ls1)"
    using sending_sends [OF able unat_add_one_less [OF n]] by blast
  have a: "around sent env se" "report_around sent (w_throughput (wk_writer wk))" using able by (simp_all add: amqp_sending_def)
  let ?ls2 = "snap_now env (snap_count ls1)"
  obtain ls3 where n3: "naive_sample env wk se ?ls2 = Some (True, ls3)" "same_message ls3 ?ls2" "beside sent (ls_world ?ls2) (ls_world ls3)"
    using naive_sample_around [where wk = wk, OF a] by blast
  have "amqp_sending pa sent kps url base env wk se ?ls2" by (rule sending_beside [OF s(3) quiet_steps(8) snap_now_around [OF a(1)]])
  from sending_beside [OF sending_beside [OF this n3(2,3)] quiet_steps(3) throttle_around [OF a(1)]] s n3(1,2)
  show "\<exists>ls'. naive_sender_iter env wk se ls = Some (True, ls') \<and> amqp_sending pa sent kps url base env wk se ls' \<and>
      ws_count (ls_snap ls') = ws_count (ls_snap ls) + 1"
    using quiet_steps(3) [of env wk ls3] quiet_steps(8) [of env "snap_count ls1"] by (simp add: naive_sender_iter_def same_message_def)
qed

section \<open>From the start to the end of a session\<close>

text \<open>A worker whose messaging functions are those of the wrapper, and the options of its connection.\<close>

abbreviation amqp_opt :: "'p proton option wenv \<Rightarrow> msg_direction \<Rightarrow> 'p proton option worker \<Rightarrow> msg_opt" where
  "amqp_opt env dir wk \<equiv> worker_msg_opt_setup env dir (wk_options wk)"

definition amqp_opens :: "('p, 'g) proton_api \<Rightarrow> 'p proton option wenv \<Rightarrow> 'p proton option worker \<Rightarrow> msg_direction \<Rightarrow> 'p proton \<Rightarrow>
    session \<Rightarrow> 'p proton \<Rightarrow> bool" where
  "amqp_opens pa env wk dir w0 se w4 =
    (\<exists>c h w1 w2 w3 q. proton_init pa (amqp_opt env dir wk) (vmslh_new (e_list_new env)) St_New w0 = Some (Some c, h, St_New, w1) \<and>
       proton_start pa c h St_New w1 = Some (VMSL_SUCCESS, St_New, w2) \<and>
       (if dir = MSG_DIRECTION_RECEIVER then proton_subscribe pa c None St_New w2 = Some (VMSL_SUCCESS, St_New, w3) else w3 = w2) \<and>
       worker_create_queue env wk St_New (Some w3) = (Some q, St_New, Some w4) \<and> (\<exists>m. w4 = w3\<lparr>pr_messenger := m\<rparr>) \<and>
       se = \<lparr>se_ctxt = c, se_handlers = h, se_queue = Some q\<rparr>)"

lemma amqp_session_open:
  assumes "amqp_opens pa env wk dir w0 se w4" and "wk_vmsl wk = wrapper_table (proton_wrapper pa)"
  shows "session_open env wk dir St_New (Some w0) = Some (Some se, St_New, Some w4)"
  using assms by (auto simp: amqp_opens_def session_open_def session_subscribe_def wrapper_table_def on_world_def proton_wrapper_def
      vmsl_stat_defs split: if_splits)

lemma amqp_opened_ctxt: "amqp_opens pa env wk dir w0 se w4 \<Longrightarrow> msg_opts (se_ctxt se) = amqp_opt env dir wk"
  by (auto simp: amqp_opens_def proton_init_def msg_ctxt_destroy_def split: prod.splits option.splits bool.splits bind_splits)

lemma amqp_sender_opened:
  assumes "amqp_opens pa env wk MSG_DIRECTION_SENDER w0 se w4" and "pn_alloc pa 16 = None" and "pn_append pa" and "\<And>i. e_list_new env i"
    and "at_most_once (amqp_opt env MSG_DIRECTION_SENDER wk)"
  shows "sender_lists (query_of (amqp_opt env MSG_DIRECTION_SENDER wk)) w4"
proof -
  have "mo_direction (amqp_opt env MSG_DIRECTION_SENDER wk) = MSG_DIRECTION_SENDER" by (simp add: worker_msg_opt_setup_def)
  then show ?thesis
    using assms(1) sender_started [where new = "e_list_new env", OF _ _ assms(2-4) _ assms(5)] by (auto simp: amqp_opens_def)
qed

lemma amqp_receiver_opened:
  assumes "amqp_opens pa env wk MSG_DIRECTION_RECEIVER w0 se w4" and "pn_alloc pa 16 = None" and "pn_append pa" and "\<And>i. e_list_new env i"
  shows "\<exists>finals. (finals = accepts \<or> finals = []) \<and> receiver_lists finals w4"
proof -
  obtain c h w1 w2 w3 m where o: "proton_init pa (amqp_opt env MSG_DIRECTION_RECEIVER wk) (vmslh_new (e_list_new env)) St_New w0 = Some (Some c, h, St_New, w1)"
    "proton_start pa c h St_New w1 = Some (VMSL_SUCCESS, St_New, w2)" "proton_subscribe pa c None St_New w2 = Some (VMSL_SUCCESS, St_New, w3)"
    "w4 = w3\<lparr>pr_messenger := m\<rparr>" using assms(1) unfolding amqp_opens_def by auto
  have "mo_direction (amqp_opt env MSG_DIRECTION_RECEIVER wk) = MSG_DIRECTION_RECEIVER" by (simp add: worker_msg_opt_setup_def)
  note r = receiver_started [where new = "e_list_new env", OF o(1,2) assms(2-4) this]
  obtain m' where "w3 = w2\<lparr>pr_messenger := m'\<rparr>" using subscribe_keeps [OF o(3)] by blast
  with r o(4) show ?thesis by (intro exI [of _ "if at_most_once (amqp_opt env MSG_DIRECTION_RECEIVER wk) then accepts else []"]) auto
qed

text \<open>The end of a session keeps what the stop, the waits and the release of the messenger keep.\<close>

definition ending_keeps :: "('p, 'g) proton_api \<Rightarrow> ('p \<Rightarrow> 'v) \<Rightarrow> bool" where
  "ending_keeps pa view = ((\<forall>m. view (snd (pn_messenger_stop pa m)) = view m) \<and> (\<forall>k m. view (pn_usleep pa k m) = view m) \<and>
     (\<forall>m. view (pn_messenger_free pa m) = view m))"

lemma stop_wait_keeps: "ending_keeps pa view \<Longrightarrow> view (stop_wait pa n m) = view m"
  by (induction n arbitrary: m) (simp_all add: ending_keeps_def)

lemma amqp_close:
  assumes "ending_keeps pa view" and "wk_vmsl wk = wrapper_table (proton_wrapper pa)"
  shows "\<exists>v'. session_close env wk se st (Some v) = Some (st, Some v') \<and> view (pr_messenger v') = view (pr_messenger v)"
  using assms stop_wait_keeps [OF assms(1)]
  by (cases "pn_messenger_stop pa (pr_messenger v)")
    (auto simp: session_close_def wrapper_table_def on_world_def proton_wrapper_def proton_stop_def proton_destroy_def
      proton_param_cleanup_def ending_keeps_def dest: spec [of _ "pr_messenger v"])

lemma amqp_end:
  assumes "ending_keeps pa view" and "wk_vmsl wk = wrapper_table (proton_wrapper pa)" and "around view env se"
    and "\<And>st w. \<exists>st' w'. fin st w = Some (st', w') \<and> beside view w w'" and "ls_world ls = Some v"
  shows "\<exists>st' v'. end_session env fin wk se ls = Inr (WORKER_SUCCESS, final_throughput env (ls_snap ls), st', ls_pl ls, Some v') \<and>
    view (pr_messenger v') = view (pr_messenger v)"
proof -
  obtain v1 where c: "session_close env wk se (ls_status ls) (Some v) = Some (ls_status ls, Some v1)" "view (pr_messenger v1) = view (pr_messenger v)"
    using amqp_close [OF assms(1,2)] by blast
  obtain st2 w2 where f: "fin (ls_status ls) (Some v1) = Some (st2, w2)" "beside view (Some v1) w2" using assms(4) by blast
  have "beside view w2 (worker_queue_destroy (e_ipc env) (se_queue se) w2)" using assms(3) by (simp add: around_def)
  from beside_trans [OF f(2) this] obtain m where "worker_queue_destroy (e_ipc env) (se_queue se) w2 = Some (v1\<lparr>pr_messenger := m\<rparr>)"
    "view m = view (pr_messenger v1)" by (rule besideE)
  with c f(1) assms(5) show ?thesis by (simp add: end_session_def)
qed


lemma fixed_sender_start:
  assumes "wk_strategy wk = pl_strategy_assign rnd ps False" and "0 < wo_message_size (wk_options wk)"
    and "e_alloc env (unat (wo_message_size (wk_options wk))) = None"
    and "session_open env wk MSG_DIRECTION_SENDER St_New w = Some (Some se, St_New, w')"
  shows "\<exists>c' pg'. sender_start env iter with_eta fin fuel wk snap St_New pg w
      = run_loop env (iter env wk se) with_eta fin fuel wk se snap c' St_New pg' w' \<and>
    fixed_ready (wo_message_size (wk_options wk)) pg' c'"
proof -
  have "gru_status_success St_New" by (simp add: status_simps)
  from fixed.init_ready [where al = "e_alloc env", OF assms(2) this assms(3)] obtain c' pg' where
    "pl_fixed_init (e_alloc env) (wo_message_size (wk_options wk)) St_New zero_content pg = Some (True, St_New, c', pg')"
    "fixed_ready (wo_message_size (wk_options wk)) pg' c'" by blast
  with assms(1,4) show ?thesis
    by (intro exI [of _ c'] exI [of _ pg']) (simp add: sender_start_def pl_strategy_assign_def pl_fixed_assign_def)
qed

text \<open>What a test of the sender over AMQP needs.\<close>

definition amqp_sender_ready :: "('p, 'g) proton_api \<Rightarrow> ('p \<Rightarrow> 'g list) \<Rightarrow> 'p proton option wenv \<Rightarrow> 'p proton option worker \<Rightarrow> u64 \<Rightarrow>
    session \<Rightarrow> bool" where
  "amqp_sender_ready pa sent env wk n se = (clock_runs pa \<and> pn_alloc pa 16 = None \<and> pn_append pa \<and> (\<forall>i. e_list_new env i) \<and>
     wk_vmsl wk = wrapper_table (proton_wrapper pa) \<and> at_most_once (amqp_opt env MSG_DIRECTION_SENDER wk) \<and>
     plain_query (query_of (amqp_opt env MSG_DIRECTION_SENDER wk)) \<and> counted_test env wk n \<and>
     (\<exists>rnd ps. wk_strategy wk = pl_strategy_assign rnd ps False) \<and> 0 < wo_message_size (wk_options wk) \<and>
     e_alloc env (unat (wo_message_size (wk_options wk))) = None \<and> around sent env se \<and>
     report_around sent (w_throughput (wk_writer wk)))"

context proton_peer begin

lemma amqp_sender_runs:
  assumes "amqp_sender_ready pa sent env wk n se" and "amqp_opens pa env wk MSG_DIRECTION_SENDER w0 se w1" and "unat n < fuel"
  shows "\<exists>snap st pg' w2 ts. naive_sender_start env fuel wk zero_snapshot St_New pg (Some w0) = Inr (WORKER_SUCCESS, snap, st, pg', Some w2) \<and>
    ws_count snap = n \<and> length ts = unat n \<and> list_all valid_time ts \<and>
    sent (pr_messenger w2) = sent (pr_messenger w1) @
      map (test_message pa (query_of (amqp_opt env MSG_DIRECTION_SENDER wk)) (pr_url w1) (wo_message_size (wk_options wk))) ts \<and>
    (\<forall>k<length ts. sent_at pa sent (test_message pa (query_of (amqp_opt env MSG_DIRECTION_SENDER wk)) (pr_url w1) (wo_message_size (wk_options wk)))
      (sent (pr_messenger w1)) ts k)"
proof -
  let ?kps = "query_of (amqp_opt env MSG_DIRECTION_SENDER wk)" and ?fin = "finalize_table (w_throughput (wk_writer wk))"
    and ?able = "amqp_sending pa sent (query_of (amqp_opt env MSG_DIRECTION_SENDER wk)) (pr_url w1) (sent (pr_messenger w1)) env wk se"
  obtain rnd ps where st: "wk_strategy wk = pl_strategy_assign rnd ps False" using assms(1) by (auto simp: amqp_sender_ready_def)
  have r: "clock_runs pa" "wk_vmsl wk = wrapper_table (proton_wrapper pa)" "plain_query ?kps" "around sent env se"
    "report_around sent (w_throughput (wk_writer wk))" "0 < wo_message_size (wk_options wk)"
    "e_alloc env (unat (wo_message_size (wk_options wk))) = None" "counted_test env wk n"
    using assms(1) by (simp_all add: amqp_sender_ready_def)
  have lists: "sender_lists ?kps w1" by (rule amqp_sender_opened [OF assms(2)]) (use assms(1) in \<open>simp_all add: amqp_sender_ready_def\<close>)
  obtain c pg1 where s: "naive_sender_start env fuel wk zero_snapshot St_New pg (Some w0)
      = run_loop env (naive_sender_iter env wk se) False ?fin fuel wk se zero_snapshot c St_New pg1 (Some w1)"
    "fixed_ready (wo_message_size (wk_options wk)) pg1 c"
    using fixed_sender_start [OF st r(6,7) amqp_session_open [OF assms(2) r(2)]] unfolding naive_sender_start_def by blast
  obtain now w2 where now: "e_now env (Some w1) = (now, w2)" by fastforce
  have "beside sent (Some w1) w2" using r(4) now by (auto simp: around_def dest: spec [of _ "Some w1"])
  then obtain m where m: "w2 = Some (w1\<lparr>pr_messenger := m\<rparr>)" "sent m = sent (pr_messenger w1)" by (rule besideE)
  have able: "?able \<lparr>ls_snap = start_snapshot False now zero_snapshot, ls_last_count = 0, ls_last_ts = now, ls_round = 0, ls_content = c,
      ls_pl = pg1, ls_status = St_New, ls_world = w2\<rparr>"
    using r lists s(2) m st by (simp add: amqp_sending_def start_snapshot_def zero_snapshot_def pl_strategy_assign_def pl_fixed_assign_def)
  obtain ls where l: "?able ls" "ws_count (ls_snap ls) = n"
    "run_loop env (naive_sender_iter env wk se) False ?fin fuel wk se zero_snapshot c St_New pg1 (Some w1) = end_session env ?fin wk se ls"
    using amqp_send.run_reaches [OF _ _ _ assms(3) _ now able] r(8) by (auto simp: counted_test_def zero_snapshot_def)
  obtain v ts where v: "ls_world ls = Some v" "length ts = unat n" "list_all valid_time ts"
    "sent (pr_messenger v) = sent (pr_messenger w1) @ map (test_message pa ?kps (pr_url w1) (wo_message_size (wk_options wk))) ts"
    "\<forall>k<length ts. sent_at pa sent (test_message pa ?kps (pr_url w1) (wo_message_size (wk_options wk))) (sent (pr_messenger w1)) ts k"
    using l(1,2) unfolding amqp_sending_def by auto
  have "ending_keeps pa sent" by (simp add: ending_keeps_def stop_keeps)
  from amqp_end [where fin = ?fin, OF this r(2,4) finalize_around [OF r(5)] v(1)] obtain st' v' where
    "end_session env ?fin wk se ls = Inr (WORKER_SUCCESS, final_throughput env (ls_snap ls), st', ls_pl ls, Some v')"
    "sent (pr_messenger v') = sent (pr_messenger v)" by blast
  with s(1) l(2,3) v(2-5) show ?thesis by (auto simp: final_throughput_def)
qed

end

section \<open>The loop of the receiver\<close>

text \<open>The reports of the process are beside the messenger: its functions leave the log of latencies alone.\<close>

locale proton_report = proton_peer +
  fixes log :: "'a \<Rightarrow> stat_latency list"
  assumes log_keeps: "log (snd (pn_messenger_get pa g m)) = log m" "log (snd (pn_messenger_recv pa n m)) = log m"
      "log (pn_accept pa t b m) = log m" "log (pn_settle pa t b m) = log m"
    and log_ends: "ending_keeps pa log"

text \<open>A latency report that appends the record to the log.\<close>

definition report_logs :: "('p \<Rightarrow> 'v) \<Rightarrow> ('p \<Rightarrow> stat_latency list) \<Rightarrow> ('p proton option, stat_latency) writer_table \<Rightarrow> bool" where
  "report_logs view log t = ((\<exists>write. wr_write t = Some write \<and>
       (\<forall>d st v. \<exists>st' m. write d st (Some v) = (True, st', Some (v\<lparr>pr_messenger := m\<rparr>)) \<and> view m = view (pr_messenger v) \<and>
          log m = log (pr_messenger v) @ [d])) \<and>
     (\<exists>finalize. wr_finalize t = Some finalize \<and> (\<forall>st w. beside log w (snd (snd (finalize st w))))))"

text \<open>The latency of a message: from its creation time to the time it was received.\<close>

definition latency_of :: "('p, 'g) proton_api \<Rightarrow> stat_latency \<Rightarrow> 'g \<Rightarrow> bool" where
  "latency_of pa d g = (\<exists>now. d = \<lparr>sl_duration = \<lparr>dur_start = pn_time_from_milli pa (pn_get_creation_time pa g), dur_end = now\<rparr>,
     sl_elapsed = timersub now (pn_time_from_milli pa (pn_get_creation_time pa g))\<rparr>)"

lemma calc_latency_of: "latency_of pa (calc_latency out (pn_time_from_milli pa (pn_get_creation_time pa g)) now) g"
  by (cases out) (simp add: latency_of_def calc_latency_def)

definition timed :: "('p, 'g) proton_api \<Rightarrow> 'g \<Rightarrow> bool" where
  "timed pa g = (0 < pn_get_creation_time pa g)"

text \<open>
  The time \<open>t\<close> at which the \<open>k\<close>-th of the messages \<open>gs\<close> is received, after the records of those
  before it: the clock of the worker, read in the state in which the receive of that
  message returns.
\<close>

definition received_at :: "('p, 'g) proton_api \<Rightarrow> ('p \<Rightarrow> 'g list) \<Rightarrow> ('p \<Rightarrow> 'g list) \<Rightarrow> ('p \<Rightarrow> stat_latency list) \<Rightarrow>
    'p proton option wenv \<Rightarrow> session \<Rightarrow> 'g list \<Rightarrow> stat_latency list \<Rightarrow> nat \<Rightarrow> timestamp \<Rightarrow> bool" where
  "received_at pa buffer remote log env se gs records k t = (\<exists>r st v r' st' v'.
     proton_receive pa (se_ctxt se) (se_handlers se) r st v = Some (VMSL_SUCCESS, r', st', v') \<and>
     buffer (pr_messenger v) @ remote (pr_messenger v) = drop k gs \<and> log (pr_messenger v) = records \<and>
     buffer (pr_messenger v') @ remote (pr_messenger v') = drop (Suc k) gs \<and> log (pr_messenger v') = records \<and>
     t = fst (e_now env (Some v')))"

lemma received_atI:
  assumes "proton_receive pa (se_ctxt se) (se_handlers se) r st v = Some (VMSL_SUCCESS, r', st', v')"
    and "buffer (pr_messenger v) @ remote (pr_messenger v) = drop k gs" and "log (pr_messenger v) = records"
    and "buffer (pr_messenger v') @ remote (pr_messenger v') = drop (Suc k) gs" and "log (pr_messenger v') = records"
  shows "received_at pa buffer remote log env se gs records k (fst (e_now env (Some v')))"
  unfolding received_at_def using assms by blast

definition ends_at_receipt :: "('p, 'g) proton_api \<Rightarrow> ('p \<Rightarrow> 'g list) \<Rightarrow> ('p \<Rightarrow> 'g list) \<Rightarrow> ('p \<Rightarrow> stat_latency list) \<Rightarrow>
    'p proton option wenv \<Rightarrow> session \<Rightarrow> 'g list \<Rightarrow> stat_latency list \<Rightarrow> stat_latency list \<Rightarrow> bool" where
  "ends_at_receipt pa buffer remote log env se gs base ds =
    (\<forall>k<length ds. received_at pa buffer remote log env se gs (base @ take k ds) k (dur_end (sl_duration (ds ! k))))"

lemma ends_at_receipt_Nil [simp]: "ends_at_receipt pa buffer remote log env se gs base []"
  by (simp add: ends_at_receipt_def)

lemma ends_at_receipt_snoc:
  assumes "ends_at_receipt pa buffer remote log env se gs base ds"
    and "received_at pa buffer remote log env se gs (base @ ds) (length ds) (dur_end (sl_duration d))"
  shows "ends_at_receipt pa buffer remote log env se gs base (ds @ [d])"
  using assms by (simp add: ends_at_receipt_def less_Suc_eq nth_append)

definition amqp_receiving :: "('p, 'g) proton_api \<Rightarrow> ('p \<Rightarrow> 'g list) \<Rightarrow> ('p \<Rightarrow> 'g list) \<Rightarrow> ('p \<Rightarrow> stat_latency list) \<Rightarrow> 'g list \<Rightarrow>
    stat_latency list \<Rightarrow> 'p proton option wenv \<Rightarrow> 'p proton option worker \<Rightarrow> session \<Rightarrow> 'p proton option loop_state \<Rightarrow> bool" where
  "amqp_receiving pa buffer remote log gs base env wk se ls =
    (wk_vmsl wk = wrapper_table (proton_wrapper pa) \<and> \<not> plain_stats (se_ctxt se) \<and> list_all (timed pa) gs \<and>
     wo_duration (wk_options wk) = Message_Count (word_of_nat (length gs)) \<and> length gs < 2 ^ 64 \<and>
     around (\<lambda>m. (buffer m, remote m, log m)) env se \<and> report_around (\<lambda>m. (buffer m, remote m, log m)) (w_throughput (wk_writer wk)) \<and>
     report_logs (\<lambda>m. (buffer m, remote m)) log (w_latency (wk_writer wk)) \<and> room_for 0 (ls_content ls) \<and>
     (\<exists>v finals ds. ls_world ls = Some v \<and> receiver_lists finals v \<and> (finals = accepts \<or> finals = []) \<and>
        buffer (pr_messenger v) @ remote (pr_messenger v) = drop (unat (ws_count (ls_snap ls))) gs \<and>
        log (pr_messenger v) = base @ ds \<and> list_all2 (latency_of pa) ds (take (unat (ws_count (ls_snap ls))) gs) \<and>
        ends_at_receipt pa buffer remote log env se gs base ds))"

context proton_report begin

lemma settle_batch_next:
  assumes "receiver_lists finals w" and "finals = accepts \<or> finals = []"
  shows "\<exists>w'. proton_settle_batch pa g w = Some w' \<and> receiver_lists finals w' \<and> buffer (pr_messenger w') = buffer (pr_messenger w) \<and>
    remote (pr_messenger w') = remote (pr_messenger w) \<and> log (pr_messenger w') = log (pr_messenger w)"
  using assms(2)
proof
  assume f: "finals = accepts"
  show ?thesis using assms(1) settle_batch_accepts [of w pa g]
    by (auto simp: f Let_def proton_accept_def proton_do_accept_def settle_keeps accept_keeps settle_remote log_keeps)
next
  assume f: "finals = []"
  show ?thesis using assms(1) settle_batch_nothing [of w pa g] by (auto simp: f)
qed

lemma take_next:
  assumes "receiver_lists finals w" and "finals = accepts \<or> finals = []" and "buffer (pr_messenger w) = g # gs"
    and "\<not> plain_stats c" and "room_for 0 r" and "timed pa g"
  shows "\<exists>r' w'. proton_take pa c r st w = Some (VMSL_SUCCESS, r', st, w') \<and>
    mc_created r' = pn_time_from_milli pa (pn_get_creation_time pa g) \<and> room_for 0 r' \<and> receiver_lists finals w' \<and>
    buffer (pr_messenger w') = gs \<and> remote (pr_messenger w') = remote (pr_messenger w) \<and> log (pr_messenger w') = log (pr_messenger w)"
proof -
  let ?m = "pr_messenger w"
  obtain d where d: "mc_data r = Some d" "length d = unat (mc_capacity r)" using assms(5) by (auto simp: room_for_def)
  obtain m1 where m1: "pn_messenger_get pa (pn_message pa) ?m = (g, m1)" "buffer m1 = gs" "pn_messenger_errno pa m1 = 0"
    using get_first [OF assms(3)] by blast
  then have k: "remote m1 = remote ?m" "log m1 = log ?m" using get_keeps [of "pn_message pa" ?m] log_keeps(1) [of "pn_message pa" ?m] by simp_all
  obtain bs n where f: "pn_body_format pa g (mc_capacity r) = (bs, n)" by fastforce
  then have "length bs \<le> length d" using format_fits [of g "mc_capacity r"] d(2) by simp
  then obtain d' where d': "overlay bs d = Some d'" "length d' = length d" by (auto simp: overlay_def)
  let ?r1 = "r\<lparr>mc_data := Some d', mc_size := n\<rparr>"
  have g: "proton_do_receive pa (pn_message pa) r ?m = Some (0, g, ?r1, m1)"
    using m1 f d(1) d'(1) by (simp add: proton_do_receive_def failed_def)
  have "receiver_lists finals (w\<lparr>pr_messenger := m1\<rparr>)" using assms(1) by simp
  from settle_batch_next [OF this assms(2), of g] obtain w' where
    "proton_settle_batch pa g (w\<lparr>pr_messenger := m1\<rparr>) = Some w'" "receiver_lists finals w'" "buffer (pr_messenger w') = gs"
    "remote (pr_messenger w') = remote ?m" "log (pr_messenger w') = log ?m" using m1(2) k by auto
  with g assms(1,4,6) d(2) d'(2) show ?thesis
    by (simp add: proton_take_def receiver_lists_def plain_stats_def timed_def Let_def room_for_def)
qed

lemma receives_next:
  assumes "receiver_lists finals w" and "finals = accepts \<or> finals = []" and "buffer (pr_messenger w) @ remote (pr_messenger w) = g # gs"
    and "\<not> plain_stats c" and "room_for 0 r" and "timed pa g"
  shows "\<exists>r' w'. proton_receive pa c h r st w = Some (VMSL_SUCCESS, r', st, w') \<and>
    mc_created r' = pn_time_from_milli pa (pn_get_creation_time pa g) \<and> room_for 0 r' \<and> receiver_lists finals w' \<and>
    buffer (pr_messenger w') @ remote (pr_messenger w') = gs \<and> log (pr_messenger w') = log (pr_messenger w)"
proof (cases "buffer (pr_messenger w)")
  case Nil
  let ?m = "pr_messenger w"
  obtain m1 where m1: "pn_messenger_recv pa 1024 ?m = (0, m1)" "buffer m1 \<noteq> []" "buffer m1 @ remote m1 = g # gs"
    using recv_fetches [OF Nil] assms(3) Nil by force
  then obtain gs1 where b: "buffer m1 = g # gs1" "gs1 @ remote m1 = gs" by (cases "buffer m1") auto
  have l: "log m1 = log ?m" using log_keeps(2) [of 1024 ?m] m1(1) by simp
  let ?w = "w\<lparr>pr_messenger := m1, pr_nmsgs := int (length (buffer m1)), pr_cur := 0, pr_last_ack := 0\<rparr>"
  have "proton_receive pa c h r st w = proton_take pa c r st ?w"
    using Nil m1(1) b(1) by (simp add: proton_receive_def proton_receive_local_def incoming_length vmsl_stat_defs Let_def)
  moreover have "receiver_lists finals ?w" "buffer (pr_messenger ?w) = g # gs1" using assms(1) b(1) by simp_all
  ultimately show ?thesis using take_next [OF _ assms(2) _ assms(4-6), of ?w gs1 st] b(2) l by auto
next
  case (Cons x xs)
  then have x: "buffer (pr_messenger w) = g # xs" "xs @ remote (pr_messenger w) = gs" using assms(3) by simp_all
  let ?w = "w\<lparr>pr_nmsgs := int (length (g # xs))\<rparr>"
  have "receiver_lists finals ?w" "buffer (pr_messenger ?w) = g # xs" using assms(1) x(1) by simp_all
  from take_next [OF this(1) assms(2) this(2) assms(4-6), of st] x(2) show ?thesis
    by (auto simp: receive_nonempty [OF x(1)])
qed

end

context proton_report begin

text \<open>One message received: the state before its latency is written.\<close>

lemma receive_one_next:
  assumes "wk_vmsl wk = wrapper_table (proton_wrapper pa)" and "\<not> plain_stats (se_ctxt se)" and "around (\<lambda>m. (buffer m, remote m, log m)) env se"
    and "ls_world ls = Some v" and "receiver_lists finals v" and "finals = accepts \<or> finals = []"
    and "buffer (pr_messenger v) @ remote (pr_messenger v) = g # gs" and "room_for 0 (ls_content ls)" and "timed pa g"
  shows "\<exists>ls' v'. receive_one env wk se ls = Some (Some True, ls') \<and> ls_world ls' = Some v' \<and> receiver_lists finals v' \<and>
    buffer (pr_messenger v') @ remote (pr_messenger v') = gs \<and> log (pr_messenger v') = log (pr_messenger v) \<and> room_for 0 (ls_content ls') \<and>
    mc_created (ls_content ls') = pn_time_from_milli pa (pn_get_creation_time pa g) \<and> ws_count (ls_snap ls') = ws_count (ls_snap ls) + 1 \<and>
    (\<forall>k all. drop k all = g # gs \<longrightarrow> received_at pa buffer remote log env se all (log (pr_messenger v)) k (ws_now (ls_snap ls')))"
proof -
  obtain r' v1 where r: "proton_receive pa (se_ctxt se) (se_handlers se) (ls_content ls) (ls_status ls) v = Some (VMSL_SUCCESS, r', ls_status ls, v1)"
    "mc_created r' = pn_time_from_milli pa (pn_get_creation_time pa g)" "room_for 0 r'" "receiver_lists finals v1"
    "buffer (pr_messenger v1) @ remote (pr_messenger v1) = gs" "log (pr_messenger v1) = log (pr_messenger v)"
    using receives_next [OF assms(5-7,2,8,9), of "se_handlers se" "ls_status ls"] by auto
  obtain receive where t: "v_receive (wk_vmsl wk) = Some receive"
    "receive (se_ctxt se) (se_handlers se) (ls_content ls) (ls_status ls) (Some v) = (VMSL_SUCCESS, r', ls_status ls, Some v1)"
    using proton_table_receive [OF r(1)] assms(1) by auto
  let ?ls = "ls\<lparr>ls_content := r', ls_world := Some v1\<rparr>"
  have "beside (\<lambda>m. (buffer m, remote m, log m)) (Some v1) (ls_world (snap_now env ?ls))" using snap_now_around [OF assms(3), of ?ls] by simp
  then obtain m where "ls_world (snap_now env ?ls) = Some (v1\<lparr>pr_messenger := m\<rparr>)"
    "(buffer m, remote m, log m) = (buffer (pr_messenger v1), remote (pr_messenger v1), log (pr_messenger v1))" by (rule besideE)
  moreover have "receive_one env wk se ls = Some (Some True, snap_count (snap_now env ?ls))"
    using t assms(4) by (simp add: receive_one_def vmsl_stat_defs Let_def)
  moreover have "same_message (snap_now env ?ls) ?ls" by simp
  moreover have now: "ws_now (ls_snap (snap_count (snap_now env ?ls))) = fst (e_now env (Some v1))"
    by (simp add: snap_count_def snap_now_def split: prod.splits)
  have "received_at pa buffer remote log env se all (log (pr_messenger v)) k (ws_now (ls_snap (snap_count (snap_now env ?ls))))"
    if "drop k all = g # gs" for k all
  proof -
    have "drop (Suc k) all = gs" using that by (metis drop_Suc list.sel(3) tl_drop)
    then show ?thesis unfolding now by (intro received_atI [OF r(1)]) (simp_all add: r(5,6) assms(7) that)
  qed
  ultimately show ?thesis using r(2-6) by (intro exI [of _ "snap_count (snap_now env ?ls)"]) (auto simp: same_message_def snap_count_def)
qed

lemma receiving_beside:
  assumes "amqp_receiving pa buffer remote log gs base env wk se ls" and "same_message ls' ls"
    and "beside (\<lambda>m. (buffer m, remote m, log m)) (ls_world ls) (ls_world ls')"
  shows "amqp_receiving pa buffer remote log gs base env wk se ls'"
proof -
  obtain v where v: "ls_world ls = Some v" using assms(1) by (auto simp: amqp_receiving_def)
  with assms(3) obtain m where "ls_world ls' = Some (v\<lparr>pr_messenger := m\<rparr>)"
    "(buffer m, remote m, log m) = (buffer (pr_messenger v), remote (pr_messenger v), log (pr_messenger v))" by (auto elim: besideE)
  with assms(1,2) v show ?thesis by (simp add: amqp_receiving_def same_message_def)
qed

text \<open>One message received and its latency written.\<close>

lemma receiving_records:
  assumes "amqp_receiving pa buffer remote log gs base env wk se ls" and "ws_count (ls_snap ls) < word_of_nat (length gs)"
  shows "\<exists>ls1 wr st w2. receive_one env wk se ls = Some (Some True, ls1) \<and> wr_write (w_latency (wk_writer wk)) = Some wr \<and>
    wr (ws_latency (ls_snap (snap_latency ls1))) (ls_status (snap_latency ls1)) (ls_world (snap_latency ls1)) = (True, st, w2) \<and>
    amqp_receiving pa buffer remote log gs base env wk se ((snap_latency ls1)\<lparr>ls_status := st, ls_world := w2\<rparr>) \<and>
    ws_count (ls_snap ls1) = ws_count (ls_snap ls) + 1"
proof -
  let ?k = "unat (ws_count (ls_snap ls))"
  note a = assms(1) [unfolded amqp_receiving_def]
  have u: "unat (ws_count (ls_snap ls) + 1) = Suc ?k" by (rule unat_add_one_less [OF assms(2)])
  have k: "?k < length gs" using assms(2) a by (simp add: word_less_nat_alt unsigned_of_nat take_bit_nat_eq_self)
  obtain v finals ds where v: "ls_world ls = Some v" "receiver_lists finals v" "finals = accepts \<or> finals = []"
    "buffer (pr_messenger v) @ remote (pr_messenger v) = gs ! ?k # drop (Suc ?k) gs" "log (pr_messenger v) = base @ ds"
    "list_all2 (latency_of pa) ds (take ?k gs)" "ends_at_receipt pa buffer remote log env se gs base ds"
    using a Cons_nth_drop_Suc [OF k] by auto
  have t: "timed pa (gs ! ?k)" using a k by (simp add: list_all_length)
  obtain ls1 v1 where r: "receive_one env wk se ls = Some (Some True, ls1)" "ls_world ls1 = Some v1" "receiver_lists finals v1"
    "buffer (pr_messenger v1) @ remote (pr_messenger v1) = drop (Suc ?k) gs" "log (pr_messenger v1) = log (pr_messenger v)"
    "room_for 0 (ls_content ls1)" "mc_created (ls_content ls1) = pn_time_from_milli pa (pn_get_creation_time pa (gs ! ?k))"
    "ws_count (ls_snap ls1) = ws_count (ls_snap ls) + 1"
    "\<forall>k all. drop k all = gs ! ?k # drop (Suc ?k) gs \<longrightarrow> received_at pa buffer remote log env se all (log (pr_messenger v)) k (ws_now (ls_snap ls1))"
    using receive_one_next [OF _ _ _ v(1-4) _ t] a by blast
  let ?d = "ws_latency (ls_snap (snap_latency ls1))"
  have d: "latency_of pa ?d (gs ! ?k)" using calc_latency_of r(7) by (simp add: snap_latency_def Let_def)
  have "length ds = ?k" using v(6) k by (simp add: list_all2_lengthD)
  moreover have "dur_end (sl_duration ?d) = ws_now (ls_snap ls1)" by (simp add: snap_latency_def calc_latency_def Let_def)
  ultimately have e: "ends_at_receipt pa buffer remote log env se gs base (ds @ [?d])"
    using ends_at_receipt_snoc [OF v(7)] r(9) [rule_format, of ?k gs] Cons_nth_drop_Suc [OF k] v(5) by simp
  have "report_logs (\<lambda>m. (buffer m, remote m)) log (w_latency (wk_writer wk))" using a by simp
  then obtain wr where w: "wr_write (w_latency (wk_writer wk)) = Some wr"
    "\<And>d st v. \<exists>st' m. wr d st (Some v) = (True, st', Some (v\<lparr>pr_messenger := m\<rparr>)) \<and>
      (buffer m, remote m) = (buffer (pr_messenger v), remote (pr_messenger v)) \<and> log m = log (pr_messenger v) @ [d]"
    unfolding report_logs_def by blast
  from w(2) [of ?d "ls_status ls1" v1] obtain st m where m: "wr ?d (ls_status ls1) (Some v1) = (True, st, Some (v1\<lparr>pr_messenger := m\<rparr>))"
    "buffer m = buffer (pr_messenger v1)" "remote m = remote (pr_messenger v1)" "log m = log (pr_messenger v1) @ [?d]" by auto
  let ?w2 = "v1\<lparr>pr_messenger := m\<rparr>"
  have "list_all2 (latency_of pa) (ds @ [?d]) (take (Suc ?k) gs)" using v(6) d by (simp add: take_Suc_conv_app_nth [OF k] list_all2_appendI)
  with v(3,5) r(3-5) m(2-4) e have ex: "\<exists>v2 finals ds. Some ?w2 = Some v2 \<and> receiver_lists finals v2 \<and> (finals = accepts \<or> finals = []) \<and>
      buffer (pr_messenger v2) @ remote (pr_messenger v2) = drop (Suc ?k) gs \<and> log (pr_messenger v2) = base @ ds \<and>
      list_all2 (latency_of pa) ds (take (Suc ?k) gs) \<and> ends_at_receipt pa buffer remote log env se gs base ds"
    by (intro exI [of _ ?w2] exI [of _ finals] exI [of _ "ds @ [?d]"]) simp
  have s: "ls_status (snap_latency ls1) = ls_status ls1" "ls_world (snap_latency ls1) = Some v1" "ls_content (snap_latency ls1) = ls_content ls1"
    "ws_count (ls_snap (snap_latency ls1)) = ws_count (ls_snap ls) + 1" using r(2,8) by (simp_all add: snap_latency_def Let_def)
  have "amqp_receiving pa buffer remote log gs base env wk se ((snap_latency ls1)\<lparr>ls_status := st, ls_world := Some ?w2\<rparr>)"
    unfolding amqp_receiving_def using a ex r(6) by (simp add: s u)
  with r(1,8) w(1) m(1) s(1,2) show ?thesis by auto
qed

end

sublocale proton_report < amqp_receive: counted_iteration naive_receiver_iter "amqp_receiving pa buffer remote log gs base" for gs base
proof
  fix env wk se ls n
  assume able: "amqp_receiving pa buffer remote log gs base env wk se ls" and d: "wo_duration (wk_options wk) = Message_Count n"
    and n: "ws_count (ls_snap ls) < n"
  have "n = word_of_nat (length gs)" using able d by (simp add: amqp_receiving_def)
  with receiving_records [OF able] n obtain ls1 wr st w2 where r: "receive_one env wk se ls = Some (Some True, ls1)"
    "wr_write (w_latency (wk_writer wk)) = Some wr"
    "wr (ws_latency (ls_snap (snap_latency ls1))) (ls_status (snap_latency ls1)) (ls_world (snap_latency ls1)) = (True, st, w2)"
    "amqp_receiving pa buffer remote log gs base env wk se ((snap_latency ls1)\<lparr>ls_status := st, ls_world := w2\<rparr>)"
    "ws_count (ls_snap ls1) = ws_count (ls_snap ls) + 1" by blast
  let ?ls2 = "(snap_latency ls1)\<lparr>ls_status := st, ls_world := w2\<rparr>"
  obtain ls3 where s: "naive_sample env wk se ?ls2 = Some (True, ls3)" "same_message ls3 ?ls2"
    "beside (\<lambda>m. (buffer m, remote m, log m)) (ls_world ?ls2) (ls_world ls3)"
    using naive_sample_around [of "\<lambda>m. (buffer m, remote m, log m)" env se wk ?ls2] able unfolding amqp_receiving_def by blast
  have "amqp_receiving pa buffer remote log gs base env wk se ls3" by (rule receiving_beside [OF r(4) s(2,3)])
  with r s show "\<exists>ls'. naive_receiver_iter env wk se ls = Some (True, ls') \<and> amqp_receiving pa buffer remote log gs base env wk se ls' \<and>
      ws_count (ls_snap ls') = ws_count (ls_snap ls) + 1"
    by (simp add: naive_receiver_iter_def same_message_def Let_def) (simp add: snap_latency_def Let_def)
qed

text \<open>Leaving more alone is leaving less alone.\<close>

lemma beside_weaken:
  assumes "beside view w w'" and "\<And>m m'. view m = view m' \<Longrightarrow> view' m = view' m'"
  shows "beside view' w w'"
  unfolding beside_def
proof (intro allI impI)
  fix v
  assume "w = Some v"
  with assms(1) obtain m where m: "w' = Some (v\<lparr>pr_messenger := m\<rparr>)" "view m = view (pr_messenger v)" by (auto simp: beside_def)
  then show "\<exists>m. w' = Some (v\<lparr>pr_messenger := m\<rparr>) \<and> view' m = view' (pr_messenger v)" using assms(2) [OF m(2)] by blast
qed

lemma around_weaken:
  assumes "around view env se" and "\<And>m m'. view m = view m' \<Longrightarrow> view' m = view' m'"
  shows "around view' env se"
  using assms(1) beside_weaken [of view _ _ view', OF _ assms(2)] unfolding around_def by blast

lemma report_around_weaken:
  assumes "report_around view t" and "\<And>m m'. view m = view m' \<Longrightarrow> view' m = view' m'"
  shows "report_around view' t"
  using assms(1) beside_weaken [of view _ _ view', OF _ assms(2)] unfolding report_around_def by blast

text \<open>What a test of the receiver over AMQP needs; \<open>gs\<close> are the messages it waits for.\<close>

definition amqp_receiver_ready :: "('p, 'g) proton_api \<Rightarrow> ('p \<Rightarrow> 'g list) \<Rightarrow> ('p \<Rightarrow> 'g list) \<Rightarrow> ('p \<Rightarrow> stat_latency list) \<Rightarrow>
    'p proton option wenv \<Rightarrow> 'p proton option worker \<Rightarrow> u64 \<Rightarrow> session \<Rightarrow> bool" where
  "amqp_receiver_ready pa buffer remote log env wk n se = (pn_alloc pa 16 = None \<and> pn_append pa \<and> (\<forall>i. e_list_new env i) \<and>
     wk_vmsl wk = wrapper_table (proton_wrapper pa) \<and> counted_test env wk n \<and>
     e_alloc env (unat (wo_message_size (wk_options wk))) = None \<and> around (\<lambda>m. (buffer m, remote m, log m)) env se \<and>
     report_around (\<lambda>m. (buffer m, remote m, log m)) (w_throughput (wk_writer wk)) \<and>
     report_logs (\<lambda>m. (buffer m, remote m)) log (w_latency (wk_writer wk)))"

lemma receiver_finals:
  assumes "report_logs view log t" and "report_around log t'"
  shows "\<exists>st' w'. (do { (st1, w1) \<leftarrow> finalize_table t st w; finalize_table t' st1 w1 }) = Some (st', w') \<and> beside log w w'"
proof -
  obtain f where f: "wr_finalize t = Some f" "beside log w (snd (snd (f st w)))" using assms(1) by (auto simp: report_logs_def)
  obtain st' w' where "finalize_table t' (fst (snd (f st w))) (snd (snd (f st w))) = Some (st', w')" "beside log (snd (snd (f st w))) w'"
    using finalize_around [OF assms(2)] by blast
  with f beside_trans [OF f(2)] show ?thesis by (auto simp: finalize_table_def [of t] case_prod_unfold)
qed

context proton_report begin

lemma amqp_receiver_runs:
  assumes "amqp_receiver_ready pa buffer remote log env wk (word_of_nat (length gs)) se" and "amqp_opens pa env wk MSG_DIRECTION_RECEIVER w0 se w1"
    and "buffer (pr_messenger w1) @ remote (pr_messenger w1) = gs" and "length gs < 2 ^ 64" and "length gs < fuel" and "list_all (timed pa) gs"
  shows "\<exists>snap st pg' w2 ds. naive_receiver_start env fuel wk zero_snapshot St_New pg (Some w0) = Inr (WORKER_SUCCESS, snap, st, pg', Some w2) \<and>
    ws_count snap = word_of_nat (length gs) \<and> log (pr_messenger w2) = log (pr_messenger w1) @ ds \<and> list_all2 (latency_of pa) ds gs \<and>
    ends_at_receipt pa buffer remote log env se gs (log (pr_messenger w1)) ds"
proof -
  let ?view = "\<lambda>m. (buffer m, remote m, log m)" and ?able = "amqp_receiving pa buffer remote log gs (log (pr_messenger w1)) env wk se"
  define fin where "fin = (\<lambda>st w. do { (st1, w1) \<leftarrow> finalize_table (w_latency (wk_writer wk)) st w; finalize_table (w_throughput (wk_writer wk)) st1 w1 })"
  have r: "wk_vmsl wk = wrapper_table (proton_wrapper pa)" "around ?view env se" "report_around ?view (w_throughput (wk_writer wk))"
    "report_logs (\<lambda>m. (buffer m, remote m)) log (w_latency (wk_writer wk))" "counted_test env wk (word_of_nat (length gs))"
    "e_alloc env (unat (wo_message_size (wk_options wk))) = None" using assms(1) by (simp_all add: amqp_receiver_ready_def)
  obtain finals where lists: "receiver_lists finals w1" "finals = accepts \<or> finals = []"
    using amqp_receiver_opened [OF assms(2)] assms(1) by (auto simp: amqp_receiver_ready_def)
  let ?c = "zero_content\<lparr>mc_data := Some (zero_block (unat (wo_message_size (wk_options wk)))), mc_capacity := wo_message_size (wk_options wk), mc_size := 0\<rparr>"
  have s: "naive_receiver_start env fuel wk zero_snapshot St_New pg (Some w0)
      = run_loop env (naive_receiver_iter env wk se) False fin fuel wk se zero_snapshot ?c St_New pg (Some w1)"
    using amqp_session_open [OF assms(2) r(1)] r(6) by (simp add: naive_receiver_start_def receiver_start_def init_ok status_simps fin_def)
  obtain now w2 where now: "e_now env (Some w1) = (now, w2)" by fastforce
  have "beside ?view (Some w1) w2" using r(2) now by (auto simp: around_def dest: spec [of _ "Some w1"])
  then obtain m where m: "w2 = Some (w1\<lparr>pr_messenger := m\<rparr>)" "?view m = ?view (pr_messenger w1)" by (rule besideE)
  have "\<not> plain_stats (se_ctxt se)"
    using amqp_opened_ctxt [OF assms(2)] by (simp add: plain_stats_def worker_msg_opt_setup_def MSG_STAT_DEFAULT_def MSG_STAT_LATENCY_def MSG_STAT_THROUGHPUT_def)
  then have able: "?able \<lparr>ls_snap = start_snapshot False now zero_snapshot, ls_last_count = 0, ls_last_ts = now, ls_round = 0, ls_content = ?c,
      ls_pl = pg, ls_status = St_New, ls_world = w2\<rparr>"
    using r lists m assms(3,4,6) by (auto simp: amqp_receiving_def start_snapshot_def zero_snapshot_def counted_test_def room_for_def zero_block_def)
  have f: "unat (word_of_nat (length gs) :: u64) < fuel" using assms(4,5) by (simp add: unsigned_of_nat take_bit_nat_eq_self)
  obtain ls where l: "?able ls" "ws_count (ls_snap ls) = word_of_nat (length gs)"
    "run_loop env (naive_receiver_iter env wk se) False fin fuel wk se zero_snapshot ?c St_New pg (Some w1) = end_session env fin wk se ls"
    using amqp_receive.run_reaches [OF _ _ _ f _ now able] r(5) by (auto simp: counted_test_def zero_snapshot_def)
  obtain v ds where v: "ls_world ls = Some v" "log (pr_messenger v) = log (pr_messenger w1) @ ds" "list_all2 (latency_of pa) ds gs"
    "ends_at_receipt pa buffer remote log env se gs (log (pr_messenger w1)) ds"
    using l(1,2) assms(4) unfolding amqp_receiving_def by (auto simp: unsigned_of_nat take_bit_nat_eq_self)
  have "around log env se" "report_around log (w_throughput (wk_writer wk))"
    by (auto intro: around_weaken [OF r(2)] report_around_weaken [OF r(3)])
  then obtain st' v' where "end_session env fin wk se ls = Inr (WORKER_SUCCESS, final_throughput env (ls_snap ls), st', ls_pl ls, Some v')"
    "log (pr_messenger v') = log (pr_messenger v)"
    using amqp_end [where fin = fin, OF log_ends r(1) _ _ v(1)] receiver_finals [OF r(4)] unfolding fin_def by blast
  with s l(2,3) v(2-4) show ?thesis by (auto simp: final_throughput_def)
qed

text \<open>The creation time of a message of the sender, cut to milliseconds.\<close>

lemma test_message_time:
  assumes "valid_time t"
  shows "pn_time_from_milli pa (pn_get_creation_time pa (test_message pa kps url sz t)) = \<lparr>tv_sec = tv_sec t, tv_usec = tv_usec t - tv_usec t mod 1000\<rparr>"
    and "timed pa (test_message pa kps url sz t)"
  using message_time [of t] assms by (simp_all add: valid_time_def test_message_def timed_def)

end

section \<open>Two processes\<close>

text \<open>The latency a receiver records for a message sent at \<open>t\<close>: from \<open>t\<close>, cut to milliseconds, to the
  time it was received.\<close>

definition milliseconds :: "timestamp \<Rightarrow> timestamp" where
  "milliseconds t = \<lparr>tv_sec = tv_sec t, tv_usec = tv_usec t - tv_usec t mod 1000\<rparr>"

definition latency_since :: "stat_latency \<Rightarrow> timestamp \<Rightarrow> bool" where
  "latency_since d t = (dur_start (sl_duration d) = milliseconds t \<and> sl_elapsed d = timersub (dur_end (sl_duration d)) (milliseconds t))"

context proton_report begin

lemma latencies_since:
  "list_all valid_time ts \<Longrightarrow> list_all2 (latency_of pa) ds (map (test_message pa kps url sz) ts) \<Longrightarrow> list_all2 latency_since ds ts"
proof (induction ts arbitrary: ds)
  case (Cons t ts)
  then obtain d ds' where "ds = d # ds'" "latency_of pa d (test_message pa kps url sz t)"
    "list_all2 (latency_of pa) ds' (map (test_message pa kps url sz) ts)" by (cases ds) auto
  with Cons show ?case by (auto simp: latency_of_def latency_since_def milliseconds_def test_message_time(1))
qed simp

lemma test_messages_timed: "list_all valid_time ts \<Longrightarrow> list_all (timed pa) (map (test_message pa kps url sz) ts)"
  by (induction ts) (simp_all add: test_message_time(2))

end

section \<open>A concrete test\<close>

definition lm_latencies :: "list_messenger \<Rightarrow> stat_latency list" where
  "lm_latencies m = map (\<lambda>(d, e). \<lparr>sl_duration = d, sl_elapsed = e\<rparr>) (lm_log m)"

lemma list_recv:
  "pn_messenger_recv (list_proton now) n m
    = (if lm_remote m = [] then (- 9, m) else (0, m\<lparr>lm_buffer := lm_buffer m @ lm_remote m, lm_remote := []\<rparr>))"
  by (simp add: list_proton_def)

interpretation list_report: proton_report "list_proton now" lm_buffer lm_unsettled lm_sent lm_remote lm_latencies for now
proof unfold_locales
  fix m :: list_messenger and n
  assume "lm_buffer m = []" and "lm_remote m \<noteq> []"
  then show "\<exists>m'. pn_messenger_recv (list_proton now) n m = (0, m') \<and> lm_buffer m' \<noteq> [] \<and> lm_buffer m' @ lm_remote m' = lm_remote m"
    by (simp add: list_recv)
qed (simp_all add: list_proton_def ending_keeps_def lm_latencies_def split: list.splits)

text \<open>A table that appends the latencies to the log of the process, and a worker for two messages.\<close>

definition log_table :: "(list_messenger proton option, stat_latency) writer_table" where
  "log_table = \<lparr>wr_initialize = Some (\<lambda>io st w. (True, st, w)),
     wr_write = Some (\<lambda>d st w. (True, st, map_option (\<lambda>v. v\<lparr>pr_messenger := (pr_messenger v)\<lparr>lm_log :=
       lm_log (pr_messenger v) @ [(sl_duration d, sl_elapsed d)]\<rparr>\<rparr>) w)),
     wr_flush = Some (\<lambda>st w. (True, st, w)), wr_finalize = Some (\<lambda>st w. (True, st, w))\<rparr>"

definition amqp_worker :: "string \<Rightarrow> list_messenger proton option worker" where
  "amqp_worker name = \<lparr>wk_name = name, wk_log_dir = ''/l'', wk_vmsl = snd (proton_vmsl_assign (list_proton amqp_now) vmsl_init),
     wk_options = sample_options\<lparr>wo_duration := Message_Count 2\<rparr>,
     wk_writer = \<lparr>w_latency = log_table, w_throughput = sample_table, w_rate = sample_table\<rparr>, wk_report_format = FORMAT_CSV,
     wk_naming_options = NM_LATENCY, wk_can_continue = Some (worker_check sample_wenv), wk_flags = WRK_SENDER,
     wk_strategy = pl_strategy_assign (\<lambda>k. 0) zero_strategy False\<rparr>"

definition amqp_lists :: "msg_direction \<Rightarrow> handlers" where
  "amqp_lists dir = (vmslh_new (\<lambda>i. True))\<lparr>before_connect := Some (proton_url_connect dir []), before_send := Some (proton_url_send [])\<rparr>"

lemma amqp_worker_init:
  assumes "uri_query (wo_uri (wk_options wk)) = None"
  shows "proton_init (list_proton amqp_now) (amqp_opt sample_wenv dir wk) (vmslh_new (e_list_new (sample_wenv :: list_messenger proton option wenv))) St_New (amqp_world gs)
    = Some (Some \<lparr>msg_opts = amqp_opt sample_wenv dir wk\<rparr>, amqp_lists dir, St_New, (amqp_world gs)\<lparr>pr_handlers := amqp_lists dir\<rparr>)"
proof -
  have new: "before_connect (vmslh_new (\<lambda>i. True) :: handlers) = Some []" "before_send (vmslh_new (\<lambda>i. True) :: handlers) = Some []"
    by (simp_all add: vmslh_new_def new_list_def)
  have q: "uri_query (mo_uri (amqp_opt sample_wenv dir wk)) = None" "mo_direction (amqp_opt sample_wenv dir wk) = dir"
    "e_list_new (sample_wenv :: list_messenger proton option wenv) = (\<lambda>n. True)"
    using assms by (simp_all add: worker_msg_opt_setup_def sample_wenv_def)
  show ?thesis
    by (simp add: proton_init_def msg_ctxt_init_def proton_context_init_def proton_defaults new proton_set_user_parameters_def q
        amqp_lists_def proton_url_connect_def proton_url_send_def Let_def amqp_world_def)
qed

lemma amqp_worker_queue:
  "worker_create_queue sample_wenv wk St_New (w :: list_messenger proton option) = (Some (MPT_Q_SYSV (Some \<lparr>vq_queue = 0\<rparr>)), St_New, w)"
  by (simp add: worker_create_queue_def worker_name_def worker_queue_new_def worker_queue_new_opt_def worker_vqueue_new_def create_queue_def
      queue_defs sample_wenv_def sample_ipc_def)

definition amqp_session :: "msg_direction \<Rightarrow> list_messenger proton option worker \<Rightarrow> session" where
  "amqp_session dir wk = \<lparr>se_ctxt = \<lparr>msg_opts = amqp_opt sample_wenv dir wk\<rparr>, se_handlers = amqp_lists dir,
     se_queue = Some (MPT_Q_SYSV (Some \<lparr>vq_queue = 0\<rparr>))\<rparr>"

lemma amqp_lists_simps [simp]:
  "before_connect (amqp_lists dir) = Some (proton_url_connect dir [])" "after_connect (amqp_lists dir) = Some []"
  "finalize_receive (amqp_lists dir) = Some []"
  by (simp_all add: amqp_lists_def vmslh_new_def new_list_def)

lemma amqp_sender_opens:
  assumes "uri_query (wo_uri (wk_options wk)) = None"
  shows "\<exists>w1. amqp_opens (list_proton amqp_now) sample_wenv wk MSG_DIRECTION_SENDER (amqp_world []) (amqp_session MSG_DIRECTION_SENDER wk) w1 \<and>
    lm_sent (pr_messenger w1) = []"
proof -
  let ?w1 = "(amqp_world [])\<lparr>pr_handlers := amqp_lists MSG_DIRECTION_SENDER\<rparr>" and ?c = "\<lparr>msg_opts = amqp_opt sample_wenv MSG_DIRECTION_SENDER wk\<rparr>"
  have "\<exists>u. proton_start (list_proton amqp_now) ?c (amqp_lists MSG_DIRECTION_SENDER) St_New ?w1 = Some (VMSL_SUCCESS, St_New, ?w1\<lparr>pr_url := u\<rparr>)"
    by (simp add: proton_start_def run_connect_list qos_fn_def proton_set_qos_mode_send_def query_value_def list_proton_def amqp_world_def Let_def
        gru_status_error_def)
  then obtain u where "proton_start (list_proton amqp_now) ?c (amqp_lists MSG_DIRECTION_SENDER) St_New ?w1 = Some (VMSL_SUCCESS, St_New, ?w1\<lparr>pr_url := u\<rparr>)" ..
  then show ?thesis
    using amqp_worker_init [OF assms, of MSG_DIRECTION_SENDER "[]"] amqp_worker_queue [of wk "Some (?w1\<lparr>pr_url := u\<rparr>)"]
    by (intro exI [of _ "?w1\<lparr>pr_url := u\<rparr>"]) (auto simp: amqp_opens_def amqp_session_def amqp_world_def)
qed

lemma amqp_receiver_opens:
  assumes "uri_query (wo_uri (wk_options wk)) = None"
  shows "\<exists>w1. amqp_opens (list_proton amqp_now) sample_wenv wk MSG_DIRECTION_RECEIVER (amqp_world gs) (amqp_session MSG_DIRECTION_RECEIVER wk) w1 \<and>
    lm_buffer (pr_messenger w1) @ lm_remote (pr_messenger w1) = gs \<and> lm_latencies (pr_messenger w1) = []"
proof -
  let ?w1 = "(amqp_world gs)\<lparr>pr_handlers := amqp_lists MSG_DIRECTION_RECEIVER\<rparr>" and ?c = "\<lparr>msg_opts = amqp_opt sample_wenv MSG_DIRECTION_RECEIVER wk\<rparr>"
  let ?h = "(amqp_lists MSG_DIRECTION_RECEIVER)\<lparr>finalize_receive := Some accepts\<rparr>"
  have f: "add_finalize_receive (\<lambda>n. None) True CB_accept (amqp_lists MSG_DIRECTION_RECEIVER) = Some ?h"
    by (simp add: add_finalize_receive_def add_handler_def vmslh_add_def vmslh_by_addr_def accepts_def)
  have "\<exists>u. proton_start (list_proton amqp_now) ?c (amqp_lists MSG_DIRECTION_RECEIVER) St_New ?w1 = Some (VMSL_SUCCESS, St_New, ?w1\<lparr>pr_handlers := ?h, pr_url := u\<rparr>)"
    by (simp add: proton_start_def run_connect_list qos_fn_def proton_set_qos_mode_recv_def variant_equals_str_def query_value_def f
        list_proton_def amqp_world_def Let_def gru_status_error_def)
  then obtain u where s: "proton_start (list_proton amqp_now) ?c (amqp_lists MSG_DIRECTION_RECEIVER) St_New ?w1 = Some (VMSL_SUCCESS, St_New, ?w1\<lparr>pr_handlers := ?h, pr_url := u\<rparr>)" ..
  obtain m where m: "proton_subscribe (list_proton amqp_now) ?c None St_New (?w1\<lparr>pr_handlers := ?h, pr_url := u\<rparr>)
      = Some (VMSL_SUCCESS, St_New, ?w1\<lparr>pr_handlers := ?h, pr_url := u, pr_messenger := m\<rparr>)" "lm_buffer m @ lm_remote m = gs" "lm_latencies m = []"
    by (cases "gs = []") (auto simp: proton_subscribe_def list_proton_def failed_def amqp_world_def lm_latencies_def Let_def)
  show ?thesis
    using amqp_worker_init [OF assms, of MSG_DIRECTION_RECEIVER gs] s m amqp_worker_queue [of wk "Some (?w1\<lparr>pr_handlers := ?h, pr_url := u, pr_messenger := m\<rparr>)"]
    by (intro exI [of _ "?w1\<lparr>pr_handlers := ?h, pr_url := u, pr_messenger := m\<rparr>"]) (auto simp: amqp_opens_def amqp_session_def amqp_world_def)
qed

lemma amqp_sample_around:
  "around view sample_wenv (amqp_session dir wk)" "report_around view sample_table"
  "report_logs (\<lambda>m. (lm_buffer m, lm_remote m)) lm_latencies log_table"
  by (auto simp: around_def amqp_session_def sample_wenv_def queue_defs worker_queue_destroy_def sample_ipc_def report_around_def
      sample_table_def report_logs_def log_table_def lm_latencies_def)

text \<open>What a worker that sends must be for the messenger above.\<close>

definition plain_sender :: "list_messenger proton option worker \<Rightarrow> u64 \<Rightarrow> bool" where
  "plain_sender wk n = (uri_query (wo_uri (wk_options wk)) = None \<and> wk_vmsl wk = snd (proton_vmsl_assign (list_proton amqp_now) vmsl_init) \<and>
     wo_duration (wk_options wk) = Message_Count n \<and> wk_can_continue wk = Some (worker_check sample_wenv) \<and> wo_message_size (wk_options wk) \<noteq> 0 \<and>
     w_throughput (wk_writer wk) = sample_table \<and> (\<exists>rnd ps. wk_strategy wk = pl_strategy_assign rnd ps False))"

lemma plain_sender_ready:
  assumes "plain_sender wk n"
  shows "amqp_sender_ready (list_proton amqp_now) lm_sent sample_wenv wk n (amqp_session MSG_DIRECTION_SENDER wk)"
proof -
  have "query_of (amqp_opt sample_wenv dir wk) = []" for dir
    using assms by (simp add: plain_sender_def query_of_def worker_msg_opt_setup_def)
  moreover have "clock_runs (list_proton amqp_now)" by (simp add: clock_runs_def valid_time_def amqp_now_def)
  ultimately show ?thesis
    using assms amqp_sample_around(1) [where wk = wk] amqp_sample_around(2)
    by (auto simp: plain_sender_def proton_vmsl_assign_def amqp_sender_ready_def at_most_once_def query_value_def plain_query_def counted_test_def
        sample_wenv_def word_neq_0_conv)
qed

lemma amqp_sample_ready:
  "plain_sender (amqp_worker ''w'') 2" "uri_query (wo_uri (wk_options (amqp_worker ''w''))) = None"
  "amqp_receiver_ready (list_proton amqp_now) lm_buffer lm_remote lm_latencies sample_wenv (amqp_worker ''w'') 2
    (amqp_session MSG_DIRECTION_RECEIVER (amqp_worker ''w''))"
proof -
  have o: "wk_options (amqp_worker ''w'') = sample_options\<lparr>wo_duration := Message_Count 2\<rparr>" "wk_vmsl (amqp_worker ''w'') = wrapper_table (proton_wrapper (list_proton amqp_now))"
    by (simp_all add: amqp_worker_def proton_vmsl_assign_def)
  have "\<exists>rnd ps. wk_strategy (amqp_worker ''w'') = pl_strategy_assign rnd ps False" by (intro exI) (simp add: amqp_worker_def)
  then show "plain_sender (amqp_worker ''w'') 2" by (simp add: plain_sender_def) (simp add: amqp_worker_def sample_options_def)
  show "uri_query (wo_uri (wk_options (amqp_worker ''w''))) = None" by (simp add: o sample_options_def)
  show "amqp_receiver_ready (list_proton amqp_now) lm_buffer lm_remote lm_latencies sample_wenv (amqp_worker ''w'') 2
      (amqp_session MSG_DIRECTION_RECEIVER (amqp_worker ''w''))"
    using amqp_sample_around(1) [where wk = "amqp_worker ''w''"] amqp_sample_around(2,3) o
    by (auto simp: amqp_receiver_ready_def counted_test_def sample_options_def) (simp_all add: amqp_worker_def sample_wenv_def)
qed

section \<open>Properties\<close>

text \<open>
  Property C10, amqp_test. A whole test over AMQP, for every messenger that keeps its contract: a
  sender told to send \<open>n\<close> messages ends with success and the peer has received exactly \<open>n\<close>
  messages more, each with the body of the size asked for and the address and settings of
  the URL; and every receiver told to receive \<open>n\<close> messages for which the peer holds these
  messages ends with success, has counted \<open>n\<close>, and has recorded for each message, in order,
  the time from its send, cut to milliseconds, to its receipt: the former is the reading of
  the clock of the messenger after the messages before it were sent (\<open>sent_at\<close>), the latter
  the reading of the clock of the worker where the receive of that message, and no other,
  returned (\<open>ends_at_receipt\<close>).
\<close>

theorem amqp_test:
  assumes "proton_report pa buffer unsettled sent remote log"
    and "amqp_sender_ready pa sent env wk n se" and "amqp_opens pa env wk MSG_DIRECTION_SENDER w0 se w1" and "unat n < fuel"
  shows "\<exists>snap st pg' w2 ts gs. naive_sender_start env fuel wk zero_snapshot St_New pg (Some w0) = Inr (WORKER_SUCCESS, snap, st, pg', Some w2) \<and>
    ws_count snap = n \<and> length ts = unat n \<and> list_all valid_time ts \<and> sent (pr_messenger w2) = sent (pr_messenger w1) @ gs \<and>
    gs = map (test_message pa (query_of (amqp_opt env MSG_DIRECTION_SENDER wk)) (pr_url w1) (wo_message_size (wk_options wk))) ts \<and>
    (\<forall>k<length ts. sent_at pa sent (test_message pa (query_of (amqp_opt env MSG_DIRECTION_SENDER wk)) (pr_url w1) (wo_message_size (wk_options wk)))
      (sent (pr_messenger w1)) ts k) \<and>
    (\<forall>env' wk' se' v0 v1. amqp_receiver_ready pa buffer remote log env' wk' n se' \<and> amqp_opens pa env' wk' MSG_DIRECTION_RECEIVER v0 se' v1 \<and>
      buffer (pr_messenger v1) @ remote (pr_messenger v1) = gs \<longrightarrow>
      (\<exists>snap' st' pg2 v2 ds. naive_receiver_start env' fuel wk' zero_snapshot St_New pg (Some v0) = Inr (WORKER_SUCCESS, snap', st', pg2, Some v2) \<and>
        ws_count snap' = n \<and> log (pr_messenger v2) = log (pr_messenger v1) @ ds \<and> list_all2 latency_since ds ts \<and>
        ends_at_receipt pa buffer remote log env' se' gs (log (pr_messenger v1)) ds))"
proof -
  let ?kps = "query_of (amqp_opt env MSG_DIRECTION_SENDER wk)" and ?sz = "wo_message_size (wk_options wk)"
  obtain snap st pg' w2 ts where s: "naive_sender_start env fuel wk zero_snapshot St_New pg (Some w0) = Inr (WORKER_SUCCESS, snap, st, pg', Some w2)"
    "ws_count snap = n" "length ts = unat n" "list_all valid_time ts"
    "sent (pr_messenger w2) = sent (pr_messenger w1) @ map (test_message pa ?kps (pr_url w1) ?sz) ts"
    "\<forall>k<length ts. sent_at pa sent (test_message pa ?kps (pr_url w1) ?sz) (sent (pr_messenger w1)) ts k"
    using proton_peer.amqp_sender_runs [OF proton_report.axioms(1) [OF assms(1)] assms(2-4), of pg] by blast
  let ?gs = "map (test_message pa ?kps (pr_url w1) ?sz) ts"
  have n: "word_of_nat (length ?gs) = n" "length ?gs < 2 ^ 64" "length ?gs < fuel" using s(3) assms(4) unsigned_less [of n, where ?'a = nat] by simp_all
  have "\<exists>snap' st' pg2 v2 ds. naive_receiver_start env' fuel wk' zero_snapshot St_New pg (Some v0) = Inr (WORKER_SUCCESS, snap', st', pg2, Some v2) \<and>
      ws_count snap' = n \<and> log (pr_messenger v2) = log (pr_messenger v1) @ ds \<and> list_all2 latency_since ds ts \<and>
      ends_at_receipt pa buffer remote log env' se' ?gs (log (pr_messenger v1)) ds"
    if "amqp_receiver_ready pa buffer remote log env' wk' n se'" and "amqp_opens pa env' wk' MSG_DIRECTION_RECEIVER v0 se' v1"
      and "buffer (pr_messenger v1) @ remote (pr_messenger v1) = ?gs" for env' wk' se' v0 v1
    using proton_report.amqp_receiver_runs [OF assms(1) _ that(2,3) n(2,3) proton_report.test_messages_timed [OF assms(1) s(4)], of pg]
      that(1) proton_report.latencies_since [OF assms(1) s(4)] unfolding n(1) by blast
  with s show ?thesis by blast
qed

theorem amqp_test_witness:
  "\<exists>snap st pg' w2 ts gs. naive_sender_start sample_wenv 3 (amqp_worker ''w'') zero_snapshot St_New sample_pl_state (Some (amqp_world []))
      = Inr (WORKER_SUCCESS, snap, st, pg', Some w2) \<and> ws_count snap = 2 \<and> length ts = 2 \<and> lm_sent (pr_messenger w2) = gs \<and>
    (\<exists>snap' st' pg2 v2. naive_receiver_start sample_wenv 3 (amqp_worker ''w'') zero_snapshot St_New sample_pl_state (Some (amqp_world gs))
        = Inr (WORKER_SUCCESS, snap', st', pg2, Some v2) \<and> ws_count snap' = 2 \<and> list_all2 latency_since (lm_latencies (pr_messenger v2)) ts \<and>
      ends_at_receipt (list_proton amqp_now) lm_buffer lm_remote lm_latencies sample_wenv (amqp_session MSG_DIRECTION_RECEIVER (amqp_worker ''w'')) gs []
        (lm_latencies (pr_messenger v2)))"
proof -
  obtain w1 where s: "amqp_opens (list_proton amqp_now) sample_wenv (amqp_worker ''w'') MSG_DIRECTION_SENDER (amqp_world []) (amqp_session MSG_DIRECTION_SENDER (amqp_worker ''w'')) w1"
    "lm_sent (pr_messenger w1) = []" using amqp_sender_opens [OF amqp_sample_ready(2)] by blast
  have "unat (2 :: u64) < 3" by simp
  from amqp_test [OF list_report.proton_report_axioms plain_sender_ready [OF amqp_sample_ready(1)] s(1) this, of sample_pl_state] show ?thesis
  proof (elim exE conjE, goal_cases)
    case (1 snap st pg' w2 ts gs)
    obtain v1 where v: "amqp_opens (list_proton amqp_now) sample_wenv (amqp_worker ''w'') MSG_DIRECTION_RECEIVER (amqp_world gs)
        (amqp_session MSG_DIRECTION_RECEIVER (amqp_worker ''w'')) v1" "lm_buffer (pr_messenger v1) @ lm_remote (pr_messenger v1) = gs"
      "lm_latencies (pr_messenger v1) = []" using amqp_receiver_opens [OF amqp_sample_ready(2)] by blast
    have "\<exists>snap' st' pg2 v2 ds. naive_receiver_start sample_wenv 3 (amqp_worker ''w'') zero_snapshot St_New sample_pl_state (Some (amqp_world gs))
        = Inr (WORKER_SUCCESS, snap', st', pg2, Some v2) \<and> ws_count snap' = 2 \<and>
      lm_latencies (pr_messenger v2) = lm_latencies (pr_messenger v1) @ ds \<and> list_all2 latency_since ds ts \<and>
      ends_at_receipt (list_proton amqp_now) lm_buffer lm_remote lm_latencies sample_wenv (amqp_session MSG_DIRECTION_RECEIVER (amqp_worker ''w'')) gs
        (lm_latencies (pr_messenger v1)) ds"
      using 1(8) amqp_sample_ready(3) v(1,2) by blast
    then have r: "\<exists>snap' st' pg2 v2. naive_receiver_start sample_wenv 3 (amqp_worker ''w'') zero_snapshot St_New sample_pl_state (Some (amqp_world gs))
        = Inr (WORKER_SUCCESS, snap', st', pg2, Some v2) \<and> ws_count snap' = 2 \<and> list_all2 latency_since (lm_latencies (pr_messenger v2)) ts \<and>
      ends_at_receipt (list_proton amqp_now) lm_buffer lm_remote lm_latencies sample_wenv (amqp_session MSG_DIRECTION_RECEIVER (amqp_worker ''w'')) gs []
        (lm_latencies (pr_messenger v2))"
      using v(3) by auto
    have "length ts = 2" "lm_sent (pr_messenger w2) = gs" using 1(3,5) s(2) by simp_all
    with 1(1,2) r show ?case by blast
  qed
qed

text \<open>
  Property C11, sender_program. The sender program called with a log directory and a count \<open>n\<close>,
  and so with the default broker URL, whose protocol is AMQP: it ends, logs that it sent
  \<open>n\<close> messages, exits with success, and the peer of the messenger has received exactly \<open>n\<close>
  messages more, of the default size of 32 bytes. The number on the command line is the
  number of messages on the wire, through the options, the choice of the protocol, the
  worker, its loop and the wrapper.
\<close>

theorem sender_program:
  assumes "proton_peer pa buffer unsettled sent remote" and "0 < n" and "n < 2 ^ 63" and "n < de_fuel (pg_denv pe)"
    and "options_work (pg_opt pe) parsed" and "uri_scheme (parsed ''amqp://localhost:5672/test.performance.queue'') = Some ''amqp''"
    and "\<And>u v. de_assign (pg_denv pe) u v = vmsl_assign_by_url (proton_vmsl_assign pa) stomp mqtt (uri_scheme u) v"
    and "snd (snd (remap_log_with_link (de_os (pg_denv pe)) base ''mpt-sender'' 0 (os_getpid (de_os (pg_denv pe)) w) St_New w)) = w1"
    and "worker_log_init (de_path_exists (pg_denv pe)) (de_mkdirs (pg_denv pe)) base St_New w1 = (True, dir, St_New, w2)"
    and "perf_initialize_writer (pg_denv pe) (sender_store (pg_opt pe) parsed (Some base) (word_of_nat n)) null_writer St_New w2
      = Some (True, wr, St_New, Some w3)"
    and "wk = counted_worker pe parsed (snd (proton_vmsl_assign pa vmsl_init)) dir wr (word_of_nat n)"
    and "amqp_sender_ready pa sent (de_worker (pg_denv pe)) wk (word_of_nat n) se"
    and "amqp_opens pa (de_worker (pg_denv pe)) wk MSG_DIRECTION_SENDER w3 se w4"
  shows "\<exists>rest w5 ts. perf_main pe pg g [''--log-dir'', base, ''--count'', nat_dec n] zero w
      = Inr (EXIT_SUCCESS, pg_log pe (''Summary: sent '' @ nat_dec n @ '' messages in '' @ rest) (Some w5)) \<and>
    length ts = n \<and> list_all valid_time ts \<and> sent (pr_messenger w5) = sent (pr_messenger w4) @
      map (test_message pa (query_of (amqp_opt (de_worker (pg_denv pe)) MSG_DIRECTION_SENDER wk)) (pr_url w4) 32) ts"
proof -
  have n: "unat (word_of_nat n :: u64) = n" using assms(3) by (simp add: unsigned_of_nat take_bit_nat_eq_self)
  have a: "de_assign (pg_denv pe) (parsed ''amqp://localhost:5672/test.performance.queue'') vmsl_init
      = (True, snd (proton_vmsl_assign pa vmsl_init))"
    using assms(6) by (simp add: assms(7) vmsl_assign_by_url_def strncmp_eq_def proton_vmsl_assign_def)
  have sz: "wo_message_size (wk_options wk) = 32" by (simp add: assms(11) counted_worker_def daemon_worker_def counted_options_def)
  obtain snap st pg' w5 ts where r: "naive_sender_start (de_worker (pg_denv pe)) (de_fuel (pg_denv pe)) wk zero_snapshot St_New pg (Some w3)
      = Inr (WORKER_SUCCESS, snap, st, pg', Some w5)" "ws_count snap = word_of_nat n" "length ts = n" "list_all valid_time ts"
    "sent (pr_messenger w5) = sent (pr_messenger w4) @
      map (test_message pa (query_of (amqp_opt (de_worker (pg_denv pe)) MSG_DIRECTION_SENDER wk)) (pr_url w4) 32) ts"
    using proton_peer.amqp_sender_runs [OF assms(1,12,13), of "de_fuel (pg_denv pe)" pg] assms(4) unfolding n sz by blast
  from perf_main_runs [OF assms(2,3,5) a assms(8-10) r(1) [unfolded assms(11)] r(2)] r(3-5) show ?thesis by blast
qed

definition amqp_prog :: "list_messenger proton option prog_env" where
  "amqp_prog = \<lparr>pg_denv = \<lparr>de_worker = sample_wenv, de_os = sample_os 40 0, de_config = sample_config, de_writers = (\<lambda>f. sample_writer),
       de_uri_parse = (\<lambda>s. zero_uri), de_duration_parse = (\<lambda>s. None), de_log_level = (\<lambda>s. 0), de_to_milli = (\<lambda>t. tv_sec t * 1000),
       de_time_str = (\<lambda>t. ''now''), de_uri_format = (\<lambda>u. None), de_fadd = (\<lambda>a b. a + b), de_ratio = (\<lambda>a b. a div ucast b),
       de_log_dir = ''/l'', de_path_exists = (\<lambda>p st. (False, st)), de_mkdirs = (\<lambda>p st w. (True, st, w)),
       de_assign = (\<lambda>u. vmsl_assign_by_url (proton_vmsl_assign (list_proton amqp_now)) (\<lambda>v. (False, v)) (\<lambda>v. (False, v)) (uri_scheme u)),
       de_random = (\<lambda>k. 0), de_fuel = 6\<rparr>,
     pg_opt = \<lparr>op_uri_parse = (\<lambda>u st. ((wo_uri sample_options)\<lparr>uri_scheme := Some ''amqp''\<rparr>, st)), op_duration_new = \<lparr>dur_start = zero_ts, dur_end = zero_ts\<rparr>,
       op_duration_parse = (\<lambda>s d. (False, d)), op_get_level = (\<lambda>s. 0), op_set_minimum = (\<lambda>n w. w), op_INFO = 4,
       op_hostname = Some ''node'', op_strdup = (\<lambda>s. True), op_print = (\<lambda>s w. w), op_alloc = (\<lambda>n. None), op_sizeof_options = 200\<rparr>,
     pg_log = (\<lambda>s w. w), pg_fmt2 = (\<lambda>x. ''0.00''), pg_usage = (\<lambda>s w. w), pg_option_help = (\<lambda>l c t w. w), pg_waitpid = (\<lambda>p w. w)\<rparr>"


text \<open>The worker of this program and its log directory.\<close>

definition amqp_prog_worker :: "nat \<Rightarrow> list_messenger proton option worker" where
  "amqp_prog_worker n = counted_worker amqp_prog (\<lambda>u. (wo_uri sample_options)\<lparr>uri_scheme := Some ''amqp''\<rparr>)
     (snd (proton_vmsl_assign (list_proton amqp_now) vmsl_init)) (log_dir_path ''logs'' (PATH_MAX - 1) 0)
     (null_writer\<lparr>w_throughput := sample_table\<rparr>) (word_of_nat n)"

lemma amqp_prog_facts:
  "options_work (pg_opt amqp_prog) (\<lambda>u. (wo_uri sample_options)\<lparr>uri_scheme := Some ''amqp''\<rparr>)"
  "de_assign (pg_denv amqp_prog) u v = vmsl_assign_by_url (proton_vmsl_assign (list_proton amqp_now)) (\<lambda>v. (False, v)) (\<lambda>v. (False, v)) (uri_scheme u) v"
  "snd (snd (remap_log_with_link (de_os (pg_denv amqp_prog)) base s 0 p St_New (Some (amqp_world [])))) = Some (amqp_world [])"
  "worker_log_init (de_path_exists (pg_denv amqp_prog)) (de_mkdirs (pg_denv amqp_prog)) ''logs'' St_New w
    = (True, log_dir_path ''logs'' (PATH_MAX - 1) 0, St_New, w)"
  "perf_initialize_writer (pg_denv amqp_prog) (sender_store op parsed (Some base) n) null_writer St_New (Some (amqp_world []))
    = Some (True, null_writer\<lparr>w_throughput := sample_table\<rparr>, St_New, Some (amqp_world []))"
  "de_worker (pg_denv amqp_prog) = sample_wenv" "de_fuel (pg_denv amqp_prog) = 6"
  "plain_sender (amqp_prog_worker 5) 5"
proof -
  have "log_fill_loop (\<lambda>p st. (False, st)) ''logs'' (PATH_MAX - 1) 0 St_New = (0, log_dir_path ''logs'' (PATH_MAX - 1) 0, St_New)"
    using log_fill_first [of 0 "\<lambda>p st. (False, st)" "''logs''" "PATH_MAX - 1" St_New 0] by (simp add: status_simps INT_MAX_def)
  then show "worker_log_init (de_path_exists (pg_denv amqp_prog)) (de_mkdirs (pg_denv amqp_prog)) ''logs'' St_New w
      = (True, log_dir_path ''logs'' (PATH_MAX - 1) 0, St_New, w)"
    by (simp add: amqp_prog_def worker_log_init_def worker_log_fill_last_dir_def)
  show "perf_initialize_writer (pg_denv amqp_prog) (sender_store op parsed (Some base) n) null_writer St_New (Some (amqp_world []))
      = Some (True, null_writer\<lparr>w_throughput := sample_table\<rparr>, St_New, Some (amqp_world []))"
    by (simp add: amqp_prog_def perf_initialize_writer_def program_initialize_writer_def naming_initialize_writer_def
        naming_initialize_csv_writer_def initialize_stages_def latency_stage_def throughput_stage_def rate_stage_def
        naming_initialize_throughput_writer_def initialize_named_def nm_has_def NM_LATENCY_def NM_THROUGHPUT_def NM_RATE_def
        sample_writer_def sample_table_def)
  have "\<exists>rnd ps. wk_strategy (amqp_prog_worker 5) = pl_strategy_assign rnd ps False"
    by (intro exI) (simp add: amqp_prog_worker_def counted_worker_def daemon_worker_def)
  then show "plain_sender (amqp_prog_worker 5) 5"
    by (simp add: plain_sender_def) (simp add: amqp_prog_worker_def counted_worker_def daemon_worker_def counted_options_def amqp_prog_def sample_options_def)
  show "snd (snd (remap_log_with_link (de_os (pg_denv amqp_prog)) base s 0 p St_New (Some (amqp_world [])))) = Some (amqp_world [])"
    by (simp add: amqp_prog_def remap_log_with_link_def sample_os_def split: option.splits)
qed (simp_all add: amqp_prog_def options_work_def)

theorem sender_program_witness:
  "\<exists>rest w5 ts. perf_main amqp_prog sample_pl_state sample_globals [''--log-dir'', ''logs'', ''--count'', nat_dec 5]
      (os_obj (default_store sample_opt_api (\<lambda>u. zero_uri))) (Some (amqp_world []))
      = Inr (EXIT_SUCCESS, pg_log amqp_prog (''Summary: sent '' @ nat_dec 5 @ '' messages in '' @ rest) (Some w5)) \<and>
    length ts = 5 \<and> list_all valid_time ts \<and> (\<exists>url. lm_sent (pr_messenger w5) = map (test_message (list_proton amqp_now) [] url 32) ts)"
proof -
  have q: "uri_query (wo_uri (wk_options (amqp_prog_worker 5))) = None" using amqp_prog_facts(8) by (simp add: plain_sender_def)
  obtain w4 where w: "amqp_opens (list_proton amqp_now) sample_wenv (amqp_prog_worker 5) MSG_DIRECTION_SENDER (amqp_world [])
      (amqp_session MSG_DIRECTION_SENDER (amqp_prog_worker 5)) w4" "lm_sent (pr_messenger w4) = []"
    using amqp_sender_opens [OF q] by blast
  have "query_of (amqp_opt sample_wenv MSG_DIRECTION_SENDER (amqp_prog_worker 5)) = []"
    using q by (simp add: query_of_def worker_msg_opt_setup_def)
  then show ?thesis
    using sender_program [OF list_report.proton_peer_axioms _ _ _ amqp_prog_facts(1) _ amqp_prog_facts(2,3,4,5) amqp_prog_worker_def, of 5 "amqp_session MSG_DIRECTION_SENDER (amqp_prog_worker 5)" w4
        sample_pl_state sample_globals "os_obj (default_store sample_opt_api (\<lambda>u. zero_uri))"]
      plain_sender_ready [OF amqp_prog_facts(8)] w by (simp add: amqp_prog_facts(6,7)) blast
qed

end
