(* ===== verification/Daemon_Test.thy ===== *)
theory Daemon_Test
  imports Daemon
begin

text \<open>
  A test of a daemon from the start of its workers to the notification of its result: the
  clone of the manager, the watchdog, the notification and the stop, in the frame that
  the sender and the receiver daemon share.
\<close>

section \<open>After the workers\<close>

text \<open>The workers of a test and how the test ended: it failed when a child ended abnormally.\<close>

definition test_failed :: "(int \<Rightarrow> u32) \<Rightarrow> 'w worker_info list \<Rightarrow> bool" where
  "test_failed stat wis = list_ex (\<lambda>wi. child_error (stat (wi_child wi))) wis"

lemma errors_counted:
  assumes "length wis < 2 ^ 32"
  shows "(word_of_nat (length (filter (\<lambda>wi. child_error (stat (wi_child wi))) wis)) = (0 :: u32)) = (\<not> test_failed stat wis)"
proof -
  let ?n = "length (filter (\<lambda>wi. child_error (stat (wi_child wi))) wis)"
  have "?n < 2 ^ 32" using assms length_filter_le [of "\<lambda>wi. child_error (stat (wi_child wi))" wis] by linarith
  then have "unat (word_of_nat ?n :: u32) = ?n" by (simp add: unsigned_of_nat take_bit_nat_eq_self)
  then have "(word_of_nat ?n = (0 :: u32)) = (?n = 0)" by (metis unat_eq_zero)
  then show ?thesis by (auto simp: test_failed_def list_ex_iff filter_empty_conv)
qed

lemma stop_empty:
  assumes "\<not> g_locked g" and "g_list g = Some []"
  shows "worker_manager_stop env os fuel g w = Inr (True, g\<lparr>g_list := None\<rparr>, w)"
  using assms by (simp add: worker_manager_stop_def worker_manager_do_stop_def worker_list_root_def put_nodes_def worker_list_clean_def
      worker_list_unlock_def worker_list_destroy_def)

text \<open>Every child has ended and left nothing in its queue.\<close>

definition workers_ended :: "'w denv \<Rightarrow> (int \<Rightarrow> u32) \<Rightarrow> 'w worker_info list \<Rightarrow> bool" where
  "workers_ended env stat wis = ((\<exists>ans. settled (de_os env) ans stat \<and> (\<forall>pid. ans pid \<noteq> 0)) \<and>
     (\<forall>wi \<in> set wis. queue_idle (de_worker env) wi))"

lemma finish_reports:
  assumes "\<not> g_locked (d_globals d)" and "g_list (d_globals d) = Some wis" and "g_errors (d_globals d) = 0" and "wis \<noteq> []"
    and "length wis < 2 ^ 32" and "workers_ended env stat wis" and "h_flags h = 0" and "gru_status_success st"
    and "1 < de_fuel env" and "\<And>st w. fin (wk_writer wk) st w \<noteq> None"
    and "\<And>st v. failed st v \<noteq> None" and "\<And>st v. successful st v \<noteq> None"
  shows "\<exists>st1 st2 v' w'. daemon_finish env failed successful h fin ret wk st d v
      = Inr (ret, d\<lparr>d_globals := \<lparr>g_list = None, g_locked = False,
          g_errors = word_of_nat (length (filter (\<lambda>wi. child_error (stat (wi_child wi))) wis))\<rparr>, d_world := w'\<rparr>, v') \<and>
    gru_status_success st1 = (\<not> test_failed stat wis) \<and>
    (if test_failed stat wis then failed st1 v else successful st1 v) = Some (st2, v')"
proof -
  obtain r where r: "de_fuel env = Suc (Suc r)" using assms(9) by (intro that [of "de_fuel env - 2"]) simp
  obtain ans where a: "settled (de_os env) ans stat" "\<And>pid. ans pid \<noteq> 0" "\<forall>wi \<in> set wis. queue_idle (de_worker env) wi"
    using assms(6) by (auto simp: workers_ended_def)
  obtain g1 st1 w1 where l: "worker_manager_watchdog_loop (de_worker env) (de_os env) (de_fuel env) (de_fuel env) h (d_globals d) st (d_world d)
      = Inr (g1, st1, w1)" "g_list g1 = Some []" "\<not> g_locked g1"
    "g_errors g1 = word_of_nat (length (filter (\<lambda>wi. child_error (stat (wi_child wi))) wis))" "gru_status_success st1 = (g_errors g1 = 0)"
    using watchdog_loop_ends [OF assms(1,2,5,4) a(1,2) assms(7) a(3) assms(8), where rounds = r and fuel = "Suc r" and w = "d_world d"] assms(3)
    by (auto simp: r)
  have f: "gru_status_success st1 = (\<not> test_failed stat wis)" using l(4,5) errors_counted [OF assms(5)] by simp
  obtain st2 v2 where n: "(if gru_status_success st1 then successful else failed) st1 v = Some (st2, v2)"
    using assms(11,12) by (metis (full_types) not_None_eq prod.collapse)
  obtain st3 w3 where w: "fin (wk_writer wk) st2 (worker_log_link_create env (wk_log_dir wk) ''last''
      (worker_log_link_create env (wk_log_dir wk) (if gru_status_success st1 then ''lastSuccessful'' else ''lastFailed'') w1)) = Some (st3, w3)"
    using assms(10) by (metis not_None_eq prod.collapse)
  have g: "g1\<lparr>g_list := None\<rparr> = \<lparr>g_list = None, g_locked = False,
      g_errors = word_of_nat (length (filter (\<lambda>wi. child_error (stat (wi_child wi))) wis))\<rparr>" using l(3,4) by simp
  have "daemon_finish env failed successful h fin ret wk st d v = Inr (ret, d\<lparr>d_globals := g1\<lparr>g_list := None\<rparr>, d_world := w3\<rparr>, v2)"
    using l(1) n w by (simp add: daemon_finish_def Let_def stop_empty [OF l(3,2)])
  with f n g show ?thesis by (intro exI [of _ st1] exI [of _ st2] exI [of _ v2] exI [of _ w3]) auto
qed

section \<open>Properties\<close>

text \<open>
  Property C15, daemon_test_reports. A test that a daemon executes reports its result once: when the
  log directory was made, the clone succeeded in the parent, and every child has ended,
  the execution returns success, the daemon sends the notification of a failure when a
  child ended abnormally and that of a success otherwise, no other notification, and
  afterwards the list of workers is gone and its mutex free, so that the next test can
  start; the error count is the number of the children that failed.
\<close>

theorem daemon_test_reports:
  assumes "worker_log_init (de_path_exists env) (de_mkdirs env) (de_log_dir env) St_New (d_world d) = (True, dir, st, w)"
    and "worker_manager_clone (de_worker env) (de_os env) (de_config env) (de_writers env) start (mk dir) (d_globals d) st w
      = Inr (WORKER_SUCCESS, wk, g1, st1, w1)" and "gru_status_success st1" and "\<not> g_locked (d_globals d)"
    and "0 < wo_parallel_count (wk_options (mk dir))" and "g_list g1 = Some wis" and "workers_ended env stat wis"
    and "h_flags h = 0" and "1 < de_fuel env" and "\<And>st w. fin (wk_writer wk) st w \<noteq> None"
    and "\<And>st v. failed st v \<noteq> None" and "\<And>st v. successful st v \<noteq> None"
  shows "length wis = unat (wo_parallel_count (wk_options (mk dir))) \<and>
    (\<exists>st2 st3 v' w'. daemon_execute env failed successful mk start h fin d v
      = Inr (WORKER_SUCCESS, d\<lparr>d_globals := \<lparr>g_list = None, g_locked = False,
          g_errors = word_of_nat (length (filter (\<lambda>wi. child_error (stat (wi_child wi))) wis))\<rparr>, d_world := w'\<rparr>, v') \<and>
      gru_status_success st2 = (\<not> test_failed stat wis) \<and>
      (if test_failed stat wis then failed st2 v else successful st2 v) = Some (st3, v'))"
proof -
  let ?d = "d\<lparr>d_globals := g1, d_world := w1\<rparr>"
  from clone_registers_all [OF assms(2)] assms(6) have c: "g_errors g1 = 0" "length wis = unat (wo_parallel_count (wk_options (mk dir)))" by auto
  have "unat (wo_parallel_count (wk_options (mk dir))) < 2 ^ 16" by (rule order.strict_trans2 [OF unsigned_less]) simp
  then have n: "wis \<noteq> []" "length wis < 2 ^ 32" using c(2) assms(5) by (auto simp: word_less_nat_alt)
  have g: "\<not> g_locked (d_globals ?d)" "g_list (d_globals ?d) = Some wis" "g_errors (d_globals ?d) = 0"
    using clone_unlocked [OF assms(2,4)] assms(6) c(1) by simp_all
  have e: "daemon_execute env failed successful mk start h fin d v = daemon_finish env failed successful h fin WORKER_SUCCESS wk st1 ?d v"
    using assms(1,2) by (simp add: daemon_execute_def Let_def worker_ret_defs)
  from finish_reports [where failed = failed and successful = successful and fin = fin and v = v and ret = WORKER_SUCCESS,
      OF g n assms(7,8,3,9,10,11,12)] c(2) show ?thesis unfolding e by auto
qed

text \<open>A daemon whose only child is killed, and notifications that are collected.\<close>

definition killed_denv :: "unit denv" where
  "killed_denv = sample_denv\<lparr>de_os := sample_os 40 9\<rparr>"

definition collect :: "bool \<Rightarrow> bool list notifier" where
  "collect ok st v = Some (st, v @ [ok])"

lemma killed_log_init:
  "worker_log_init (de_path_exists killed_denv) (de_mkdirs killed_denv) (de_log_dir killed_denv) St_New w
    = (True, log_dir_path ''/l'' (PATH_MAX - 1) 0, St_New, w)"
  using log_fill_first [of 0 "\<lambda>p st. (False, st)" "''/l''" "PATH_MAX - 1" St_New 0]
  by (simp add: killed_denv_def sample_denv_def worker_log_init_def worker_log_fill_last_dir_def status_simps INT_MAX_def)

theorem daemon_test_reports_witness:
  "\<exists>d'. daemon_execute killed_denv (collect False) (collect True) (\<lambda>dir. sample_cloned) sample_start (sample_handler 0)
      (\<lambda>wr st w. Some (st, w)) sample_daemon [] = Inr (WORKER_SUCCESS, d', [False]) \<and> g_list (d_globals d') = None"
proof -
  have d: "d_globals sample_daemon = sample_globals\<lparr>g_list := None\<rparr>" "d_world sample_daemon = ()"
    by (simp_all add: sample_daemon_def sample_globals_def)
  have e: "workers_ended killed_denv (\<lambda>pid. 9) [sample_child 40]"
    by (auto simp: workers_ended_def killed_denv_def sample_denv_def intro!: exI [of _ "\<lambda>_. 40"])
  have f: "test_failed (\<lambda>pid. 9) [sample_child 40 :: unit worker_info]" by (simp add: test_failed_def child_error_def signal_defs) code_simp
  have c: "worker_manager_clone (de_worker killed_denv) (de_os killed_denv) (de_config killed_denv) (de_writers killed_denv) sample_start
      sample_cloned (d_globals sample_daemon) St_New (d_world sample_daemon)
    = Inr (WORKER_SUCCESS, sample_cloned, sample_globals\<lparr>g_list := Some [sample_child 40]\<rparr>, St_New, ())"
    unfolding d using sample_clone [of 40 9] by (simp add: killed_denv_def sample_denv_def)
  have "0 < wo_parallel_count (wk_options sample_cloned)" by (simp add: sample_cloned_def sample_worker_def sample_options_def)
  from daemon_test_reports [where mk = "\<lambda>dir. sample_cloned" and failed = "collect False" and successful = "collect True" and h = "sample_handler 0" and
      fin = "\<lambda>wr st w. Some (st, w)" and stat = "\<lambda>pid. 9" and v = "[]", OF killed_log_init c _ _ this _ e] f
  show ?thesis by (auto simp: d collect_def sample_handler_def killed_denv_def sample_denv_def sample_globals_def)
qed

end
