(* ===== verification/Mqtt.thy ===== *)
theory Mqtt
  imports Note_Types Player Worker_Loops Wrapper
begin

text \<open>
  The MQTT wrapper: \<open>paho-wrapper.c\<close> and \<open>paho-context.c\<close> under \<open>src/api/paho-c\<close>. The
  Paho client library is a parameter; the locale \<open>mqtt_link\<close> says what is asked of it and of
  the broker, and is interpreted on a broker with a queue.
\<close>

section \<open>State and the client library\<close>

text \<open>The context behind \<open>api_context\<close> (the connection URL; the handlers it points to are passed
  to every function) in front of the state of the client and the broker.\<close>

record 'm paho =
  ph_uri :: gru_uri
  ph_client :: 'm

text \<open>
  The functions of \<open>MQTTClient.h\<close>, with the return codes of that library as integers; the
  functions of gru that the wrapper calls; the two allocation sizes. \<open>mq_receive\<close> returns
  the code and the payload of the message, \<^term>\<open>None\<close> for no message.
\<close>

record 'm mqtt_api =
  mq_create :: "string \<Rightarrow> string \<Rightarrow> 'm \<Rightarrow> int \<times> 'm"
  mq_connect :: "mqtt_connect_opts \<Rightarrow> 'm \<Rightarrow> int \<times> 'm"
  mq_disconnect :: "int \<Rightarrow> 'm \<Rightarrow> int \<times> 'm"
  mq_destroy :: "'m \<Rightarrow> 'm"
  mq_publish :: "string \<Rightarrow> mqtt_message \<Rightarrow> byte list \<Rightarrow> 'm \<Rightarrow> int \<times> int \<times> 'm"
  mq_wait :: "int \<Rightarrow> int \<Rightarrow> 'm \<Rightarrow> int \<times> 'm"
  mq_subscribe :: "string \<Rightarrow> int \<Rightarrow> 'm \<Rightarrow> int \<times> 'm"
  mq_subscribe_many :: "string list \<Rightarrow> int list \<Rightarrow> 'm \<Rightarrow> int \<times> 'm"
  mq_receive :: "nat \<Rightarrow> 'm \<Rightarrow> int \<times> byte list option \<times> 'm"
  mq_yield :: "'m \<Rightarrow> 'm"
  mq_version :: "string \<times> string"
  mq_uri_clone :: "gru_uri \<Rightarrow> gru_status \<Rightarrow> gru_uri \<times> gru_status"
  mq_uri_set_scheme :: "gru_uri \<Rightarrow> string \<Rightarrow> gru_uri option"
  mq_uri_format :: "gru_uri \<Rightarrow> gru_status \<Rightarrow> string \<times> gru_status"
  mq_now :: "'m \<Rightarrow> timestamp \<times> 'm"
  mq_time_write :: "timestamp \<Rightarrow> string"
  mq_time_read :: "string \<Rightarrow> timestamp"
  mq_asprintf :: bool
  mq_alloc :: gru_allocator
  mq_append :: bool
  mq_sizeof_msg_ctxt :: nat
  mq_sizeof_paho_ctxt :: nat

definition MQTTCLIENT_SUCCESS :: int where "MQTTCLIENT_SUCCESS = 0"
definition MQTTCLIENT_TOPICNAME_TRUNCATED :: int where "MQTTCLIENT_TOPICNAME_TRUNCATED = - 7"

lemmas mqtt_code_defs = MQTTCLIENT_SUCCESS_def MQTTCLIENT_TOPICNAME_TRUNCATED_def

section \<open>Contexts\<close>

text \<open>The context is zeroed memory with the handlers in it; \<open>zero\<close> is the zeroed URL.\<close>

definition paho_context_init :: "'m mqtt_api \<Rightarrow> gru_uri \<Rightarrow> gru_status \<Rightarrow> gru_uri option \<times> gru_status" where
  "paho_context_init mq zero st = (case mq_alloc mq (mq_sizeof_paho_ctxt mq) of
     Some m \<Rightarrow> (None, alloc_fail m)
   | None \<Rightarrow> (Some zero, st))"

section \<open>Operations\<close>

text \<open>The copy of the options replaces the default statistics. The error exit frees the
  messaging context only.\<close>

definition paho_init :: "'m mqtt_api \<Rightarrow> msg_opt \<Rightarrow> handlers \<Rightarrow> gru_status \<Rightarrow> 'm paho \<Rightarrow>
    (msg_ctxt option \<times> handlers \<times> gru_status \<times> 'm paho) undef" where
  "paho_init mq opt h st w =
    (case msg_ctxt_init (mq_alloc mq) (mq_sizeof_msg_ctxt mq) st of
       (None, st1) \<Rightarrow> Some (None, h, st1, w)
     | (Some c, st1) \<Rightarrow>
        (case paho_context_init mq null_uri st1 of
           (None, st2) \<Rightarrow> Some (msg_ctxt_destroy (Some c), h, st2, w)
         | (Some pc, st2) \<Rightarrow>
            (case mq_uri_clone mq (mo_uri opt) st2 of (uri, st3) \<Rightarrow>
             case mq_uri_set_scheme mq uri ''tcp'' of
               None \<Rightarrow> Some (msg_ctxt_destroy (Some c), h, st3, w)
             | Some uri' \<Rightarrow> do {
                 (h1, st4) \<leftarrow> paho_set_default_parameters (mq_alloc mq) (mq_append mq) (h, st3);
                 (h2, st5) \<leftarrow> paho_set_user_parameters (mq_alloc mq) (mq_append mq) (mo_direction opt) (uri_query (mo_uri opt)) (h1, st4);
                 Some (Some (c\<lparr>msg_opts := opt\<rparr>), h2, st5, w\<lparr>ph_uri := uri'\<rparr>)
               })))"

text \<open>The callbacks that may stand in \<open>before_connect\<close>, by address; \<open>will\<close> is
  \<open>maestro_notify_abnormal_disconnect\<close>.\<close>

fun connect_callback :: "(mqtt_connect_opts \<Rightarrow> mqtt_connect_opts undef) \<Rightarrow> callback_fn \<Rightarrow> cb_arg \<Rightarrow>
    mqtt_connect_opts \<Rightarrow> mqtt_connect_opts undef" where
  "connect_callback will CB_keep_alive_interval a opts = Some (paho_set_keep_alive_interval (arg_variant a) opts)"
| "connect_callback will CB_clean_session a opts = Some (paho_set_clean_session (arg_variant a) opts)"
| "connect_callback will CB_abnormal_disconnect a opts = will opts"
| "connect_callback will f a opts = None"

text \<open>\<open>MQTTClient_connectOptions_initializer\<close> of the client library, for the fields the callbacks set.\<close>

definition connect_initializer :: mqtt_connect_opts where
  "connect_initializer = \<lparr>keepAliveInterval = 60, cleansession = 1, mqtt_will = None\<rparr>"

definition paho_start :: "'m mqtt_api \<Rightarrow> (mqtt_connect_opts \<Rightarrow> mqtt_connect_opts undef) \<Rightarrow> msg_ctxt \<Rightarrow> handlers \<Rightarrow>
    gru_status \<Rightarrow> 'm paho \<Rightarrow> (vmsl_stat \<times> gru_status \<times> 'm paho) undef" where
  "paho_start mq will c h st w =
    (case mq_uri_format mq (ph_uri w) st of (url, st1) \<Rightarrow>
     case mq_create mq url (mo_conn_id (msg_opts c)) (ph_client w) of (rc, m1) \<Rightarrow>
       if rc \<noteq> MQTTCLIENT_SUCCESS then
         Some (VMSL_ERROR, St_Set GRU_FAILURE (''Unable to create MQTT client handle: '' @ int_dec rc), w\<lparr>ph_client := m1\<rparr>)
       else do {
         opts \<leftarrow> vmslh_run (connect_callback will) (before_connect h) connect_initializer;
         (case mq_connect mq opts m1 of (rc2, m2) \<Rightarrow>
            if rc2 \<noteq> MQTTCLIENT_SUCCESS then
              Some (VMSL_ERROR, St_Set GRU_FAILURE (''Unable to connect: '' @ int_dec rc2), w\<lparr>ph_client := m2\<rparr>)
            else do {
              u \<leftarrow> run_other (after_connect h);
              Some (VMSL_SUCCESS, st1, w\<lparr>ph_client := m2\<rparr>)
            })
       })"

text \<open>The result of the disconnection is only logged.\<close>

definition paho_stop :: "'m mqtt_api \<Rightarrow> msg_ctxt option \<Rightarrow> gru_status \<Rightarrow> 'm paho \<Rightarrow> (gru_status \<times> 'm paho) undef" where
  "paho_stop mq c st w = do {
     c' \<leftarrow> c;
     Some (st, w\<lparr>ph_client := snd (mq_disconnect mq 10000 (ph_client w))\<rparr>)
   }"

definition paho_destroy :: "'m mqtt_api \<Rightarrow> msg_ctxt option \<Rightarrow> gru_status \<Rightarrow> 'm paho \<Rightarrow> (gru_status \<times> 'm paho) undef" where
  "paho_destroy mq c st w = do {
     c' \<leftarrow> c;
     Some (st, w\<lparr>ph_client := mq_destroy mq (ph_client w), ph_uri := null_uri\<rparr>)
   }"

definition TS_SIZE :: nat where
  "TS_SIZE = 18"

text \<open>
  The text of \<open>asprintf\<close> with \<open>\%18s\%s\<close>, as the block it allocates: the time padded to
  18 characters, the data up to its first zero byte, and a zero byte. Data without a
  zero byte in its block is read past the end. When the text cannot be allocated the
  size stays 0.
\<close>

definition pad18 :: "string \<Rightarrow> string" where
  "pad18 s = replicate (TS_SIZE - length s) (CHR '' '') @ s"

definition paho_serialize_latency_info :: "'m mqtt_api \<Rightarrow> msg_content \<Rightarrow> 'm \<Rightarrow> (byte list \<times> nat \<times> 'm) undef" where
  "paho_serialize_latency_info mq content m =
    (case mq_now mq m of (ts, m1) \<Rightarrow> do {
       data \<leftarrow> mc_data content;
       if NUL \<notin> set data then None
       else if \<not> mq_asprintf mq then Some ([], 0, m1)
       else Some (pad18 (mq_time_write mq ts) @ cstr data @ [NUL], TS_SIZE + unat (mc_size content), m1)
     })"

text \<open>The bytes the client library reads: \<open>payloadlen\<close> of them from the block.\<close>

definition read_payload :: "byte list \<Rightarrow> nat \<Rightarrow> byte list undef" where
  "read_payload block n = (if n \<le> length block then Some (take n block) else None)"

definition message_initializer :: mqtt_message where
  "message_initializer = \<lparr>mqtt_qos = 0, mqtt_retained = False\<rparr>"

definition paho_publish :: "'m mqtt_api \<Rightarrow> msg_ctxt \<Rightarrow> handlers \<Rightarrow> byte list undef \<Rightarrow> 'm \<Rightarrow> (int \<times> int \<times> 'm) undef" where
  "paho_publish mq c h payload m = do {
     pubmsg \<leftarrow> vmslh_run message_callback (before_send h) message_initializer;
     bs \<leftarrow> payload;
     (case mq_publish mq (uri_path (mo_uri (msg_opts c))) pubmsg bs m of (rc, token, m1) \<Rightarrow> do {
        after \<leftarrow> vmslh_run message_callback (after_send h) pubmsg;
        Some (rc, token, m1)
      })
   }"

definition paho_confirm :: "'m mqtt_api \<Rightarrow> int \<times> int \<times> 'm \<Rightarrow> gru_status \<Rightarrow> vmsl_stat \<times> gru_status \<times> 'm" where
  "paho_confirm mq p st =
    (case p of (rc, token, m) \<Rightarrow>
       if rc \<noteq> MQTTCLIENT_SUCCESS then
         (VMSL_ERROR, St_Set GRU_FAILURE (''Unable to publish the message: error '' @ int_dec rc), m)
       else case mq_wait mq token 10000 m of (rc2, m2) \<Rightarrow>
         if rc2 \<noteq> MQTTCLIENT_SUCCESS then
           (VMSL_ERROR, St_Set GRU_FAILURE (''Unable to synchronize: error '' @ int_dec rc2), m2)
         else (VMSL_SUCCESS, st, m2))"

definition too_big :: gru_status where
  "too_big = St_Set GRU_FAILURE ''Data to big to serialize on MQTT protocol: max %d / size: %ld''"

definition paho_send :: "'m mqtt_api \<Rightarrow> msg_ctxt \<Rightarrow> handlers \<Rightarrow> msg_content \<Rightarrow> gru_status \<Rightarrow> 'm paho \<Rightarrow>
    (vmsl_stat \<times> msg_content \<times> gru_status \<times> 'm paho) undef" where
  "paho_send mq c h data st w =
    (if mo_statistics (msg_opts c) AND MSG_STAT_LATENCY \<noteq> 0 then
       if word_of_nat INT_MAX < mc_size data + word_of_nat TS_SIZE then Some (VMSL_ERROR, data, too_big, w)
       else do {
         (block, n, m1) \<leftarrow> paho_serialize_latency_info mq data (ph_client w);
         p \<leftarrow> paho_publish mq c h (read_payload block n) m1;
         (case paho_confirm mq p st of (ret, st', m2) \<Rightarrow> Some (ret, data, st', w\<lparr>ph_client := m2\<rparr>))
       }
     else
       if word_of_nat INT_MAX < mc_size data then Some (VMSL_ERROR, data, too_big, w)
       else do {
         p \<leftarrow> paho_publish mq c h (content_bytes data) (ph_client w);
         (case paho_confirm mq p st of (ret, st', m2) \<Rightarrow> Some (ret, data, st', w\<lparr>ph_client := m2\<rparr>))
       })"

definition QOS_AT_MOST_ONCE :: int where
  "QOS_AT_MOST_ONCE = 1"

text \<open>The quality of service of the topics is one number for all of them. A negative count is the
  length of an array, which is undefined; so is a count beyond the topics.\<close>

definition paho_subscribe :: "'m mqtt_api \<Rightarrow> msg_ctxt \<Rightarrow> mtopic_spec option \<Rightarrow> gru_status \<Rightarrow> 'm paho \<Rightarrow>
    (vmsl_stat \<times> gru_status \<times> 'm paho) undef" where
  "paho_subscribe mq c mtopic st w = do {
     (rc, m1) \<leftarrow> (case mtopic of
        None \<Rightarrow> Some (mq_subscribe mq (uri_path (ph_uri w)) QOS_AT_MOST_ONCE (ph_client w))
      | Some t \<Rightarrow>
         (if 0 < mt_count t \<and> mt_count t \<le> int (length (mt_topics t))
          then Some (mq_subscribe_many mq (take (nat (mt_count t)) (mt_topics t)) (replicate (nat (mt_count t)) (mt_qos t)) (ph_client w))
          else None));
     if rc \<noteq> MQTTCLIENT_SUCCESS then
       Some (VMSL_ERROR, St_Set GRU_FAILURE (''Unable to subscribe: error '' @ int_dec rc), w\<lparr>ph_client := m1\<rparr>)
     else Some (VMSL_SUCCESS, st, w\<lparr>ph_client := m1\<rparr>)
   }"

text \<open>\<open>sscanf\<close> with \<open>\%17s\<close>: blanks are skipped, then at most 17 characters are read up to the next
  blank or the end of the string. The payload is taken for a string: without a zero byte it is read past its end.\<close>

definition is_blank :: "char \<Rightarrow> bool" where
  "is_blank c = (c = CHR '' '' \<or> (of_char c :: nat) \<in> {9..13})"

definition scan17 :: "byte list \<Rightarrow> string undef" where
  "scan17 bs = (if NUL \<notin> set bs then None
     else Some (takeWhile (\<lambda>b. \<not> is_blank b) (take 17 (dropWhile is_blank (cstr bs)))))"

text \<open>
  The copy of the payload: a message longer than the block is cut to the capacity less
  one, but the size of the content is that of the whole message. The message itself is
  never freed.
\<close>

definition store_payload :: "byte list \<Rightarrow> msg_content \<Rightarrow> msg_content undef" where
  "store_payload bs c = do {
     data \<leftarrow> mc_data c;
     data' \<leftarrow> overlay (if unat (mc_capacity c) < length bs then take (unat (mc_capacity c - 1)) bs else bs) data;
     Some (c\<lparr>mc_data := Some data', mc_size := word_of_nat (length bs)\<rparr>)
   }"

definition paho_receive :: "'m mqtt_api \<Rightarrow> msg_ctxt \<Rightarrow> handlers \<Rightarrow> msg_content \<Rightarrow> gru_status \<Rightarrow> 'm paho \<Rightarrow>
    (vmsl_stat \<times> msg_content \<times> gru_status \<times> 'm paho) undef" where
  "paho_receive mq c h content st w = do {
     before \<leftarrow> run_other (before_receive h);
     (case mq_receive mq 10000 (ph_client w) of (rc, msg, m1) \<Rightarrow>
        let w1 = w\<lparr>ph_client := m1\<rparr> in
        if rc = MQTTCLIENT_SUCCESS \<and> msg = None then
          Some (VMSL_SUCCESS OR VMSL_NO_DATA, content, st, w1\<lparr>ph_client := mq_yield mq m1\<rparr>)
        else if rc \<noteq> MQTTCLIENT_SUCCESS \<and> rc \<noteq> MQTTCLIENT_TOPICNAME_TRUNCATED then
          Some (VMSL_ERROR, content, St_Set GRU_FAILURE (''Unable to receive data: error '' @ int_dec rc), w1)
        else do {
          after \<leftarrow> run_other (after_receive h);
          bs \<leftarrow> msg;
          content1 \<leftarrow> (if mo_statistics (msg_opts c) AND MSG_STAT_LATENCY \<noteq> 0
            then map_option (\<lambda>header. content\<lparr>mc_created := mq_time_read mq header\<rparr>) (scan17 bs) else Some content);
          content2 \<leftarrow> store_payload bs content1;
          Some (VMSL_SUCCESS, content2, st, w1)
        })
   }"

definition paho_info :: "'m mqtt_api \<Rightarrow> string \<times> string" where
  "paho_info mq = mq_version mq"

definition paho_wrapper :: "'m mqtt_api \<Rightarrow> (mqtt_connect_opts \<Rightarrow> mqtt_connect_opts undef) \<Rightarrow> 'm paho wrapper" where
  "paho_wrapper mq will = \<lparr>wr_init = paho_init mq, wr_start = paho_start mq will, wr_send = paho_send mq,
     wr_subscribe = paho_subscribe mq, wr_receive = paho_receive mq, wr_stop = paho_stop mq, wr_destroy = paho_destroy mq,
     wr_info = paho_info mq\<rparr>"

definition paho_vmsl_assign :: "'m mqtt_api \<Rightarrow> (mqtt_connect_opts \<Rightarrow> mqtt_connect_opts undef) \<Rightarrow>
    'm paho option vmsl \<Rightarrow> bool \<times> 'm paho option vmsl" where
  "paho_vmsl_assign mq will v = (True, wrapper_table (paho_wrapper mq will))"

section \<open>What the wrapper promises\<close>

text \<open>
  What is asked of the client library and the broker between a sender and a receiver:
  a message published on a topic the receiver has subscribed to is appended to its
  inbox, the other calls of a send leave the inbox alone, and a receive takes the first
  message of it.
\<close>

locale mqtt_link =
  fixes mq :: "'m mqtt_api" and inbox :: "'m \<Rightarrow> byte list list" and topics :: "string set"
  assumes publish_appends: "t \<in> topics \<Longrightarrow>
      \<exists>token m'. mq_publish mq t msg bs m = (MQTTCLIENT_SUCCESS, token, m') \<and> inbox m' = inbox m @ [bs]"
    and wait_succeeds: "\<exists>m'. mq_wait mq token n m = (MQTTCLIENT_SUCCESS, m') \<and> inbox m' = inbox m"
    and receive_first: "inbox m = bs # bss \<Longrightarrow>
      \<exists>m'. mq_receive mq timeout m = (MQTTCLIENT_SUCCESS, Some bs, m') \<and> inbox m' = bss"

text \<open>A connection whose callbacks are defined: those that run before a send leave \<open>pub\<close>.\<close>

definition callbacks_ready :: "handlers \<Rightarrow> bool" where
  "callbacks_ready h = ((\<exists>pub pub'. vmslh_run message_callback (before_send h) message_initializer = Some pub \<and>
     vmslh_run message_callback (after_send h) pub = Some pub') \<and>
     run_other (before_receive h) = Some () \<and> run_other (after_receive h) = Some ())"

definition sendable :: "msg_content \<Rightarrow> byte list \<Rightarrow> bool" where
  "sendable d bs = (content_bytes d = Some bs \<and> length bs \<le> INT_MAX)"

lemma store_payload_fits:
  assumes "room_for (length bs) r"
  shows "\<exists>r'. store_payload bs r = Some r' \<and> content_bytes r' = Some bs \<and> content_wf r' \<and>
    mc_capacity r' = mc_capacity r \<and> mc_created r' = mc_created r"
proof -
  obtain d where d: "mc_data r = Some d" "length d = unat (mc_capacity r)" "length bs \<le> length d"
    using assms by (auto simp: room_for_def)
  have "unat (mc_capacity r) < 2 ^ LENGTH(64)" by (rule unsigned_less)
  with d have "length bs < 2 ^ 64" by simp
  then have "unat (word_of_nat (length bs) :: u64) = length bs" by (rule unat_word_of_nat64)
  with d show ?thesis
    by (auto simp: store_payload_def overlay_def content_bytes_def content_wf_def word_le_nat_alt)
qed

lemma message_size_ok: "sendable d bs \<Longrightarrow> \<not> (word_of_nat INT_MAX < mc_size d)"
  by (auto simp: sendable_def word_less_nat_alt INT_MAX_def dest!: content_bytes_length)

context mqtt_link begin

lemma confirm_publish:
  assumes "callbacks_ready h" and "uri_path (mo_uri (msg_opts c)) \<in> topics"
  shows "\<exists>p m'. paho_publish mq c h (Some bs) m = Some p \<and> paho_confirm mq p st = (VMSL_SUCCESS, st, m') \<and>
    inbox m' = inbox m @ [bs]"
proof -
  obtain pub pub' where p: "vmslh_run message_callback (before_send h) message_initializer = Some pub"
    "vmslh_run message_callback (after_send h) pub = Some pub'" using assms(1) by (auto simp: callbacks_ready_def)
  obtain token m1 where m1: "mq_publish mq (uri_path (mo_uri (msg_opts c))) pub bs m = (MQTTCLIENT_SUCCESS, token, m1)"
    "inbox m1 = inbox m @ [bs]" using publish_appends [OF assms(2)] by blast
  obtain m2 where "mq_wait mq token 10000 m1 = (MQTTCLIENT_SUCCESS, m2)" "inbox m2 = inbox m1" using wait_succeeds by blast
  with p m1 show ?thesis by (simp add: paho_publish_def paho_confirm_def)
qed

text \<open>A message sent without statistics goes into the inbox as it is.\<close>

lemma send_plain:
  assumes "callbacks_ready h" and "uri_path (mo_uri (msg_opts c)) \<in> topics" and "plain_stats c" and "sendable d bs"
  shows "\<exists>w'. paho_send mq c h d st w = Some (VMSL_SUCCESS, d, st, w') \<and> inbox (ph_client w') = inbox (ph_client w) @ [bs]"
proof -
  obtain p m' where "paho_publish mq c h (Some bs) (ph_client w) = Some p" "paho_confirm mq p st = (VMSL_SUCCESS, st, m')"
    "inbox m' = inbox (ph_client w) @ [bs]" using confirm_publish [OF assms(1,2)] by blast
  with assms(3,4) message_size_ok [OF assms(4)] show ?thesis
    by (simp add: paho_send_def plain_stats_def sendable_def)
qed

text \<open>A message that fits is received whole.\<close>

lemma receive_plain:
  assumes "callbacks_ready h" and "plain_stats c" and "inbox (ph_client w) = bs # bss" and "room_for (length bs) r"
  shows "\<exists>r' w'. paho_receive mq c h r st w = Some (VMSL_SUCCESS, r', st, w') \<and> content_bytes r' = Some bs \<and>
    content_wf r' \<and> inbox (ph_client w') = bss"
proof -
  obtain m' where "mq_receive mq 10000 (ph_client w) = (MQTTCLIENT_SUCCESS, Some bs, m')" "inbox m' = bss"
    using receive_first [OF assms(3)] by blast
  moreover obtain r' where "store_payload bs r = Some r'" "content_bytes r' = Some bs" "content_wf r'"
    using store_payload_fits [OF assms(4)] by blast
  ultimately show ?thesis
    using assms(1,2) by (simp add: paho_receive_def callbacks_ready_def plain_stats_def Let_def)
qed

end

text \<open>A sequence of sends, and a sequence of receives into fresh copies of one block.\<close>

fun send_all :: "'m mqtt_api \<Rightarrow> msg_ctxt \<Rightarrow> handlers \<Rightarrow> msg_content list \<Rightarrow> 'm paho \<Rightarrow> 'm paho undef" where
  "send_all mq c h [] w = Some w"
| "send_all mq c h (d # ds) w = do {
     (ret, d', st', w') \<leftarrow> paho_send mq c h d St_New w;
     if ret = VMSL_SUCCESS then send_all mq c h ds w' else None
   }"

fun receive_all :: "'m mqtt_api \<Rightarrow> msg_ctxt \<Rightarrow> handlers \<Rightarrow> msg_content \<Rightarrow> nat \<Rightarrow> 'm paho \<Rightarrow> (msg_content list \<times> 'm paho) undef" where
  "receive_all mq c h r 0 w = Some ([], w)"
| "receive_all mq c h r (Suc n) w = do {
     (ret, r', st', w') \<leftarrow> paho_receive mq c h r St_New w;
     if ret = VMSL_SUCCESS then do { (rs, w'') \<leftarrow> receive_all mq c h r n w'; Some (r' # rs, w'') } else None
   }"

context mqtt_link begin

lemma send_all_appends:
  assumes "callbacks_ready h" and "uri_path (mo_uri (msg_opts c)) \<in> topics" and "plain_stats c" and "list_all2 sendable ds bss"
  shows "\<exists>w'. send_all mq c h ds w = Some w' \<and> inbox (ph_client w') = inbox (ph_client w) @ bss"
  using assms(4)
proof (induction arbitrary: w rule: list_all2_induct)
  case (Cons d ds bs bss)
  obtain w1 where w1: "paho_send mq c h d St_New w = Some (VMSL_SUCCESS, d, St_New, w1)"
    "inbox (ph_client w1) = inbox (ph_client w) @ [bs]" using send_plain [OF assms(1-3) Cons.hyps(1)] by blast
  with Cons.IH [of w1] show ?case by auto
qed simp

lemma receive_all_inbox:
  assumes "callbacks_ready h" and "plain_stats c" and "inbox (ph_client w) = bss @ rest" and "\<forall>bs \<in> set bss. room_for (length bs) r"
  shows "\<exists>rs w'. receive_all mq c h r (length bss) w = Some (rs, w') \<and> map content_bytes rs = map Some bss \<and>
    list_all content_wf rs \<and> inbox (ph_client w') = rest"
  using assms(3,4)
proof (induction bss arbitrary: w)
  case (Cons bs bss)
  obtain r' w1 where w1: "paho_receive mq c h r St_New w = Some (VMSL_SUCCESS, r', St_New, w1)"
    "content_bytes r' = Some bs" "content_wf r'" "inbox (ph_client w1) = bss @ rest"
    using receive_plain [OF assms(1,2), of w bs "bss @ rest" r St_New] Cons.prems by auto
  with Cons.IH [of w1] Cons.prems(2) show ?case by auto
qed simp

end

section \<open>A broker\<close>

text \<open>A broker with one inbox and a log of what was published where; connecting and subscribing
  always succeed.\<close>

record queue_broker =
  qb_inbox :: "byte list list"
  qb_log :: "(string \<times> mqtt_message) list"

definition queue_mqtt :: "(timestamp \<Rightarrow> string) \<Rightarrow> (string \<Rightarrow> timestamp) \<Rightarrow> timestamp \<Rightarrow> queue_broker mqtt_api" where
  "queue_mqtt wr rd now = \<lparr>mq_create = (\<lambda>u i m. (0, m)), mq_connect = (\<lambda>o' m. (0, m)), mq_disconnect = (\<lambda>n m. (0, m)),
     mq_destroy = (\<lambda>m. m),
     mq_publish = (\<lambda>t msg bs m. (0, 1, m\<lparr>qb_inbox := qb_inbox m @ [bs], qb_log := qb_log m @ [(t, msg)]\<rparr>)),
     mq_wait = (\<lambda>tok n m. (0, m)), mq_subscribe = (\<lambda>t q m. (0, m)), mq_subscribe_many = (\<lambda>ts qs m. (0, m)),
     mq_receive = (\<lambda>n m. case qb_inbox m of [] \<Rightarrow> (0, None, m) | bs # bss \<Rightarrow> (0, Some bs, m\<lparr>qb_inbox := bss\<rparr>)),
     mq_yield = (\<lambda>m. m), mq_version = (''paho'', ''1.2''), mq_uri_clone = (\<lambda>u st. (u, st)),
     mq_uri_set_scheme = (\<lambda>u s. Some (u\<lparr>uri_scheme := Some s\<rparr>)), mq_uri_format = (\<lambda>u st. (uri_path u, st)),
     mq_now = (\<lambda>m. (now, m)), mq_time_write = wr, mq_time_read = rd, mq_asprintf = True,
     mq_alloc = (\<lambda>n. None), mq_append = True, mq_sizeof_msg_ctxt = 80, mq_sizeof_paho_ctxt = 80\<rparr>"

text \<open>The two ends that a player has of the client library: what arrives on the topics it subscribed to, and what it
  publishes, on any topic.\<close>

locale mqtt_ends =
  fixes mq :: "'m mqtt_api" and h :: handlers and incoming :: "'m \<Rightarrow> byte list list" and published :: "'m \<Rightarrow> (string \<times> byte list) list"
  assumes ready: "callbacks_ready h"
    and publish_logs: "\<exists>token m'. mq_publish mq t msg bs m = (MQTTCLIENT_SUCCESS, token, m') \<and>
      published m' = published m @ [(t, bs)] \<and> incoming m' = incoming m"
    and wait_keeps: "\<exists>m'. mq_wait mq token n m = (MQTTCLIENT_SUCCESS, m') \<and> published m' = published m \<and> incoming m' = incoming m"
    and receive_next: "incoming m = bs # bss \<Longrightarrow>
      \<exists>m'. mq_receive mq timeout m = (MQTTCLIENT_SUCCESS, Some bs, m') \<and> incoming m' = bss \<and> published m' = published m"
    and receive_timeout: "incoming m = [] \<Longrightarrow>
      \<exists>m'. mq_receive mq timeout m = (MQTTCLIENT_SUCCESS, None, m') \<and> incoming m' = [] \<and> published m' = published m"
    and yield_keeps: "incoming (mq_yield mq m) = incoming m" "published (mq_yield mq m) = published m"
begin

lemma receives_note:
  assumes "incoming (ph_client w) = bs # bss" and "length bs \<le> 256" and "note_block d" and "mo_statistics (msg_opts c) = MSG_STAT_NONE"
  shows "\<exists>d' w'. paho_receive mq c h d st w = Some (VMSL_SUCCESS, d', st, w') \<and> content_bytes d' = Some bs \<and> note_block d' \<and>
    incoming (ph_client w') = bss \<and> published (ph_client w') = published (ph_client w)"
proof -
  obtain m' where m: "mq_receive mq 10000 (ph_client w) = (MQTTCLIENT_SUCCESS, Some bs, m')" "incoming m' = bss"
    "published m' = published (ph_client w)" using receive_next [OF assms(1)] by blast
  obtain b where "mc_data d = Some b" "length b = 256" "mc_capacity d = 256" using assms(3) by (auto simp: note_block_def MAESTRO_NOTE_SIZE_def)
  then have "\<exists>d'. store_payload bs d = Some d' \<and> content_bytes d' = Some bs \<and> note_block d'"
    using assms(2) by (auto simp: store_payload_def overlay_def content_bytes_def note_block_def MAESTRO_NOTE_SIZE_def unat_word_of_nat64 word_le_nat_alt)
  with m ready assms(4) show ?thesis by (auto simp: paho_receive_def callbacks_ready_def MSG_STAT_NONE_def Let_def)
qed

lemma receives_nothing:
  assumes "incoming (ph_client w) = []"
  shows "\<exists>w'. paho_receive mq c h d st w = Some (VMSL_SUCCESS OR VMSL_NO_DATA, d, st, w') \<and>
    incoming (ph_client w') = [] \<and> published (ph_client w') = published (ph_client w)"
  using receive_timeout [OF assms, of 10000] ready by (auto simp: paho_receive_def callbacks_ready_def Let_def yield_keeps)

lemma sends_note:
  assumes "content_bytes d = Some bs" and "length bs < 2 ^ 31" and "mo_statistics (msg_opts c) = MSG_STAT_NONE"
  shows "\<exists>w'. paho_send mq c h d st w = Some (VMSL_SUCCESS, d, st, w') \<and> incoming (ph_client w') = incoming (ph_client w) \<and>
    published (ph_client w') = published (ph_client w) @ [(uri_path (mo_uri (msg_opts c)), bs)]"
proof -
  obtain pub pub' where p: "vmslh_run message_callback (before_send h) message_initializer = Some pub"
    "vmslh_run message_callback (after_send h) pub = Some pub'" using ready by (auto simp: callbacks_ready_def)
  obtain token m1 where m1: "mq_publish mq (uri_path (mo_uri (msg_opts c))) pub bs (ph_client w) = (MQTTCLIENT_SUCCESS, token, m1)"
    "published m1 = published (ph_client w) @ [(uri_path (mo_uri (msg_opts c)), bs)]" "incoming m1 = incoming (ph_client w)" using publish_logs by blast
  obtain m2 where m2: "mq_wait mq token 10000 m1 = (MQTTCLIENT_SUCCESS, m2)" "published m2 = published m1" "incoming m2 = incoming m1"
    using wait_keeps by blast
  have "sendable d bs" using assms(1,2) by (simp add: sendable_def INT_MAX_def)
  from message_size_ok [OF this] p m1 m2 assms(1,3) show ?thesis
    by (simp add: paho_send_def paho_publish_def paho_confirm_def MSG_STAT_NONE_def)
qed

end

sublocale mqtt_ends < paho: note_link "the (v_receive (snd (paho_vmsl_assign mq will v)))" "the (v_send (snd (paho_vmsl_assign mq will v)))" h
    "\<lambda>w. w \<noteq> None" "\<lambda>w. incoming (ph_client (the w))" "\<lambda>w. published (ph_client (the w))" for will v
proof
  fix w :: "'m paho option" and bs bss and d :: msg_content and c :: msg_ctxt
  assume "w \<noteq> None" and i: "incoming (ph_client (the w)) = bs # bss" "length bs \<le> 256" "note_block d" "mo_statistics (msg_opts c) = MSG_STAT_NONE"
  then show "\<exists>d' w'. the (v_receive (snd (paho_vmsl_assign mq will v))) c h d St_New w = (VMSL_SUCCESS, d', St_New, w') \<and>
      content_bytes d' = Some bs \<and> note_block d' \<and> w' \<noteq> None \<and> incoming (ph_client (the w')) = bss \<and>
      published (ph_client (the w')) = published (ph_client (the w))"
    using receives_note [OF i, of St_New] table_receive_ok [where x = "paho_wrapper mq will"]
    by (fastforce simp: paho_vmsl_assign_def paho_wrapper_def)
next
  fix w :: "'m paho option" and d :: msg_content and c :: msg_ctxt
  assume "w \<noteq> None" and i: "incoming (ph_client (the w)) = []" and n: "note_block d"
  then show "\<exists>d' st' w'. the (v_receive (snd (paho_vmsl_assign mq will v))) c h d St_New w = (VMSL_SUCCESS OR VMSL_NO_DATA, d', st', w') \<and>
      note_block d' \<and> w' \<noteq> None \<and> incoming (ph_client (the w')) = [] \<and> published (ph_client (the w')) = published (ph_client (the w))"
    using receives_nothing [OF i, of c d St_New] table_receive_ok [where x = "paho_wrapper mq will"]
    by (fastforce simp: paho_vmsl_assign_def paho_wrapper_def)
next
  fix w :: "'m paho option" and d :: msg_content and bs and c :: msg_ctxt
  assume "w \<noteq> None" and i: "content_bytes d = Some bs" "length bs < 2 ^ 31" "mo_statistics (msg_opts c) = MSG_STAT_NONE"
  then show "\<exists>ret d' st' w'. the (v_send (snd (paho_vmsl_assign mq will v))) c h d St_New w = (ret, d', st', w') \<and> w' \<noteq> None \<and>
      incoming (ph_client (the w')) = incoming (ph_client (the w)) \<and>
      published (ph_client (the w')) = published (ph_client (the w)) @ [(uri_path (mo_uri (msg_opts c)), bs)]"
    using sends_note [OF i, of St_New "the w"] table_send_ok [where x = "paho_wrapper mq will"]
    by (fastforce simp: paho_vmsl_assign_def paho_wrapper_def)
qed

interpretation queue_mqtt: mqtt_link "queue_mqtt wr rd now" qb_inbox UNIV for wr rd now
  by unfold_locales (auto simp: queue_mqtt_def mqtt_code_defs)

section \<open>Properties\<close>

text \<open>
  Property C7, mqtt_delivers. Over a broker that keeps its contract, messages sent through the
  MQTT wrapper without latency statistics are received in the order they were sent and
  with exactly their bytes, as long as each fits the block it is received into.
\<close>

theorem mqtt_delivers:
  assumes "mqtt_link mq inbox topics" and "callbacks_ready h" and "callbacks_ready h'"
    and "plain_stats c" and "plain_stats c'" and "uri_path (mo_uri (msg_opts c)) \<in> topics"
    and "list_all2 sendable ds bss" and "\<forall>bs \<in> set bss. room_for (length bs) r" and "inbox (ph_client w) = []"
  shows "\<exists>w1. send_all mq c h ds w = Some w1 \<and>
    (\<forall>v. ph_client v = ph_client w1 \<longrightarrow>
      (\<exists>rs v'. receive_all mq c' h' r (length ds) v = Some (rs, v') \<and> map content_bytes rs = map content_bytes ds \<and>
        list_all content_wf rs \<and> inbox (ph_client v') = []))"
proof -
  obtain w1 where w1: "send_all mq c h ds w = Some w1" "inbox (ph_client w1) = bss"
    using mqtt_link.send_all_appends [OF assms(1,2,6,4,7), of w] assms(9) by auto
  have "map content_bytes ds = map Some bss" using assms(7) by (induction rule: list_all2_induct) (auto simp: sendable_def)
  moreover have "length ds = length bss" using assms(7) by (rule list_all2_lengthD)
  ultimately show ?thesis
    using w1 mqtt_link.receive_all_inbox [OF assms(1,3,5) _ assms(8), where rest = "[]"] by fastforce
qed

definition sample_mqtt :: "queue_broker mqtt_api" where
  "sample_mqtt = queue_mqtt (\<lambda>t. int_dec (tv_sec t)) (\<lambda>s. zero_ts) \<lparr>tv_sec = 7, tv_usec = 0\<rparr>"

definition mqtt_ctxt :: "u32 \<Rightarrow> msg_ctxt" where
  "mqtt_ctxt stats = \<lparr>msg_opts = null_opt\<lparr>mo_statistics := stats, mo_uri := null_uri\<lparr>uri_path := ''/t''\<rparr>\<rparr>\<rparr>"

definition mqtt_world :: "queue_broker paho" where
  "mqtt_world = \<lparr>ph_uri = null_uri, ph_client = \<lparr>qb_inbox = [], qb_log = []\<rparr>\<rparr>"

definition mqtt_block :: "nat \<Rightarrow> msg_content" where
  "mqtt_block n = \<lparr>mc_data = Some (zero_block n), mc_capacity = word_of_nat n, mc_size = 0, mc_created = zero_ts\<rparr>"

definition mqtt_message_of :: "byte list \<Rightarrow> msg_content" where
  "mqtt_message_of bs = \<lparr>mc_data = Some bs, mc_capacity = word_of_nat (length bs), mc_size = word_of_nat (length bs), mc_created = zero_ts\<rparr>"

lemma mqtt_ctxt_plain [simp]: "plain_stats (mqtt_ctxt 0)"
  by (simp add: plain_stats_def mqtt_ctxt_def)

lemma no_handlers_ready [simp]: "callbacks_ready no_handlers"
  by (simp add: callbacks_ready_def run_other_def no_handlers_def vmslh_run_def)

text \<open>A broker with the two ends of a player.\<close>

definition ends_mqtt :: "post mqtt_api" where
  "ends_mqtt = \<lparr>mq_create = (\<lambda>u i m. (0, m)), mq_connect = (\<lambda>o' m. (0, m)), mq_disconnect = (\<lambda>n m. (0, m)), mq_destroy = (\<lambda>m. m),
     mq_publish = (\<lambda>t msg bs m. (0, 1, (fst m, snd m @ [(t, bs)]))), mq_wait = (\<lambda>tok n m. (0, m)),
     mq_subscribe = (\<lambda>t q m. (0, m)), mq_subscribe_many = (\<lambda>ts qs m. (0, m)),
     mq_receive = (\<lambda>n m. case fst m of [] \<Rightarrow> (0, None, m) | bs # bss \<Rightarrow> (0, Some bs, (bss, snd m))),
     mq_yield = (\<lambda>m. m), mq_version = (''paho'', ''1.2''), mq_uri_clone = (\<lambda>u st. (u, st)),
     mq_uri_set_scheme = (\<lambda>u s. Some (u\<lparr>uri_scheme := Some s\<rparr>)), mq_uri_format = (\<lambda>u st. (uri_path u, st)),
     mq_now = (\<lambda>m. (zero_ts, m)), mq_time_write = (\<lambda>t. []), mq_time_read = (\<lambda>s. zero_ts), mq_asprintf = True,
     mq_alloc = (\<lambda>n. None), mq_append = True, mq_sizeof_msg_ctxt = 80, mq_sizeof_paho_ctxt = 80\<rparr>"

interpretation ends: mqtt_ends ends_mqtt no_handlers fst snd
  by unfold_locales (auto simp: ends_mqtt_def no_handlers_ready mqtt_code_defs)

lemma sample_link: "mqtt_link sample_mqtt qb_inbox UNIV"
  unfolding sample_mqtt_def by (rule queue_mqtt.mqtt_link_axioms)

theorem mqtt_delivers_witness:
  "\<exists>w1. send_all sample_mqtt (mqtt_ctxt 0) no_handlers [mqtt_message_of ''ab'', mqtt_message_of ''c''] mqtt_world = Some w1 \<and>
    (\<forall>v. ph_client v = ph_client w1 \<longrightarrow>
      (\<exists>rs v'. receive_all sample_mqtt (mqtt_ctxt 0) no_handlers (mqtt_block 8) (length [mqtt_message_of ''ab'', mqtt_message_of ''c'']) v
          = Some (rs, v') \<and> map content_bytes rs = map content_bytes [mqtt_message_of ''ab'', mqtt_message_of ''c''] \<and>
        list_all content_wf rs \<and> qb_inbox (ph_client v') = []))"
  by (rule mqtt_delivers [where bss = "[''ab'', ''c'']", OF sample_link])
    (simp_all add: plain_stats_def mqtt_ctxt_def sendable_def mqtt_message_of_def content_bytes_def INT_MAX_def room_for_def
      mqtt_block_def zero_block_def mqtt_world_def)



text \<open>
  Property C40, mqtt_fixed_overread. The messages of the fixed payload strategy have no zero
  byte, so that sending one over MQTT with latency statistics (which every worker asks
  for) reads past the end of its block.
\<close>

theorem mqtt_fixed_overread:
  assumes "pl_fixed_init al sz st d pg = Some (True, st1, d1, pg1)" and "0 < sz" and "unat sz + 18 \<le> INT_MAX"
    and "opts = worker_msg_opt_setup env MSG_DIRECTION_SENDER wopts" and "msg_opts c = opts"
  shows "paho_send mq c h d1 st2 w = None"
proof -
  have d1: "mc_data d1 = Some (replicate (unat sz) (CHR ''d''))" "mc_size d1 = sz"
    using assms(1,2) fill_ok [of "d1" _ "CHR ''d''"]
    by (auto simp: pl_fixed_init_def msg_content_data_init_def Let_def zero_block_def msg_content_data_release_def fill_ok
        split: option.splits if_splits)
  have "unat (sz + 18) = (unat sz + 18) mod 2 ^ 64" by (simp add: unat_word_ariths)
  then have "unat (sz + 18) \<le> unat sz + 18" using mod_less_eq_dividend by metis
  with assms(3) have "\<not> word_of_nat INT_MAX < mc_size d1 + word_of_nat TS_SIZE"
    by (simp add: d1 word_less_nat_alt INT_MAX_def TS_SIZE_def)
  moreover have "paho_serialize_latency_info mq d1 m = None" for m
    by (simp add: paho_serialize_latency_info_def d1 case_prod_unfold NUL_def)
  ultimately show ?thesis
    by (simp add: paho_send_def assms(4,5) worker_msg_opt_setup_def MSG_STAT_DEFAULT_def MSG_STAT_LATENCY_def MSG_STAT_THROUGHPUT_def)
qed

theorem mqtt_fixed_overread_witness:
  "\<exists>d1. paho_send sample_mqtt \<lparr>msg_opts = worker_msg_opt_setup (sample_wenv :: unit wenv) MSG_DIRECTION_SENDER sample_options\<rparr> no_handlers d1 St_New
    mqtt_world = None \<and> mc_size d1 = 256"
proof -
  obtain st1 d1 pg1 where i: "pl_fixed_init (\<lambda>n. None) 256 St_New zero_content sample_pl_state = Some (True, st1, d1, pg1)" "mc_size d1 = 256"
    by (auto simp: pl_fixed_init_def msg_content_data_init_def Let_def zero_block_def msg_content_data_release_def fill_ok)
  show ?thesis
    by (rule exI [of _ d1], rule conjI, rule mqtt_fixed_overread [OF i(1) _ _ refl]) (simp_all add: INT_MAX_def i(2))
qed

text \<open>A send through the table, from a defined world.\<close>

lemma table_send:
  assumes "paho_send mq c h d st w = Some (ret, d', st', w')"
  shows "the (v_send (snd (paho_vmsl_assign mq will v))) c h d st (Some w) = (ret, d', st', Some w')"
  using table_send_ok [of "paho_wrapper mq will"] assms by (simp add: paho_vmsl_assign_def paho_wrapper_def)

text \<open>
  Property C8, mqtt_reply. A player connected over MQTT answers a request that has an instrument
  for its command with exactly one published message: the bytes of the response, on the
  topic of the maestro clients.
\<close>

theorem mqtt_reply:
  assumes "mqtt_link mq inbox topics" and "''/mpt/maestro'' \<in> topics" and "callbacks_ready (pl_handlers pl)"
    and "msgpack mp" and "content_bytes mdata = Some (message_bytes mp m)"
    and "message_ok al m" and "message_proper m"
    and "player_info_of pl = Some pinfo" and "pl_sheet pl = Some sh" and "pl_ctxt pl = Some ctxt" and "plain_stats ctxt"
    and "pl_mmsl pl = snd (paho_vmsl_assign mq will v)" and "instruments sh = Some is"
    and "find (\<lambda>i. n_command (tessitura i) = snd (message_head m)) is = Some i"
    and "\<And>request. note_view request = Some m \<Longrightarrow> play i request (fresh_response pinfo) pinfo s = Inr (response, s')"
    and "note_view response = Some r" and "n_payload response \<noteq> PWild"
    and "al (length (message_bytes mp r)) = None" and "length (message_bytes mp r) \<le> INT_MAX" and "message_bytes mp r \<noteq> []"
  shows "\<exists>pl' w'. maestro_player_handle_note mp al pl mdata St_New s (Some w) = Inr (pl', St_New, s', Some w') \<and>
    inbox (ph_client w') = inbox (ph_client w) @ [message_bytes mp r]"
proof -
  let ?c = "ctxt_set_path MAESTRO_TOPIC ctxt"
  have "length (message_bytes mp r) < 2 ^ 64" using assms(19) by (simp add: INT_MAX_def)
  then obtain resp where p: "maestro_sheet_play mp al sh pinfo mdata zero_content St_New s = Inr (resp, St_New, s')"
    "content_bytes resp = Some (message_bytes mp r)"
    using sheet_reply [OF assms(4-7,13-18), of zero_content St_New] by blast
  then have d: "mc_data resp \<noteq> None" using assms(20) by (auto simp: content_bytes_def split: if_splits option.splits)
  have "uri_path (mo_uri (msg_opts ?c)) \<in> topics" "plain_stats ?c" "sendable resp (message_bytes mp r)"
    using assms(2,11,19) p(2) by (simp_all add: ctxt_set_path_def MAESTRO_TOPIC_def plain_stats_def sendable_def)
  from mqtt_link.send_plain [OF assms(1,3) this] obtain w' where
    w': "paho_send mq ?c (pl_handlers pl) resp St_New w = Some (VMSL_SUCCESS, resp, St_New, w')"
      "inbox (ph_client w') = inbox (ph_client w) @ [message_bytes mp r]" by blast
  have "v_send (pl_mmsl pl) = Some (the (v_send (snd (paho_vmsl_assign mq will v))))"
    by (simp add: assms(12) paho_vmsl_assign_def wrapper_table_def)
  from handle_note_reply [OF assms(8-10) this p(1) _ d, of "Some w"] table_send [OF w'(1), of will v] w'(2)
  show ?thesis by auto
qed

definition mqtt_player :: "(queue_broker paho option, nat) player" where
  "mqtt_player = \<lparr>pl_thread = True, pl_uri = null_uri, pl_mmsl = snd (paho_vmsl_assign sample_mqtt Some vmsl_init),
     pl_handlers = no_handlers, pl_ctxt = Some (mqtt_ctxt 0), pl_sheet = Some sample_sheet, pl_id = Some ''7'', pl_name = ''p'', pl_cancel = False\<rparr>"

theorem mqtt_reply_witness:
  "\<exists>pl' w'. maestro_player_handle_note msgpack_format (\<lambda>k. None) mqtt_player
      (sample_content (message_bytes msgpack_format (Plain_Request 6))) St_New 4 (Some mqtt_world) = Inr (pl', St_New, 5, Some w') \<and>
    qb_inbox (ph_client w') = qb_inbox (ph_client mqtt_world) @ [message_bytes msgpack_format (Plain_Response 11 ''7'' ''p'')]"
proof (rule mqtt_reply [where ctxt = "mqtt_ctxt 0" and will = Some and v = vmsl_init, OF sample_link _ _ mpf.msgpack_axioms])
  show "content_bytes (sample_content (message_bytes msgpack_format (Plain_Request 6)))
      = Some (message_bytes msgpack_format (Plain_Request 6))"
    by (rule sample_content_bytes) (simp add: format_defs)
  show "player_info_of mqtt_player = Some sample_info"
    by (simp add: player_info_of_def mqtt_player_def sample_info_def)
  show "instruments sample_sheet = Some (the (instruments sample_sheet))"
    by (simp add: sample_sheet_def)
  show "find (\<lambda>i. n_command (tessitura i) = snd (message_head (Plain_Request 6))) (the (instruments sample_sheet))
      = Some (hd (the (instruments sample_sheet)))"
    by (simp add: sample_sheet_def maestro_note_set_cmd_def)
  show "play (hd (the (instruments sample_sheet))) request (fresh_response sample_info) sample_info 4
      = Inr (maestro_note_set_cmd MAESTRO_NOTE_OK (fresh_response sample_info), 5)" for request
    by (simp add: sample_sheet_def)
  show "note_view (maestro_note_set_cmd MAESTRO_NOTE_OK (fresh_response sample_info)) = Some (Plain_Response 11 ''7'' ''p'')"
    by (simp add: fresh_response_view sample_info_def)
qed (simp_all add: mqtt_player_def message_ok_def format_defs fresh_response_def maestro_note_set_cmd_def INT_MAX_def)

lemma regs_keys:
  "set (map fst (concat (map connect_regs kps))) \<subseteq> {CB_keep_alive_interval, CB_clean_session}"
  "set (map fst (concat (map (send_regs dir) kps))) \<subseteq> {CB_qos_mode, CB_retained}"
  by (auto simp: connect_regs_def send_regs_def split: if_splits)

text \<open>The handler lists after \<open>paho_init\<close>: the defaults and then the parameters of the URL.\<close>

definition url_connect :: "gru_keypair list \<Rightarrow> (callback_fn, cb_arg) callbacks" where
  "url_connect kps = cbt.puts Arg_Null (concat (map connect_regs kps))
     (cbt.puts Arg_Null [(CB_keep_alive_interval, Arg_Null), (CB_clean_session, Arg_Null)] [])"

definition url_send :: "msg_direction \<Rightarrow> gru_keypair list \<Rightarrow> (callback_fn, cb_arg) callbacks" where
  "url_send dir kps = cbt.puts Arg_Null (concat (map (send_regs dir) kps))
     (cbt.puts Arg_Null [(CB_qos_mode, Arg_Null), (CB_retained, Arg_Null)] [])"

lemma url_lists:
  "callbacks_wf (url_connect kps)" "callback_keys (url_connect kps) = [CB_keep_alive_interval, CB_clean_session]"
  "callbacks_wf (url_send dir kps)" "callback_keys (url_send dir kps) = [CB_qos_mode, CB_retained]"
proof -
  let ?c = "cbt.puts Arg_Null [(CB_keep_alive_interval, Arg_Null), (CB_clean_session, Arg_Null)] []"
    and ?s = "cbt.puts Arg_Null [(CB_qos_mode, Arg_Null), (CB_retained, Arg_Null)] []"
  have wf: "callbacks_wf ?c" "callbacks_wf ?s" by (rule cbt.inv_puts [OF callbacks_wf_Nil])+
  have keys: "callback_keys ?c = [CB_keep_alive_interval, CB_clean_session]" "callback_keys ?s = [CB_qos_mode, CB_retained]"
    by (simp_all add: cbt.fns_put cbt.inv_put callbacks_wf_Nil)
  show "callbacks_wf (url_connect kps)" "callbacks_wf (url_send dir kps)"
    unfolding url_connect_def url_send_def using wf by (simp_all only: cbt.inv_puts)
  show "callback_keys (url_connect kps) = [CB_keep_alive_interval, CB_clean_session]"
    unfolding url_connect_def using keys_puts [OF wf(1)] regs_keys(1) [of kps] keys(1) by simp
  show "callback_keys (url_send dir kps) = [CB_qos_mode, CB_retained]"
    unfolding url_send_def using keys_puts [OF wf(2)] regs_keys(2) [of dir kps] keys(2) by simp
qed

lemma url_send_payloads:
  "payload_of (url_send MSG_DIRECTION_SENDER kps) CB_retained = Some (arg_or_null (query_value kps ''retained''))"
  "payload_of (url_send MSG_DIRECTION_SENDER kps) CB_qos_mode = Some (arg_or_null (query_value kps ''qos-mode''))"
proof -
  let ?d = "cbt.puts Arg_Null [(CB_qos_mode, Arg_Null), (CB_retained, Arg_Null)] []"
  have wf: "callbacks_wf ?d" by (rule cbt.inv_puts [OF callbacks_wf_Nil])
  have get: "payload_of ?d CB_retained = Some Arg_Null" "payload_of ?d CB_qos_mode = Some Arg_Null"
    by (simp_all add: cbt.get_puts [OF callbacks_wf_Nil] del: cbt.puts.simps)
  show "payload_of (url_send MSG_DIRECTION_SENDER kps) CB_retained = Some (arg_or_null (query_value kps ''retained''))"
    "payload_of (url_send MSG_DIRECTION_SENDER kps) CB_qos_mode = Some (arg_or_null (query_value kps ''qos-mode''))"
    by (simp_all add: url_send_def cbt.get_puts [OF wf] send_regs_retained send_regs_qos get arg_or_null_def
        del: cbt.puts.simps split: option.splits)
qed

lemma run_url_send:
  "vmslh_run message_callback (Some (url_send MSG_DIRECTION_SENDER kps)) m
     = Some (paho_set_retained (query_value kps ''retained'') (paho_set_qos_mode (query_value kps ''qos-mode'') m))"
  by (simp add: vmslh_run_def run_callbacks_fold [OF url_lists(3)] url_lists(4) url_send_payloads)

lemma run_url_connect: "\<exists>opts. vmslh_run (connect_callback will) (Some (url_connect kps)) o' = Some opts"
  by (simp add: vmslh_run_def run_callbacks_fold [OF url_lists(1)] url_lists(2))

lemma init_handlers:
  assumes "\<And>n. mq_alloc mq n = None" and "mq_append mq" and "\<And>i. new i" and "uri_query (mo_uri opt) = Some kps"
    and "mq_uri_clone mq (mo_uri opt) st = (uri, st)" and "mq_uri_set_scheme mq uri ''tcp'' = Some uri'"
  shows "paho_init mq opt (vmslh_new new) st w = Some (Some \<lparr>msg_opts = opt\<rparr>,
    (vmslh_new new)\<lparr>before_connect := Some (url_connect kps), before_send := Some (url_send (mo_direction opt) kps)\<rparr>, st, w\<lparr>ph_uri := uri'\<rparr>)"
  using assms
  by (simp add: paho_init_def msg_ctxt_init_def paho_context_init_def vmslh_new_def new_list_def
      default_parameters [where a = "[]" and b = "[]"] paho_set_user_parameters_def set_each_regs url_connect_def url_send_def
      del: cbt.puts.simps)

text \<open>
  Also proved, mqtt_connects. Opening a connection over MQTT, with memory available and a broker
  that accepts it, succeeds for any list of URL parameters; afterwards the callbacks of
  the connection are ready, and every message is published with the quality of service
  and the retained flag the URL asks for.
\<close>

theorem mqtt_connects:
  assumes "\<And>n. mq_alloc mq n = None" and "mq_append mq" and "\<And>i. new i" and "uri_query (mo_uri opt) = Some kps"
    and "mq_uri_clone mq (mo_uri opt) st = (uri, st)" and "mq_uri_set_scheme mq uri ''tcp'' = Some uri'"
    and "\<And>url i m. fst (mq_create mq url i m) = MQTTCLIENT_SUCCESS" and "\<And>o' m. fst (mq_connect mq o' m) = MQTTCLIENT_SUCCESS"
    and "mo_direction opt = MSG_DIRECTION_SENDER"
  shows "\<exists>c h w1. paho_init mq opt (vmslh_new new) st w = Some (Some c, h, st, w1) \<and> msg_opts c = opt \<and> callbacks_ready h \<and>
    (\<exists>st' w2. paho_start mq will c h st w1 = Some (VMSL_SUCCESS, st', w2)) \<and>
    vmslh_run message_callback (before_send h) message_initializer
      = Some (paho_set_retained (query_value kps ''retained'') (paho_set_qos_mode (query_value kps ''qos-mode'') message_initializer))"
proof -
  let ?h = "(vmslh_new new)\<lparr>before_connect := Some (url_connect kps), before_send := Some (url_send (mo_direction opt) kps)\<rparr> :: handlers"
  have lists: "after_send ?h = Some []" "before_receive ?h = Some []" "after_receive ?h = Some []" "after_connect ?h = Some []"
    using assms(3) by (simp_all add: vmslh_new_def new_list_def)
  have ready: "callbacks_ready ?h"
    using lists by (simp add: callbacks_ready_def assms(9) run_url_send) (simp add: vmslh_run_def)
  obtain opts where o: "vmslh_run (connect_callback will) (Some (url_connect kps)) connect_initializer = Some opts"
    using run_url_connect by blast
  have start: "\<exists>st' w2. paho_start mq will \<lparr>msg_opts = opt\<rparr> ?h st w1 = Some (VMSL_SUCCESS, st', w2)" for w1
    using assms(7,8) lists o
    by (simp add: paho_start_def case_prod_unfold)
  show ?thesis
    using init_handlers [where mq = mq and new = new, OF assms(1-6)] ready start run_url_send [of kps message_initializer] assms(9) by auto
qed

theorem mqtt_connects_witness:
  "\<exists>c h w1. paho_init sample_mqtt (null_opt\<lparr>mo_uri := null_uri\<lparr>uri_query := Some [\<lparr>kp_key = ''retained'', kp_pair = boolean_variant True\<rparr>]\<rparr>\<rparr>)
      (vmslh_new (\<lambda>i. True)) St_New mqtt_world = Some (Some c, h, St_New, w1) \<and>
    msg_opts c = null_opt\<lparr>mo_uri := null_uri\<lparr>uri_query := Some [\<lparr>kp_key = ''retained'', kp_pair = boolean_variant True\<rparr>]\<rparr>\<rparr> \<and>
    callbacks_ready h \<and> (\<exists>st' w2. paho_start sample_mqtt Some c h St_New w1 = Some (VMSL_SUCCESS, st', w2)) \<and>
    vmslh_run message_callback (before_send h) message_initializer
      = Some (paho_set_retained (query_value [\<lparr>kp_key = ''retained'', kp_pair = boolean_variant True\<rparr>] ''retained'')
          (paho_set_qos_mode (query_value [\<lparr>kp_key = ''retained'', kp_pair = boolean_variant True\<rparr>] ''qos-mode'') message_initializer))"
  by (rule mqtt_connects) (simp_all add: sample_mqtt_def queue_mqtt_def mqtt_code_defs null_opt_def null_uri_def)

end
