(* ===== verification/Stomp.thy ===== *)
theory Stomp
  imports Wrapper
begin

text \<open>
  The STOMP wrapper: \<open>stomp-wrapper.c\<close> and \<open>stomp-context.c\<close> under \<open>src/api/litestomp\<close>. The
  litestomp library is a parameter; the locale \<open>stomp_link\<close> says what is asked of it and
  of the broker, and is interpreted on a broker with a queue.
\<close>

section \<open>State and the client library\<close>

text \<open>The global \<open>url\<close> and the messenger, with the broker behind it.\<close>

record 'm stomp =
  so_url :: "string option"
  so_messenger :: 'm

text \<open>
  The functions of litestomp on a messenger \<open>'m\<close> and a message \<open>'g\<close>, with its codes as
  bits; \<open>so_message\<close> reads the text of the status of the messenger, \<open>so_exchange_get\<close>
  the creation time among its exchange properties. A message is created with the
  status of the messenger or without one.
\<close>

record ('m, 'g) stomp_api =
  so_SUCCESS :: u32
  so_NO_DATA :: u32
  so_error :: "u32 \<Rightarrow> bool"
  so_messenger_init :: "'m \<Rightarrow> bool \<times> 'm"
  so_messenger_destroy :: "'m \<Rightarrow> 'm"
  so_set_endpoint :: "string \<Rightarrow> 'm \<Rightarrow> u32 \<times> 'm"
  so_connect :: "nat \<Rightarrow> 'm \<Rightarrow> u32 \<times> 'm"
  so_message :: "'m \<Rightarrow> string"
  so_message_create :: "bool \<Rightarrow> 'm \<Rightarrow> 'g option \<times> 'm"
  so_util_ctime :: "'m \<Rightarrow> u32 \<times> 'm"
  so_message_format :: "'g \<Rightarrow> byte list \<Rightarrow> 'g"
  so_send :: "int \<Rightarrow> 'g \<Rightarrow> 'm \<Rightarrow> u32 \<times> 'm"
  so_subscribe :: "'m \<Rightarrow> u32 \<times> 'm"
  so_receive :: "'g \<Rightarrow> 'm \<Rightarrow> u32 \<times> 'g \<times> 'm"
  so_exchange_get :: "'m \<Rightarrow> string option"
  so_time_from_milli_char :: "string option \<Rightarrow> timestamp undef"
  so_uri_simple_format :: "gru_uri \<Rightarrow> gru_status \<Rightarrow> string option \<times> gru_status"
  so_alloc :: gru_allocator
  so_sizeof_msg_ctxt :: nat
  so_sizeof_stomp_ctxt :: nat

section \<open>Operations\<close>

definition litestomp_context_init :: "('m, 'g) stomp_api \<Rightarrow> gru_status \<Rightarrow> bool \<times> gru_status" where
  "litestomp_context_init so st = (case so_alloc so (so_sizeof_stomp_ctxt so) of
     Some m \<Rightarrow> (False, alloc_fail m)
   | None \<Rightarrow> (True, st))"

text \<open>A messenger that cannot be made, and an endpoint that is refused, leave the status alone.\<close>

definition litestomp_init :: "('m, 'g) stomp_api \<Rightarrow> msg_opt \<Rightarrow> handlers \<Rightarrow> gru_status \<Rightarrow> 'm stomp \<Rightarrow>
    (msg_ctxt option \<times> handlers \<times> gru_status \<times> 'm stomp) undef" where
  "litestomp_init so opt h st w =
    (case msg_ctxt_init (so_alloc so) (so_sizeof_msg_ctxt so) st of
       (None, st1) \<Rightarrow> Some (None, h, st1, w)
     | (Some c, st1) \<Rightarrow>
        (case litestomp_context_init so st1 of
           (False, st2) \<Rightarrow> Some (msg_ctxt_destroy (Some c), h, st2, w)
         | (True, st2) \<Rightarrow>
            (case so_uri_simple_format so (mo_uri opt) st2 of
               (None, st3) \<Rightarrow> Some (msg_ctxt_destroy (Some c), h, st3, w\<lparr>so_url := None\<rparr>)
             | (Some url, st3) \<Rightarrow>
                (case so_messenger_init so (so_messenger w) of
                   (False, m1) \<Rightarrow> Some (msg_ctxt_destroy (Some c), h, st3, \<lparr>so_url = Some url, so_messenger = m1\<rparr>)
                 | (True, m1) \<Rightarrow>
                    (case so_set_endpoint so url m1 of (stat, m2) \<Rightarrow>
                       if stat \<noteq> so_SUCCESS so then
                         Some (msg_ctxt_destroy (Some c), h, st3, \<lparr>so_url = Some url, so_messenger = so_messenger_destroy so m2\<rparr>)
                       else Some (Some (c\<lparr>msg_opts := opt\<rparr>), h, st3, \<lparr>so_url = Some url, so_messenger = m2\<rparr>))))))"

definition LF :: string where
  "LF = [CHR 0x0A]"

definition litestomp_start :: "('m, 'g) stomp_api \<Rightarrow> msg_ctxt \<Rightarrow> handlers \<Rightarrow> gru_status \<Rightarrow> 'm stomp \<Rightarrow>
    (vmsl_stat \<times> gru_status \<times> 'm stomp) undef" where
  "litestomp_start so c h st w = do {
     before \<leftarrow> run_other (before_connect h);
     (case so_connect so 5000 (so_messenger w) of (stat, m1) \<Rightarrow>
        let w1 = w\<lparr>so_messenger := m1\<rparr> in
        if stat \<noteq> so_SUCCESS so then Some (VMSL_ERROR, St_Set GRU_FAILURE (so_message so m1 @ LF), w1)
        else do {
          after \<leftarrow> run_other (after_connect h);
          Some (VMSL_SUCCESS, st, w1)
        })
   }"

definition litestomp_stop :: "('m, 'g) stomp_api \<Rightarrow> msg_ctxt option \<Rightarrow> gru_status \<Rightarrow> 'm stomp \<Rightarrow> (gru_status \<times> 'm stomp) undef" where
  "litestomp_stop so c st w = Some (st, w)"

definition litestomp_destroy :: "('m, 'g) stomp_api \<Rightarrow> msg_ctxt option \<Rightarrow> gru_status \<Rightarrow> 'm stomp \<Rightarrow> (gru_status \<times> 'm stomp) undef" where
  "litestomp_destroy so c st w = do {
     c' \<leftarrow> c;
     Some (st, \<lparr>so_url = None, so_messenger = so_messenger_destroy so (so_messenger w)\<rparr>)
   }"

text \<open>The errors of a send are logged and never put into the status.\<close>

definition litestomp_send :: "('m, 'g) stomp_api \<Rightarrow> msg_ctxt \<Rightarrow> handlers \<Rightarrow> msg_content \<Rightarrow> gru_status \<Rightarrow> 'm stomp \<Rightarrow>
    (vmsl_stat \<times> msg_content \<times> gru_status \<times> 'm stomp) undef" where
  "litestomp_send so c h data st w =
    (case so_message_create so True (so_messenger w) of
       (None, m1) \<Rightarrow> Some (VMSL_ERROR, data, st, w\<lparr>so_messenger := m1\<rparr>)
     | (Some message, m1) \<Rightarrow>
        (case so_util_ctime so m1 of (stat, m2) \<Rightarrow>
           if stat \<noteq> so_SUCCESS so then Some (VMSL_ERROR, data, st, w\<lparr>so_messenger := m2\<rparr>)
           else do {
             bs \<leftarrow> content_bytes data;
             before \<leftarrow> run_other (before_send h);
             (case so_send so (- 1) (so_message_format so message bs) m2 of (stat, m3) \<Rightarrow>
                if stat \<noteq> so_SUCCESS so then Some (VMSL_ERROR, data, st, w\<lparr>so_messenger := m3\<rparr>)
                else do {
                  after \<leftarrow> run_other (after_send h);
                  Some (VMSL_SUCCESS, data, st, w\<lparr>so_messenger := m3\<rparr>)
                })
           }))"

definition litestomp_subscribe :: "('m, 'g) stomp_api \<Rightarrow> msg_ctxt \<Rightarrow> mtopic_spec option \<Rightarrow> gru_status \<Rightarrow> 'm stomp \<Rightarrow>
    (vmsl_stat \<times> gru_status \<times> 'm stomp) undef" where
  "litestomp_subscribe so c mtopic st w =
    (case so_subscribe so (so_messenger w) of (stat, m1) \<Rightarrow>
       let w1 = w\<lparr>so_messenger := m1\<rparr> in
       if stat \<noteq> so_SUCCESS so then
         Some (VMSL_ERROR, St_Set GRU_FAILURE (''Unable to subscribe to the endpoint: '' @ so_message so m1), w1)
       else Some (VMSL_SUCCESS, st, w1))"

text \<open>The list \<open>before_receive\<close> is run before the receive and again after it; the body of the
  message is not copied.\<close>

definition litestomp_receive :: "('m, 'g) stomp_api \<Rightarrow> msg_ctxt \<Rightarrow> handlers \<Rightarrow> msg_content \<Rightarrow> gru_status \<Rightarrow> 'm stomp \<Rightarrow>
    (vmsl_stat \<times> msg_content \<times> gru_status \<times> 'm stomp) undef" where
  "litestomp_receive so c h content st w =
    (case so_message_create so False (so_messenger w) of
       (None, m1) \<Rightarrow> Some (VMSL_ERROR, content, st, w\<lparr>so_messenger := m1\<rparr>)
     | (Some message, m1) \<Rightarrow> do {
        before \<leftarrow> run_other (before_receive h);
        (case so_receive so message m1 of (stat, message', m2) \<Rightarrow>
           let w1 = w\<lparr>so_messenger := m2\<rparr> in
           if so_error so stat then Some (VMSL_ERROR, content, st, w1)
           else if stat AND so_NO_DATA so \<noteq> 0 then Some (VMSL_SUCCESS OR VMSL_NO_DATA, content, st, w1)
           else do {
             again \<leftarrow> run_other (before_receive h);
             content1 \<leftarrow> (if mo_statistics (msg_opts c) AND MSG_STAT_LATENCY \<noteq> 0
               then map_option (\<lambda>t. content\<lparr>mc_created := t\<rparr>) (so_time_from_milli_char so (so_exchange_get so m2))
               else Some content);
             Some (VMSL_SUCCESS, content1, st, w1)
           })
      })"

definition litestomp_info :: "string \<times> string" where
  "litestomp_info = (''LiteStomp'', ''undefined'')"

definition litestomp_wrapper :: "('m, 'g) stomp_api \<Rightarrow> 'm stomp wrapper" where
  "litestomp_wrapper so = \<lparr>wr_init = litestomp_init so, wr_start = litestomp_start so, wr_send = litestomp_send so,
     wr_subscribe = litestomp_subscribe so, wr_receive = litestomp_receive so, wr_stop = litestomp_stop so,
     wr_destroy = litestomp_destroy so, wr_info = litestomp_info\<rparr>"

definition litestomp_vmsl_assign :: "('m, 'g) stomp_api \<Rightarrow> 'm stomp option vmsl \<Rightarrow> bool \<times> 'm stomp option vmsl" where
  "litestomp_vmsl_assign so v = (True, wrapper_table (litestomp_wrapper so))"

section \<open>What the wrapper promises\<close>

text \<open>
  What is asked of the library and the broker: creating a message and stamping the time
  leave the inbox of the receiver alone, a message is delivered with its body and the
  creation time that was stamped, a receive takes the first message of the inbox and
  makes its creation time readable, and an empty inbox is reported as no data.
\<close>

locale stomp_link =
  fixes so :: "('m, 'g) stomp_api" and inbox :: "'m \<Rightarrow> (byte list \<times> string) list" and body :: "'g \<Rightarrow> byte list"
  assumes create_keeps: "\<exists>g m'. so_message_create so b m = (Some g, m') \<and> inbox m' = inbox m"
    and ctime_stamps: "\<exists>t m'. so_util_ctime so m = (so_SUCCESS so, m') \<and> inbox m' = inbox m \<and> so_exchange_get so m' = Some t"
    and body_format: "body (so_message_format so g bs) = bs"
    and send_delivers: "so_exchange_get so m = Some t \<Longrightarrow>
      \<exists>m'. so_send so n g m = (so_SUCCESS so, m') \<and> inbox m' = inbox m @ [(body g, t)]"
    and receive_first: "inbox m = (bs, t) # rest \<Longrightarrow>
      \<exists>g' m'. so_receive so g m = (so_SUCCESS so, g', m') \<and> inbox m' = rest \<and> so_exchange_get so m' = Some t"
    and receive_empty: "inbox m = [] \<Longrightarrow> \<exists>g' m'. so_receive so g m = (so_NO_DATA so, g', m') \<and> inbox m' = []"
    and codes: "\<not> so_error so (so_SUCCESS so)" "\<not> so_error so (so_NO_DATA so)" "so_SUCCESS so AND so_NO_DATA so = 0" "so_NO_DATA so \<noteq> 0"
    and reads_time: "so_time_from_milli_char so (Some t) \<noteq> None"

text \<open>The handler lists of a STOMP connection are empty or absent.\<close>

definition quiet :: "handlers \<Rightarrow> bool" where
  "quiet h = (run_other (before_send h) = Some () \<and> run_other (after_send h) = Some () \<and> run_other (before_receive h) = Some ())"

fun stomp_send_all :: "('m, 'g) stomp_api \<Rightarrow> msg_ctxt \<Rightarrow> handlers \<Rightarrow> msg_content list \<Rightarrow> 'm stomp \<Rightarrow> 'm stomp undef" where
  "stomp_send_all so c h [] w = Some w"
| "stomp_send_all so c h (d # ds) w = do {
     (ret, d', st', w') \<leftarrow> litestomp_send so c h d St_New w;
     if ret = VMSL_SUCCESS then stomp_send_all so c h ds w' else None
   }"

fun stomp_receive_all :: "('m, 'g) stomp_api \<Rightarrow> msg_ctxt \<Rightarrow> handlers \<Rightarrow> msg_content \<Rightarrow> nat \<Rightarrow> 'm stomp \<Rightarrow>
    (msg_content list \<times> 'm stomp) undef" where
  "stomp_receive_all so c h r 0 w = Some ([], w)"
| "stomp_receive_all so c h r (Suc n) w = do {
     (ret, r', st', w') \<leftarrow> litestomp_receive so c h r St_New w;
     if ret = VMSL_SUCCESS then do { (rs, w'') \<leftarrow> stomp_receive_all so c h r n w'; Some (r' # rs, w'') } else None
   }"

context stomp_link begin

lemma send_appends:
  assumes "quiet h" and "content_bytes d = Some bs"
  shows "\<exists>t w'. litestomp_send so c h d st w = Some (VMSL_SUCCESS, d, st, w') \<and>
    inbox (so_messenger w') = inbox (so_messenger w) @ [(bs, t)]"
proof -
  obtain g m1 where 1: "so_message_create so True (so_messenger w) = (Some g, m1)" "inbox m1 = inbox (so_messenger w)"
    using create_keeps by blast
  obtain t m2 where 2: "so_util_ctime so m1 = (so_SUCCESS so, m2)" "inbox m2 = inbox m1" "so_exchange_get so m2 = Some t"
    using ctime_stamps by blast
  obtain m3 where "so_send so (- 1) (so_message_format so g bs) m2 = (so_SUCCESS so, m3)" "inbox m3 = inbox m2 @ [(bs, t)]"
    using send_delivers [OF 2(3)] body_format by metis
  with 1 2 assms show ?thesis by (simp add: litestomp_send_def quiet_def)
qed

lemma receive_takes:
  assumes "quiet h" and "\<not> plain_stats c" and "inbox (so_messenger w) = (bs, t) # rest"
  shows "\<exists>w'. litestomp_receive so c h r st w
      = Some (VMSL_SUCCESS, r\<lparr>mc_created := the (so_time_from_milli_char so (Some t))\<rparr>, st, w') \<and> inbox (so_messenger w') = rest"
proof -
  obtain g m1 where 1: "so_message_create so False (so_messenger w) = (Some g, m1)" "inbox m1 = (bs, t) # rest"
    using create_keeps assms(3) by metis
  obtain g' m2 where 2: "so_receive so g m1 = (so_SUCCESS so, g', m2)" "inbox m2 = rest" "so_exchange_get so m2 = Some t"
    using receive_first [OF 1(2)] by blast
  obtain ts where "so_time_from_milli_char so (Some t) = Some ts" using reads_time by blast
  with 1 2 assms(1,2) codes show ?thesis by (simp add: litestomp_receive_def quiet_def plain_stats_def Let_def)
qed

lemma receive_none:
  assumes "quiet h" and "inbox (so_messenger w) = []"
  shows "\<exists>w'. litestomp_receive so c h r st w = Some (VMSL_SUCCESS OR VMSL_NO_DATA, r, st, w')"
proof -
  obtain g m1 where 1: "so_message_create so False (so_messenger w) = (Some g, m1)" "inbox m1 = []"
    using create_keeps assms(2) by metis
  obtain g' m2 where "so_receive so g m1 = (so_NO_DATA so, g', m2)" using receive_empty [OF 1(2)] by blast
  with 1 assms(1) codes show ?thesis by (simp add: litestomp_receive_def quiet_def Let_def)
qed

lemma send_all_appends:
  assumes "quiet h" and "map content_bytes ds = map Some bss"
  shows "\<exists>ts w'. stomp_send_all so c h ds w = Some w' \<and> length ts = length ds \<and>
    inbox (so_messenger w') = inbox (so_messenger w) @ zip bss ts"
  using assms(2)
proof (induction ds arbitrary: bss w)
  case (Cons d ds)
  then obtain bs bss' where b: "bss = bs # bss'" "content_bytes d = Some bs" "map content_bytes ds = map Some bss'"
    by (cases bss) auto
  obtain t w1 where w1: "litestomp_send so c h d St_New w = Some (VMSL_SUCCESS, d, St_New, w1)"
    "inbox (so_messenger w1) = inbox (so_messenger w) @ [(bs, t)]" using send_appends [OF assms(1) b(2)] by blast
  obtain ts w2 where "stomp_send_all so c h ds w1 = Some w2" "length ts = length ds"
    "inbox (so_messenger w2) = inbox (so_messenger w1) @ zip bss' ts" using Cons.IH [OF b(3)] by blast
  with w1 b(1) show ?case by (intro exI [of _ "t # ts"] exI [of _ w2]) simp
qed simp

lemma receive_all_takes:
  assumes "quiet h" and "\<not> plain_stats c" and "inbox (so_messenger w) = xs @ rest"
  shows "\<exists>w'. stomp_receive_all so c h r (length xs) w
      = Some (map (\<lambda>x. r\<lparr>mc_created := the (so_time_from_milli_char so (Some (snd x)))\<rparr>) xs, w') \<and> inbox (so_messenger w') = rest"
  using assms(3)
proof (induction xs arbitrary: w)
  case (Cons x xs)
  obtain w1 where w1: "litestomp_receive so c h r St_New w
      = Some (VMSL_SUCCESS, r\<lparr>mc_created := the (so_time_from_milli_char so (Some (snd x)))\<rparr>, St_New, w1)"
    "inbox (so_messenger w1) = xs @ rest"
    using receive_takes [OF assms(1,2), of w "fst x" "snd x" "xs @ rest" r St_New] Cons.prems by auto
  from Cons.IH [OF this(2)] w1(1) show ?case by auto
qed simp

end

section \<open>A broker\<close>

text \<open>A broker with one inbox; a message is its body. The creation times are read from a list.\<close>

record stomp_broker =
  sb_inbox :: "(byte list \<times> string) list"
  sb_clock :: "string list"
  sb_ctime :: "string option"

definition queue_stomp :: "(string \<Rightarrow> timestamp) \<Rightarrow> (stomp_broker, byte list) stomp_api" where
  "queue_stomp rd = \<lparr>so_SUCCESS = 1, so_NO_DATA = 4, so_error = (\<lambda>s. s = 2), so_messenger_init = (\<lambda>m. (True, m)),
     so_messenger_destroy = (\<lambda>m. m), so_set_endpoint = (\<lambda>u m. (1, m)), so_connect = (\<lambda>n m. (1, m)), so_message = (\<lambda>m. []),
     so_message_create = (\<lambda>b m. (Some [], m)),
     so_util_ctime = (\<lambda>m. (1, m\<lparr>sb_clock := tl (sb_clock m), sb_ctime := Some (hd (sb_clock m @ [''0'']))\<rparr>)),
     so_message_format = (\<lambda>g bs. bs),
     so_send = (\<lambda>n g m. (1, m\<lparr>sb_inbox := sb_inbox m @ [(g, the (sb_ctime m))]\<rparr>)),
     so_subscribe = (\<lambda>m. (1, m)),
     so_receive = (\<lambda>g m. case sb_inbox m of [] \<Rightarrow> (4, g, m)
       | (bs, t) # rest \<Rightarrow> (1, bs, m\<lparr>sb_inbox := rest, sb_ctime := Some t\<rparr>)),
     so_exchange_get = sb_ctime, so_time_from_milli_char = map_option rd,
     so_uri_simple_format = (\<lambda>u st. (Some (uri_path u), st)), so_alloc = (\<lambda>n. None),
     so_sizeof_msg_ctxt = 80, so_sizeof_stomp_ctxt = 16\<rparr>"

interpretation queue_stomp: stomp_link "queue_stomp rd" sb_inbox "\<lambda>g. g" for rd
  by unfold_locales (auto simp: queue_stomp_def)

section \<open>Properties\<close>

text \<open>
  Property C24, stomp_times_only. Over a broker that keeps its contract, messages sent through
  the STOMP wrapper are received one by one, each with the creation time stamped when it
  was sent, and then there is no data; but the body of a message is never copied: apart
  from the creation time, the content a receive leaves is the one it was given.
\<close>

theorem stomp_times_only:
  assumes "stomp_link so inbox body" and "quiet h" and "quiet h'" and "\<not> plain_stats c'"
    and "map content_bytes ds = map Some bss" and "inbox (so_messenger w) = []"
  shows "\<exists>ts w1. stomp_send_all so c h ds w = Some w1 \<and> length ts = length ds \<and> inbox (so_messenger w1) = zip bss ts \<and>
    (\<forall>v. so_messenger v = so_messenger w1 \<longrightarrow>
      (\<exists>v' v''. stomp_receive_all so c' h' r (length ds) v
          = Some (map (\<lambda>t. r\<lparr>mc_created := the (so_time_from_milli_char so (Some t))\<rparr>) ts, v') \<and>
        litestomp_receive so c' h' r st v' = Some (VMSL_SUCCESS OR VMSL_NO_DATA, r, st, v'')))"
proof -
  obtain ts w1 where w1: "stomp_send_all so c h ds w = Some w1" "length ts = length ds" "inbox (so_messenger w1) = zip bss ts"
    using stomp_link.send_all_appends [OF assms(1,2,5), of c w] assms(6) by auto
  have l: "length bss = length ds" using assms(5) by (metis length_map)
  then have z: "length (zip bss ts) = length ds" using w1(2) by simp
  have m: "map (\<lambda>x. f (snd x)) (zip bss ts) = map f ts" for f :: "string \<Rightarrow> msg_content"
  proof -
    have "map f ts = map f (map snd (zip bss ts))" using l w1(2) by simp
    then show ?thesis by (simp only: map_map comp_def)
  qed
  have "\<exists>v' v''. stomp_receive_all so c' h' r (length ds) v
        = Some (map (\<lambda>t. r\<lparr>mc_created := the (so_time_from_milli_char so (Some t))\<rparr>) ts, v') \<and>
      litestomp_receive so c' h' r st v' = Some (VMSL_SUCCESS OR VMSL_NO_DATA, r, st, v'')"
    if v: "so_messenger v = so_messenger w1" for v
  proof -
    have "inbox (so_messenger v) = zip bss ts @ []" using v w1(3) by simp
    from stomp_link.receive_all_takes [OF assms(1,3,4) this, of r] obtain v' where
      v': "stomp_receive_all so c' h' r (length ds) v = Some (map (\<lambda>t. r\<lparr>mc_created := the (so_time_from_milli_char so (Some t))\<rparr>) ts, v')"
        "inbox (so_messenger v') = []" unfolding z m [of "\<lambda>t. r\<lparr>mc_created := the (so_time_from_milli_char so (Some t))\<rparr>"] by blast
    from stomp_link.receive_none [OF assms(1,3) this(2), of c' r st] v'(1) show ?thesis by blast
  qed
  with w1 show ?thesis by blast
qed

definition stomp_world :: "stomp_broker stomp" where
  "stomp_world = \<lparr>so_url = None, so_messenger = \<lparr>sb_inbox = [], sb_clock = [''7'', ''8''], sb_ctime = None\<rparr>\<rparr>"

definition stomp_content :: msg_content where
  "stomp_content = \<lparr>mc_data = Some ''ab'', mc_capacity = 2, mc_size = 2, mc_created = zero_ts\<rparr>"

theorem stomp_times_only_witness:
  "\<exists>ts w1. stomp_send_all (queue_stomp (\<lambda>s. zero_ts)) \<lparr>msg_opts = null_opt\<rparr> no_handlers [stomp_content, stomp_content] stomp_world = Some w1 \<and>
    length ts = length [stomp_content, stomp_content] \<and> sb_inbox (so_messenger w1) = zip [''ab'', ''ab''] ts \<and>
    (\<forall>v. so_messenger v = so_messenger w1 \<longrightarrow>
      (\<exists>v' v''. stomp_receive_all (queue_stomp (\<lambda>s. zero_ts)) \<lparr>msg_opts = null_opt\<lparr>mo_statistics := 3\<rparr>\<rparr> no_handlers zero_content
          (length [stomp_content, stomp_content]) v
          = Some (map (\<lambda>t. zero_content\<lparr>mc_created := the (so_time_from_milli_char (queue_stomp (\<lambda>s. zero_ts)) (Some t))\<rparr>) ts, v') \<and>
        litestomp_receive (queue_stomp (\<lambda>s. zero_ts)) \<lparr>msg_opts = null_opt\<lparr>mo_statistics := 3\<rparr>\<rparr> no_handlers zero_content St_New v'
          = Some (VMSL_SUCCESS OR VMSL_NO_DATA, zero_content, St_New, v'')))"
  by (rule stomp_times_only [OF queue_stomp.stomp_link_axioms])
    (simp_all add: quiet_def no_handlers_def plain_stats_def MSG_STAT_LATENCY_def stomp_content_def content_bytes_def stomp_world_def)

text \<open>
  Also proved, stomp_send_silent. A send over STOMP never changes the status, whatever fails: the
  caller that prints the status of a failed send prints an older one.
\<close>

theorem stomp_send_silent:
  assumes "litestomp_send so c h d st w = Some (ret, d', st', w')"
  shows "st' = st \<and> d' = d \<and> (ret = VMSL_SUCCESS \<or> ret = VMSL_ERROR)"
  using assms
  by (auto simp: litestomp_send_def case_prod_unfold split: option.splits if_splits prod.splits bind_splits)

theorem stomp_send_silent_witness:
  "\<exists>ret d' st' w'. litestomp_send ((queue_stomp (\<lambda>s. zero_ts))\<lparr>so_send := (\<lambda>n g m. (2, m))\<rparr>) \<lparr>msg_opts = null_opt\<rparr> no_handlers stomp_content
      St_New stomp_world = Some (ret, d', st', w') \<and> st' = St_New \<and> d' = stomp_content \<and> (ret = VMSL_SUCCESS \<or> ret = VMSL_ERROR)"
proof -
  let ?so = "(queue_stomp (\<lambda>s. zero_ts))\<lparr>so_send := (\<lambda>n g m. (2, m))\<rparr>"
  obtain x where "litestomp_send ?so \<lparr>msg_opts = null_opt\<rparr> no_handlers stomp_content St_New stomp_world = Some x"
    by (simp add: litestomp_send_def queue_stomp_def stomp_content_def content_bytes_def no_handlers_def)
  then show ?thesis using stomp_send_silent by (metis prod_cases4)
qed

end
