(* ===== verification/Spec2Isabelle.thy ===== *)
theory Spec2Isabelle
  imports Note_Types Unit_Tests Debug Memory Timed_Tests Amqp_Test Daemon_Test Client_Loop Report Inspector Mqtt Stomp
begin

text \<open>
  A verification development of msg-perf-tool (maestro), a tool that measures the
  performance of message brokers.

  \<^bold>\<open>The program.\<close> A test is run by daemons. A sender daemon and a receiver daemon
  (\<open>src/applications/mpt-daemons\<close>) are controlled over MQTT: a \<^emph>\<open>player\<close>
  (\<open>src/orchestration/maestro\<close>) receives \<^emph>\<open>notes\<close>, binary messages in the msgpack
  format, looks up the \<^emph>\<open>instrument\<close> for their command in the \<^emph>\<open>sheet\<close> of the daemon,
  runs its handler and sends the response. A start request makes the main loop of the
  daemon execute a test: the \<^emph>\<open>worker manager\<close> (\<open>src/worker\<close>) forks parallel workers,
  each of which connects to the broker under test through the messaging layer
  (\<open>src/common/vmsl.h\<close>, \<open>vmslh.c\<close>, \<open>src/api\<close>), sends or receives messages in a loop
  and reports snapshots of its progress to its parent through a queue; a watchdog in
  the parent drains the queues, writes the statistics and reaps the children.

  \<^bold>\<open>The theories\<close>, in the order they build on each other:

  \<^item> \<open>Prelude\<close>: machine types, faults, the status object, time, C strings, decimals.
  \<^item> \<open>Content\<close>: \<open>src/common/msg_content_data.c\<close>, the buffers of messages.
  \<^item> \<open>Note\<close>: \<open>maestro_note.h\<close> and \<open>maestro_note.c\<close>, notes and their payload union;
    \<open>note_view\<close> is the abstract message a note says.
  \<^item> \<open>Msgpack\<close>: the interface of the msgpack library as the locale \<open>msgpack\<close>, interpreted
    on the format of its specification.
  \<^item> \<open>Serialize\<close>, \<open>Deserialize\<close>: \<open>maestro_serialize.c\<close>, \<open>maestro_easy.c\<close> and
    \<open>maestro_deserialize.c\<close>; \<open>Wire\<close>: that they are inverse; \<open>Note_Types\<close>: that the
    union of a note that is read has the members its tag says.
  \<^item> \<open>Unit_Tests\<close>: \<open>test/common/maestro_serialize_test.c\<close>, the tests of the repository for
    the notes; \<open>Debug\<close>: \<open>maestro_debug.c\<close>, the trace of the bytes that arrive.
  \<^item> \<open>Vmsl\<close>: the messaging layer as a table of functions, the callback lists (locale
    \<open>callback_table\<close>) and the MQTT callbacks of \<open>paho-handlers.c\<close>.
  \<^item> \<open>Sheet\<close>, \<open>Player\<close>: instruments, sheets, the player and the notifications; the locale
    \<open>note_link\<close> is what the loop of a player asks of its connection.
  \<^item> \<open>Strategy\<close>: the payload strategies (locale \<open>payload_strategy\<close>, interpreted on both).
  \<^item> \<open>Stats\<close>: the calculator, the writer tables, the naming of reports.
  \<^item> \<open>Queue\<close>: the queues between processes. The locale \<open>ipc_kernel\<close> is what is documented of
    the SysV and POSIX calls, for any number of queues (\<open>queue_calls\<close>, once for each kind); the
    contract \<open>snapshot_queue\<close> of one queue is a sublocale of it.
  \<^item> \<open>Worker\<close>, \<open>Worker_Loops\<close>: workers, their helpers and the four test loops (locale
    \<open>counted_iteration\<close>, interpreted on each loop).
  \<^item> \<open>Process\<close>: \<open>process_utils.c\<close>, its signal handler included, and \<open>worker_data_dump.c\<close>;
    \<open>Timed_Tests\<close>: how a test ends by its time or by a signal (locale \<open>timed_iteration\<close>,
    interpreted on each loop).
  \<^item> \<open>Manager\<close>: \<open>worker_info.c\<close>, \<open>worker_list.c\<close>, \<open>worker_manager.c\<close>; the transition
    system \<open>manager_step\<close> of its operations.
  \<^item> \<open>Daemon\<close>: \<open>daemon_common.c\<close>, \<open>senderd_worker.c\<close>, \<open>receiverd_worker.c\<close> (locale
    \<open>daemon_role\<close>, interpreted on both daemons); the transition system \<open>daemon_step\<close>;
    \<open>Daemon_Test\<close>: one test of a daemon from its workers to the notification.
  \<^item> \<open>Client\<close>: \<open>src/applications/maestro\<close>, the commands of the interactive client, their
    connection and the forward daemon that collects the answers; \<open>Client_Loop\<close>: the
    dispatch of commands by name, the interactive and the script loop.
  \<^item> \<open>Report\<close>: the CSV, histogram, rate and terminal writers of \<open>src/common/statistics\<close>
    (locale \<open>gz_files\<close> for the compressed files).
  \<^item> \<open>Inspector\<close>: \<open>brokerd_worker.c\<close>, \<open>bmic_utils.c\<close> and \<open>bmic_writer.c\<close>, the daemon that
    samples the Java virtual machine of the broker (locale \<open>broker_report\<close>).
  \<^item> \<open>Wrapper\<close>: what the adapters of \<open>src/api\<close> share, with \<open>msgctxt.c\<close>; \<open>Mqtt\<close> (locales
    \<open>mqtt_link\<close>, and \<open>mqtt_ends\<close>, which gives \<open>note_link\<close> for the functions of the wrapper),
    \<open>Stomp\<close> (locale \<open>stomp_link\<close>), \<open>Proton_Handlers\<close> and \<open>Proton\<close>
    (locales \<open>proton_link\<close>, \<open>proton_wire\<close>): the adapters to the Paho, litestomp and proton
    client libraries.
  \<^item> \<open>Options\<close>: \<open>src/common/contrib/options.c\<close>, \<open>getopt_long\<close> as the programs call it and
    their switches over its results; \<open>Memory\<close>: the blocks the options, the queues and the
    connections own, and the functions that free them (locale \<open>gru_memory\<close>).
  \<^item> \<open>Programs\<close>: the main functions of the sender, the receiver, the three daemons and the
    client, with \<open>perf_worker.c\<close> and \<open>receiver_worker.c\<close>.
  \<^item> \<open>Amqp_Test\<close>: the loops of a sender and of a receiver on the AMQP wrapper, from the
    opening of the connection to its end (locales \<open>proton_peer\<close> and \<open>proton_report\<close>, which
    extend \<open>proton_wire\<close>; each loop is an instance of \<open>counted_iteration\<close>).

  A function of the source keeps its name. Its out-parameters and the global
  variables it changes are results; memory from \<open>gru_alloc\<close> can fail as an argument
  says; the state of everything outside the process (sockets, files, the kernel, the
  clock) is a world of an arbitrary type that the parameters act on.

  \<^bold>\<open>What is shown.\<close> Notes survive the wire, for every implementation of msgpack that
  keeps its contract, and wherever the reading of a note is defined the note has the
  types its tag says (for some bytes it is not: a number in the place of a string can be
  written past its block); a request that reaches a sheet runs the right handler once and
  its response is what is sent, and a player answers a whole sequence of requests that way
  until it is told to stop; a start request is granted exactly when the daemon is
  idle, a set request sets its option to the number that was sent, a statistics
  request reports the sums over the children; callbacks are added, replaced and run
  once; payloads have the size asked for, or stay within five percent of it when that is 20 bytes or more;
  each of any number of queues is first-in first-out, whatever is done with the others in between,
  and a drain of a queue writes every snapshot once; a test of
  \<open>n\<close> messages ends after \<open>n\<close> messages, a timed test at its time, and a signal that the
  installed handler takes ends any of them, with its connection closed; a test of a daemon is
  notified once, as a success or as a failure; a watchdog pass keeps exactly the running
  children and counts the abnormal ends, up to the child whose evaluation fails, if there is
  one; no sequence of operations leaves the mutex of
  the worker list held or makes a request deadlock. A command typed by the user
  publishes one request, the option it sets changes at the daemon, and the answers the
  forward daemon collects are printed once and in order; a report file is its header
  and one row for each record. Over MQTT messages arrive in order and with their bytes,
  over AMQP a receiver in the at-most-once mode settles in time, and the creation time of a
  message reaches the receiver over AMQP and STOMP. A test of \<open>n\<close> messages over AMQP puts exactly \<open>n\<close>
  messages on the wire, and a receiver of them records \<open>n\<close> latencies, each from the clock
  reading at the send of its message to the one at its receipt. Each option on the command
  line of the sender sets the field it is documented for and no other, and the sender program called with a count sends that many messages
  over AMQP and says so; whatever options are replaced, their end leaves no block behind.
  The tests the repository has for the notes pass. Where the code does not do what it means to, a
  theorem says what it does instead: null payloads and null function
  pointers that are used, errors that are swallowed or never sent, a loop that never
  ends, a mutex that is not released.

  \<^bold>\<open>Undefined behaviour, fuel.\<close> \<^term>\<open>None\<close> of an \<open>undef\<close> result, or the fault \<^term>\<open>Undefined\<close>,
  is a run that C leaves undefined. A message longer than the block it was cut to fit is
  an input of which only the first bytes are there (\<open>Cut\<close> of \<open>msg_input\<close>): reading it is undefined
  only from the first object that is not within them. Loops that wait for other processes or threads
  take fuel: the receive loop of the player (fuel above the number of messages,
  \<open>player_serves\<close>), the test loops (fuel above the number of
  messages is enough, \<open>sender_runs_to_count\<close>, or above the number of readings of the clock
  until one is past the end of a timed test, \<open>timed_test_ends\<close>), the drain of a queue (fuel above the
  number of snapshots in it, \<open>update_drains\<close>), the watchdog (two rounds once the
  children have ended, \<open>watchdog_loop_ends\<close>), the collection and the forwarding of answers
  (fuel above the number of messages, \<open>answers_reach_user\<close>), the inspection of a broker
  (fuel above the number of waits before a stop, \<open>inspection_ends\<close>) and the main loop of
  a daemon. Running out
  of it is the fault \<^term>\<open>Out_of_fuel\<close>, never a result. Threads interleave at the
  granularity of whole operations; the requests served while a daemon idles are an
  argument of its main loop.

  \<^bold>\<open>Assumptions.\<close> An LP64, little-endian target; \<open>strdup\<close> and the other copies of strings
  succeed; doubles are their bits and their arithmetic is a parameter; text for the log
  is left out.

  \<^bold>\<open>Not modelled\<close>: the client libraries themselves, zlib, HdrHistogram, bmic, gru and
  msgpack, which are parameters with their contracts in the locales; the text for logs
  (of the logs of the programs only the summaries of a test are kept), so also
  \<open>proton_check_status\<close>, which nothing calls and which only logs; the prototypes of the headers; memory is
  freed only in \<open>Memory\<close>, and where a use after it is freed matters to a theorem.
\<close>

section \<open>Requests over the wire\<close>

text \<open>
  Property C2, senderd_start_request. When the bytes of a request to start the sender
  arrive at the sheet of the sender daemon, the daemon grants the request exactly
  when no test is running or requested: it then sets its start flag and the bytes it
  answers say OK, otherwise nothing changes and they say internal error.
\<close>

theorem senderd_start_request:
  assumes "msgpack mp" and "\<And>k. al k = None" and "senderd_new_sheet env al nl st0 = Some (Some sh, st1)"
    and "content_bytes req = Some (message_bytes mp (Plain_Request (command_code MAESTRO_NOTE_START_SENDER)))"
    and "\<And>c. length (message_bytes mp (Plain_Response c (pi_id pinfo) (pi_name pinfo))) < 2 ^ 64"
    and "busy = (d_started d \<or> worker_list_is_running (d_globals d))"
  shows "\<exists>out. maestro_sheet_play mp al sh pinfo req resp st d = Inr (out, st, if busy then d else d\<lparr>d_started := True\<rparr>) \<and>
    content_bytes out = Some (message_bytes mp (Plain_Response
      (command_code (if busy then MAESTRO_NOTE_INTERNAL_ERROR else MAESTRO_NOTE_OK)) (pi_id pinfo) (pi_name pinfo)))"
  by (rule sender.answers_start [OF assms(1,4) _ assms(2,5,6)])
    (use assms(3) in \<open>simp add: senderd_new_sheet_def\<close>)

lemma sample_receiver_sheet:
  "\<exists>sh st1. receiverd_new_sheet sample_denv (\<lambda>k. None) None St_New = Some (Some sh, st1)"
  by (simp add: receiverd_new_sheet_def daemon_new_sheet_def maestro_sheet_new_def add_instruments_all)

theorem senderd_start_request_witness:
  "\<exists>sh out. maestro_sheet_play msgpack_format (\<lambda>k. None) sh \<lparr>pi_id = ''7'', pi_name = ''p''\<rparr>
      (sample_content (message_bytes msgpack_format (Plain_Request 2))) zero_content St_New (sample_daemon\<lparr>d_started := False\<rparr>)
      = Inr (out, St_New, sample_daemon) \<and>
    content_bytes out = Some (message_bytes msgpack_format (Plain_Response 11 ''7'' ''p''))"
proof -
  obtain sh where sh: "senderd_new_sheet sample_denv (\<lambda>k. None) None St_New = Some (Some sh, St_New)"
    using sample_sender_sheet by blast
  have b: "content_bytes (sample_content (message_bytes msgpack_format (Plain_Request (command_code MAESTRO_NOTE_START_SENDER))))
      = Some (message_bytes msgpack_format (Plain_Request (command_code MAESTRO_NOTE_START_SENDER)))"
    by (rule sample_content_bytes) (simp add: format_defs)
  have l: "length (message_bytes msgpack_format (Plain_Response c ''7'' ''p'')) < 2 ^ 64" for c
    by (simp add: format_defs)
  show ?thesis
    using senderd_start_request [where al = "\<lambda>k. None" and d = "sample_daemon\<lparr>d_started := False\<rparr>" and
        pinfo = "\<lparr>pi_id = ''7'', pi_name = ''p''\<rparr>" and resp = zero_content and st = St_New, OF mpf.msgpack_axioms _ sh b _ refl] l
    by (auto simp: sample_daemon_def worker_list_is_running_def)
qed

text \<open>
  Also proved, receiverd_set_request. When the bytes of a set request with an option the
  daemon knows arrive at the sheet of the receiver daemon, the option is applied to
  the worker options with the text that was sent, and the bytes it answers say OK.
\<close>

theorem receiverd_set_request:
  assumes "msgpack mp" and "\<And>k. al k = None" and "receiverd_new_sheet env al nl st0 = Some (Some sh, st1)"
    and "content_bytes req = Some (message_bytes mp (Set_Request (opt_code o') v))" and "no_nul v" and "length v < 2 ^ 31"
    and "\<And>c. length (message_bytes mp (Plain_Response c (pi_id pinfo) (pi_name pinfo))) < 2 ^ 64"
  shows "\<exists>f out. set_worker_option env (opt_code o') = Some f \<and>
    maestro_sheet_play mp al sh pinfo req resp st d = Inr (out, st, d\<lparr>d_options := f v (d_options d)\<rparr>) \<and>
    content_bytes out = Some (message_bytes mp (Plain_Response (command_code MAESTRO_NOTE_OK) (pi_id pinfo) (pi_name pinfo)))"
proof -
  obtain f where f: "set_worker_option env (opt_code o') = Some f" by (cases o') (simp_all add: set_worker_option_def)
  from assms(3) have s: "daemon_new_sheet al nl MAESTRO_RECEIVER_DAEMON_SHEETS (receiverd_handlers env) st0 = Some (Some sh, st1)"
    by (simp add: receiverd_new_sheet_def)
  from receiver.answers_set [where al = al, OF assms(1,4) s assms(2,7) f assms(5,6)] f show ?thesis by blast
qed

theorem receiverd_set_request_witness:
  "\<exists>sh f out. set_worker_option sample_denv (opt_code MAESTRO_NOTE_OPT_SET_RATE) = Some f \<and>
    maestro_sheet_play msgpack_format (\<lambda>k. None) sh \<lparr>pi_id = ''7'', pi_name = ''p''\<rparr>
      (sample_content (message_bytes msgpack_format (Set_Request 6 ''250''))) zero_content St_New sample_daemon
      = Inr (out, St_New, sample_daemon\<lparr>d_options := f ''250'' (d_options sample_daemon)\<rparr>) \<and>
    content_bytes out = Some (message_bytes msgpack_format (Plain_Response 11 ''7'' ''p''))"
proof -
  obtain sh st1 where sh: "receiverd_new_sheet sample_denv (\<lambda>k. None) None St_New = Some (Some sh, st1)"
    using sample_receiver_sheet by blast
  have b: "content_bytes (sample_content (message_bytes msgpack_format (Set_Request (opt_code MAESTRO_NOTE_OPT_SET_RATE) ''250'')))
      = Some (message_bytes msgpack_format (Set_Request (opt_code MAESTRO_NOTE_OPT_SET_RATE) ''250''))"
    by (rule sample_content_bytes) (simp add: format_defs)
  have l: "length (message_bytes msgpack_format (Plain_Response c ''7'' ''p'')) < 2 ^ 64" for c
    by (simp add: format_defs)
  have n: "no_nul ''250''" by code_simp
  show ?thesis
    using receiverd_set_request [where al = "\<lambda>k. None" and d = sample_daemon and o' = MAESTRO_NOTE_OPT_SET_RATE and v = "''250''" and
        pinfo = "\<lparr>pi_id = ''7'', pi_name = ''p''\<rparr>" and resp = zero_content and st = St_New, OF mpf.msgpack_axioms _ sh b n] l
    by auto
qed

section \<open>From the command line to the daemons\<close>

text \<open>What the options of the \<open>set\<close> command do, by the names a user gives.\<close>

definition option_effect :: "'w denv \<Rightarrow> string \<Rightarrow> (string \<Rightarrow> worker_options \<Rightarrow> worker_options) option" where
  "option_effect env = map_of
    [(''broker'', \<lambda>v o'. o'\<lparr>wo_uri := de_uri_parse env v\<rparr>), (''duration'', set_duration env),
     (''log-level'', \<lambda>v o'. o'\<lparr>wo_log_level := de_log_level env v\<rparr>),
     (''parallel-count'', \<lambda>v o'. o'\<lparr>wo_parallel_count := ucast (atoi v)\<rparr>), (''message-size'', set_message_size),
     (''throttle'', \<lambda>v o'. o'\<lparr>wo_throttle := atoi v\<rparr>), (''rate'', \<lambda>v o'. o'\<lparr>wo_rate := atoi v\<rparr>),
     (''fcl'', \<lambda>v o'. o'\<lparr>wo_condition_type := MPT_COND_LATENCY, wo_condition := scast (atoi v)\<rparr>)]"

lemma option_effect_applied:
  "option_effect env opt = Some f \<Longrightarrow> \<exists>o'. opt_by_name opt = Some o' \<and> set_worker_option env (opt_code o') = Some f"
  by (auto simp: option_effect_def opt_by_name_def set_worker_option_def split: if_splits)

text \<open>
  Property C5, set_command_applied. When a user gives \<open>set\<close> with the name of an option and a
  value, the client publishes on a topic the sender daemon listens to, and when the
  bytes it publishes reach the sheet of that daemon, the worker options change as
  the option of that name says, with that value, and the answer says OK.
\<close>

theorem set_command_applied:
  assumes "msgpack mp" and "\<And>k. al k = None" and "ce_mp env = mp" and "ce_al env = al"
    and "maestro_cmd_connect env cc (ce_uri env) st w = Some (0, cc1, st1, w1)"
    and "option_effect denv opt = Some f" and "no_nul v" and "length v < 2 ^ 31"
    and "senderd_new_sheet denv al nl st0 = Some (Some sh, st2)"
    and "\<And>c. length (message_bytes mp (Set_Request c v)) < 2 ^ 64"
    and "\<And>c. length (message_bytes mp (Plain_Response c (pi_id pinfo) (pi_name pinfo))) < 2 ^ 64"
  shows "\<exists>ctxt req out. cc_msg_ctxt cc1 = Some ctxt \<and>
    maestro_loop_cmd env cc ''set'' (Some [''set'', opt, v]) st w
      = of_undef (publish_and_close env ''Failed to send command'' ''/mpt/daemon'' cc1 ctxt req st1 w1) \<and>
    ''/mpt/daemon'' \<in> set (mt_topics (location sh)) \<and>
    maestro_sheet_play mp al sh pinfo req resp st' d = Inr (out, st', d\<lparr>d_options := f v (d_options d)\<rparr>) \<and>
    content_bytes out = Some (message_bytes mp (Plain_Response (command_code MAESTRO_NOTE_OK) (pi_id pinfo) (pi_name pinfo)))"
proof -
  obtain o' where o: "opt_by_name opt = Some o'" and f: "set_worker_option denv (opt_code o') = Some f"
    using option_effect_applied [OF assms(6)] by blast
  let ?req = "snd (msg_content_data_copy al zero_content (message_bytes mp (Set_Request (opt_code o') v)))"
  obtain ctxt where ctxt: "cc_msg_ctxt cc1 = Some ctxt" using connect_open [OF assms(5)] by blast
  have s: "daemon_new_sheet al nl MAESTRO_SENDER_DAEMON_SHEETS (senderd_handlers denv) st0 = Some (Some sh, st2)"
    using assms(9) by (simp add: senderd_new_sheet_def)
  have b: "content_bytes ?req = Some (message_bytes mp (Set_Request (opt_code o') v))"
    using assms(2,10) by (simp add: copy_bytes)
  have t: "''/mpt/daemon'' \<in> set (mt_topics (location sh))"
    using new_sheet_topics [OF s] by (simp add: MAESTRO_SENDER_DAEMON_SHEETS_def MAESTRO_ALL_DAEMONS_def)
  have "maestro_loop_cmd env cc ''set'' (Some [''set'', opt, v]) st w
      = of_undef (publish_and_close env ''Failed to send command'' ''/mpt/daemon'' cc1 ctxt ?req st1 w1)"
    using set_command_publishes [OF assms(5) ctxt _ o] assms(2,3,4) by (simp add: set_command_dispatch MAESTRO_ALL_DAEMONS_def)
  moreover obtain out where "maestro_sheet_play mp al sh pinfo ?req resp st' d = Inr (out, st', d\<lparr>d_options := f v (d_options d)\<rparr>)"
    "content_bytes out = Some (message_bytes mp (Plain_Response (command_code MAESTRO_NOTE_OK) (pi_id pinfo) (pi_name pinfo)))"
    using sender.answers_set [where al = al, OF assms(1) b s assms(2,11) f assms(7,8)] by blast
  ultimately show ?thesis using ctxt t by blast
qed

theorem set_command_applied_witness:
  "\<exists>sh ctxt req out. cc_msg_ctxt (open_client\<lparr>cc_msg_ctxt := Some \<lparr>msg_opts = cmd_opts ''7'' zero_uri\<rparr>\<rparr>) = Some ctxt \<and>
    maestro_loop_cmd open_cenv open_client ''set'' (Some [''set'', ''rate'', ''250'']) St_New []
      = of_undef (publish_and_close open_cenv ''Failed to send command'' ''/mpt/daemon''
          (open_client\<lparr>cc_msg_ctxt := Some \<lparr>msg_opts = cmd_opts ''7'' zero_uri\<rparr>\<rparr>) ctxt req St_New ([] @ [''init'', ''start''])) \<and>
    ''/mpt/daemon'' \<in> set (mt_topics (location sh)) \<and>
    maestro_sheet_play msgpack_format (\<lambda>k. None) sh \<lparr>pi_id = ''7'', pi_name = ''p''\<rparr> req zero_content St_New sample_daemon
      = Inr (out, St_New, sample_daemon\<lparr>d_options := (d_options sample_daemon)\<lparr>wo_rate := atoi ''250''\<rparr>\<rparr>) \<and>
    content_bytes out = Some (message_bytes msgpack_format (Plain_Response (command_code MAESTRO_NOTE_OK) ''7'' ''p''))"
proof -
  obtain sh where sh: "senderd_new_sheet sample_denv (\<lambda>k. None) None St_New = Some (Some sh, St_New)"
    using sample_sender_sheet by blast
  have n: "no_nul ''250''" by code_simp
  have o: "option_effect sample_denv ''rate'' = Some (\<lambda>v o'. o'\<lparr>wo_rate := atoi v\<rparr>)" by (simp add: option_effect_def)
  have l: "length (message_bytes msgpack_format (Set_Request c ''250'')) < 2 ^ 64"
    "length (message_bytes msgpack_format (Plain_Response c' ''7'' ''p'')) < 2 ^ 64" for c c'
    by (simp_all add: format_defs)
  show ?thesis
    using set_command_applied [where al = "\<lambda>k. None" and d = sample_daemon and pinfo = "\<lparr>pi_id = ''7'', pi_name = ''p''\<rparr>" and
        resp = zero_content and st' = St_New and w = "[]" and st = St_New,
        OF mpf.msgpack_axioms _ _ _ open_connect o n _ sh] l
    by (simp add: open_cenv_def) blast
qed

text \<open>
  Property C25, ping_measured. The time a user sees for a ping is the time from the moment the
  client made the request to the moment the daemon answered it: when the bytes the
  client publishes reach the sheet of the receiver daemon, the answer carries the
  elapsed milliseconds between the two, and that answer is printed as \<open>Time\<close>.
\<close>

theorem ping_measured:
  assumes "msgpack mp" and "\<And>k. al k = None" and "ce_mp env = mp" and "ce_al env = al"
    and "maestro_cmd_connect env cc (ce_uri env) st w = Some (0, cc1, st1, w1)" and "gru_status_success st1"
    and "ce_now env w1 = (ts, w2)" and "\<bar>tv_sec ts\<bar> < 2 ^ 63" and "\<bar>tv_usec ts\<bar> < 2 ^ 63"
    and "receiverd_new_sheet denv al nl st0 = Some (Some sh, st2)"
    and "\<And>a b. length (message_bytes mp (Ping_Request a b)) < 2 ^ 64"
    and "\<And>e. length (message_bytes mp (Ping_Response (pi_id pinfo) (pi_name pinfo) e)) < 2 ^ 64"
    and "e_now (de_worker denv) (d_world d) = (now, v)" and "e_elapsed_milli (de_worker denv) ts now = int ms" and "ms < 2 ^ 64"
  shows "\<exists>ctxt req out. cc_msg_ctxt cc1 = Some ctxt \<and>
    maestro_loop_cmd env cc ''ping'' strings st w
      = of_undef (publish_and_close env ''Failed to send command'' MAESTRO_ALL_DAEMONS cc1 ctxt req st1 w2) \<and>
    maestro_sheet_play mp al sh pinfo req resp st' d = Inr (out, st', d\<lparr>d_world := v\<rparr>) \<and>
    content_bytes out = Some (message_bytes mp (Ping_Response (pi_id pinfo) (pi_name pinfo) (word_of_nat ms))) \<and>
    message_line env (Ping_Response (pi_id pinfo) (pi_name pinfo) (word_of_nat ms))
      = response_head (pi_name pinfo) (pi_id pinfo) @ ''Time: '' @ nat_dec ms @ '' ms'' @ [CHR 0x0A]"
proof -
  let ?m = "Ping_Request (word_of_int (tv_sec ts)) (word_of_int (tv_usec ts))"
  let ?req = "snd (msg_content_data_copy al zero_content (message_bytes mp ?m))"
  obtain ctxt where ctxt: "cc_msg_ctxt cc1 = Some ctxt" using connect_open [OF assms(5)] by blast
  have s: "daemon_new_sheet al nl MAESTRO_RECEIVER_DAEMON_SHEETS (receiverd_handlers denv) st0 = Some (Some sh, st2)"
    using assms(10) by (simp add: receiverd_new_sheet_def)
  have b: "content_bytes ?req = Some (message_bytes mp ?m)" using assms(2,11) by (simp add: copy_bytes)
  have "maestro_loop_cmd env cc ''ping'' strings st w
      = of_undef (publish_and_close env ''Failed to send command'' MAESTRO_ALL_DAEMONS cc1 ctxt ?req st1 w2)"
    using ping_command_publishes [OF assms(5) ctxt _ assms(7,6)] assms(2,3,4) by (simp add: ping_command_dispatch)
  moreover have "\<lparr>tv_sec = sint (word_of_int (tv_sec ts) :: u64), tv_usec = sint (word_of_int (tv_usec ts) :: u64)\<rparr> = ts"
    using assms(8,9) by (simp add: signed_of_int signed_take_bit_int_eq_self abs_less_iff)
  then have "\<exists>out. maestro_sheet_play mp al sh pinfo ?req resp st' d = Inr (out, st', d\<lparr>d_world := v\<rparr>) \<and>
      content_bytes out = Some (message_bytes mp (Ping_Response (pi_id pinfo) (pi_name pinfo) (word_of_nat ms)))"
    by (intro receiver.answers_ping [where al = al, OF assms(1) b s assms(2,12,13)]) (simp add: assms(14))
  moreover have "unat (word_of_nat ms :: u64) = ms" using assms(15) by (rule unat_word_of_nat64)
  ultimately show ?thesis using ctxt by auto
qed

lemma sample_ping_length:
  "length (message_bytes msgpack_format (Ping_Request a b)) < 2 ^ 64"
  "length (message_bytes msgpack_format (Ping_Response ''7'' ''p'' e)) < 2 ^ 64"
  by (simp_all add: format_defs)

theorem ping_measured_witness:
  "\<exists>sh ctxt req out. cc_msg_ctxt (open_client\<lparr>cc_msg_ctxt := Some \<lparr>msg_opts = cmd_opts ''7'' zero_uri\<rparr>\<rparr>) = Some ctxt \<and>
    maestro_loop_cmd open_cenv open_client ''ping'' None St_New []
      = of_undef (publish_and_close open_cenv ''Failed to send command'' MAESTRO_ALL_DAEMONS
          (open_client\<lparr>cc_msg_ctxt := Some \<lparr>msg_opts = cmd_opts ''7'' zero_uri\<rparr>\<rparr>) ctxt req St_New ([] @ [''init'', ''start''])) \<and>
    maestro_sheet_play msgpack_format (\<lambda>k. None) sh \<lparr>pi_id = ''7'', pi_name = ''p''\<rparr> req zero_content St_New sample_daemon
      = Inr (out, St_New, sample_daemon\<lparr>d_world := ()\<rparr>) \<and>
    content_bytes out = Some (message_bytes msgpack_format (Ping_Response ''7'' ''p'' (word_of_nat 0))) \<and>
    message_line open_cenv (Ping_Response ''7'' ''p'' (word_of_nat 0))
      = response_head ''p'' ''7'' @ ''Time: '' @ nat_dec 0 @ '' ms'' @ [CHR 0x0A]"
proof -
  obtain sh st1 where sh: "receiverd_new_sheet sample_denv (\<lambda>k. None) None St_New = Some (Some sh, st1)"
    using sample_receiver_sheet by blast
  have t: "ce_now open_cenv w = (\<lparr>tv_sec = 3, tv_usec = 5\<rparr>, w)" for w by (simp add: open_cenv_def)
  show ?thesis
    using ping_measured [where al = "\<lambda>k. None" and d = sample_daemon and pinfo = "\<lparr>pi_id = ''7'', pi_name = ''p''\<rparr>" and
        resp = zero_content and st' = St_New and w = "[]" and st = St_New and ms = 0 and now = zero_ts and v = "()" and strings = None,
        OF mpf.msgpack_axioms _ _ _ open_connect _ t _ _ sh] sample_ping_length
    by (simp add: open_cenv_def sample_denv_def sample_wenv_def) blast
qed

end
